(* ===== verification/Prelude.thy ===== *)
theory Prelude
  imports
    Complex_Main
    "HOL-Library.Word"
    "HOL-Library.Char_ord"
    "HOL-Library.List_Lexorder"
    "HOL-Library.Sublist"
    "HOL-Library.AList"
begin

text \<open>
  Shared vocabulary of the development: byte strings with the operations of Rust's
  \<^verbatim>\<open>str\<close> that the sources call, lists kept as association lists (for
  \<^verbatim>\<open>BTreeMap\<close> and for containers whose iteration order matters), maps (for
  \<^verbatim>\<open>HashMap\<close>), and the fact collections the component theories extend.

  A Rust \<^verbatim>\<open>String\<close> is UTF-8; the type \<open>string\<close> (a list of 8-bit characters) is
  its byte sequence. All separators the sources split on are ASCII, and UTF-8 never uses an
  ASCII byte inside a longer code point, so splitting bytes and splitting characters agree.
  Rust compares strings bytewise, which is the lexicographic order of
  \<^verbatim>\<open>HOL-Library.List_Lexorder\<close> on \<^verbatim>\<open>HOL-Library.Char_ord\<close>.
\<close>

section \<open>Fact collections\<close>

named_theorems map_upd_simps \<open>how the operations of the model act on one entry of a map\<close>
named_theorems frame_simps \<open>fields an operation leaves alone\<close>
named_theorems inv_intros \<open>operations that keep the invariant of their component\<close>

section \<open>Strings\<close>

text \<open>\<^verbatim>\<open>str::split(c)\<close>: always at least one part, one more than there are separators.\<close>

fun split_on :: "char \<Rightarrow> string \<Rightarrow> string list" where
  "split_on c [] = [[]]"
| "split_on c (x # xs) =
     (if x = c then [] # split_on c xs
      else (case split_on c xs of
              [] \<Rightarrow> [[x]]
            | p # ps \<Rightarrow> (x # p) # ps))"

text \<open>\<^verbatim>\<open>[&str]::join(sep)\<close>.\<close>

fun join_with :: "string \<Rightarrow> string list \<Rightarrow> string" where
  "join_with sep [] = []"
| "join_with sep [p] = p"
| "join_with sep (p # q # ps) = p @ sep @ join_with sep (q # ps)"

lemma split_on_not_Nil [simp]: "split_on c s \<noteq> []"
  by (induction s) (auto split: list.splits)

lemma join_split_on [simp]: "join_with [c] (split_on c s) = s"
proof (induction s)
  case (Cons x xs)
  then obtain p ps where sp: "split_on c xs = p # ps"
    by (cases "split_on c xs") auto
  with Cons show ?case by (cases ps) auto
qed simp

lemma split_on_no_sep: "c \<notin> set s \<Longrightarrow> split_on c s = [s]"
  by (induction s) auto

lemma split_on_append_sep:
  "c \<notin> set p \<Longrightarrow> split_on c (p @ c # s) = p # split_on c s"
  by (induction p) auto

lemma split_join_on:
  assumes "ps \<noteq> []" and "\<forall>p \<in> set ps. c \<notin> set p"
  shows "split_on c (join_with [c] ps) = ps"
  using assms
proof (induction ps rule: list_nonempty_induct)
  case (single p)
  then show ?case by (simp add: split_on_no_sep)
next
  case (cons p ps)
  then obtain q qs where "ps = q # qs" by (cases ps) auto
  with cons show ?case by (simp add: split_on_append_sep)
qed

lemma split_on_parts_no_sep: "p \<in> set (split_on c s) \<Longrightarrow> c \<notin> set p"
proof (induction s arbitrary: p)
  case (Cons x xs)
  obtain q qs where sp: "split_on c xs = q # qs"
    by (cases "split_on c xs") auto
  show ?case
  proof (cases "x = c")
    case True
    with Cons show ?thesis by auto
  next
    case False
    from Cons.IH sp have "c \<notin> set q" "\<And>r. r \<in> set qs \<Longrightarrow> c \<notin> set r" by auto
    with False Cons.prems sp show ?thesis by auto
  qed
qed simp

lemma split_on_inject: "split_on c s = split_on c t \<longleftrightarrow> s = t"
  by (metis join_split_on)

text \<open>\<^verbatim>\<open>starts_with\<close>, \<^verbatim>\<open>ends_with\<close>, \<^verbatim>\<open>strip_prefix\<close>, \<^verbatim>\<open>contains\<close> and
  \<^verbatim>\<open>trim_start_matches(c)\<close>.\<close>

definition starts_with :: "string \<Rightarrow> string \<Rightarrow> bool" where
  "starts_with s p \<longleftrightarrow> take (length p) s = p"

definition ends_with :: "string \<Rightarrow> string \<Rightarrow> bool" where
  "ends_with s p \<longleftrightarrow> length p \<le> length s \<and> drop (length s - length p) s = p"

definition strip_prefix :: "string \<Rightarrow> string \<Rightarrow> string option" where
  "strip_prefix p s = (if starts_with s p then Some (drop (length p) s) else None)"

fun contains_str :: "string \<Rightarrow> string \<Rightarrow> bool" where
  "contains_str [] p \<longleftrightarrow> p = []"
| "contains_str (x # xs) p \<longleftrightarrow> starts_with (x # xs) p \<or> contains_str xs p"

definition trim_start_char :: "char \<Rightarrow> string \<Rightarrow> string" where
  "trim_start_char c s = dropWhile (\<lambda>x. x = c) s"

text \<open>\<^verbatim>\<open>str::trim\<close> and \<^verbatim>\<open>to_lowercase\<close> on the characters of ASCII.\<close>

definition is_space :: "char \<Rightarrow> bool" where
  "is_space c \<longleftrightarrow> of_char c \<in> {9, 10, 11, 12, 13, 32 :: nat}"

definition trim :: "string \<Rightarrow> string" where
  "trim s = rev (dropWhile is_space (rev (dropWhile is_space s)))"

definition lower_char :: "char \<Rightarrow> char" where
  "lower_char c = (let n = of_char c :: nat in if 65 \<le> n \<and> n \<le> 90 then char_of (n + 32) else c)"

definition ascii_lower :: "string \<Rightarrow> string" where
  "ascii_lower s = map lower_char s"

text \<open>A number in decimal digits, as \<^verbatim>\<open>to_string\<close> writes it.\<close>

fun dec_digits :: "nat \<Rightarrow> string" where
  "dec_digits n = (if n < 10 then [char_of (48 + n)] else dec_digits (n div 10) @ [char_of (48 + n mod 10)])"

lemma starts_with_iff: "starts_with s p \<longleftrightarrow> (\<exists>r. s = p @ r)"
  unfolding starts_with_def by (metis append_eq_conv_conj append_take_drop_id)

lemma starts_with_append [simp]: "starts_with (p @ r) p"
  by (auto simp: starts_with_iff)

lemma strip_prefix_append [simp]: "strip_prefix p (p @ r) = Some r"
  by (simp add: strip_prefix_def)

lemma strip_prefix_Some: "strip_prefix p s = Some r \<longleftrightarrow> s = p @ r"
  by (auto simp: strip_prefix_def starts_with_iff)

lemma strip_prefix_None: "strip_prefix p s = None \<longleftrightarrow> \<not> starts_with s p"
  by (simp add: strip_prefix_def)

lemma ends_with_iff: "ends_with s p \<longleftrightarrow> (\<exists>r. s = r @ p)"
proof
  assume h: "ends_with s p"
  then have "s = take (length s - length p) s @ p"
    unfolding ends_with_def by (metis append_take_drop_id)
  then show "\<exists>r. s = r @ p" ..
qed (auto simp: ends_with_def)

lemma contains_str_iff: "contains_str s p \<longleftrightarrow> (\<exists>l r. s = l @ p @ r)"
proof (induction s)
  case Nil
  then show ?case by auto
next
  case (Cons x xs)
  show ?case
  proof
    assume "contains_str (x # xs) p"
    then consider "starts_with (x # xs) p" | "contains_str xs p" by auto
    then show "\<exists>l r. x # xs = l @ p @ r"
    proof cases
      case 1
      then obtain r where "x # xs = [] @ p @ r" by (auto simp: starts_with_iff)
      then show ?thesis by blast
    next
      case 2
      with Cons.IH obtain l r where "xs = l @ p @ r" by auto
      then have "x # xs = (x # l) @ p @ r" by simp
      then show ?thesis by blast
    qed
  next
    assume "\<exists>l r. x # xs = l @ p @ r"
    then obtain l r where eq: "x # xs = l @ p @ r" by auto
    show "contains_str (x # xs) p"
    proof (cases l)
      case Nil
      with eq have "starts_with (x # xs) p" by (auto simp: starts_with_iff)
      then show ?thesis by simp
    next
      case (Cons y l')
      with eq have "xs = l' @ p @ r" by simp
      with Cons.IH show ?thesis by auto
    qed
  qed
qed

lemma contains_str_char: "contains_str s [c] \<longleftrightarrow> c \<in> set s"
  by (auto simp: contains_str_iff in_set_conv_decomp)

section \<open>Association lists in key order\<close>

text \<open>
  \<^verbatim>\<open>BTreeMap\<close> (and \<^verbatim>\<open>serde_json::Map\<close>, which is one) iterates in key order. It is an
  association list with strictly increasing keys.
\<close>

type_synonym 'v omap = "(string \<times> 'v) list"

fun om_insert :: "string \<Rightarrow> 'v \<Rightarrow> 'v omap \<Rightarrow> 'v omap" where
  "om_insert k v [] = [(k, v)]"
| "om_insert k v ((k', v') # m) =
     (if k = k' then (k, v) # m
      else if k < k' then (k, v) # (k', v') # m
      else (k', v') # om_insert k v m)"

definition om_remove :: "string \<Rightarrow> 'v omap \<Rightarrow> 'v omap" where
  "om_remove k m = filter (\<lambda>(k', _). k' \<noteq> k) m"

definition om_ok :: "'v omap \<Rightarrow> bool" where
  "om_ok m \<longleftrightarrow> sorted_wrt (<) (map fst m)"

text \<open>\<^verbatim>\<open>entry(k).or_insert(v)\<close>: keeps an entry that is there.\<close>

definition om_or_insert :: "string \<Rightarrow> 'v \<Rightarrow> 'v omap \<Rightarrow> 'v omap" where
  "om_or_insert k v m = (if map_of m k = None then om_insert k v m else m)"

lemma map_of_om_insert [simp, map_upd_simps]: "map_of (om_insert k v m) = (map_of m)(k \<mapsto> v)"
  by (induction m) auto

lemma map_of_om_remove [simp, map_upd_simps]: "map_of (om_remove k m) = (map_of m)(k := None)"
proof (induction m)
  case Nil
  then show ?case by (simp add: om_remove_def)
next
  case (Cons a m)
  then show ?case by (cases a) (auto simp: om_remove_def)
qed

lemma map_of_om_or_insert [map_upd_simps]:
  "map_of (om_or_insert k v m) = (case map_of m k of None \<Rightarrow> (map_of m)(k \<mapsto> v) | Some _ \<Rightarrow> map_of m)"
  by (auto simp: om_or_insert_def)

lemma fst_om_insert: "set (map fst (om_insert k v m)) = insert k (set (map fst m))"
  by (induction k v m rule: om_insert.induct) auto

lemma om_insert_ok [intro, inv_intros]: "om_ok m \<Longrightarrow> om_ok (om_insert k v m)"
proof (induction m)
  case Nil
  then show ?case by (simp add: om_ok_def)
next
  case (Cons a m)
  obtain k' v' where a: "a = (k', v')" by (cases a)
  from Cons have m: "om_ok m" and hd: "\<forall>x \<in> set (map fst m). k' < x"
    by (auto simp: om_ok_def a)
  show ?case
  proof (cases "k = k' \<or> k < k'")
    case True
    with Cons.prems hd show ?thesis by (auto simp: om_ok_def a)
  next
    case False
    then have "k' < k" by auto
    with Cons.IH [OF m] hd False show ?thesis
      using fst_om_insert [of k v m] by (auto simp: om_ok_def a)
  qed
qed

lemma om_or_insert_ok [intro, inv_intros]: "om_ok m \<Longrightarrow> om_ok (om_or_insert k v m)"
  by (auto simp: om_or_insert_def)

lemma om_remove_ok [intro, inv_intros]: "om_ok m \<Longrightarrow> om_ok (om_remove k m)"
  by (induction m) (auto simp: om_ok_def om_remove_def)

lemma om_ok_Nil [simp]: "om_ok []"
  by (simp add: om_ok_def)

lemma om_ok_distinct: "om_ok m \<Longrightarrow> distinct (map fst m)"
  by (simp add: om_ok_def strict_sorted_iff)

text \<open>A fold of \<open>or_insert\<close> never overwrites: the first writer of a key wins.\<close>

lemma map_of_fold_or_insert:
  "map_of (fold (\<lambda>(k, v). om_or_insert k v) kvs m) = map_of kvs ++ map_of m"
proof (induction kvs arbitrary: m)
  case Nil
  then show ?case by simp
next
  case (Cons a kvs)
  obtain k v where a: "a = (k, v)" by (cases a)
  have "map_of (fold (\<lambda>(k, v). om_or_insert k v) (a # kvs) m)
        = map_of kvs ++ map_of (om_or_insert k v m)"
    by (simp add: a Cons.IH)
  also have "\<dots> = map_of (a # kvs) ++ map_of m"
    by (auto simp: a om_or_insert_def fun_eq_iff map_add_def split: option.splits)
  finally show ?case .
qed

lemma fold_or_insert_ok:
  "om_ok m \<Longrightarrow> om_ok (fold (\<lambda>(k, v). om_or_insert k v) kvs m)"
  by (induction kvs arbitrary: m) auto

section \<open>Maps\<close>

text \<open>\<^verbatim>\<open>HashMap::retain\<close> over values.\<close>

definition map_retain :: "('v \<Rightarrow> bool) \<Rightarrow> ('k \<Rightarrow> 'v option) \<Rightarrow> ('k \<Rightarrow> 'v option)" where
  "map_retain P m = (\<lambda>k. case m k of None \<Rightarrow> None | Some v \<Rightarrow> if P v then Some v else None)"

lemma map_retain_Some [simp]: "map_retain P m k = Some v \<longleftrightarrow> m k = Some v \<and> P v"
  by (auto simp: map_retain_def split: option.splits if_splits)

lemma map_retain_None: "map_retain P m k = None \<longleftrightarrow> (\<forall>v. m k = Some v \<longrightarrow> \<not> P v)"
  by (auto simp: map_retain_def split: option.splits)

text \<open>\<^verbatim>\<open>entry(k).or_insert(v)\<close> on a \<^verbatim>\<open>HashMap\<close>, and \<^verbatim>\<open>unwrap_or(d)\<close>.\<close>

definition map_or_insert :: "'k \<Rightarrow> 'v \<Rightarrow> ('k \<Rightarrow> 'v option) \<Rightarrow> ('k \<Rightarrow> 'v option)" where
  "map_or_insert k v m = (case m k of None \<Rightarrow> m(k \<mapsto> v) | Some _ \<Rightarrow> m)"

definition unwrap_or :: "'a option \<Rightarrow> 'a \<Rightarrow> 'a" where
  "unwrap_or x d = (case x of None \<Rightarrow> d | Some y \<Rightarrow> y)"

lemma unwrap_or_simps [simp]: "unwrap_or None d = d" "unwrap_or (Some x) d = x"
  by (simp_all add: unwrap_or_def)

lemma map_or_insert_apply [map_upd_simps]:
  "map_or_insert k v m k' =
     (if k' = k then Some (unwrap_or (m k) v) else m k')"
  by (auto simp: map_or_insert_def split: option.splits)

lemma map_or_insert_dom: "dom (map_or_insert k v m) = insert k (dom m)"
  by (auto simp: map_or_insert_def split: option.splits)

lemma map_le_or_insert: "m \<subseteq>\<^sub>m map_or_insert k v m"
  by (auto simp: map_or_insert_def map_le_def split: option.splits)

section \<open>Hash maps that are iterated or counted\<close>

text \<open>
  A \<^verbatim>\<open>HashMap\<close> whose entries the code counts or iterates is an association list with
  distinct keys; the list order is the iteration order, about which nothing is promised.
  Lookup is \<open>map_of\<close>.
\<close>

type_synonym 'v hmap = "(string \<times> 'v) list"

definition hm_insert :: "string \<Rightarrow> 'v \<Rightarrow> 'v hmap \<Rightarrow> 'v hmap" where
  "hm_insert k v m = AList.update k v m"

definition hm_remove :: "string \<Rightarrow> 'v hmap \<Rightarrow> 'v hmap" where
  "hm_remove k m = AList.delete k m"

definition hm_or_insert :: "string \<Rightarrow> 'v \<Rightarrow> 'v hmap \<Rightarrow> 'v hmap" where
  "hm_or_insert k v m = (case map_of m k of None \<Rightarrow> hm_insert k v m | Some _ \<Rightarrow> m)"

abbreviation hm_ok :: "'v hmap \<Rightarrow> bool" where
  "hm_ok m \<equiv> distinct (map fst m)"

lemma map_of_hm_insert [simp, map_upd_simps]: "map_of (hm_insert k v m) = (map_of m)(k \<mapsto> v)"
  by (simp add: hm_insert_def update_conv')

lemma map_of_hm_remove [simp, map_upd_simps]: "map_of (hm_remove k m) = (map_of m)(k := None)"
  by (simp add: hm_remove_def delete_conv')

lemma map_of_hm_or_insert [simp, map_upd_simps]:
  "map_of (hm_or_insert k v m) k' = (if k' = k then Some (unwrap_or (map_of m k) v) else map_of m k')"
  by (auto simp: hm_or_insert_def unwrap_or_def split: option.splits)

lemma hm_insert_ok [intro, inv_intros]: "hm_ok m \<Longrightarrow> hm_ok (hm_insert k v m)"
  by (simp add: hm_insert_def distinct_update)

lemma hm_remove_ok [intro, inv_intros]: "hm_ok m \<Longrightarrow> hm_ok (hm_remove k m)"
  by (simp add: hm_remove_def distinct_delete)

lemma hm_or_insert_ok [intro, inv_intros]: "hm_ok m \<Longrightarrow> hm_ok (hm_or_insert k v m)"
  by (auto simp: hm_or_insert_def split: option.splits)

lemma keys_hm_insert: "fst ` set (hm_insert k v m) = insert k (fst ` set m)"
  by (simp add: hm_insert_def dom_update)

lemma map_of_rev_distinct: "distinct (map fst m) \<Longrightarrow> map_of (rev m) = map_of m"
  by (induction m) (auto simp: fun_eq_iff map_add_def image_iff dest: map_of_SomeD split: option.splits)

lemma hm_eval [simp]:
  "hm_insert k v [] = [(k, v)]"
  "hm_insert k v ((k', v') # m) = (if k' = k then (k, v) # m else (k', v') # hm_insert k v m)"
  "hm_remove k [] = []"
  "hm_remove k ((k', v') # m) = (if k' = k then hm_remove k m else (k', v') # hm_remove k m)"
  by (auto simp: hm_insert_def hm_remove_def AList.delete_eq)

section \<open>Options\<close>

text \<open>The \<^verbatim>\<open>?\<close> operator on options is \<open>Option.bind\<close>; \<open>or_else\<close> takes the first that is there.\<close>

definition or_else :: "'a option \<Rightarrow> 'a option \<Rightarrow> 'a option" where
  "or_else x y = (case x of None \<Rightarrow> y | Some z \<Rightarrow> Some z)"

lemma or_else_simps [simp]: "or_else None y = y" "or_else (Some z) y = Some z" "or_else x None = x"
  by (simp_all add: or_else_def split: option.splits)

lemma or_else_eq_None [simp]: "or_else x y = None \<longleftrightarrow> x = None \<and> y = None"
  by (cases x) auto

definition is_some_and :: "'a option \<Rightarrow> ('a \<Rightarrow> bool) \<Rightarrow> bool" where
  "is_some_and x P = (case x of None \<Rightarrow> False | Some y \<Rightarrow> P y)"

lemma is_some_and_iff: "is_some_and x P \<longleftrightarrow> (\<exists>y. x = Some y \<and> P y)"
  by (auto simp: is_some_and_def split: option.splits)

end
