(* ===== verification/F64.thy ===== *)
theory F64
  imports Prelude
begin

text \<open>
  IEEE 754 binary64, the type \<^verbatim>\<open>f64\<close> of the sources, computed on rationals: a finite
  value is the rational it stands for, the two zeros are kept apart, and every arithmetic
  operation is the exact rational operation followed by rounding to nearest, ties to even, with
  gradual underflow and overflow to infinity. All operations are executable.

  Comparisons are those of Rust: every comparison with a NaN is false and the two zeros are
  equal. \<^verbatim>\<open>sin\<close>, \<^verbatim>\<open>cos\<close> and the other libm functions are not defined here: their
  results are platform dependent in the last bits, and the definitions that need them take
  them as arguments.
\<close>

section \<open>Values\<close>

datatype f64 =
    NaN
  | PInf
  | NInf
  | NZero
  | Fin rat

text \<open>\<open>Fin 0\<close> is the positive zero; \<open>NZero\<close> the negative one.\<close>

fun is_finite :: "f64 \<Rightarrow> bool" where
  "is_finite (Fin q) = True"
| "is_finite NZero = True"
| "is_finite _ = False"

fun is_nan :: "f64 \<Rightarrow> bool" where
  "is_nan NaN = True"
| "is_nan _ = False"

text \<open>The rational a finite value stands for (0 for the others, never read there).\<close>

fun rv :: "f64 \<Rightarrow> rat" where
  "rv (Fin q) = q"
| "rv _ = 0"

fun sign_neg :: "f64 \<Rightarrow> bool" where
  "sign_neg (Fin q) = (q < 0)"
| "sign_neg NZero = True"
| "sign_neg NInf = True"
| "sign_neg _ = False"

section \<open>Comparisons\<close>

fun f_le :: "f64 \<Rightarrow> f64 \<Rightarrow> bool" where
  "f_le NaN _ = False"
| "f_le _ NaN = False"
| "f_le NInf _ = True"
| "f_le _ PInf = True"
| "f_le PInf _ = False"
| "f_le _ NInf = False"
| "f_le x y = (rv x \<le> rv y)"

definition f_lt :: "f64 \<Rightarrow> f64 \<Rightarrow> bool" where
  "f_lt x y \<longleftrightarrow> f_le x y \<and> \<not> f_le y x"

definition f_eq :: "f64 \<Rightarrow> f64 \<Rightarrow> bool" where
  "f_eq x y \<longleftrightarrow> f_le x y \<and> f_le y x"

lemma f_le_refl: "f_le x x \<longleftrightarrow> x \<noteq> NaN"
  by (cases x) auto

lemma f_le_trans: "f_le x y \<Longrightarrow> f_le y z \<Longrightarrow> f_le x z"
  by (cases x; cases y; cases z) auto

lemma f_le_total: "x \<noteq> NaN \<Longrightarrow> y \<noteq> NaN \<Longrightarrow> f_le x y \<or> f_le y x"
  by (cases x; cases y) auto

lemma f_le_NaN [simp]: "\<not> f_le x NaN" "\<not> f_le NaN x"
  by (cases x; simp)+

lemma f_lt_NaN [simp]: "\<not> f_lt x NaN" "\<not> f_lt NaN x"
  by (simp_all add: f_lt_def)

lemma f_lt_imp_le: "f_lt x y \<Longrightarrow> f_le x y"
  by (simp add: f_lt_def)

lemma f_not_le: "x \<noteq> NaN \<Longrightarrow> y \<noteq> NaN \<Longrightarrow> \<not> f_le x y \<longleftrightarrow> f_lt y x"
  using f_le_total [of x y] by (auto simp: f_lt_def)

lemma f_not_lt: "x \<noteq> NaN \<Longrightarrow> y \<noteq> NaN \<Longrightarrow> \<not> f_lt x y \<longleftrightarrow> f_le y x"
  using f_le_total [of x y] by (auto simp: f_lt_def)

lemma f_lt_trans: "f_lt x y \<Longrightarrow> f_lt y z \<Longrightarrow> f_lt x z"
  unfolding f_lt_def using f_le_trans by blast

lemma f_le_lt_trans: "f_le x y \<Longrightarrow> f_lt y z \<Longrightarrow> f_lt x z"
  unfolding f_lt_def using f_le_trans by blast

lemma f_lt_le_trans: "f_lt x y \<Longrightarrow> f_le y z \<Longrightarrow> f_lt x z"
  unfolding f_lt_def using f_le_trans by blast

lemma f_le_Fin [simp]: "f_le (Fin p) (Fin q) \<longleftrightarrow> p \<le> q"
  by simp

lemma f_lt_Fin [simp]: "f_lt (Fin p) (Fin q) \<longleftrightarrow> p < q"
  by (auto simp: f_lt_def)

lemma f_lt_irrefl [simp]: "\<not> f_lt x x"
  by (simp add: f_lt_def)

section \<open>Rounding\<close>

text \<open>Position of the leading bit of a natural number, and of a positive rational.\<close>

fun lg :: "nat \<Rightarrow> nat" where
  "lg n = (if n < 2 then 0 else Suc (lg (n div 2)))"

declare lg.simps [simp del]

lemma lg_bounds: "0 < n \<Longrightarrow> 2 ^ lg n \<le> n \<and> n < 2 ^ Suc (lg n)"
proof (induction n rule: lg.induct)
  case (1 n)
  show ?case
  proof (cases "n < 2")
    case True
    with 1 show ?thesis by (simp add: lg.simps [of n])
  next
    case False
    with 1 have "2 ^ lg (n div 2) \<le> n div 2" "n div 2 < 2 ^ Suc (lg (n div 2))" by auto
    then have "2 * 2 ^ lg (n div 2) \<le> n" "n < 2 * 2 ^ Suc (lg (n div 2))" by linarith+
    with False show ?thesis by (simp add: lg.simps [of n])
  qed
qed

definition ilog2 :: "rat \<Rightarrow> int" where
  "ilog2 q = (let (a, b) = quotient_of q;
                  k = int (lg (nat a)) - int (lg (nat b))
              in if 2 powi k \<le> q then k else k - 1)"

lemma powi_diff_nat: "(2::rat) powi (int i - int j) = 2 ^ i / 2 ^ j"
  by (simp add: power_int_diff)

lemma ilog2_bounds:
  assumes "0 < q"
  shows "2 powi ilog2 q \<le> q" and "q < 2 powi (ilog2 q + 1)"
proof -
  obtain a b where ab: "quotient_of q = (a, b)" by (cases "quotient_of q")
  then have b: "0 < b" and q: "q = rat_of_int a / rat_of_int b"
    by (simp_all add: quotient_of_denom_pos quotient_of_div)
  with assms have a: "0 < a" by (simp add: zero_less_divide_iff)
  define i where "i = lg (nat a)"
  define j where "j = lg (nat b)"
  have na: "2 ^ i \<le> nat a" "nat a < 2 ^ Suc i" using lg_bounds [of "nat a"] a by (auto simp: i_def)
  have nb: "2 ^ j \<le> nat b" "nat b < 2 ^ Suc j" using lg_bounds [of "nat b"] b by (auto simp: j_def)
  have ra: "2 ^ i \<le> rat_of_int a" "rat_of_int a < 2 ^ Suc i"
    using na a by (metis of_int_of_nat_eq of_nat_le_iff of_nat_numeral of_nat_power int_nat_eq less_le
        of_nat_less_iff)+
  have rb: "2 ^ j \<le> rat_of_int b" "rat_of_int b < 2 ^ Suc j"
    using nb b by (metis of_int_of_nat_eq of_nat_le_iff of_nat_numeral of_nat_power int_nat_eq less_le
        of_nat_less_iff)+
  define k where "k = int i - int j"
  have up: "q < 2 powi (k + 1)"
  proof -
    have "q \<le> rat_of_int a / 2 ^ j" using q rb ra a by (simp add: frac_le)
    also have "\<dots> < 2 ^ Suc i / 2 ^ j" using ra by (simp add: divide_strict_right_mono)
    also have "\<dots> = 2 powi (k + 1)"
      using powi_diff_nat [of "Suc i" j] by (simp add: k_def algebra_simps)
    finally show ?thesis .
  qed
  have lo: "2 powi (k - 1) \<le> q"
  proof -
    have "2 powi (k - 1) = (2 ^ i / 2 ^ Suc j :: rat)"
      using powi_diff_nat [of i "Suc j"] by (simp add: k_def algebra_simps)
    also have "\<dots> \<le> rat_of_int a / rat_of_int b" using ra rb a b by (intro frac_le) auto
    finally show ?thesis using q by simp
  qed
  have il: "ilog2 q = (if 2 powi k \<le> q then k else k - 1)"
    by (simp add: ilog2_def ab i_def j_def k_def)
  show "2 powi ilog2 q \<le> q" using il lo by simp
  show "q < 2 powi (ilog2 q + 1)" using il up by (auto simp: not_le)
qed

lemma powi_mono2: "i \<le> j \<Longrightarrow> (2::rat) powi i \<le> 2 powi j"
  by (simp add: power_int_increasing)

lemma powi_less_cancel: "(2::rat) powi i < 2 powi j \<Longrightarrow> i < j"
  by (meson leD leI powi_mono2)

lemma ilog2_mono: "0 < p \<Longrightarrow> p \<le> q \<Longrightarrow> ilog2 p \<le> ilog2 q"
  using ilog2_bounds(1) [of p] ilog2_bounds(2) [of q] powi_less_cancel [of "ilog2 p" "ilog2 q + 1"]
  by force

text \<open>Round half to even, to an integer.\<close>

definition rne :: "rat \<Rightarrow> int" where
  "rne q = (let f = \<lfloor>q\<rfloor>; r = q - of_int f
            in if r < 1 / 2 then f else if 1 / 2 < r then f + 1
               else if even f then f else f + 1)"

lemma rne_of_int [simp]: "rne (of_int i) = i"
  by (simp add: rne_def)

lemma rne_cases: "rne q = \<lfloor>q\<rfloor> \<or> rne q = \<lfloor>q\<rfloor> + 1"
  by (simp add: rne_def Let_def)

lemma rne_error: "\<bar>of_int (rne q) - q\<bar> \<le> 1 / 2"
proof -
  define f where "f = rat_of_int \<lfloor>q\<rfloor>"
  have "f \<le> q" "q < f + 1" unfolding f_def by linarith+
  then show ?thesis by (auto simp: rne_def Let_def f_def [symmetric] abs_le_iff)
qed

lemma rne_mono: assumes "p \<le> q" shows "rne p \<le> rne q"
proof (cases "\<lfloor>p\<rfloor> = \<lfloor>q\<rfloor>")
  case True
  with assms show ?thesis by (auto simp: rne_def Let_def)
next
  case False
  with assms have "\<lfloor>p\<rfloor> + 1 \<le> \<lfloor>q\<rfloor>" using floor_mono [OF assms] by linarith
  then show ?thesis using rne_cases [of p] rne_cases [of q] by auto
qed

lemma rne_ge: "of_int i \<le> q \<Longrightarrow> i \<le> rne q"
  using rne_mono [of "of_int i" q] by simp

lemma rne_le: "q \<le> of_int i \<Longrightarrow> rne q \<le> i"
  using rne_mono [of q "of_int i"] by simp

text \<open>The exponent of the last place of a positive rational, and its rounded magnitude.\<close>

definition ulp_exp :: "rat \<Rightarrow> int" where
  "ulp_exp q = max (ilog2 q - 52) (- 1074)"

definition mag :: "rat \<Rightarrow> rat" where
  "mag q = of_int (rne (q / 2 powi ulp_exp q)) * 2 powi ulp_exp q"

lemma mag_nonneg: assumes "0 < q" shows "0 \<le> mag q"
proof -
  have "0 \<le> rne (q / 2 powi ulp_exp q)" using assms by (intro rne_ge) simp
  then show ?thesis by (simp add: mag_def)
qed

lemma mag_error: assumes "0 < q" shows "\<bar>mag q - q\<bar> \<le> 2 powi ulp_exp q / 2"
proof -
  define u where "u = (2::rat) powi ulp_exp q"
  have u: "0 < u" by (simp add: u_def)
  have "\<bar>of_int (rne (q / u)) - q / u\<bar> * u \<le> 1 / 2 * u"
    using rne_error [of "q / u"] u by (intro mult_right_mono) auto
  moreover have "\<bar>of_int (rne (q / u)) - q / u\<bar> * u = \<bar>mag q - q\<bar>"
    using u by (simp add: mag_def u_def abs_mult_pos left_diff_distrib)
  ultimately have "\<bar>mag q - q\<bar> \<le> 1 / 2 * u" by metis
  then show ?thesis by (simp add: u_def)
qed

lemma powi_int_multiple:
  assumes "e \<le> i" shows "(2::rat) powi i / 2 powi e = of_int (2 ^ nat (i - e))"
proof -
  have "(2::rat) powi i / 2 powi e = 2 powi (i - e)" by (simp add: power_int_diff)
  also have "\<dots> = 2 ^ nat (i - e)" using assms by (simp add: power_int_def)
  finally show ?thesis by simp
qed

lemma mag_le_powi:
  assumes "0 < q" and "q \<le> 2 powi i" and "ulp_exp q \<le> i"
  shows "mag q \<le> 2 powi i"
proof -
  define u where "u = (2::rat) powi ulp_exp q"
  have u: "0 < u" by (simp add: u_def)
  have m: "2 powi i / u = of_int (2 ^ nat (i - ulp_exp q))"
    using powi_int_multiple [OF assms(3)] by (simp add: u_def)
  have "q / u \<le> 2 powi i / u" using assms u by (simp add: divide_right_mono)
  then have "rne (q / u) \<le> 2 ^ nat (i - ulp_exp q)" using m by (intro rne_le) simp
  then have "of_int (rne (q / u)) \<le> (2 powi i / u :: rat)" unfolding m by (rule of_int_le_iff [THEN iffD2])
  then have "of_int (rne (q / u)) * u \<le> 2 powi i / u * u" using u by (intro mult_right_mono) auto
  then show ?thesis using u by (simp add: mag_def u_def)
qed

lemma mag_ge_powi:
  assumes "0 < q" and "2 powi i \<le> q" and "ulp_exp q \<le> i"
  shows "2 powi i \<le> mag q"
proof -
  define u where "u = (2::rat) powi ulp_exp q"
  have u: "0 < u" by (simp add: u_def)
  have m: "2 powi i / u = of_int (2 ^ nat (i - ulp_exp q))"
    using powi_int_multiple [OF assms(3)] by (simp add: u_def)
  have "2 powi i / u \<le> q / u" using assms u by (simp add: divide_right_mono)
  then have "2 ^ nat (i - ulp_exp q) \<le> rne (q / u)" using m by (intro rne_ge) simp
  then have "(2 powi i / u :: rat) \<le> of_int (rne (q / u))" unfolding m by (rule of_int_le_iff [THEN iffD2])
  then have "2 powi i / u * u \<le> of_int (rne (q / u)) * u" using u by (intro mult_right_mono) auto
  then show ?thesis using u by (simp add: mag_def u_def)
qed

lemma mag_mono: assumes "0 < p" and "p \<le> q" shows "mag p \<le> mag q"
proof -
  have q: "0 < q" using assms by simp
  have ex: "ulp_exp p \<le> ulp_exp q" using ilog2_mono [OF assms] by (auto simp: ulp_exp_def)
  show ?thesis
  proof (cases "ulp_exp p = ulp_exp q")
    case True
    have "p / 2 powi ulp_exp p \<le> q / 2 powi ulp_exp p" using assms by (simp add: divide_right_mono)
    then show ?thesis using True rne_mono by (auto simp: mag_def intro!: mult_right_mono)
  next
    case False
    with ex have lt: "ulp_exp p < ulp_exp q" by simp
    then have eq: "ulp_exp q = ilog2 q - 52" and lp: "ilog2 p < ilog2 q"
      by (auto simp: ulp_exp_def max_def split: if_splits)
    have "p \<le> 2 powi ilog2 q"
      using ilog2_bounds(2) [OF assms(1)] powi_mono2 [of "ilog2 p + 1" "ilog2 q"] lp by force
    then have "mag p \<le> 2 powi ilog2 q" using lt eq by (intro mag_le_powi assms) auto
    also have "\<dots> \<le> mag q" using ilog2_bounds(1) [OF q] eq by (intro mag_ge_powi q) auto
    finally show ?thesis .
  qed
qed

text \<open>Rounding of an exact result that is not zero by cancellation.\<close>

definition round_f64 :: "rat \<Rightarrow> f64" where
  "round_f64 q =
     (if q = 0 then Fin 0
      else if 0 < q then (let m = mag q in if 2 ^ 1024 \<le> m then PInf else Fin m)
      else (let m = mag (- q) in
            if 2 ^ 1024 \<le> m then NInf else if m = 0 then NZero else Fin (- m)))"

lemma round_not_NaN [simp]: "round_f64 q \<noteq> NaN" "NaN \<noteq> round_f64 q"
  by (auto simp: round_f64_def Let_def)

theorem round_mono: assumes "p \<le> q" shows "f_le (round_f64 p) (round_f64 q)"
proof -
  consider "0 < p" | "p \<le> 0" "0 \<le> q" | "q < 0" using assms by linarith
  then show ?thesis
  proof cases
    case 1
    then show ?thesis using mag_mono [OF 1 assms] assms by (auto simp: round_f64_def Let_def)
  next
    case 2
    then show ?thesis using mag_nonneg [of "- p"] mag_nonneg [of q]
      by (auto simp: round_f64_def Let_def)
  next
    case 3
    then show ?thesis using mag_mono [of "- q" "- p"] mag_nonneg [of "- q"] assms
      by (auto simp: round_f64_def Let_def)
  qed
qed

text \<open>
  Representable values are fixed: a number with at most 53 significant bits in the exponent
  range rounds to itself. This also evaluates closed arithmetic on dyadic inputs.
\<close>

lemma mag_exact:
  assumes m: "0 < m" "m < 2 ^ 53" and e: "- 1074 \<le> e" and q: "q = of_int m * 2 powi e"
  shows "mag q = q"
proof -
  have q0: "0 < q" using m q by simp
  have "q < 2 ^ 53 * 2 powi e" using m q by (simp add: mult_strict_right_mono)
  also have "\<dots> = 2 powi (e + 53)" by (simp add: power_int_add)
  finally have "ilog2 q < e + 53"
    using ilog2_bounds(1) [OF q0] powi_less_cancel [of "ilog2 q" "e + 53"] by simp
  with e have u: "ulp_exp q \<le> e" by (simp add: ulp_exp_def)
  have "q / 2 powi ulp_exp q = of_int m * (2 powi e / 2 powi ulp_exp q)" by (simp add: q)
  also have "\<dots> = of_int (m * 2 ^ nat (e - ulp_exp q))" using powi_int_multiple [OF u] by simp
  finally have eq: "q / 2 powi ulp_exp q = of_int (m * 2 ^ nat (e - ulp_exp q))" .
  then have "mag q = (q / 2 powi ulp_exp q) * 2 powi ulp_exp q"
    unfolding mag_def by (metis rne_of_int)
  then show ?thesis by simp
qed

lemma round_exact:
  assumes m: "\<bar>m\<bar> < 2 ^ 53" and e: "- 1074 \<le> e" "e \<le> 971" and q: "q = of_int m * 2 powi e"
  shows "round_f64 q = Fin q"
proof -
  have big: "\<bar>q\<bar> < 2 ^ 1024"
  proof -
    have "\<bar>q\<bar> = of_int \<bar>m\<bar> * 2 powi e" by (simp add: q abs_mult)
    also have "\<dots> < 2 ^ 53 * 2 powi e"
    proof -
      have "rat_of_int \<bar>m\<bar> < of_int (2 ^ 53)" using m by (simp only: of_int_less_iff)
      then show ?thesis by (intro mult_strict_right_mono) auto
    qed
    also have "\<dots> \<le> 2 ^ 53 * 2 powi 971" using powi_mono2 [OF e(2)] by (intro mult_left_mono) auto
    also have "\<dots> = 2 ^ 1024" by (simp add: power_int_def)
    finally show ?thesis .
  qed
  consider "m = 0" | "0 < m" | "m < 0" by linarith
  then show ?thesis
  proof cases
    case 1
    then show ?thesis by (simp add: q round_f64_def)
  next
    case 2
    with big m q mag_exact [of m e q] e(1) show ?thesis by (auto simp: round_f64_def Let_def)
  next
    case 3
    have "mag (- q) = - q" using 3 m e(1) q by (intro mag_exact [of "- m" e]) auto
    moreover have "q < 0" using 3 q by (simp add: mult_neg_pos)
    ultimately show ?thesis using big by (auto simp: round_f64_def Let_def)
  qed
qed

lemma round_of_int: "\<bar>i\<bar> < 2 ^ 53 \<Longrightarrow> round_f64 (of_int i) = Fin (of_int i)"
  using round_exact [of i 0 "of_int i"] by simp

section \<open>Arithmetic\<close>

fun f_neg :: "f64 \<Rightarrow> f64" where
  "f_neg NaN = NaN"
| "f_neg PInf = NInf"
| "f_neg NInf = PInf"
| "f_neg NZero = Fin 0"
| "f_neg (Fin q) = (if q = 0 then NZero else Fin (- q))"

fun f_abs :: "f64 \<Rightarrow> f64" where
  "f_abs NaN = NaN"
| "f_abs PInf = PInf"
| "f_abs NInf = PInf"
| "f_abs NZero = Fin 0"
| "f_abs (Fin q) = Fin \<bar>q\<bar>"

fun f_add :: "f64 \<Rightarrow> f64 \<Rightarrow> f64" where
  "f_add NaN _ = NaN"
| "f_add _ NaN = NaN"
| "f_add PInf NInf = NaN"
| "f_add NInf PInf = NaN"
| "f_add PInf _ = PInf"
| "f_add _ PInf = PInf"
| "f_add NInf _ = NInf"
| "f_add _ NInf = NInf"
| "f_add NZero NZero = NZero"
| "f_add x y = round_f64 (rv x + rv y)"

definition f_sub :: "f64 \<Rightarrow> f64 \<Rightarrow> f64" where
  "f_sub x y = f_add x (f_neg y)"

definition signed_zero :: "bool \<Rightarrow> f64" where
  "signed_zero neg = (if neg then NZero else Fin 0)"

definition signed_inf :: "bool \<Rightarrow> f64" where
  "signed_inf neg = (if neg then NInf else PInf)"

definition f_mul :: "f64 \<Rightarrow> f64 \<Rightarrow> f64" where
  "f_mul x y =
     (let s = (sign_neg x \<noteq> sign_neg y) in
      if is_nan x \<or> is_nan y then NaN
      else if is_finite x \<and> is_finite y then
        (if rv x * rv y = 0 then signed_zero s else round_f64 (rv x * rv y))
      else if (is_finite x \<and> rv x = 0) \<or> (is_finite y \<and> rv y = 0) then NaN
      else signed_inf s)"

definition f_div :: "f64 \<Rightarrow> f64 \<Rightarrow> f64" where
  "f_div x y =
     (let s = (sign_neg x \<noteq> sign_neg y) in
      if is_nan x \<or> is_nan y then NaN
      else if is_finite x \<and> is_finite y then
        (if rv y = 0 then (if rv x = 0 then NaN else signed_inf s)
         else if rv x = 0 then signed_zero s else round_f64 (rv x / rv y))
      else if is_finite y then signed_inf s
      else if is_finite x then signed_zero s
      else NaN)"

text \<open>\<^verbatim>\<open>f64::max\<close> and \<^verbatim>\<open>min\<close> return the other argument when one is a NaN;
  \<^verbatim>\<open>signum\<close> looks at the sign bit; \<^verbatim>\<open>clamp\<close> panics (\<open>None\<close>) unless \<open>lo \<le> hi\<close>.\<close>

definition f_max :: "f64 \<Rightarrow> f64 \<Rightarrow> f64" where
  "f_max x y = (if is_nan x then y else if f_lt x y then y else x)"

definition f_min :: "f64 \<Rightarrow> f64 \<Rightarrow> f64" where
  "f_min x y = (if is_nan x then y else if f_lt y x then y else x)"

definition f_signum :: "f64 \<Rightarrow> f64" where
  "f_signum x = (if is_nan x then NaN else if sign_neg x then Fin (- 1) else Fin 1)"

definition f_clamp :: "f64 \<Rightarrow> f64 \<Rightarrow> f64 \<Rightarrow> f64 option" where
  "f_clamp x lo hi =
     (if \<not> f_le lo hi then None
      else let a = (if f_lt x lo then lo else x)
           in Some (if f_lt hi a then hi else a))"

lemma f_clamp_bounds:
  assumes "f_clamp x lo hi = Some y" and "x \<noteq> NaN"
  shows "f_le lo y \<and> f_le y hi"
proof -
  from assms(1) have lh: "f_le lo hi" by (auto simp: f_clamp_def split: if_splits)
  then have nn: "lo \<noteq> NaN" "hi \<noteq> NaN" by auto
  with assms lh show ?thesis
    by (auto simp: f_clamp_def Let_def f_not_lt f_le_refl split: if_splits dest: f_lt_imp_le)
qed

lemma f_clamp_NaN: "f_clamp NaN lo hi = Some y \<Longrightarrow> y = NaN"
  by (auto simp: f_clamp_def split: if_splits)

lemma f_clamp_Some_iff: "(\<exists>y. f_clamp x lo hi = Some y) \<longleftrightarrow> f_le lo hi"
  by (auto simp: f_clamp_def Let_def)

lemma f_clamp_id: "f_le lo x \<Longrightarrow> f_le x hi \<Longrightarrow> f_clamp x lo hi = Some x"
  using f_le_trans [of lo x hi] by (auto simp: f_clamp_def f_lt_def)

lemma f_add_finite:
  assumes "is_finite x" and "is_finite y"
  shows "f_add x y = (if x = NZero \<and> y = NZero then NZero else round_f64 (rv x + rv y))"
  using assms by (cases x; cases y) auto

lemma f_neg_finite [simp]: "is_finite (f_neg x) = is_finite x" "rv (f_neg x) = (if is_finite x then - rv x else 0)"
  by (cases x; simp)+

lemma f_le_finite: "is_finite x \<Longrightarrow> is_finite y \<Longrightarrow> f_le x y \<longleftrightarrow> rv x \<le> rv y"
  by (cases x; cases y) auto

lemma f_lt_finite: "is_finite x \<Longrightarrow> is_finite y \<Longrightarrow> f_lt x y \<longleftrightarrow> rv x < rv y"
  by (auto simp: f_lt_def f_le_finite)

lemma f_sub_NaN [simp]: "f_sub NaN y = NaN" "f_sub x NaN = NaN"
  by (cases x; simp add: f_sub_def)+

text \<open>A literal or a constant: the exact decimal, rounded.\<close>

definition lit :: "rat \<Rightarrow> f64" where
  "lit q = round_f64 q"

text \<open>\<^verbatim>\<open>std::f64::consts::PI\<close>, exactly.\<close>

definition PI :: f64 where
  "PI = Fin (884279719003555 / 281474976710656)"

definition TWO_PI :: f64 where
  "TWO_PI = f_mul (Fin 2) PI"

lemma TWO_PI_eq: "TWO_PI = Fin (884279719003555 / 140737488355328)"
proof -
  have "round_f64 (884279719003555 / 140737488355328) = Fin (884279719003555 / 140737488355328)"
    by (rule round_exact [of 884279719003555 "- 47"]) (simp_all add: power_int_minus_divide)
  then show ?thesis by (simp add: TWO_PI_def PI_def f_mul_def)
qed

lemma round_minus_PI: "round_f64 (- (884279719003555 / 281474976710656)) = f_neg PI"
proof -
  have "round_f64 (- (884279719003555 / 281474976710656)) = Fin (- (884279719003555 / 281474976710656))"
    by (rule round_exact [of "- 884279719003555" "- 48"]) (simp_all add: power_int_minus_divide)
  then show ?thesis by (simp add: PI_def)
qed

lemma PI_simps [simp]: "PI \<noteq> NaN" "is_finite PI" "rv PI = 884279719003555 / 281474976710656"
  by (simp_all add: PI_def)

lemma TWO_PI_simps [simp]: "TWO_PI \<noteq> NaN" "is_finite TWO_PI" "rv TWO_PI = 884279719003555 / 140737488355328"
  by (simp_all add: TWO_PI_eq)

end
