(* ===== verification/Json.thy ===== *)
theory Json
  imports F64
begin

text \<open>
  The data of \<^verbatim>\<open>serde_json::Value\<close> and the accessors the sources call on it. Objects are
  \<^verbatim>\<open>serde_json::Map\<close>, a \<^verbatim>\<open>BTreeMap\<close>: association lists in key order. Numbers keep
  the three representations serde has (\<^verbatim>\<open>u64\<close>, negative \<^verbatim>\<open>i64\<close>, finite
  \<^verbatim>\<open>f64\<close>), because \<^verbatim>\<open>as_u64\<close>, \<^verbatim>\<open>as_f64\<close> and equality tell them apart.
  The text form of a value (\<^verbatim>\<open>to_string\<close>) belongs to the serde crate and is an argument
  of the definitions that print one.
\<close>

type_synonym u64 = "64 word"

datatype jnum = PosInt u64 | NegInt u64 | Float f64

datatype json =
    JNull
  | JBool bool
  | JNum jnum
  | JStr string
  | JArr "json list"
  | JObj "(string \<times> json) list"

section \<open>Accessors\<close>

fun jnum_f64 :: "jnum \<Rightarrow> f64" where
  "jnum_f64 (PosInt n) = round_f64 (of_nat (unat n))"
| "jnum_f64 (NegInt n) = round_f64 (of_int (sint n))"
| "jnum_f64 (Float x) = x"

definition as_f64 :: "json \<Rightarrow> f64 option" where
  "as_f64 v = (case v of JNum n \<Rightarrow> Some (jnum_f64 n) | _ \<Rightarrow> None)"

definition as_u64 :: "json \<Rightarrow> u64 option" where
  "as_u64 v = (case v of JNum (PosInt n) \<Rightarrow> Some n | _ \<Rightarrow> None)"

definition as_str :: "json \<Rightarrow> string option" where
  "as_str v = (case v of JStr s \<Rightarrow> Some s | _ \<Rightarrow> None)"

definition as_bool :: "json \<Rightarrow> bool option" where
  "as_bool v = (case v of JBool b \<Rightarrow> Some b | _ \<Rightarrow> None)"

definition as_array :: "json \<Rightarrow> json list option" where
  "as_array v = (case v of JArr xs \<Rightarrow> Some xs | _ \<Rightarrow> None)"

definition as_object :: "json \<Rightarrow> json omap option" where
  "as_object v = (case v of JObj m \<Rightarrow> Some m | _ \<Rightarrow> None)"

text \<open>\<^verbatim>\<open>get("key")\<close>, \<^verbatim>\<open>get(i)\<close> and \<^verbatim>\<open>pointer("/k1/k2")\<close> for keys that are not
  array indices.\<close>

definition jget :: "string \<Rightarrow> json \<Rightarrow> json option" where
  "jget k v = (case v of JObj m \<Rightarrow> map_of m k | _ \<Rightarrow> None)"

definition jget_idx :: "nat \<Rightarrow> json \<Rightarrow> json option" where
  "jget_idx i v = (case v of JArr xs \<Rightarrow> if i < length xs then Some (xs ! i) else None | _ \<Rightarrow> None)"

fun jpointer :: "string list \<Rightarrow> json \<Rightarrow> json option" where
  "jpointer [] v = Some v"
| "jpointer (k # ks) v = Option.bind (jget k v) (jpointer ks)"

text \<open>Building a value: \<^verbatim>\<open>json!(x)\<close> of a float is null when the float is not finite.\<close>

definition json_f64 :: "f64 \<Rightarrow> json" where
  "json_f64 x = (if is_finite x then JNum (Float x) else JNull)"

definition json_obj :: "(string \<times> json) list \<Rightarrow> json" where
  "json_obj kvs = JObj (fold (\<lambda>(k, v). om_insert k v) kvs [])"

lemma json_acc_simps [simp]:
  "as_f64 (JNum n) = Some (jnum_f64 n)" "as_f64 JNull = None" "as_f64 (JStr s) = None"
  "as_f64 (JBool b) = None" "as_f64 (JArr xs) = None" "as_f64 (JObj m) = None"
  "as_str (JStr s) = Some s" "as_str JNull = None" "as_str (JNum n) = None"
  "as_str (JBool b) = None" "as_str (JArr xs) = None" "as_str (JObj m) = None"
  "as_bool (JBool b) = Some b" "as_bool JNull = None" "as_bool (JStr s) = None"
  "as_array (JArr xs) = Some xs" "as_array JNull = None" "as_array (JObj m) = None"
  "as_object (JObj m) = Some m" "as_object JNull = None"
  "jget k (JObj m) = map_of m k" "jget k JNull = None" "jget k (JStr s) = None"
  "jget k (JNum n) = None" "jget k (JBool b) = None" "jget k (JArr xs) = None"
  by (simp_all add: as_f64_def as_str_def as_bool_def as_array_def as_object_def jget_def)

lemma as_f64_json_f64: "as_f64 (json_f64 x) = (if is_finite x then Some x else None)"
  by (simp add: json_f64_def)

lemma map_of_fold_om_insert:
  "map_of (fold (\<lambda>(k, v). om_insert k v) kvs m) = map_of m ++ map_of (rev kvs)"
proof (induction kvs arbitrary: m)
  case Nil
  then show ?case by simp
next
  case (Cons a kvs)
  obtain k v where a: "a = (k, v)" by (cases a)
  show ?case by (simp add: a Cons.IH) (auto simp: fun_eq_iff map_add_def split: option.splits)
qed

lemma jget_json_obj: "jget k (json_obj kvs) = map_of (rev kvs) k"
  by (simp add: json_obj_def map_of_fold_om_insert)

section \<open>Equality of values\<close>

text \<open>\<^verbatim>\<open>==\<close> on values is structural, except that the two zeros of \<^verbatim>\<open>f64\<close> are equal.\<close>

fun jnum_eq :: "jnum \<Rightarrow> jnum \<Rightarrow> bool" where
  "jnum_eq (PosInt m) (PosInt n) = (m = n)"
| "jnum_eq (NegInt m) (NegInt n) = (m = n)"
| "jnum_eq (Float x) (Float y) = f_eq x y"
| "jnum_eq _ _ = False"

fun json_eq :: "json \<Rightarrow> json \<Rightarrow> bool"
and json_eq_list :: "json list \<Rightarrow> json list \<Rightarrow> bool"
and json_eq_obj :: "(string \<times> json) list \<Rightarrow> (string \<times> json) list \<Rightarrow> bool" where
  "json_eq JNull JNull = True"
| "json_eq (JBool a) (JBool b) = (a = b)"
| "json_eq (JNum m) (JNum n) = jnum_eq m n"
| "json_eq (JStr s) (JStr t) = (s = t)"
| "json_eq (JArr xs) (JArr ys) = json_eq_list xs ys"
| "json_eq (JObj m) (JObj n) = json_eq_obj m n"
| "json_eq _ _ = False"
| "json_eq_list [] [] = True"
| "json_eq_list (x # xs) (y # ys) = (json_eq x y \<and> json_eq_list xs ys)"
| "json_eq_list _ _ = False"
| "json_eq_obj [] [] = True"
| "json_eq_obj ((k, x) # m) ((l, y) # n) = (k = l \<and> json_eq x y \<and> json_eq_obj m n)"
| "json_eq_obj _ _ = False"

text \<open>A value that serde can hold has no NaN, so equality with itself holds.\<close>

fun jnum_ok :: "jnum \<Rightarrow> bool" where
  "jnum_ok (Float x) = is_finite x"
| "jnum_ok (PosInt _) = True"
| "jnum_ok (NegInt n) = (sint n < 0)"

fun json_ok :: "json \<Rightarrow> bool"
and json_ok_list :: "json list \<Rightarrow> bool"
and json_ok_obj :: "(string \<times> json) list \<Rightarrow> bool" where
  "json_ok (JNum n) = jnum_ok n"
| "json_ok (JArr xs) = json_ok_list xs"
| "json_ok (JObj m) = (om_ok m \<and> json_ok_obj m)"
| "json_ok _ = True"
| "json_ok_list [] = True"
| "json_ok_list (x # xs) = (json_ok x \<and> json_ok_list xs)"
| "json_ok_obj [] = True"
| "json_ok_obj ((k, x) # m) = (json_ok x \<and> json_ok_obj m)"

lemma jnum_eq_refl: "jnum_ok n \<Longrightarrow> jnum_eq n n"
proof (cases n)
  case (Float x)
  assume "jnum_ok n"
  with Float have "x \<noteq> NaN" by (cases x) auto
  with Float show ?thesis by (simp add: f_eq_def f_le_refl)
qed auto

lemma json_eq_refl: "json_ok v \<Longrightarrow> json_eq v v"
  and "json_ok_list xs \<Longrightarrow> json_eq_list xs xs"
  and "json_ok_obj m \<Longrightarrow> json_eq_obj m m"
  by (induction v and xs and m rule: json_ok_json_ok_list_json_ok_obj.induct)
     (auto simp: jnum_eq_refl)

section \<open>Derived decoders\<close>

text \<open>
  The pieces of a \<^verbatim>\<open>#[derive(Deserialize)]\<close> that every struct shares. A unit variant of an
  enum is a string, or an object with that one key and null. An optional field is absent or
  null, or decodes. A struct is an object (unknown keys ignored) or, as serde also accepts, an
  array with exactly the fields in order.
\<close>

definition enum_tag :: "json \<Rightarrow> string option" where
  "enum_tag v = (case v of JStr s \<Rightarrow> Some s | JObj [(k, JNull)] \<Rightarrow> Some k | _ \<Rightarrow> None)"

definition decode_opt :: "(json \<Rightarrow> 'a option) \<Rightarrow> json option \<Rightarrow> 'a option option" where
  "decode_opt d x = (case x of None \<Rightarrow> Some None
                             | Some v \<Rightarrow> if v = JNull then Some None else map_option Some (d v))"

fun decode_list :: "(json \<Rightarrow> 'a option) \<Rightarrow> json list \<Rightarrow> 'a list option" where
  "decode_list d [] = Some []"
| "decode_list d (x # xs) =
     Option.bind (d x) (\<lambda>y. Option.bind (decode_list d xs) (\<lambda>ys. Some (y # ys)))"

definition decode_vec :: "(json \<Rightarrow> 'a option) \<Rightarrow> json \<Rightarrow> 'a list option" where
  "decode_vec d v = Option.bind (as_array v) (decode_list d)"

definition struct_field :: "string list \<Rightarrow> json \<Rightarrow> (string \<Rightarrow> json option) option" where
  "struct_field fields v =
     (case v of JObj m \<Rightarrow> Some (map_of m)
              | JArr xs \<Rightarrow> if length xs = length fields then Some (map_of (zip fields xs)) else None
              | _ \<Rightarrow> None)"

lemma enum_tag_JStr [simp]: "enum_tag (JStr s) = Some s"
  by (simp add: enum_tag_def)

lemma decode_opt_simps [simp]:
  "decode_opt d None = Some None"
  "decode_opt d (Some JNull) = Some None"
  "v \<noteq> JNull \<Longrightarrow> decode_opt d (Some v) = map_option Some (d v)"
  by (simp_all add: decode_opt_def)

lemma decode_list_map:
  "(\<And>x. x \<in> set xs \<Longrightarrow> d (e x) = Some x) \<Longrightarrow> decode_list d (map e xs) = Some xs"
  by (induction xs) auto

lemma struct_field_JObj [simp]: "struct_field fs (JObj m) = Some (map_of m)"
  by (simp add: struct_field_def)

text \<open>An optional field that is skipped when it is none.\<close>

definition opt_field :: "string \<Rightarrow> ('a \<Rightarrow> json) \<Rightarrow> 'a option \<Rightarrow> (string \<times> json) list" where
  "opt_field k e x = (case x of None \<Rightarrow> [] | Some a \<Rightarrow> [(k, e a)])"

lemma opt_field_simps [simp]:
  "opt_field k e None = []" "opt_field k e (Some a) = [(k, e a)]"
  by (simp_all add: opt_field_def)

lemma struct_json_obj: "struct_field fs (json_obj kvs) = Some (map_of (rev kvs))"
proof -
  obtain m where "json_obj kvs = JObj m" by (simp add: json_obj_def)
  then show ?thesis using jget_json_obj [of _ kvs] by (auto simp: fun_eq_iff)
qed

lemma opt_field_lookup:
  "rev (opt_field k e x) = opt_field k e x"
  "map_of (opt_field k e x) q = (if q = k then map_option e x else None)"
  "map_of (opt_field k e x @ r) q = (if q = k then or_else (map_option e x) (map_of r q) else map_of r q)"
  by (simp_all add: opt_field_def split: option.split)

lemma decode_opt_map:
  "(\<And>a. e a \<noteq> JNull) \<Longrightarrow> (\<And>a. d (e a) = Some a) \<Longrightarrow> decode_opt d (map_option e x) = Some x"
  by (cases x) simp_all

lemma decode_opt_ok:
  "(\<And>a. x = Some a \<Longrightarrow> e a \<noteq> JNull \<and> d (e a) = Some a) \<Longrightarrow> decode_opt d (map_option e x) = Some x"
  by (cases x) simp_all

lemma decode_opt_str [simp]: "decode_opt as_str (map_option JStr x) = Some x"
  by (rule decode_opt_map) simp_all

lemma json_obj_not_JNull [simp]: "json_obj kvs \<noteq> JNull"
  by (simp add: json_obj_def)

end
