(* ===== verification/Paths.thy ===== *)
theory Paths
  imports Prelude
begin

text \<open>
  \<^verbatim>\<open>signalk-types/src/path.rs\<close>: dot-separated paths, contexts and the wildcard matcher that
  subscriptions and path queries use. The matcher is shown equivalent to a specification
  without recursion: up to the first \<open>**\<close> the segments agree one by one, and what follows a
  \<open>**\<close> is free.
\<close>

section \<open>Operations\<close>

definition path_split :: "string \<Rightarrow> string list" where
  "path_split path = split_on CHR ''.'' path"

definition path_join :: "string list \<Rightarrow> string" where
  "path_join parts = join_with ''.'' parts"

definition normalize_context :: "string \<Rightarrow> string" where
  "normalize_context context = (if context = ''self'' then ''vessels.self'' else context)"

fun matches_parts :: "string list \<Rightarrow> string list \<Rightarrow> bool" where
  "matches_parts [] [] = True"
| "matches_parts [] (q # qs) = False"
| "matches_parts (p # ps) [] = (p = ''**'')"
| "matches_parts (p # ps) (q # qs) =
     (if p = ''**'' then True
      else if p = ''*'' then matches_parts ps qs
      else if p = q then matches_parts ps qs
      else False)"

definition matches_pattern :: "string \<Rightarrow> string \<Rightarrow> bool" where
  "matches_pattern pattern path =
     matches_parts (split_on CHR ''.'' pattern) (split_on CHR ''.'' path)"

definition resolve_self :: "string \<Rightarrow> string \<Rightarrow> string" where
  "resolve_self context self_uri =
     (if context = ''vessels.self'' then ''vessels.'' @ self_uri else context)"

section \<open>Specification of the matcher\<close>

definition segment_ok :: "string \<Rightarrow> string \<Rightarrow> bool" where
  "segment_ok p q \<longleftrightarrow> p = ''*'' \<or> p = q"

definition parts_spec :: "string list \<Rightarrow> string list \<Rightarrow> bool" where
  "parts_spec ps qs =
     (let pre = takeWhile (\<lambda>p. p \<noteq> ''**'') ps
      in if ''**'' \<in> set ps
         then length pre \<le> length qs \<and> list_all2 segment_ok pre (take (length pre) qs)
         else list_all2 segment_ok ps qs)"

lemma matches_parts_spec: "matches_parts ps qs = parts_spec ps qs"
proof (induction ps qs rule: matches_parts.induct)
  case (4 p ps q qs)
  then show ?case by (auto simp: parts_spec_def segment_ok_def Let_def)
qed (auto simp: parts_spec_def)

text \<open>Claim C14. The wildcard matcher decides the segment-wise specification: with no \<open>**\<close> the
  pattern and the path have the same number of segments and each pattern segment is \<open>*\<close> or
  equal; with a \<open>**\<close> the segments before the first one match the start of the path and the rest
  of the path is free.\<close>

theorem matches_pattern_spec:
  "matches_pattern pattern path \<longleftrightarrow> parts_spec (path_split pattern) (path_split path)"
  by (simp add: matches_pattern_def path_split_def matches_parts_spec)

lemma parts_spec_length:
  "''**'' \<notin> set ps \<Longrightarrow> parts_spec ps qs \<Longrightarrow> length ps = length qs"
  by (simp add: parts_spec_def list_all2_lengthD)

lemma matches_exact: "''**'' \<notin> set (path_split p) \<Longrightarrow> matches_pattern p p"
  by (auto simp: matches_pattern_spec parts_spec_def segment_ok_def list_all2_conv_all_nth)

lemma path_join_split [simp]: "path_join (path_split p) = p"
  by (simp add: path_join_def path_split_def)

text \<open>\<^verbatim>\<open>vessels.self\<close> and the vessel's own URI name the same context, and resolution is
  idempotent unless the vessel is called \<open>self\<close>.\<close>

lemma resolve_self_idem:
  "resolve_self (resolve_self c u) u = (if c = ''vessels.self'' then resolve_self (''vessels.'' @ u) u else resolve_self c u)"
  by (simp add: resolve_self_def)

text \<open>The module comment says that a trailing \<open>.*\<close> matches any number of remaining segments; it
  matches exactly one.\<close>

lemma trailing_star_one_segment:
  assumes "parts_spec (ps @ [''*'']) qs" and "''**'' \<notin> set ps"
  shows "length qs = Suc (length ps)"
  using parts_spec_length [of "ps @ [''*'']" qs] assms by simp

lemma matches_everything [simp]: "matches_pattern ''**'' p"
  using split_on_not_Nil [of "CHR ''.''" p]
  by (cases "split_on CHR ''.'' p") (simp_all add: matches_pattern_def path_split_def)

text \<open>A pattern without a star matches itself only.\<close>

lemma split_on_chars: "seg \<in> set (split_on c s) \<Longrightarrow> set seg \<subseteq> set s"
proof (induction s arbitrary: seg)
  case (Cons x xs)
  obtain q qs where sp: "split_on c xs = q # qs" by (cases "split_on c xs") auto
  have "set r \<subseteq> set xs" if "r = q \<or> r \<in> set qs" for r using Cons.IH [of r] that by (auto simp: sp)
  then show ?case using Cons.prems by (force simp: sp split: if_splits)
qed simp

lemma literal_pattern:
  assumes "CHR ''*'' \<notin> set p" shows "matches_pattern p q \<longleftrightarrow> q = p"
proof -
  have star: "''*'' \<notin> set (path_split p)" "''**'' \<notin> set (path_split p)"
    using assms split_on_chars [of _ "CHR ''.''" p] by (force simp: path_split_def)+
  have "list_all2 segment_ok ps qs \<longleftrightarrow> qs = ps" if "''*'' \<notin> set ps" for ps qs
    using that by (induction ps arbitrary: qs) (auto simp: list_all2_Cons1 segment_ok_def)
  then have "matches_pattern p q \<longleftrightarrow> path_split q = path_split p"
    using star by (simp add: matches_pattern_spec parts_spec_def)
  then show ?thesis by (simp add: path_split_def split_on_inject)
qed

end
