(* ===== verification/Types.thy ===== *)
theory Types
  imports Json Paths
begin

text \<open>
  The protocol types of \<^verbatim>\<open>signalk-types\<close> (\<^verbatim>\<open>delta.rs\<close>, \<^verbatim>\<open>source.rs\<close>,
  \<^verbatim>\<open>notification.rs\<close>, \<^verbatim>\<open>resources.rs\<close>, \<^verbatim>\<open>ws.rs\<close>, \<^verbatim>\<open>meta.rs\<close>,
  \<^verbatim>\<open>full.rs\<close>) and of \<^verbatim>\<open>signalk-plugin-api/src/error.rs\<close>. A
  \<^verbatim>\<open>DateTime<Utc>\<close> is its distance from the epoch in nanoseconds, an \<open>int\<close>; the current
  time is an argument of every operation that reads the clock. The decoders and encoders of
  notifications and positions are the ones the derive attributes give.
\<close>

section \<open>Plugin errors\<close>

datatype plugin_error =
    Config string
  | Io string
  | Json_err string
  | Runtime string
  | InvalidState string
  | Registration string
  | NotFound string
  | BadRequest string
  | Other string

type_synonym 'a plugin_result = "plugin_error + 'a"

definition is_not_found :: "plugin_error \<Rightarrow> bool" where
  "is_not_found e = (case e of NotFound _ \<Rightarrow> True | _ \<Rightarrow> False)"

definition is_bad_request :: "plugin_error \<Rightarrow> bool" where
  "is_bad_request e = (case e of BadRequest _ \<Rightarrow> True | _ \<Rightarrow> False)"

lemma is_not_found_simps [simp]:
  "is_not_found (NotFound m)" "\<not> is_not_found (Config m)" "\<not> is_not_found (Runtime m)"
  "\<not> is_not_found (BadRequest m)"
  by (simp_all add: is_not_found_def)

section \<open>Sources and deltas\<close>

type_synonym datetime = int

record source =
  s_label :: string
  s_type :: string
  s_extra :: "json hmap"

definition source_nmea0183 :: "string \<Rightarrow> string \<Rightarrow> source" where
  "source_nmea0183 label talker =
     \<lparr>s_label = label, s_type = ''NMEA0183'', s_extra = hm_insert ''talker'' (JStr talker) []\<rparr>"

definition source_nmea2000 :: "string \<Rightarrow> 8 word \<Rightarrow> 32 word \<Rightarrow> source" where
  "source_nmea2000 label src pgn =
     \<lparr>s_label = label, s_type = ''NMEA2000'',
      s_extra = hm_insert ''pgn'' (JNum (PosInt (ucast pgn))) (hm_insert ''src'' (JNum (PosInt (ucast src))) [])\<rparr>"

definition source_plugin :: "string \<Rightarrow> source" where
  "source_plugin plugin_id = \<lparr>s_label = plugin_id, s_type = ''Plugin'', s_extra = []\<rparr>"

definition source_internal :: source where
  "source_internal = \<lparr>s_label = ''signalk-rs'', s_type = ''Internal'', s_extra = []\<rparr>"

record path_value =
  pv_path :: string
  pv_value :: json

record update =
  u_source :: source
  u_timestamp :: datetime
  u_values :: "path_value list"

record delta =
  d_context :: "string option"
  d_updates :: "update list"

definition self_vessel :: "update list \<Rightarrow> delta" where
  "self_vessel us = \<lparr>d_context = Some ''vessels.self'', d_updates = us\<rparr>"

definition with_context :: "string \<Rightarrow> update list \<Rightarrow> delta" where
  "with_context c us = \<lparr>d_context = Some c, d_updates = us\<rparr>"

definition update_new :: "datetime \<Rightarrow> source \<Rightarrow> path_value list \<Rightarrow> update" where
  "update_new now src vs = \<lparr>u_source = src, u_timestamp = now, u_values = vs\<rparr>"

definition path_value_new :: "string \<Rightarrow> json \<Rightarrow> path_value" where
  "path_value_new p v = \<lparr>pv_path = p, pv_value = v\<rparr>"

definition path_value_null :: "string \<Rightarrow> path_value" where
  "path_value_null p = \<lparr>pv_path = p, pv_value = JNull\<rparr>"

lemmas delta_cons_defs =
  self_vessel_def with_context_def update_new_def path_value_new_def path_value_null_def
  source_plugin_def source_nmea0183_def source_nmea2000_def source_internal_def

text \<open>A source reference: \<^verbatim>\<open>SourceRef\<close> is a newtype of a string.\<close>

type_synonym source_ref = string

section \<open>Metadata\<close>

datatype zone_state = ZNominal | ZAlert | ZWarn | ZAlarm | ZEmergency

record zone =
  z_lower :: "f64 option"
  z_upper :: "f64 option"
  z_state :: zone_state
  z_message :: "string option"

record display_units =
  du_category :: string
  du_target_unit :: string
  du_formula :: string
  du_inverse_formula :: string
  du_symbol :: string
  du_display_format :: "string option"

record metadata =
  m_description :: "string option"
  m_units :: "string option"
  m_display_name :: "string option"
  m_long_name :: "string option"
  m_timeout :: "f64 option"
  m_min_value :: "f64 option"
  m_max_value :: "f64 option"
  m_zones :: "zone list"
  m_display_units :: "display_units option"

definition metadata_default :: metadata where
  "metadata_default =
     \<lparr>m_description = None, m_units = None, m_display_name = None, m_long_name = None,
      m_timeout = None, m_min_value = None, m_max_value = None, m_zones = [], m_display_units = None\<rparr>"

text \<open>The arms of the \<^verbatim>\<open>match\<close> in \<^verbatim>\<open>default_metadata\<close>: path, units, description,
  display name. Non-ASCII characters are their UTF-8 bytes.\<close>

definition utf8_arrow :: string where
  "utf8_arrow = [CHR 0xE2, CHR 0x86, CHR 0x92]"

definition default_metadata_table :: "(string \<times> string \<times> string \<times> string) list" where
  "default_metadata_table =
   [(''navigation.speedOverGround'', ''m/s'', ''Speed over ground'', ''SOG''),
    (''navigation.speedThroughWater'', ''m/s'', ''Speed through water'', ''STW''),
    (''navigation.courseOverGroundTrue'', ''rad'', ''Course over ground (true)'', ''COG(T)''),
    (''navigation.courseOverGroundMagnetic'', ''rad'', ''Course over ground (magnetic)'', ''COG(M)''),
    (''navigation.headingTrue'', ''rad'', ''Heading true'', ''HDG(T)''),
    (''navigation.headingMagnetic'', ''rad'', ''Heading magnetic'', ''HDG(M)''),
    (''navigation.magneticVariation'', ''rad'', ''Magnetic variation'', ''VAR''),
    (''navigation.leewayAngle'', ''rad'', ''Leeway angle'', ''Leeway''),
    (''navigation.attitude'', '''', ''Vessel attitude (roll/pitch/yaw)'', ''Attitude''),
    (''environment.depth.belowTransducer'', ''m'', ''Depth below transducer'', ''DBT''),
    (''environment.depth.belowKeel'', ''m'', ''Depth below keel'', ''DBK''),
    (''environment.depth.belowSurface'', ''m'', ''Depth below surface'', ''DBS''),
    (''environment.depth.surfaceToTransducer'', ''m'', ''Surface to transducer'', ''S'' @ utf8_arrow @ ''T''),
    (''environment.depth.transducerToKeel'', ''m'', ''Transducer to keel'', ''T'' @ utf8_arrow @ ''K''),
    (''environment.wind.speedApparent'', ''m/s'', ''Apparent wind speed'', ''AWS''),
    (''environment.wind.angleApparent'', ''rad'', ''Apparent wind angle'', ''AWA''),
    (''environment.wind.speedTrue'', ''m/s'', ''True wind speed (ground ref)'', ''TWS''),
    (''environment.wind.angleTrueGround'', ''rad'', ''True wind angle (ground ref)'', ''TWA''),
    (''environment.wind.angleTrueWater'', ''rad'', ''True wind angle (water ref)'', ''TWA(W)''),
    (''environment.wind.directionTrue'', ''rad'', ''True wind direction'', ''TWD''),
    (''environment.wind.directionMagnetic'', ''rad'', ''Wind direction (magnetic)'', ''MWD''),
    (''environment.wind.speedOverGround'', ''m/s'', ''True wind speed (ground ref)'', ''GWS''),
    (''environment.wind.directionGround'', ''rad'', ''True wind direction (ground ref)'', ''GWD''),
    (''environment.outside.temperature'', ''K'', ''Outside air temperature'', ''Air''),
    (''environment.outside.pressure'', ''Pa'', ''Atmospheric pressure'', ''Baro''),
    (''environment.outside.humidity'', ''ratio'', ''Relative humidity'', ''Hum''),
    (''environment.outside.dewPointTemperature'', ''K'', ''Dew point temperature'', ''Dew''),
    (''environment.outside.airDensity'', ''kg/m'' @ [CHR 0xC2, CHR 0xB3], ''Air density'', [CHR 0xCF, CHR 0x81]),
    (''environment.outside.heatIndexTemperature'', ''K'', ''Heat index temperature'', ''HI''),
    (''environment.outside.apparentWindChillTemperature'', ''K'', ''Wind chill temperature'', ''WC''),
    (''environment.water.temperature'', ''K'', ''Water temperature'', ''Water''),
    (''environment.current.setTrue'', ''rad'', ''Current set (true)'', ''Set(T)''),
    (''environment.current.setMagnetic'', ''rad'', ''Current set (magnetic)'', ''Set(M)''),
    (''environment.current.drift'', ''m/s'', ''Current drift'', ''Drift''),
    (''environment.current.driftImpact'', ''ratio'', ''Current drift impact'', ''Impact''),
    (''navigation.course.estimatedTimeOfArrival'', ''s'', ''ETA in seconds'', ''ETA''),
    (''navigation.course.steerError'', ''rad'', ''Steering error'', ''XTE''),
    (''performance.velocityMadeGood'', ''m/s'', ''Velocity made good'', ''VMG''),
    (''performance.velocityMadeGoodToWaypoint'', ''m/s'', ''VMG to waypoint (STW)'', ''VMG(W)'')]"

definition default_metadata :: "string \<Rightarrow> metadata option" where
  "default_metadata path =
     (case map_of default_metadata_table path of
        None \<Rightarrow> None
      | Some (units, description, display_name) \<Rightarrow>
          Some (metadata_default\<lparr>m_units := Some units, m_description := Some description,
                                 m_display_name := Some display_name\<rparr>))"

section \<open>Values of the full model\<close>

record source_value =
  sv_val :: json
  sv_time :: datetime

record signalk_value =
  sk_value :: json
  sk_source :: source_ref
  sk_timestamp :: datetime
  sk_meta :: "metadata option"
  sk_values :: "source_value hmap option"

definition signalk_value_new :: "json \<Rightarrow> source_ref \<Rightarrow> datetime \<Rightarrow> signalk_value" where
  "signalk_value_new v src ts =
     \<lparr>sk_value = v, sk_source = src, sk_timestamp = ts, sk_meta = None, sk_values = None\<rparr>"

lemma signalk_value_new_simps [simp]:
  "sk_value (signalk_value_new v src ts) = v"
  "sk_source (signalk_value_new v src ts) = src"
  "sk_timestamp (signalk_value_new v src ts) = ts"
  by (simp_all add: signalk_value_new_def)

record vessel_data =
  v_uuid :: "string option"
  v_name :: "string option"
  v_mmsi :: "string option"
  v_values :: "signalk_value hmap"

definition vessel_default :: vessel_data where
  "vessel_default = \<lparr>v_uuid = None, v_name = None, v_mmsi = None, v_values = []\<rparr>"

record full_model =
  fm_version :: string
  fm_self :: string
  fm_vessels :: "vessel_data hmap"
  fm_sources :: json

definition SIGNALK_VERSION :: string where
  "SIGNALK_VERSION = ''1.7.0''"

definition full_model_new :: "string \<Rightarrow> full_model" where
  "full_model_new uri =
     \<lparr>fm_version = SIGNALK_VERSION, fm_self = uri, fm_vessels = [], fm_sources = JObj []\<rparr>"

section \<open>Subscriptions\<close>

datatype subscription_policy = Instant | Ideal | Fixed

datatype subscribe_mode = SelfMode | AllMode | NoneMode

definition subscribe_mode_from_str :: "string \<Rightarrow> subscribe_mode" where
  "subscribe_mode_from_str s =
     (if s = ''all'' then AllMode else if s = ''none'' then NoneMode else SelfMode)"

section \<open>Resources and course\<close>

record position =
  p_latitude :: f64
  p_longitude :: f64
  p_altitude :: "f64 option"

definition position_of_json :: "json \<Rightarrow> position option" where
  "position_of_json v =
     Option.bind (struct_field [''latitude'', ''longitude'', ''altitude''] v) (\<lambda>fld.
     Option.bind (Option.bind (fld ''latitude'') as_f64) (\<lambda>lat.
     Option.bind (Option.bind (fld ''longitude'') as_f64) (\<lambda>lon.
     Option.bind (decode_opt as_f64 (fld ''altitude'')) (\<lambda>alt.
       Some \<lparr>p_latitude = lat, p_longitude = lon, p_altitude = alt\<rparr>))))"

datatype resource_type = Waypoints | Routes | Notes | Regions | Charts

fun resource_type_as_str :: "resource_type \<Rightarrow> string" where
  "resource_type_as_str Waypoints = ''waypoints''"
| "resource_type_as_str Routes = ''routes''"
| "resource_type_as_str Notes = ''notes''"
| "resource_type_as_str Regions = ''regions''"
| "resource_type_as_str Charts = ''charts''"

definition resource_type_parse :: "string \<Rightarrow> resource_type option" where
  "resource_type_parse s =
     (if s = ''waypoints'' then Some Waypoints
      else if s = ''routes'' then Some Routes
      else if s = ''notes'' then Some Notes
      else if s = ''regions'' then Some Regions
      else if s = ''charts'' then Some Charts
      else None)"

lemma resource_type_roundtrip: "resource_type_parse s = Some t \<longleftrightarrow> s = resource_type_as_str t"
  by (cases t) (auto simp: resource_type_parse_def)

datatype point_type = Location | VesselPosition | RoutePoint

record course_point =
  cp_type :: point_type
  cp_position :: position
  cp_href :: "string option"

record active_route =
  ar_href :: string
  ar_reverse :: bool
  ar_point_index :: nat
  ar_point_total :: nat
  ar_name :: "string option"
  ar_waypoints :: "position list option"

record course_state =
  cs_start_time :: "string option"
  cs_target_arrival_time :: "string option"
  cs_arrival_circle :: f64
  cs_active_route :: "active_route option"
  cs_next_point :: "course_point option"
  cs_previous_point :: "course_point option"

end
