(* ===== verification/Store.thy ===== *)
theory Store
  imports Types
begin

text \<open>
  \<^verbatim>\<open>signalk-store/src/store.rs\<close>: the in-memory data store. A delta is merged value by
  value: every value of the own vessel is kept per source (\<^verbatim>\<open>multi_source\<close>), and the
  active value of a path changes when the sender's priority allows it or when the active value
  has outlived the time to live of its source. What was applied is sent to the subscribers.
  The broadcast channel is the log of the deltas sent to it, oldest first. The code reads the
  clock once per value; here one reading serves the whole delta. The \<^verbatim>\<open>Display\<close> of a
  JSON value, used for the \<^verbatim>\<open>pgn\<close> of a source, is an argument (\<open>disp\<close>).
\<close>

section \<open>State\<close>

type_synonym u16 = "16 word"

record store =
  st_version :: string
  st_self_uri :: string
  st_vessels :: "vessel_data hmap"
  st_sources :: "source hmap"
  st_metadata :: "string \<Rightarrow> metadata option"
  st_multi :: "signalk_value hmap hmap"
  st_priorities :: "string \<Rightarrow> u16 option"
  st_ttls :: "string \<Rightarrow> u64 option"
  st_sent :: "delta list"
  st_delta_count :: u64
  st_source_counts :: "u64 hmap"

definition DEFAULT_SOURCE_PRIORITY :: u16 where
  "DEFAULT_SOURCE_PRIORITY = 100"

definition store_new :: "string \<Rightarrow> store" where
  "store_new self_uri =
     \<lparr>st_version = SIGNALK_VERSION, st_self_uri = self_uri,
      st_vessels = hm_insert self_uri (vessel_default\<lparr>v_uuid := Some self_uri\<rparr>) [],
      st_sources = [], st_metadata = Map.empty, st_multi = [],
      st_priorities = Map.empty, st_ttls = Map.empty, st_sent = [],
      st_delta_count = 0, st_source_counts = []\<rparr>"

definition set_source_priorities :: "(string \<Rightarrow> u16 option) \<Rightarrow> store \<Rightarrow> store" where
  "set_source_priorities ps s = s\<lparr>st_priorities := ps\<rparr>"

definition set_source_ttls :: "(string \<Rightarrow> u64 option) \<Rightarrow> store \<Rightarrow> store" where
  "set_source_ttls ts s = s\<lparr>st_ttls := ts\<rparr>"

definition set_vessel_identity :: "string \<Rightarrow> string option \<Rightarrow> string option \<Rightarrow> store \<Rightarrow> store" where
  "set_vessel_identity uri name mmsi s =
     (case map_of (st_vessels s) uri of
        None \<Rightarrow> s
      | Some v \<Rightarrow>
          let v1 = (case name of None \<Rightarrow> v | Some n \<Rightarrow> v\<lparr>v_name := Some n\<rparr>);
              v2 = (case mmsi of None \<Rightarrow> v1 | Some m \<Rightarrow> v1\<lparr>v_mmsi := Some m\<rparr>)
          in s\<lparr>st_vessels := hm_insert uri v2 (st_vessels s)\<rparr>)"

section \<open>Source references\<close>

definition make_source_ref :: "(json \<Rightarrow> string) \<Rightarrow> source \<Rightarrow> source_ref" where
  "make_source_ref disp src =
     (let suffix =
        (if s_type src = ''NMEA0183'' then
           (case Option.bind (map_of (s_extra src) ''talker'') as_str of
              Some t \<Rightarrow> ''.'' @ t | None \<Rightarrow> [])
         else if s_type src = ''NMEA2000'' then
           (case map_of (s_extra src) ''pgn'' of Some v \<Rightarrow> ''.'' @ disp v | None \<Rightarrow> [])
         else [])
      in s_label src @ suffix)"

section \<open>Applying a delta\<close>

definition priority_of :: "store \<Rightarrow> source_ref \<Rightarrow> u16" where
  "priority_of s src = unwrap_or (st_priorities s src) DEFAULT_SOURCE_PRIORITY"

text \<open>\<^verbatim>\<open>TimeDelta::num_seconds\<close> truncates towards zero; \<^verbatim>\<open>ttl as i64\<close> reads the 64 bits
  as a signed number.\<close>

definition num_seconds :: "int \<Rightarrow> int" where
  "num_seconds d = sgn d * (\<bar>d\<bar> div 1000000000)"

definition evict_stale :: "datetime \<Rightarrow> store \<Rightarrow> signalk_value option \<Rightarrow> source_ref option" where
  "evict_stale now s cur =
     Option.bind cur (\<lambda>current.
       Option.bind (st_ttls s (sk_source current)) (\<lambda>ttl.
         if sint ttl < num_seconds (now - sk_timestamp current)
         then Some (sk_source current) else None))"

definition should_update :: "datetime \<Rightarrow> store \<Rightarrow> source_ref \<Rightarrow> signalk_value option \<Rightarrow> bool" where
  "should_update now s src cur \<longleftrightarrow>
     evict_stale now s cur \<noteq> None \<or>
     (case cur of
        Some current \<Rightarrow> priority_of s src \<le> priority_of s (sk_source current)
      | None \<Rightarrow> True)"

definition vessel_values :: "store \<Rightarrow> string \<Rightarrow> signalk_value hmap" where
  "vessel_values s uri = (case map_of (st_vessels s) uri of Some v \<Rightarrow> v_values v | None \<Rightarrow> [])"

definition set_vessel_value :: "string \<Rightarrow> string \<Rightarrow> signalk_value \<Rightarrow> store \<Rightarrow> store" where
  "set_vessel_value uri path v s =
     (let vd = unwrap_or (map_of (st_vessels s) uri) vessel_default
      in s\<lparr>st_vessels := hm_insert uri (vd\<lparr>v_values := hm_insert path v (v_values vd)\<rparr>) (st_vessels s)\<rparr>)"

definition multi_insert :: "string \<Rightarrow> source_ref \<Rightarrow> signalk_value \<Rightarrow> store \<Rightarrow> store" where
  "multi_insert path src v s =
     s\<lparr>st_multi := hm_insert path (hm_insert src v (unwrap_or (map_of (st_multi s) path) [])) (st_multi s)\<rparr>"

definition multi_evict :: "string \<Rightarrow> source_ref \<Rightarrow> store \<Rightarrow> store" where
  "multi_evict path src s =
     (case map_of (st_multi s) path of
        None \<Rightarrow> s
      | Some m \<Rightarrow> s\<lparr>st_multi := hm_insert path (hm_remove src m) (st_multi s)\<rparr>)"

definition note_source :: "string \<Rightarrow> source_ref \<Rightarrow> signalk_value \<Rightarrow> string \<Rightarrow> store \<Rightarrow> store" where
  "note_source uri src value path s =
     (if uri = st_self_uri s then multi_insert path src value s else s)"

text \<open>The body of the loop over the values of one update.\<close>

definition apply_value ::
  "datetime \<Rightarrow> string \<Rightarrow> source_ref \<Rightarrow> datetime \<Rightarrow> path_value \<Rightarrow> store \<times> path_value list
   \<Rightarrow> store \<times> path_value list" where
  "apply_value now uri src ts pv sa =
     (let (s, applied) = sa;
          path = pv_path pv;
          value = signalk_value_new (pv_value pv) src ts;
          s1 = note_source uri src value path s;
          cur = map_of (vessel_values s1 uri) path;
          evict = evict_stale now s1 cur
      in if should_update now s1 src cur
         then (let s2 = (case evict of Some ev \<Rightarrow> multi_evict path ev s1 | None \<Rightarrow> s1)
               in (set_vessel_value uri path value s2, applied @ [pv]))
         else (s1, applied))"

text \<open>Registering the source and counting the update for its label.\<close>

definition register_source :: "source_ref \<Rightarrow> source \<Rightarrow> store \<Rightarrow> store" where
  "register_source src so s =
     (let label = hd (split_on CHR ''.'' src)
      in s\<lparr>st_sources := hm_or_insert src so (st_sources s),
           st_source_counts := hm_insert label (unwrap_or (map_of (st_source_counts s) label) 0 + 1)
                                 (st_source_counts s)\<rparr>)"

definition apply_update ::
  "(json \<Rightarrow> string) \<Rightarrow> datetime \<Rightarrow> string \<Rightarrow> update \<Rightarrow> store \<times> update list \<Rightarrow> store \<times> update list" where
  "apply_update disp now uri u sa =
     (let (s, us) = sa;
          src = make_source_ref disp (u_source u);
          (s', applied) = fold (apply_value now uri src (u_timestamp u)) (u_values u)
                            (register_source src (u_source u) s, [])
      in (s', if applied = [] then us else us @ [u\<lparr>u_values := applied\<rparr>]))"

definition ensure_vessel :: "string \<Rightarrow> store \<Rightarrow> store" where
  "ensure_vessel uri s = s\<lparr>st_vessels := hm_or_insert uri vessel_default (st_vessels s)\<rparr>"

definition resolve_context :: "store \<Rightarrow> string option \<Rightarrow> string" where
  "resolve_context s ctx =
     (let c = (case ctx of Some c \<Rightarrow> c | None \<Rightarrow> ''vessels.'' @ st_self_uri s)
      in if c = ''vessels.self'' then ''vessels.'' @ st_self_uri s else c)"

definition broadcast :: "delta \<Rightarrow> store \<Rightarrow> store" where
  "broadcast d s = s\<lparr>st_sent := st_sent s @ [d]\<rparr>"

definition apply_delta :: "(json \<Rightarrow> string) \<Rightarrow> datetime \<Rightarrow> delta \<Rightarrow> store \<Rightarrow> store" where
  "apply_delta disp now d s =
     (case strip_prefix ''vessels.'' (resolve_context s (d_context d)) of
        None \<Rightarrow> broadcast d s
      | Some uri \<Rightarrow>
          (let (s', us) = fold (apply_update disp now uri) (d_updates d) (ensure_vessel uri s, [])
           in if us = [] then s'
              else (broadcast \<lparr>d_context = d_context d, d_updates = us\<rparr> s')
                     \<lparr>st_delta_count := st_delta_count s' + 1\<rparr>))"

section \<open>Queries\<close>

definition get_vessel_path :: "store \<Rightarrow> string \<Rightarrow> string \<Rightarrow> signalk_value option" where
  "get_vessel_path s uri path =
     Option.bind (map_of (st_vessels s) uri) (\<lambda>v. map_of (v_values v) path)"

definition get_self_path :: "store \<Rightarrow> string \<Rightarrow> signalk_value option" where
  "get_self_path s path =
     Option.bind (map_of (st_vessels s) (st_self_uri s)) (\<lambda>v. map_of (v_values v) path)"

definition get_self_path_by_source :: "store \<Rightarrow> string \<Rightarrow> source_ref \<Rightarrow> signalk_value option" where
  "get_self_path_by_source s path src = Option.bind (map_of (st_multi s) path) (\<lambda>m. map_of m src)"

definition get_self_path_sources :: "store \<Rightarrow> string \<Rightarrow> signalk_value hmap option" where
  "get_self_path_sources s path =
     Option.bind (map_of (st_multi s) path) (\<lambda>m. if m = [] then None else Some m)"

definition get_self_matching :: "store \<Rightarrow> string \<Rightarrow> (string \<times> signalk_value) list" where
  "get_self_matching s pattern =
     (case map_of (st_vessels s) (st_self_uri s) of
        None \<Rightarrow> []
      | Some v \<Rightarrow> filter (\<lambda>(path, _). matches_pattern pattern path) (v_values v))"

definition store_notifications :: "store \<Rightarrow> (string \<times> signalk_value) list" where
  "store_notifications s =
     (case map_of (st_vessels s) (st_self_uri s) of
        None \<Rightarrow> []
      | Some v \<Rightarrow> filter (\<lambda>(path, _). starts_with path ''notifications.'') (v_values v))"

definition source_values :: "signalk_value hmap \<Rightarrow> source_value hmap" where
  "source_values m = map (\<lambda>(src, v). (src, \<lparr>sv_val = sk_value v, sv_time = sk_timestamp v\<rparr>)) m"

definition get_self_path_multi_values :: "store \<Rightarrow> string \<Rightarrow> source_value hmap option" where
  "get_self_path_multi_values s path =
     Option.bind (map_of (st_multi s) path) (\<lambda>m. if length m \<le> 1 then None else Some (source_values m))"

definition vessel_uris :: "store \<Rightarrow> string list" where
  "vessel_uris s = map fst (st_vessels s)"

definition self_path_count :: "store \<Rightarrow> nat" where
  "self_path_count s =
     (case map_of (st_vessels s) (st_self_uri s) of Some v \<Rightarrow> length (v_values v) | None \<Rightarrow> 0)"

definition self_paths :: "store \<Rightarrow> string list" where
  "self_paths s =
     sort (case map_of (st_vessels s) (st_self_uri s) of Some v \<Rightarrow> map fst (v_values v) | None \<Rightarrow> [])"

section \<open>Metadata and direct writes\<close>

definition set_metadata :: "string \<Rightarrow> metadata \<Rightarrow> store \<Rightarrow> store" where
  "set_metadata path m s = s\<lparr>st_metadata := (st_metadata s)(path \<mapsto> m)\<rparr>"

definition effective_metadata :: "store \<Rightarrow> string \<Rightarrow> metadata option" where
  "effective_metadata s path =
     (case st_metadata s path of Some m \<Rightarrow> Some m | None \<Rightarrow> default_metadata path)"

definition set_self_path :: "(json \<Rightarrow> string) \<Rightarrow> datetime \<Rightarrow> string \<Rightarrow> json \<Rightarrow> source \<Rightarrow> store \<Rightarrow> store" where
  "set_self_path disp now path v src s =
     (let ref = make_source_ref disp src;
          s1 = s\<lparr>st_sources := hm_or_insert ref src (st_sources s)\<rparr>
      in set_vessel_value (st_self_uri s) path (signalk_value_new v ref now) s1)"

section \<open>The full model\<close>

definition source_to_json :: "source \<Rightarrow> json" where
  "source_to_json src =
     json_obj ((''label'', JStr (s_label src)) # (''type'', JStr (s_type src)) # s_extra src)"

definition insert_source :: "string \<times> source \<Rightarrow> json omap \<Rightarrow> json omap" where
  "insert_source rs acc =
     (let (ref, src) = rs;
          j = source_to_json src;
          label = takeWhile (\<lambda>c. c \<noteq> CHR ''.'') ref
      in if CHR ''.'' \<in> set ref
         then (let suffix = drop (Suc (length label)) ref;
                   acc1 = om_or_insert label (JObj []) acc
               in (case map_of acc1 label of
                     Some (JObj m) \<Rightarrow> om_insert label (JObj (om_insert suffix j m)) acc1
                   | _ \<Rightarrow> acc1))
         else om_insert ref j acc)"

definition build_sources_hierarchy :: "source hmap \<Rightarrow> json" where
  "build_sources_hierarchy srcs = JObj (fold insert_source srcs [])"

definition enrich_value :: "store \<Rightarrow> string \<times> signalk_value \<Rightarrow> string \<times> signalk_value" where
  "enrich_value s psv =
     (let (path, sv) = psv;
          sv1 = (case st_metadata s path of
                   Some m \<Rightarrow> sv\<lparr>sk_meta := Some m\<rparr>
                 | None \<Rightarrow> (case default_metadata path of
                              Some m \<Rightarrow> sv\<lparr>sk_meta := Some m\<rparr> | None \<Rightarrow> sv));
          sv2 = (case map_of (st_multi s) path of
                   Some m \<Rightarrow> if 1 < length m then sv1\<lparr>sk_values := Some (source_values m)\<rparr> else sv1
                 | None \<Rightarrow> sv1)
      in (path, sv2))"

definition full_model_of :: "store \<Rightarrow> full_model" where
  "full_model_of s =
     (full_model_new (''vessels.'' @ st_self_uri s))
       \<lparr>fm_vessels := map (\<lambda>(uri, v).
            (uri, if uri = st_self_uri s then v\<lparr>v_values := map (enrich_value s) (v_values v)\<rparr> else v))
            (st_vessels s),
        fm_sources := build_sources_hierarchy (st_sources s)\<rparr>"

section \<open>How one value changes the store\<close>

lemma vessel_values_get: "map_of (vessel_values s uri) p = get_vessel_path s uri p"
  by (simp add: vessel_values_def get_vessel_path_def split: option.splits)

lemma get_self_is_vessel: "get_self_path s = get_vessel_path s (st_self_uri s)"
  by (simp add: get_self_path_def get_vessel_path_def fun_eq_iff)

lemma set_vessel_value_get [map_upd_simps]:
  "get_vessel_path (set_vessel_value uri p v s) uri' p' =
     (if uri' = uri \<and> p' = p then Some v else get_vessel_path s uri' p')"
  by (auto simp: set_vessel_value_def get_vessel_path_def Let_def vessel_default_def unwrap_or_def
      split: option.splits)

lemma vessel_frame [frame_simps, simp]:
  "st_self_uri (set_vessel_value uri p v s) = st_self_uri s"
  "st_priorities (set_vessel_value uri p v s) = st_priorities s"
  "st_ttls (set_vessel_value uri p v s) = st_ttls s"
  "st_multi (set_vessel_value uri p v s) = st_multi s"
  "st_sources (set_vessel_value uri p v s) = st_sources s"
  "st_sent (set_vessel_value uri p v s) = st_sent s"
  "st_metadata (set_vessel_value uri p v s) = st_metadata s"
  by (simp_all add: set_vessel_value_def Let_def)

lemma multi_frame [frame_simps, simp]:
  "st_self_uri (multi_insert p src v s) = st_self_uri s"
  "st_priorities (multi_insert p src v s) = st_priorities s"
  "st_ttls (multi_insert p src v s) = st_ttls s"
  "st_vessels (multi_insert p src v s) = st_vessels s"
  "st_sources (multi_insert p src v s) = st_sources s"
  "st_sent (multi_insert p src v s) = st_sent s"
  "st_metadata (multi_insert p src v s) = st_metadata s"
  "st_self_uri (multi_evict p src s) = st_self_uri s"
  "st_priorities (multi_evict p src s) = st_priorities s"
  "st_ttls (multi_evict p src s) = st_ttls s"
  "st_vessels (multi_evict p src s) = st_vessels s"
  "st_sources (multi_evict p src s) = st_sources s"
  "st_sent (multi_evict p src s) = st_sent s"
  "st_metadata (multi_evict p src s) = st_metadata s"
  by (simp_all add: multi_insert_def multi_evict_def split: option.splits)

lemma get_vessel_path_cong: "st_vessels s = st_vessels t \<Longrightarrow> get_vessel_path s = get_vessel_path t"
  by (simp add: get_vessel_path_def fun_eq_iff)

lemma get_vessel_path_multi [simp]:
  "get_vessel_path (multi_insert p src v s) = get_vessel_path s"
  "get_vessel_path (multi_evict p src s) = get_vessel_path s"
  by (simp_all add: get_vessel_path_def fun_eq_iff)

lemma by_source_multi_insert [map_upd_simps]:
  "get_self_path_by_source (multi_insert p src v s) p' src' =
     (if p' = p \<and> src' = src then Some v else get_self_path_by_source s p' src')"
  by (auto simp: get_self_path_by_source_def multi_insert_def unwrap_or_def split: option.splits)

lemma by_source_multi_evict [map_upd_simps]:
  "get_self_path_by_source (multi_evict p src s) p' src' =
     (if p' = p \<and> src' = src then None else get_self_path_by_source s p' src')"
  by (auto simp: get_self_path_by_source_def multi_evict_def split: option.splits)

lemma by_source_set_vessel [simp]:
  "get_self_path_by_source (set_vessel_value uri p v s) = get_self_path_by_source s"
  by (simp add: get_self_path_by_source_def fun_eq_iff)

lemma note_source_frame [frame_simps, simp]:
  "st_self_uri (note_source uri src v p s) = st_self_uri s"
  "st_priorities (note_source uri src v p s) = st_priorities s"
  "st_ttls (note_source uri src v p s) = st_ttls s"
  "st_sources (note_source uri src v p s) = st_sources s"
  "st_sent (note_source uri src v p s) = st_sent s"
  "st_metadata (note_source uri src v p s) = st_metadata s"
  "get_vessel_path (note_source uri src v p s) = get_vessel_path s"
  by (simp_all add: note_source_def)

lemma by_source_note_source [map_upd_simps]:
  "get_self_path_by_source (note_source uri src v p s) p' src' =
     (if uri = st_self_uri s \<and> p' = p \<and> src' = src then Some v
      else get_self_path_by_source s p' src')"
  by (simp add: note_source_def by_source_multi_insert)

lemma arbitration_cong:
  assumes "st_priorities s = st_priorities t" and "st_ttls s = st_ttls t"
  shows "priority_of s = priority_of t" and "evict_stale now s = evict_stale now t"
    and "should_update now s = should_update now t"
proof -
  show p: "priority_of s = priority_of t" using assms by (simp add: priority_of_def fun_eq_iff)
  show e: "evict_stale now s = evict_stale now t" using assms by (simp add: evict_stale_def fun_eq_iff)
  show "should_update now s = should_update now t" by (intro ext) (simp add: should_update_def p e split: option.split)
qed

lemma arbitration_note_source [simp]:
  "evict_stale now (note_source uri src v p s) = evict_stale now s"
  "should_update now (note_source uri src v p s) = should_update now s"
  by (rule arbitration_cong; simp)+

text \<open>The arbitration of one value, stated on the lookups.\<close>

definition accepts :: "datetime \<Rightarrow> store \<Rightarrow> string \<Rightarrow> source_ref \<Rightarrow> string \<Rightarrow> bool" where
  "accepts now s uri src p = should_update now s src (get_vessel_path s uri p)"

lemma apply_value_eq:
  "apply_value now uri src ts pv (s, ap) =
     (let v = signalk_value_new (pv_value pv) src ts; p = pv_path pv; s1 = note_source uri src v p s
      in if accepts now s uri src p
         then (set_vessel_value uri p v
                 (case evict_stale now s (get_vessel_path s uri p) of
                    Some ev \<Rightarrow> multi_evict p ev s1 | None \<Rightarrow> s1), ap @ [pv])
         else (s1, ap))"
  by (simp add: apply_value_def Let_def vessel_values_get accepts_def)

lemma apply_value_frame:
  assumes "apply_value now uri src ts pv (s, ap) = (s', ap')"
  shows "st_self_uri s' = st_self_uri s" "st_priorities s' = st_priorities s" "st_ttls s' = st_ttls s"
    "st_sources s' = st_sources s" "st_sent s' = st_sent s" "st_metadata s' = st_metadata s"
  using assms by (auto simp: apply_value_eq Let_def split: if_splits option.splits)

lemma apply_value_get:
  assumes "apply_value now uri src ts pv (s, ap) = (s', ap')"
  shows "get_vessel_path s' uri' p =
           (if uri' = uri \<and> p = pv_path pv \<and> accepts now s uri src p
            then Some (signalk_value_new (pv_value pv) src ts) else get_vessel_path s uri' p)"
    and "ap' = (if accepts now s uri src (pv_path pv) then ap @ [pv] else ap)"
  using assms by (auto simp: apply_value_eq Let_def set_vessel_value_get split: if_splits option.splits)

lemma apply_value_by_source:
  assumes "apply_value now uri src ts pv (s, ap) = (s', ap')"
  shows "get_self_path_by_source s' p src' =
     (if p = pv_path pv \<and> evict_stale now s (get_vessel_path s uri p) = Some src' then None
      else if uri = st_self_uri s \<and> p = pv_path pv \<and> src' = src
      then Some (signalk_value_new (pv_value pv) src ts)
      else get_self_path_by_source s p src')"
proof -
  have "evict_stale now s (get_vessel_path s uri p) \<noteq> None \<Longrightarrow> accepts now s uri src p"
    by (simp add: accepts_def should_update_def)
  then show ?thesis
    using assms
    by (auto simp: apply_value_eq Let_def by_source_multi_evict by_source_note_source
        split: if_splits option.splits)
qed

end
