(* ===== verification/StoreSpec.thy ===== *)
theory StoreSpec
  imports Store
begin

text \<open>
  What the data store promises: a subscriber that replays the broadcast log sees the store's
  values; with no times to live the active value is the best-priority source's and its
  per-source copy agrees; and an expired source can be replaced by any other. The store as its
  clients see it is the locale \<open>path_store\<close>, interpreted here on the model.
\<close>

section \<open>Folding over the values of an update\<close>

text \<open>What a subscriber does with one applied value.\<close>

definition put_value :: "source_ref \<Rightarrow> datetime \<Rightarrow> path_value \<Rightarrow> (string \<Rightarrow> signalk_value option)
    \<Rightarrow> (string \<Rightarrow> signalk_value option)" where
  "put_value src ts pv view = view(pv_path pv \<mapsto> signalk_value_new (pv_value pv) src ts)"

lemma fold_apply_value_frame:
  assumes "fold (apply_value now uri src ts) pvs (s, ap) = (s', ap')"
  shows "st_self_uri s' = st_self_uri s \<and> st_priorities s' = st_priorities s \<and> st_ttls s' = st_ttls s
    \<and> st_sources s' = st_sources s \<and> st_sent s' = st_sent s \<and> st_metadata s' = st_metadata s"
  using assms
proof (induction pvs arbitrary: s ap)
  case (Cons pv pvs)
  obtain s1 ap1 where 1: "apply_value now uri src ts pv (s, ap) = (s1, ap1)"
    by (cases "apply_value now uri src ts pv (s, ap)")
  with Cons.IH [of s1 ap1] Cons.prems apply_value_frame [OF 1] show ?case by simp
qed auto

lemma fold_apply_value_view:
  assumes "fold (apply_value now uri src ts) pvs (s, ap) = (s', ap')"
  shows "\<exists>new. ap' = ap @ new \<and>
           get_vessel_path s' uri = fold (put_value src ts) new (get_vessel_path s uri) \<and>
           (\<forall>uri'. uri' \<noteq> uri \<longrightarrow> get_vessel_path s' uri' = get_vessel_path s uri')"
  using assms
proof (induction pvs arbitrary: s ap)
  case Nil
  then show ?case by (intro exI [of _ "[]"]) auto
next
  case (Cons pv pvs)
  obtain s1 ap1 where 1: "apply_value now uri src ts pv (s, ap) = (s1, ap1)"
    by (cases "apply_value now uri src ts pv (s, ap)")
  with Cons.prems have "fold (apply_value now uri src ts) pvs (s1, ap1) = (s', ap')" by simp
  then obtain new where new: "ap' = ap1 @ new"
      "get_vessel_path s' uri = fold (put_value src ts) new (get_vessel_path s1 uri)"
      "\<forall>uri'. uri' \<noteq> uri \<longrightarrow> get_vessel_path s' uri' = get_vessel_path s1 uri'"
    using Cons.IH by blast
  have other: "\<forall>uri'. uri' \<noteq> uri \<longrightarrow> get_vessel_path s1 uri' = get_vessel_path s uri'"
    using apply_value_get(1) [OF 1] by (auto simp: fun_eq_iff)
  show ?case
  proof (cases "accepts now s uri src (pv_path pv)")
    case True
    then have "get_vessel_path s1 uri = put_value src ts pv (get_vessel_path s uri)" and "ap1 = ap @ [pv]"
      using apply_value_get [OF 1] by (auto simp: fun_eq_iff put_value_def)
    with new other show ?thesis by (intro exI [of _ "pv # new"]) auto
  next
    case False
    then have "get_vessel_path s1 uri = get_vessel_path s uri" and "ap1 = ap"
      using apply_value_get [OF 1] by (auto simp: fun_eq_iff)
    with new other show ?thesis by (intro exI [of _ new]) auto
  qed
qed

section \<open>Replaying the broadcast\<close>

text \<open>A subscriber folds the deltas it receives into its own picture of every vessel.\<close>

type_synonym view = "string \<Rightarrow> string \<Rightarrow> signalk_value option"

definition put_update :: "(json \<Rightarrow> string) \<Rightarrow> update \<Rightarrow> (string \<Rightarrow> signalk_value option)
    \<Rightarrow> (string \<Rightarrow> signalk_value option)" where
  "put_update disp u = fold (put_value (make_source_ref disp (u_source u)) (u_timestamp u)) (u_values u)"

definition client_delta :: "(json \<Rightarrow> string) \<Rightarrow> store \<Rightarrow> delta \<Rightarrow> view \<Rightarrow> view" where
  "client_delta disp s d view =
     (case strip_prefix ''vessels.'' (resolve_context s (d_context d)) of
        None \<Rightarrow> view
      | Some uri \<Rightarrow> view(uri := fold (put_update disp) (d_updates d) (view uri)))"

lemma client_delta_cong:
  assumes "st_self_uri s = st_self_uri t"
  shows "client_delta disp s = client_delta disp t"
proof -
  have "resolve_context s = resolve_context t"
    using assms by (auto simp: resolve_context_def fun_eq_iff split: option.splits)
  then show ?thesis by (intro ext) (simp add: client_delta_def)
qed

lemma register_source_frame [frame_simps, simp]:
  "st_self_uri (register_source src so s) = st_self_uri s"
  "st_priorities (register_source src so s) = st_priorities s"
  "st_ttls (register_source src so s) = st_ttls s"
  "st_sent (register_source src so s) = st_sent s"
  "st_metadata (register_source src so s) = st_metadata s"
  "st_multi (register_source src so s) = st_multi s"
  "get_vessel_path (register_source src so s) = get_vessel_path s"
  "get_self_path_by_source (register_source src so s) = get_self_path_by_source s"
  by (simp_all add: register_source_def Let_def get_vessel_path_def get_self_path_by_source_def fun_eq_iff)

lemma ensure_vessel_frame [frame_simps, simp]:
  "st_self_uri (ensure_vessel uri s) = st_self_uri s"
  "st_priorities (ensure_vessel uri s) = st_priorities s"
  "st_ttls (ensure_vessel uri s) = st_ttls s"
  "st_sent (ensure_vessel uri s) = st_sent s"
  "st_metadata (ensure_vessel uri s) = st_metadata s"
  "st_multi (ensure_vessel uri s) = st_multi s"
  "get_vessel_path (ensure_vessel uri s) = get_vessel_path s"
  "get_self_path_by_source (ensure_vessel uri s) = get_self_path_by_source s"
  by (auto simp: ensure_vessel_def get_vessel_path_def get_self_path_by_source_def fun_eq_iff
      vessel_default_def unwrap_or_def split: option.splits)

lemma apply_update_view:
  assumes "apply_update disp now uri u (s, us) = (s', us')"
  shows "st_self_uri s' = st_self_uri s \<and> st_priorities s' = st_priorities s \<and> st_ttls s' = st_ttls s
       \<and> st_sent s' = st_sent s"
    and "\<exists>new. us' = us @ new \<and>
           get_vessel_path s' uri = fold (put_update disp) new (get_vessel_path s uri) \<and>
           (\<forall>uri'. uri' \<noteq> uri \<longrightarrow> get_vessel_path s' uri' = get_vessel_path s uri')"
proof -
  define src where "src = make_source_ref disp (u_source u)"
  obtain s1 ap where f: "fold (apply_value now uri src (u_timestamp u)) (u_values u)
      (register_source src (u_source u) s, []) = (s1, ap)"
    by (cases "fold (apply_value now uri src (u_timestamp u)) (u_values u) (register_source src (u_source u) s, [])")
  with assms have s': "s' = s1" and us': "us' = (if ap = [] then us else us @ [u\<lparr>u_values := ap\<rparr>])"
    by (simp_all add: apply_update_def src_def Let_def)
  show "st_self_uri s' = st_self_uri s \<and> st_priorities s' = st_priorities s \<and> st_ttls s' = st_ttls s
       \<and> st_sent s' = st_sent s"
    using fold_apply_value_frame [OF f] by (simp add: s')
  from fold_apply_value_view [OF f]
  have v: "get_vessel_path s1 uri = fold (put_value src (u_timestamp u)) ap (get_vessel_path s uri)"
      "\<forall>uri'. uri' \<noteq> uri \<longrightarrow> get_vessel_path s1 uri' = get_vessel_path s uri'" by auto
  show "\<exists>new. us' = us @ new \<and>
           get_vessel_path s' uri = fold (put_update disp) new (get_vessel_path s uri) \<and>
           (\<forall>uri'. uri' \<noteq> uri \<longrightarrow> get_vessel_path s' uri' = get_vessel_path s uri')"
    using v us' s'
    by (intro exI [of _ "if ap = [] then [] else [u\<lparr>u_values := ap\<rparr>]"]) (auto simp: put_update_def src_def)
qed

lemma fold_apply_update_view:
  assumes "fold (apply_update disp now uri) ups (s, us) = (s', us')"
  shows "st_self_uri s' = st_self_uri s \<and> st_priorities s' = st_priorities s \<and> st_ttls s' = st_ttls s
       \<and> st_sent s' = st_sent s \<and>
       (\<exists>new. us' = us @ new \<and>
           get_vessel_path s' uri = fold (put_update disp) new (get_vessel_path s uri) \<and>
           (\<forall>uri'. uri' \<noteq> uri \<longrightarrow> get_vessel_path s' uri' = get_vessel_path s uri'))"
  using assms
proof (induction ups arbitrary: s us)
  case Nil
  then show ?case by auto
next
  case (Cons u ups)
  obtain s1 us1 where 1: "apply_update disp now uri u (s, us) = (s1, us1)"
    by (cases "apply_update disp now uri u (s, us)")
  with Cons.prems have "fold (apply_update disp now uri) ups (s1, us1) = (s', us')" by simp
  note IH = Cons.IH [OF this]
  from apply_update_view(2) [OF 1] obtain n1 where n1: "us1 = us @ n1"
     "get_vessel_path s1 uri = fold (put_update disp) n1 (get_vessel_path s uri)"
     "\<forall>uri'. uri' \<noteq> uri \<longrightarrow> get_vessel_path s1 uri' = get_vessel_path s uri'" by blast
  from IH obtain n2 where n2: "us' = us1 @ n2"
     "get_vessel_path s' uri = fold (put_update disp) n2 (get_vessel_path s1 uri)"
     "\<forall>uri'. uri' \<noteq> uri \<longrightarrow> get_vessel_path s' uri' = get_vessel_path s1 uri'" by blast
  show ?case using IH apply_update_view(1) [OF 1] n1 n2
    by (intro conjI exI [of _ "n1 @ n2"]) auto
qed

lemma apply_delta_view:
  "st_self_uri (apply_delta disp now d s) = st_self_uri s \<and>
   st_priorities (apply_delta disp now d s) = st_priorities s \<and>
   st_ttls (apply_delta disp now d s) = st_ttls s \<and>
   (\<exists>new. st_sent (apply_delta disp now d s) = st_sent s @ new \<and>
      get_vessel_path (apply_delta disp now d s) = fold (client_delta disp s) new (get_vessel_path s))"
proof (cases "strip_prefix ''vessels.'' (resolve_context s (d_context d))")
  case None
  then show ?thesis
    by (auto simp: apply_delta_def broadcast_def client_delta_def get_vessel_path_def fun_eq_iff)
next
  case (Some uri)
  obtain s' us where f: "fold (apply_update disp now uri) (d_updates d) (ensure_vessel uri s, []) = (s', us)"
    by (cases "fold (apply_update disp now uri) (d_updates d) (ensure_vessel uri s, [])")
  define d' where "d' = \<lparr>d_context = d_context d, d_updates = us\<rparr>"
  have eq: "apply_delta disp now d s =
      (if us = [] then s' else (broadcast d' s')\<lparr>st_delta_count := st_delta_count s' + 1\<rparr>)"
    using Some f by (simp add: apply_delta_def d'_def)
  note v = fold_apply_update_view [OF f, simplified]
  have v1: "get_vessel_path s' = (get_vessel_path s)(uri := fold (put_update disp) us (get_vessel_path s uri))"
    using v by (auto simp: fun_eq_iff)
  have gb: "get_vessel_path ((broadcast d' s')\<lparr>st_delta_count := st_delta_count s' + 1\<rparr>) = get_vessel_path s'"
    by (simp add: get_vessel_path_def broadcast_def fun_eq_iff)
  have c: "client_delta disp s d' w = w(uri := fold (put_update disp) us (w uri))" for w
    using Some by (simp add: client_delta_def d'_def)
  show ?thesis
  proof (cases "us = []")
    case True
    with v v1 show ?thesis by (auto simp: eq)
  next
    case False
    with v v1 gb show ?thesis
      by (auto simp: eq broadcast_def intro!: exI [of _ "[d']"] simp: c)
  qed
qed

section \<open>Reachable stores\<close>

text \<open>The mutating operations of the server, as steps. \<open>set_self_path\<close> is left out: it writes
  without broadcasting, and nothing under \<^verbatim>\<open>src/\<close> calls it.\<close>

inductive store_step :: "(json \<Rightarrow> string) \<Rightarrow> store \<Rightarrow> store \<Rightarrow> bool" for disp where
  step_delta: "store_step disp s (apply_delta disp now d s)"
| step_priorities: "store_step disp s (set_source_priorities ps s)"
| step_ttls: "store_step disp s (set_source_ttls ts s)"
| step_identity: "store_step disp s (set_vessel_identity uri name mmsi s)"
| step_metadata: "store_step disp s (set_metadata p m s)"

inductive_cases store_stepE: "store_step disp s t"

inductive store_reach :: "(json \<Rightarrow> string) \<Rightarrow> string \<Rightarrow> store \<Rightarrow> bool" for disp uri where
  reach_new: "store_reach disp uri (store_new uri)"
| reach_step: "store_reach disp uri s \<Longrightarrow> store_step disp s t \<Longrightarrow> store_reach disp uri t"

lemma store_new_get [simp]: "get_vessel_path (store_new uri) u p = None"
  by (simp add: store_new_def get_vessel_path_def vessel_default_def)

lemma set_config_frame [frame_simps, simp]:
  "st_self_uri (set_source_priorities ps s) = st_self_uri s"
  "st_self_uri (set_source_ttls ts s) = st_self_uri s"
  "st_self_uri (set_metadata p m s) = st_self_uri s"
  "st_self_uri (set_vessel_identity uri name mmsi s) = st_self_uri s"
  "st_sent (set_source_priorities ps s) = st_sent s"
  "st_sent (set_source_ttls ts s) = st_sent s"
  "st_sent (set_metadata p m s) = st_sent s"
  "st_sent (set_vessel_identity uri name mmsi s) = st_sent s"
  "get_vessel_path (set_source_priorities ps s) = get_vessel_path s"
  "get_vessel_path (set_source_ttls ts s) = get_vessel_path s"
  "get_vessel_path (set_metadata p m s) = get_vessel_path s"
  "get_vessel_path (set_vessel_identity uri name mmsi s) = get_vessel_path s"
  by (auto simp: set_source_priorities_def set_source_ttls_def set_metadata_def set_vessel_identity_def
      get_vessel_path_def Let_def fun_eq_iff split: option.splits)

definition in_sync :: "(json \<Rightarrow> string) \<Rightarrow> store \<Rightarrow> bool" where
  "in_sync disp s \<longleftrightarrow> get_vessel_path s = fold (client_delta disp s) (st_sent s) (\<lambda>_ _. None)"

lemma in_sync_new: "in_sync disp (store_new uri)"
  by (simp add: in_sync_def fun_eq_iff) (simp add: store_new_def)

lemma in_sync_delta [inv_intros]:
  assumes "in_sync disp s" shows "in_sync disp (apply_delta disp now d s)"
proof -
  from apply_delta_view [of disp now d s] obtain new where
    n: "st_sent (apply_delta disp now d s) = st_sent s @ new"
       "get_vessel_path (apply_delta disp now d s) = fold (client_delta disp s) new (get_vessel_path s)"
       "st_self_uri (apply_delta disp now d s) = st_self_uri s" by auto
  moreover have "client_delta disp (apply_delta disp now d s) = client_delta disp s"
    using n(3) by (rule client_delta_cong)
  ultimately show ?thesis using assms by (simp add: in_sync_def)
qed

lemma in_sync_frame:
  assumes "st_self_uri t = st_self_uri s" and "st_sent t = st_sent s"
    and "get_vessel_path t = get_vessel_path s"
  shows "in_sync disp t = in_sync disp s"
  using client_delta_cong [OF assms(1), of disp] assms(2,3) by (simp add: in_sync_def)

lemma in_sync_step: "store_step disp s t \<Longrightarrow> in_sync disp s \<Longrightarrow> in_sync disp t"
  by (erule store_stepE; hypsubst;
      ((rule in_sync_delta, assumption) | (rule iffD2 [OF in_sync_frame [where s = s]]; simp)))

text \<open>Claim C1. Whatever deltas arrive, from whatever sources and at whatever times, and however
  the priorities and times to live are reconfigured in between: a subscriber that has replayed
  every broadcast delta holds exactly the values the store serves, for every vessel and path,
  with the same source and timestamp.\<close>

theorem broadcast_replays_store:
  assumes "store_reach disp uri s"
  shows "get_vessel_path s = fold (client_delta disp s) (st_sent s) (\<lambda>_ _. None)"
proof -
  from assms have "in_sync disp s"
    by (induction rule: store_reach.induct) (blast intro: in_sync_new in_sync_step)+
  then show ?thesis by (simp add: in_sync_def)
qed

text \<open>The hypothesis of C2 at a run with two sources: the second value is in the log and in the
  store.\<close>

theorem broadcast_replays_store_witness:
  "let disp = (\<lambda>_. []); s = apply_delta disp 0
     (self_vessel [update_new 0 (source_plugin ''ais'') [path_value_new ''a.b'' (JBool True)]])
     (store_new ''me'')
   in get_vessel_path s = fold (client_delta disp s) (st_sent s) (\<lambda>_ _. None)"
proof -
  define disp where "disp = (\<lambda>_ :: json. [] :: string)"
  define s where "s = apply_delta disp 0
     (self_vessel [update_new 0 (source_plugin ''ais'') [path_value_new ''a.b'' (JBool True)]])
     (store_new ''me'')"
  have "store_reach disp ''me'' s"
    unfolding s_def by (rule reach_step [OF reach_new step_delta])
  from broadcast_replays_store [OF this] show ?thesis unfolding s_def disp_def Let_def .
qed

section \<open>Arbitration between sources\<close>

text \<open>What the store keeps true of the own vessel when no source has a time to live: an active
  value is the per-source copy of its source, and no source that has a copy is better.\<close>

definition arbitrated :: "store \<Rightarrow> bool" where
  "arbitrated s \<longleftrightarrow>
     (\<forall>p. case get_vessel_path s (st_self_uri s) p of
        None \<Rightarrow> \<forall>src. get_self_path_by_source s p src = None
      | Some v \<Rightarrow>
          get_self_path_by_source s p (sk_source v) = Some v \<and>
          (\<forall>src w. get_self_path_by_source s p src = Some w \<longrightarrow>
             priority_of s (sk_source v) \<le> priority_of s src))"

lemma no_ttl_no_evict: "st_ttls s = Map.empty \<Longrightarrow> evict_stale now s cur = None"
  by (auto simp: evict_stale_def split: Option.bind_splits)

lemma accepts_no_ttl:
  assumes "st_ttls s = Map.empty"
  shows "accepts now s uri src p \<longleftrightarrow>
     (case get_vessel_path s uri p of None \<Rightarrow> True
      | Some v \<Rightarrow> priority_of s src \<le> priority_of s (sk_source v))"
  using no_ttl_no_evict [OF assms] by (simp add: accepts_def should_update_def)

lemma arbitrated_apply_value:
  assumes step: "apply_value now uri src ts pv (s, ap) = (s', ap')"
    and ttl: "st_ttls s = Map.empty" and inv: "arbitrated s"
  shows "arbitrated s'"
proof -
  note fr = apply_value_frame [OF step]
  note gt = apply_value_get(1) [OF step]
  note bs = apply_value_by_source [OF step, unfolded no_ttl_no_evict [OF ttl]]
  have pr: "priority_of s' = priority_of s" using fr by (intro arbitration_cong) auto
  note acc = accepts_no_ttl [OF ttl]
  show ?thesis
    unfolding arbitrated_def fr(1) pr
  proof
    fix p
    have ip: "case get_vessel_path s (st_self_uri s) p of
        None \<Rightarrow> \<forall>src. get_self_path_by_source s p src = None
      | Some v \<Rightarrow> get_self_path_by_source s p (sk_source v) = Some v \<and>
          (\<forall>src w. get_self_path_by_source s p src = Some w \<longrightarrow>
             priority_of s (sk_source v) \<le> priority_of s src)"
      using inv by (simp add: arbitrated_def)
    show "case get_vessel_path s' (st_self_uri s) p of
        None \<Rightarrow> \<forall>src. get_self_path_by_source s' p src = None
      | Some v \<Rightarrow> get_self_path_by_source s' p (sk_source v) = Some v \<and>
          (\<forall>src w. get_self_path_by_source s' p src = Some w \<longrightarrow>
             priority_of s (sk_source v) \<le> priority_of s src)"
    proof (cases "uri = st_self_uri s \<and> p = pv_path pv")
      case False
      with ip show ?thesis by (auto simp: gt bs split: option.splits)
    next
      case True
      with ip show ?thesis
        by (auto simp: gt bs acc split: option.splits dest: order_trans)
    qed
  qed
qed

lemma fold_apply_value_inv:
  assumes "fold (apply_value now uri src ts) pvs (s, ap) = (s', ap')"
    and "st_ttls s = Map.empty" and "arbitrated s"
  shows "arbitrated s'"
  using assms
proof (induction pvs arbitrary: s ap)
  case (Cons pv pvs)
  obtain s1 ap1 where 1: "apply_value now uri src ts pv (s, ap) = (s1, ap1)"
    by (cases "apply_value now uri src ts pv (s, ap)")
  with Cons.IH [of s1 ap1] Cons.prems apply_value_frame(3) [OF 1] arbitrated_apply_value [OF 1]
  show ?case by simp
qed auto

lemma arbitrated_frame:
  assumes "st_self_uri t = st_self_uri s" and "st_priorities t = st_priorities s"
    and "st_ttls t = st_ttls s" and "get_vessel_path t = get_vessel_path s"
    and "get_self_path_by_source t = get_self_path_by_source s"
  shows "arbitrated t = arbitrated s"
proof -
  have pr: "priority_of t = priority_of s" using assms(2,3) by (rule arbitration_cong)
  show ?thesis unfolding arbitrated_def assms(1,4,5) pr ..
qed

lemma apply_update_inv:
  assumes "apply_update disp now uri u (s, us) = (s', us')"
    and "st_ttls s = Map.empty" and "arbitrated s"
  shows "arbitrated s' \<and> st_ttls s' = Map.empty"
proof -
  define src where "src = make_source_ref disp (u_source u)"
  define r where "r = register_source src (u_source u) s"
  obtain s1 ap where f: "fold (apply_value now uri src (u_timestamp u)) (u_values u) (r, []) = (s1, ap)"
    by (cases "fold (apply_value now uri src (u_timestamp u)) (u_values u) (r, [])")
  with assms(1) have "s' = s1" by (simp add: apply_update_def src_def r_def Let_def)
  moreover have "arbitrated r" using assms(3) arbitrated_frame [of r s] by (simp add: r_def)
  ultimately show ?thesis
    using fold_apply_value_inv [OF f] fold_apply_value_frame [OF f] assms(2) by (simp add: r_def)
qed

lemma fold_apply_update_inv:
  assumes "fold (apply_update disp now uri) ups (s, us) = (s', us')"
    and "st_ttls s = Map.empty" and "arbitrated s"
  shows "arbitrated s'"
  using assms
proof (induction ups arbitrary: s us)
  case (Cons u ups)
  obtain s1 us1 where 1: "apply_update disp now uri u (s, us) = (s1, us1)"
    by (cases "apply_update disp now uri u (s, us)")
  with Cons.IH [of s1 us1] Cons.prems apply_update_inv [OF 1] show ?case by simp
qed auto

lemma broadcast_frame [frame_simps, simp]:
  "st_self_uri (broadcast d s) = st_self_uri s" "st_priorities (broadcast d s) = st_priorities s"
  "st_ttls (broadcast d s) = st_ttls s" "get_vessel_path (broadcast d s) = get_vessel_path s"
  "get_self_path_by_source (broadcast d s) = get_self_path_by_source s"
  "get_vessel_path (s\<lparr>st_delta_count := n\<rparr>) = get_vessel_path s"
  "get_self_path_by_source (s\<lparr>st_delta_count := n\<rparr>) = get_self_path_by_source s"
  by (simp_all add: broadcast_def get_vessel_path_def get_self_path_by_source_def fun_eq_iff)

text \<open>Claim C2. Source arbitration: while no time to live is configured, applying any delta keeps
  the own vessel arbitrated. The active value of every path is the latest value of the source it
  names, and no source that ever sent the path has a better (lower) priority.\<close>

theorem apply_delta_arbitrated:
  assumes "st_ttls s = Map.empty" and "arbitrated s"
  shows "arbitrated (apply_delta disp now d s)"
proof (cases "strip_prefix ''vessels.'' (resolve_context s (d_context d))")
  case None
  then show ?thesis using assms(2) arbitrated_frame [of "broadcast d s" s] by (simp add: apply_delta_def)
next
  case (Some uri)
  define e where "e = ensure_vessel uri s"
  obtain s' us where f: "fold (apply_update disp now uri) (d_updates d) (e, []) = (s', us)"
    by (cases "fold (apply_update disp now uri) (d_updates d) (e, [])")
  have "arbitrated e" using assms(2) arbitrated_frame [of e s] by (simp add: e_def)
  then have a: "arbitrated s'" using fold_apply_update_inv [OF f] assms(1) by (simp add: e_def)
  define d' where "d' = \<lparr>d_context = d_context d, d_updates = us\<rparr>"
  have "apply_delta disp now d s =
      (if us = [] then s' else (broadcast d' s')\<lparr>st_delta_count := st_delta_count s' + 1\<rparr>)"
    using Some f by (simp add: apply_delta_def d'_def e_def)
  then show ?thesis
    using a arbitrated_frame [of "(broadcast d' s')\<lparr>st_delta_count := st_delta_count s' + 1\<rparr>" s'] by simp
qed

lemma arbitrated_new: "arbitrated (store_new uri)"
  by (simp add: arbitrated_def) (simp add: store_new_def get_self_path_by_source_def)

theorem apply_delta_arbitrated_witness:
  "arbitrated (apply_delta (\<lambda>_. []) 5
     (self_vessel [update_new 0 (source_plugin ''gps'') [path_value_new ''a.b'' JNull]])
     (set_source_priorities [''gps'' \<mapsto> 10] (store_new ''me'')))"
proof (rule apply_delta_arbitrated)
  show "st_ttls (set_source_priorities [''gps'' \<mapsto> 10] (store_new ''me'')) = Map.empty"
    by (simp add: set_source_priorities_def store_new_def)
  show "arbitrated (set_source_priorities [''gps'' \<mapsto> 10] (store_new ''me''))"
    by (simp add: arbitrated_def)
       (simp add: set_source_priorities_def store_new_def get_self_path_by_source_def)
qed

section \<open>One update at a time\<close>

lemma accepts_cong:
  assumes "st_priorities t = st_priorities s" and "st_ttls t = st_ttls s"
    and "get_vessel_path t uri p = get_vessel_path s uri p"
  shows "accepts now t uri src p = accepts now s uri src p"
  using arbitration_cong(3) [OF assms(1,2)] assms(3) by (simp add: accepts_def)

lemma fold_value_notin:
  assumes "fold (apply_value now uri src ts) pvs (s, ap) = (s', ap')"
    and "p \<notin> set (map pv_path pvs)"
  shows "get_vessel_path s' u p = get_vessel_path s u p \<and>
         get_self_path_by_source s' p = get_self_path_by_source s p"
  using assms
proof (induction pvs arbitrary: s ap)
  case (Cons pv pvs)
  obtain s1 ap1 where 1: "apply_value now uri src ts pv (s, ap) = (s1, ap1)"
    by (cases "apply_value now uri src ts pv (s, ap)")
  have "get_self_path_by_source s1 p = get_self_path_by_source s p"
    using apply_value_by_source [OF 1] Cons.prems(2) by (auto simp: fun_eq_iff)
  with Cons.IH [of s1 ap1] Cons.prems 1 apply_value_get(1) [OF 1] show ?case by simp
qed auto

lemma fold_value_in:
  assumes "fold (apply_value now uri src ts) pvs (s, ap) = (s', ap')"
    and "distinct (map pv_path pvs)" and "pv \<in> set pvs"
  shows "get_vessel_path s' uri (pv_path pv) =
           (if accepts now s uri src (pv_path pv) then Some (signalk_value_new (pv_value pv) src ts)
            else get_vessel_path s uri (pv_path pv)) \<and>
         get_self_path_by_source s' (pv_path pv) src' =
           (if evict_stale now s (get_vessel_path s uri (pv_path pv)) = Some src' then None
            else if uri = st_self_uri s \<and> src' = src then Some (signalk_value_new (pv_value pv) src ts)
            else get_self_path_by_source s (pv_path pv) src')"
  using assms
proof (induction pvs arbitrary: s ap)
  case (Cons x pvs)
  obtain s1 ap1 where 1: "apply_value now uri src ts x (s, ap) = (s1, ap1)"
    by (cases "apply_value now uri src ts x (s, ap)")
  with Cons.prems have rest: "fold (apply_value now uri src ts) pvs (s1, ap1) = (s', ap')" by simp
  note fr = apply_value_frame [OF 1]
  show ?case
  proof (cases "pv = x")
    case True
    with Cons.prems(2) fold_value_notin [OF rest, of "pv_path pv" uri] show ?thesis
      by (auto simp: apply_value_get(1) [OF 1] apply_value_by_source [OF 1])
  next
    case False
    with Cons.prems have "pv \<in> set pvs" "pv_path pv \<noteq> pv_path x" by (auto simp: image_iff)
    moreover have "evict_stale now s1 = evict_stale now s" using fr by (intro arbitration_cong) auto
    ultimately show ?thesis
      using Cons.IH [OF rest] Cons.prems(2) fr accepts_cong [OF fr(2,3)]
      by (simp add: apply_value_get(1) [OF 1] apply_value_by_source [OF 1])
  qed
qed auto

text \<open>The store after a delta with one update, on the paths the update names and on the others.\<close>

lemma apply_delta_one_update:
  fixes disp :: "json \<Rightarrow> string"
  assumes ctx: "strip_prefix ''vessels.'' (resolve_context s (d_context d)) = Some uri"
    and ups: "d_updates d = [u]" and dist: "distinct (map pv_path (u_values u))"
  defines "src \<equiv> make_source_ref disp (u_source u)"
  shows "p \<notin> set (map pv_path (u_values u)) \<Longrightarrow>
           get_vessel_path (apply_delta disp now d s) uri p = get_vessel_path s uri p \<and>
           get_self_path_by_source (apply_delta disp now d s) p = get_self_path_by_source s p"
    and "pv \<in> set (u_values u) \<Longrightarrow>
           get_vessel_path (apply_delta disp now d s) uri (pv_path pv) =
             (if accepts now s uri src (pv_path pv)
              then Some (signalk_value_new (pv_value pv) src (u_timestamp u))
              else get_vessel_path s uri (pv_path pv)) \<and>
           get_self_path_by_source (apply_delta disp now d s) (pv_path pv) src' =
             (if evict_stale now s (get_vessel_path s uri (pv_path pv)) = Some src' then None
              else if uri = st_self_uri s \<and> src' = src
              then Some (signalk_value_new (pv_value pv) src (u_timestamp u))
              else get_self_path_by_source s (pv_path pv) src')"
proof -
  define r where "r = register_source src (u_source u) (ensure_vessel uri s)"
  obtain s1 ap where f: "fold (apply_value now uri src (u_timestamp u)) (u_values u) (r, []) = (s1, ap)"
    by (cases "fold (apply_value now uri src (u_timestamp u)) (u_values u) (r, [])")
  have "apply_delta disp now d s =
      (if ap = [] then s1 else (broadcast \<lparr>d_context = d_context d, d_updates = [u\<lparr>u_values := ap\<rparr>]\<rparr> s1)
         \<lparr>st_delta_count := st_delta_count s1 + 1\<rparr>)"
    using f by (simp add: apply_delta_def ctx ups apply_update_def Let_def src_def r_def)
  then have e: "get_vessel_path (apply_delta disp now d s) = get_vessel_path s1"
      "get_self_path_by_source (apply_delta disp now d s) = get_self_path_by_source s1" by auto
  have rf: "st_self_uri r = st_self_uri s" "st_priorities r = st_priorities s" "st_ttls r = st_ttls s"
      "get_vessel_path r = get_vessel_path s" "get_self_path_by_source r = get_self_path_by_source s"
    by (simp_all add: r_def)
  have ev: "evict_stale now r = evict_stale now s" using rf by (intro arbitration_cong) auto
  have ac: "accepts now r uri src q = accepts now s uri src q" for q
    using rf by (intro accepts_cong) auto
  show "p \<notin> set (map pv_path (u_values u)) \<Longrightarrow>
           get_vessel_path (apply_delta disp now d s) uri p = get_vessel_path s uri p \<and>
           get_self_path_by_source (apply_delta disp now d s) p = get_self_path_by_source s p"
    using fold_value_notin [OF f] rf e by simp
  show "pv \<in> set (u_values u) \<Longrightarrow>
           get_vessel_path (apply_delta disp now d s) uri (pv_path pv) =
             (if accepts now s uri src (pv_path pv)
              then Some (signalk_value_new (pv_value pv) src (u_timestamp u))
              else get_vessel_path s uri (pv_path pv)) \<and>
           get_self_path_by_source (apply_delta disp now d s) (pv_path pv) src' =
             (if evict_stale now s (get_vessel_path s uri (pv_path pv)) = Some src' then None
              else if uri = st_self_uri s \<and> src' = src
              then Some (signalk_value_new (pv_value pv) src (u_timestamp u))
              else get_self_path_by_source s (pv_path pv) src')"
    using fold_value_in [OF f dist] rf e ev ac by simp
qed

lemma make_source_ref_plugin [simp]: "make_source_ref disp (source_plugin l) = l"
  by (simp add: make_source_ref_def source_plugin_def)

lemma strip_self [simp]:
  "strip_prefix ''vessels.'' (resolve_context s (Some ''vessels.self'')) = Some (st_self_uri s)"
  by (simp add: resolve_context_def strip_prefix_Some)

section \<open>Times to live\<close>

definition expired :: "datetime \<Rightarrow> store \<Rightarrow> signalk_value \<Rightarrow> bool" where
  "expired now s v \<longleftrightarrow>
     (case st_ttls s (sk_source v) of None \<Rightarrow> False
      | Some ttl \<Rightarrow> sint ttl < num_seconds (now - sk_timestamp v))"

lemma evict_stale_expired:
  "evict_stale now s (Some v) = (if expired now s v then Some (sk_source v) else None)"
  by (auto simp: evict_stale_def expired_def split: option.splits)

text \<open>A delta with a single value, the unit of the statements below.\<close>

lemma apply_one_value:
  assumes ctx: "strip_prefix ''vessels.'' (resolve_context s ctx) = Some uri"
    and d: "d = \<lparr>d_context = ctx, d_updates = [update_new ts so [path_value_new p v]]\<rparr>"
    and src: "src = make_source_ref disp so"
  shows "get_vessel_path (apply_delta disp now d s) uri p =
           (if accepts now s uri src p then Some (signalk_value_new v src ts)
            else get_vessel_path s uri p)"
    and "get_self_path_by_source (apply_delta disp now d s) p src' =
           (if evict_stale now s (get_vessel_path s uri p) = Some src' then None
            else if uri = st_self_uri s \<and> src' = src then Some (signalk_value_new v src ts)
            else get_self_path_by_source s p src')"
  using apply_delta_one_update(2) [of s d uri "update_new ts so [path_value_new p v]"
      "path_value_new p v" disp now src'] ctx
  by (simp_all add: d src update_new_def path_value_new_def)

lemma apply_delta_other_vessel:
  assumes ctx: "strip_prefix ''vessels.'' (resolve_context s (d_context d)) = Some uri" and "v \<noteq> uri"
  shows "get_vessel_path (apply_delta disp now d s) v = get_vessel_path s v"
proof -
  obtain s' us where f: "fold (apply_update disp now uri) (d_updates d) (ensure_vessel uri s, []) = (s', us)"
    by (cases "fold (apply_update disp now uri) (d_updates d) (ensure_vessel uri s, [])")
  have e: "get_vessel_path (apply_delta disp now d s) v = get_vessel_path s' v"
    using ctx f by (simp add: apply_delta_def broadcast_def get_vessel_path_def fun_eq_iff)
  show ?thesis
    unfolding e using fold_apply_update_view [OF f] assms(2) by simp
qed

lemma accepts_worse:
  assumes "get_vessel_path s uri p = Some c" and "priority_of s (sk_source c) < priority_of s src"
  shows "accepts now s uri src p \<longleftrightarrow> expired now s c"
  using assms by (simp add: accepts_def should_update_def evict_stale_expired not_le)

lemma accepts_same_source:
  "get_vessel_path s uri p = Some c \<Longrightarrow> sk_source c = src \<Longrightarrow> accepts now s uri src p"
  by (simp add: accepts_def should_update_def)

lemma accepts_fresh_path: "get_vessel_path s uri p = None \<Longrightarrow> accepts now s uri src p"
  by (simp add: accepts_def should_update_def)

lemma accepts_expired: "get_vessel_path s uri p = Some c \<Longrightarrow> expired now s c \<Longrightarrow> accepts now s uri src p"
  by (simp add: accepts_def should_update_def evict_stale_expired)

text \<open>Claim C3. A source with a worse priority takes over the active value of a path exactly when
  that value has outlived the time to live of its own source; the expired source then no longer
  appears among the sources of the path, and without expiry nothing but the sender's own copy
  changes.\<close>

theorem worse_source_takes_over_iff_expired:
  assumes cur: "get_vessel_path s (st_self_uri s) p = Some c"
    and worse: "priority_of s (sk_source c) < priority_of s src"
    and s'_def: "s' = apply_delta disp now
      (self_vessel [update_new ts (source_plugin src) [path_value_new p v]]) s"
  shows "get_vessel_path s' (st_self_uri s) p =
           (if expired now s c then Some (signalk_value_new v src ts) else Some c) \<and>
         get_self_path_by_source s' p src = Some (signalk_value_new v src ts) \<and>
         get_self_path_by_source s' p (sk_source c) =
           (if expired now s c then None else get_self_path_by_source s p (sk_source c))"
proof -
  have ne: "sk_source c \<noteq> src" using worse by auto
  note one = apply_one_value [OF strip_self self_vessel_def refl, where disp = disp and now = now
      and s = s and ts = ts and so = "source_plugin src" and p = p and v = v]
  show ?thesis
    using one ne cur accepts_worse [OF cur worse] by (simp add: s'_def evict_stale_expired)
qed

text \<open>A store where \<open>gps\<close> (priority 10, five seconds to live) wrote a path at time 0.\<close>

definition gps_store :: "string \<Rightarrow> store" where
  "gps_store ctx = apply_delta (\<lambda>_. []) 0
     \<lparr>d_context = Some ctx, d_updates = [update_new 0 (source_plugin ''gps'') [path_value_new ''a'' (JBool True)]]\<rparr>
     ((store_new ''me'')\<lparr>st_priorities := [''gps'' \<mapsto> 10], st_ttls := [''gps'' \<mapsto> 5]\<rparr>)"

lemma gps_store_frame [simp]:
  "st_self_uri (gps_store ctx) = ''me''" "st_priorities (gps_store ctx) = [''gps'' \<mapsto> 10]"
  "st_ttls (gps_store ctx) = [''gps'' \<mapsto> 5]"
  using apply_delta_view [of "\<lambda>_. []" 0 _ "(store_new ''me'')\<lparr>st_priorities := [''gps'' \<mapsto> 10], st_ttls := [''gps'' \<mapsto> 5]\<rparr>"]
  by (simp_all add: gps_store_def) (simp_all add: store_new_def)

lemma gps_store_get:
  assumes "ctx = ''vessels.'' @ uri" and "uri = ''me'' \<or> uri = ''it''"
  shows "get_vessel_path (gps_store ctx) uri ''a'' = Some (signalk_value_new (JBool True) ''gps'' 0)"
proof -
  define s where "s = (store_new ''me'')\<lparr>st_priorities := [''gps'' \<mapsto> 10], st_ttls := [''gps'' \<mapsto> 5 :: u64]\<rparr>"
  have g: "get_vessel_path s uri ''a'' = None"
    using get_vessel_path_cong [of s "store_new ''me''"] by (simp add: s_def)
  have c: "strip_prefix ''vessels.'' (resolve_context s (Some ctx)) = Some uri"
    using assms by (auto simp: resolve_context_def strip_prefix_Some)
  show ?thesis
    using apply_one_value(1) [OF c refl refl, where now = 0 and disp = "\<lambda>_. []" and ts = 0
        and so = "source_plugin ''gps''" and p = "''a''" and v = "JBool True"] accepts_fresh_path [OF g]
    by (simp add: gps_store_def s_def)
qed

lemma gps_expired: "expired 10000000000 (gps_store ctx) (signalk_value_new v ''gps'' 0)"
  by (simp add: expired_def num_seconds_def)

theorem worse_source_takes_over_iff_expired_witness:
  "get_vessel_path (apply_delta (\<lambda>_. []) 10000000000
      (self_vessel [update_new 9 (source_plugin ''ais'') [path_value_new ''a'' JNull]])
      (gps_store ''vessels.me'')) ''me'' ''a'' = Some (signalk_value_new JNull ''ais'' 9)"
  using worse_source_takes_over_iff_expired [of "gps_store ''vessels.me''" "''a''", OF _ _ refl,
      of "signalk_value_new (JBool True) ''gps'' 0" "''ais''" "\<lambda>_. []" 10000000000 9 JNull]
    gps_store_get [of "''vessels.me''" "''me''"] gps_expired [of "''vessels.me''" "JBool True"]
  by (simp add: priority_of_def DEFAULT_SOURCE_PRIORITY_def)

text \<open>A source whose own active value has expired and which then reports again becomes
  active again, but its entry among the sources of the path is deleted by the same delta: the
  fresh value is inserted first and the stale entry, which has the same key, is evicted
  afterwards. A client that asks for that source by name gets nothing although its value is the
  active one.\<close>

theorem returning_source_loses_its_copy:
  assumes cur: "get_vessel_path s (st_self_uri s) p = Some c" and src: "sk_source c = src"
    and old: "expired now s c"
    and s'_def: "s' = apply_delta disp now
      (self_vessel [update_new ts (source_plugin src) [path_value_new p v]]) s"
  shows "get_vessel_path s' (st_self_uri s) p = Some (signalk_value_new v src ts) \<and>
         get_self_path_by_source s' p src = None"
  using apply_one_value [OF strip_self self_vessel_def refl, where disp = disp and now = now
      and s = s and ts = ts and so = "source_plugin src" and p = p and v = v]
    cur src old accepts_same_source [OF cur src, of now]
  by (simp add: s'_def evict_stale_expired)

theorem returning_source_loses_its_copy_witness:
  "get_self_path_by_source (apply_delta (\<lambda>_. []) 10000000000
      (self_vessel [update_new 9 (source_plugin ''gps'') [path_value_new ''a'' JNull]])
      (gps_store ''vessels.me'')) ''a'' ''gps'' = None"
  using returning_source_loses_its_copy [of "gps_store ''vessels.me''" "''a''", OF _ _ _ refl,
      of "signalk_value_new (JBool True) ''gps'' 0" "''gps''" 10000000000 "\<lambda>_. []" 9 JNull]
    gps_store_get [of "''vessels.me''" "''me''"] gps_expired [of "''vessels.me''" "JBool True"]
  by simp

text \<open>Expiry leaks between vessels: a delta about another vessel, whose active value has
  expired, deletes the expired source's entry among the sources of the same path of the own
  vessel, whose active value stays as it is.\<close>

theorem foreign_expiry_evicts_own_source:
  assumes ctx: "strip_prefix ''vessels.'' (resolve_context s (Some other)) = Some uri"
    and foreign: "uri \<noteq> st_self_uri s"
    and cur: "get_vessel_path s uri p = Some c" and old: "expired now s c"
    and s'_def: "s' = apply_delta disp now
      (with_context other [update_new ts (source_plugin src) [path_value_new p v]]) s"
  shows "get_self_path_by_source s' p (sk_source c) = None \<and>
         get_vessel_path s' (st_self_uri s) = get_vessel_path s (st_self_uri s)"
  using apply_one_value(2) [OF ctx with_context_def refl, where disp = disp and now = now
      and ts = ts and so = "source_plugin src" and p = p and v = v and src' = "sk_source c"]
    apply_delta_other_vessel [of s "with_context other [update_new ts (source_plugin src) [path_value_new p v]]"]
    ctx foreign cur old
  by (simp add: s'_def evict_stale_expired) (simp add: with_context_def)

text \<open>Both vessels have a value of \<open>gps\<close> of time 0.\<close>

definition gps_store2 :: store where
  "gps_store2 = apply_delta (\<lambda>_. []) 0
     (self_vessel [update_new 0 (source_plugin ''gps'') [path_value_new ''a'' (JBool True)]])
     (gps_store ''vessels.it'')"

lemma gps_store2_frame [simp]:
  "st_self_uri gps_store2 = ''me''" "st_ttls gps_store2 = [''gps'' \<mapsto> 5]"
  using apply_delta_view [of "\<lambda>_. []" 0 _ "gps_store ''vessels.it''"] by (simp_all add: gps_store2_def)

lemma gps_store2_get:
  "get_vessel_path gps_store2 ''it'' ''a'' = Some (signalk_value_new (JBool True) ''gps'' 0)"
  "get_self_path_by_source gps_store2 ''a'' ''gps'' = Some (signalk_value_new (JBool True) ''gps'' 0)"
proof -
  have f: "get_vessel_path (gps_store ''vessels.it'') ''it'' ''a'' = Some (signalk_value_new (JBool True) ''gps'' 0)"
    using gps_store_get [of "''vessels.it''" "''it''"] by simp
  have ctx: "strip_prefix ''vessels.'' (resolve_context (gps_store ''vessels.it'') (Some ''vessels.self'')) = Some ''me''"
    by (simp add: resolve_context_def strip_prefix_Some)
  have frame: "st_self_uri s = ''me''" if "s = (store_new ''me'')\<lparr>st_priorities := ps, st_ttls := ts\<rparr>" for s ps ts
    by (simp add: that store_new_def)
  have g: "get_vessel_path (gps_store ''vessels.it'') ''me'' ''a'' = None"
    unfolding gps_store_def
    by (subst apply_delta_other_vessel [of _ _ "''it''"])
       (simp_all add: resolve_context_def strip_prefix_Some frame get_vessel_path_def,
        simp_all add: store_new_def vessel_default_def)
  show "get_vessel_path gps_store2 ''it'' ''a'' = Some (signalk_value_new (JBool True) ''gps'' 0)"
    unfolding gps_store2_def
    by (subst apply_delta_other_vessel [of _ _ "''me''"]) (simp_all add: ctx f self_vessel_def)
  show "get_self_path_by_source gps_store2 ''a'' ''gps'' = Some (signalk_value_new (JBool True) ''gps'' 0)"
    using apply_one_value(2) [OF strip_self self_vessel_def refl, where now = 0 and disp = "\<lambda>_. []" and s = "gps_store ''vessels.it''" and ts = 0
        and so = "source_plugin ''gps''" and p = "''a''" and v = "JBool True" and src' = "''gps''"] g
    by (simp add: gps_store2_def evict_stale_def)
qed

theorem foreign_expiry_evicts_own_source_witness:
  "get_self_path_by_source gps_store2 ''a'' ''gps'' \<noteq> None \<and>
   get_self_path_by_source (apply_delta (\<lambda>_. []) 10000000000
      (with_context ''vessels.it'' [update_new 9 (source_plugin ''ais'') [path_value_new ''a'' JNull]])
      gps_store2) ''a'' ''gps'' = None"
  using foreign_expiry_evicts_own_source [of "gps_store2" "''vessels.it''" "''it''" "''a''", OF _ _ _ _ refl,
      of "signalk_value_new (JBool True) ''gps'' 0" 10000000000 "\<lambda>_. []" 9 "''ais''" JNull]
    gps_store2_get
  by (simp add: resolve_context_def strip_prefix_Some expired_def num_seconds_def)

end
