(* ===== verification/Subscription.thy ===== *)
theory Subscription
  imports Types
begin

text \<open>
  \<^verbatim>\<open>signalk-store/src/subscription.rs\<close>: which values of a delta a streaming client gets.
  An instant is a count of nanoseconds of the monotonic clock, read once per call of
  \<^verbatim>\<open>filter_delta\<close>. The subscriptions of a client are a hash map: here the list in the
  order in which the map iterates.
\<close>

type_synonym instant = int

record active_subscription =
  as_context :: string
  as_path :: string
  as_period_ms :: u64
  as_policy :: subscription_policy
  as_min_period_ms :: u64
  as_last_sent :: "instant option"
  as_last_value :: "json option"

type_synonym subscriptions = "active_subscription hmap"

definition active_subscription_new ::
  "string \<Rightarrow> string \<Rightarrow> u64 \<Rightarrow> subscription_policy \<Rightarrow> u64 \<Rightarrow> active_subscription" where
  "active_subscription_new context path period policy min_period =
     \<lparr>as_context = context, as_path = path, as_period_ms = period, as_policy = policy,
      as_min_period_ms = min_period, as_last_sent = None, as_last_value = None\<rparr>"

text \<open>\<^verbatim>\<open>duration_since\<close> saturates at zero.\<close>

definition elapsed_ms :: "instant \<Rightarrow> instant \<Rightarrow> u64 \<Rightarrow> bool" where
  "elapsed_ms now prev ms \<longleftrightarrow> int (unat ms) * 1000000 \<le> max 0 (now - prev)"

definition due :: "instant \<Rightarrow> instant option \<Rightarrow> u64 \<Rightarrow> bool" where
  "due now prev ms = (case prev of None \<Rightarrow> True | Some l \<Rightarrow> elapsed_ms now l ms)"

definition should_deliver :: "instant \<Rightarrow> active_subscription \<Rightarrow> string \<Rightarrow> json \<Rightarrow> bool" where
  "should_deliver now sub path v \<longleftrightarrow>
     matches_pattern (as_path sub) path \<and>
     (case as_policy sub of
        Instant \<Rightarrow> due now (as_last_sent sub) (as_min_period_ms sub)
      | Ideal \<Rightarrow>
          if \<not> json_eq v (unwrap_or (as_last_value sub) JNull)
          then due now (as_last_sent sub) (as_min_period_ms sub)
          else due now (as_last_sent sub) (as_period_ms sub)
      | Fixed \<Rightarrow> due now (as_last_sent sub) (as_period_ms sub))"

definition mark_sent :: "instant \<Rightarrow> json \<Rightarrow> active_subscription \<Rightarrow> active_subscription" where
  "mark_sent now v sub = sub\<lparr>as_last_sent := Some now, as_last_value := Some v\<rparr>"

text \<open>One value goes to the first subscription that takes it.\<close>

fun offer_value :: "instant \<Rightarrow> path_value \<Rightarrow> subscriptions \<Rightarrow> bool \<times> subscriptions" where
  "offer_value now pv [] = (False, [])"
| "offer_value now pv ((k, sub) # subs) =
     (if should_deliver now sub (pv_path pv) (pv_value pv)
      then (True, (k, mark_sent now (pv_value pv) sub) # subs)
      else (let (b, r) = offer_value now pv subs in (b, (k, sub) # r)))"

fun filter_values :: "instant \<Rightarrow> path_value list \<Rightarrow> subscriptions \<Rightarrow> path_value list \<times> subscriptions" where
  "filter_values now [] subs = ([], subs)"
| "filter_values now (pv # pvs) subs =
     (let (b, subs1) = offer_value now pv subs;
          (m, subs2) = filter_values now pvs subs1
      in (if b then pv # m else m, subs2))"

fun filter_updates :: "instant \<Rightarrow> update list \<Rightarrow> subscriptions \<Rightarrow> update list \<times> subscriptions" where
  "filter_updates now [] subs = ([], subs)"
| "filter_updates now (u # us) subs =
     (let (m, subs1) = filter_values now (u_values u) subs;
          (r, subs2) = filter_updates now us subs1
      in (if m = [] then r else u\<lparr>u_values := m\<rparr> # r, subs2))"

definition filter_delta :: "instant \<Rightarrow> delta \<Rightarrow> subscriptions \<Rightarrow> delta option \<times> subscriptions" where
  "filter_delta now d subs =
     (let (us, subs') = filter_updates now (d_updates d) subs
      in (if us = [] then None else Some \<lparr>d_context = d_context d, d_updates = us\<rparr>, subs'))"

section \<open>What a filter call does, in terms of the values offered\<close>

definition delta_values :: "delta \<Rightarrow> path_value list" where
  "delta_values d = concat (map u_values (d_updates d))"

definition delivered :: "delta option \<Rightarrow> path_value list" where
  "delivered r = (case r of None \<Rightarrow> [] | Some d \<Rightarrow> delta_values d)"

lemma filter_values_append:
  "filter_values now (xs @ ys) subs =
     (let (m, s1) = filter_values now xs subs; (n, s2) = filter_values now ys s1 in (m @ n, s2))"
  by (induction xs arbitrary: subs) (auto simp: Let_def split: prod.splits)

lemma filter_updates_values:
  "filter_updates now us subs = (r, subs') \<Longrightarrow>
   filter_values now (concat (map u_values us)) subs = (concat (map u_values r), subs')"
  by (induction us arbitrary: subs r) (auto simp: filter_values_append Let_def split: prod.splits if_splits)

lemma filter_delta_values:
  "filter_delta now d subs = (r, subs') \<Longrightarrow>
   filter_values now (delta_values d) subs = (delivered r, subs')"
  by (auto simp: filter_delta_def delta_values_def delivered_def Let_def dest: filter_updates_values
      split: prod.splits if_splits)

lemma offer_value_keys: "offer_value now pv subs = (b, subs') \<Longrightarrow> map fst subs' = map fst subs"
  by (induction subs arbitrary: b subs') (auto simp: Let_def split: prod.splits if_splits)

lemma offer_value_takes:
  "fst (offer_value now pv subs) \<longleftrightarrow>
   (\<exists>sub \<in> snd ` set subs. should_deliver now sub (pv_path pv) (pv_value pv))"
  by (induction subs) (auto simp: Let_def split: prod.splits)

definition same_request :: "active_subscription \<Rightarrow> active_subscription \<Rightarrow> bool" where
  "same_request a b \<longleftrightarrow> as_context a = as_context b \<and> as_path a = as_path b \<and>
     as_period_ms a = as_period_ms b \<and> as_policy a = as_policy b \<and>
     as_min_period_ms a = as_min_period_ms b"

lemma same_request_refl [simp]: "same_request a a"
  by (simp add: same_request_def)

lemma same_request_trans: "same_request a b \<Longrightarrow> same_request b c \<Longrightarrow> same_request a c"
  by (simp add: same_request_def)

lemma same_request_mark [simp]: "same_request (mark_sent now v a) a" "same_request a (mark_sent now v a)"
  by (simp_all add: same_request_def mark_sent_def)

definition kept :: "subscriptions \<Rightarrow> subscriptions \<Rightarrow> bool" where
  "kept = list_all2 (\<lambda>(k, a) (l, b). k = l \<and> same_request a b)"

lemma kept_refl [simp]: "kept s s"
  by (auto simp: kept_def list_all2_same)

lemma kept_trans: "kept a b \<Longrightarrow> kept b c \<Longrightarrow> kept a c"
  unfolding kept_def list_all2_conv_all_nth
  by (simp add: case_prod_beta same_request_def)

lemma kept_offer: "offer_value now pv subs = (b, subs') \<Longrightarrow> kept subs subs'"
  by (induction subs arbitrary: b subs')
     (auto simp: kept_def Let_def list_all2_same split: prod.splits if_splits)

lemma kept_filter: "filter_values now pvs subs = (m, subs') \<Longrightarrow> kept subs subs'"
proof (induction pvs arbitrary: subs m)
  case (Cons pv pvs)
  then show ?case
    by (auto simp: Let_def intro: kept_trans [OF kept_offer] split: prod.splits)
qed simp

lemma kept_patterns:
  "kept a b \<Longrightarrow> (\<exists>x \<in> snd ` set a. P (as_path x)) \<longleftrightarrow> (\<exists>x \<in> snd ` set b. P (as_path x))"
  unfolding kept_def
  by (induction rule: list_all2_induct) (auto simp: same_request_def)

end
