(* ===== verification/WsSession.thy ===== *)
theory WsSession
  imports Subscription StoreSpec
begin

text \<open>
  \<^verbatim>\<open>signalk-server/src/ws/mod.rs\<close> and the messages of \<^verbatim>\<open>signalk-types/src/ws.rs\<close>:
  one streaming connection. It keeps the client's subscriptions, sends the cached values on
  connection, then filters every delta the store broadcasts and applies the client's subscribe and
  unsubscribe messages. Parsing the text of a message into a JSON value is serde's; decoding the value
  is modelled. Pings, the admin statistics and the failing socket are not.
\<close>

section \<open>Messages\<close>

record subscription_request =
  sr_path :: string
  sr_period :: "u64 option"
  sr_format :: "string option"
  sr_policy :: "subscription_policy option"
  sr_min_period :: "u64 option"

record subscribe_message =
  sm_context :: string
  sm_subscribe :: "subscription_request list"

record unsubscribe_message =
  um_context :: string
  um_unsubscribe :: "string list"

datatype inbound_message = Subscribe subscribe_message | Unsubscribe unsubscribe_message

definition policy_of_json :: "json \<Rightarrow> subscription_policy option" where
  "policy_of_json v = Option.bind (enum_tag v) (\<lambda>t.
     if t = ''instant'' then Some Instant
     else if t = ''ideal'' then Some Ideal
     else if t = ''fixed'' then Some Fixed else None)"

definition request_of_json :: "json \<Rightarrow> subscription_request option" where
  "request_of_json v =
     Option.bind (struct_field [''path'', ''period'', ''format'', ''policy'', ''minPeriod''] v) (\<lambda>f.
     Option.bind (Option.bind (f ''path'') as_str) (\<lambda>path.
     Option.bind (decode_opt as_u64 (f ''period'')) (\<lambda>period.
     Option.bind (decode_opt as_str (f ''format'')) (\<lambda>format.
     Option.bind (decode_opt policy_of_json (f ''policy'')) (\<lambda>policy.
     Option.bind (decode_opt as_u64 (f ''minPeriod'')) (\<lambda>min_period.
       Some \<lparr>sr_path = path, sr_period = period, sr_format = format, sr_policy = policy,
             sr_min_period = min_period\<rparr>))))))"

definition subscribe_of_json :: "json \<Rightarrow> subscribe_message option" where
  "subscribe_of_json v =
     Option.bind (struct_field [''context'', ''subscribe''] v) (\<lambda>f.
     Option.bind (Option.bind (f ''context'') as_str) (\<lambda>context.
     Option.bind (Option.bind (f ''subscribe'') (decode_vec request_of_json)) (\<lambda>subs.
       Some \<lparr>sm_context = context, sm_subscribe = subs\<rparr>)))"

definition unsubscribe_of_json :: "json \<Rightarrow> unsubscribe_message option" where
  "unsubscribe_of_json v =
     Option.bind (struct_field [''context'', ''unsubscribe''] v) (\<lambda>f.
     Option.bind (Option.bind (f ''context'') as_str) (\<lambda>context.
     Option.bind (Option.bind (f ''unsubscribe'')
         (decode_vec (\<lambda>w. Option.bind (struct_field [''path''] w) (\<lambda>g. Option.bind (g ''path'') as_str))))
       (\<lambda>specs. Some \<lparr>um_context = context, um_unsubscribe = specs\<rparr>)))"

text \<open>The untagged enum tries its variants in order.\<close>

definition inbound_of_json :: "json \<Rightarrow> inbound_message option" where
  "inbound_of_json v =
     (case subscribe_of_json v of
        Some m \<Rightarrow> Some (Subscribe m)
      | None \<Rightarrow> map_option Unsubscribe (unsubscribe_of_json v))"

section \<open>The subscriptions of a connection\<close>

definition default_subscriptions :: "subscribe_mode \<Rightarrow> subscriptions" where
  "default_subscriptions mode =
     (case mode of
        SelfMode \<Rightarrow> hm_insert ''default-self''
           (active_subscription_new ''vessels.self'' ''**'' 1000 Ideal 0) []
      | AllMode \<Rightarrow> hm_insert ''default-all'' (active_subscription_new ''**'' ''**'' 1000 Ideal 0) []
      | NoneMode \<Rightarrow> [])"

definition sub_key :: "string \<Rightarrow> string \<Rightarrow> string" where
  "sub_key context path = context @ '':'' @ path"

definition apply_subscriptions :: "subscribe_message \<Rightarrow> subscriptions \<Rightarrow> subscriptions" where
  "apply_subscriptions msg subs = fold (\<lambda>sub.
     hm_insert (sub_key (sm_context msg) (sr_path sub))
       (active_subscription_new (sm_context msg) (sr_path sub) (unwrap_or (sr_period sub) 1000)
          (unwrap_or (sr_policy sub) Ideal) (unwrap_or (sr_min_period sub) 0))) (sm_subscribe msg) subs"

definition apply_unsubscribe :: "unsubscribe_message \<Rightarrow> subscriptions \<Rightarrow> subscriptions" where
  "apply_unsubscribe msg subs = fold (\<lambda>path subs.
     if path = ''*'' then filter (\<lambda>(k, _). \<not> starts_with k (um_context msg)) subs
     else hm_remove (sub_key (um_context msg) path) subs) (um_unsubscribe msg) subs"

definition handle_client_message :: "json option \<Rightarrow> subscriptions \<Rightarrow> subscriptions" where
  "handle_client_message parsed subs =
     (case Option.bind parsed inbound_of_json of
        Some (Subscribe m) \<Rightarrow> apply_subscriptions m subs
      | Some (Unsubscribe m) \<Rightarrow> apply_unsubscribe m subs
      | None \<Rightarrow> subs)"

section \<open>The connection\<close>

record ws_client =
  wc_subs :: subscriptions
  wc_out :: "delta list"

text \<open>The snapshot of the own vessel, in the order of its map.\<close>

definition cached_delta :: "datetime \<Rightarrow> store \<Rightarrow> delta option" where
  "cached_delta utc s =
     (case map_of (st_vessels s) (st_self_uri s) of
        None \<Rightarrow> None
      | Some v \<Rightarrow>
          let values = map (\<lambda>(path, sv). path_value_new path (sk_value sv)) (v_values v)
          in if values = [] then None
             else Some (with_context (''vessels.'' @ st_self_uri s) [update_new utc source_internal values]))"

definition ws_deliver :: "instant \<Rightarrow> delta \<Rightarrow> ws_client \<Rightarrow> ws_client" where
  "ws_deliver now d c =
     (let (r, subs) = filter_delta now d (wc_subs c)
      in \<lparr>wc_subs = subs, wc_out = wc_out c @ (case r of Some f \<Rightarrow> [f] | None \<Rightarrow> [])\<rparr>)"

definition ws_connect :: "instant \<Rightarrow> datetime \<Rightarrow> subscribe_mode \<Rightarrow> bool \<Rightarrow> store \<Rightarrow> ws_client" where
  "ws_connect now utc mode send_cached s =
     (let c = \<lparr>wc_subs = default_subscriptions mode, wc_out = []\<rparr>
      in if send_cached \<and> wc_subs c \<noteq> []
         then (case cached_delta utc s of Some d \<Rightarrow> ws_deliver now d c | None \<Rightarrow> c)
         else c)"

definition ws_message :: "json option \<Rightarrow> ws_client \<Rightarrow> ws_client" where
  "ws_message parsed c = c\<lparr>wc_subs := handle_client_message parsed (wc_subs c)\<rparr>"

datatype ws_event = DeltaEvent instant delta | MessageEvent "json option"

fun ws_handle :: "ws_event \<Rightarrow> ws_client \<Rightarrow> ws_client" where
  "ws_handle (DeltaEvent now d) c = ws_deliver now d c"
| "ws_handle (MessageEvent parsed) c = ws_message parsed c"

section \<open>A subscription that is not due yet\<close>

text \<open>The shortest time between two values sent for a subscription, in nanoseconds.\<close>

definition gap :: "active_subscription \<Rightarrow> int" where
  "gap sub = int (unat (case as_policy sub of
       Instant \<Rightarrow> as_min_period_ms sub
     | Ideal \<Rightarrow> min (as_min_period_ms sub) (as_period_ms sub)
     | Fixed \<Rightarrow> as_period_ms sub)) * 1000000"

lemma gap_nonneg [simp]: "0 \<le> gap sub"
  by (simp add: gap_def)

lemma gap_mark_sent [simp]: "gap (mark_sent now v sub) = gap sub"
  by (simp add: gap_def mark_sent_def split: subscription_policy.split)

lemma mark_sent_last [simp]: "as_last_sent (mark_sent now v sub) = Some now"
  by (simp add: mark_sent_def)

lemma due_after:
  "due now (Some l) ms \<Longrightarrow> l \<le> now \<Longrightarrow> l + int (unat ms) * 1000000 \<le> now"
  by (auto simp: due_def elapsed_ms_def)

lemma uint_min: "uint (min a b) = min (uint a) (uint b)" for a b :: u64
  by (simp add: min_def word_le_def)

lemma should_deliver_gap:
  assumes "should_deliver now sub p v" and "as_last_sent sub = Some l" and "l \<le> now"
  shows "l + gap sub \<le> now"
  using assms due_after [of now l "as_min_period_ms sub"] due_after [of now l "as_period_ms sub"]
  by (auto simp: should_deliver_def gap_def uint_min split: subscription_policy.splits if_splits)

text \<open>The values a client gets over a sequence of deltas, with the times of the filter calls.\<close>

fun run_filter :: "(instant \<times> delta) list \<Rightarrow> subscriptions \<Rightarrow> (instant \<times> path_value) list" where
  "run_filter [] subs = []"
| "run_filter ((now, d) # evs) subs =
     (let (r, subs') = filter_delta now d subs
      in map (Pair now) (delivered r) @ run_filter evs subs')"

abbreviation "not_before t sub \<equiv> (case as_last_sent sub of None \<Rightarrow> True | Some l \<Rightarrow> l \<le> t)"

definition spaced :: "int \<Rightarrow> instant option \<Rightarrow> instant list \<Rightarrow> bool" where
  "spaced g l ts \<longleftrightarrow> sorted_wrt (\<lambda>a b. a + g \<le> b) ts \<and> (\<forall>t \<in> set ts. case l of None \<Rightarrow> True | Some l \<Rightarrow> l + g \<le> t)"

lemma spaced_Nil [simp]: "spaced g l []"
  by (simp add: spaced_def)

lemma spaced_Cons:
  "0 \<le> g \<Longrightarrow> spaced g (Some t) ts \<Longrightarrow> (case l of None \<Rightarrow> True | Some l \<Rightarrow> l + g \<le> t) \<Longrightarrow> spaced g l (t # ts)"
  by (fastforce simp: spaced_def split: option.splits)

lemma filter_values_single:
  "filter_values now pvs [(k, sub)] = (m, subs') \<Longrightarrow> not_before now sub \<Longrightarrow>
   \<exists>sub'. subs' = [(k, sub')] \<and> gap sub' = gap sub \<and> not_before now sub' \<and>
     (\<forall>ts. spaced (gap sub) (as_last_sent sub') ts \<longrightarrow>
           spaced (gap sub) (as_last_sent sub) (map (\<lambda>_. now) m @ ts))"
proof (induction pvs arbitrary: sub m)
  case (Cons pv pvs)
  show ?case
  proof (cases "should_deliver now sub (pv_path pv) (pv_value pv)")
    case True
    with Cons.prems obtain m' where m: "m = pv # m'"
      and f: "filter_values now pvs [(k, mark_sent now (pv_value pv) sub)] = (m', subs')"
      by (auto split: prod.splits)
    have l: "case as_last_sent sub of None \<Rightarrow> True | Some l \<Rightarrow> l + gap sub \<le> now"
      using should_deliver_gap [OF True] Cons.prems(2) by (auto split: option.splits)
    show ?thesis
      using Cons.IH [OF f] l by (auto simp: m intro!: spaced_Cons)
  next
    case False
    then show ?thesis using Cons by (auto split: prod.splits)
  qed
qed auto

lemma run_filter_spaced:
  "sorted (map fst evs) \<Longrightarrow> (\<And>t. t \<in> fst ` set evs \<Longrightarrow> not_before t sub) \<Longrightarrow>
   spaced (gap sub) (as_last_sent sub) (map fst (run_filter evs [(k, sub)]))"
proof (induction evs arbitrary: sub)
  case (Cons ev evs)
  obtain now d where ev: "ev = (now, d)" by (cases ev)
  obtain r subs' where f: "filter_delta now d [(k, sub)] = (r, subs')" by (cases "filter_delta now d [(k, sub)]")
  from filter_values_single [OF filter_delta_values [OF f]] Cons.prems obtain sub' where
    s: "subs' = [(k, sub')]" "gap sub' = gap sub" "not_before now sub'"
    and sp: "\<And>ts. spaced (gap sub) (as_last_sent sub') ts \<Longrightarrow>
                  spaced (gap sub) (as_last_sent sub) (map (\<lambda>_. now) (delivered r) @ ts)"
    by (auto simp: ev)
  have "not_before t sub'" if "t \<in> fst ` set evs" for t
    using s(3) that Cons.prems(1) by (force simp: ev split: option.splits)
  then have "spaced (gap sub') (as_last_sent sub') (map fst (run_filter evs [(k, sub')]))"
    using Cons.prems(1) by (intro Cons.IH) auto
  then show ?case using sp by (simp add: ev f s o_def)
qed simp

text \<open>Claim C13. The rate limit of a subscription is one limit for everything it matches: a client
  with a single subscription, however many paths its pattern matches, never gets two values less
  than its gap apart (the minimum period, the period, or the shorter of the two, by policy). With
  a positive gap at most one value of a delta reaches the client.\<close>

theorem subscription_rate_limited:
  assumes "sorted (map fst evs)" and "as_last_sent sub = None"
  shows "sorted_wrt (\<lambda>a b. a + gap sub \<le> b) (map fst (run_filter evs [(k, sub)]))"
  using run_filter_spaced [OF assms(1), of sub k] assms(2) by (simp add: spaced_def)

definition one_path :: "string \<Rightarrow> json \<Rightarrow> delta" where
  "one_path p v = self_vessel [update_new 0 source_internal [path_value_new p v]]"

theorem subscription_rate_limited_witness:
  "let sub = active_subscription_new ''vessels.self'' ''nav.*'' 1000 Fixed 0;
       evs = [(0, one_path ''nav.sog'' (JBool True)), (1, one_path ''nav.cog'' (JBool True)),
              (1000000000, one_path ''nav.sog'' (JBool True))]
   in map fst (run_filter evs [([], sub)]) = [0, 1000000000] \<and>
      sorted_wrt (\<lambda>a b. a + 1000000000 \<le> b) (map fst (run_filter evs [([], sub)]))"
proof -
  define sub where "sub = active_subscription_new ''vessels.self'' ''nav.*'' 1000 Fixed 0"
  have g: "gap sub = 1000000000" by (simp add: gap_def sub_def active_subscription_new_def)
  have "map fst (run_filter [(0, one_path ''nav.sog'' (JBool True)), (1, one_path ''nav.cog'' (JBool True)),
              (1000000000, one_path ''nav.sog'' (JBool True))] [([], sub)]) = [0, 1000000000]"
    by (simp add: one_path_def self_vessel_def update_new_def path_value_new_def source_internal_def
        sub_def active_subscription_new_def filter_delta_def should_deliver_def due_def elapsed_ms_def
        mark_sent_def matches_pattern_def delivered_def delta_values_def Let_def path_split_def)
  then show ?thesis
    using subscription_rate_limited [of "[(0, one_path ''nav.sog'' (JBool True)), (1, one_path ''nav.cog'' (JBool True)),
              (1000000000, one_path ''nav.sog'' (JBool True))]" sub "[]"]
    by (simp add: g Let_def flip: sub_def)
qed

section \<open>The cached values\<close>

text \<open>Dropping a value that equals the last one kept, whatever their paths.\<close>

fun drop_repeats :: "path_value list \<Rightarrow> path_value list" where
  "drop_repeats [] = []"
| "drop_repeats [x] = [x]"
| "drop_repeats (x # y # r) =
     (if json_eq (pv_value y) (pv_value x) then drop_repeats (x # r) else x # drop_repeats (y # r))"

lemma ideal_sent_now:
  assumes "as_path sub = ''**''" "as_policy sub = Ideal" "as_min_period_ms sub = 0"
    "as_period_ms sub = 1000" "as_last_sent sub = Some now" "as_last_value sub = Some (pv_value x)"
  shows "x # fst (filter_values now pvs [(k, sub)]) = drop_repeats (x # pvs)"
  using assms
proof (induction pvs arbitrary: sub x)
  case (Cons y pvs)
  have d: "should_deliver now sub (pv_path y) (pv_value y) \<longleftrightarrow> \<not> json_eq (pv_value y) (pv_value x)"
    using Cons.prems by (simp add: should_deliver_def due_def elapsed_ms_def)
  show ?case
    using Cons.IH [of "mark_sent now (pv_value y) sub" y] Cons.IH [of sub x] Cons.prems d
    by (auto simp: mark_sent_def split: prod.splits)
qed simp

lemma default_filter:
  assumes "sub = active_subscription_new ctx ''**'' 1000 Ideal 0"
  shows "fst (filter_values now pvs [(k, sub)]) = drop_repeats pvs"
proof (cases pvs)
  case (Cons x r)
  have "should_deliver now sub (pv_path x) (pv_value x)"
    using assms by (simp add: should_deliver_def due_def active_subscription_new_def)
  then show ?thesis
    using ideal_sent_now [of "mark_sent now (pv_value x) sub" now x r k] assms
    by (auto simp: Cons active_subscription_new_def mark_sent_def split: prod.splits)
qed simp

text \<open>What a new client gets of the cached values: it connects in the default mode, and
  of the values of the own vessel it receives those that differ from the last value sent, which
  in general is the value of another path. A path whose value equals that of the path before
  it, say the second of two zeros, is left out of the snapshot.\<close>

theorem cached_values_drop_repeats:
  "concat (map delta_values (wc_out (ws_connect now utc SelfMode True s))) =
     drop_repeats (map (\<lambda>(path, sv). path_value_new path (sk_value sv)) (vessel_values s (st_self_uri s)))"
proof (cases "map_of (st_vessels s) (st_self_uri s)")
  case None
  then show ?thesis
    by (simp add: ws_connect_def cached_delta_def vessel_values_def Let_def)
next
  case (Some v)
  define vals where "vals = map (\<lambda>(path, sv). path_value_new path (sk_value sv)) (v_values v)"
  define d where "d = with_context (''vessels.'' @ st_self_uri s) [update_new utc source_internal vals]"
  obtain r subs' where f: "filter_delta now d (default_subscriptions SelfMode) = (r, subs')"
    by (cases "filter_delta now d (default_subscriptions SelfMode)")
  have "delivered r = drop_repeats vals"
    using filter_delta_values [OF f] default_filter [OF refl, of now vals "''default-self''" "''vessels.self''"]
    by (simp add: d_def default_subscriptions_def delta_values_def with_context_def update_new_def)
  moreover have "concat (map delta_values (wc_out (ws_connect now utc SelfMode True s))) =
      (if vals = [] then [] else delivered r)"
    using Some f
    by (auto simp: ws_connect_def cached_delta_def Let_def default_subscriptions_def ws_deliver_def
        delivered_def d_def vals_def split: option.splits)
  ultimately show ?thesis
    using Some by (auto simp: vessel_values_def vals_def)
qed

section \<open>Cancelling subscriptions\<close>

lemma sub_key_not_default: "sub_key c p \<noteq> ''default-self''"
proof -
  have "CHR '':'' \<in> set (sub_key c p)" and "CHR '':'' \<notin> set ''default-self''" by (auto simp: sub_key_def)
  then show ?thesis by metis
qed

text \<open>Only an unsubscribe message for all paths, in a context that the key of the default
  subscription starts with, can remove that subscription.\<close>

definition cancels_default :: "json option \<Rightarrow> bool" where
  "cancels_default parsed \<longleftrightarrow> (case Option.bind parsed inbound_of_json of
     Some (Unsubscribe m) \<Rightarrow> ''*'' \<in> set (um_unsubscribe m) \<and> starts_with ''default-self'' (um_context m)
   | _ \<Rightarrow> False)"

lemma map_of_filter_keys: "map_of (filter (\<lambda>(k, _). P k) m) k = (if P k then map_of m k else None)"
  by (induction m) auto

lemma subscribe_keeps_default:
  "map_of (apply_subscriptions m subs) ''default-self'' = map_of subs ''default-self''"
proof -
  have "map_of (fold (\<lambda>sub. hm_insert (sub_key c (sr_path sub)) (f sub)) xs subs) ''default-self'' =
      map_of subs ''default-self''" for c f xs
    by (induction xs arbitrary: subs) (simp_all add: sub_key_not_default [symmetric])
  then show ?thesis by (simp add: apply_subscriptions_def)
qed

lemma unsubscribe_keeps_default:
  assumes "\<not> (''*'' \<in> set (um_unsubscribe m) \<and> starts_with ''default-self'' (um_context m))"
  shows "map_of (apply_unsubscribe m subs) ''default-self'' = map_of subs ''default-self''"
proof -
  have "map_of (fold (\<lambda>path subs. if path = ''*'' then filter (\<lambda>(k, _). \<not> starts_with k c) subs
      else hm_remove (sub_key c path) subs) xs subs) ''default-self'' = map_of subs ''default-self''"
    if "''*'' \<notin> set xs \<or> \<not> starts_with ''default-self'' c" for xs c
    using that
    by (induction xs arbitrary: subs) (auto simp: map_of_filter_keys sub_key_not_default [symmetric])
  then show ?thesis using assms by (simp add: apply_unsubscribe_def)
qed

lemma message_keeps_default:
  "\<not> cancels_default parsed \<Longrightarrow>
   map_of (handle_client_message parsed subs) ''default-self'' = map_of subs ''default-self''"
  by (auto simp: handle_client_message_def cancels_default_def subscribe_keeps_default
      unsubscribe_keeps_default split: option.splits inbound_message.splits)

lemma kept_map_of:
  "kept a b \<Longrightarrow> map_of a k = Some x \<Longrightarrow> \<exists>y. map_of b k = Some y \<and> same_request x y"
  unfolding kept_def by (induction arbitrary: x rule: list_all2_induct) (auto split: if_splits)

lemma ws_deliver_kept: "kept (wc_subs c) (wc_subs (ws_deliver now d c))"
proof -
  obtain r subs' where f: "filter_delta now d (wc_subs c) = (r, subs')" by (cases "filter_delta now d (wc_subs c)")
  show ?thesis using kept_filter [OF filter_delta_values [OF f]] by (simp add: ws_deliver_def f)
qed

definition has_default :: "ws_client \<Rightarrow> bool" where
  "has_default c \<longleftrightarrow> (\<exists>sub. map_of (wc_subs c) ''default-self'' = Some sub \<and>
     same_request (active_subscription_new ''vessels.self'' ''**'' 1000 Ideal 0) sub)"

lemma has_default_deliver: "has_default c \<Longrightarrow> has_default (ws_deliver now d c)"
  unfolding has_default_def using kept_map_of [OF ws_deliver_kept] same_request_trans by meson

lemma has_default_connect: "has_default (ws_connect now utc SelfMode cached s)"
proof -
  have "has_default \<lparr>wc_subs = default_subscriptions SelfMode, wc_out = []\<rparr>"
    by (simp add: has_default_def default_subscriptions_def)
  then show ?thesis
    by (auto simp: ws_connect_def Let_def intro: has_default_deliver split: option.split)
qed

text \<open>A client that connected in the default mode stays subscribed to everything, whatever
  it subscribes to or unsubscribes from, unless it sends an unsubscribe of all paths in a context
  that is a prefix of \<open>default-self\<close>. Unsubscribing from all paths in the context
  \<open>vessels.self\<close>, which is the context of that very subscription, or in \<open>*\<close>, leaves it
  in place.\<close>

theorem default_subscription_survives:
  assumes "\<forall>e \<in> set evs. \<forall>parsed. e = MessageEvent parsed \<longrightarrow> \<not> cancels_default parsed"
  shows "\<exists>sub. map_of (wc_subs (fold ws_handle evs (ws_connect now utc SelfMode cached s))) ''default-self'' = Some sub \<and>
           as_path sub = ''**''"
proof -
  have "has_default (fold ws_handle evs c)" if "has_default c" for c
    using assms that
  proof (induction evs arbitrary: c)
    case (Cons e evs)
    have "has_default (ws_handle e c)"
      using Cons.prems
      by (cases e) (auto simp: has_default_deliver, simp add: has_default_def ws_message_def message_keeps_default)
    then show ?case using Cons by simp
  qed simp
  then have "has_default (fold ws_handle evs (ws_connect now utc SelfMode cached s))"
    by (simp add: has_default_connect)
  then show ?thesis by (auto simp: has_default_def same_request_def active_subscription_new_def)
qed

theorem default_subscription_survives_witness:
  "map_of (wc_subs (ws_handle (MessageEvent (Some (JObj
      [(''context'', JStr ''vessels.self''), (''unsubscribe'', JArr [JObj [(''path'', JStr ''*'')]])])))
      (ws_connect 0 0 SelfMode True (store_new ''me'')))) ''default-self'' \<noteq> None"
  using default_subscription_survives [of "[MessageEvent (Some (JObj
      [(''context'', JStr ''vessels.self''), (''unsubscribe'', JArr [JObj [(''path'', JStr ''*'')]])]))]"
      0 0 True "store_new ''me''"]
  by (auto simp: cancels_default_def inbound_of_json_def subscribe_of_json_def unsubscribe_of_json_def
      decode_vec_def starts_with_def)

text \<open>The context of a subscription is not looked at: the same updates in another context
  are delivered to the same subscriptions, so a client that asked for the own vessel gets the
  values of every vessel.\<close>

theorem filter_ignores_context:
  "filter_delta now (d\<lparr>d_context := c\<rparr>) (map (\<lambda>(k, a). (k, a\<lparr>as_context := ctx k\<rparr>)) subs) =
     (let (r, subs') = filter_delta now d subs
      in (map_option (\<lambda>f. f\<lparr>d_context := c\<rparr>) r, map (\<lambda>(k, a). (k, a\<lparr>as_context := ctx k\<rparr>)) subs'))"
proof -
  let ?m = "map (\<lambda>(k, a). (k, a\<lparr>as_context := ctx k\<rparr>)) :: subscriptions \<Rightarrow> subscriptions"
  have sd: "should_deliver now (a\<lparr>as_context := c'\<rparr>) p v = should_deliver now a p v" for a c' p v
    by (cases "as_policy a") (simp_all add: should_deliver_def)
  have ms: "mark_sent now v (a\<lparr>as_context := c'\<rparr>) = (mark_sent now v a)\<lparr>as_context := c'\<rparr>" for a c' v
    by (simp add: mark_sent_def)
  have o: "offer_value now pv (?m s) = apsnd ?m (offer_value now pv s)" for pv s
    by (induction s) (auto simp: Let_def sd ms split: prod.splits)
  have v: "filter_values now pvs (?m s) = apsnd ?m (filter_values now pvs s)" for pvs s
    by (induction pvs arbitrary: s) (auto simp: o Let_def split: prod.splits)
  have "filter_updates now us (?m s) = apsnd ?m (filter_updates now us s)" for us s
    by (induction us arbitrary: s) (auto simp: v Let_def split: prod.splits)
  then show ?thesis by (simp add: filter_delta_def Let_def split: prod.splits)
qed

end
