(* ===== verification/StorePort.thy ===== *)
theory StorePort
  imports StoreSpec
begin

text \<open>
  The store as the managers and the plugins use it: they read values of the own vessel and write a
  batch of values as one delta in the name of a plugin. The interface is a locale of three
  operations and one law; the store provides it for every source, clock reading and timestamp.
\<close>

locale delta_port =
  fixes read :: "'s \<Rightarrow> string \<Rightarrow> json option"
    and wr :: "(string \<times> json) list \<Rightarrow> 's \<Rightarrow> 's"
    and accepted :: "'s \<Rightarrow> string \<Rightarrow> bool"
  assumes read_write: "distinct (map fst pvs) \<Longrightarrow>
    read (wr pvs s) q =
      (case map_of pvs q of Some v \<Rightarrow> if accepted s q then Some v else read s q | None \<Rightarrow> read s q)"
begin

lemma read_write_one: "read (wr [(p, v)] s) q = (if q = p \<and> accepted s p then Some v else read s q)"
  using read_write [of "[(p, v)]" s q] by simp

lemma read_write_other: "distinct (map fst pvs) \<Longrightarrow> q \<notin> fst ` set pvs \<Longrightarrow> read (wr pvs s) q = read s q"
  using read_write [of pvs s q] map_of_eq_None_iff [of pvs q] by (simp split: option.split)

lemma read_write_accepted:
  "distinct (map fst pvs) \<Longrightarrow> (q, v) \<in> set pvs \<Longrightarrow> accepted s q \<Longrightarrow> read (wr pvs s) q = Some v"
  using read_write [of pvs s q] by simp

lemma write_rejected:
  assumes "distinct (map fst pvs)" and rej: "\<And>q. q \<in> fst ` set pvs \<Longrightarrow> \<not> accepted s q"
  shows "read (wr pvs s) = read s"
proof
  fix q
  have "\<not> accepted s q" if "map_of pvs q = Some v" for v
    using map_of_SomeD [OF that] by (intro rej) (simp add: rev_image_eqI)
  then show "read (wr pvs s) q = read s q" using read_write [OF assms(1), of s q] by (simp split: option.split)
qed

end

section \<open>The store provides the interface\<close>

definition store_read :: "store \<Rightarrow> string \<Rightarrow> json option" where
  "store_read s path = map_option sk_value (get_self_path s path)"

definition plugin_delta :: "datetime \<Rightarrow> string \<Rightarrow> (string \<times> json) list \<Rightarrow> delta" where
  "plugin_delta utc plugin pvs =
     self_vessel [update_new utc (source_plugin plugin) (map (\<lambda>(p, v). path_value_new p v) pvs)]"

definition store_write ::
  "(json \<Rightarrow> string) \<Rightarrow> datetime \<Rightarrow> datetime \<Rightarrow> string \<Rightarrow> (string \<times> json) list \<Rightarrow> store \<Rightarrow> store" where
  "store_write disp now utc plugin pvs s = apply_delta disp now (plugin_delta utc plugin pvs) s"

definition store_accepts :: "datetime \<Rightarrow> string \<Rightarrow> store \<Rightarrow> string \<Rightarrow> bool" where
  "store_accepts now plugin s p = accepts now s (st_self_uri s) plugin p"

lemma store_write_get:
  assumes "distinct (map fst pvs)"
  shows "get_self_path (store_write disp now utc plugin pvs s) q =
    (case map_of pvs q of
       Some v \<Rightarrow> if store_accepts now plugin s q then Some (signalk_value_new v plugin utc) else get_self_path s q
     | None \<Rightarrow> get_self_path s q)"
proof -
  define u where "u = update_new utc (source_plugin plugin) (map (\<lambda>(p, v). path_value_new p v) pvs)"
  define d where "d = plugin_delta utc plugin pvs"
  have paths: "map pv_path (u_values u) = map fst pvs"
    by (simp add: u_def update_new_def path_value_new_def case_prod_beta o_def)
  have ctx: "strip_prefix ''vessels.'' (resolve_context s (d_context d)) = Some (st_self_uri s)"
    by (simp add: d_def plugin_delta_def self_vessel_def strip_self)
  have ups: "d_updates d = [u]" by (simp add: d_def plugin_delta_def self_vessel_def u_def)
  have uri: "st_self_uri (apply_delta disp now d s) = st_self_uri s" using apply_delta_view by blast
  note one = apply_delta_one_update [OF ctx ups, unfolded paths, OF assms, where disp = disp and now = now]
  show ?thesis
  proof (cases "map_of pvs q")
    case None
    then have "q \<notin> set (map fst pvs)" by (simp add: map_of_eq_None_iff)
    from one(1) [OF this] None show ?thesis
      by (simp add: store_write_def get_self_is_vessel uri flip: d_def)
  next
    case (Some v)
    then have "path_value_new q v \<in> set (u_values u)"
      using map_of_SomeD [OF Some] by (force simp: u_def update_new_def)
    from one(2) [OF this] Some show ?thesis
      by (simp add: store_write_def get_self_is_vessel uri store_accepts_def path_value_new_def
          u_def update_new_def flip: d_def)
  qed
qed

lemma store_read_write:
  "distinct (map fst pvs) \<Longrightarrow> store_read (store_write disp now utc plugin pvs s) q =
    (case map_of pvs q of Some v \<Rightarrow> if store_accepts now plugin s q then Some v else store_read s q
                        | None \<Rightarrow> store_read s q)"
  by (simp add: store_read_def store_write_get split: option.split)

lemma store_write_frame [simp]:
  "st_self_uri (store_write disp now utc plugin pvs s) = st_self_uri s"
  "st_priorities (store_write disp now utc plugin pvs s) = st_priorities s"
  "st_ttls (store_write disp now utc plugin pvs s) = st_ttls s"
  using apply_delta_view [of disp now "plugin_delta utc plugin pvs" s] by (simp_all add: store_write_def)

interpretation port: delta_port store_read "store_write disp now utc plugin" "store_accepts now plugin"
  for disp now utc plugin
  by unfold_locales (rule store_read_write)

lemma store_accepts_iff:
  "store_accepts now plugin s p \<longleftrightarrow>
     (case get_self_path s p of
        None \<Rightarrow> True
      | Some c \<Rightarrow> expired now s c \<or> priority_of s plugin \<le> priority_of s (sk_source c))"
  by (auto simp: store_accepts_def accepts_def get_self_is_vessel should_update_def evict_stale_expired
      split: option.split)

end
