(* ===== verification/Notifications.thy ===== *)
theory Notifications
  imports StorePort
begin

text \<open>
  \<^verbatim>\<open>signalk-types/src/notification.rs\<close>, the manager of
  \<^verbatim>\<open>signalk-server/src/notifications/manager.rs\<close> and the handlers of
  \<^verbatim>\<open>signalk-server/src/api/v2/notifications.rs\<close>. The manager numbers the UUIDs it draws;
  the generator is an argument (\<open>uuid\<close>), and where it matters that two draws differ,
  injectivity is a hypothesis. Error texts of serde are left out of the responses.
\<close>

section \<open>Notification values\<close>

datatype notification_state = Normal | Nominal | Alert | Warn | Alarm | Emergency

datatype notification_method = Visual | Sound

record notification_status =
  ns_silenced :: "bool option"
  ns_acknowledged :: "bool option"
  ns_can_silence :: "bool option"
  ns_can_acknowledge :: "bool option"
  ns_can_clear :: "bool option"

record notification =
  nt_id :: "string option"
  nt_state :: notification_state
  nt_method :: "notification_method list"
  nt_message :: string
  nt_status :: "notification_status option"

text \<open>The states are ordered by severity, as their declaration says.\<close>

fun severity :: "notification_state \<Rightarrow> nat" where
  "severity Normal = 0"
| "severity Nominal = 1"
| "severity Alert = 2"
| "severity Warn = 3"
| "severity Alarm = 4"
| "severity Emergency = 5"

lemma severity_inj: "severity a = severity b \<Longrightarrow> a = b"
  by (cases a; cases b) auto

instantiation notification_state :: linorder
begin

definition less_eq_notification_state :: "notification_state \<Rightarrow> notification_state \<Rightarrow> bool" where
  "less_eq_notification_state a b \<longleftrightarrow> severity a \<le> severity b"

definition less_notification_state :: "notification_state \<Rightarrow> notification_state \<Rightarrow> bool" where
  "less_notification_state a b \<longleftrightarrow> severity a < severity b"

instance
  by intro_classes (auto simp: less_eq_notification_state_def less_notification_state_def dest: severity_inj)

end

definition status_default :: notification_status where
  "status_default = \<lparr>ns_silenced = None, ns_acknowledged = None, ns_can_silence = None,
     ns_can_acknowledge = None, ns_can_clear = None\<rparr>"

definition status_initial :: "notification_state \<Rightarrow> bool \<Rightarrow> notification_status" where
  "status_initial state from_api =
     \<lparr>ns_silenced = Some False, ns_acknowledged = Some False, ns_can_silence = Some (state \<noteq> Emergency),
      ns_can_acknowledge = Some True, ns_can_clear = Some from_api\<rparr>"

section \<open>JSON form\<close>

fun state_str :: "notification_state \<Rightarrow> string" where
  "state_str Normal = ''normal''"
| "state_str Nominal = ''nominal''"
| "state_str Alert = ''alert''"
| "state_str Warn = ''warn''"
| "state_str Alarm = ''alarm''"
| "state_str Emergency = ''emergency''"

definition state_of_json :: "json \<Rightarrow> notification_state option" where
  "state_of_json v = Option.bind (enum_tag v) (\<lambda>t.
     map_of [(''normal'', Normal), (''nominal'', Nominal), (''alert'', Alert), (''warn'', Warn),
             (''alarm'', Alarm), (''emergency'', Emergency)] t)"

fun method_str :: "notification_method \<Rightarrow> string" where
  "method_str Visual = ''visual''"
| "method_str Sound = ''sound''"

definition method_of_json :: "json \<Rightarrow> notification_method option" where
  "method_of_json v = Option.bind (enum_tag v) (\<lambda>t.
     map_of [(''visual'', Visual), (''sound'', Sound)] t)"

text \<open>Every field of the status has a default, so serde also takes a shorter array.\<close>

definition status_to_json :: "notification_status \<Rightarrow> json" where
  "status_to_json st = json_obj
     (opt_field ''silenced'' JBool (ns_silenced st) @ opt_field ''acknowledged'' JBool (ns_acknowledged st) @
      opt_field ''canSilence'' JBool (ns_can_silence st) @
      opt_field ''canAcknowledge'' JBool (ns_can_acknowledge st) @
      opt_field ''canClear'' JBool (ns_can_clear st))"

definition status_of_json :: "json \<Rightarrow> notification_status option" where
  "status_of_json v =
     (let fields = [''silenced'', ''acknowledged'', ''canSilence'', ''canAcknowledge'', ''canClear'']
      in Option.bind (case v of JArr xs \<Rightarrow> if length xs \<le> length fields then Some (map_of (zip fields xs)) else None
                              | _ \<Rightarrow> struct_field fields v) (\<lambda>f.
         Option.bind (decode_opt as_bool (f ''silenced'')) (\<lambda>a.
         Option.bind (decode_opt as_bool (f ''acknowledged'')) (\<lambda>b.
         Option.bind (decode_opt as_bool (f ''canSilence'')) (\<lambda>c.
         Option.bind (decode_opt as_bool (f ''canAcknowledge'')) (\<lambda>d.
         Option.bind (decode_opt as_bool (f ''canClear'')) (\<lambda>e.
           Some \<lparr>ns_silenced = a, ns_acknowledged = b, ns_can_silence = c,
                 ns_can_acknowledge = d, ns_can_clear = e\<rparr>)))))))"

definition notification_to_json :: "notification \<Rightarrow> json" where
  "notification_to_json n = json_obj
     (opt_field ''id'' JStr (nt_id n) @
      [(''state'', JStr (state_str (nt_state n))),
       (''method'', JArr (map (JStr \<circ> method_str) (nt_method n))),
       (''message'', JStr (nt_message n))] @
      opt_field ''status'' status_to_json (nt_status n))"

definition notification_of_json :: "json \<Rightarrow> notification option" where
  "notification_of_json v =
     Option.bind (struct_field [''id'', ''state'', ''method'', ''message'', ''status''] v) (\<lambda>f.
     Option.bind (decode_opt as_str (f ''id'')) (\<lambda>i.
     Option.bind (Option.bind (f ''state'') state_of_json) (\<lambda>st.
     Option.bind (Option.bind (f ''method'') (decode_vec method_of_json)) (\<lambda>m.
     Option.bind (Option.bind (f ''message'') as_str) (\<lambda>msg.
     Option.bind (decode_opt status_of_json (f ''status'')) (\<lambda>s.
       Some \<lparr>nt_id = i, nt_state = st, nt_method = m, nt_message = msg, nt_status = s\<rparr>))))))"

lemma state_roundtrip [simp]: "state_of_json (JStr (state_str s)) = Some s"
  by (cases s) (simp_all add: state_of_json_def)

lemma method_roundtrip [simp]: "method_of_json (JStr (method_str m)) = Some m"
  by (cases m) (simp_all add: method_of_json_def)

lemma decode_opt_bool [simp]: "decode_opt as_bool (map_option JBool x) = Some x"
  by (rule decode_opt_map) simp_all

lemma status_roundtrip [simp]: "status_of_json (status_to_json st) = Some st"
proof -
  have "json_obj kvs \<noteq> JArr xs" for kvs xs by (simp add: json_obj_def)
  then have "status_of_json (json_obj kvs) = Option.bind (struct_field
     [''silenced'', ''acknowledged'', ''canSilence'', ''canAcknowledge'', ''canClear''] (json_obj kvs)) (\<lambda>f.
         Option.bind (decode_opt as_bool (f ''silenced'')) (\<lambda>a.
         Option.bind (decode_opt as_bool (f ''acknowledged'')) (\<lambda>b.
         Option.bind (decode_opt as_bool (f ''canSilence'')) (\<lambda>c.
         Option.bind (decode_opt as_bool (f ''canAcknowledge'')) (\<lambda>d.
         Option.bind (decode_opt as_bool (f ''canClear'')) (\<lambda>e.
           Some \<lparr>ns_silenced = a, ns_acknowledged = b, ns_can_silence = c,
                 ns_can_acknowledge = d, ns_can_clear = e\<rparr>))))))" for kvs
    by (simp add: status_of_json_def Let_def split: json.split)
  then show ?thesis
    by (simp add: status_to_json_def struct_json_obj opt_field_lookup del: map_of_append)
qed

lemma method_list_roundtrip [simp]:
  "decode_vec method_of_json (JArr (map (JStr \<circ> method_str) ms)) = Some ms"
  using decode_list_map [of ms method_of_json "JStr \<circ> method_str"] by (simp add: decode_vec_def)

lemma notification_roundtrip_lemma: "notification_of_json (notification_to_json n) = Some n"
proof -
  have ne: "status_to_json st \<noteq> JNull" for st by (simp add: status_to_json_def json_obj_def)
  show ?thesis
    by (cases n; cases "nt_id n"; cases "nt_status n")
       (simp_all add: notification_of_json_def notification_to_json_def struct_json_obj ne)
qed

section \<open>The manager\<close>

record notification_entry =
  ne_id :: string
  ne_plugin_originated :: bool
  ne_silenced :: bool
  ne_acknowledged :: bool

record notification_manager =
  nm_entries :: "notification_entry hmap"
  nm_drawn :: nat

definition manager_new :: notification_manager where
  "manager_new = \<lparr>nm_entries = [], nm_drawn = 0\<rparr>"

definition cleared_status :: notification_status where
  "cleared_status = \<lparr>ns_silenced = Some False, ns_acknowledged = Some False, ns_can_silence = Some False,
     ns_can_acknowledge = Some False, ns_can_clear = Some False\<rparr>"

definition entry_status :: "notification_state \<Rightarrow> notification_entry \<Rightarrow> notification_status" where
  "entry_status state e =
     \<lparr>ns_silenced = Some (ne_silenced e), ns_acknowledged = Some (ne_acknowledged e),
      ns_can_silence = Some (state \<noteq> Emergency \<and> \<not> ne_silenced e),
      ns_can_acknowledge = Some (\<not> ne_acknowledged e),
      ns_can_clear = Some (\<not> ne_plugin_originated e)\<rparr>"

text \<open>The entry of a path, made on first use.\<close>

definition entry_or_new ::
  "(nat \<Rightarrow> string) \<Rightarrow> bool \<Rightarrow> string \<Rightarrow> notification_manager \<Rightarrow> notification_entry \<times> notification_manager" where
  "entry_or_new uuid is_plugin p nm =
     (case map_of (nm_entries nm) p of
        Some e \<Rightarrow> (e, nm)
      | None \<Rightarrow>
          let e = \<lparr>ne_id = uuid (nm_drawn nm), ne_plugin_originated = is_plugin,
                   ne_silenced = False, ne_acknowledged = False\<rparr>
          in (e, \<lparr>nm_entries = hm_insert p e (nm_entries nm), nm_drawn = Suc (nm_drawn nm)\<rparr>))"

definition enrich_notification ::
  "(nat \<Rightarrow> string) \<Rightarrow> bool \<Rightarrow> string \<Rightarrow> notification \<Rightarrow> notification_manager \<Rightarrow> notification \<times> notification_manager" where
  "enrich_notification uuid is_plugin p n nm =
     (if nt_state n = Normal then
        (case map_of (nm_entries nm) p of
           Some old \<Rightarrow> (n\<lparr>nt_id := Some (ne_id old), nt_status := Some cleared_status\<rparr>,
                        nm\<lparr>nm_entries := hm_remove p (nm_entries nm)\<rparr>)
         | None \<Rightarrow> (n\<lparr>nt_status := Some cleared_status\<rparr>, nm))
      else
        (let (e, nm') = entry_or_new uuid is_plugin p nm
         in (n\<lparr>nt_id := Some (ne_id e), nt_status := Some (entry_status (nt_state n) e)\<rparr>, nm')))"

definition enrich_pv ::
  "(nat \<Rightarrow> string) \<Rightarrow> bool \<Rightarrow> path_value \<Rightarrow> notification_manager \<Rightarrow> path_value \<times> notification_manager" where
  "enrich_pv uuid is_plugin pv nm =
     (if \<not> starts_with (pv_path pv) ''notifications.'' then (pv, nm)
      else case notification_of_json (pv_value pv) of
             None \<Rightarrow> (pv, nm)
           | Some n \<Rightarrow>
               let (n', nm') = enrich_notification uuid is_plugin (pv_path pv) n nm
               in (pv\<lparr>pv_value := notification_to_json n'\<rparr>, nm'))"

fun map_state :: "('a \<Rightarrow> 's \<Rightarrow> 'a \<times> 's) \<Rightarrow> 'a list \<Rightarrow> 's \<Rightarrow> 'a list \<times> 's" where
  "map_state f [] s = ([], s)"
| "map_state f (x # xs) s = (let (y, s1) = f x s; (ys, s2) = map_state f xs s1 in (y # ys, s2))"

definition enrich_update ::
  "(nat \<Rightarrow> string) \<Rightarrow> update \<Rightarrow> notification_manager \<Rightarrow> update \<times> notification_manager" where
  "enrich_update uuid u nm =
     (let (vs, nm') = map_state (enrich_pv uuid (s_type (u_source u) = ''Plugin'')) (u_values u) nm
      in (u\<lparr>u_values := vs\<rparr>, nm'))"

definition enrich_delta ::
  "(nat \<Rightarrow> string) \<Rightarrow> delta \<Rightarrow> notification_manager \<Rightarrow> delta \<times> notification_manager" where
  "enrich_delta uuid d nm =
     (let (us, nm') = map_state (enrich_update uuid) (d_updates d) nm in (d\<lparr>d_updates := us\<rparr>, nm'))"

definition update_entry ::
  "(notification_entry \<Rightarrow> notification_entry) \<Rightarrow> string \<Rightarrow> notification_manager \<Rightarrow> notification_manager" where
  "update_entry f p nm =
     (case map_of (nm_entries nm) p of
        Some e \<Rightarrow> nm\<lparr>nm_entries := hm_insert p (f e) (nm_entries nm)\<rparr> | None \<Rightarrow> nm)"

definition manager_silence :: "string \<Rightarrow> notification_manager \<Rightarrow> notification_manager" where
  "manager_silence = update_entry (\<lambda>e. e\<lparr>ne_silenced := True\<rparr>)"

definition manager_acknowledge :: "string \<Rightarrow> notification_manager \<Rightarrow> notification_manager" where
  "manager_acknowledge = update_entry (\<lambda>e. e\<lparr>ne_acknowledged := True\<rparr>)"

definition get_entry_data :: "string \<Rightarrow> notification_manager \<Rightarrow> (string \<times> bool \<times> bool \<times> bool) option" where
  "get_entry_data p nm = map_option (\<lambda>e. (ne_id e, ne_silenced e, ne_acknowledged e, ne_plugin_originated e))
     (map_of (nm_entries nm) p)"

section \<open>The API handlers\<close>

datatype response = Ok_json json | Http_error nat string

definition is_success :: "response \<Rightarrow> bool" where
  "is_success r = (case r of Ok_json _ \<Rightarrow> True | Http_error _ _ \<Rightarrow> False)"

record notification_server =
  nv_store :: store
  nv_manager :: notification_manager

definition valid_notification_id :: "string \<Rightarrow> bool" where
  "valid_notification_id i \<longleftrightarrow>
     \<not> (contains_str i ''..'' \<or> CHR ''/'' \<in> set i \<or> starts_with i ''.'' \<or> ends_with i ''.'')"

definition list_notifications :: "store \<Rightarrow> json" where
  "list_notifications s = json_obj (map (\<lambda>(path, sv).
     (unwrap_or (strip_prefix ''notifications.'' path) path, sk_value sv)) (store_notifications s))"

text \<open>A notification without an id takes the manager's.\<close>

definition with_manager_id :: "string \<Rightarrow> notification_manager \<Rightarrow> notification \<Rightarrow> notification" where
  "with_manager_id path nm n =
     (if nt_id n = None
      then (case get_entry_data path nm of Some (i, _) \<Rightarrow> n\<lparr>nt_id := Some i\<rparr> | None \<Rightarrow> n)
      else n)"

definition mutate_notification ::
  "(json \<Rightarrow> string) \<Rightarrow> datetime \<Rightarrow> datetime \<Rightarrow> (notification \<Rightarrow> (nat \<times> string) + notification) \<Rightarrow> string
     \<Rightarrow> notification_server \<Rightarrow> response \<times> notification_server" where
  "mutate_notification disp now utc mutate path sv =
     (case store_read (nv_store sv) path of
        None \<Rightarrow> (Http_error 404 (''Notification not found: '' @ path), sv)
      | Some raw \<Rightarrow>
          (case notification_of_json raw of
             None \<Rightarrow> (Http_error 500 ''Failed to parse notification'', sv)
           | Some n \<Rightarrow>
               (case mutate (with_manager_id path (nv_manager sv) n) of
                  Inl (code, msg) \<Rightarrow> (Http_error code msg, sv)
                | Inr n2 \<Rightarrow>
                    (Ok_json (json_obj [(''message'', JStr ''ok'')]),
                     sv\<lparr>nv_store := store_write disp now utc ''signalk-rs'' [(path, notification_to_json n2)]
                                      (nv_store sv)\<rparr>))))"

definition silence_mutation :: "notification \<Rightarrow> (nat \<times> string) + notification" where
  "silence_mutation n =
     (if nt_state n = Emergency then Inl (422, ''Emergency notifications cannot be silenced'')
      else (let st = unwrap_or (nt_status n) status_default
            in Inr (n\<lparr>nt_method := filter (\<lambda>m. m \<noteq> Sound) (nt_method n),
                      nt_status := Some (st\<lparr>ns_silenced := Some True, ns_can_silence := Some False\<rparr>)\<rparr>)))"

definition acknowledge_mutation :: "notification \<Rightarrow> (nat \<times> string) + notification" where
  "acknowledge_mutation n =
     (let ms = (if nt_state n = Emergency then filter (\<lambda>m. m \<noteq> Sound) (nt_method n)
                else filter (\<lambda>m. \<not> (m = Sound \<or> m = Visual)) (nt_method n));
          st = unwrap_or (nt_status n) status_default
      in Inr (n\<lparr>nt_method := ms,
                nt_status := Some (st\<lparr>ns_acknowledged := Some True, ns_can_acknowledge := Some False\<rparr>)\<rparr>))"

definition api_silence ::
  "(json \<Rightarrow> string) \<Rightarrow> datetime \<Rightarrow> datetime \<Rightarrow> string \<Rightarrow> notification_server \<Rightarrow> response \<times> notification_server" where
  "api_silence disp now utc i sv =
     (if \<not> valid_notification_id i then (Http_error 400 ''Invalid notification ID'', sv)
      else (let path = ''notifications.'' @ i;
                (r, sv') = mutate_notification disp now utc silence_mutation path sv
            in (r, if is_success r then sv'\<lparr>nv_manager := manager_silence path (nv_manager sv')\<rparr> else sv')))"

definition api_acknowledge ::
  "(json \<Rightarrow> string) \<Rightarrow> datetime \<Rightarrow> datetime \<Rightarrow> string \<Rightarrow> notification_server \<Rightarrow> response \<times> notification_server" where
  "api_acknowledge disp now utc i sv =
     (if \<not> valid_notification_id i then (Http_error 400 ''Invalid notification ID'', sv)
      else (let path = ''notifications.'' @ i;
                (r, sv') = mutate_notification disp now utc acknowledge_mutation path sv
            in (r, if is_success r then sv'\<lparr>nv_manager := manager_acknowledge path (nv_manager sv')\<rparr> else sv')))"

section \<open>The JSON form loses nothing\<close>

text \<open>Reading back the JSON form of a notification gives the notification, whichever of
  its optional fields are set.\<close>

theorem notification_roundtrip: "notification_of_json (notification_to_json n) = Some n"
  by (rule notification_roundtrip_lemma)

section \<open>Identities of live notifications\<close>

lemma map_state_Cons:
  "map_state f (x # xs) s =
     (fst (f x s) # fst (map_state f xs (snd (f x s))), snd (map_state f xs (snd (f x s))))"
  by (simp add: Let_def split_beta)

declare map_state.simps(2) [simp del] map_state_Cons [simp]

lemma map_state_inv:
  "(\<And>x s. x \<in> set xs \<Longrightarrow> P s \<Longrightarrow> P (snd (f x s))) \<Longrightarrow> P s \<Longrightarrow> P (snd (map_state f xs s))"
  by (induction xs arbitrary: s) auto

lemma enrich_snd:
  "snd (enrich_delta uuid d nm) = snd (map_state (enrich_update uuid) (d_updates d) nm)"
  "snd (enrich_update uuid u nm) =
     snd (map_state (enrich_pv uuid (s_type (u_source u) = ''Plugin'')) (u_values u) nm)"
  "snd (enrich_pv uuid b pv nm) =
     (if \<not> starts_with (pv_path pv) ''notifications.'' then nm
      else case notification_of_json (pv_value pv) of
             None \<Rightarrow> nm | Some n \<Rightarrow> snd (enrich_notification uuid b (pv_path pv) n nm))"
  by (simp_all add: enrich_delta_def enrich_update_def enrich_pv_def Let_def split_beta split: option.split)

definition ids_ok :: "(nat \<Rightarrow> string) \<Rightarrow> notification_manager \<Rightarrow> bool" where
  "ids_ok uuid nm \<longleftrightarrow>
     (\<forall>p e. map_of (nm_entries nm) p = Some e \<longrightarrow> ne_id e \<in> uuid ` {..<nm_drawn nm}) \<and>
     (\<forall>p q e f. map_of (nm_entries nm) p = Some e \<longrightarrow> map_of (nm_entries nm) q = Some f \<longrightarrow>
        ne_id e = ne_id f \<longrightarrow> p = q)"

lemma ids_ok_old: "ids_ok uuid nm \<Longrightarrow> map_of (nm_entries nm) p = Some e \<Longrightarrow> ne_id e \<in> uuid ` {..<nm_drawn nm}"
  by (simp add: ids_ok_def)

lemma ids_ok_same:
  "ids_ok uuid nm \<Longrightarrow> map_of (nm_entries nm) p = Some e \<Longrightarrow> map_of (nm_entries nm) q = Some f \<Longrightarrow>
   ne_id e = ne_id f \<Longrightarrow> p = q"
  unfolding ids_ok_def by blast

lemma ids_ok_fresh:
  assumes "inj uuid" and "ids_ok uuid nm" and "map_of (nm_entries nm) q = Some f"
  shows "ne_id f \<noteq> uuid (nm_drawn nm)"
  using ids_ok_old [OF assms(2,3)] assms(1) by (auto simp: inj_eq)

lemma ids_ok_entry:
  assumes inj: "inj uuid" and ok: "ids_ok uuid nm"
  shows "ids_ok uuid (snd (entry_or_new uuid b p nm))"
proof (cases "map_of (nm_entries nm) p")
  case None
  let ?e = "\<lparr>ne_id = uuid (nm_drawn nm), ne_plugin_originated = b, ne_silenced = False, ne_acknowledged = False\<rparr>"
  have "ids_ok uuid \<lparr>nm_entries = hm_insert p ?e (nm_entries nm), nm_drawn = Suc (nm_drawn nm)\<rparr>"
    unfolding ids_ok_def
  proof (intro conjI allI impI)
    fix q e assume "map_of (nm_entries \<lparr>nm_entries = hm_insert p ?e (nm_entries nm), nm_drawn = Suc (nm_drawn nm)\<rparr>) q = Some e"
    then show "ne_id e \<in> uuid ` {..<nm_drawn \<lparr>nm_entries = hm_insert p ?e (nm_entries nm), nm_drawn = Suc (nm_drawn nm)\<rparr>}"
      using ids_ok_old [OF ok, of q e] by (auto simp: lessThan_Suc split: if_splits)
  next
    fix q r e f
    assume "map_of (nm_entries \<lparr>nm_entries = hm_insert p ?e (nm_entries nm), nm_drawn = Suc (nm_drawn nm)\<rparr>) q = Some e"
      and "map_of (nm_entries \<lparr>nm_entries = hm_insert p ?e (nm_entries nm), nm_drawn = Suc (nm_drawn nm)\<rparr>) r = Some f"
      and "ne_id e = ne_id f"
    then show "q = r"
      using ids_ok_fresh [OF inj ok, of q e] ids_ok_fresh [OF inj ok, of r f] ids_ok_same [OF ok, of q e r f]
      by (auto split: if_splits)
  qed
  then show ?thesis by (simp add: entry_or_new_def None Let_def)
next
  case (Some e)
  then show ?thesis using assms(2) by (simp add: entry_or_new_def)
qed

lemma ids_ok_sub:
  assumes ok: "ids_ok uuid nm" and drawn: "nm_drawn nm' = nm_drawn nm"
    and sub: "\<And>p e. map_of (nm_entries nm') p = Some e \<Longrightarrow>
                 \<exists>e'. map_of (nm_entries nm) p = Some e' \<and> ne_id e' = ne_id e"
  shows "ids_ok uuid nm'"
  unfolding ids_ok_def
proof (intro conjI allI impI)
  fix p e assume "map_of (nm_entries nm') p = Some e"
  from sub [OF this] ids_ok_old [OF ok] show "ne_id e \<in> uuid ` {..<nm_drawn nm'}" unfolding drawn by metis
next
  fix p q e f assume "map_of (nm_entries nm') p = Some e" "map_of (nm_entries nm') q = Some f" "ne_id e = ne_id f"
  from sub [OF this(1)] sub [OF this(2)] this(3) ids_ok_same [OF ok] show "p = q" by metis
qed

lemma ids_ok_enrich:
  assumes "inj uuid" and ok: "ids_ok uuid nm"
  shows "ids_ok uuid (snd (enrich_notification uuid b p n nm))"
proof (cases "nt_state n = Normal")
  case True
  have "ids_ok uuid (nm\<lparr>nm_entries := hm_remove p (nm_entries nm)\<rparr>)"
    by (rule ids_ok_sub [OF ok]) (simp_all split: if_splits)
  then show ?thesis using ok True by (simp add: enrich_notification_def split: option.split)
next
  case False
  then show ?thesis using ids_ok_entry [OF assms, of b p] by (simp add: enrich_notification_def Let_def split_beta)
qed

lemma ids_ok_delta:
  assumes "inj uuid" and ok: "ids_ok uuid nm"
  shows "ids_ok uuid (snd (enrich_delta uuid d nm))"
proof -
  have pv: "ids_ok uuid (snd (enrich_pv uuid b pv nm))" if "ids_ok uuid nm" for b pv nm
    using ids_ok_enrich [OF assms(1) that] that by (simp add: enrich_snd split: option.split)
  have "ids_ok uuid (snd (enrich_update uuid u nm))" if "ids_ok uuid nm" for u nm
    unfolding enrich_snd by (rule map_state_inv [where P = "ids_ok uuid"]) (simp_all add: pv that)
  then show ?thesis
    unfolding enrich_snd(1) by (intro map_state_inv [where P = "ids_ok uuid"]) (simp_all add: ok)
qed

lemma ids_ok_update_entry:
  assumes "\<And>e. ne_id (f e) = ne_id e" and ok: "ids_ok uuid nm"
  shows "ids_ok uuid (update_entry f p nm)"
proof (cases "map_of (nm_entries nm) p")
  case None
  then show ?thesis using ok by (simp add: update_entry_def)
next
  case (Some e)
  have "ids_ok uuid (nm\<lparr>nm_entries := hm_insert p (f e) (nm_entries nm)\<rparr>)"
    by (rule ids_ok_sub [OF ok]) (auto simp: assms(1) Some split: if_splits)
  then show ?thesis by (simp add: update_entry_def Some)
qed

text \<open>Everything that changes the manager while the server runs.\<close>

inductive manager_reach :: "(nat \<Rightarrow> string) \<Rightarrow> notification_manager \<Rightarrow> bool" for uuid where
  start: "manager_reach uuid manager_new"
| enrich: "manager_reach uuid nm \<Longrightarrow> manager_reach uuid (snd (enrich_delta uuid d nm))"
| silenced: "manager_reach uuid nm \<Longrightarrow> manager_reach uuid (manager_silence p nm)"
| acknowledged: "manager_reach uuid nm \<Longrightarrow> manager_reach uuid (manager_acknowledge p nm)"

text \<open>Claim C15. Live notifications have different identities: when the UUID generator never repeats,
  no two paths the manager tracks have the same id, after any sequence of deltas and API
  calls.\<close>

theorem live_ids_unique:
  assumes "inj uuid" and "manager_reach uuid nm"
    and "get_entry_data p nm = Some (i, d)" and "get_entry_data q nm = Some (i, d')"
  shows "p = q"
proof -
  from assms(2) have "ids_ok uuid nm"
  proof (induction rule: manager_reach.induct)
    case start
    show ?case by (simp add: manager_new_def ids_ok_def)
  qed (simp_all add: ids_ok_delta assms(1) manager_silence_def manager_acknowledge_def ids_ok_update_entry)
  with assms(3,4) show ?thesis by (auto simp: get_entry_data_def ids_ok_def)
qed

definition alarm :: "notification_state \<Rightarrow> notification" where
  "alarm st = \<lparr>nt_id = None, nt_state = st, nt_method = [Visual, Sound], nt_message = ''deep'', nt_status = None\<rparr>"

lemma alarm_simps [simp]: "nt_state (alarm st) = st" "nt_method (alarm st) = [Visual, Sound]"
  by (simp_all add: alarm_def)

definition raise_delta :: "string \<Rightarrow> notification \<Rightarrow> delta" where
  "raise_delta p n = self_vessel [update_new 0 (source_plugin ''depth'') [path_value_new p (notification_to_json n)]]"

lemma entries_raise:
  assumes "nt_state n \<noteq> Normal" and "starts_with p ''notifications.''"
  shows "snd (enrich_delta uuid (raise_delta p n) nm) = snd (entry_or_new uuid True p nm)"
  using assms
  by (simp add: enrich_snd raise_delta_def self_vessel_def update_new_def path_value_new_def source_plugin_def
      notification_roundtrip_lemma enrich_notification_def Let_def split_beta)

theorem live_ids_unique_witness:
  "let uuid = (\<lambda>n. replicate n CHR ''0'');
       nm = snd (enrich_delta uuid (raise_delta ''notifications.a'' (alarm Alarm)) manager_new)
   in inj uuid \<and> get_entry_data ''notifications.a'' nm = Some ([], False, False, True) \<and>
      (\<forall>q d. get_entry_data q nm = Some ([], d) \<longrightarrow> ''notifications.a'' = q)"
proof -
  have inj: "inj (\<lambda>n. replicate n CHR ''0'')" by (rule injI) (metis length_replicate)
  let ?nm = "snd (enrich_delta (\<lambda>n. replicate n CHR ''0'') (raise_delta ''notifications.a'' (alarm Alarm)) manager_new)"
  have reach: "manager_reach (\<lambda>n. replicate n CHR ''0'') ?nm"
    by (rule manager_reach.enrich [OF manager_reach.start])
  have here: "get_entry_data ''notifications.a'' ?nm = Some ([], False, False, True)"
    by (simp add: entries_raise alarm_def starts_with_def get_entry_data_def entry_or_new_def manager_new_def Let_def)
  show ?thesis
    unfolding Let_def using inj here live_ids_unique [OF inj reach here] by blast
qed

lemma map_state_all:
  "(\<And>x s. x \<in> set xs \<Longrightarrow> P s \<Longrightarrow> P (snd (f x s)) \<and> Q (fst (f x s))) \<Longrightarrow> P s \<Longrightarrow>
   P (snd (map_state f xs s)) \<and> (\<forall>y \<in> set (fst (map_state f xs s)). Q y)"
  by (induction xs arbitrary: s) auto

definition clears :: "string \<Rightarrow> path_value \<Rightarrow> bool" where
  "clears p pv \<longleftrightarrow> pv_path pv = p \<and> is_some_and (notification_of_json (pv_value pv)) (\<lambda>n. nt_state n = Normal)"

definition carries_id :: "string \<Rightarrow> string \<Rightarrow> path_value \<Rightarrow> bool" where
  "carries_id p i pv \<longleftrightarrow> (pv_path pv = p \<longrightarrow> (case notification_of_json (pv_value pv) of
     None \<Rightarrow> True | Some n \<Rightarrow> nt_id n = Some i))"

lemma enrich_pv_live:
  assumes "map_of (nm_entries nm) p = Some e" and "\<not> clears p pv" and "starts_with p ''notifications.''"
  shows "map_of (nm_entries (snd (enrich_pv uuid b pv nm))) p = Some e \<and>
         carries_id p (ne_id e) (fst (enrich_pv uuid b pv nm))"
proof (cases "notification_of_json (pv_value pv)")
  case None
  then show ?thesis using assms by (simp add: enrich_pv_def carries_id_def)
next
  case (Some n)
  have other: "map_of (nm_entries (snd (enrich_notification uuid b q n nm))) p = Some e" if "q \<noteq> p" for q
    using that assms(1) by (simp add: enrich_notification_def entry_or_new_def Let_def split_beta split: option.split)
  show ?thesis
    using assms Some other [of "pv_path pv"]
    by (cases "pv_path pv = p") (auto simp: enrich_pv_def Let_def split_beta carries_id_def clears_def is_some_and_iff notification_roundtrip_lemma
        enrich_notification_def entry_or_new_def)
qed

text \<open>An id is stable while its notification is live: as long as a delta does not clear
  the notification of a path, the manager's entry of that path stays as it is and every
  notification of the path leaves the manager with the same id, whatever id it came with.\<close>

theorem id_stable_until_cleared:
  assumes "map_of (nm_entries nm) p = Some e" and "starts_with p ''notifications.''"
    and "\<forall>u \<in> set (d_updates d). \<forall>pv \<in> set (u_values u). \<not> clears p pv"
    and "enrich_delta uuid d nm = (d', nm')"
  shows "map_of (nm_entries nm') p = Some e \<and>
         (\<forall>u \<in> set (d_updates d'). \<forall>pv \<in> set (u_values u). carries_id p (ne_id e) pv)"
proof -
  let ?P = "\<lambda>nm. map_of (nm_entries nm) p = Some e"
  let ?Q = "\<lambda>u. \<forall>pv \<in> set (u_values u). carries_id p (ne_id e) pv"
  have "?P (snd (enrich_update uuid u nm)) \<and> ?Q (fst (enrich_update uuid u nm))"
    if "u \<in> set (d_updates d)" "?P nm" for u nm
    using map_state_all [where P = ?P and Q = "carries_id p (ne_id e)" and xs = "u_values u"
        and f = "enrich_pv uuid (s_type (u_source u) = ''Plugin'')" and s = nm]
      enrich_pv_live [OF _ _ assms(2)] that(2) assms(3) that(1)
    by (simp add: enrich_update_def Let_def split_beta)
  from map_state_all [where P = ?P and Q = ?Q, OF this assms(1)] assms(4) show ?thesis
    by (auto simp: enrich_delta_def Let_def split_beta)
qed

theorem id_stable_until_cleared_witness:
  "let nm = snd (enrich_delta (\<lambda>_. ''u'') (raise_delta ''notifications.a'' (alarm Alarm)) manager_new)
   in nm_entries (snd (enrich_delta (\<lambda>_. ''w'') (raise_delta ''notifications.a'' (alarm Warn)) nm)) \<noteq> []"
proof -
  define nm where "nm = snd (enrich_delta (\<lambda>_. ''u'') (raise_delta ''notifications.a'' (alarm Alarm)) manager_new)"
  obtain e where e: "map_of (nm_entries nm) ''notifications.a'' = Some e"
    by (simp add: nm_def entries_raise alarm_def starts_with_def entry_or_new_def manager_new_def Let_def)
  have "map_of (nm_entries (snd (enrich_delta (\<lambda>_. ''w'') (raise_delta ''notifications.a'' (alarm Warn)) nm)))
      ''notifications.a'' = Some e"
    using id_stable_until_cleared [of nm "''notifications.a''" e "raise_delta ''notifications.a'' (alarm Warn)" "\<lambda>_. ''w''"] e
    by (cases "enrich_delta (\<lambda>_. ''w'') (raise_delta ''notifications.a'' (alarm Warn)) nm")
       (simp add: raise_delta_def self_vessel_def update_new_def clears_def is_some_and_iff path_value_new_def
         notification_roundtrip_lemma alarm_def starts_with_def)
  then show ?thesis unfolding Let_def nm_def by force
qed

section \<open>Silencing\<close>

text \<open>What silencing does. For a notification that is there and is no emergency the
  handler answers with success and marks the manager's entry; the stored value becomes the
  silenced notification only if the store accepts a value of the server's own source for that
  path, and otherwise keeps sounding.\<close>

theorem silence_outcome:
  assumes stored: "store_read (nv_store sv) (''notifications.'' @ i) = Some raw"
    and parsed: "notification_of_json raw = Some n" and not_emergency: "nt_state n \<noteq> Emergency"
    and valid: "valid_notification_id i"
    and run: "api_silence disp now utc i sv = (r, sv')"
  shows "is_success r \<and> nv_manager sv' = manager_silence (''notifications.'' @ i) (nv_manager sv) \<and>
         (if store_accepts now ''signalk-rs'' (nv_store sv) (''notifications.'' @ i)
          then \<exists>m. Option.bind (store_read (nv_store sv') (''notifications.'' @ i)) notification_of_json = Some m \<and>
                 nt_state m = nt_state n \<and> Sound \<notin> set (nt_method m) \<and>
                 (\<exists>st. nt_status m = Some st \<and> ns_silenced st = Some True \<and> ns_can_silence st = Some False)
          else store_read (nv_store sv') (''notifications.'' @ i) = Some raw)"
proof -
  define p where "p = ''notifications.'' @ i"
  define n1 where "n1 = with_manager_id p (nv_manager sv) n"
  have n1: "nt_state n1 = nt_state n" by (simp add: n1_def with_manager_id_def split: option.split)
  obtain m where m: "silence_mutation n1 = Inr m" "nt_state m = nt_state n" "Sound \<notin> set (nt_method m)"
      "\<exists>st. nt_status m = Some st \<and> ns_silenced st = Some True \<and> ns_can_silence st = Some False"
    using not_emergency by (simp add: silence_mutation_def n1 Let_def)
  have "mutate_notification disp now utc silence_mutation p sv =
      (Ok_json (json_obj [(''message'', JStr ''ok'')]),
       sv\<lparr>nv_store := store_write disp now utc ''signalk-rs'' [(p, notification_to_json m)] (nv_store sv)\<rparr>)"
    using stored [folded p_def] parsed m(1) [unfolded n1_def] by (simp add: mutate_notification_def)
  then have r: "is_success r" and sv': "sv' = sv\<lparr>nv_store := store_write disp now utc ''signalk-rs''
      [(p, notification_to_json m)] (nv_store sv), nv_manager := manager_silence p (nv_manager sv)\<rparr>"
    using run valid by (auto simp: api_silence_def p_def is_success_def Let_def)
  show ?thesis
    using r m stored port.read_write_one [of disp now utc "''signalk-rs''" p "notification_to_json m" "nv_store sv" p]
    unfolding p_def [symmetric] sv' by (simp add: notification_roundtrip_lemma)
qed

text \<open>A store where the source of an alarm has a better priority than the server's own.\<close>

definition depth_store :: store where
  "depth_store = store_write (\<lambda>_. []) 0 0 ''depth'' [(''notifications.a'', notification_to_json (alarm Alarm))]
     (set_source_priorities [''depth'' \<mapsto> 10] (store_new ''me''))"

lemma depth_store_get:
  "get_self_path depth_store ''notifications.a'' =
     Some (signalk_value_new (notification_to_json (alarm Alarm)) ''depth'' 0)"
proof -
  have "get_self_path (set_source_priorities [''depth'' \<mapsto> 10] (store_new ''me'')) ''notifications.a'' = None"
    by (simp add: get_self_path_def set_source_priorities_def store_new_def vessel_default_def)
  then show ?thesis by (simp add: depth_store_def store_write_get store_accepts_iff)
qed

lemma depth_store_accepts: "\<not> store_accepts now ''signalk-rs'' depth_store ''notifications.a''"
  by (simp add: store_accepts_iff depth_store_get expired_def priority_of_def DEFAULT_SOURCE_PRIORITY_def)
     (simp add: depth_store_def set_source_priorities_def store_new_def)

theorem silence_outcome_witness:
  "let (r, sv') = api_silence (\<lambda>_. []) 1 1 ''a'' \<lparr>nv_store = depth_store, nv_manager = manager_new\<rparr>
   in is_success r \<and> store_read (nv_store sv') ''notifications.a'' = Some (notification_to_json (alarm Alarm))"
proof -
  have v: "valid_notification_id ''a''"
    by (simp add: valid_notification_id_def starts_with_def ends_with_def)
  obtain r sv' where run: "api_silence (\<lambda>_. []) 1 1 ''a'' \<lparr>nv_store = depth_store, nv_manager = manager_new\<rparr> = (r, sv')"
    by (cases "api_silence (\<lambda>_. []) 1 1 ''a'' \<lparr>nv_store = depth_store, nv_manager = manager_new\<rparr>")
  show ?thesis
    using silence_outcome [OF _ _ _ v run, of "notification_to_json (alarm Alarm)" "alarm Alarm"] run
      depth_store_get depth_store_accepts
    by (simp add: store_read_def notification_roundtrip_lemma alarm_def)
qed

text \<open>Silencing does not outlive the next report: when the plugin raises a silenced
  notification again with the sound method, as it does while the condition lasts, the manager
  sends it on with the sound, flagged as silenced, and once the store takes it the alarm is
  heard again.\<close>

theorem silenced_alarm_sounds_again:
  assumes "map_of (nm_entries nm) p = Some e" and "starts_with p ''notifications.''"
    and "nt_state n \<noteq> Normal" and "Sound \<in> set (nt_method n)"
    and "store_accepts now plugin s p"
    and "enrich_delta uuid (plugin_delta utc plugin [(p, notification_to_json n)]) (manager_silence p nm) = (d, nm')"
  shows "\<exists>m. Option.bind (store_read (apply_delta disp now d s) p) notification_of_json = Some m \<and>
           Sound \<in> set (nt_method m) \<and> map_option ns_silenced (nt_status m) = Some (Some True)"
proof -
  define e' where "e' = e\<lparr>ne_silenced := True\<rparr>"
  define m where "m = n\<lparr>nt_id := Some (ne_id e), nt_status := Some (entry_status (nt_state n) e')\<rparr>"
  have "map_of (nm_entries (manager_silence p nm)) p = Some e'"
    using assms(1) by (simp add: manager_silence_def update_entry_def e'_def)
  then have "d = plugin_delta utc plugin [(p, notification_to_json m)]"
    using assms(2,3,6)
    by (auto simp: enrich_delta_def enrich_update_def plugin_delta_def self_vessel_def update_new_def path_value_new_def
        enrich_pv_def notification_roundtrip_lemma enrich_notification_def entry_or_new_def source_plugin_def
        Let_def m_def e'_def)
  then have "store_read (apply_delta disp now d s) p = Some (notification_to_json m)"
    using port.read_write_one [of disp now utc plugin p "notification_to_json m" s p] assms(5)
    by (simp add: store_write_def)
  then show ?thesis
    using assms(4) by (simp add: notification_roundtrip_lemma m_def entry_status_def e'_def)
qed

theorem silenced_alarm_sounds_again_witness:
  "let nm = snd (entry_or_new (\<lambda>_. ''u'') True ''notifications.a'' manager_new);
       (d, _) = enrich_delta (\<lambda>_. ''u'') (plugin_delta 0 ''depth'' [(''notifications.a'', notification_to_json (alarm Alarm))])
                  (manager_silence ''notifications.a'' nm)
   in \<exists>m. Option.bind (store_read (apply_delta (\<lambda>_. []) 0 d (store_new ''me'')) ''notifications.a'') notification_of_json = Some m \<and>
        Sound \<in> set (nt_method m)"
proof -
  define nm where "nm = snd (entry_or_new (\<lambda>_. ''u'') True ''notifications.a'' manager_new)"
  obtain e where e: "map_of (nm_entries nm) ''notifications.a'' = Some e"
    by (simp add: nm_def entry_or_new_def manager_new_def Let_def)
  have acc: "store_accepts 0 ''depth'' (store_new ''me'') ''notifications.a''"
    by (simp add: store_accepts_iff get_self_path_def store_new_def vessel_default_def)
  obtain d nm' where run: "enrich_delta (\<lambda>_. ''u'') (plugin_delta 0 ''depth'' [(''notifications.a'', notification_to_json (alarm Alarm))])
      (manager_silence ''notifications.a'' nm) = (d, nm')" by force
  from silenced_alarm_sounds_again [OF e _ _ _ acc run] show ?thesis
    unfolding Let_def nm_def [symmetric] run by (auto simp: starts_with_def)
qed

end
