(* ===== verification/Resources.thy ===== *)
theory Resources
  imports Types
begin

text \<open>
  \<^verbatim>\<open>signalk-server/src/resources/registry.rs\<close>: the registry that routes requests for
  resources to providers, and \<^verbatim>\<open>resources/file_provider.rs\<close>, the provider that is
  always there. A provider is a record of its operations over a shared world of type
  \<open>'w\<close> (the file system, the state of the plugins). The file provider runs on a disk
  that does not fail; a file is its path, as a list of components below the base directory,
  with its contents. Parsing and printing JSON text are arguments; the UUID drawn by a
  creation is an argument.
\<close>

section \<open>Providers\<close>

record resource_query =
  rq_distance :: "f64 option"
  rq_limit :: "nat option"
  rq_bbox :: "string option"
  rq_provider :: "string option"

record 'w provider =
  rp_list :: "string \<Rightarrow> resource_query \<Rightarrow> 'w \<Rightarrow> json plugin_result"
  rp_get :: "string \<Rightarrow> string \<Rightarrow> 'w \<Rightarrow> json option plugin_result"
  rp_create :: "string \<Rightarrow> json \<Rightarrow> 'w \<Rightarrow> string plugin_result \<times> 'w"
  rp_update :: "string \<Rightarrow> string \<Rightarrow> json \<Rightarrow> 'w \<Rightarrow> unit plugin_result \<times> 'w"
  rp_delete :: "string \<Rightarrow> string \<Rightarrow> 'w \<Rightarrow> unit plugin_result \<times> 'w"

section \<open>The registry\<close>

record 'w registry =
  rg_providers :: "string \<Rightarrow> (string \<times> 'w provider) list option"
  rg_defaults :: "string \<Rightarrow> string option"
  rg_file :: "'w provider"

definition registry_new :: "'w provider \<Rightarrow> 'w registry" where
  "registry_new fp = \<lparr>rg_providers = Map.empty, rg_defaults = Map.empty, rg_file = fp\<rparr>"

definition registered :: "'w registry \<Rightarrow> string \<Rightarrow> (string \<times> 'w provider) list" where
  "registered rg t = unwrap_or (rg_providers rg t) []"

definition replace_or_push :: "string \<Rightarrow> 'v \<Rightarrow> (string \<times> 'v) list \<Rightarrow> (string \<times> 'v) list" where
  "replace_or_push k v xs = AList.update k v xs"

definition reg_register :: "string \<Rightarrow> string \<Rightarrow> 'w provider \<Rightarrow> 'w registry \<Rightarrow> 'w registry" where
  "reg_register t pid p rg =
     rg\<lparr>rg_providers := (rg_providers rg)(t \<mapsto> replace_or_push pid p (registered rg t))\<rparr>"

definition reg_unregister :: "string \<Rightarrow> 'w registry \<Rightarrow> 'w registry" where
  "reg_unregister pid rg =
     rg\<lparr>rg_providers := map_option (filter (\<lambda>(i, _). i \<noteq> pid)) \<circ> rg_providers rg,
        rg_defaults := map_retain (\<lambda>v. v \<noteq> pid) (rg_defaults rg)\<rparr>"

definition not_registered :: "string \<Rightarrow> string \<Rightarrow> plugin_error" where
  "not_registered t pid = NotFound (''Provider '' @ [CHR 0x27] @ pid @ [CHR 0x27] @ '' not registered for ''
     @ [CHR 0x27] @ t @ [CHR 0x27])"

definition reg_set_default :: "string \<Rightarrow> string \<Rightarrow> 'w registry \<Rightarrow> unit plugin_result \<times> 'w registry" where
  "reg_set_default t pid rg =
     (if pid = ''file-provider'' then (Inr (), rg\<lparr>rg_defaults := (rg_defaults rg)(t := None)\<rparr>)
      else if \<not> list_ex (\<lambda>(i, _). i = pid) (registered rg t) then (Inl (not_registered t pid), rg)
      else (Inr (), rg\<lparr>rg_defaults := (rg_defaults rg)(t \<mapsto> pid)\<rparr>))"

definition reg_provider_ids :: "string \<Rightarrow> 'w registry \<Rightarrow> string list" where
  "reg_provider_ids t rg = map fst (registered rg t) @ [''file-provider'']"

definition reg_active_provider_id :: "string \<Rightarrow> 'w registry \<Rightarrow> string" where
  "reg_active_provider_id t rg = unwrap_or (rg_defaults rg t) ''file-provider''"

definition find_provider :: "string \<Rightarrow> string \<Rightarrow> 'w registry \<Rightarrow> 'w provider plugin_result" where
  "find_provider t pid rg =
     (if pid = ''file-provider'' then Inr (rg_file rg)
      else case map_of (registered rg t) pid of
             Some p \<Rightarrow> Inr p
           | None \<Rightarrow> Inl (not_registered t pid))"

section \<open>Routing\<close>

definition merge_list :: "string \<Rightarrow> resource_query \<Rightarrow> 'w \<Rightarrow> 'w provider \<Rightarrow> json omap \<Rightarrow> json omap" where
  "merge_list t q w p merged =
     (case rp_list p t q w of
        Inr (JObj m) \<Rightarrow> fold (\<lambda>(k, v). om_or_insert k v) m merged
      | _ \<Rightarrow> merged)"

definition reg_list :: "string \<Rightarrow> resource_query \<Rightarrow> 'w registry \<Rightarrow> 'w \<Rightarrow> json plugin_result" where
  "reg_list t q rg w =
     (case rq_provider q of
        Some target \<Rightarrow>
          (case find_provider t target rg of Inl e \<Rightarrow> Inl e | Inr p \<Rightarrow> rp_list p t q w)
      | None \<Rightarrow>
          (let merged = merge_list t q w (rg_file rg)
                          (fold (\<lambda>(_, p). merge_list t q w p) (registered rg t) [])
           in Inr (JObj (case rq_limit q of Some l \<Rightarrow> take l merged | None \<Rightarrow> merged))))"

fun poll_get :: "string \<Rightarrow> string \<Rightarrow> 'w \<Rightarrow> 'w provider \<Rightarrow> (string \<times> 'w provider) list \<Rightarrow> json option plugin_result" where
  "poll_get t i w fp [] = rp_get fp t i w"
| "poll_get t i w fp ((_, p) # ps) =
     (case rp_get p t i w of
        Inr (Some v) \<Rightarrow> Inr (Some v)
      | Inr None \<Rightarrow> poll_get t i w fp ps
      | Inl e \<Rightarrow> if is_not_found e then poll_get t i w fp ps else Inl e)"

definition reg_get :: "string \<Rightarrow> string \<Rightarrow> string option \<Rightarrow> 'w registry \<Rightarrow> 'w \<Rightarrow> json option plugin_result" where
  "reg_get t i provider rg w =
     (case provider of
        Some target \<Rightarrow> (case find_provider t target rg of Inl e \<Rightarrow> Inl e | Inr p \<Rightarrow> rp_get p t i w)
      | None \<Rightarrow> poll_get t i w (rg_file rg) (registered rg t))"

definition reg_create :: "string \<Rightarrow> json \<Rightarrow> string option \<Rightarrow> 'w registry \<Rightarrow> 'w \<Rightarrow> string plugin_result \<times> 'w" where
  "reg_create t v provider rg w =
     (case provider of
        Some target \<Rightarrow> (case find_provider t target rg of Inl e \<Rightarrow> (Inl e, w) | Inr p \<Rightarrow> rp_create p t v w)
      | None \<Rightarrow>
          (case Option.bind (rg_defaults rg t) (map_of (registered rg t)) of
             Some p \<Rightarrow> rp_create p t v w
           | None \<Rightarrow> rp_create (rg_file rg) t v w))"

text \<open>Updating and deleting poll in the same way: the first answer that is not "not found" counts.\<close>

fun poll_change :: "('w provider \<Rightarrow> 'w \<Rightarrow> unit plugin_result \<times> 'w) \<Rightarrow> 'w \<Rightarrow> 'w provider \<Rightarrow> (string \<times> 'w provider) list
    \<Rightarrow> unit plugin_result \<times> 'w" where
  "poll_change f w fp [] = f fp w"
| "poll_change f w fp ((_, p) # ps) =
     (case f p w of
        (Inr (), w') \<Rightarrow> (Inr (), w')
      | (Inl e, w') \<Rightarrow> if is_not_found e then poll_change f w' fp ps else (Inl e, w'))"

definition reg_change :: "('w provider \<Rightarrow> 'w \<Rightarrow> unit plugin_result \<times> 'w) \<Rightarrow> string \<Rightarrow> string option
    \<Rightarrow> 'w registry \<Rightarrow> 'w \<Rightarrow> unit plugin_result \<times> 'w" where
  "reg_change f t provider rg w =
     (case provider of
        Some target \<Rightarrow> (case find_provider t target rg of Inl e \<Rightarrow> (Inl e, w) | Inr p \<Rightarrow> f p w)
      | None \<Rightarrow> poll_change f w (rg_file rg) (registered rg t))"

definition reg_update :: "string \<Rightarrow> string \<Rightarrow> json \<Rightarrow> string option \<Rightarrow> 'w registry \<Rightarrow> 'w \<Rightarrow> unit plugin_result \<times> 'w" where
  "reg_update t i v = reg_change (\<lambda>p. rp_update p t i v) t"

definition reg_delete :: "string \<Rightarrow> string \<Rightarrow> string option \<Rightarrow> 'w registry \<Rightarrow> 'w \<Rightarrow> unit plugin_result \<times> 'w" where
  "reg_delete t i = reg_change (\<lambda>p. rp_delete p t i) t"

section \<open>The file provider\<close>

type_synonym file_path = "string list"

type_synonym disk = "(file_path \<times> string) list"

definition valid_component :: "string \<Rightarrow> bool" where
  "valid_component c \<longleftrightarrow> \<not> (contains_str c ''..'' \<or> CHR ''/'' \<in> set c \<or> CHR 0x5C \<in> set c)"

definition reject_traversal :: "string \<Rightarrow> unit plugin_result" where
  "reject_traversal c = (if valid_component c then Inr () else Inl (Config (''invalid path component: '' @ c)))"

text \<open>\<^verbatim>\<open>join\<close> with an empty component, or with the current directory, stays where it is.\<close>

definition type_dir :: "string \<Rightarrow> file_path plugin_result" where
  "type_dir t = (case reject_traversal t of Inl e \<Rightarrow> Inl e
     | Inr _ \<Rightarrow> Inr (if t = [] \<or> t = ''.'' then [] else [t]))"

definition resource_path :: "string \<Rightarrow> string \<Rightarrow> file_path plugin_result" where
  "resource_path t i =
     (case type_dir t of Inl e \<Rightarrow> Inl e
      | Inr d \<Rightarrow> (case reject_traversal i of Inl e \<Rightarrow> Inl e | Inr _ \<Rightarrow> Inr (d @ [i @ ''.json''])))"

text \<open>Stem and extension of a file name: the last dot separates them unless it is the first character.\<close>

definition file_stem_ext :: "string \<Rightarrow> string \<times> string option" where
  "file_stem_ext name =
     (let after = rev (takeWhile (\<lambda>c. c \<noteq> CHR ''.'') (rev name));
          before = take (length name - Suc (length after)) name
      in if CHR ''.'' \<in> set name \<and> before \<noteq> [] then (before, Some after) else (name, None))"

definition tmp_of :: "file_path \<Rightarrow> file_path" where
  "tmp_of p = butlast p @ [fst (file_stem_ext (last p)) @ ''.json.tmp'']"

datatype disk_step = Write_file file_path string | Rename_file file_path file_path

fun step_disk :: "disk_step \<Rightarrow> disk \<Rightarrow> disk" where
  "step_disk (Write_file p c) d = AList.update p c d"
| "step_disk (Rename_file p q) d =
     (case map_of d p of Some c \<Rightarrow> AList.update q c (AList.delete p d) | None \<Rightarrow> d)"

text \<open>The write that a reader never sees half done: a temporary file, then a rename.\<close>

definition write_steps :: "file_path \<Rightarrow> string \<Rightarrow> disk_step list" where
  "write_steps p c = [Write_file (tmp_of p) c, Rename_file (tmp_of p) p]"

definition disk_run :: "disk_step list \<Rightarrow> disk \<Rightarrow> disk" where
  "disk_run steps d = fold step_disk steps d"

fun list_entries :: "(string \<Rightarrow> json option) \<Rightarrow> file_path \<Rightarrow> nat option \<Rightarrow> disk \<Rightarrow> json omap \<Rightarrow> json omap" where
  "list_entries parse dir limit [] acc = acc"
| "list_entries parse dir limit ((p, c) # d) acc =
     (if p = [] \<or> butlast p \<noteq> dir then list_entries parse dir limit d acc
      else if is_some_and limit (\<lambda>l. l \<le> length acc) then acc
      else (case file_stem_ext (last p) of
              (i, Some ext) \<Rightarrow>
                (if ext \<noteq> ''json'' then list_entries parse dir limit d acc
                 else (case parse c of
                         Some v \<Rightarrow> list_entries parse dir limit d (om_insert i v acc)
                       | None \<Rightarrow> list_entries parse dir limit d acc))
            | (i, None) \<Rightarrow> list_entries parse dir limit d acc))"

definition file_list :: "(string \<Rightarrow> json option) \<Rightarrow> string \<Rightarrow> resource_query \<Rightarrow> disk \<Rightarrow> json plugin_result" where
  "file_list parse t q d =
     (case type_dir t of Inl e \<Rightarrow> Inl e | Inr dir \<Rightarrow> Inr (JObj (list_entries parse dir (rq_limit q) d [])))"

definition file_get :: "(string \<Rightarrow> json option) \<Rightarrow> string \<Rightarrow> string \<Rightarrow> disk \<Rightarrow> json option plugin_result" where
  "file_get parse t i d =
     (case resource_path t i of
        Inl e \<Rightarrow> Inl e
      | Inr p \<Rightarrow>
          (case map_of d p of
             None \<Rightarrow> Inr None
           | Some c \<Rightarrow> (case parse c of Some v \<Rightarrow> Inr (Some v) | None \<Rightarrow> Inl (Runtime ''malformed JSON''))))"

definition file_create :: "(json \<Rightarrow> string) \<Rightarrow> string \<Rightarrow> string \<Rightarrow> json \<Rightarrow> disk \<Rightarrow> string plugin_result \<times> disk" where
  "file_create print i t v d =
     (case resource_path t i of
        Inl e \<Rightarrow> (Inl e, d)
      | Inr p \<Rightarrow> (Inr i, disk_run (write_steps p (print v)) d))"

definition file_update :: "(json \<Rightarrow> string) \<Rightarrow> string \<Rightarrow> string \<Rightarrow> json \<Rightarrow> disk \<Rightarrow> unit plugin_result \<times> disk" where
  "file_update print t i v d =
     (case resource_path t i of
        Inl e \<Rightarrow> (Inl e, d)
      | Inr p \<Rightarrow>
          (if map_of d p = None then (Inl (NotFound (t @ ''/'' @ i)), d)
           else (Inr (), disk_run (write_steps p (print v)) d)))"

definition file_delete :: "string \<Rightarrow> string \<Rightarrow> disk \<Rightarrow> unit plugin_result \<times> disk" where
  "file_delete t i d =
     (case resource_path t i of
        Inl e \<Rightarrow> (Inl e, d)
      | Inr p \<Rightarrow>
          (if map_of d p = None then (Inl (NotFound (t @ ''/'' @ i)), d)
           else (Inr (), AList.delete p d)))"

definition file_provider :: "(string \<Rightarrow> json option) \<Rightarrow> (json \<Rightarrow> string) \<Rightarrow> string \<Rightarrow> disk provider" where
  "file_provider parse print uuid =
     \<lparr>rp_list = file_list parse, rp_get = file_get parse, rp_create = file_create print uuid,
      rp_update = file_update print, rp_delete = file_delete\<rparr>"

end
