(* ===== verification/ResourceSpec.thy ===== *)
theory ResourceSpec
  imports Resources
begin

text \<open>
  The contract of a store of resources as a locale, the file provider and the registry as two
  providers of it, and the properties of the routing.
\<close>

section \<open>The contract\<close>

locale resource_laws =
  fixes look :: "string \<Rightarrow> string \<Rightarrow> 'w \<Rightarrow> json option plugin_result"
    and upd :: "string \<Rightarrow> string \<Rightarrow> json \<Rightarrow> 'w \<Rightarrow> unit plugin_result \<times> 'w"
    and del :: "string \<Rightarrow> string \<Rightarrow> 'w \<Rightarrow> unit plugin_result \<times> 'w"
    and good :: "string \<Rightarrow> string \<Rightarrow> bool"
    and storable :: "json \<Rightarrow> bool"
    and ok :: "'w \<Rightarrow> bool"
  assumes look_total: "good t i \<Longrightarrow> ok w \<Longrightarrow> \<exists>x. look t i w = Inr x"
    and upd_missing: "good t i \<Longrightarrow> ok w \<Longrightarrow> look t i w = Inr None \<Longrightarrow>
          \<exists>e. upd t i v w = (Inl e, w) \<and> is_not_found e"
    and upd_there: "good t i \<Longrightarrow> ok w \<Longrightarrow> look t i w = Inr (Some u) \<Longrightarrow> storable v \<Longrightarrow>
          \<exists>w'. upd t i v w = (Inr (), w') \<and> ok w' \<and>
               (\<forall>t' i'. good t' i' \<longrightarrow> look t' i' w' = (if t' = t \<and> i' = i then Inr (Some v) else look t' i' w))"
    and del_missing: "good t i \<Longrightarrow> ok w \<Longrightarrow> look t i w = Inr None \<Longrightarrow>
          \<exists>e. del t i w = (Inl e, w) \<and> is_not_found e"
    and del_there: "good t i \<Longrightarrow> ok w \<Longrightarrow> look t i w = Inr (Some u) \<Longrightarrow>
          \<exists>w'. del t i w = (Inr (), w') \<and> ok w' \<and>
               (\<forall>t' i'. good t' i' \<longrightarrow> look t' i' w' = (if t' = t \<and> i' = i then Inr None else look t' i' w))"
begin

lemma look_cases:
  assumes "good t i" and "ok w"
  obtains "look t i w = Inr None" | v where "look t i w = Inr (Some v)"
  using look_total [OF assms] by (metis option.exhaust)

lemma upd_keeps_ok:
  assumes "good t i" and "ok w" and "storable v"
  shows "ok (snd (upd t i v w))"
  using assms(1,2)
proof (cases rule: look_cases)
  case 1
  then show ?thesis using upd_missing [OF assms(1,2), of v] assms(2) by auto
next
  case (2 u)
  then show ?thesis using upd_there [OF assms(1,2) _ assms(3)] by force
qed

lemma upd_last_wins:
  assumes "good t i" and "ok w" and "look t i w = Inr (Some x)" and "storable u" and "storable v"
  shows "look t i (snd (upd t i v (snd (upd t i u w)))) = Inr (Some v)"
proof -
  obtain w1 where 1: "upd t i u w = (Inr (), w1)" "ok w1" "look t i w1 = Inr (Some u)"
    using upd_there [OF assms(1-4)] assms(1) by auto
  obtain w2 where "upd t i v w1 = (Inr (), w2)" "look t i w2 = Inr (Some v)"
    using upd_there [OF assms(1) 1(2,3) assms(5)] assms(1) by auto
  with 1 show ?thesis by simp
qed

lemma upd_del_gone:
  assumes "good t i" and "ok w" and "look t i w = Inr (Some x)" and "storable u"
  shows "\<exists>w1 w2. upd t i u w = (Inr (), w1) \<and> look t i w1 = Inr (Some u) \<and>
           del t i w1 = (Inr (), w2) \<and> ok w2 \<and> look t i w2 = Inr None \<and>
           (\<forall>t' i'. good t' i' \<longrightarrow> (t', i') \<noteq> (t, i) \<longrightarrow> look t' i' w2 = look t' i' w)"
proof -
  obtain w1 where 1: "upd t i u w = (Inr (), w1)" "ok w1"
      "\<forall>t' i'. good t' i' \<longrightarrow> look t' i' w1 = (if t' = t \<and> i' = i then Inr (Some u) else look t' i' w)"
    using upd_there [OF assms] by blast
  then have l1: "look t i w1 = Inr (Some u)" using assms(1) by simp
  obtain w2 where "del t i w1 = (Inr (), w2)" "ok w2"
      "\<forall>t' i'. good t' i' \<longrightarrow> look t' i' w2 = (if t' = t \<and> i' = i then Inr None else look t' i' w1)"
    using del_there [OF assms(1) 1(2) l1] by blast
  with 1 l1 assms(1) show ?thesis by auto
qed

end

section \<open>The file provider keeps the contract\<close>

definition good_name :: "string \<Rightarrow> string \<Rightarrow> bool" where
  "good_name t i \<longleftrightarrow> valid_component t \<and> t \<noteq> [] \<and> t \<noteq> ''.'' \<and> valid_component i"

definition disk_ok :: "(string \<Rightarrow> json option) \<Rightarrow> disk \<Rightarrow> bool" where
  "disk_ok parse d \<longleftrightarrow> (\<forall>p c. map_of d p = Some c \<longrightarrow> parse c \<noteq> None)"

lemma resource_path_good: "good_name t i \<Longrightarrow> resource_path t i = Inr [t, i @ ''.json'']"
  by (simp add: good_name_def resource_path_def type_dir_def reject_traversal_def)

lemma resource_path_last: "resource_path t i = Inr p \<Longrightarrow> p \<noteq> [] \<and> last p = i @ ''.json''"
  by (auto simp: resource_path_def split: sum.splits)

lemma tmp_of_last: "p \<noteq> [] \<Longrightarrow> \<exists>s. last (tmp_of p) = s @ ''.json.tmp''"
  by (simp add: tmp_of_def)

lemma tmp_not_resource: "resource_path t i = Inr p \<Longrightarrow> tmp_of q \<noteq> p"
proof
  assume "resource_path t i = Inr p" and "tmp_of q = p"
  then have "fst (file_stem_ext (last q)) @ ''.json.tmp'' = i @ ''.json''"
    using resource_path_last [of t i p] by (auto simp: tmp_of_def)
  then have "rev (fst (file_stem_ext (last q)) @ ''.json.tmp'') = rev (i @ ''.json'')" by simp
  then show False by simp
qed

lemma disk_run_write:
  "map_of (disk_run (write_steps p c) d) q =
     (if q = p then Some c else if q = tmp_of p then None else map_of d q)"
  by (auto simp: disk_run_def write_steps_def update_conv' delete_conv')

lemma file_get_good:
  "good_name t i \<Longrightarrow> file_get parse t i d =
     (case map_of d [t, i @ ''.json''] of
        None \<Rightarrow> Inr None
      | Some c \<Rightarrow> (case parse c of Some v \<Rightarrow> Inr (Some v) | None \<Rightarrow> Inl (Runtime ''malformed JSON'')))"
  by (simp add: file_get_def resource_path_good)

lemma write_not_tmp: "good_name t i \<Longrightarrow> [t, i @ ''.json''] \<noteq> tmp_of q"
  using tmp_not_resource [OF resource_path_good] by metis

lemma file_get_written:
  assumes "good_name t i" and "good_name t' i'" and "parse (print v) = Some v"
  shows "file_get parse t' i' (disk_run (write_steps [t, i @ ''.json''] (print v)) d) =
     (if t' = t \<and> i' = i then Inr (Some v) else file_get parse t' i' d)"
  using assms by (simp add: file_get_good disk_run_write write_not_tmp)

lemma disk_ok_written:
  "disk_ok parse d \<Longrightarrow> parse (print v) = Some v \<Longrightarrow> disk_ok parse (disk_run (write_steps p (print v)) d)"
  by (simp add: disk_ok_def disk_run_write)

lemma file_get_some:
  "good_name t i \<Longrightarrow> file_get parse t i d = Inr (Some u) \<Longrightarrow> map_of d [t, i @ ''.json''] \<noteq> None"
  by (simp add: file_get_good split: option.splits)

lemma file_get_none:
  "good_name t i \<Longrightarrow> file_get parse t i d = Inr None \<Longrightarrow> map_of d [t, i @ ''.json''] = None"
  by (auto simp: file_get_good split: option.splits)

lemma file_laws:
  "resource_laws (file_get parse) (file_update print) file_delete good_name
     (\<lambda>v. parse (print v) = Some v) (disk_ok parse)"
proof
  fix t i d assume g: "good_name t i" and ok: "disk_ok parse d"
  have "parse c \<noteq> None" if "map_of d [t, i @ ''.json''] = Some c" for c
    using ok that unfolding disk_ok_def by blast
  then show "\<exists>x. file_get parse t i d = Inr x"
    by (force simp: file_get_good g split: option.split)
  { assume "file_get parse t i d = Inr None"
    then have n: "map_of d [t, i @ ''.json''] = None" by (rule file_get_none [OF g])
    show "\<exists>e. file_update print t i v d = (Inl e, d) \<and> is_not_found e" for v
      by (simp add: file_update_def resource_path_good g n)
    show "\<exists>e. file_delete t i d = (Inl e, d) \<and> is_not_found e"
      by (simp add: file_delete_def resource_path_good g n) }
  fix u assume u: "file_get parse t i d = Inr (Some u)"
  have s: "map_of d [t, i @ ''.json''] \<noteq> None" by (rule file_get_some [OF g u])
  show "\<exists>w'. file_update print t i v d = (Inr (), w') \<and> disk_ok parse w' \<and>
          (\<forall>t' i'. good_name t' i' \<longrightarrow> file_get parse t' i' w' =
             (if t' = t \<and> i' = i then Inr (Some v) else file_get parse t' i' d))"
    if "parse (print v) = Some v" for v
    using s by (auto simp: file_update_def resource_path_good g file_get_written that disk_ok_written ok)
  show "\<exists>w'. file_delete t i d = (Inr (), w') \<and> disk_ok parse w' \<and>
          (\<forall>t' i'. good_name t' i' \<longrightarrow> file_get parse t' i' w' =
             (if t' = t \<and> i' = i then Inr None else file_get parse t' i' d))"
    using s ok by (auto simp: file_delete_def resource_path_good g file_get_good delete_conv' disk_ok_def)
qed

interpretation files: resource_laws "file_get parse" "file_update print" file_delete good_name
    "\<lambda>v. parse (print v) = Some v" "disk_ok parse"
  for parse print
  by (rule file_laws)

lemma bare_registry:
  "(\<lambda>t i. reg_get t i None (registry_new (file_provider parse print uuid))) = file_get parse"
  "(\<lambda>t i v. reg_update t i v None (registry_new (file_provider parse print uuid))) = file_update print"
  "(\<lambda>t i. reg_delete t i None (registry_new (file_provider parse print uuid))) = file_delete"
  by (intro ext; simp add: reg_get_def reg_update_def reg_delete_def reg_change_def registry_new_def
      registered_def file_provider_def)+

text \<open>A registry without plugins passes everything on to the file provider.\<close>

interpretation bare: resource_laws
    "\<lambda>t i. reg_get t i None (registry_new (file_provider parse print uuid))"
    "\<lambda>t i v. reg_update t i v None (registry_new (file_provider parse print uuid))"
    "\<lambda>t i. reg_delete t i None (registry_new (file_provider parse print uuid))"
    good_name "\<lambda>v. parse (print v) = Some v" "disk_ok parse"
  for parse print uuid
  unfolding bare_registry by (rule file_laws)

section \<open>Properties of the file provider\<close>

text \<open>Claim C16. The life of a resource in a registry whose only provider is the disk: a resource
  stored under a name that is free is read back, an update replaces it, a deletion removes it,
  and no other resource of any type is touched; hypotheses are that the text of the values
  parses back and that the files on the disk are well formed.\<close>

theorem resource_lifecycle:
  assumes good: "good_name t i" and ok: "disk_ok parse d"
    and free: "file_get parse t i d = Inr None"
    and u: "parse (print u) = Some u" and v: "parse (print v) = Some v"
    and rg: "rg = registry_new (file_provider parse print i)"
  shows "\<exists>d1 d2 d3.
    reg_create t u None rg d = (Inr i, d1) \<and> reg_get t i None rg d1 = Inr (Some u) \<and>
    reg_update t i v None rg d1 = (Inr (), d2) \<and> reg_get t i None rg d2 = Inr (Some v) \<and>
    reg_delete t i None rg d2 = (Inr (), d3) \<and> reg_get t i None rg d3 = Inr None \<and>
    (\<forall>t' i'. good_name t' i' \<longrightarrow> (t', i') \<noteq> (t, i) \<longrightarrow> reg_get t' i' None rg d3 = reg_get t' i' None rg d)"
proof -
  define d1 where "d1 = disk_run (write_steps [t, i @ ''.json''] (print u)) d"
  have create: "reg_create t u None rg d = (Inr i, d1)"
    by (simp add: rg reg_create_def registry_new_def file_provider_def file_create_def resource_path_good good d1_def)
  have get1: "file_get parse t' i' d1 = (if t' = t \<and> i' = i then Inr (Some u) else file_get parse t' i' d)"
    if "good_name t' i'" for t' i'
    unfolding d1_def by (rule file_get_written [where parse = parse and print = print, OF good that u])
  have ok1: "disk_ok parse d1" unfolding d1_def by (rule disk_ok_written [where print = print, OF ok u])
  have reg: "reg_get t' i' None rg = file_get parse t' i'" for t' i'
    unfolding rg using bare_registry(1) by metis
  have "reg_get t i None rg d1 = Inr (Some u)" unfolding reg using get1 [OF good] by simp
  then obtain d2 d3 where "reg_update t i v None rg d1 = (Inr (), d2)" "reg_get t i None rg d2 = Inr (Some v)"
      "reg_delete t i None rg d2 = (Inr (), d3)" "reg_get t i None rg d3 = Inr None"
      "\<forall>t' i'. good_name t' i' \<longrightarrow> (t', i') \<noteq> (t, i) \<longrightarrow> reg_get t' i' None rg d3 = reg_get t' i' None rg d1"
    using bare.upd_del_gone [where parse = parse and print = print and uuid = i and x = u, OF good ok1 _ v]
    unfolding rg by blast
  then show ?thesis
    using create \<open>reg_get t i None rg d1 = Inr (Some u)\<close> get1 unfolding reg by auto
qed

theorem resource_lifecycle_witness:
  "let parse = (\<lambda>s. Some (JStr s)); print = (\<lambda>v. unwrap_or (as_str v) []);
       rg = registry_new (file_provider parse print ''7'')
   in \<exists>d1. reg_create ''routes'' (JStr ''x'') None rg [] = (Inr ''7'', d1) \<and>
           reg_get ''routes'' ''7'' None rg d1 = Inr (Some (JStr ''x''))"
proof -
  have g: "good_name ''routes'' ''7''" by (simp add: good_name_def valid_component_def starts_with_def)
  show ?thesis
    using resource_lifecycle [of "''routes''" "''7''" "\<lambda>s. Some (JStr s)" "[]" "\<lambda>v. unwrap_or (as_str v) []"
        "JStr ''x''" "JStr ''y''", OF g _ _ _ _ refl]
    by (auto simp: Let_def disk_ok_def file_get_good [OF g])
qed



definition inside :: "file_path \<Rightarrow> bool" where
  "inside p \<longleftrightarrow> p \<noteq> [] \<and> length p \<le> 2 \<and> (\<forall>c \<in> set p. CHR ''/'' \<notin> set c \<and> c \<noteq> ''..'')"

lemma valid_not_parent: "valid_component c \<Longrightarrow> CHR ''/'' \<notin> set c \<and> c \<noteq> ''..''"
  by (auto simp: valid_component_def starts_with_def)

lemma stem_no_slash: "CHR ''/'' \<notin> set n \<Longrightarrow> CHR ''/'' \<notin> set (fst (file_stem_ext n))"
  by (auto simp: file_stem_ext_def Let_def dest: in_set_takeD)

lemma resource_path_inside:
  assumes "resource_path t i = Inr p"
  shows "inside p" and "inside (tmp_of p)"
proof -
  have v: "valid_component t" "valid_component i"
    and p: "p = (if t = [] \<or> t = ''.'' then [i @ ''.json''] else [t, i @ ''.json''])"
    using assms by (auto simp: resource_path_def type_dir_def reject_traversal_def split: sum.splits if_splits)
  have n: "CHR ''/'' \<notin> set (i @ ''.json'')" using valid_not_parent [OF v(2)] by simp
  have ne: "s @ ''.json'' \<noteq> ''..''" "s @ ''.json.tmp'' \<noteq> ''..''" for s
    by (rule notI, drule arg_cong [of _ _ rev], simp)+
  show "inside p" using n ne valid_not_parent [OF v(1)] by (auto simp: p inside_def)
  show "inside (tmp_of p)"
    using stem_no_slash [OF n] ne valid_not_parent [OF v(1)] by (auto simp: p inside_def tmp_of_def)
qed

text \<open>Claim C18. No request leaves the directory of the provider: whatever the type and the name in
  the request, a path whose contents a creation, an update or a deletion changes has at most two
  components, and none of them has a slash or is the parent directory.\<close>

theorem file_changes_stay_inside:
  "\<forall>q. \<not> inside q \<longrightarrow>
     map_of (snd (file_create print i t v d)) q = map_of d q \<and>
     map_of (snd (file_update print t i v d)) q = map_of d q \<and>
     map_of (snd (file_delete t i d)) q = map_of d q"
  using resource_path_inside [of t i]
  by (auto simp: file_create_def file_update_def file_delete_def disk_run_write delete_conv' split: sum.split)

theorem file_changes_stay_inside_witness:
  "map_of (snd (file_delete ''..'' ''secret'' [([''..'', ''secret.json''], ''x'')])) [''..'', ''secret.json''] = Some ''x''"
  using file_changes_stay_inside [of undefined "''secret''" "''..''" JNull "[([''..'', ''secret.json''], ''x'')]"]
  by (simp add: inside_def)

section \<open>Properties of the routing\<close>

text \<open>The providers that serve a type, in the order they are asked.\<close>

definition chain :: "'w registry \<Rightarrow> string \<Rightarrow> 'w provider list" where
  "chain rg t = map snd (registered rg t) @ [rg_file rg]"

lemma merged_fold:
  "(case rq_provider q of None \<Rightarrow> True | Some _ \<Rightarrow> False) \<Longrightarrow> rq_limit q = None \<Longrightarrow>
   reg_list t q rg w = Inr (JObj (fold (merge_list t q w) (chain rg t) []))"
proof -
  have f: "fold (\<lambda>(_, p). merge_list t q w p) xs m = fold (merge_list t q w) (map snd xs) m" for xs :: "(string \<times> 'a provider) list" and m
    by (induction xs arbitrary: m) auto
  assume "case rq_provider q of None \<Rightarrow> True | Some _ \<Rightarrow> False" and "rq_limit q = None"
  then show ?thesis by (simp add: reg_list_def Let_def chain_def f split: option.splits)
qed

lemma merge_list_lookup:
  "rp_list p t q w = Inr (JObj m) \<Longrightarrow> map_of (merge_list t q w p acc) i = or_else (map_of acc i) (map_of m i)"
  by (simp add: merge_list_def map_of_fold_or_insert or_else_def map_add_def split: option.split)

lemma merge_keeps:
  "map_of acc i = Some v \<Longrightarrow> \<forall>p \<in> set ps. \<exists>m. rp_list p t q w = Inr (JObj m) \<Longrightarrow>
   map_of (fold (merge_list t q w) ps acc) i = Some v"
  by (induction ps arbitrary: acc) (auto simp: merge_list_lookup)

lemma poll_get_chain:
  assumes "\<forall>p \<in> set (map snd ps @ [fp]). \<exists>m. rp_list p t q w = Inr (JObj m) \<and> rp_get p t i w = Inr (map_of m i)"
    and "map_of acc i = None"
  shows "poll_get t i w fp ps = Inr (map_of (fold (merge_list t q w) (map snd ps @ [fp]) acc) i)"
  using assms
proof (induction ps arbitrary: acc)
  case Nil
  then show ?case by (auto simp: merge_list_lookup)
next
  case (Cons a ps)
  obtain k p where a: "a = (k, p)" by (cases a)
  obtain m where m: "rp_list p t q w = Inr (JObj m)" "rp_get p t i w = Inr (map_of m i)"
    using Cons.prems(1) by (auto simp: a)
  have l: "map_of (merge_list t q w p acc) i = map_of m i" using merge_list_lookup [OF m(1)] Cons.prems(2) by simp
  show ?case
  proof (cases "map_of m i")
    case None
    then show ?thesis using Cons.IH [of "merge_list t q w p acc"] Cons.prems(1) m l by (simp add: a)
  next
    case (Some v)
    have "map_of (fold (merge_list t q w) (map snd ps @ [fp]) (merge_list t q w p acc)) i = Some v"
      using Cons.prems(1) by (intro merge_keeps) (auto simp: l Some)
    then show ?thesis using m Some by (simp add: a)
  qed
qed

text \<open>The list and the single lookup agree: if every provider of a type answers, and
  answers a lookup of an id with its own list's entry, then the merged list has exactly the
  value that a lookup of that id through the registry returns (with the same provider
  preferred), and no entry when the lookup finds nothing.\<close>

theorem list_agrees_with_get:
  assumes "rq_provider q = None" and "rq_limit q = None"
    and "\<forall>p \<in> set (chain rg t). \<exists>m. rp_list p t q w = Inr (JObj m) \<and> rp_get p t i w = Inr (map_of m i)"
  shows "\<exists>merged. reg_list t q rg w = Inr (JObj merged) \<and> reg_get t i None rg w = Inr (map_of merged i)"
  using merged_fold [of q t rg w] poll_get_chain [of "registered rg t" "rg_file rg" t q w i "[]"] assms
  by (simp add: chain_def reg_get_def)

theorem list_agrees_with_get_witness:
  "let p = (\<lambda>v. \<lparr>rp_list = (\<lambda>_ _ _. Inr (JObj [(''a'', v)])), rp_get = (\<lambda>_ i _. Inr (if i = ''a'' then Some v else None)),
         rp_create = (\<lambda>_ _ w. (Inl (Runtime []), w)), rp_update = (\<lambda>_ _ _ w. (Inl (Runtime []), w)),
         rp_delete = (\<lambda>_ _ w. (Inl (Runtime []), w))\<rparr>);
       rg = reg_register ''routes'' ''x'' (p (JBool True)) (registry_new (p JNull));
       q = \<lparr>rq_distance = None, rq_limit = None, rq_bbox = None, rq_provider = None\<rparr>
   in reg_get ''routes'' ''a'' None rg () = Inr (Some (JBool True)) \<and>
      (\<exists>merged. reg_list ''routes'' q rg () = Inr (JObj merged) \<and> Some (JBool True) = map_of merged ''a'')"
  unfolding Let_def
proof (intro conjI, goal_cases)
  case 1
  then show ?case by (simp add: reg_get_def registered_def reg_register_def replace_or_push_def registry_new_def)
next
  case 2
  then show ?case
    using list_agrees_with_get [of "\<lparr>rq_distance = None, rq_limit = None, rq_bbox = None, rq_provider = None\<rparr>"
      "reg_register ''routes'' ''x'' \<lparr>rp_list = (\<lambda>_ _ _. Inr (JObj [(''a'', JBool True)])),
         rp_get = (\<lambda>_ i _. Inr (if i = ''a'' then Some (JBool True) else None)),
         rp_create = (\<lambda>_ _ w. (Inl (Runtime []), w)), rp_update = (\<lambda>_ _ _ w. (Inl (Runtime []), w)),
         rp_delete = (\<lambda>_ _ w. (Inl (Runtime []), w))\<rparr> (registry_new \<lparr>rp_list = (\<lambda>_ _ _. Inr (JObj [(''a'', JNull)])),
         rp_get = (\<lambda>_ i _. Inr (if i = ''a'' then Some JNull else None)),
         rp_create = (\<lambda>_ _ w. (Inl (Runtime []), w)), rp_update = (\<lambda>_ _ _ w. (Inl (Runtime []), w)),
         rp_delete = (\<lambda>_ _ w. (Inl (Runtime []), w))\<rparr>)" "''routes''" "()" "''a''"]
    by (simp add: chain_def reg_get_def registered_def reg_register_def replace_or_push_def registry_new_def)
qed

inductive registry_reach :: "'w provider \<Rightarrow> 'w registry \<Rightarrow> bool" for fp where
  start: "registry_reach fp (registry_new fp)"
| reg: "registry_reach fp rg \<Longrightarrow> registry_reach fp (reg_register t pid p rg)"
| unreg: "registry_reach fp rg \<Longrightarrow> registry_reach fp (reg_unregister pid rg)"
| default: "registry_reach fp rg \<Longrightarrow> registry_reach fp (snd (reg_set_default t pid rg))"

definition defaults_ok :: "'w registry \<Rightarrow> bool" where
  "defaults_ok rg \<longleftrightarrow> (\<forall>t pid. rg_defaults rg t = Some pid \<longrightarrow>
     pid \<noteq> ''file-provider'' \<and> map_of (registered rg t) pid \<noteq> None)"

lemma registered_register:
  "registered (reg_register t pid p rg) t' =
     (if t' = t then replace_or_push pid p (registered rg t) else registered rg t')"
  by (simp add: registered_def reg_register_def)

lemma registered_unregister:
  "registered (reg_unregister pid rg) t = filter (\<lambda>(i, _). i \<noteq> pid) (registered rg t)"
  by (simp add: registered_def reg_unregister_def unwrap_or_def split: option.split)

lemma map_of_filter_other: "q \<noteq> pid \<Longrightarrow> map_of (filter (\<lambda>(i, _). i \<noteq> pid) xs) q = map_of xs q"
  by (induction xs) auto

lemma list_ex_registered: "list_ex (\<lambda>(i, _). i = pid) xs \<Longrightarrow> map_of xs pid \<noteq> None"
  by (induction xs) auto

lemma defaults_ok_reach: "registry_reach fp rg \<Longrightarrow> defaults_ok rg"
proof (induction rule: registry_reach.induct)
  case start
  show ?case by (simp add: defaults_ok_def registry_new_def)
next
  case (reg rg t pid p)
  have "rg_defaults (reg_register t pid p rg) = rg_defaults rg" by (simp add: reg_register_def)
  with reg show ?case
    by (auto simp: defaults_ok_def registered_register replace_or_push_def update_conv')
next
  case (unreg rg pid)
  have "rg_defaults (reg_unregister pid rg) = map_retain (\<lambda>v. v \<noteq> pid) (rg_defaults rg)" by (simp add: reg_unregister_def)
  with unreg show ?case by (auto simp: defaults_ok_def registered_unregister map_of_filter_other)
next
  case (default rg t pid)
  have f: "registered (rg\<lparr>rg_defaults := x\<rparr>) = registered rg" for x by (simp add: registered_def fun_eq_iff)
  show ?case
    using default.IH list_ex_registered [of pid "registered rg t"]
    by (auto simp: defaults_ok_def reg_set_default_def f split: if_splits)
qed

text \<open>New resources go to the provider that the API names as the active one: after any
  registrations, removals of plugins and changes of defaults, the active provider of a type is
  one of its providers, and creating a resource without naming a provider is the creation by
  that provider. Removing a plugin never leaves a type whose creations fail.\<close>

theorem create_uses_active_provider:
  assumes "registry_reach fp rg"
  shows "reg_active_provider_id t rg \<in> set (reg_provider_ids t rg) \<and>
         (\<exists>p. find_provider t (reg_active_provider_id t rg) rg = Inr p \<and> reg_create t v None rg w = rp_create p t v w)"
proof (cases "rg_defaults rg t")
  case None
  then show ?thesis
    by (simp add: reg_active_provider_id_def reg_provider_ids_def find_provider_def reg_create_def)
next
  case (Some pid)
  then obtain p where "map_of (registered rg t) pid = Some p" "pid \<noteq> ''file-provider''"
    using defaults_ok_reach [OF assms] unfolding defaults_ok_def by blast
  with Some show ?thesis
    by (auto simp: reg_active_provider_id_def reg_provider_ids_def find_provider_def reg_create_def
        dest: map_of_SomeD intro: rev_image_eqI)
qed

theorem create_uses_active_provider_witness:
  "let fp = file_provider (\<lambda>_. None) (\<lambda>_. []) ''1''; p = fp\<lparr>rp_create := (\<lambda>_ _ d. (Inr ''mine'', d))\<rparr>;
       rg = snd (reg_set_default ''routes'' ''x'' (reg_register ''routes'' ''x'' p (registry_new fp)))
   in reg_active_provider_id ''routes'' rg = ''x'' \<and> reg_create ''routes'' JNull None rg [] = (Inr ''mine'', [])"
proof -
  define fp where "fp = file_provider (\<lambda>_. None) (\<lambda>_. []) ''1''"
  define p where "p = fp\<lparr>rp_create := (\<lambda>_ _ d. (Inr ''mine'', d))\<rparr>"
  define rg where "rg = snd (reg_set_default ''routes'' ''x'' (reg_register ''routes'' ''x'' p (registry_new fp)))"
  have "registry_reach fp rg" unfolding rg_def by (intro registry_reach.intros)
  note c = create_uses_active_provider [OF this, of "''routes''" JNull "[]"]
  have a: "reg_active_provider_id ''routes'' rg = ''x''" and f: "find_provider ''routes'' ''x'' rg = Inr p"
    by (simp_all add: rg_def reg_set_default_def registered_register replace_or_push_def registered_def
        registry_new_def reg_active_provider_id_def find_provider_def reg_register_def)
  show ?thesis
    unfolding Let_def fp_def [symmetric] p_def [symmetric] rg_def [symmetric]
    using c a f by (simp add: p_def)
qed

end
