(* ===== verification/Libm.thy ===== *)
theory Libm
  imports F64
begin

text \<open>The functions of the mathematical library that the code calls; they are arguments of the
  definitions that use them.\<close>

record libm =
  m_sin :: "f64 \<Rightarrow> f64"
  m_cos :: "f64 \<Rightarrow> f64"
  m_atan2 :: "f64 \<Rightarrow> f64 \<Rightarrow> f64"
  m_atan :: "f64 \<Rightarrow> f64"
  m_powf :: "f64 \<Rightarrow> f64 \<Rightarrow> f64"
  m_sqrt :: "f64 \<Rightarrow> f64"
  m_asin :: "f64 \<Rightarrow> f64"
  m_exp :: "f64 \<Rightarrow> f64"
  m_ln :: "f64 \<Rightarrow> f64"

text \<open>\<^verbatim>\<open>to_radians\<close>.\<close>

definition to_radians :: "f64 \<Rightarrow> f64" where
  "to_radians x = f_mul x (f_div PI (Fin 180))"

text \<open>A library to run examples on.\<close>

definition demo_libm :: libm where
  "demo_libm = \<lparr>m_sin = (\<lambda>_. Fin 0), m_cos = (\<lambda>_. Fin 1), m_atan2 = (\<lambda>_ _. Fin 0), m_atan = (\<lambda>_. Fin 0),
               m_powf = (\<lambda>_ _. Fin 1), m_sqrt = (\<lambda>x. x), m_asin = (\<lambda>x. x),
               m_exp = (\<lambda>_. Fin 1), m_ln = (\<lambda>_. Fin 0)\<rparr>"

end
