(* ===== verification/Geo.thy ===== *)
theory Geo
  imports Libm
begin

text \<open>
  \<^verbatim>\<open>signalk-types/src/geo.rs\<close>: distances and bearings on the sphere. Coordinates are
  pairs of latitude and longitude in degrees. \<^verbatim>\<open>powi(2)\<close> is one multiplication.
\<close>

section \<open>Euclidean remainder\<close>

text \<open>\<^verbatim>\<open>%\<close> keeps the sign of its first argument and is exact.\<close>

definition trunc :: "rat \<Rightarrow> int" where
  "trunc q = (if 0 \<le> q then \<lfloor>q\<rfloor> else \<lceil>q\<rceil>)"

definition f_rem :: "f64 \<Rightarrow> f64 \<Rightarrow> f64" where
  "f_rem x y =
     (if is_nan x \<or> is_nan y \<or> \<not> is_finite x \<or> (is_finite y \<and> rv y = 0) then NaN
      else if \<not> is_finite y then x
      else (let r = rv x - rv y * of_int (trunc (rv x / rv y))
            in if r = 0 then signed_zero (sign_neg x) else Fin r))"

definition f_rem_euclid :: "f64 \<Rightarrow> f64 \<Rightarrow> f64" where
  "f_rem_euclid x y = (let r = f_rem x y in if f_lt r (Fin 0) then f_add r (f_abs y) else r)"

text \<open>\<^verbatim>\<open>as\<close> from a float to an integer type truncates and saturates; no number is 0.\<close>

fun f64_as_int :: "int \<Rightarrow> int \<Rightarrow> f64 \<Rightarrow> int" where
  "f64_as_int lo hi (Fin q) = max lo (min hi (trunc q))"
| "f64_as_int lo hi PInf = hi"
| "f64_as_int lo hi NInf = lo"
| "f64_as_int lo hi _ = 0"

text \<open>An angle in a full turn: \<^verbatim>\<open>rem_euclid(2.0 * PI)\<close>.\<close>

definition full_turn :: "f64 \<Rightarrow> f64" where
  "full_turn x = f_rem_euclid x (f_mul (Fin 2) PI)"

section \<open>Distances and bearings\<close>

definition EARTH_RADIUS :: f64 where
  "EARTH_RADIUS = Fin 6371000"

definition f_sq :: "f64 \<Rightarrow> f64" where
  "f_sq x = f_mul x x"

definition haversine_meters :: "libm \<Rightarrow> f64 \<Rightarrow> f64 \<Rightarrow> f64 \<Rightarrow> f64 \<Rightarrow> f64" where
  "haversine_meters m lat1 lon1 lat2 lon2 =
     (let d_lat = to_radians (f_sub lat2 lat1);
          d_lon = to_radians (f_sub lon2 lon1);
          a = f_add (f_sq (m_sin m (f_div d_lat (Fin 2))))
                    (f_mul (f_mul (m_cos m (to_radians lat1)) (m_cos m (to_radians lat2)))
                           (f_sq (m_sin m (f_div d_lon (Fin 2)))));
          c = f_mul (Fin 2) (m_asin m (m_sqrt m a))
      in f_mul EARTH_RADIUS c)"

definition initial_bearing :: "libm \<Rightarrow> f64 \<Rightarrow> f64 \<Rightarrow> f64 \<Rightarrow> f64 \<Rightarrow> f64" where
  "initial_bearing m lat1 lon1 lat2 lon2 =
     (let lat1 = to_radians lat1;
          lat2 = to_radians lat2;
          d_lon = to_radians (f_sub lon2 lon1);
          y = f_mul (m_sin m d_lon) (m_cos m lat2);
          x = f_sub (f_mul (m_cos m lat1) (m_sin m lat2))
                    (f_mul (f_mul (m_sin m lat1) (m_cos m lat2)) (m_cos m d_lon))
      in full_turn (m_atan2 m y x))"

definition cross_track_error :: "libm \<Rightarrow> f64 \<times> f64 \<Rightarrow> f64 \<times> f64 \<Rightarrow> f64 \<times> f64 \<Rightarrow> f64" where
  "cross_track_error m current from_pt to_pt =
     (let d = f_div (haversine_meters m (fst from_pt) (snd from_pt) (fst current) (snd current)) EARTH_RADIUS;
          b_current = initial_bearing m (fst from_pt) (snd from_pt) (fst current) (snd current);
          b_end = initial_bearing m (fst from_pt) (snd from_pt) (fst to_pt) (snd to_pt);
          xte = m_asin m (f_mul (m_sin m d) (m_sin m (f_sub b_current b_end)))
      in f_mul xte EARTH_RADIUS)"

text \<open>The sum over the legs after a point, each between two neighbours.\<close>

fun legs :: "libm \<Rightarrow> (f64 \<times> f64) list \<Rightarrow> f64 \<Rightarrow> f64" where
  "legs m (p # q # ps) acc =
     legs m (q # ps) (f_add acc (haversine_meters m (fst p) (snd p) (fst q) (snd q)))"
| "legs m _ acc = acc"

definition route_remaining_distance :: "libm \<Rightarrow> (f64 \<times> f64) list \<Rightarrow> nat \<Rightarrow> f64" where
  "route_remaining_distance m ps i = (if length ps \<le> i + 1 then Fin 0 else legs m (drop i ps) (Fin 0))"

section \<open>The range of a turn\<close>

lemma trunc_rem:
  assumes "0 < y"
  shows "\<bar>x - y * of_int (trunc (x / y))\<bar> < y" and "0 \<le> x \<Longrightarrow> 0 \<le> x - y * of_int (trunc (x / y))"
    and "x < 0 \<Longrightarrow> x - y * of_int (trunc (x / y)) \<le> 0"
proof -
  have x: "x = y * (x / y)" using assms by simp
  define q where "q = x / y"
  have "x - y * of_int (trunc q) = y * (q - of_int (trunc q))" using x by (simp add: q_def algebra_simps)
  moreover have "\<bar>q - of_int (trunc q)\<bar> < 1" "0 \<le> q \<Longrightarrow> 0 \<le> q - of_int (trunc q)" "q < 0 \<Longrightarrow> q - of_int (trunc q) \<le> 0"
    unfolding trunc_def by (auto split: if_splits; linarith)+
  moreover have "0 \<le> x \<longleftrightarrow> 0 \<le> q" "x < 0 \<longleftrightarrow> q < 0" using assms by (simp_all add: q_def divide_less_0_iff zero_le_divide_iff)
  ultimately show "\<bar>x - y * of_int (trunc (x / y))\<bar> < y" "0 \<le> x \<Longrightarrow> 0 \<le> x - y * of_int (trunc (x / y))"
    "x < 0 \<Longrightarrow> x - y * of_int (trunc (x / y)) \<le> 0"
    using assms by (simp_all add: q_def [symmetric] abs_mult mult_nonneg_nonpos mult_less_cancel_left1)
qed

lemma full_turn_range:
  assumes "is_finite x"
  shows "is_finite (full_turn x)" and "0 \<le> rv (full_turn x)" and "rv (full_turn x) \<le> rv TWO_PI"
proof -
  define T where "T = rv TWO_PI"
  define q where "q = rv x - T * of_int (trunc (rv x / T))"
  have T: "TWO_PI = Fin T" "0 < T" by (simp_all add: T_def TWO_PI_eq)
  have q: "\<bar>q\<bar> < T" using trunc_rem(1) [OF T(2), of "rv x"] by (simp add: q_def)
  have "\<not> is_nan x" using assms by (cases x) auto
  then have r: "f_rem x TWO_PI = (if q = 0 then signed_zero (sign_neg x) else Fin q)"
    using assms T(2) unfolding T(1) by (simp add: f_rem_def q_def Let_def)
  have "is_finite (full_turn x) \<and> 0 \<le> rv (full_turn x) \<and> rv (full_turn x) \<le> T"
  proof (cases "q < 0")
    case True
    moreover have "f_abs TWO_PI = Fin T" unfolding T(1) using T(2) by simp
    ultimately have "full_turn x = round_f64 (q + T)"
      by (simp add: full_turn_def TWO_PI_def [symmetric] f_rem_euclid_def r)
    moreover have "round_f64 0 = Fin 0" by (simp add: round_f64_def)
    moreover have "round_f64 T = Fin T"
      unfolding T_def by (rule round_exact [of 884279719003555 "- 47"]) (simp_all add: power_int_minus_divide)
    ultimately have "f_le (Fin 0) (full_turn x)" "f_le (full_turn x) (Fin T)"
      using round_mono [of 0 "q + T"] round_mono [of "q + T" T] True q by simp_all
    then show ?thesis by (cases "full_turn x") auto
  next
    case False
    then have "full_turn x = f_rem x TWO_PI"
      by (simp add: full_turn_def TWO_PI_def [symmetric] f_rem_euclid_def r signed_zero_def f_lt_finite)
    then show ?thesis using False q T(2) by (simp add: r signed_zero_def)
  qed
  then show "is_finite (full_turn x)" "0 \<le> rv (full_turn x)" "rv (full_turn x) \<le> rv TWO_PI" by (simp_all add: T_def)
qed

lemma full_turn_reached: "full_turn (Fin (- 1 / 2 ^ 60)) = TWO_PI"
proof -
  define q :: rat where "q = 884279719003555 / 140737488355328 - 1 / 2 ^ 60"
  have b: "2 powi 2 \<le> q" "q < 2 powi 3" by (simp_all add: q_def)
  have "ilog2 q = 2"
    using ilog2_bounds [of q] b powi_less_cancel [of "ilog2 q" 3] powi_less_cancel [of 2 "ilog2 q + 1"] by auto
  then have u: "ulp_exp q = - 50" by (simp add: ulp_exp_def)
  have p: "(2 :: rat) powi (- 50) = 1 / 2 ^ 50" by (simp add: power_int_minus_divide)
  have "\<lfloor>7244019458077122559 / 1024 :: rat\<rfloor> = 7074237752028439" by (simp add: floor_eq_iff)
  then have "rne (q / 2 powi (- 50)) = 7074237752028440"
    unfolding p by (simp add: q_def rne_def Let_def)
  then have "mag q = 884279719003555 / 140737488355328" by (simp add: mag_def u p)
  then have "round_f64 q = TWO_PI" using b by (simp add: round_f64_def TWO_PI_eq)
  moreover have "\<lceil>- (1 / 7244019458077122560) :: rat\<rceil> = 0" by (simp add: ceiling_eq_iff)
  ultimately show ?thesis
    by (simp add: full_turn_def TWO_PI_def [symmetric] f_rem_euclid_def f_rem_def TWO_PI_eq trunc_def q_def)
qed

end
