(* ===== verification/Course.thy ===== *)
theory Course
  imports StorePort Resources Geo
begin

text \<open>
  \<^verbatim>\<open>signalk-server/src/course/manager.rs\<close>: the course manager. It keeps the active
  course, writes it to its state file and emits it into the store as source
  \<open>course-manager\<close>. What a call takes from outside is an environment: the clock
  readings, the resources (a lookup through the registry), the result of writing the state file
  and the mathematical library. The state file holds the JSON value of the state. Numbers are
  left out of error texts.
\<close>

section \<open>State\<close>

datatype course_source = Api | Nmea

record course_config =
  cc_arrival_circle :: f64
  cc_api_only :: bool

record course_manager =
  cm_state :: "course_state option"
  cm_config :: course_config
  cm_source :: course_source
  cm_store :: store
  cm_file :: "json option"

record course_env =
  ce_disp :: "json \<Rightarrow> string"
  ce_now :: datetime
  ce_utc :: datetime
  ce_now_str :: string
  ce_get :: "string \<Rightarrow> string \<Rightarrow> json option plugin_result"
  ce_libm :: libm
  ce_io :: "unit plugin_result"

record destination_request =
  dr_position :: "position option"
  dr_href :: "string option"

record active_route_request =
  arr_href :: string
  arr_reverse :: bool

definition course_config_default :: course_config where
  "course_config_default = \<lparr>cc_arrival_circle = Fin 0, cc_api_only = False\<rparr>"

definition course_manager_new :: "store \<Rightarrow> json option \<Rightarrow> course_manager" where
  "course_manager_new s file =
     \<lparr>cm_state = None, cm_config = course_config_default, cm_source = Api, cm_store = s, cm_file = file\<rparr>"

section \<open>JSON form of the state\<close>

definition null_or :: "('a \<Rightarrow> json) \<Rightarrow> 'a option \<Rightarrow> json" where
  "null_or e x = (case x of None \<Rightarrow> JNull | Some a \<Rightarrow> e a)"

definition json_nat :: "nat \<Rightarrow> json" where
  "json_nat n = JNum (PosInt (of_nat n))"

definition position_to_json :: "position \<Rightarrow> json" where
  "position_to_json p = json_obj
     ([(''latitude'', json_f64 (p_latitude p)), (''longitude'', json_f64 (p_longitude p))] @
      opt_field ''altitude'' json_f64 (p_altitude p))"

fun point_type_str :: "point_type \<Rightarrow> string" where
  "point_type_str Location = ''Location''"
| "point_type_str VesselPosition = ''VesselPosition''"
| "point_type_str RoutePoint = ''RoutePoint''"

definition point_type_of_json :: "json \<Rightarrow> point_type option" where
  "point_type_of_json v = Option.bind (enum_tag v) (map_of
     [(''Location'', Location), (''VesselPosition'', VesselPosition), (''RoutePoint'', RoutePoint)])"

definition course_point_to_json :: "course_point \<Rightarrow> json" where
  "course_point_to_json p = json_obj
     ([(''type'', JStr (point_type_str (cp_type p))), (''position'', position_to_json (cp_position p))] @
      opt_field ''href'' JStr (cp_href p))"

definition course_point_of_json :: "json \<Rightarrow> course_point option" where
  "course_point_of_json v =
     Option.bind (struct_field [''type'', ''position'', ''href''] v) (\<lambda>f.
     Option.bind (Option.bind (f ''type'') point_type_of_json) (\<lambda>t.
     Option.bind (Option.bind (f ''position'') position_of_json) (\<lambda>p.
     Option.bind (decode_opt as_str (f ''href'')) (\<lambda>h.
       Some \<lparr>cp_type = t, cp_position = p, cp_href = h\<rparr>))))"

text \<open>A field with a default may be missing.\<close>

definition decode_default :: "'a \<Rightarrow> (json \<Rightarrow> 'a option) \<Rightarrow> json option \<Rightarrow> 'a option" where
  "decode_default x d v = (case v of None \<Rightarrow> Some x | Some w \<Rightarrow> d w)"

definition as_usize :: "json \<Rightarrow> nat option" where
  "as_usize v = map_option unat (as_u64 v)"

definition active_route_to_json :: "active_route \<Rightarrow> json" where
  "active_route_to_json r = json_obj
     ([(''href'', JStr (ar_href r)), (''reverse'', JBool (ar_reverse r)),
       (''pointIndex'', json_nat (ar_point_index r)), (''pointTotal'', json_nat (ar_point_total r))] @
      opt_field ''name'' JStr (ar_name r) @
      opt_field ''waypoints'' (\<lambda>ws. JArr (map position_to_json ws)) (ar_waypoints r))"

text \<open>serde also reads a struct from an array; the short arrays that trailing defaults allow are left out.\<close>

definition active_route_of_json :: "json \<Rightarrow> active_route option" where
  "active_route_of_json v =
     Option.bind (struct_field [''href'', ''reverse'', ''pointIndex'', ''pointTotal'', ''name'', ''waypoints''] v) (\<lambda>f.
     Option.bind (Option.bind (f ''href'') as_str) (\<lambda>h.
     Option.bind (decode_default False as_bool (f ''reverse'')) (\<lambda>rv.
     Option.bind (decode_default 0 as_usize (f ''pointIndex'')) (\<lambda>i.
     Option.bind (decode_default 0 as_usize (f ''pointTotal'')) (\<lambda>t.
     Option.bind (decode_opt as_str (f ''name'')) (\<lambda>n.
     Option.bind (decode_opt (decode_vec position_of_json) (f ''waypoints'')) (\<lambda>ws.
       Some \<lparr>ar_href = h, ar_reverse = rv, ar_point_index = i, ar_point_total = t, ar_name = n,
             ar_waypoints = ws\<rparr>)))))))"

definition course_state_to_json :: "course_state \<Rightarrow> json" where
  "course_state_to_json c = json_obj
     (opt_field ''startTime'' JStr (cs_start_time c) @
      [(''targetArrivalTime'', null_or JStr (cs_target_arrival_time c)),
       (''arrivalCircle'', json_f64 (cs_arrival_circle c)),
       (''activeRoute'', null_or active_route_to_json (cs_active_route c))] @
      opt_field ''nextPoint'' course_point_to_json (cs_next_point c) @
      opt_field ''previousPoint'' course_point_to_json (cs_previous_point c))"

definition course_state_of_json :: "json \<Rightarrow> course_state option" where
  "course_state_of_json v =
     Option.bind (struct_field [''startTime'', ''targetArrivalTime'', ''arrivalCircle'', ''activeRoute'',
                                ''nextPoint'', ''previousPoint''] v) (\<lambda>f.
     Option.bind (decode_opt as_str (f ''startTime'')) (\<lambda>st.
     Option.bind (decode_opt as_str (f ''targetArrivalTime'')) (\<lambda>ta.
     Option.bind (decode_default (Fin 0) as_f64 (f ''arrivalCircle'')) (\<lambda>ac.
     Option.bind (decode_opt active_route_of_json (f ''activeRoute'')) (\<lambda>ar.
     Option.bind (decode_opt course_point_of_json (f ''nextPoint'')) (\<lambda>np.
     Option.bind (decode_opt course_point_of_json (f ''previousPoint'')) (\<lambda>pp.
       Some \<lparr>cs_start_time = st, cs_target_arrival_time = ta, cs_arrival_circle = ac,
             cs_active_route = ar, cs_next_point = np, cs_previous_point = pp\<rparr>)))))))"

section \<open>Resolving resources\<close>

definition parse_resource_href :: "string \<Rightarrow> (string \<times> string) plugin_result" where
  "parse_resource_href href =
     (let parts = split_on CHR ''/'' (trim_start_char CHR ''/'' href)
      in if 3 \<le> length parts \<and> parts ! 0 = ''resources''
         then Inr (parts ! 1, join_with ''/'' (drop 2 parts))
         else Inl (Config (''Invalid resource href: '' @ href)))"

definition lon_lat :: "json \<Rightarrow> (f64 \<times> f64) option" where
  "lon_lat c = Option.bind (Option.bind (jget_idx 0 c) as_f64) (\<lambda>lon.
     Option.bind (Option.bind (jget_idx 1 c) as_f64) (\<lambda>lat. Some (lon, lat)))"

definition lat_lon :: "json \<Rightarrow> (f64 \<times> f64) option" where
  "lat_lon pos = Option.bind (Option.bind (jget ''latitude'' pos) as_f64) (\<lambda>lat.
     Option.bind (Option.bind (jget ''longitude'' pos) as_f64) (\<lambda>lon. Some (lat, lon)))"

definition extract_position :: "json \<Rightarrow> position plugin_result" where
  "extract_position value =
     (case Option.bind (jget ''position'' value) lat_lon of
        Some (lat, lon) \<Rightarrow>
          Inr \<lparr>p_latitude = lat, p_longitude = lon,
               p_altitude = Option.bind (Option.bind (jget ''position'' value) (jget ''altitude'')) as_f64\<rparr>
      | None \<Rightarrow>
          (case Option.bind (or_else (jpointer [''feature'', ''geometry'', ''coordinates''] value)
                                     (jpointer [''geometry'', ''coordinates''] value)) lon_lat of
             Some (lon, lat) \<Rightarrow> Inr \<lparr>p_latitude = lat, p_longitude = lon, p_altitude = None\<rparr>
           | None \<Rightarrow> Inl (Runtime ''Could not extract position from resource'')))"

definition resolve_waypoint_position :: "course_env \<Rightarrow> string \<Rightarrow> position plugin_result" where
  "resolve_waypoint_position env href =
     (case parse_resource_href href of
        Inl e \<Rightarrow> Inl e
      | Inr (t, i) \<Rightarrow>
          (case ce_get env t i of
             Inl e \<Rightarrow> Inl e
           | Inr None \<Rightarrow> Inl (Runtime (''Waypoint not found: '' @ href))
           | Inr (Some value) \<Rightarrow> extract_position value))"

definition coordinate_points :: "json list \<Rightarrow> position list" where
  "coordinate_points cs = List.map_filter (\<lambda>c. map_option
     (\<lambda>(lon, lat). \<lparr>p_latitude = lat, p_longitude = lon, p_altitude = None\<rparr>) (lon_lat c)) cs"

definition waypoint_points :: "json list \<Rightarrow> position list" where
  "waypoint_points ws = List.map_filter (\<lambda>w. case extract_position w of Inr p \<Rightarrow> Some p | Inl _ \<Rightarrow> None) ws"

definition route_points_of :: "json \<Rightarrow> position list" where
  "route_points_of value =
     (let cs = Option.bind (or_else (or_else (jpointer [''feature'', ''geometry'', ''coordinates''] value)
                                             (jpointer [''geometry'', ''coordinates''] value))
                                    (jget ''coordinates'' value)) as_array;
          ps = (case cs of Some arr \<Rightarrow> coordinate_points arr | None \<Rightarrow> [])
      in if ps \<noteq> [] then ps
         else (case Option.bind (jget ''waypoints'' value) as_array of
                 Some ws \<Rightarrow> waypoint_points ws | None \<Rightarrow> []))"

definition resolve_route_points :: "course_env \<Rightarrow> string \<Rightarrow> position list plugin_result" where
  "resolve_route_points env href =
     (case parse_resource_href href of
        Inl e \<Rightarrow> Inl e
      | Inr (t, i) \<Rightarrow>
          (case ce_get env t i of
             Inl e \<Rightarrow> Inl e
           | Inr None \<Rightarrow> Inl (Runtime (''Route not found: '' @ href))
           | Inr (Some value) \<Rightarrow>
               if route_points_of value \<noteq> [] then Inr (route_points_of value)
               else Inl (Runtime (''Could not extract route points from '' @ href))))"

definition in_direction :: "bool \<Rightarrow> position list \<Rightarrow> position list" where
  "in_direction reverse ps = (if reverse then rev ps else ps)"

section \<open>Emitting and persisting\<close>

definition current_vessel_position :: "store \<Rightarrow> position option" where
  "current_vessel_position s =
     Option.bind (Option.bind (store_read s ''navigation.position'') lat_lon)
       (\<lambda>(lat, lon). Some \<lparr>p_latitude = lat, p_longitude = lon, p_altitude = None\<rparr>)"

definition json_lat_lon :: "position \<Rightarrow> json" where
  "json_lat_lon p = json_obj [(''latitude'', json_f64 (p_latitude p)), (''longitude'', json_f64 (p_longitude p))]"

definition distance_remaining :: "course_env \<Rightarrow> store \<Rightarrow> course_state \<Rightarrow> active_route \<Rightarrow> f64 option" where
  "distance_remaining env s c route =
     (case resolve_route_points env (ar_href route) of
        Inl _ \<Rightarrow> None
      | Inr ps \<Rightarrow>
          (let remaining = route_remaining_distance (ce_libm env)
                             (map (\<lambda>p. (p_latitude p, p_longitude p)) (in_direction (ar_reverse route) ps))
                             (ar_point_index route);
               to_next = (case cs_next_point c of
                            None \<Rightarrow> Fin 0
                          | Some next \<Rightarrow>
                              (case Option.bind (store_read s ''navigation.position'') lat_lon of
                                 Some (lat, lon) \<Rightarrow> haversine_meters (ce_libm env) lat lon
                                     (p_latitude (cp_position next)) (p_longitude (cp_position next))
                               | None \<Rightarrow> Fin 0))
           in Some (f_add to_next remaining)))"

definition emitted :: "course_env \<Rightarrow> store \<Rightarrow> course_state \<Rightarrow> (string \<times> json) list" where
  "emitted env s c =
     (case cs_next_point c of None \<Rightarrow> []
      | Some n \<Rightarrow> [(''navigation.course.nextPoint.position'', json_lat_lon (cp_position n)),
                   (''navigation.course.nextPoint.type'', JStr (point_type_str (cp_type n)))]) @
     opt_field ''navigation.course.previousPoint.position'' (\<lambda>p. json_lat_lon (cp_position p)) (cs_previous_point c) @
     opt_field ''navigation.course.activeRoute.href'' (\<lambda>r. JStr (ar_href r)) (cs_active_route c) @
     opt_field ''navigation.course.startTime'' JStr (cs_start_time c) @
     opt_field ''navigation.course.targetArrivalTime'' JStr (cs_target_arrival_time c) @
     (if f_lt (Fin 0) (cs_arrival_circle c)
      then [(''navigation.course.arrivalCircle'', json_f64 (cs_arrival_circle c))] else []) @
     opt_field ''navigation.course.activeRoute.distanceRemaining'' json_f64
       (Option.bind (cs_active_route c) (distance_remaining env s c))"

definition cm_write :: "course_env \<Rightarrow> (string \<times> json) list \<Rightarrow> course_manager \<Rightarrow> course_manager" where
  "cm_write env pvs cm = cm\<lparr>cm_store := store_write (ce_disp env) (ce_now env) (ce_utc env) ''course-manager'' pvs (cm_store cm)\<rparr>"

definition emit_deltas :: "course_env \<Rightarrow> course_state \<Rightarrow> course_manager \<Rightarrow> course_manager" where
  "emit_deltas env c cm =
     (let values = emitted env (cm_store cm) c in if values = [] then cm else cm_write env values cm)"

definition clear_paths :: "string list" where
  "clear_paths =
     [''navigation.course.nextPoint.position'', ''navigation.course.nextPoint.type'',
      ''navigation.course.arrivalCircle'', ''navigation.course.targetArrivalTime'',
      ''navigation.course.previousPoint.position'', ''navigation.course.activeRoute.href'',
      ''navigation.course.activeRoute.distanceRemaining'', ''navigation.course.startTime'']"

definition emit_clear_deltas :: "course_env \<Rightarrow> course_manager \<Rightarrow> course_manager" where
  "emit_clear_deltas env cm = cm_write env (map (\<lambda>p. (p, JNull)) clear_paths) cm"

definition persist_state :: "course_env \<Rightarrow> course_state option \<Rightarrow> course_manager \<Rightarrow> unit plugin_result \<times> course_manager" where
  "persist_state env c cm =
     (case ce_io env of
        Inl e \<Rightarrow> (Inl e, cm)
      | Inr _ \<Rightarrow> (Inr (), cm\<lparr>cm_file := map_option course_state_to_json c\<rparr>))"

definition persist_and_emit :: "course_env \<Rightarrow> course_state \<Rightarrow> course_manager \<Rightarrow> unit plugin_result \<times> course_manager" where
  "persist_and_emit env c cm =
     (case persist_state env (Some c) cm of
        (Inl e, cm') \<Rightarrow> (Inl e, cm')
      | (Inr _, cm') \<Rightarrow> (Inr (), emit_deltas env c cm'))"

section \<open>Operations\<close>

definition location_point :: "position \<Rightarrow> string option \<Rightarrow> course_point" where
  "location_point p href = \<lparr>cp_type = Location, cp_position = p, cp_href = href\<rparr>"

definition vessel_point :: "position \<Rightarrow> course_point" where
  "vessel_point p = \<lparr>cp_type = VesselPosition, cp_position = p, cp_href = None\<rparr>"

definition route_point :: "position \<Rightarrow> course_point" where
  "route_point p = \<lparr>cp_type = RoutePoint, cp_position = p, cp_href = None\<rparr>"

definition inherited_circle :: "course_manager \<Rightarrow> f64" where
  "inherited_circle cm = (case cm_state cm of Some c \<Rightarrow> cs_arrival_circle c | None \<Rightarrow> Fin 0)"

definition apply_state :: "course_env \<Rightarrow> course_state \<Rightarrow> course_manager \<Rightarrow> unit plugin_result \<times> course_manager" where
  "apply_state env c cm =
     (case persist_and_emit env c cm of
        (Inl e, cm') \<Rightarrow> (Inl e, cm')
      | (Inr _, cm') \<Rightarrow> (Inr (), cm'\<lparr>cm_state := Some c, cm_source := Api\<rparr>))"

definition set_destination :: "course_env \<Rightarrow> destination_request \<Rightarrow> course_manager \<Rightarrow> unit plugin_result \<times> course_manager" where
  "set_destination env req cm =
     (case (case dr_position req of
              Some pos \<Rightarrow> Inr pos
            | None \<Rightarrow> (case dr_href req of
                         Some href \<Rightarrow> resolve_waypoint_position env href
                       | None \<Rightarrow> Inl (Config ''Either position or href must be provided''))) of
        Inl e \<Rightarrow> (Inl e, cm)
      | Inr pos \<Rightarrow>
          apply_state env
            \<lparr>cs_start_time = Some (ce_now_str env), cs_target_arrival_time = None,
             cs_arrival_circle = inherited_circle cm, cs_active_route = None,
             cs_next_point = Some (location_point pos (dr_href req)),
             cs_previous_point = map_option vessel_point (current_vessel_position (cm_store cm))\<rparr> cm)"

definition set_active_route :: "course_env \<Rightarrow> active_route_request \<Rightarrow> course_manager \<Rightarrow> unit plugin_result \<times> course_manager" where
  "set_active_route env req cm =
     (case resolve_route_points env (arr_href req) of
        Inl e \<Rightarrow> (Inl e, cm)
      | Inr route_points \<Rightarrow>
          if route_points = [] then (Inl (Runtime ''Route has no waypoints''), cm)
          else (let points = in_direction (arr_reverse req) route_points
                in apply_state env
                  \<lparr>cs_start_time = Some (ce_now_str env), cs_target_arrival_time = None,
                   cs_arrival_circle = inherited_circle cm,
                   cs_active_route = Some \<lparr>ar_href = arr_href req, ar_reverse = arr_reverse req,
                     ar_point_index = 0, ar_point_total = length points, ar_name = None, ar_waypoints = None\<rparr>,
                   cs_next_point = Some (route_point (points ! 0)),
                   cs_previous_point = map_option vessel_point (current_vessel_position (cm_store cm))\<rparr> cm))"

definition course_clear :: "course_env \<Rightarrow> course_manager \<Rightarrow> unit plugin_result \<times> course_manager" where
  "course_clear env cm =
     (case persist_state env None (cm\<lparr>cm_state := None\<rparr>) of
        (Inl e, cm') \<Rightarrow> (Inl e, cm')
      | (Inr _, cm') \<Rightarrow> (Inr (), emit_clear_deltas env cm'))"

text \<open>The operations on the active course and route fail without one.\<close>

definition with_course :: "course_manager \<Rightarrow> (course_state \<Rightarrow> unit plugin_result \<times> course_manager)
    \<Rightarrow> unit plugin_result \<times> course_manager" where
  "with_course cm f = (case cm_state cm of None \<Rightarrow> (Inl (Runtime ''No active course''), cm) | Some c \<Rightarrow> f c)"

definition with_route :: "course_manager \<Rightarrow> (course_state \<Rightarrow> active_route \<Rightarrow> unit plugin_result \<times> course_manager)
    \<Rightarrow> unit plugin_result \<times> course_manager" where
  "with_route cm f = with_course cm (\<lambda>c.
     case cs_active_route c of None \<Rightarrow> (Inl (Runtime ''No active route''), cm) | Some r \<Rightarrow> f c r)"

text \<open>The state in memory changes before it is persisted.\<close>

definition store_course :: "course_env \<Rightarrow> course_state \<Rightarrow> course_manager \<Rightarrow> unit plugin_result \<times> course_manager" where
  "store_course env c cm = persist_and_emit env c (cm\<lparr>cm_state := Some c\<rparr>)"

definition go_to_point :: "course_env \<Rightarrow> course_state \<Rightarrow> active_route \<Rightarrow> position list \<Rightarrow> nat \<Rightarrow> course_manager
    \<Rightarrow> unit plugin_result \<times> course_manager" where
  "go_to_point env c r route_points i cm =
     store_course env
       (c\<lparr>cs_previous_point := cs_next_point c,
          cs_active_route := Some (r\<lparr>ar_point_index := i\<rparr>),
          cs_next_point := Some (route_point (in_direction (ar_reverse r) route_points ! i))\<rparr>) cm"

definition advance_next_point :: "course_env \<Rightarrow> 32 word \<Rightarrow> course_manager \<Rightarrow> unit plugin_result \<times> course_manager" where
  "advance_next_point env delta cm = with_route cm (\<lambda>c r.
     case resolve_route_points env (ar_href r) of
       Inl e \<Rightarrow> (Inl e, cm)
     | Inr route_points \<Rightarrow>
         (let new_index = sint (of_nat (ar_point_index r) :: u64) + sint delta
          in if new_index < 0 \<or> length route_points \<le> nat new_index
             then (Inl (Runtime ''Point index out of range''), cm)
             else go_to_point env c r route_points (nat new_index) cm))"

definition set_point_index :: "course_env \<Rightarrow> nat \<Rightarrow> course_manager \<Rightarrow> unit plugin_result \<times> course_manager" where
  "set_point_index env i cm = with_route cm (\<lambda>c r.
     case resolve_route_points env (ar_href r) of
       Inl e \<Rightarrow> (Inl e, cm)
     | Inr route_points \<Rightarrow>
         if length route_points \<le> i then (Inl (Runtime ''Point index out of range''), cm)
         else go_to_point env c r route_points i cm)"

definition reverse_route :: "course_env \<Rightarrow> course_manager \<Rightarrow> unit plugin_result \<times> course_manager" where
  "reverse_route env cm = with_route cm (\<lambda>c r.
     let r1 = r\<lparr>ar_reverse := \<not> ar_reverse r\<rparr>
     in case resolve_route_points env (ar_href r1) of
          Inl e \<Rightarrow> (Inl e, cm\<lparr>cm_state := Some (c\<lparr>cs_active_route := Some r1\<rparr>)\<rparr>)
        | Inr route_points \<Rightarrow>
            (let points = in_direction (ar_reverse r1) route_points
             in store_course env
                  (c\<lparr>cs_active_route := Some (r1\<lparr>ar_point_index := 0, ar_point_total := length points\<rparr>),
                     cs_previous_point := cs_next_point c,
                     cs_next_point := (case points of [] \<Rightarrow> None | p # _ \<Rightarrow> Some (route_point p))\<rparr>) cm))"

definition set_target_arrival_time :: "course_env \<Rightarrow> string option \<Rightarrow> course_manager \<Rightarrow> unit plugin_result \<times> course_manager" where
  "set_target_arrival_time env t cm = with_course cm (\<lambda>c. store_course env (c\<lparr>cs_target_arrival_time := t\<rparr>) cm)"

definition set_arrival_circle :: "course_env \<Rightarrow> f64 \<Rightarrow> course_manager \<Rightarrow> unit plugin_result \<times> course_manager" where
  "set_arrival_circle env radius cm =
     (let cm1 = cm\<lparr>cm_config := (cm_config cm)\<lparr>cc_arrival_circle := radius\<rparr>\<rparr>
      in case cm_state cm1 of
           Some c \<Rightarrow> store_course env (c\<lparr>cs_arrival_circle := radius\<rparr>) cm1
         | None \<Rightarrow> (Inr (), cm1))"

definition enable_api_only :: "course_env \<Rightarrow> course_manager \<Rightarrow> course_manager" where
  "enable_api_only env cm =
     (let cm1 = cm\<lparr>cm_config := (cm_config cm)\<lparr>cc_api_only := True\<rparr>\<rparr>
      in if cm_source cm1 = Nmea
         then snd (persist_state env None (emit_clear_deltas env (cm1\<lparr>cm_state := None, cm_source := Api\<rparr>)))
         else cm1)"

definition disable_api_only :: "course_manager \<Rightarrow> course_manager" where
  "disable_api_only cm = cm\<lparr>cm_config := (cm_config cm)\<lparr>cc_api_only := False\<rparr>\<rparr>"

definition arrival_notification :: json where
  "arrival_notification = json_obj
     [(''state'', JStr ''alert''), (''method'', JArr [JStr ''visual'', JStr ''sound'']),
      (''message'', JStr ''Arrived at destination'')]"

definition emit_arrival_notification :: "course_env \<Rightarrow> course_manager \<Rightarrow> course_manager" where
  "emit_arrival_notification env = cm_write env [(''notifications.navigation.arrivalCircleEntered'', arrival_notification)]"

definition check_arrival :: "course_env \<Rightarrow> course_manager \<Rightarrow> bool \<times> course_manager" where
  "check_arrival env cm =
     (case cm_state cm of
        None \<Rightarrow> (False, cm)
      | Some c \<Rightarrow>
          if f_le (cs_arrival_circle c) (Fin 0) then (False, cm)
          else (case Option.bind (store_read (cm_store cm) ''navigation.course.calcValues.nextPoint.distance'') as_f64 of
                  None \<Rightarrow> (False, cm)
                | Some d \<Rightarrow>
                    if \<not> is_finite d \<or> f_le (cs_arrival_circle c) d then (False, cm)
                    else if is_some_and (cs_active_route c)
                              (\<lambda>r. 0 < ar_point_total r \<and> ar_point_index r + 1 < ar_point_total r)
                    then (True, snd (advance_next_point env 1 cm))
                    else (True, emit_arrival_notification env cm)))"

definition get_state :: "course_env \<Rightarrow> course_manager \<Rightarrow> course_state" where
  "get_state env cm =
     (let c = (case cm_state cm of
                 Some c \<Rightarrow> c
               | None \<Rightarrow> \<lparr>cs_start_time = None, cs_target_arrival_time = None,
                          cs_arrival_circle = cc_arrival_circle (cm_config cm),
                          cs_active_route = None, cs_next_point = None, cs_previous_point = None\<rparr>)
      in case cs_active_route c of
           None \<Rightarrow> c
         | Some r \<Rightarrow>
             if ar_waypoints r = None
             then (case resolve_route_points env (ar_href r) of
                     Inl _ \<Rightarrow> c
                   | Inr ps \<Rightarrow> c\<lparr>cs_active_route := Some (r\<lparr>ar_waypoints := Some (in_direction (ar_reverse r) ps)\<rparr>)\<rparr>)
             else c)"

definition course_load :: "course_env \<Rightarrow> course_manager \<Rightarrow> course_manager" where
  "course_load env cm =
     (case Option.bind (cm_file cm) course_state_of_json of
        Some c \<Rightarrow> (emit_deltas env c cm)\<lparr>cm_state := Some c\<rparr>
      | None \<Rightarrow> cm)"

section \<open>Destinations from NMEA\<close>

definition nmea_course :: "course_env \<Rightarrow> position \<Rightarrow> course_manager \<Rightarrow> course_state" where
  "nmea_course env pos cm =
     \<lparr>cs_start_time = Some (ce_now_str env), cs_target_arrival_time = None,
      cs_arrival_circle = cc_arrival_circle (cm_config cm), cs_active_route = None,
      cs_next_point = Some (location_point pos None),
      cs_previous_point = map_option vessel_point (current_vessel_position (cm_store cm))\<rparr>"

definition apply_nmea_position :: "course_env \<Rightarrow> position \<Rightarrow> course_manager \<Rightarrow> unit plugin_result \<times> course_manager" where
  "apply_nmea_position env pos cm =
     (if cc_api_only (cm_config cm) then (Inr (), cm)
      else (case persist_and_emit env (nmea_course env pos cm) cm of
              (Inl e, cm') \<Rightarrow> (Inl e, cm')
            | (Inr _, cm') \<Rightarrow> (Inr (), cm'\<lparr>cm_state := Some (nmea_course env pos cm), cm_source := Nmea\<rparr>)))"

definition nmea_value :: "course_env \<Rightarrow> path_value \<Rightarrow> course_manager \<Rightarrow> course_manager" where
  "nmea_value env pv cm =
     (if pv_path pv = ''navigation.courseGreatCircle.nextPoint.position'' \<or>
         pv_path pv = ''navigation.courseRhumbline.nextPoint.position''
      then (case position_of_json (pv_value pv) of
              Some pos \<Rightarrow> snd (apply_nmea_position env pos cm) | None \<Rightarrow> cm)
      else cm)"

definition nmea_delta :: "course_env \<Rightarrow> delta \<Rightarrow> course_manager \<Rightarrow> course_manager" where
  "nmea_delta env d = fold (\<lambda>u cm.
     if s_label (u_source u) = ''course-manager'' then cm else fold (nmea_value env) (u_values u) cm) (d_updates d)"

section \<open>Reading back calculated values\<close>

definition get_calc_values :: "store \<Rightarrow> json" where
  "get_calc_values s =
     (let get = (\<lambda>p. store_read s (''navigation.course.calcValues.'' @ p));
          field = (\<lambda>(k, p). case get p of Some v \<Rightarrow> [(k, v)] | None \<Rightarrow> []);
          next_point = concat (map field
            [(''distance'', ''nextPoint.distance''), (''velocityMadeGood'', ''nextPoint.velocityMadeGood''),
             (''estimatedTimeOfArrival'', ''nextPoint.estimatedTimeOfArrival'')]);
          prev_point = field (''distance'', ''previousPoint.distance'')
      in json_obj
           ([(''calcMethod'', JStr ''GreatCircle'')] @
            concat (map (\<lambda>k. field (k, k)) [''bearingTrackTrue'', ''bearingTrackMagnetic'', ''crossTrackError'']) @
            (if next_point = [] then [] else [(''nextPoint'', json_obj next_point)]) @
            (if prev_point = [] then [] else [(''previousPoint'', json_obj prev_point)])))"

end
