(* ===== verification/CourseSpec.thy ===== *)
theory CourseSpec
  imports Course
begin

text \<open>
  The properties of the course manager: where it is on its route, what it persists, what the
  store sees of it, and where its operations fall short.
\<close>

section \<open>What each step leaves alone\<close>

lemma cm_write_simps [simp]:
  "cm_state (cm_write env pvs cm) = cm_state cm" "cm_config (cm_write env pvs cm) = cm_config cm"
  "cm_source (cm_write env pvs cm) = cm_source cm" "cm_file (cm_write env pvs cm) = cm_file cm"
  by (simp_all add: cm_write_def)

lemma emit_deltas_simps [simp]:
  "cm_state (emit_deltas env c cm) = cm_state cm" "cm_config (emit_deltas env c cm) = cm_config cm"
  "cm_source (emit_deltas env c cm) = cm_source cm" "cm_file (emit_deltas env c cm) = cm_file cm"
  by (simp_all add: emit_deltas_def Let_def)

lemma emit_clear_simps [simp]:
  "cm_state (emit_clear_deltas env cm) = cm_state cm" "cm_config (emit_clear_deltas env cm) = cm_config cm"
  "cm_source (emit_clear_deltas env cm) = cm_source cm" "cm_file (emit_clear_deltas env cm) = cm_file cm"
  by (simp_all add: emit_clear_deltas_def)

lemma persist_state_simps [simp]:
  "cm_state (snd (persist_state env c cm)) = cm_state cm" "cm_config (snd (persist_state env c cm)) = cm_config cm"
  "cm_source (snd (persist_state env c cm)) = cm_source cm" "cm_store (snd (persist_state env c cm)) = cm_store cm"
  by (simp_all add: persist_state_def split: sum.split)

lemma persist_and_emit_simps [simp]:
  "cm_state (snd (persist_and_emit env c cm)) = cm_state cm" "cm_config (snd (persist_and_emit env c cm)) = cm_config cm"
  "cm_source (snd (persist_and_emit env c cm)) = cm_source cm"
  by (simp_all add: persist_and_emit_def persist_state_def split: sum.split)

lemma store_course_simps [simp]:
  "cm_state (snd (store_course env c cm)) = Some c" "cm_config (snd (store_course env c cm)) = cm_config cm"
  "cm_source (snd (store_course env c cm)) = cm_source cm"
  by (simp_all add: store_course_def)

lemma apply_state_simps [simp]:
  "cm_state (snd (apply_state env c cm)) = (case ce_io env of Inl _ \<Rightarrow> cm_state cm | Inr _ \<Rightarrow> Some c)"
  "cm_config (snd (apply_state env c cm)) = cm_config cm"
  "cm_source (snd (apply_state env c cm)) = (case ce_io env of Inl _ \<Rightarrow> cm_source cm | Inr _ \<Rightarrow> Api)"
  by (simp_all add: apply_state_def persist_and_emit_def persist_state_def split: sum.split)

lemma clear_simps [simp]:
  "cm_state (snd (course_clear env cm)) = None" "cm_config (snd (course_clear env cm)) = cm_config cm"
  "cm_source (snd (course_clear env cm)) = cm_source cm"
  by (simp_all add: course_clear_def persist_state_def split: sum.split)

lemma nmea_simps [simp]:
  "cm_config (snd (apply_nmea_position env pos cm)) = cm_config cm"
  "cm_state (snd (apply_nmea_position env pos cm)) =
     (if cc_api_only (cm_config cm) \<or> ce_io env \<noteq> Inr () then cm_state cm else Some (nmea_course env pos cm))"
  by (auto simp: apply_nmea_position_def persist_and_emit_def persist_state_def split: sum.splits)

section \<open>On the route\<close>

definition on_route :: "course_env \<Rightarrow> course_manager \<Rightarrow> bool" where
  "on_route env cm \<longleftrightarrow>
     (case cm_state cm of None \<Rightarrow> True | Some c \<Rightarrow>
       (case cs_active_route c of None \<Rightarrow> True | Some r \<Rightarrow>
         (case resolve_route_points env (ar_href r) of Inl _ \<Rightarrow> False | Inr ps \<Rightarrow>
            ar_point_total r = length ps \<and> ar_point_index r < length ps \<and>
            cs_next_point c = Some (route_point (in_direction (ar_reverse r) ps ! ar_point_index r)))))"

lemma resolve_cong:
  assumes "ce_get env = ce_get env'"
  shows "resolve_route_points env = resolve_route_points env'"
  by (intro ext, unfold resolve_route_points_def assms, rule refl)

lemma head_of: "ps \<noteq> [] \<Longrightarrow> (case ps of [] \<Rightarrow> None | p # _ \<Rightarrow> Some (f p)) = Some (f (ps ! 0))"
  by (cases ps) simp_all

lemma in_direction_Nil [simp]: "in_direction b ps = [] \<longleftrightarrow> ps = []"
  by (simp add: in_direction_def)

lemma length_in_direction [simp]: "length (in_direction b ps) = length ps"
  by (simp add: in_direction_def)

lemma resolve_nonempty: "resolve_route_points env href = Inr ps \<Longrightarrow> ps \<noteq> []"
  by (auto simp: resolve_route_points_def split: sum.splits option.splits if_splits)

lemma on_route_cong: "cm_state cm = cm_state cm' \<Longrightarrow> on_route env cm = on_route env cm'"
  by (simp add: on_route_def)

lemma on_route_no_route: "cm_state cm = Some c \<Longrightarrow> cs_active_route c = None \<Longrightarrow> on_route env cm"
  by (simp add: on_route_def)

lemma on_route_go:
  assumes "resolve_route_points env (ar_href r) = Inr ps" and "i < length ps" and "ar_point_total r = length ps"
  shows "on_route env (snd (go_to_point env' c r ps i cm))"
  using assms by (simp add: on_route_def go_to_point_def)

lemma on_route_destination:
  assumes "on_route env cm"
  shows "on_route env (snd (set_destination env' req cm))"
proof -
  have "on_route env (snd (apply_state env' c cm))" if "cs_active_route c = None" for c
    using assms that by (simp add: on_route_def split: sum.split)
  then show ?thesis using assms by (auto simp: set_destination_def split: sum.split option.split)
qed

lemma on_route_active:
  assumes "on_route env cm" and "ce_get env' = ce_get env"
  shows "on_route env (snd (set_active_route env' req cm))"
proof (cases "resolve_route_points env' (arr_href req)")
  case (Inl e)
  then show ?thesis using assms by (simp add: set_active_route_def)
next
  case (Inr ps)
  with assms resolve_nonempty [OF Inr] show ?thesis
    by (simp add: set_active_route_def Let_def on_route_def resolve_cong [OF assms(2)] split: sum.split)
qed

lemma with_route_cases:
  assumes "on_route env cm" and "ce_get env' = ce_get env"
  obtains "\<And>f. snd (with_route cm f) = cm"
  | c r ps where "cm_state cm = Some c" "cs_active_route c = Some r" "resolve_route_points env' (ar_href r) = Inr ps"
      "ar_point_total r = length ps" "\<And>f. with_route cm f = f c r"
  using assms(1) unfolding on_route_def
  by (auto simp: with_route_def with_course_def resolve_cong [OF assms(2)] split: option.splits sum.splits)

lemma on_route_advance:
  assumes "on_route env cm" and "ce_get env' = ce_get env"
  shows "on_route env (snd (advance_next_point env' n cm))"
  using assms(1,2)
proof (cases rule: with_route_cases)
  case 1
  then show ?thesis using assms(1) by (simp add: advance_next_point_def)
next
  case (2 c r ps)
  then show ?thesis
    using assms on_route_go [of env r ps] by (simp add: advance_next_point_def Let_def resolve_cong [OF assms(2)])
qed

lemma on_route_index:
  assumes "on_route env cm" and "ce_get env' = ce_get env"
  shows "on_route env (snd (set_point_index env' n cm))"
  using assms(1,2)
proof (cases rule: with_route_cases)
  case 1
  then show ?thesis using assms(1) by (simp add: set_point_index_def)
next
  case (2 c r ps)
  then show ?thesis
    using assms on_route_go [of env r ps] by (simp add: set_point_index_def resolve_cong [OF assms(2)])
qed

lemma on_route_reverse:
  assumes "on_route env cm" and "ce_get env' = ce_get env"
  shows "on_route env (snd (reverse_route env' cm))"
  using assms(1,2)
proof (cases rule: with_route_cases)
  case 1
  then show ?thesis using assms(1) by (simp add: reverse_route_def)
next
  case (2 c r ps)
  show ?thesis
    using 2 resolve_nonempty [OF 2(3)]
    by (simp add: reverse_route_def Let_def on_route_def resolve_cong [OF assms(2)] head_of)
qed

lemma on_route_set:
  assumes "on_route env cm"
  shows "on_route env (snd (set_target_arrival_time env' t cm))"
    and "on_route env (snd (set_arrival_circle env' radius cm))"
    and "on_route env (enable_api_only env' cm)" and "on_route env (disable_api_only cm)"
  using assms
  by (auto simp: on_route_def set_target_arrival_time_def with_course_def set_arrival_circle_def Let_def
      enable_api_only_def disable_api_only_def split: option.split sum.splits)

lemma on_route_arrival:
  assumes "on_route env cm" and "ce_get env' = ce_get env"
  shows "on_route env (snd (check_arrival env' cm))"
proof -
  have "on_route env (emit_arrival_notification env' cm)"
    using assms(1) by (simp add: on_route_def emit_arrival_notification_def)
  then show ?thesis
    using assms on_route_advance [OF assms] by (simp add: check_arrival_def split: option.split)
qed

lemma on_route_nmea:
  assumes "on_route env cm"
  shows "on_route env (nmea_delta env' d cm)"
proof -
  have v: "on_route env (nmea_value env' pv cm)" if "on_route env cm" for pv cm
    using that on_route_no_route [of _ "nmea_course env' p cm" env for p]
    by (auto simp: nmea_value_def nmea_course_def on_route_def split: option.split)
  have "on_route env (fold (nmea_value env') pvs cm)" if "on_route env cm" for pvs cm
    using that by (induction pvs arbitrary: cm) (simp_all add: v)
  then have "on_route env (fold (\<lambda>u cm. if s_label (u_source u) = ''course-manager'' then cm
      else fold (nmea_value env') (u_values u) cm) us cm)" if "on_route env cm" for us cm
    using that by (induction us arbitrary: cm) simp_all
  with assms show ?thesis by (simp add: nmea_delta_def)
qed

text \<open>Everything that happens to the manager while the routes do not change; the clock and the
  result of writing the file differ from step to step.\<close>

inductive course_reach ::
  "(string \<Rightarrow> string \<Rightarrow> json option plugin_result) \<Rightarrow> course_manager \<Rightarrow> bool" for get where
  start: "course_reach get (course_manager_new s file)"
| destination: "course_reach get cm \<Longrightarrow> ce_get env = get \<Longrightarrow> course_reach get (snd (set_destination env req cm))"
| route: "course_reach get cm \<Longrightarrow> ce_get env = get \<Longrightarrow> course_reach get (snd (set_active_route env rreq cm))"
| clear: "course_reach get cm \<Longrightarrow> ce_get env = get \<Longrightarrow> course_reach get (snd (course_clear env cm))"
| advance: "course_reach get cm \<Longrightarrow> ce_get env = get \<Longrightarrow> course_reach get (snd (advance_next_point env n cm))"
| index: "course_reach get cm \<Longrightarrow> ce_get env = get \<Longrightarrow> course_reach get (snd (set_point_index env i cm))"
| reverse: "course_reach get cm \<Longrightarrow> ce_get env = get \<Longrightarrow> course_reach get (snd (reverse_route env cm))"
| time: "course_reach get cm \<Longrightarrow> ce_get env = get \<Longrightarrow> course_reach get (snd (set_target_arrival_time env t cm))"
| circle: "course_reach get cm \<Longrightarrow> ce_get env = get \<Longrightarrow> course_reach get (snd (set_arrival_circle env radius cm))"
| api_on: "course_reach get cm \<Longrightarrow> ce_get env = get \<Longrightarrow> course_reach get (enable_api_only env cm)"
| api_off: "course_reach get cm \<Longrightarrow> course_reach get (disable_api_only cm)"
| arrival: "course_reach get cm \<Longrightarrow> ce_get env = get \<Longrightarrow> course_reach get (snd (check_arrival env cm))"
| nmea: "course_reach get cm \<Longrightarrow> ce_get env = get \<Longrightarrow> course_reach get (nmea_delta env d cm)"

lemma on_route_reach: "course_reach get cm \<Longrightarrow> ce_get env = get \<Longrightarrow> on_route env cm"
proof (induction rule: course_reach.induct)
  case (start s x)
  show ?case by (simp add: on_route_def course_manager_new_def)
next
  case (clear cm env')
  then show ?case by (simp add: on_route_def)
qed (simp_all add: on_route_destination on_route_active on_route_advance on_route_index on_route_reverse
     on_route_set on_route_arrival on_route_nmea)


text \<open>A route of three points.\<close>

definition pos :: "rat \<Rightarrow> position" where
  "pos x = \<lparr>p_latitude = Fin x, p_longitude = Fin 0, p_altitude = None\<rparr>"

definition route_json :: json where
  "route_json = JObj [(''coordinates'', JArr (map (\<lambda>x. JArr [JNum (Float (Fin 0)), JNum (Float (Fin x))]) [1, 2, 3]))]"

definition demo_env :: course_env where
  "demo_env = \<lparr>ce_disp = (\<lambda>_. []), ce_now = 0, ce_utc = 0, ce_now_str = ''now'',
     ce_get = (\<lambda>t i. if t = ''routes'' then Inr (Some route_json) else Inr None),
     ce_libm = demo_libm, ce_io = Inr ()\<rparr>"

definition demo_href :: string where
  "demo_href = ''/resources/routes/1''"

lemma demo_resolve: "resolve_route_points demo_env demo_href = Inr [pos 1, pos 2, pos 3]"
proof -
  have "parse_resource_href demo_href = Inr (''routes'', ''1'')"
    by (simp add: parse_resource_href_def demo_href_def Let_def trim_start_char_def)
  moreover have "route_points_of route_json = [pos 1, pos 2, pos 3]"
    by (simp add: route_points_of_def route_json_def coordinate_points_def lon_lat_def jget_idx_def
        pos_def List.map_filter_def)
  ultimately show ?thesis by (simp add: resolve_route_points_def demo_env_def)
qed

definition demo_route :: course_manager where
  "demo_route = snd (set_active_route demo_env \<lparr>arr_href = demo_href, arr_reverse = False\<rparr>
     (course_manager_new (store_new ''me'') None))"

lemma demo_route_state:
  "\<exists>c r. cm_state demo_route = Some c \<and> cs_active_route c = Some r \<and> ar_point_index r = 0 \<and>
     ar_point_total r = 3 \<and> ar_href r = demo_href \<and> ar_reverse r = False \<and> cs_arrival_circle c = Fin 0 \<and>
     cs_next_point c = Some (route_point (pos 1))"
  by (simp add: demo_route_def set_active_route_def demo_resolve Let_def in_direction_def
      inherited_circle_def course_manager_new_def) (simp add: demo_env_def)


section \<open>What the store sees\<close>

definition course_paths :: "string list" where
  "course_paths =
     [''navigation.course.nextPoint.position'', ''navigation.course.nextPoint.type'',
      ''navigation.course.previousPoint.position'', ''navigation.course.activeRoute.href'',
      ''navigation.course.startTime'', ''navigation.course.targetArrivalTime'',
      ''navigation.course.arrivalCircle'', ''navigation.course.activeRoute.distanceRemaining'']"

lemma emitted_paths: "subseq (map fst (emitted env s c)) course_paths"
proof -
  have o: "subseq (map fst (opt_field k e x)) [k]" for k and e :: "'a \<Rightarrow> json" and x
    by (simp add: opt_field_def split: option.split)
  have s: "map fst (emitted env s c) =
      (case cs_next_point c of None \<Rightarrow> [] | Some n \<Rightarrow> [''navigation.course.nextPoint.position'', ''navigation.course.nextPoint.type'']) @
      map fst (opt_field ''navigation.course.previousPoint.position'' (\<lambda>p. json_lat_lon (cp_position p)) (cs_previous_point c)) @
      map fst (opt_field ''navigation.course.activeRoute.href'' (\<lambda>r. JStr (ar_href r)) (cs_active_route c)) @
      map fst (opt_field ''navigation.course.startTime'' JStr (cs_start_time c)) @
      map fst (opt_field ''navigation.course.targetArrivalTime'' JStr (cs_target_arrival_time c)) @
      (if f_lt (Fin 0) (cs_arrival_circle c) then [''navigation.course.arrivalCircle''] else []) @
      map fst (opt_field ''navigation.course.activeRoute.distanceRemaining'' json_f64
         (Option.bind (cs_active_route c) (distance_remaining env s c)))"
    by (simp add: emitted_def split: option.split)
  have p: "course_paths = [''navigation.course.nextPoint.position'', ''navigation.course.nextPoint.type''] @
      [''navigation.course.previousPoint.position''] @ [''navigation.course.activeRoute.href''] @
      [''navigation.course.startTime''] @ [''navigation.course.targetArrivalTime''] @
      [''navigation.course.arrivalCircle''] @ [''navigation.course.activeRoute.distanceRemaining'']"
    by (simp add: course_paths_def)
  show ?thesis
    unfolding s p
    by (intro list_emb_append_mono o) (simp_all split: option.split)
qed

lemma emitted_distinct: "distinct (map fst (emitted env s c))"
proof -
  obtain I where "map fst (emitted env s c) = nths course_paths I"
    using emitted_paths [of env s c, unfolded subseq_conv_nths] by blast
  moreover have "distinct course_paths" by (simp add: course_paths_def)
  ultimately show ?thesis by (simp add: distinct_nthsI)
qed

lemma emit_read_other:
  assumes "q \<notin> set (map fst (emitted env (cm_store cm) c))"
  shows "store_read (cm_store (emit_deltas env c cm)) q = store_read (cm_store cm) q"
  using assms port.read_write_other [OF emitted_distinct [of env "cm_store cm" c], of q]
  by (simp add: emit_deltas_def Let_def cm_write_def)

lemma persist_emit_read_other:
  assumes "q \<notin> set (map fst (emitted env (cm_store cm) c))"
  shows "store_read (cm_store (snd (persist_and_emit env c cm))) q = store_read (cm_store cm) q"
proof (cases "ce_io env")
  case (Inr x)
  then show ?thesis
    using emit_read_other [of q env "cm\<lparr>cm_file := Some (course_state_to_json c)\<rparr>" c] assms
    by (simp add: persist_and_emit_def persist_state_def)
qed (simp add: persist_and_emit_def persist_state_def)

lemma not_course_path: "q \<notin> set course_paths \<Longrightarrow> q \<notin> set (map fst (emitted env s c))"
  using emitted_paths [of env s c] by (metis in_set_nthsD subseq_conv_nths)

abbreviation "distance_path \<equiv> ''navigation.course.calcValues.nextPoint.distance''"

lemma go_read_distance:
  "store_read (cm_store (snd (go_to_point env c r ps i cm))) distance_path = store_read (cm_store cm) distance_path"
proof -
  have "distance_path \<notin> set course_paths" by (simp add: course_paths_def)
  from persist_emit_read_other [OF not_course_path [OF this]] show ?thesis
    by (simp add: go_to_point_def store_course_def)
qed

text \<open>Arrivals follow one another on the same distance: advancing does not change the
  calculated distance in the store, so until something recalculates it every check is an
  arrival again, and \<open>k\<close> checks take the vessel \<open>k\<close> points further along its route,
  as long as there are points, whatever happens to the state file.\<close>

theorem arrivals_follow_stale_distance:
  assumes "on_route env cm" and "cm_state cm = Some c" and "cs_active_route c = Some r"
    and "store_read (cm_store cm) distance_path = Some v" and "as_f64 v = Some d" and "is_finite d"
    and "\<not> f_le (cs_arrival_circle c) d" and "\<not> f_le (cs_arrival_circle c) (Fin 0)"
    and "ar_point_index r + k < ar_point_total r" and "ar_point_total r < 2 ^ 63"
  shows "\<exists>c' r'. cm_state (((\<lambda>cm. snd (check_arrival env cm)) ^^ k) cm) = Some c' \<and> cs_active_route c' = Some r' \<and>
           ar_point_index r' = ar_point_index r + k \<and> ar_href r' = ar_href r"
  using assms
proof (induction k arbitrary: cm c r)
  case 0
  then show ?case by auto
next
  case (Suc k)
  obtain ps where ps: "resolve_route_points env (ar_href r) = Inr ps" "ar_point_total r = length ps"
    using Suc.prems(1-3) by (auto simp: on_route_def split: sum.splits)
  have idx: "sint (of_nat (ar_point_index r) :: u64) = int (ar_point_index r)"
    using Suc.prems(9,10) int_word_sint [of "int (ar_point_index r)", where 'a = 64] by simp
  have i: "nat (int (ar_point_index r) + 1) = ar_point_index r + 1" by simp
  have more: "is_some_and (cs_active_route c) (\<lambda>r. 0 < ar_point_total r \<and> ar_point_index r + 1 < ar_point_total r)"
    using Suc.prems(3,9) by (simp add: is_some_and_iff)
  have step: "snd (check_arrival env cm) = snd (go_to_point env c r ps (ar_point_index r + 1) cm)"
    using Suc.prems ps idx more i
    by (simp add: check_arrival_def advance_next_point_def with_route_def with_course_def Let_def)
  define cm1 where "cm1 = snd (go_to_point env c r ps (ar_point_index r + 1) cm)"
  define c1 where "c1 = c\<lparr>cs_previous_point := cs_next_point c, cs_active_route := Some (r\<lparr>ar_point_index := ar_point_index r + 1\<rparr>),
      cs_next_point := Some (route_point (in_direction (ar_reverse r) ps ! (ar_point_index r + 1)))\<rparr>"
  have s1: "cm_state cm1 = Some c1" by (simp add: cm1_def c1_def go_to_point_def)
  have r1: "cs_active_route c1 = Some (r\<lparr>ar_point_index := ar_point_index r + 1\<rparr>)" by (simp add: c1_def)
  have o1: "on_route env cm1" unfolding cm1_def using on_route_go [OF ps(1)] Suc.prems(9) ps(2) by simp
  have d1: "store_read (cm_store cm1) distance_path = Some v"
    unfolding cm1_def go_read_distance by (rule Suc.prems(4))
  have a1: "cs_arrival_circle c1 = cs_arrival_circle c" by (simp add: c1_def)
  have "((\<lambda>cm. snd (check_arrival env cm)) ^^ Suc k) cm = ((\<lambda>cm. snd (check_arrival env cm)) ^^ k) cm1"
    by (simp add: funpow_Suc_right step cm1_def del: funpow.simps)
  with Suc.IH [OF o1 s1 r1 d1 Suc.prems(5,6)] Suc.prems(7-10) a1 show ?case by (simp del: funpow.simps)
qed

text \<open>The route of three points, with a circle of ten metres and a distance of five in the store.\<close>

definition near_store :: store where
  "near_store = store_write (\<lambda>_. []) 0 0 ''derived'' [(distance_path, JNum (Float (Fin 5)))] (store_new ''me'')"

definition near_route :: course_manager where
  "near_route = snd (set_arrival_circle demo_env (Fin 10) (snd (set_active_route demo_env
     \<lparr>arr_href = demo_href, arr_reverse = False\<rparr> (course_manager_new near_store None))))"

lemma near_store_read: "store_read near_store distance_path = Some (JNum (Float (Fin 5)))"
proof -
  have "get_self_path (store_new ''me'') distance_path = None"
    by (simp add: get_self_path_def store_new_def vessel_default_def)
  then show ?thesis
    using port.read_write_one [of _ _ _ "''derived''" distance_path "JNum (Float (Fin 5))" "store_new ''me''" distance_path]
    by (simp add: near_store_def store_accepts_iff)
qed

lemma near_route_facts:
  "\<exists>c r. cm_state near_route = Some c \<and> cs_active_route c = Some r \<and> ar_point_index r = 0 \<and>
     ar_point_total r = 3 \<and> cs_arrival_circle c = Fin 10"
  "store_read (cm_store near_route) distance_path = Some (JNum (Float (Fin 5)))"
  "on_route demo_env near_route"
proof -
  define cm where "cm = snd (set_active_route demo_env \<lparr>arr_href = demo_href, arr_reverse = False\<rparr> (course_manager_new near_store None))"
  have io: "ce_io demo_env = Inr ()" by (simp add: demo_env_def)
  have np: "distance_path \<notin> set course_paths" by (simp add: course_paths_def)
  have st: "cm_state cm = Some
      \<lparr>cs_start_time = Some (ce_now_str demo_env), cs_target_arrival_time = None, cs_arrival_circle = Fin 0,
       cs_active_route = Some \<lparr>ar_href = demo_href, ar_reverse = False, ar_point_index = 0, ar_point_total = 3,
         ar_name = None, ar_waypoints = None\<rparr>, cs_next_point = Some (route_point (pos 1)),
       cs_previous_point = map_option vessel_point (current_vessel_position near_store)\<rparr>"
    by (simp add: cm_def set_active_route_def demo_resolve Let_def in_direction_def inherited_circle_def
        course_manager_new_def io)
  show "\<exists>c r. cm_state near_route = Some c \<and> cs_active_route c = Some r \<and> ar_point_index r = 0 \<and>
     ar_point_total r = 3 \<and> cs_arrival_circle c = Fin 10"
    by (simp add: near_route_def set_arrival_circle_def Let_def st flip: cm_def)
  have "store_read (cm_store cm) distance_path = store_read near_store distance_path"
    using persist_emit_read_other [OF not_course_path [OF np], where env = demo_env]
    by (auto simp: cm_def set_active_route_def demo_resolve Let_def apply_state_def course_manager_new_def
        split: prod.split sum.split) (metis (no_types, lifting) course_manager.select_convs(4) snd_conv)+
  then show "store_read (cm_store near_route) distance_path = Some (JNum (Float (Fin 5)))"
    using persist_emit_read_other [OF not_course_path [OF np], where env = demo_env] near_store_read
    by (simp add: near_route_def set_arrival_circle_def Let_def st store_course_def flip: cm_def)
  show "on_route demo_env near_route"
    unfolding near_route_def
    by (rule on_route_reach [OF _ refl]) (intro course_reach.intros refl)
qed

theorem arrivals_follow_stale_distance_witness:
  "\<exists>c r. cm_state (snd (check_arrival demo_env (snd (check_arrival demo_env near_route)))) = Some c \<and>
     cs_active_route c = Some r \<and> ar_point_index r = 2"
proof -
  obtain c r where c: "cm_state near_route = Some c" "cs_active_route c = Some r" "ar_point_index r = 0"
      "ar_point_total r = 3" "cs_arrival_circle c = Fin 10" using near_route_facts(1) by blast
  have two: "(f ^^ 2) x = f (f x)" for f :: "course_manager \<Rightarrow> course_manager" and x
    by (simp add: numeral_2_eq_2)
  show ?thesis
    using arrivals_follow_stale_distance [OF near_route_facts(3) c(1,2) near_route_facts(2), of "Fin 5" 2] c
    by (auto simp: two)
qed

section \<open>Where operations fall short\<close>

text \<open>A failed reversal leaves the route half reversed: when the route cannot be resolved
  the request fails, but the direction in memory has been flipped while the index, the next
  point, the state file and the store are as before; once the route is there again, selecting
  the current index leads to the point at the other end of the route.\<close>

theorem failed_reverse_flips_direction:
  assumes "cm_state cm = Some c" and "cs_active_route c = Some r"
    and "resolve_route_points env (ar_href r) = Inl e"
    and "resolve_route_points env' (ar_href r) = Inr ps" and "ar_point_index r < length ps"
  shows "\<exists>cm' c' r'. reverse_route env cm = (Inl e, cm') \<and> cm_file cm' = cm_file cm \<and> cm_store cm' = cm_store cm \<and>
           cm_state cm' = Some c' \<and> cs_next_point c' = cs_next_point c \<and>
           cs_active_route c' = Some r' \<and> ar_point_index r' = ar_point_index r \<and> ar_reverse r' = (\<not> ar_reverse r) \<and>
           map_option cs_next_point (cm_state (snd (set_point_index env' (ar_point_index r) cm'))) =
             Some (Some (route_point (in_direction (\<not> ar_reverse r) ps ! ar_point_index r)))"
  using assms
  by (simp add: reverse_route_def set_point_index_def with_route_def with_course_def Let_def go_to_point_def)

theorem failed_reverse_flips_direction_witness:
  "let env = demo_env\<lparr>ce_get := (\<lambda>_ _. Inr None)\<rparr>; cm = snd (reverse_route env demo_route)
   in map_option cs_next_point (cm_state (snd (set_point_index demo_env 0 cm))) = Some (Some (route_point (pos 3)))"
proof -
  obtain c r where c: "cm_state demo_route = Some c" "cs_active_route c = Some r" "ar_point_index r = 0"
      "ar_href r = demo_href" "ar_reverse r = False" using demo_route_state by blast
  have p: "parse_resource_href demo_href = Inr (''routes'', ''1'')"
    by (simp add: parse_resource_href_def demo_href_def Let_def trim_start_char_def)
  have "resolve_route_points (demo_env\<lparr>ce_get := (\<lambda>_ _. Inr None)\<rparr>) (ar_href r) = Inl (Runtime (''Route not found: '' @ demo_href))"
    unfolding resolve_route_points_def c(4) p by simp
  from failed_reverse_flips_direction [OF c(1,2) this, of demo_env "[pos 1, pos 2, pos 3]"] c demo_resolve
  show ?thesis by (auto simp: Let_def in_direction_def)
qed

text \<open>A new destination leaves the old route in the store: after a successful change to a
  direct destination the manager has no active route, but the store still has whatever it had for
  the active route's reference and remaining distance.\<close>

theorem destination_leaves_old_route:
  assumes "set_destination env req cm = (Inr (), cm')"
    and "q = ''navigation.course.activeRoute.href'' \<or> q = ''navigation.course.activeRoute.distanceRemaining''"
  shows "(\<exists>c. cm_state cm' = Some c \<and> cs_active_route c = None) \<and>
         store_read (cm_store cm') q = store_read (cm_store cm) q"
proof -
  obtain pos where s: "apply_state env
      \<lparr>cs_start_time = Some (ce_now_str env), cs_target_arrival_time = None, cs_arrival_circle = inherited_circle cm,
       cs_active_route = None, cs_next_point = Some (location_point pos (dr_href req)),
       cs_previous_point = map_option vessel_point (current_vessel_position (cm_store cm))\<rparr> cm = (Inr (), cm')"
    using assms(1) by (auto simp: set_destination_def split: sum.splits)
  define c where "c = \<lparr>cs_start_time = Some (ce_now_str env), cs_target_arrival_time = None, cs_arrival_circle = inherited_circle cm,
       cs_active_route = None, cs_next_point = Some (location_point pos (dr_href req)),
       cs_previous_point = map_option vessel_point (current_vessel_position (cm_store cm))\<rparr>"
  have "q \<notin> set (map fst (emitted env s c))" for s
    using assms(2) by (auto simp: emitted_def c_def opt_field_def split: option.splits)
  from persist_emit_read_other [OF this] s show ?thesis
    unfolding c_def [symmetric]
    by (auto simp: apply_state_def c_def split: prod.splits sum.splits) (metis snd_conv)+
qed

lemma demo_route_store: "store_read (cm_store demo_route) ''navigation.course.activeRoute.href'' = Some (JStr demo_href)"
proof -
  define c where "c = \<lparr>cs_start_time = Some (ce_now_str demo_env), cs_target_arrival_time = None, cs_arrival_circle = Fin 0,
       cs_active_route = Some \<lparr>ar_href = demo_href, ar_reverse = False, ar_point_index = 0, ar_point_total = Suc (Suc (Suc 0)),
         ar_name = None, ar_waypoints = None\<rparr>, cs_next_point = Some (route_point (pos 1)),
       cs_previous_point = map_option vessel_point (current_vessel_position (store_new ''me''))\<rparr>"
  have io: "ce_io demo_env = Inr ()" by (simp add: demo_env_def)
  have m: "(''navigation.course.activeRoute.href'', JStr demo_href) \<in> set (emitted demo_env (store_new ''me'') c)"
    by (simp add: emitted_def c_def)
  have "store_accepts (ce_now demo_env) ''course-manager'' (store_new ''me'') ''navigation.course.activeRoute.href''"
    by (simp add: store_accepts_iff get_self_path_def store_new_def vessel_default_def)
  from port.read_write_accepted [OF emitted_distinct m this] have
    "store_read (cm_store (emit_deltas demo_env c (course_manager_new (store_new ''me'') f))) ''navigation.course.activeRoute.href''
       = Some (JStr demo_href)" for f
    using m by (auto simp: emit_deltas_def Let_def cm_write_def course_manager_new_def)
  then show ?thesis
    by (simp add: demo_route_def set_active_route_def demo_resolve Let_def in_direction_def apply_state_def
        persist_and_emit_def persist_state_def io inherited_circle_def course_manager_new_def c_def)
qed

theorem destination_leaves_old_route_witness:
  "let (r, cm') = set_destination demo_env \<lparr>dr_position = Some (pos 9), dr_href = None\<rparr> demo_route
   in r = Inr () \<and> map_option cs_active_route (cm_state cm') = Some None \<and>
      store_read (cm_store cm') ''navigation.course.activeRoute.href'' = Some (JStr demo_href)"
proof -
  obtain r cm' where run: "set_destination demo_env \<lparr>dr_position = Some (pos 9), dr_href = None\<rparr> demo_route = (r, cm')"
    by force
  have "ce_io demo_env = Inr ()" by (simp add: demo_env_def)
  then have r: "r = Inr ()" using run by (simp add: set_destination_def apply_state_def persist_and_emit_def persist_state_def)
  show ?thesis
    using destination_leaves_old_route [OF run [unfolded r], of "''navigation.course.activeRoute.href''"]
    by (auto simp: run r demo_route_store)
qed

text \<open>The configured arrival circle does not reach the next course: set while no course
  is active, it is kept in the configuration, but the next destination starts with a circle of
  zero, and no arrival is ever detected on it.\<close>

theorem configured_circle_is_ignored:
  assumes "cm_state cm = None" and "set_arrival_circle env radius cm = (Inr (), cm1)"
    and "set_destination env' req cm1 = (Inr (), cm2)"
  shows "cc_arrival_circle (cm_config cm2) = radius \<and>
         map_option cs_arrival_circle (cm_state cm2) = Some (Fin 0) \<and> check_arrival env'' cm2 = (False, cm2)"
proof -
  have 1: "cm_state cm1 = None" "cc_arrival_circle (cm_config cm1) = radius"
    using assms(1,2) by (auto simp: set_arrival_circle_def Let_def)
  have "cm_config (snd (set_destination env' req cm1)) = cm_config cm1"
    by (simp add: set_destination_def split: sum.split)
  moreover have "map_option cs_arrival_circle (cm_state cm2) = Some (Fin 0)"
    using assms(3) 1(1)
    by (auto simp: set_destination_def inherited_circle_def apply_state_def persist_and_emit_def persist_state_def
        split: sum.splits)
  ultimately show ?thesis
    using assms(3) 1(2) by (auto simp: check_arrival_def)
qed

theorem configured_circle_is_ignored_witness:
  "let cm1 = snd (set_arrival_circle demo_env (Fin 50) (course_manager_new (store_new ''me'') None));
       cm2 = snd (set_destination demo_env \<lparr>dr_position = Some (pos 9), dr_href = None\<rparr> cm1)
   in cc_arrival_circle (cm_config cm2) = Fin 50 \<and> map_option cs_arrival_circle (cm_state cm2) = Some (Fin 0)"
proof -
  define cm1 where "cm1 = snd (set_arrival_circle demo_env (Fin 50) (course_manager_new (store_new ''me'') None))"
  define cm2 where "cm2 = snd (set_destination demo_env \<lparr>dr_position = Some (pos 9), dr_href = None\<rparr> cm1)"
  have 0: "cm_state (course_manager_new (store_new ''me'') None) = None" by (simp add: course_manager_new_def)
  have 1: "set_arrival_circle demo_env (Fin 50) (course_manager_new (store_new ''me'') None) = (Inr (), cm1)"
    using 0 by (simp add: cm1_def set_arrival_circle_def Let_def)
  have "ce_io demo_env = Inr ()" by (simp add: demo_env_def)
  then have 2: "set_destination demo_env \<lparr>dr_position = Some (pos 9), dr_href = None\<rparr> cm1 = (Inr (), cm2)"
    by (simp add: cm2_def set_destination_def apply_state_def persist_and_emit_def persist_state_def)
  show ?thesis
    using configured_circle_is_ignored [OF 0 1 2] by (simp add: Let_def flip: cm1_def cm2_def)
qed

section \<open>NMEA and the API\<close>

lemma source_of:
  "cm_source (snd (set_destination env req cm)) = cm_source cm \<or> cm_source (snd (set_destination env req cm)) = Api"
  "cm_source (snd (set_active_route env rreq cm)) = cm_source cm \<or> cm_source (snd (set_active_route env rreq cm)) = Api"
  by (auto simp: set_destination_def set_active_route_def Let_def split: sum.split)

lemma with_route_keeps:
  "(\<And>c r. cm_source (snd (f c r)) = cm_source cm \<and> cm_config (snd (f c r)) = cm_config cm) \<Longrightarrow>
   cm_source (snd (with_route cm f)) = cm_source cm \<and> cm_config (snd (with_route cm f)) = cm_config cm"
  by (simp add: with_route_def with_course_def split: option.split)

lemma route_ops_keep:
  "cm_source (snd (advance_next_point env n cm)) = cm_source cm \<and> cm_config (snd (advance_next_point env n cm)) = cm_config cm"
  "cm_source (snd (set_point_index env i cm)) = cm_source cm \<and> cm_config (snd (set_point_index env i cm)) = cm_config cm"
  "cm_source (snd (reverse_route env cm)) = cm_source cm \<and> cm_config (snd (reverse_route env cm)) = cm_config cm"
  unfolding advance_next_point_def set_point_index_def reverse_route_def
  by (intro with_route_keeps; simp add: go_to_point_def Let_def split: sum.split)+

lemma dest_keeps:
  "cm_config (snd (set_destination env req cm)) = cm_config cm"
  "cm_config (snd (set_active_route env rreq cm)) = cm_config cm"
  by (simp_all add: set_destination_def set_active_route_def Let_def split: sum.split)

lemma check_keeps:
  "cm_source (snd (check_arrival env cm)) = cm_source cm \<and> cm_config (snd (check_arrival env cm)) = cm_config cm"
  by (simp add: check_arrival_def route_ops_keep emit_arrival_notification_def split: option.split)

lemma nmea_delta_api_only: "cc_api_only (cm_config cm) \<Longrightarrow> nmea_delta env d cm = cm"
proof -
  assume a: "cc_api_only (cm_config cm)"
  have v: "nmea_value env pv cm = cm" for pv
    using a by (simp add: nmea_value_def apply_nmea_position_def split: option.split)
  have "fold (nmea_value env) pvs cm = cm" for pvs by (induction pvs) (simp_all add: v)
  then have "fold (\<lambda>u cm. if s_label (u_source u) = ''course-manager'' then cm
      else fold (nmea_value env) (u_values u) cm) us cm = cm" for us
    by (induction us) simp_all
  then show ?thesis by (simp add: nmea_delta_def)
qed

lemma nmea_delta_config: "cm_config (nmea_delta env d cm) = cm_config cm"
proof -
  have v: "cm_config (fold (nmea_value env) pvs cm) = cm_config cm" for pvs cm
    by (induction pvs arbitrary: cm) (simp_all add: nmea_value_def split: option.split)
  have "cm_config (fold (\<lambda>u cm. if s_label (u_source u) = ''course-manager'' then cm
      else fold (nmea_value env) (u_values u) cm) us cm) = cm_config cm" for us cm
    by (induction us arbitrary: cm) (simp_all add: v)
  then show ?thesis by (simp add: nmea_delta_def)
qed

text \<open>The API-only mode keeps NMEA out: after any sequence of events, while the mode is on
  the course is not NMEA's, and no delta changes anything about the manager.\<close>

theorem api_only_keeps_nmea_out:
  assumes "course_reach get cm" and "cc_api_only (cm_config cm)"
  shows "cm_source cm = Api \<and> nmea_delta env d cm = cm"
proof -
  have "cc_api_only (cm_config cm) \<longrightarrow> cm_source cm = Api"
    using assms(1)
  proof (induction rule: course_reach.induct)
    case (start s x)
    then show ?case by (simp add: course_manager_new_def course_config_default_def)
  next
    case (destination cm env' req)
    then show ?case using source_of(1) [of env' req cm] by (auto simp: dest_keeps)
  next
    case (route cm env' rreq)
    then show ?case using source_of(2) [of env' rreq cm] by (auto simp: dest_keeps)
  next
    case (nmea cm env' d')
    then show ?case using nmea_delta_api_only [of cm env' d'] nmea_delta_config [of env' d' cm] by auto
  next
    case (api_on cm env')
    show ?case by (simp add: enable_api_only_def Let_def) (metis course_source.exhaust)
  next
    case (api_off cm)
    show ?case by (simp add: disable_api_only_def)
  qed (simp_all add: route_ops_keep check_keeps set_target_arrival_time_def with_course_def set_arrival_circle_def
       Let_def split: option.split)
  then show ?thesis using assms(2) by (simp add: nmea_delta_api_only)
qed

theorem api_only_keeps_nmea_out_witness:
  "let cm = enable_api_only demo_env (course_manager_new (store_new ''me'') None);
       d = self_vessel [update_new 0 (source_nmea0183 ''tty'' ''GP'')
             [path_value_new ''navigation.courseRhumbline.nextPoint.position'' (position_to_json (pos 4))]]
   in cm_state (nmea_delta demo_env d cm) = None"
proof -
  let ?cm = "enable_api_only demo_env (course_manager_new (store_new ''me'') None)"
  have r: "course_reach (ce_get demo_env) ?cm" by (intro course_reach.intros refl)
  have a: "cc_api_only (cm_config ?cm)" and s: "cm_state ?cm = None"
    by (simp_all add: enable_api_only_def course_manager_new_def Let_def)
  show ?thesis using api_only_keeps_nmea_out [OF r a] s by (simp add: Let_def)
qed

section \<open>Persistence\<close>

text \<open>What serde can write: finite floats, and indices that fit 64 bits.\<close>

definition position_ok :: "position \<Rightarrow> bool" where
  "position_ok p \<longleftrightarrow> is_finite (p_latitude p) \<and> is_finite (p_longitude p) \<and>
     (case p_altitude p of None \<Rightarrow> True | Some a \<Rightarrow> is_finite a)"

definition point_ok :: "course_point option \<Rightarrow> bool" where
  "point_ok cp \<longleftrightarrow> (case cp of None \<Rightarrow> True | Some p \<Rightarrow> position_ok (cp_position p))"

definition route_ok :: "active_route option \<Rightarrow> bool" where
  "route_ok ar \<longleftrightarrow> (case ar of None \<Rightarrow> True | Some r \<Rightarrow>
     ar_point_index r < 2 ^ 64 \<and> ar_point_total r < 2 ^ 64 \<and>
     (case ar_waypoints r of None \<Rightarrow> True | Some ws \<Rightarrow> list_all position_ok ws))"

definition course_ok :: "course_state \<Rightarrow> bool" where
  "course_ok c \<longleftrightarrow> is_finite (cs_arrival_circle c) \<and> route_ok (cs_active_route c) \<and>
     point_ok (cs_next_point c) \<and> point_ok (cs_previous_point c)"

lemma not_JNull [simp]:
  "position_to_json p \<noteq> JNull" "course_point_to_json cp \<noteq> JNull" "active_route_to_json r \<noteq> JNull"
  by (simp_all add: position_to_json_def course_point_to_json_def active_route_to_json_def json_obj_def)

lemma decode_opt_null_str: "decode_opt as_str (Some (null_or JStr x)) = Some x"
  by (cases x) (simp_all add: null_or_def)

lemma position_roundtrip: "position_ok p \<Longrightarrow> position_of_json (position_to_json p) = Some p"
proof -
  assume ok: "position_ok p"
  have "decode_opt as_f64 (map_option json_f64 (p_altitude p)) = Some (p_altitude p)"
    using ok by (intro decode_opt_ok) (auto simp: position_ok_def as_f64_json_f64 json_f64_def)
  then show ?thesis
    using ok by (simp add: position_of_json_def position_to_json_def struct_json_obj opt_field_lookup
        position_ok_def as_f64_json_f64 del: map_of_append)
qed

lemma point_type_roundtrip [simp]: "point_type_of_json (JStr (point_type_str t)) = Some t"
  by (cases t) (simp_all add: point_type_of_json_def)

lemma course_point_roundtrip:
  "position_ok (cp_position cp) \<Longrightarrow> course_point_of_json (course_point_to_json cp) = Some cp"
  by (simp add: course_point_of_json_def course_point_to_json_def struct_json_obj opt_field_lookup
      position_roundtrip del: map_of_append)

lemma as_usize_json_nat: "n < 2 ^ 64 \<Longrightarrow> as_usize (json_nat n) = Some n"
  by (simp add: as_usize_def json_nat_def as_u64_def unat_of_nat)

lemma active_route_roundtrip: "route_ok (Some r) \<Longrightarrow> active_route_of_json (active_route_to_json r) = Some r"
proof -
  assume ok: "route_ok (Some r)"
  have "decode_opt (decode_vec position_of_json) (map_option (\<lambda>ws. JArr (map position_to_json ws)) (ar_waypoints r))
      = Some (ar_waypoints r)"
    using ok by (intro decode_opt_ok)
      (auto simp: route_ok_def decode_vec_def list_all_iff position_roundtrip intro: decode_list_map)
  then show ?thesis
    using ok by (simp add: active_route_of_json_def active_route_to_json_def struct_json_obj opt_field_lookup
        route_ok_def decode_default_def as_usize_json_nat del: map_of_append)
qed

lemma course_roundtrip: "course_ok c \<Longrightarrow> course_state_of_json (course_state_to_json c) = Some c"
proof -
  assume ok: "course_ok c"
  have "decode_opt active_route_of_json (Some (null_or active_route_to_json (cs_active_route c))) = Some (cs_active_route c)"
    using ok by (cases "cs_active_route c") (simp_all add: null_or_def course_ok_def active_route_roundtrip)
  moreover have "decode_opt course_point_of_json (map_option course_point_to_json (cs_next_point c)) = Some (cs_next_point c)"
    using ok by (intro decode_opt_ok) (simp add: course_ok_def point_ok_def course_point_roundtrip)
  moreover have "decode_opt course_point_of_json (map_option course_point_to_json (cs_previous_point c)) = Some (cs_previous_point c)"
    using ok by (intro decode_opt_ok) (simp add: course_ok_def point_ok_def course_point_roundtrip)
  ultimately show ?thesis
    using ok by (simp add: course_state_of_json_def course_state_to_json_def struct_json_obj opt_field_lookup
        decode_opt_null_str decode_default_def course_ok_def as_f64_json_f64 del: map_of_append)
qed



end
