(* ===== verification/Pilot.thy ===== *)
theory Pilot
  imports Libm Types
begin

text \<open>
  The autopilot's control algorithms (\<^verbatim>\<open>plugins/autopilot/src/pd.rs\<close>), its filters
  (\<^verbatim>\<open>filter.rs\<close>), its runtime state (\<^verbatim>\<open>state.rs\<close>) and the requests
  it answers (\<^verbatim>\<open>provider.rs\<close>), in the build without the experimental feature. A
  loop that may not end and a panic are both the value \<open>None\<close>. The mathematical
  library (\<open>sin\<close>, \<open>cos\<close>, \<open>atan2\<close>, \<open>powf\<close>) is an argument.
\<close>

type_synonym u32 = "32 word"

section \<open>Angles\<close>

partial_function (option) wrap_down :: "f64 \<Rightarrow> f64 option" where
  "wrap_down x = (if f_lt PI x then wrap_down (f_sub x TWO_PI) else Some x)"

partial_function (option) wrap_up :: "f64 \<Rightarrow> f64 option" where
  "wrap_up x = (if f_lt x (f_neg PI) then wrap_up (f_add x TWO_PI) else Some x)"

definition normalize_angle :: "f64 \<Rightarrow> f64 option" where
  "normalize_angle a = Option.bind (wrap_down a) wrap_up"

section \<open>The PID controller\<close>

record pid_config =
  pc_gain_p :: f64
  pc_gain_i :: f64
  pc_gain_d :: f64
  pc_dead_zone_rad :: f64
  pc_max_rudder_rad :: f64

record pid_controller =
  pid_integral :: f64
  pid_integral_limit :: f64

definition pid_new :: "f64 \<Rightarrow> pid_controller" where
  "pid_new limit = \<lparr>pid_integral = Fin 0, pid_integral_limit = limit\<rparr>"

definition pid_reset :: "pid_controller \<Rightarrow> pid_controller" where
  "pid_reset c = c\<lparr>pid_integral := Fin 0\<rparr>"

definition pid_integrate :: "pid_controller \<Rightarrow> f64 \<Rightarrow> f64 \<Rightarrow> pid_controller option" where
  "pid_integrate c err dt =
     map_option (\<lambda>i. c\<lparr>pid_integral := i\<rparr>)
       (f_clamp (f_add (pid_integral c) (f_mul err dt)) (f_neg (pid_integral_limit c)) (pid_integral_limit c))"

definition pid_compute :: "f64 \<Rightarrow> f64 \<Rightarrow> f64 \<Rightarrow> pid_config \<Rightarrow> pid_controller \<Rightarrow> (f64 \<times> pid_controller) option" where
  "pid_compute err d_err dt cfg c =
     (if \<not> is_finite err \<or> \<not> is_finite d_err \<or> \<not> is_finite dt \<or> f_le dt (Fin 0) then Some (Fin 0, c)
      else if f_lt (f_abs err) (pc_dead_zone_rad cfg)
      then Some (Fin 0, c\<lparr>pid_integral := f_mul (pid_integral c) (lit (95 / 100))\<rparr>)
      else
        (let pd_output = f_add (f_mul (pc_gain_p cfg) err) (f_mul (pc_gain_d cfg) d_err);
             prospective = f_add pd_output (f_mul (pc_gain_i cfg) (pid_integral c))
         in Option.bind
              (if f_lt (f_abs prospective) (pc_max_rudder_rad cfg) \<or>
                  \<not> f_eq (f_signum err) (f_signum (pid_integral c))
               then pid_integrate c err dt else Some c)
              (\<lambda>c'. let output = f_add (f_add (f_mul (pc_gain_p cfg) err) (f_mul (pc_gain_i cfg) (pid_integral c')))
                                     (f_mul (pc_gain_d cfg) d_err)
                    in map_option (\<lambda>out. (out, c'))
                         (f_clamp output (f_neg (pc_max_rudder_rad cfg)) (pc_max_rudder_rad cfg)))))"

definition scale_gains :: "pid_config \<Rightarrow> f64 \<Rightarrow> f64 \<Rightarrow> pid_config option" where
  "scale_gains cfg speed nominal =
     (if f_le nominal (Fin 0) \<or> \<not> is_finite speed \<or> f_le speed (Fin 0) then Some cfg
      else map_option (\<lambda>ratio. cfg\<lparr>pc_gain_p := f_mul (pc_gain_p cfg) ratio,
                                  pc_gain_i := f_mul (pc_gain_i cfg) ratio,
                                  pc_gain_d := f_div (pc_gain_d cfg) ratio\<rparr>)
             (f_clamp (f_div speed nominal) (lit (3 / 10)) (Fin 3)))"

section \<open>Recovery mode\<close>

record recovery_state =
  rs_active :: bool
  rs_ticks_remaining :: u32

definition recovery_new :: recovery_state where
  "recovery_new = \<lparr>rs_active = False, rs_ticks_remaining = 0\<rparr>"

definition saturating_pred :: "u32 \<Rightarrow> u32" where
  "saturating_pred n = (if n = 0 then 0 else n - 1)"

definition recovery_update :: "f64 \<Rightarrow> f64 \<Rightarrow> u32 \<Rightarrow> recovery_state \<Rightarrow> bool \<times> recovery_state" where
  "recovery_update err threshold max_ticks r =
     (if f_le threshold (Fin 0) then (False, r)
      else
        (let r1 = (if \<not> rs_active r \<and> f_lt threshold (f_abs err)
                   then r\<lparr>rs_active := True, rs_ticks_remaining := max_ticks\<rparr> else r);
             r2 = (if rs_active r1
                   then (let t = saturating_pred (rs_ticks_remaining r1)
                         in if t = 0 \<or> f_lt (f_abs err) (f_mul threshold (lit (3 / 10)))
                            then r1\<lparr>rs_active := False, rs_ticks_remaining := t\<rparr>
                            else r1\<lparr>rs_ticks_remaining := t\<rparr>)
                   else r1)
         in (rs_active r2, r2)))"

definition recovery_reset :: "recovery_state \<Rightarrow> recovery_state" where
  "recovery_reset r = r\<lparr>rs_active := False, rs_ticks_remaining := 0\<rparr>"

definition recovery_apply :: "recovery_state \<Rightarrow> pid_config \<Rightarrow> f64 \<Rightarrow> pid_config" where
  "recovery_apply r cfg factor =
     (if \<not> rs_active r then cfg
      else cfg\<lparr>pc_gain_p := f_mul (pc_gain_p cfg) factor, pc_gain_i := Fin 0,
               pc_gain_d := f_mul (pc_gain_d cfg) factor\<rparr>)"

section \<open>Rudder feedback\<close>

text \<open>The counters wrap, as in a release build.\<close>

record rudder_monitor =
  rm_mismatch_ticks :: u32
  rm_alarm_active :: bool

definition monitor_new :: rudder_monitor where
  "monitor_new = \<lparr>rm_mismatch_ticks = 0, rm_alarm_active = False\<rparr>"

definition monitor_update :: "f64 \<Rightarrow> f64 option \<Rightarrow> f64 \<Rightarrow> u32 \<Rightarrow> rudder_monitor \<Rightarrow> bool option \<times> rudder_monitor" where
  "monitor_update commanded actual threshold timeout m =
     (if f_le threshold (Fin 0) then (None, m)
      else (case actual of
              None \<Rightarrow> (None, m)
            | Some act \<Rightarrow>
                if f_lt threshold (f_abs (f_sub commanded act))
                then (let m1 = m\<lparr>rm_mismatch_ticks := rm_mismatch_ticks m + 1\<rparr>
                      in if timeout \<le> rm_mismatch_ticks m1 \<and> \<not> rm_alarm_active m1
                         then (Some True, m1\<lparr>rm_alarm_active := True\<rparr>) else (None, m1))
                else (let m1 = m\<lparr>rm_mismatch_ticks := 0\<rparr>
                      in if rm_alarm_active m1 then (Some False, m1\<lparr>rm_alarm_active := False\<rparr>) else (None, m1))))"

definition monitor_reset :: "rudder_monitor \<Rightarrow> rudder_monitor" where
  "monitor_reset m = m\<lparr>rm_mismatch_ticks := 0, rm_alarm_active := False\<rparr>"

section \<open>Plausibility of the heading\<close>

datatype plausibility_result = Plausible f64 | Glitch f64 | SensorFailure

record heading_plausibility =
  hp_prev_value :: "f64 option"
  hp_glitch_count :: u32
  hp_max_glitches :: u32

definition plausibility_new :: "u32 \<Rightarrow> heading_plausibility" where
  "plausibility_new n = \<lparr>hp_prev_value = None, hp_glitch_count = 0, hp_max_glitches = n\<rparr>"

definition plausibility_check :: "f64 \<Rightarrow> f64 \<Rightarrow> f64 \<Rightarrow> heading_plausibility
    \<Rightarrow> (plausibility_result \<times> heading_plausibility) option" where
  "plausibility_check value max_rate dt h =
     (case hp_prev_value h of
        None \<Rightarrow> Some (Plausible value, h\<lparr>hp_prev_value := Some value, hp_glitch_count := 0\<rparr>)
      | Some prev \<Rightarrow>
          Option.bind (normalize_angle (f_sub value prev)) (\<lambda>diff.
            if f_le (f_abs diff) (f_mul max_rate (f_max dt (Fin 0)))
            then Some (Plausible value, h\<lparr>hp_prev_value := Some value, hp_glitch_count := 0\<rparr>)
            else (let h1 = h\<lparr>hp_glitch_count := hp_glitch_count h + 1\<rparr>
                  in if hp_max_glitches h1 \<le> hp_glitch_count h1 then Some (SensorFailure, h1)
                     else Some (Glitch prev, h1))))"

definition plausibility_reset :: "heading_plausibility \<Rightarrow> heading_plausibility" where
  "plausibility_reset h = h\<lparr>hp_prev_value := None, hp_glitch_count := 0\<rparr>"

section \<open>Sensor quality and rate limits\<close>

definition sensor_quality :: "(f64 \<Rightarrow> f64 \<Rightarrow> f64) \<Rightarrow> f64 \<Rightarrow> f64 \<Rightarrow> f64 option" where
  "sensor_quality powf age half_life =
     (if \<not> is_finite age \<or> \<not> is_finite half_life then Some (Fin 0)
      else if f_le half_life (Fin 0) then Some (Fin 1)
      else if f_lt age (Fin 0) then Some (Fin 1)
      else f_clamp (powf (Fin 2) (f_div (f_neg age) half_life)) (Fin 0) (Fin 1))"

definition validate_yaw_rate :: "f64 option \<Rightarrow> f64 \<Rightarrow> f64 option" where
  "validate_yaw_rate rate max_rate =
     Option.bind rate (\<lambda>r. if \<not> is_finite r \<or> f_lt max_rate (f_abs r) then None else Some r)"

definition rate_limit :: "f64 \<Rightarrow> f64 \<Rightarrow> f64 \<Rightarrow> f64 \<Rightarrow> f64 option" where
  "rate_limit current target max_rate dt =
     (if f_le max_rate (Fin 0) \<or> \<not> is_finite dt \<or> f_le dt (Fin 0) then Some target
      else (let max_delta = f_mul max_rate dt
            in map_option (f_add current) (f_clamp (f_sub target current) (f_neg max_delta) max_delta)))"

section \<open>Filters\<close>

record low_pass =
  lp_value :: "f64 option"
  lp_alpha :: f64

definition low_pass_new :: "f64 \<Rightarrow> low_pass option" where
  "low_pass_new alpha =
     (if f_lt (Fin 0) alpha \<and> f_le alpha (Fin 1) then Some \<lparr>lp_value = None, lp_alpha = alpha\<rparr> else None)"

definition low_pass_update :: "f64 \<Rightarrow> low_pass \<Rightarrow> f64 \<times> low_pass" where
  "low_pass_update x f =
     (let out = (case lp_value f of
                   Some prev \<Rightarrow> f_add prev (f_mul (lp_alpha f) (f_sub x prev)) | None \<Rightarrow> x)
      in (out, f\<lparr>lp_value := Some out\<rparr>))"

definition low_pass_reset :: "low_pass \<Rightarrow> low_pass" where
  "low_pass_reset f = f\<lparr>lp_value := None\<rparr>"

record circular_filter =
  cf_sin :: low_pass
  cf_cos :: low_pass

definition circular_new :: "f64 \<Rightarrow> circular_filter option" where
  "circular_new alpha = map_option (\<lambda>f. \<lparr>cf_sin = f, cf_cos = f\<rparr>) (low_pass_new alpha)"

definition circular_update :: "libm \<Rightarrow> f64 \<Rightarrow> circular_filter \<Rightarrow> f64 \<times> circular_filter" where
  "circular_update m x f =
     (let (s, fs) = low_pass_update (m_sin m x) (cf_sin f);
          (c, fc) = low_pass_update (m_cos m x) (cf_cos f)
      in (m_atan2 m s c, \<lparr>cf_sin = fs, cf_cos = fc\<rparr>))"

definition circular_reset :: "circular_filter \<Rightarrow> circular_filter" where
  "circular_reset f = \<lparr>cf_sin = low_pass_reset (cf_sin f), cf_cos = low_pass_reset (cf_cos f)\<rparr>"

definition circular_get :: "libm \<Rightarrow> circular_filter \<Rightarrow> f64 option" where
  "circular_get m f = (case (lp_value (cf_sin f), lp_value (cf_cos f)) of
     (Some s, Some c) \<Rightarrow> Some (m_atan2 m s c) | _ \<Rightarrow> None)"

record rate_detector =
  rd_prev_value :: "f64 option"
  rd_output_filter :: low_pass

definition rate_detector_new :: "f64 \<Rightarrow> rate_detector option" where
  "rate_detector_new alpha = map_option (\<lambda>f. \<lparr>rd_prev_value = None, rd_output_filter = f\<rparr>) (low_pass_new alpha)"

definition rate_detector_update :: "f64 \<Rightarrow> f64 \<Rightarrow> rate_detector \<Rightarrow> f64 \<times> rate_detector" where
  "rate_detector_update value dt d =
     (let rate = (case rd_prev_value d of
                    Some prev \<Rightarrow> if f_lt (Fin 0) dt then f_div (f_sub value prev) dt else Fin 0
                  | None \<Rightarrow> Fin 0);
          (out, f) = low_pass_update rate (rd_output_filter d)
      in (out, \<lparr>rd_prev_value = Some value, rd_output_filter = f\<rparr>))"

definition rate_detector_reset :: "rate_detector \<Rightarrow> rate_detector" where
  "rate_detector_reset d = \<lparr>rd_prev_value = None, rd_output_filter = low_pass_reset (rd_output_filter d)\<rparr>"

section \<open>Runtime state\<close>

datatype autopilot_mode = Compass | Wind | Route

fun mode_str :: "autopilot_mode \<Rightarrow> string" where
  "mode_str Compass = ''compass''"
| "mode_str Wind = ''wind''"
| "mode_str Route = ''route''"

fun sensor_path :: "autopilot_mode \<Rightarrow> string" where
  "sensor_path Compass = ''navigation.headingMagnetic''"
| "sensor_path Wind = ''environment.wind.angleApparent''"
| "sensor_path Route = ''navigation.course.calcValues.bearingTrackTrue''"

fun target_path :: "autopilot_mode \<Rightarrow> string" where
  "target_path Compass = ''steering.autopilot.target.headingMagnetic''"
| "target_path Wind = ''steering.autopilot.target.windAngleApparent''"
| "target_path Route = ''steering.autopilot.target.headingTrue''"

definition mode_parse :: "string \<Rightarrow> autopilot_mode option" where
  "mode_parse s =
     (if s = ''compass'' then Some Compass else if s = ''wind'' then Some Wind
      else if s = ''route'' then Some Route else None)"

record autopilot_state =
  ap_enabled :: bool
  ap_mode :: autopilot_mode
  ap_target_rad :: "f64 option"
  ap_dodge_offset_rad :: "f64 option"
  ap_last_rudder_rad :: f64
  ap_last_error_rad :: f64
  ap_last_tick_at :: "int option"
  ap_sensor_last_seen :: "string \<Rightarrow> int option"
  ap_sensor_values :: "string \<Rightarrow> f64 option"
  ap_actual_rudder_rad :: "f64 option"
  ap_actual_rudder_last_seen :: "int option"

definition autopilot_state_new :: "autopilot_mode \<Rightarrow> autopilot_state" where
  "autopilot_state_new mode =
     \<lparr>ap_enabled = False, ap_mode = mode, ap_target_rad = None, ap_dodge_offset_rad = None,
      ap_last_rudder_rad = Fin 0, ap_last_error_rad = Fin 0, ap_last_tick_at = None,
      ap_sensor_last_seen = Map.empty, ap_sensor_values = Map.empty, ap_actual_rudder_rad = None,
      ap_actual_rudder_last_seen = None\<rparr>"

definition update_sensor :: "int \<Rightarrow> string \<Rightarrow> f64 \<Rightarrow> autopilot_state \<Rightarrow> autopilot_state" where
  "update_sensor now path v st =
     st\<lparr>ap_sensor_values := (ap_sensor_values st)(path \<mapsto> v),
        ap_sensor_last_seen := (ap_sensor_last_seen st)(path \<mapsto> now)\<rparr>"

definition current_sensor :: "autopilot_state \<Rightarrow> f64 option" where
  "current_sensor st = ap_sensor_values st (sensor_path (ap_mode st))"

text \<open>An instant is a count of nanoseconds; \<^verbatim>\<open>elapsed\<close> is never negative.\<close>

definition sensor_timed_out :: "int \<Rightarrow> u64 \<Rightarrow> autopilot_state \<Rightarrow> bool" where
  "sensor_timed_out now timeout st =
     (case ap_sensor_last_seen st (sensor_path (ap_mode st)) of
        Some prev \<Rightarrow> int (unat timeout) < max 0 (now - prev) div 1000000000
      | None \<Rightarrow> True)"

section \<open>Requests\<close>

datatype tack_direction = Port | Starboard

record autopilot_action =
  aa_id :: string
  aa_name :: string
  aa_available :: bool

definition build_actions :: "autopilot_state \<Rightarrow> bool \<Rightarrow> bool \<Rightarrow> autopilot_action list" where
  "build_actions st has_course has_route =
     [\<lparr>aa_id = ''dodge'', aa_name = ''Dodge'', aa_available = ap_enabled st\<rparr>,
      \<lparr>aa_id = ''tack'', aa_name = ''Tack'', aa_available = ap_enabled st \<and> ap_mode st = Wind\<rparr>,
      \<lparr>aa_id = ''gybe'', aa_name = ''Gybe'', aa_available = ap_enabled st \<and> ap_mode st = Wind\<rparr>,
      \<lparr>aa_id = ''courseCurrentPoint'', aa_name = ''Course Current Point'', aa_available = has_course\<rparr>,
      \<lparr>aa_id = ''courseNextPoint'', aa_name = ''Course Next Point'', aa_available = has_route\<rparr>]"

record autopilot_data =
  ad_state :: string
  ad_mode :: string
  ad_target :: "f64 option"
  ad_engaged :: bool
  ad_option_states :: "string list"
  ad_option_modes :: "string list"
  ad_option_actions :: "autopilot_action list"

definition enabled_str :: "bool \<Rightarrow> string" where
  "enabled_str b = (if b then ''enabled'' else ''disabled'')"

definition pilot_data :: "(string \<Rightarrow> json option) \<Rightarrow> autopilot_state \<Rightarrow> autopilot_data" where
  "pilot_data store st =
     \<lparr>ad_state = enabled_str (ap_enabled st), ad_mode = mode_str (ap_mode st), ad_target = ap_target_rad st,
      ad_engaged = ap_enabled st, ad_option_states = [''enabled'', ''disabled''],
      ad_option_modes = [''compass'', ''wind'', ''route''],
      ad_option_actions = build_actions st (store ''navigation.course.nextPoint.position'' \<noteq> None)
                            (store ''navigation.course.activeRoute.href'' \<noteq> None)\<rparr>"

definition pilot_set_state :: "string \<Rightarrow> autopilot_state \<Rightarrow> unit plugin_result \<times> autopilot_state" where
  "pilot_set_state s st =
     (if s = ''enabled'' then (Inr (), st\<lparr>ap_enabled := True\<rparr>)
      else if s = ''disabled'' then (Inr (), st\<lparr>ap_enabled := False, ap_last_tick_at := None\<rparr>)
      else (Inl (Runtime (''unknown autopilot state: '' @ s)), st))"

definition pilot_set_mode :: "string \<Rightarrow> autopilot_state \<Rightarrow> unit plugin_result \<times> autopilot_state" where
  "pilot_set_mode s st =
     (case mode_parse s of
        None \<Rightarrow> (Inl (NotFound (''unknown autopilot mode: '' @ s)), st)
      | Some m \<Rightarrow> (Inr (), st\<lparr>ap_mode := m, ap_last_error_rad := Fin 0, ap_last_tick_at := None\<rparr>))"

definition pilot_set_target :: "f64 \<Rightarrow> autopilot_state \<Rightarrow> unit plugin_result \<times> autopilot_state" where
  "pilot_set_target v st = (Inr (), st\<lparr>ap_target_rad := Some v\<rparr>)"

definition pilot_adjust_target :: "f64 \<Rightarrow> autopilot_state \<Rightarrow> (unit plugin_result \<times> autopilot_state) option" where
  "pilot_adjust_target d st =
     map_option (\<lambda>t. (Inr (), st\<lparr>ap_target_rad := Some t\<rparr>))
       (normalize_angle (f_add (unwrap_or (ap_target_rad st) (Fin 0)) d))"

definition pilot_engage :: "autopilot_state \<Rightarrow> autopilot_state" where
  "pilot_engage st = st\<lparr>ap_enabled := True\<rparr>"

definition pilot_disengage :: "autopilot_state \<Rightarrow> autopilot_state" where
  "pilot_disengage st = st\<lparr>ap_enabled := False, ap_last_tick_at := None\<rparr>"

definition turned_target :: "tack_direction \<Rightarrow> f64 \<Rightarrow> f64" where
  "turned_target dir current =
     (let magnitude = f_max (f_abs current) (lit (1 / 10))
      in case dir of Port \<Rightarrow> f_neg magnitude | Starboard \<Rightarrow> magnitude)"

definition pilot_turn :: "string \<Rightarrow> tack_direction \<Rightarrow> autopilot_state \<Rightarrow> unit plugin_result \<times> autopilot_state" where
  "pilot_turn what dir st =
     (if ap_mode st \<noteq> Wind then (Inl (BadRequest (what @ '' requires wind mode'')), st)
      else (let current = unwrap_or (ap_target_rad st) (Fin 0);
                new_target = turned_target dir current
            in if f_lt (f_abs (f_sub new_target current)) (lit (1 / 100))
               then (Inl (Runtime (''already on that '' @ what)), st)
               else (Inr (), st\<lparr>ap_target_rad := Some new_target, ap_last_error_rad := Fin 0\<rparr>)))"

definition pilot_tack :: "tack_direction \<Rightarrow> autopilot_state \<Rightarrow> unit plugin_result \<times> autopilot_state" where
  "pilot_tack = pilot_turn ''tack''"

definition pilot_gybe :: "tack_direction \<Rightarrow> autopilot_state \<Rightarrow> unit plugin_result \<times> autopilot_state" where
  "pilot_gybe = pilot_turn ''gybe''"

definition pilot_dodge :: "f64 option \<Rightarrow> autopilot_state \<Rightarrow> autopilot_state" where
  "pilot_dodge offset st = st\<lparr>ap_dodge_offset_rad := offset\<rparr>"

text \<open>The dash of the message, in UTF-8.\<close>

definition no_course_text :: string where
  "no_course_text = ''no active course '' @ [CHR 0xE2, CHR 0x80, CHR 0x94] @ '' set a destination first''"

definition course_current_point :: "json option \<Rightarrow> autopilot_state \<Rightarrow> unit plugin_result \<times> autopilot_state" where
  "course_current_point bearing st =
     (case Option.bind bearing as_f64 of
        None \<Rightarrow> (Inl (BadRequest no_course_text), st)
      | Some t \<Rightarrow> (Inr (), st\<lparr>ap_mode := Route, ap_target_rad := Some t, ap_enabled := True,
                              ap_last_error_rad := Fin 0, ap_last_tick_at := None\<rparr>))"

definition course_next_point :: "autopilot_state \<Rightarrow> unit plugin_result \<times> autopilot_state" where
  "course_next_point st =
     (Inr (), (if ap_mode st \<noteq> Route
               then st\<lparr>ap_mode := Route, ap_last_error_rad := Fin 0, ap_last_tick_at := None\<rparr>
               else st)\<lparr>ap_enabled := True\<rparr>)"

end
