(* ===== verification/PilotLoop.thy ===== *)
theory PilotLoop
  imports Pilot Notifications "HOL-Library.Monad_Syntax"
begin

text \<open>
  The autopilot's configuration (\<^verbatim>\<open>plugins/autopilot/src/state.rs\<close>), the control laws
  of its modes (\<^verbatim>\<open>modes/heading.rs\<close>, \<^verbatim>\<open>modes/route.rs\<close>), the sensor
  callback and one iteration of the control loop (\<^verbatim>\<open>lib.rs\<close>). An iteration reads a
  snapshot of the shared state, computes, and writes back: \<open>control_tick\<close> maps the snapshot to
  the write (\<open>tick_commit\<close>), the deltas it sends and the loop's next local state, so that
  requests can be placed between the read and the write. \<open>None\<close> is a loop of
  \<open>normalize_angle\<close> that never ends or a panic, which both end the control task.
\<close>

section \<open>Configuration\<close>

record autopilot_config =
  cfg_device_id :: string
  cfg_initial_mode :: string
  cfg_gain_p :: f64
  cfg_gain_i :: f64
  cfg_gain_d :: f64
  cfg_integral_limit :: f64
  cfg_dead_zone_rad :: f64
  cfg_max_rudder_rad :: f64
  cfg_speed_nominal_mps :: f64
  cfg_heel_gain :: f64
  cfg_max_rudder_rate :: f64
  cfg_control_rate_hz :: f64
  cfg_output_rate_hz :: f64
  cfg_sensor_timeout_secs :: u64
  cfg_recovery_threshold_rad :: f64
  cfg_recovery_max_ticks :: u32
  cfg_recovery_gain_factor :: f64
  cfg_gust_gain :: f64
  cfg_gust_threshold :: f64
  cfg_xte_gain :: f64
  cfg_route_lookahead_m :: f64
  cfg_wind_filter_alpha :: f64
  cfg_rudder_feedback_threshold_rad :: f64
  cfg_rudder_feedback_timeout_ticks :: u32
  cfg_max_heading_rate :: f64
  cfg_max_yaw_rate :: f64
  cfg_heading_glitch_max_count :: u32
  cfg_dterm_quality_half_life_secs :: f64

definition FRAC_PI_6 :: f64 where
  "FRAC_PI_6 = lit (52359877559829887307710723054658381 / 10 ^ 35)"

definition config_default :: autopilot_config where
  "config_default =
     \<lparr>cfg_device_id = ''default'', cfg_initial_mode = ''compass'', cfg_gain_p = Fin 1,
      cfg_gain_i = lit (5 / 100), cfg_gain_d = lit (3 / 10), cfg_integral_limit = lit (5 / 10),
      cfg_dead_zone_rad = lit (1745 / 100000), cfg_max_rudder_rad = FRAC_PI_6,
      cfg_speed_nominal_mps = lit (25 / 10), cfg_heel_gain = f_neg (lit (5 / 10)),
      cfg_max_rudder_rate = lit (9 / 100), cfg_control_rate_hz = Fin 10, cfg_output_rate_hz = Fin 1,
      cfg_sensor_timeout_secs = 10, cfg_recovery_threshold_rad = lit (35 / 100),
      cfg_recovery_max_ticks = 15, cfg_recovery_gain_factor = Fin 2, cfg_gust_gain = f_neg (lit (2 / 100)),
      cfg_gust_threshold = Fin 3, cfg_xte_gain = lit (1 / 100), cfg_route_lookahead_m = Fin 100,
      cfg_wind_filter_alpha = lit (15 / 100), cfg_rudder_feedback_threshold_rad = lit (87 / 1000),
      cfg_rudder_feedback_timeout_ticks = 30, cfg_max_heading_rate = lit (15 / 10),
      cfg_max_yaw_rate = lit (8 / 10), cfg_heading_glitch_max_count = 3,
      cfg_dterm_quality_half_life_secs = lit (5 / 10)\<rparr>"

definition config_pid :: "autopilot_config \<Rightarrow> pid_config" where
  "config_pid cfg =
     \<lparr>pc_gain_p = cfg_gain_p cfg, pc_gain_i = cfg_gain_i cfg, pc_gain_d = cfg_gain_d cfg,
      pc_dead_zone_rad = cfg_dead_zone_rad cfg, pc_max_rudder_rad = cfg_max_rudder_rad cfg\<rparr>"

section \<open>Control laws\<close>

text \<open>The derivative of the error: the yaw rate, or the finite difference.\<close>

definition error_rate :: "f64 option \<Rightarrow> f64 \<Rightarrow> f64 \<Rightarrow> f64 \<Rightarrow> f64 option" where
  "error_rate yaw err prev_error dt =
     (case yaw of Some r \<Rightarrow> Some (f_neg r)
      | None \<Rightarrow> map_option (\<lambda>a. f_div a dt) (normalize_angle (f_sub err prev_error)))"

definition heading_compute :: "f64 \<Rightarrow> f64 \<Rightarrow> f64 \<Rightarrow> f64 \<Rightarrow> f64 option \<Rightarrow> pid_config \<Rightarrow> pid_controller
    \<Rightarrow> ((f64 \<times> f64) \<times> pid_controller) option" where
  "heading_compute current target prev_error dt yaw cfg pid =
     do {
       err \<leftarrow> normalize_angle (f_sub target current);
       d_err \<leftarrow> error_rate yaw err prev_error dt;
       (rudder, pid') \<leftarrow> pid_compute err d_err dt cfg pid;
       Some ((rudder, err), pid')
     }"

record route_input =
  ri_current_heading :: f64
  ri_btw :: f64
  ri_xte_m :: f64
  ri_lookahead_m :: f64
  ri_prev_error :: f64
  ri_dt :: f64
  ri_yaw_rate :: "f64 option"

definition route_compute :: "libm \<Rightarrow> route_input \<Rightarrow> pid_config \<Rightarrow> pid_controller
    \<Rightarrow> ((f64 \<times> f64) \<times> pid_controller) option" where
  "route_compute m i cfg pid =
     (let correction = m_atan m (f_div (ri_xte_m i) (f_max (ri_lookahead_m i) (Fin 1)))
      in do {
           desired \<leftarrow> normalize_angle (f_add (ri_btw i) correction);
           heading_compute (ri_current_heading i) desired (ri_prev_error i) (ri_dt i) (ri_yaw_rate i) cfg pid
         })"

section \<open>Sensor values\<close>

definition on_value :: "int \<Rightarrow> source \<Rightarrow> path_value \<Rightarrow> autopilot_state \<Rightarrow> autopilot_state" where
  "on_value now src pv st =
     (case as_f64 (pv_value pv) of
        None \<Rightarrow> st
      | Some v \<Rightarrow>
          if pv_path pv = ''steering.rudderAngle''
          then (if \<not> (s_type src = ''Plugin'' \<and> s_label src = ''autopilot'')
                then st\<lparr>ap_actual_rudder_rad := Some v, ap_actual_rudder_last_seen := Some now\<rparr>
                else st)
          else update_sensor now (pv_path pv) v st)"

definition on_sensor_delta :: "int \<Rightarrow> delta \<Rightarrow> autopilot_state \<Rightarrow> autopilot_state" where
  "on_sensor_delta now d st =
     fold (\<lambda>u. fold (on_value now (u_source u)) (u_values u)) (d_updates d) st"

section \<open>The loop's state and the snapshot\<close>

record loop_state =
  ls_pid :: pid_controller
  ls_wind :: circular_filter
  ls_recovery :: recovery_state
  ls_gust :: rate_detector
  ls_feedback :: rudder_monitor
  ls_plausibility :: heading_plausibility
  ls_prev_mode :: "autopilot_mode option"
  ls_ticks :: u64

definition loop_new :: "autopilot_config \<Rightarrow> loop_state option" where
  "loop_new cfg =
     do {
       wind \<leftarrow> circular_new (cfg_wind_filter_alpha cfg);
       gust \<leftarrow> rate_detector_new (lit (5 / 10));
       Some \<lparr>ls_pid = pid_new (cfg_integral_limit cfg), ls_wind = wind, ls_recovery = recovery_new,
             ls_gust = gust, ls_feedback = monitor_new,
             ls_plausibility = plausibility_new (cfg_heading_glitch_max_count cfg),
             ls_prev_mode = None, ls_ticks = 0\<rparr>
     }"

text \<open>A duration in nanoseconds as \<^verbatim>\<open>as_secs_f64\<close>.\<close>

definition secs_f64 :: "int \<Rightarrow> f64" where
  "secs_f64 ns = f_add (lit (of_int (ns div 1000000000))) (f_div (lit (of_int (ns mod 1000000000))) (Fin 1000000000))"

record snapshot =
  sn_enabled :: bool
  sn_mode :: autopilot_mode
  sn_target :: "f64 option"
  sn_dodge :: "f64 option"
  sn_primary_sensor :: "f64 option"
  sn_timed_out :: bool
  sn_prev_error :: f64
  sn_last_tick :: "int option"
  sn_last_rudder :: f64
  sn_heading :: "f64 option"
  sn_xte :: "f64 option"
  sn_yaw_rate :: "f64 option"
  sn_speed :: "f64 option"
  sn_heel :: "f64 option"
  sn_wind_speed :: "f64 option"
  sn_actual_rudder :: "f64 option"
  sn_heading_age_secs :: f64

definition take_snapshot :: "autopilot_config \<Rightarrow> int \<Rightarrow> autopilot_state \<Rightarrow> snapshot" where
  "take_snapshot cfg now st =
     (let v = ap_sensor_values st; seen = ap_sensor_last_seen st
      in \<lparr>sn_enabled = ap_enabled st, sn_mode = ap_mode st, sn_target = ap_target_rad st,
          sn_dodge = ap_dodge_offset_rad st, sn_primary_sensor = current_sensor st,
          sn_timed_out = sensor_timed_out now (cfg_sensor_timeout_secs cfg) st,
          sn_prev_error = ap_last_error_rad st, sn_last_tick = ap_last_tick_at st,
          sn_last_rudder = ap_last_rudder_rad st,
          sn_heading = or_else (v ''navigation.headingMagnetic'') (v ''navigation.headingTrue''),
          sn_xte = v ''navigation.crossTrackError'', sn_yaw_rate = v ''navigation.rateOfTurn'',
          sn_speed = or_else (v ''navigation.speedThroughWater'') (v ''navigation.speedOverGround''),
          sn_heel = v ''navigation.attitude.roll'', sn_wind_speed = v ''environment.wind.speedApparent'',
          sn_actual_rudder = ap_actual_rudder_rad st,
          sn_heading_age_secs =
            (case or_else (seen ''navigation.headingMagnetic'') (seen ''navigation.headingTrue'') of
               Some t \<Rightarrow> secs_f64 (max 0 (now - t)) | None \<Rightarrow> PInf)\<rparr>)"

section \<open>What an iteration writes and sends\<close>

datatype tick_commit = Keep | Stopped | Steered (st_rudder: f64) (st_error: f64) (st_at: int)

fun apply_commit :: "tick_commit \<Rightarrow> autopilot_state \<Rightarrow> autopilot_state" where
  "apply_commit Keep st = st"
| "apply_commit Stopped st = st\<lparr>ap_enabled := False, ap_last_rudder_rad := Fin 0, ap_last_tick_at := None\<rparr>"
| "apply_commit (Steered r e t) st =
     st\<lparr>ap_last_rudder_rad := r, ap_last_error_rad := e, ap_last_tick_at := Some t\<rparr>"

datatype pilot_output =
    SendState bool autopilot_mode "f64 option"
  | SendRudder f64
  | SendNotification string notification_state string
  | SetStatus string

definition rudder_delta :: "datetime \<Rightarrow> f64 \<Rightarrow> delta" where
  "rudder_delta utc r =
     self_vessel [update_new utc (source_plugin ''autopilot'') [path_value_new ''steering.rudderAngle'' (json_f64 r)]]"

definition state_delta :: "datetime \<Rightarrow> bool \<Rightarrow> autopilot_mode \<Rightarrow> f64 option \<Rightarrow> delta" where
  "state_delta utc engaged mode target =
     self_vessel [update_new utc (source_plugin ''autopilot'')
       ([path_value_new ''steering.autopilot.state'' (JStr (enabled_str engaged)),
         path_value_new ''steering.autopilot.mode'' (JStr (mode_str mode)),
         path_value_new ''steering.autopilot.engaged'' (JBool engaged)]
        @ (case target of Some t \<Rightarrow> [path_value_new (target_path mode) (json_f64 t)] | None \<Rightarrow> [])
        @ [path_value_new ''steering.autopilot.actions''
             (json_obj [(''dodge'', JBool engaged), (''tack'', JBool (engaged \<and> mode = Wind)),
                        (''gybe'', JBool (engaged \<and> mode = Wind))])])]"

definition pilot_notification :: "notification_state \<Rightarrow> string \<Rightarrow> notification" where
  "pilot_notification s msg =
     \<lparr>nt_id = None, nt_state = s, nt_method = [Visual], nt_message = msg, nt_status = None\<rparr>"

definition notification_delta :: "datetime \<Rightarrow> string \<Rightarrow> notification_state \<Rightarrow> string \<Rightarrow> delta" where
  "notification_delta utc path s msg =
     self_vessel [update_new utc (source_plugin ''autopilot'')
       [path_value_new (''notifications.'' @ path) (notification_to_json (pilot_notification s msg))]]"

text \<open>The delta of an output, handed to \<^verbatim>\<open>handle_message\<close>; a status is no delta.\<close>

fun output_delta :: "datetime \<Rightarrow> pilot_output \<Rightarrow> delta option" where
  "output_delta utc (SendState e mode target) = Some (state_delta utc e mode target)"
| "output_delta utc (SendRudder r) = Some (rudder_delta utc r)"
| "output_delta utc (SendNotification p s msg) = Some (notification_delta utc p s msg)"
| "output_delta utc (SetStatus s) = None"

section \<open>One iteration\<close>

text \<open>The output divider: \<^verbatim>\<open>round\<close> is half away from zero, the cast saturates.\<close>

fun f_round :: "f64 \<Rightarrow> f64" where
  "f_round (Fin q) =
     (let r = (if 0 \<le> q then \<lfloor>q + 1 / 2\<rfloor> else - \<lfloor>1 / 2 - q\<rfloor>)
      in if r = 0 \<and> q < 0 then NZero else Fin (of_int r))"
| "f_round x = x"

fun f_to_u64 :: "f64 \<Rightarrow> u64" where
  "f_to_u64 (Fin q) = (if q \<le> 0 then 0 else if 2 ^ 64 \<le> \<lfloor>q\<rfloor> then - 1 else of_int \<lfloor>q\<rfloor>)"
| "f_to_u64 PInf = - 1"
| "f_to_u64 _ = 0"

definition output_every_n :: "autopilot_config \<Rightarrow> u64" where
  "output_every_n cfg =
     f_to_u64 (f_max (f_round (f_div (cfg_control_rate_hz cfg)
                                     (f_max (cfg_output_rate_hz cfg) (lit (1 / 10))))) (Fin 1))"

definition is_multiple_of :: "u64 \<Rightarrow> u64 \<Rightarrow> bool" where
  "is_multiple_of n k = (if k = 0 then n = 0 else n mod k = 0)"

definition reset_for_mode :: "autopilot_mode \<Rightarrow> loop_state \<Rightarrow> loop_state" where
  "reset_for_mode mode ls =
     (if ls_prev_mode ls \<noteq> Some mode
      then ls\<lparr>ls_pid := pid_reset (ls_pid ls), ls_wind := circular_reset (ls_wind ls),
              ls_recovery := recovery_reset (ls_recovery ls), ls_gust := rate_detector_reset (ls_gust ls),
              ls_feedback := monitor_reset (ls_feedback ls),
              ls_plausibility := plausibility_reset (ls_plausibility ls), ls_prev_mode := Some mode\<rparr>
      else ls)"

definition reset_for_failure :: "loop_state \<Rightarrow> loop_state" where
  "reset_for_failure ls =
     ls\<lparr>ls_pid := pid_reset (ls_pid ls), ls_recovery := recovery_reset (ls_recovery ls),
        ls_feedback := monitor_reset (ls_feedback ls),
        ls_plausibility := plausibility_reset (ls_plausibility ls)\<rparr>"

definition tick_dt :: "autopilot_config \<Rightarrow> int \<Rightarrow> int option \<Rightarrow> f64" where
  "tick_dt cfg now prev =
     (case prev of Some t \<Rightarrow> f_max (secs_f64 (max 0 (now - t))) (lit (1 / 1000))
      | None \<Rightarrow> f_div (Fin 1) (cfg_control_rate_hz cfg))"

text \<open>The heading the loop goes on with, or the sensor failure.\<close>

datatype heading_check = Heading "f64 option" | Failed

definition check_heading :: "autopilot_config \<Rightarrow> f64 \<Rightarrow> f64 option \<Rightarrow> loop_state \<Rightarrow> (heading_check \<times> loop_state) option" where
  "check_heading cfg dt heading ls =
     (case heading of
        None \<Rightarrow> Some (Heading None, ls)
      | Some h \<Rightarrow>
          map_option (\<lambda>(r, p).
              ((case r of Plausible v \<Rightarrow> Heading (Some v) | Glitch prev \<Rightarrow> Heading (Some prev)
                | SensorFailure \<Rightarrow> Failed), ls\<lparr>ls_plausibility := p\<rparr>))
            (plausibility_check h (cfg_max_heading_rate cfg) dt (ls_plausibility ls)))"

text \<open>Gain scheduling and the weight of the derivative term.\<close>

definition scheduled_gains :: "libm \<Rightarrow> autopilot_config \<Rightarrow> snapshot \<Rightarrow> pid_config option" where
  "scheduled_gains m cfg sn =
     do {
       p \<leftarrow> (case sn_speed sn of
              Some s \<Rightarrow> scale_gains (config_pid cfg) s (cfg_speed_nominal_mps cfg) | None \<Rightarrow> Some (config_pid cfg));
       if f_lt (Fin 0) (cfg_dterm_quality_half_life_secs cfg)
       then map_option (\<lambda>q. p\<lparr>pc_gain_d := f_mul (pc_gain_d p) q\<rparr>)
              (sensor_quality (m_powf m) (sn_heading_age_secs sn) (cfg_dterm_quality_half_life_secs cfg))
       else Some p
     }"

definition update_recovery :: "autopilot_config \<Rightarrow> autopilot_mode \<Rightarrow> f64 \<Rightarrow> f64 option \<Rightarrow> f64 option
    \<Rightarrow> recovery_state \<Rightarrow> recovery_state option" where
  "update_recovery cfg mode target heading primary r =
     (case (if mode = Compass then heading else primary) of
        None \<Rightarrow> Some r
      | Some current \<Rightarrow>
          map_option (\<lambda>err. snd (recovery_update err (cfg_recovery_threshold_rad cfg) (cfg_recovery_max_ticks cfg) r))
            (normalize_angle (f_sub target current)))"

text \<open>The control law of the mode: no rudder angle without its readings.\<close>

definition mode_control :: "libm \<Rightarrow> autopilot_config \<Rightarrow> snapshot \<Rightarrow> pid_config \<Rightarrow> f64 \<Rightarrow> f64 \<Rightarrow> f64 option \<Rightarrow> f64 option
    \<Rightarrow> loop_state \<Rightarrow> ((f64 \<times> f64) option \<times> loop_state) option" where
  "mode_control m cfg sn gains target dt heading yaw ls =
     (case sn_mode sn of
        Compass \<Rightarrow>
          (case heading of
             None \<Rightarrow> Some (None, ls)
           | Some h \<Rightarrow>
               do { (out, pid) \<leftarrow> heading_compute h target (sn_prev_error sn) dt yaw gains (ls_pid ls);
                    Some (Some out, ls\<lparr>ls_pid := pid\<rparr>) })
      | Wind \<Rightarrow>
          (case sn_primary_sensor sn of
             None \<Rightarrow> Some (None, ls)
           | Some raw \<Rightarrow>
               (let (current, wind) = circular_update m raw (ls_wind ls)
                in do { err \<leftarrow> normalize_angle (f_sub target current);
                        d_err \<leftarrow> error_rate yaw err (sn_prev_error sn) dt;
                        (rudder, pid) \<leftarrow> pid_compute err d_err dt gains (ls_pid ls);
                        Some (Some (rudder, err), ls\<lparr>ls_wind := wind, ls_pid := pid\<rparr>) }))
      | Route \<Rightarrow>
          (case (heading, sn_primary_sensor sn) of
             (Some h, Some btw) \<Rightarrow>
               do { (out, pid) \<leftarrow> route_compute m
                      \<lparr>ri_current_heading = h, ri_btw = btw, ri_xte_m = unwrap_or (sn_xte sn) (Fin 0),
                       ri_lookahead_m = cfg_route_lookahead_m cfg, ri_prev_error = sn_prev_error sn,
                       ri_dt = dt, ri_yaw_rate = yaw\<rparr> gains (ls_pid ls);
                    Some (Some out, ls\<lparr>ls_pid := pid\<rparr>) }
           | _ \<Rightarrow> Some (None, ls)))"

definition heel_compensation :: "autopilot_config \<Rightarrow> f64 option \<Rightarrow> f64" where
  "heel_compensation cfg heel =
     (case heel of
        Some roll \<Rightarrow> if \<not> f_eq (cfg_heel_gain cfg) (Fin 0) then f_mul (cfg_heel_gain cfg) roll else Fin 0
      | None \<Rightarrow> Fin 0)"

definition gust_compensation :: "autopilot_config \<Rightarrow> f64 option \<Rightarrow> f64 \<Rightarrow> rate_detector \<Rightarrow> f64 \<times> rate_detector" where
  "gust_compensation cfg wind dt d =
     (case wind of
        Some ws \<Rightarrow>
          if \<not> f_eq (cfg_gust_gain cfg) (Fin 0)
          then (let (rate, d') = rate_detector_update ws dt d
                in (if f_lt (cfg_gust_threshold cfg) (f_abs rate) then f_mul (cfg_gust_gain cfg) rate else Fin 0, d'))
          else (Fin 0, d)
      | None \<Rightarrow> (Fin 0, d))"

text \<open>The feedforward terms, the rudder's limit and its rate.\<close>

definition limit_rudder :: "autopilot_config \<Rightarrow> f64 \<Rightarrow> f64 \<Rightarrow> f64 \<Rightarrow> f64 \<Rightarrow> f64 \<Rightarrow> f64 option" where
  "limit_rudder cfg dt prev raw heel gust =
     Option.bind (f_clamp (f_add (f_add raw heel) gust) (f_neg (cfg_max_rudder_rad cfg)) (cfg_max_rudder_rad cfg))
       (\<lambda>r. rate_limit prev r (cfg_max_rudder_rate cfg) dt)"

text \<open>The text of the feedback alarm formats two angles and is an argument.\<close>

definition feedback_outputs :: "(f64 \<Rightarrow> f64 \<Rightarrow> string) \<Rightarrow> f64 \<Rightarrow> f64 option \<Rightarrow> bool option \<Rightarrow> pilot_output list" where
  "feedback_outputs alarm_text rudder actual r =
     (case r of
        Some True \<Rightarrow>
          [SendNotification ''steering.autopilot.rudderFeedbackFailure'' Alarm (alarm_text rudder (unwrap_or actual (Fin 0))),
           SetStatus (''Rudder feedback failure '' @ [CHR 0xE2, CHR 0x80, CHR 0x94] @ '' check steering'')]
      | Some False \<Rightarrow>
          [SendNotification ''steering.autopilot.rudderFeedbackFailure'' Normal ''Rudder feedback restored'',
           SetStatus ''Active'']
      | None \<Rightarrow> [])"

definition timeout_outputs :: "autopilot_mode \<Rightarrow> pilot_output list" where
  "timeout_outputs mode =
     [SendRudder (Fin 0),
      SendNotification ''steering.autopilot.dataTimeout'' Alarm
        (''Autopilot sensor timeout ('' @ mode_str mode @ '' mode)''),
      SetStatus (''Sensor timeout '' @ [CHR 0xE2, CHR 0x80, CHR 0x94] @ '' disengaged'')]"

definition failure_outputs :: "pilot_output list" where
  "failure_outputs =
     [SendRudder (Fin 0),
      SendNotification ''steering.autopilot.heading'' Alarm
        (''Heading sensor glitch '' @ [CHR 0xE2, CHR 0x80, CHR 0x94] @ '' autopilot disengaged''),
      SetStatus (''Heading sensor failure '' @ [CHR 0xE2, CHR 0x80, CHR 0x94] @ '' disengaged'')]"

text \<open>The part of an iteration behind the guards: target and time step are known.\<close>

definition steer :: "libm \<Rightarrow> (f64 \<Rightarrow> f64 \<Rightarrow> string) \<Rightarrow> autopilot_config \<Rightarrow> int \<Rightarrow> snapshot \<Rightarrow> bool \<Rightarrow> f64 \<Rightarrow> f64
    \<Rightarrow> f64 option \<Rightarrow> loop_state \<Rightarrow> (tick_commit \<times> pilot_output list \<times> loop_state) option" where
  "steer m alarm_text cfg now sn emit target dt heading ls =
     (let yaw = validate_yaw_rate (sn_yaw_rate sn) (cfg_max_yaw_rate cfg)
      in do {
           gains \<leftarrow> scheduled_gains m cfg sn;
           rec \<leftarrow> update_recovery cfg (sn_mode sn) target heading (sn_primary_sensor sn) (ls_recovery ls);
           (control, ls1) \<leftarrow> mode_control m cfg sn (recovery_apply rec gains (cfg_recovery_gain_factor cfg))
                              target dt heading yaw (ls\<lparr>ls_recovery := rec\<rparr>);
           case control of
             None \<Rightarrow> Some (Keep, [], ls1)
           | Some (raw, err) \<Rightarrow>
               (let (gust, detector) = gust_compensation cfg (sn_wind_speed sn) dt (ls_gust ls1)
                in do {
                     rudder \<leftarrow> limit_rudder cfg dt (sn_last_rudder sn) raw (heel_compensation cfg (sn_heel sn)) gust;
                     let (change, monitor) = monitor_update rudder (sn_actual_rudder sn)
                           (cfg_rudder_feedback_threshold_rad cfg) (cfg_rudder_feedback_timeout_ticks cfg) (ls_feedback ls1)
                     in Some (Steered rudder err now,
                              (if emit then [SendRudder rudder] else [])
                              @ feedback_outputs alarm_text rudder (sn_actual_rudder sn) change,
                              ls1\<lparr>ls_gust := detector, ls_feedback := monitor\<rparr>)
                   })
         })"

definition engaged_tick :: "libm \<Rightarrow> (f64 \<Rightarrow> f64 \<Rightarrow> string) \<Rightarrow> autopilot_config \<Rightarrow> int \<Rightarrow> snapshot \<Rightarrow> bool \<Rightarrow> loop_state
    \<Rightarrow> (tick_commit \<times> pilot_output list \<times> loop_state) option" where
  "engaged_tick m alarm_text cfg now sn emit ls =
     (let ls1 = reset_for_mode (sn_mode sn) ls
      in if sn_timed_out sn then Some (Stopped, timeout_outputs (sn_mode sn), reset_for_failure ls1)
         else (case sn_target sn of
                 None \<Rightarrow> Some (Keep, [], ls1)
               | Some t \<Rightarrow>
                   (let target = f_add t (unwrap_or (sn_dodge sn) (Fin 0));
                        dt = tick_dt cfg now (sn_last_tick sn)
                    in do {
                         (c, ls2) \<leftarrow> check_heading cfg dt (sn_heading sn) ls1;
                         case c of
                           Failed \<Rightarrow> Some (Stopped, failure_outputs, reset_for_failure ls2)
                         | Heading h \<Rightarrow> steer m alarm_text cfg now sn emit target dt h ls2
                       })))"

definition control_tick :: "libm \<Rightarrow> (f64 \<Rightarrow> f64 \<Rightarrow> string) \<Rightarrow> autopilot_config \<Rightarrow> int \<Rightarrow> snapshot \<Rightarrow> loop_state
    \<Rightarrow> (tick_commit \<times> pilot_output list \<times> loop_state) option" where
  "control_tick m alarm_text cfg now sn ls =
     (let ls1 = ls\<lparr>ls_ticks := ls_ticks ls + 1\<rparr>;
          emit = is_multiple_of (ls_ticks ls1) (output_every_n cfg);
          status = (if emit then [SendState (sn_enabled sn) (sn_mode sn) (sn_target sn)] else [])
      in if \<not> sn_enabled sn then Some (Keep, status, ls1)
         else map_option (\<lambda>(c, outs, ls2). (c, status @ outs, ls2))
                (engaged_tick m alarm_text cfg now sn emit ls1))"

section \<open>Requests and the loop together\<close>

text \<open>
  Between the read and the write of an iteration, requests and sensor values may change the shared
  state; so may they between iterations. A request that never returns holds the state's lock and is
  no step. The log lists everything the loop sent.
\<close>

datatype pilot_request =
    SetState string
  | SetMode string
  | SetTarget f64
  | AdjustTarget f64
  | Engage
  | Disengage
  | Tack tack_direction
  | Gybe tack_direction
  | Dodge "f64 option"
  | CourseCurrentPoint "json option"
  | CourseNextPoint

fun pilot_request_result :: "pilot_request \<Rightarrow> autopilot_state \<Rightarrow> (unit plugin_result \<times> autopilot_state) option" where
  "pilot_request_result (SetState s) st = Some (pilot_set_state s st)"
| "pilot_request_result (SetMode s) st = Some (pilot_set_mode s st)"
| "pilot_request_result (SetTarget v) st = Some (pilot_set_target v st)"
| "pilot_request_result (AdjustTarget v) st = pilot_adjust_target v st"
| "pilot_request_result Engage st = Some (Inr (), pilot_engage st)"
| "pilot_request_result Disengage st = Some (Inr (), pilot_disengage st)"
| "pilot_request_result (Tack d) st = Some (pilot_tack d st)"
| "pilot_request_result (Gybe d) st = Some (pilot_gybe d st)"
| "pilot_request_result (Dodge v) st = Some (Inr (), pilot_dodge v st)"
| "pilot_request_result (CourseCurrentPoint b) st = Some (course_current_point b st)"
| "pilot_request_result CourseNextPoint st = Some (course_next_point st)"

record pilot_system =
  py_state :: autopilot_state
  py_loop :: loop_state
  py_pending :: "(tick_commit \<times> pilot_output list) option"
  py_log :: "pilot_output list"

definition pilot_start :: "autopilot_config \<Rightarrow> pilot_system option" where
  "pilot_start cfg =
     map_option (\<lambda>ls. \<lparr>py_state = autopilot_state_new (unwrap_or (mode_parse (cfg_initial_mode cfg)) Compass),
                       py_loop = ls, py_pending = None, py_log = []\<rparr>) (loop_new cfg)"

inductive pilot_step :: "libm \<Rightarrow> (f64 \<Rightarrow> f64 \<Rightarrow> string) \<Rightarrow> autopilot_config \<Rightarrow> pilot_system \<Rightarrow> pilot_system \<Rightarrow> bool"
  for m alarm_text cfg where
  tick_read: "py_pending y = None \<Longrightarrow>
     control_tick m alarm_text cfg now (take_snapshot cfg seen (py_state y)) (py_loop y) = Some (c, outs, ls) \<Longrightarrow>
     pilot_step m alarm_text cfg y (y\<lparr>py_loop := ls, py_pending := Some (c, outs)\<rparr>)"
| tick_write: "py_pending y = Some (c, outs) \<Longrightarrow>
     pilot_step m alarm_text cfg y
       (y\<lparr>py_state := apply_commit c (py_state y), py_pending := None, py_log := py_log y @ outs\<rparr>)"
| request: "pilot_request_result r (py_state y) = Some (res, st) \<Longrightarrow>
     pilot_step m alarm_text cfg y (y\<lparr>py_state := st\<rparr>)"
| sensors: "pilot_step m alarm_text cfg y (y\<lparr>py_state := on_sensor_delta now d (py_state y)\<rparr>)"

inductive_cases pilot_stepE [consumes 1, case_names tick_read tick_write request sensors]:
  "pilot_step m alarm_text cfg y z"

definition pilot_reachable :: "libm \<Rightarrow> (f64 \<Rightarrow> f64 \<Rightarrow> string) \<Rightarrow> autopilot_config \<Rightarrow> pilot_system \<Rightarrow> bool" where
  "pilot_reachable m alarm_text cfg y \<longleftrightarrow>
     (\<exists>s. pilot_start cfg = Some s \<and> (pilot_step m alarm_text cfg)\<^sup>*\<^sup>* s y)"

text \<open>Iterations with nothing in between, at the given times of reading and computing.\<close>

fun run_ticks :: "libm \<Rightarrow> (f64 \<Rightarrow> f64 \<Rightarrow> string) \<Rightarrow> autopilot_config \<Rightarrow> (int \<times> int) list
    \<Rightarrow> autopilot_state \<times> loop_state \<Rightarrow> ((autopilot_state \<times> loop_state) \<times> pilot_output list) option" where
  "run_ticks m alarm_text cfg [] s = Some (s, [])"
| "run_ticks m alarm_text cfg ((seen, now) # ts) (st, ls) =
     Option.bind (control_tick m alarm_text cfg now (take_snapshot cfg seen st) ls) (\<lambda>(c, outs, ls').
       map_option (\<lambda>(s, more). (s, outs @ more)) (run_ticks m alarm_text cfg ts (apply_commit c st, ls')))"

end
