(* ===== verification/F64Error.thy ===== *)
theory F64Error
  imports F64
begin

text \<open>
  How far rounding moves a number, and which rationals are doubles: the facts the bounds of the
  floating-point components rest on.
\<close>

lemma half_ulp: assumes "0 < q" shows "2 powi ulp_exp q / 2 \<le> q / 2 ^ 53 + 1 / 2 ^ 1075"
proof (cases "- 1074 \<le> ilog2 q - 52")
  case True
  have "(2::rat) powi (ilog2 q - 52) = 2 powi ilog2 q / 2 ^ 52" by (simp add: power_int_diff)
  moreover have "2 powi ilog2 q \<le> q" using ilog2_bounds(1) [OF assms] .
  ultimately show ?thesis using True by (simp add: ulp_exp_def)
next
  case False
  have "(2::rat) powi (- 1074) / 2 = 1 / 2 ^ 1075" by (simp add: power_int_minus_divide)
  with False assms show ?thesis by (simp add: ulp_exp_def)
qed

lemma mag_rel: assumes "0 < q" shows "\<bar>mag q - q\<bar> \<le> q / 2 ^ 53 + 1 / 2 ^ 1075"
  using mag_error [OF assms] half_ulp [OF assms] by linarith

lemma mag_small: assumes "0 < q" and "q \<le> 2 ^ 1000" shows "mag q < 2 ^ 1024"
proof -
  have "(2::rat) powi 1000 = 2 ^ 1000" by (simp add: power_int_def)
  moreover have "ilog2 q < 1001" using ilog2_bounds(1) [OF assms(1)] assms(2) powi_less_cancel [of "ilog2 q" 1001]
    by (simp add: power_int_def)
  ultimately have "mag q \<le> 2 powi 1000" using assms by (intro mag_le_powi) (auto simp: ulp_exp_def)
  then show ?thesis by (simp add: power_int_def)
qed

lemma round_near:
  assumes "\<bar>q\<bar> \<le> 2 ^ 1000"
  shows "is_finite (round_f64 q)" and "\<bar>rv (round_f64 q) - q\<bar> \<le> \<bar>q\<bar> / 2 ^ 53 + 1 / 2 ^ 1075"
proof -
  consider "q = 0" | "0 < q" | "q < 0" by linarith
  then have "is_finite (round_f64 q) \<and> \<bar>rv (round_f64 q) - q\<bar> \<le> \<bar>q\<bar> / 2 ^ 53 + 1 / 2 ^ 1075"
  proof cases
    case 1
    then show ?thesis by (simp add: round_f64_def)
  next
    case 2
    then show ?thesis using mag_rel [of q] mag_small [of q] assms by (auto simp: round_f64_def Let_def)
  next
    case 3
    then show ?thesis using mag_rel [of "- q"] mag_small [of "- q"] assms by (auto simp: round_f64_def Let_def)
  qed
  then show "is_finite (round_f64 q)" "\<bar>rv (round_f64 q) - q\<bar> \<le> \<bar>q\<bar> / 2 ^ 53 + 1 / 2 ^ 1075" by auto
qed

lemma f_sub_finite:
  assumes "is_finite x" "is_finite y" and "x \<noteq> NZero"
  shows "f_sub x y = round_f64 (rv x - rv y)"
  using assms by (simp add: f_sub_def f_add_finite)

lemma mag_mag: assumes "0 < q" shows "mag (mag q) = mag q"
proof (cases "mag q = 0")
  case True
  have "rne 0 = 0" using rne_of_int [of 0] by simp
  with True show ?thesis by (simp add: mag_def)
next
  case False
  define E where "E = ulp_exp q"
  define k where "k = rne (q / 2 powi E)"
  have m: "mag q = of_int k * 2 powi E" by (simp add: mag_def k_def E_def)
  have "0 \<le> k" unfolding k_def using assms by (intro rne_ge) simp
  with False m have k0: "0 < k" by (cases "k = 0") auto
  have "q \<le> 2 powi (ilog2 q + 1)" using ilog2_bounds(2) [OF assms] by simp
  also have "\<dots> \<le> 2 powi (E + 53)" by (rule powi_mono2) (simp add: E_def ulp_exp_def)
  finally have "q / 2 powi E \<le> of_int (2 ^ 53)" by (simp add: power_int_add pos_divide_le_eq mult.commute)
  then have k53: "k \<le> 2 ^ 53" unfolding k_def by (rule rne_le)
  show ?thesis
  proof (cases "k = 2 ^ 53")
    case True
    then have "mag q = of_int (2 ^ 52) * 2 powi (E + 1)" by (simp add: m power_int_add)
    then show ?thesis by (intro mag_exact [of "2 ^ 52" "E + 1"]) (simp_all add: E_def ulp_exp_def)
  next
    case False
    with k0 k53 m show ?thesis by (intro mag_exact [of k E]) (simp_all add: E_def ulp_exp_def)
  qed
qed

lemma rne_near: "\<bar>of_int k - q\<bar> < 1 / 2 \<Longrightarrow> rne q = k"
  using rne_error [of q] by linarith

lemma round_double:
  assumes "round_f64 p = Fin q" shows "mag \<bar>q\<bar> = \<bar>q\<bar> \<or> q = 0" and "\<bar>q\<bar> < 2 ^ 1024"
  using assms mag_mag [of p] mag_mag [of "- p"] mag_nonneg [of p] mag_nonneg [of "- p"]
  by (auto simp: round_f64_def Let_def split: if_splits)

lemma f_add_double:
  assumes "f_add x y = Fin q" shows "mag \<bar>q\<bar> = \<bar>q\<bar> \<or> q = 0" and "\<bar>q\<bar> < 2 ^ 1024"
proof -
  have "\<exists>p. round_f64 p = Fin q" using assms by (cases x; cases y) auto
  then show "mag \<bar>q\<bar> = \<bar>q\<bar> \<or> q = 0" "\<bar>q\<bar> < 2 ^ 1024" using round_double by auto
qed

definition is_f64 :: "f64 \<Rightarrow> bool" where
  "is_f64 x \<longleftrightarrow> (is_finite x \<longrightarrow> rv x = 0 \<or> round_f64 (rv x) = x)"

lemma round_is_f64: "is_f64 (round_f64 p)"
proof (cases "round_f64 p")
  case (Fin q)
  note d = round_double [OF Fin]
  show ?thesis
  proof (cases "q = 0")
    case True
    with Fin show ?thesis by (simp add: is_f64_def)
  next
    case False
    with d have "round_f64 q = Fin q" by (cases "0 < q") (auto simp: round_f64_def Let_def abs_if)
    with Fin show ?thesis by (simp add: is_f64_def)
  qed
qed (simp_all add: is_f64_def)

lemma f_add_is_f64: "is_f64 (f_add x y)"
  by (cases x; cases y) (auto simp: round_is_f64, auto simp: is_f64_def)

lemma is_f64_rv: "is_f64 x \<Longrightarrow> is_finite x \<Longrightarrow> rv (round_f64 (rv x)) = rv x"
  by (auto simp: is_f64_def round_f64_def)

lemma is_f64_neg: "is_f64 x \<Longrightarrow> is_f64 (f_neg x)"
  by (cases x) (auto simp: is_f64_def round_f64_def Let_def split: if_splits)

lemma f_add_rv:
  assumes "is_finite x" "is_finite y" and "\<bar>rv x + rv y\<bar> \<le> 2 ^ 1000"
  shows "is_finite (f_add x y)" and "rv (f_add x y) = rv (round_f64 (rv x + rv y))"
  using assms round_near [of "rv x + rv y"] by (auto simp: f_add_finite round_f64_def)

lemma rv_round_mono:
  assumes "p \<le> q" "\<bar>p\<bar> \<le> 2 ^ 1000" "\<bar>q\<bar> \<le> 2 ^ 1000"
  shows "rv (round_f64 p) \<le> rv (round_f64 q)"
  using round_mono [OF assms(1)] round_near(1) [OF assms(2)] round_near(1) [OF assms(3)] by (simp add: f_le_finite)

lemma f_clamp_cases:
  assumes "f_clamp x lo hi = Some y"
  shows "f_le lo hi" and "y = x \<or> y = lo \<and> f_lt x lo \<or> y = hi \<and> f_lt hi x"
  using assms by (auto simp: f_clamp_def Let_def f_lt_def split: if_splits)

lemma lit_unit: assumes "0 \<le> q" "q \<le> 1" shows "is_finite (lit q)" "0 \<le> rv (lit q)" "rv (lit q) \<le> 1"
proof -
  have "round_f64 1 = Fin 1" using round_of_int [of 1] by simp
  then have le: "f_le (Fin 0) (lit q)" "f_le (lit q) (Fin 1)"
    using round_mono [OF assms(1)] round_mono [OF assms(2)] by (simp_all add: lit_def round_f64_def)
  then show "is_finite (lit q)" by (cases "lit q") auto
  with le show "0 \<le> rv (lit q)" "rv (lit q) \<le> 1" by (simp_all add: f_le_finite)
qed

lemma lit_half: "lit (1 / 2) = Fin (1 / 2)"
proof -
  have "round_f64 (1 / 2) = Fin (1 / 2)" by (rule round_exact [of 1 "- 1"]) (simp_all add: power_int_minus_divide)
  then show ?thesis by (simp add: lit_def)
qed

end
