(* ===== verification/PilotSpec.thy ===== *)
theory PilotSpec
  imports PilotLoop F64Error
begin

text \<open>
  What the autopilot guarantees: its angles are normalized, the rudder stays in range under any
  interleaving of requests, readings and iterations, it steers on fresh data only, and what its
  recovery mode and its heading check do over time.
\<close>

section \<open>Angles\<close>

lemma f_le_PI_round: "q \<le> rv PI \<Longrightarrow> f_le (round_f64 q) PI"
  using round_mono [of q "rv PI"] round_exact [of 884279719003555 "- 48" "rv PI"]
  by (simp add: power_int_minus_divide PI_def)

lemma f_ge_minus_PI_round: "- rv PI \<le> q \<Longrightarrow> f_le (f_neg PI) (round_f64 q)"
  using round_mono [of "- rv PI" q] round_minus_PI by (simp add: PI_def)

definition in_turn :: "f64 \<Rightarrow> bool" where
  "in_turn x \<longleftrightarrow> f_le (f_neg PI) x \<and> f_le x PI"

lemma step_error:
  assumes "\<bar>q\<bar> \<le> 2 ^ 52" shows "is_finite (round_f64 q)" and "\<bar>rv (round_f64 q) - q\<bar> \<le> 1"
proof -
  have "\<bar>q\<bar> \<le> 2 ^ 1000" using assms order_trans [of "\<bar>q\<bar>" "2 ^ 52" "2 ^ 1000"] by (simp add: power_increasing)
  note near = round_near [OF this]
  show "is_finite (round_f64 q)" by (rule near)
  have "\<bar>q\<bar> / 2 ^ 53 \<le> 1 / 2" using assms by simp
  moreover have "(1::rat) / 2 ^ 1075 \<le> 1 / 2" by simp
  ultimately show "\<bar>rv (round_f64 q) - q\<bar> \<le> 1" using near(2) by linarith
qed

lemma wrap_down_returns:
  assumes "is_finite x" and "rv x \<le> of_nat n" and "of_nat n \<le> (2 ^ 52 :: rat)"
  shows "\<exists>y. wrap_down x = Some y \<and> is_finite y \<and> f_le y PI \<and> (rv PI < rv x \<longrightarrow> f_le (f_neg PI) y) \<and> (rv x \<le> rv PI \<longrightarrow> y = x)"
  using assms
proof (induction n arbitrary: x rule: less_induct)
  case (less n)
  show ?case
  proof (cases "rv x \<le> rv PI")
    case True
    with less.prems have "\<not> f_lt PI x" by (simp add: f_lt_finite)
    with True less.prems show ?thesis by (subst wrap_down.simps) (simp add: f_le_finite)
  next
    case False
    define q where "q = rv x - rv TWO_PI"
    have q: "- rv PI \<le> q" "\<bar>q\<bar> \<le> 2 ^ 52" using False less.prems by (auto simp: q_def)
    have nz: "x \<noteq> NZero" using False by auto
    have sub: "f_sub x TWO_PI = round_f64 q" using less.prems nz by (simp add: f_sub_finite q_def)
    note err = step_error [OF q(2)]
    have low: "f_le (f_neg PI) (round_f64 q)" by (rule f_ge_minus_PI_round [OF q(1)])
    have n: "1 \<le> n" using False less.prems by (cases n) auto
    have "rv (round_f64 q) \<le> rv x - 1" using err(2) by (simp add: q_def)
    then have "rv (round_f64 q) \<le> of_nat (n - 1)" using less.prems(2) n by (simp add: of_nat_diff)
    moreover have "of_nat (n - 1) \<le> (2 ^ 52 :: rat)" using less.prems(3) n by (simp add: of_nat_diff)
    ultimately obtain y where y: "wrap_down (round_f64 q) = Some y" "is_finite y" "f_le y PI"
      and lo: "rv PI < rv (round_f64 q) \<longrightarrow> f_le (f_neg PI) y" and eq: "rv (round_f64 q) \<le> rv PI \<longrightarrow> y = round_f64 q"
      using less.IH [of "n - 1" "round_f64 q"] n err(1) by auto
    have "f_le (f_neg PI) y" using lo eq low by (cases "rv (round_f64 q) \<le> rv PI") auto
    moreover have "f_lt PI x" using False less.prems by (simp add: f_lt_finite)
    ultimately show ?thesis using y False by (subst wrap_down.simps) (simp add: sub)
  qed
qed

lemma f_add_TWO_PI: "is_finite x \<Longrightarrow> f_add x TWO_PI = round_f64 (rv x + rv TWO_PI)"
  by (simp add: f_add_finite TWO_PI_eq)

lemma wrap_up_returns:
  assumes "is_finite x" and "- of_nat n \<le> rv x" and "of_nat n \<le> (2 ^ 52 :: rat)" and "f_le x PI"
  shows "\<exists>y. wrap_up x = Some y \<and> is_finite y \<and> in_turn y \<and> (- rv PI \<le> rv x \<longrightarrow> y = x)"
  using assms
proof (induction n arbitrary: x rule: less_induct)
  case (less n)
  show ?case
  proof (cases "- rv PI \<le> rv x")
    case True
    with less.prems have "\<not> f_lt x (f_neg PI)" by (simp add: f_lt_finite)
    with True less.prems show ?thesis by (subst wrap_up.simps) (simp add: f_le_finite in_turn_def)
  next
    case False
    define q where "q = rv x + rv TWO_PI"
    have q: "q \<le> rv PI" "\<bar>q\<bar> \<le> 2 ^ 52" using False less.prems by (auto simp: q_def)
    note err = step_error [OF q(2)]
    have n: "1 \<le> n" using False less.prems by (cases n) auto
    have "rv x + 1 \<le> rv (round_f64 q)" using err(2) by (simp add: q_def)
    then have "- of_nat (n - 1) \<le> rv (round_f64 q)" using less.prems(2) n by (simp add: of_nat_diff)
    moreover have "of_nat (n - 1) \<le> (2 ^ 52 :: rat)" using less.prems(3) n by (simp add: of_nat_diff)
    ultimately obtain y where y: "wrap_up (round_f64 q) = Some y" "is_finite y" "in_turn y"
      using less.IH [of "n - 1" "round_f64 q"] n err(1) f_le_PI_round [OF q(1)] by auto
    moreover have "f_lt x (f_neg PI)" using False less.prems by (simp add: f_lt_finite)
    ultimately show ?thesis using False less.prems by (subst wrap_up.simps) (simp add: f_add_TWO_PI q_def)
  qed
qed



text \<open>The large doubles do not move by a turn.\<close>

lemma wrap_down_fixed:
  assumes "f_lt PI x" and "f_sub x TWO_PI = x" shows "wrap_down x = None"
proof (rule ccontr)
  assume "wrap_down x \<noteq> None"
  then obtain y where "wrap_down x = Some y" by auto
  then have "\<not> (f_lt PI x \<and> f_sub x TWO_PI = x)"
    by (rule wrap_down.raw_induct [where P = "\<lambda>x _. \<not> (f_lt PI x \<and> f_sub x TWO_PI = x)", rotated])
      (auto split: if_splits)
  with assms show False by simp
qed

lemma wrap_up_fixed:
  assumes "f_lt x (f_neg PI)" and "f_add x TWO_PI = x" shows "wrap_up x = None"
proof (rule ccontr)
  assume "wrap_up x \<noteq> None"
  then obtain y where "wrap_up x = Some y" by auto
  then have "\<not> (f_lt x (f_neg PI) \<and> f_add x TWO_PI = x)"
    by (rule wrap_up.raw_induct [where P = "\<lambda>x _. \<not> (f_lt x (f_neg PI) \<and> f_add x TWO_PI = x)", rotated])
      (auto split: if_splits)
  with assms show False by simp
qed

lemma mag_absorbs:
  assumes q: "mag q = q" "2 ^ 57 \<le> q" and d: "0 \<le> d" "d < 8"
  shows "mag (q - d) = q"
proof -
  define E where "E = ulp_exp (q - d)"
  have q0: "0 < q" "0 < q - d" using q d by auto
  have "E \<le> ulp_exp q" using ilog2_mono [OF q0(2), of q] d by (simp add: E_def ulp_exp_def)
  then have int: "(2::rat) powi ulp_exp q / 2 powi E = of_int (2 ^ nat (ulp_exp q - E))" by (rule powi_int_multiple)
  have "2 powi 56 \<le> q - d" using q d by (simp add: power_int_def)
  then have "56 \<le> ilog2 (q - d)"
    using ilog2_bounds(2) [OF q0(2)] powi_less_cancel [of 56 "ilog2 (q - d) + 1"] by simp
  then have E: "4 \<le> E" by (simp add: E_def ulp_exp_def)
  have u: "16 \<le> (2::rat) powi E" using powi_mono2 [OF E] by (simp add: power_int_def)
  define k where "k = rne (q / 2 powi ulp_exp q) * 2 ^ nat (ulp_exp q - E)"
  have k: "q / 2 powi E = of_int k"
  proof -
    have "q / 2 powi E = of_int (rne (q / 2 powi ulp_exp q)) * (2 powi ulp_exp q / 2 powi E)"
      using q(1) by (simp add: mag_def)
    then show ?thesis by (simp add: int k_def)
  qed
  have "d / 2 powi E < 1 / 2" using d u by (simp add: pos_divide_less_eq)
  moreover have "(q - d) / 2 powi E = of_int k - d / 2 powi E" by (simp add: diff_divide_distrib k)
  ultimately have "rne ((q - d) / 2 powi E) = k" using d u by (intro rne_near) auto
  then have "mag (q - d) = q / 2 powi E * 2 powi E" by (simp add: mag_def E_def [symmetric] k)
  then show ?thesis by simp
qed

lemma far_angle_hangs:
  assumes x: "f_add a b = x" and far: "f_le (Fin (2 ^ 57)) (f_abs x)"
  shows "normalize_angle x = None"
proof -
  consider "x = PInf" | "x = NInf" | q where "x = Fin q" "2 ^ 57 \<le> q" | q where "x = Fin q" "q \<le> - (2 ^ 57)"
    using far by (cases x) (auto simp: abs_if split: if_splits)
  then show ?thesis
  proof cases
    case 1
    have "wrap_down x = None" by (rule wrap_down_fixed) (simp_all add: 1 f_sub_def TWO_PI_eq PI_def f_lt_def)
    then show ?thesis by (simp add: normalize_angle_def)
  next
    case 2
    have "wrap_up x = None" by (rule wrap_up_fixed) (simp_all add: 2 TWO_PI_eq PI_def f_lt_def)
    moreover have "wrap_down x = Some x" by (subst wrap_down.simps) (simp add: 2 f_lt_def PI_def)
    ultimately show ?thesis by (simp add: normalize_angle_def)
  next
    case 3
    have "mag q = q" "q < 2 ^ 1024" using f_add_double [of a b q] x 3 by auto
    moreover from this 3 have "mag (q - rv TWO_PI) = q" by (intro mag_absorbs) auto
    ultimately have "f_sub x TWO_PI = x" using 3 by (simp add: f_sub_finite round_f64_def Let_def)
    then have "wrap_down x = None" using 3 by (intro wrap_down_fixed) (simp_all add: PI_def f_lt_def)
    then show ?thesis by (simp add: normalize_angle_def)
  next
    case 4
    have m: "mag (- q) = - q" "- q < 2 ^ 1024" using f_add_double [of a b q] x 4 by auto
    then have "mag (- q - rv TWO_PI) = - q" using 4 by (intro mag_absorbs) auto
    then have "f_add x TWO_PI = x" using 4 m
      by (simp add: f_add_TWO_PI round_f64_def Let_def diff_conv_add_uminus [symmetric])
    then have "wrap_up x = None" using 4 by (intro wrap_up_fixed) (simp_all add: PI_def f_lt_def)
    moreover have "wrap_down x = Some x" using 4 by (subst wrap_down.simps) (simp add: PI_def f_lt_def)
    ultimately show ?thesis by (simp add: normalize_angle_def)
  qed
qed

text \<open>
  A request that moves the target to a magnitude of 2^57 or beyond, an infinity
  included, never returns: a turn is less than half the gap between such doubles, so the loop of
  \<open>normalize_angle\<close> does not change the angle. The request holds the state's lock meanwhile.
\<close>

theorem huge_adjustment_hangs:
  assumes "f_le (Fin (2 ^ 57)) (f_abs (f_add (unwrap_or (ap_target_rad st) (Fin 0)) d))"
  shows "pilot_adjust_target d st = None"
  using far_angle_hangs [OF refl assms] by (simp add: pilot_adjust_target_def)

theorem huge_adjustment_hangs_witness:
  "pilot_adjust_target (Fin (2 ^ 60)) (autopilot_state_new Compass) = None"
proof (rule huge_adjustment_hangs)
  have "round_f64 (2 ^ 60) = Fin (2 ^ 60)" by (rule round_exact [of 1 60]) (simp_all add: power_int_def)
  then show "f_le (Fin (2 ^ 57)) (f_abs (f_add (unwrap_or (ap_target_rad (autopilot_state_new Compass)) (Fin 0)) (Fin (2 ^ 60))))"
    by (simp add: autopilot_state_new_def unwrap_or_def)
qed

section \<open>The rudder's range\<close>

definition rudder_bound :: "f64 \<Rightarrow> rat" where
  "rudder_bound m = rv m * (1 + 1 / 2 ^ 50)"

definition rudder_ok :: "f64 \<Rightarrow> f64 \<Rightarrow> bool" where
  "rudder_ok m r \<longleftrightarrow> r = NaN \<or> is_finite r \<and> is_f64 r \<and> \<bar>rv r\<bar> \<le> rudder_bound m"

text \<open>The limits the theorem is for: a double of a reasonable size.\<close>

definition max_ok :: "f64 \<Rightarrow> bool" where
  "max_ok m \<longleftrightarrow> is_finite m \<and> is_f64 m \<and> 1 / 2 ^ 1000 \<le> rv m \<and> rv m \<le> 2 ^ 100"

lemma rounded_in_bound:
  assumes m: "max_ok m" and p: "\<bar>p\<bar> \<le> rv m + 4 * rv m / 2 ^ 53"
  shows "\<bar>rv (round_f64 p)\<bar> \<le> rudder_bound m" and "\<bar>p\<bar> \<le> 2 ^ 1000"
proof -
  have M: "1 / 2 ^ 1000 \<le> rv m" "rv m \<le> 2 ^ 100" using m by (auto simp: max_ok_def)
  have "rv m + 4 * rv m / 2 ^ 53 \<le> 2 * 2 ^ 100" using M by simp
  also have "\<dots> \<le> (2::rat) ^ 1000" by simp
  finally show big: "\<bar>p\<bar> \<le> 2 ^ 1000" using p by linarith
  have tiny: "1 / 2 ^ 1075 \<le> rv m / 2 ^ 53" using M by simp
  have "\<bar>rv (round_f64 p)\<bar> \<le> \<bar>p\<bar> + \<bar>p\<bar> / 2 ^ 53 + rv m / 2 ^ 53"
    using round_near(2) [OF big] tiny by linarith
  also have "\<dots> \<le> rudder_bound m" using p M by (simp add: rudder_bound_def field_simps)
  finally show "\<bar>rv (round_f64 p)\<bar> \<le> rudder_bound m" .
qed

text \<open>From one angle towards another: the arrival and the limited moves.\<close>

lemma move_in_bound:
  assumes m: "max_ok m" and c: "is_finite c" "is_f64 c" "\<bar>rv c\<bar> \<le> rudder_bound m"
    and t: "is_finite t" "\<bar>rv t\<bar> \<le> rv m"
    and s: "is_finite s" "rv s = rv (f_sub t c) \<or> 0 \<le> rv s \<and> rv s \<le> rv (f_sub t c) \<or> rv s \<le> 0 \<and> rv (f_sub t c) \<le> rv s"
  shows "rudder_ok m (f_add c s)"
proof -
  have M: "1 / 2 ^ 1000 \<le> rv m" "rv m \<le> 2 ^ 100" using m by (auto simp: max_ok_def)
  have B: "rudder_bound m \<le> 2 * rv m" using M by (simp add: rudder_bound_def)
  define d where "d = rv t - rv c"
  have d3: "\<bar>d\<bar> \<le> 3 * rv m" using c t B by (simp add: d_def)
  moreover have "3 * 2 ^ 100 \<le> (2::rat) ^ 1000" by simp
  ultimately have big: "\<bar>d\<bar> \<le> 2 ^ 1000" using M by linarith
  have sub: "rv (f_sub t c) = rv (round_f64 d)"
    using f_add_rv(2) [of t "f_neg c"] c t big by (simp add: f_sub_def d_def)
  have tiny: "1 / 2 ^ 1075 \<le> rv m / 2 ^ 53" using M by simp
  have arrive: "\<bar>rv c + rv (f_sub t c)\<bar> \<le> rv m + 4 * rv m / 2 ^ 53"
  proof -
    have "\<bar>d\<bar> / 2 ^ 53 \<le> 3 * rv m / 2 ^ 53" using d3 by (rule divide_right_mono) simp
    then have "\<bar>rv (round_f64 d) - d\<bar> \<le> 4 * rv m / 2 ^ 53" using round_near(2) [OF big] tiny by linarith
    moreover have "\<bar>rv c + rv (f_sub t c)\<bar> \<le> \<bar>rv (round_f64 d) - d\<bar> + \<bar>rv t\<bar>"
      unfolding sub d_def by linarith
    ultimately show ?thesis using t(2) by linarith
  qed
  note ar = rounded_in_bound [OF m arrive]
  have rc: "rv (round_f64 (rv c)) = rv c" using c by (simp add: is_f64_rv)
  have cb: "\<bar>rv c\<bar> \<le> 2 ^ 1000"
  proof -
    have "2 * 2 ^ 100 \<le> (2::rat) ^ 1000" by simp
    then show ?thesis using c B M by linarith
  qed
  have sb: "\<bar>rv c + rv s\<bar> \<le> 2 ^ 1000" using s(2) cb ar(2) by linarith
  have "\<bar>rv (round_f64 (rv c + rv s))\<bar> \<le> rudder_bound m"
    using s(2)
  proof (elim disjE)
    assume "rv s = rv (f_sub t c)"
    then show ?thesis using ar(1) by simp
  next
    assume "0 \<le> rv s \<and> rv s \<le> rv (f_sub t c)"
    then have "rv (round_f64 (rv c)) \<le> rv (round_f64 (rv c + rv s))"
      and "rv (round_f64 (rv c + rv s)) \<le> rv (round_f64 (rv c + rv (f_sub t c)))"
      using cb sb ar(2) by (intro rv_round_mono; simp)+
    then show ?thesis using ar(1) c(3) rc by linarith
  next
    assume "rv s \<le> 0 \<and> rv (f_sub t c) \<le> rv s"
    then have "rv (round_f64 (rv c + rv s)) \<le> rv (round_f64 (rv c))"
      and "rv (round_f64 (rv c + rv (f_sub t c))) \<le> rv (round_f64 (rv c + rv s))"
      using cb sb ar(2) by (intro rv_round_mono; simp)+
    then show ?thesis using ar(1) c(3) rc by linarith
  qed
  then show ?thesis using f_add_rv [OF c(1) s(1) sb] f_add_is_f64 by (simp add: rudder_ok_def)
qed

lemma f_sub_near:
  assumes m: "max_ok m" and c: "is_finite c" "is_f64 c" "\<bar>rv c\<bar> \<le> rudder_bound m"
    and t: "is_finite t" "\<bar>rv t\<bar> \<le> rv m"
  shows "is_finite (f_sub t c)"
proof -
  have M: "1 / 2 ^ 1000 \<le> rv m" "rv m \<le> 2 ^ 100" using m by (auto simp: max_ok_def)
  have "rudder_bound m \<le> 2 * rv m" using M by (simp add: rudder_bound_def)
  moreover have "3 * 2 ^ 100 \<le> (2::rat) ^ 1000" by simp
  ultimately have "\<bar>rv t + rv (f_neg c)\<bar> \<le> 2 ^ 1000" using c t M by (simp add: abs_le_iff)
  then show ?thesis using f_add_rv(1) [of t "f_neg c"] c t by (simp add: f_sub_def)
qed

lemma rate_limit_ok:
  assumes m: "max_ok m" and c: "rudder_ok m c" and t: "t = NaN \<or> is_finite t \<and> is_f64 t \<and> \<bar>rv t\<bar> \<le> rv m"
    and r: "rate_limit c t rate dt = Some r"
  shows "rudder_ok m r"
proof -
  have M: "0 \<le> rv m" using m order_trans [of 0 "1 / 2 ^ 1000" "rv m"] by (auto simp: max_ok_def)
  have tok: "rudder_ok m t" using t M by (auto simp: rudder_ok_def rudder_bound_def field_simps)
  show ?thesis
  proof (cases "f_le rate (Fin 0) \<or> \<not> is_finite dt \<or> f_le dt (Fin 0)")
    case True
    with r tok show ?thesis by (auto simp: rate_limit_def)
  next
    case False
    define md where "md = f_mul rate dt"
    obtain s where s: "f_clamp (f_sub t c) (f_neg md) md = Some s" and rr: "r = f_add c s"
      using r False unfolding rate_limit_def md_def [symmetric] by (auto simp: Let_def)
    show ?thesis
    proof (cases "t = NaN \<or> c = NaN")
      case True
      then have "s = NaN" using s f_clamp_NaN by auto
      with rr show ?thesis by (cases c) (auto simp: rudder_ok_def)
    next
      case False
      then have cf: "is_finite c" "is_f64 c" "\<bar>rv c\<bar> \<le> rudder_bound m" and tf: "is_finite t" "\<bar>rv t\<bar> \<le> rv m"
        using c t by (auto simp: rudder_ok_def)
      have d: "is_finite (f_sub t c)" by (rule f_sub_near [OF m cf tf])
      note cl = f_clamp_cases [OF s]
      have "is_finite s \<and> (rv s = rv (f_sub t c) \<or> 0 \<le> rv s \<and> rv s \<le> rv (f_sub t c) \<or> rv s \<le> 0 \<and> rv (f_sub t c) \<le> rv s)"
        using cl(2)
      proof (elim disjE conjE)
        assume "s = f_sub t c"
        with d show ?thesis by simp
      next
        assume a: "s = f_neg md" "f_lt (f_sub t c) (f_neg md)"
        with cl(1) d have "is_finite md" "0 \<le> rv md" by (cases md; simp add: f_lt_def split: if_splits; cases "f_sub t c"; simp)+
        with a d show ?thesis by (simp add: f_lt_finite)
      next
        assume a: "s = md" "f_lt md (f_sub t c)"
        with cl(1) d have "is_finite md" "0 \<le> rv md" by (cases md; simp add: f_lt_def split: if_splits; cases "f_sub t c"; simp)+
        with a d show ?thesis by (simp add: f_lt_finite)
      qed
      then show ?thesis unfolding rr using move_in_bound [OF m cf tf] by blast
    qed
  qed
qed

lemma limit_rudder_ok:
  assumes m: "max_ok (cfg_max_rudder_rad cfg)" and c: "rudder_ok (cfg_max_rudder_rad cfg) c"
    and r: "limit_rudder cfg dt c raw heel gust = Some r"
  shows "rudder_ok (cfg_max_rudder_rad cfg) r"
proof -
  define x where "x = f_add (f_add raw heel) gust"
  define M where "M = cfg_max_rudder_rad cfg"
  obtain t where t: "f_clamp x (f_neg M) M = Some t" and lim: "rate_limit c t (cfg_max_rudder_rate cfg) dt = Some r"
    using r unfolding limit_rudder_def x_def [symmetric] M_def [symmetric] by (auto split: bind_splits)
  have mf: "is_finite M" "is_f64 M" using m by (auto simp: max_ok_def M_def)
  have "is_f64 x" by (simp add: x_def f_add_is_f64)
  then have "is_f64 t" using f_clamp_cases(2) [OF t] mf is_f64_neg by auto
  moreover have "is_finite t \<and> \<bar>rv t\<bar> \<le> rv M" if "t \<noteq> NaN"
  proof -
    have "x \<noteq> NaN" using that t f_clamp_NaN by auto
    then have le: "f_le (f_neg M) t" "f_le t M" using f_clamp_bounds [OF t] by auto
    with mf have "is_finite t" by (cases t; cases M; simp split: if_splits)
    with le mf show ?thesis by (auto simp: f_le_finite abs_le_iff)
  qed
  ultimately show ?thesis using rate_limit_ok [OF m c _ lim] unfolding M_def by blast
qed

lemma steer_shape:
  assumes "steer m alarm_text cfg now sn emit target dt heading ls = Some (c, outs, ls')"
  shows "c = Keep \<and> outs = [] \<or>
    (\<exists>r e raw heel gust. c = Steered r e now \<and> limit_rudder cfg dt (sn_last_rudder sn) raw heel gust = Some r
       \<and> (\<forall>r'. SendRudder r' \<in> set outs \<longrightarrow> emit \<and> r' = r))"
  using assms
  by (auto simp: steer_def Let_def feedback_outputs_def split: bind_splits option.splits prod.splits if_splits bool.splits)

lemma engaged_tick_shape:
  assumes "engaged_tick m alarm_text cfg now sn emit ls = Some (c, outs, ls')"
  shows "c = Keep \<and> outs = []
    \<or> c = Stopped \<and> (outs = timeout_outputs (sn_mode sn) \<or> outs = failure_outputs)
    \<or> \<not> sn_timed_out sn \<and> sn_target sn \<noteq> None \<and>
       (\<exists>r e dt raw heel gust. c = Steered r e now \<and> limit_rudder cfg dt (sn_last_rudder sn) raw heel gust = Some r
         \<and> (\<forall>r'. SendRudder r' \<in> set outs \<longrightarrow> r' = r))"
proof (cases "sn_timed_out sn \<or> sn_target sn = None")
  case True
  with assms show ?thesis by (auto simp: engaged_tick_def Let_def split: if_splits)
next
  case False
  then obtain t where t: "sn_target sn = Some t" by auto
  from assms False t have
    "c = Stopped \<and> outs = failure_outputs \<or>
     (\<exists>h ls2. steer m alarm_text cfg now sn emit (f_add t (unwrap_or (sn_dodge sn) (Fin 0)))
           (tick_dt cfg now (sn_last_tick sn)) h ls2 = Some (c, outs, ls'))"
    by (auto simp: engaged_tick_def Let_def split: bind_splits heading_check.splits)
  then show ?thesis
  proof (elim disjE exE)
    fix h ls2
    assume "steer m alarm_text cfg now sn emit (f_add t (unwrap_or (sn_dodge sn) (Fin 0)))
      (tick_dt cfg now (sn_last_tick sn)) h ls2 = Some (c, outs, ls')"
    from steer_shape [OF this] False show ?thesis by blast
  qed simp
qed

lemma control_tick_shape:
  assumes "control_tick m alarm_text cfg now sn ls = Some (c, outs, ls')"
  shows "c = Keep \<and> (\<forall>r. SendRudder r \<notin> set outs)
    \<or> sn_enabled sn \<and> c = Stopped \<and> (\<forall>r. SendRudder r \<in> set outs \<longrightarrow> r = Fin 0)
    \<or> sn_enabled sn \<and> \<not> sn_timed_out sn \<and> sn_target sn \<noteq> None \<and>
       (\<exists>r e dt raw heel gust. c = Steered r e now \<and> limit_rudder cfg dt (sn_last_rudder sn) raw heel gust = Some r
         \<and> (\<forall>r'. SendRudder r' \<in> set outs \<longrightarrow> r' = r))"
proof (cases "sn_enabled sn")
  case False
  with assms show ?thesis by (auto simp: control_tick_def Let_def)
next
  case True
  define status where "status = (if is_multiple_of (ls_ticks ls + 1) (output_every_n cfg)
    then [SendState (sn_enabled sn) (sn_mode sn) (sn_target sn)] else [])"
  have ns: "SendRudder r \<notin> set status" for r by (simp add: status_def)
  from assms True obtain outs' where outs: "outs = status @ outs'" and
    "engaged_tick m alarm_text cfg now sn (is_multiple_of (ls_ticks ls + 1) (output_every_n cfg))
       (ls\<lparr>ls_ticks := ls_ticks ls + 1\<rparr>) = Some (c, outs', ls')"
    by (auto simp: control_tick_def Let_def status_def)
  from engaged_tick_shape [OF this(2)] True ns show ?thesis
    unfolding outs by (auto simp: timeout_outputs_def failure_outputs_def)
qed

lemma request_keeps_rudder:
  "pilot_request_result r st = Some (res, st') \<Longrightarrow> ap_last_rudder_rad st' = ap_last_rudder_rad st"
  by (cases r) (auto simp: pilot_set_state_def pilot_set_mode_def pilot_set_target_def pilot_adjust_target_def
      pilot_engage_def pilot_disengage_def pilot_tack_def pilot_gybe_def pilot_turn_def pilot_dodge_def
      course_current_point_def course_next_point_def Let_def split: if_splits option.splits)

lemma sensors_keep_rudder: "ap_last_rudder_rad (on_sensor_delta now d st) = ap_last_rudder_rad st"
proof -
  have v: "ap_last_rudder_rad (on_value now s pv st) = ap_last_rudder_rad st" for s pv st
    by (simp add: on_value_def update_sensor_def split: option.splits)
  have vs: "ap_last_rudder_rad (fold (on_value now s) pvs st) = ap_last_rudder_rad st" for s pvs st
    by (induction pvs arbitrary: st) (simp_all add: v)
  have "ap_last_rudder_rad (fold (\<lambda>u. fold (on_value now (u_source u)) (u_values u)) us st) = ap_last_rudder_rad st"
    for us by (induction us arbitrary: st) (simp_all add: vs)
  then show ?thesis by (simp add: on_sensor_delta_def)
qed

text \<open>The invariant of the system: the last command, the pending one and every sent one.\<close>

definition outs_ok :: "f64 \<Rightarrow> pilot_output list \<Rightarrow> bool" where
  "outs_ok m outs \<longleftrightarrow> (\<forall>r. SendRudder r \<in> set outs \<longrightarrow> rudder_ok m r)"

fun commit_ok :: "f64 \<Rightarrow> tick_commit \<Rightarrow> bool" where
  "commit_ok m (Steered r e t) = rudder_ok m r"
| "commit_ok m _ = True"

definition rudder_inv :: "f64 \<Rightarrow> pilot_system \<Rightarrow> bool" where
  "rudder_inv m y \<longleftrightarrow> rudder_ok m (ap_last_rudder_rad (py_state y)) \<and> outs_ok m (py_log y)
     \<and> (\<forall>c outs. py_pending y = Some (c, outs) \<longrightarrow> commit_ok m c \<and> outs_ok m outs)"

lemma zero_rudder_ok: "max_ok m \<Longrightarrow> rudder_ok m (Fin 0)"
  using order_trans [of 0 "1 / 2 ^ 1000" "rv m"]
  by (auto simp: rudder_ok_def is_f64_def rudder_bound_def max_ok_def)

lemma tick_ok:
  assumes m: "max_ok (cfg_max_rudder_rad cfg)" and c: "rudder_ok (cfg_max_rudder_rad cfg) (sn_last_rudder sn)"
    and t: "control_tick m alarm_text cfg now sn ls = Some (c, outs, ls')"
  shows "commit_ok (cfg_max_rudder_rad cfg) c \<and> outs_ok (cfg_max_rudder_rad cfg) outs"
  using control_tick_shape [OF t] limit_rudder_ok [OF m c] zero_rudder_ok [OF m] by (auto simp: outs_ok_def)

lemma rudder_inv_step:
  assumes m: "max_ok (cfg_max_rudder_rad cfg)" and s: "pilot_step m alarm_text cfg y z"
    and i: "rudder_inv (cfg_max_rudder_rad cfg) y"
  shows "rudder_inv (cfg_max_rudder_rad cfg) z"
  using s
proof (cases rule: pilot_stepE)
  case (tick_read now seen c outs ls)
  have "sn_last_rudder (take_snapshot cfg seen (py_state y)) = ap_last_rudder_rad (py_state y)"
    by (simp add: take_snapshot_def Let_def)
  with tick_ok [OF m _ tick_read(3)] i tick_read(1) show ?thesis by (simp add: rudder_inv_def)
next
  case (tick_write c outs)
  with i zero_rudder_ok [OF m] show ?thesis by (cases c) (auto simp: rudder_inv_def outs_ok_def)
next
  case (request r res st)
  with i request_keeps_rudder show ?thesis by (auto simp: rudder_inv_def)
next
  case (sensors now d)
  with i show ?thesis by (simp add: rudder_inv_def sensors_keep_rudder)
qed

lemma rudder_inv_reachable:
  assumes m: "max_ok (cfg_max_rudder_rad cfg)" and r: "pilot_reachable m alarm_text cfg y"
  shows "rudder_inv (cfg_max_rudder_rad cfg) y"
proof -
  obtain s where s: "pilot_start cfg = Some s" "(pilot_step m alarm_text cfg)\<^sup>*\<^sup>* s y"
    using r by (auto simp: pilot_reachable_def)
  have "rudder_inv (cfg_max_rudder_rad cfg) s" using s(1) zero_rudder_ok [OF m]
    by (auto simp: pilot_start_def rudder_inv_def outs_ok_def autopilot_state_new_def)
  with s(2) show ?thesis by (induction rule: rtranclp_induct) (auto intro: rudder_inv_step [OF m])
qed

text \<open>
  Claim C25. Whatever the requests, the sensor values, the times and their interleaving with the
  iterations, every rudder angle the autopilot sends is finite and within the configured maximum,
  but for a relative error of 2^-50 that the rate limiter's rounding can add, or is not a number.
\<close>

theorem rudder_in_range:
  assumes "pilot_reachable m alarm_text cfg y"
    and "is_finite (cfg_max_rudder_rad cfg)" and "round_f64 (rv (cfg_max_rudder_rad cfg)) = cfg_max_rudder_rad cfg"
    and "1 / 2 ^ 1000 \<le> rv (cfg_max_rudder_rad cfg)" and "rv (cfg_max_rudder_rad cfg) \<le> 2 ^ 100"
    and "SendRudder r \<in> set (py_log y)"
  shows "r = NaN \<or> is_finite r \<and> \<bar>rv r\<bar> \<le> rv (cfg_max_rudder_rad cfg) * (1 + 1 / 2 ^ 50)"
proof -
  have "max_ok (cfg_max_rudder_rad cfg)" using assms by (simp add: max_ok_def is_f64_def)
  from rudder_inv_reachable [OF this assms(1)] assms(6) show ?thesis
    by (auto simp: rudder_inv_def outs_ok_def rudder_ok_def rudder_bound_def)
qed

text \<open>A configuration with dyadic values, to run the loop on.\<close>

definition demo_config :: autopilot_config where
  "demo_config = config_default\<lparr>cfg_max_rudder_rad := Fin (1 / 2), cfg_wind_filter_alpha := Fin 1,
     cfg_dead_zone_rad := Fin 1, cfg_max_rudder_rate := Fin 0, cfg_control_rate_hz := Fin 1,
     cfg_recovery_threshold_rad := Fin 0, cfg_rudder_feedback_threshold_rad := Fin 0,
     cfg_dterm_quality_half_life_secs := Fin 0\<rparr>"

definition demo_start :: pilot_system where
  "demo_start =
     \<lparr>py_state = autopilot_state_new Compass,
      py_loop = \<lparr>ls_pid = pid_new (Fin (1 / 2)),
                 ls_wind = \<lparr>cf_sin = \<lparr>lp_value = None, lp_alpha = Fin 1\<rparr>, cf_cos = \<lparr>lp_value = None, lp_alpha = Fin 1\<rparr>\<rparr>,
                 ls_recovery = recovery_new,
                 ls_gust = \<lparr>rd_prev_value = None, rd_output_filter = \<lparr>lp_value = None, lp_alpha = Fin (1 / 2)\<rparr>\<rparr>,
                 ls_feedback = monitor_new, ls_plausibility = plausibility_new 3,
                 ls_prev_mode = None, ls_ticks = 0\<rparr>,
      py_pending = None, py_log = []\<rparr>"

lemma demo_starts: "pilot_start demo_config = Some demo_start"
  by (simp add: pilot_start_def demo_config_def config_default_def demo_start_def loop_new_def circular_new_def
      low_pass_new_def rate_detector_new_def lit_half mode_parse_def unwrap_or_def)

text \<open>Engaged with no heading: the first iteration times out and centres the rudder.\<close>

lemma demo_times_out:
  "\<exists>y. pilot_reachable demo_libm (\<lambda>_ _. []) demo_config y \<and> SendRudder (Fin 0) \<in> set (py_log y)"
proof -
  define s1 where "s1 = demo_start\<lparr>py_state := pilot_engage (py_state demo_start)\<rparr>"
  have "pilot_step demo_libm (\<lambda>_ _. []) demo_config demo_start s1"
    unfolding s1_def by (rule request [where r = Engage and res = "Inr ()"]) simp
  moreover have "\<exists>outs ls. control_tick demo_libm (\<lambda>_ _. []) demo_config 0 (take_snapshot demo_config 0 (py_state s1)) (py_loop s1)
      = Some (Stopped, outs, ls) \<and> SendRudder (Fin 0) \<in> set outs"
    by (simp add: s1_def control_tick_def engaged_tick_def take_snapshot_def Let_def demo_start_def pilot_engage_def
        autopilot_state_new_def sensor_timed_out_def timeout_outputs_def)
  then obtain outs ls where t: "control_tick demo_libm (\<lambda>_ _. []) demo_config 0
      (take_snapshot demo_config 0 (py_state s1)) (py_loop s1) = Some (Stopped, outs, ls)" "SendRudder (Fin 0) \<in> set outs"
    by blast
  define s2 where "s2 = s1\<lparr>py_loop := ls, py_pending := Some (Stopped, outs)\<rparr>"
  have "pilot_step demo_libm (\<lambda>_ _. []) demo_config s1 s2"
    unfolding s2_def by (rule tick_read [OF _ t(1)]) (simp add: s1_def demo_start_def)
  moreover define s3 where "s3 = s2\<lparr>py_state := apply_commit Stopped (py_state s2), py_pending := None,
    py_log := py_log s2 @ outs\<rparr>"
  have "pilot_step demo_libm (\<lambda>_ _. []) demo_config s2 s3"
    unfolding s3_def by (rule tick_write) (simp add: s2_def)
  ultimately have "(pilot_step demo_libm (\<lambda>_ _. []) demo_config)\<^sup>*\<^sup>* demo_start s3"
    by (meson converse_rtranclp_into_rtranclp rtranclp.rtrancl_refl)
  with demo_starts have "pilot_reachable demo_libm (\<lambda>_ _. []) demo_config s3" by (auto simp: pilot_reachable_def)
  moreover have "SendRudder (Fin 0) \<in> set (py_log s3)" using t(2) by (simp add: s3_def)
  ultimately show ?thesis by blast
qed

theorem rudder_in_range_witness:
  "\<exists>y r. pilot_reachable demo_libm (\<lambda>_ _. []) demo_config y \<and> SendRudder r \<in> set (py_log y)
     \<and> (r = NaN \<or> is_finite r \<and> \<bar>rv r\<bar> \<le> rv (cfg_max_rudder_rad demo_config) * (1 + 1 / 2 ^ 50))"
proof -
  obtain y where y: "pilot_reachable demo_libm (\<lambda>_ _. []) demo_config y" "SendRudder (Fin 0) \<in> set (py_log y)"
    using demo_times_out by blast
  have "round_f64 (1 / 2) = Fin (1 / 2)" using lit_half by (simp add: lit_def)
  moreover have m: "cfg_max_rudder_rad demo_config = Fin (1 / 2)" by (simp add: demo_config_def)
  ultimately have "(Fin 0 = NaN) \<or> is_finite (Fin 0) \<and> \<bar>rv (Fin 0)\<bar> \<le> rv (cfg_max_rudder_rad demo_config) * (1 + 1 / 2 ^ 50)"
    by (intro rudder_in_range [OF y(1) _ _ _ _ y(2)]) (simp_all add: m)
  with y show ?thesis by blast
qed

section \<open>When it steers, and when it lets go\<close>

lemma less_of_div: "x div 1000000000 \<le> n \<Longrightarrow> x < (n + 1) * 1000000000" for x n :: int
  using pos_mod_bound [of 1000000000 x] div_mult_mod_eq [of x 1000000000] by (simp add: algebra_simps)

text \<open>
  Claim C26. An iteration steers only if the autopilot was engaged with a target, and the sensor of
  its mode had reported within the timeout (its age in whole seconds is what counts).
\<close>

theorem steers_on_fresh_data:
  assumes "control_tick m alarm_text cfg now (take_snapshot cfg seen st) ls = Some (Steered r e t, outs, ls')"
  shows "ap_enabled st \<and> ap_target_rad st \<noteq> None \<and> t = now \<and>
    (\<exists>s. ap_sensor_last_seen st (sensor_path (ap_mode st)) = Some s
       \<and> seen - s < (int (unat (cfg_sensor_timeout_secs cfg)) + 1) * 1000000000)"
proof -
  have sn: "sn_enabled (take_snapshot cfg seen st) = ap_enabled st"
    "sn_timed_out (take_snapshot cfg seen st) = sensor_timed_out seen (cfg_sensor_timeout_secs cfg) st"
    "sn_target (take_snapshot cfg seen st) = ap_target_rad st"
    by (simp_all add: take_snapshot_def Let_def)
  have *: "ap_enabled st \<and> \<not> sensor_timed_out seen (cfg_sensor_timeout_secs cfg) st \<and> ap_target_rad st \<noteq> None \<and> t = now"
    using control_tick_shape [OF assms] unfolding sn by auto
  then obtain s where s: "ap_sensor_last_seen st (sensor_path (ap_mode st)) = Some s"
    and "max 0 (seen - s) div 1000000000 \<le> int (unat (cfg_sensor_timeout_secs cfg))"
    by (auto simp: sensor_timed_out_def not_less split: option.splits)
  then have "max 0 (seen - s) < (int (unat (cfg_sensor_timeout_secs cfg)) + 1) * 1000000000" by (intro less_of_div)
  then have "seen - s < (int (unat (cfg_sensor_timeout_secs cfg)) + 1) * 1000000000" by (rule le_less_trans [OF max.cobounded2])
  with * s show ?thesis by auto
qed

definition demo_engaged :: autopilot_state where
  "demo_engaged = (update_sensor 0 ''navigation.headingMagnetic'' (Fin 0) (autopilot_state_new Compass))
     \<lparr>ap_enabled := True, ap_target_rad := Some (Fin 0)\<rparr>"

lemma demo_steers:
  "\<exists>e outs ls'. control_tick demo_libm (\<lambda>_ _. []) demo_config 7 (take_snapshot demo_config 5 demo_engaged) (py_loop demo_start)
     = Some (Steered (Fin 0) e 7, outs, ls')"
proof -
  have one: "f_div (Fin 1) (Fin 1) = Fin 1" using round_of_int [of 1] by (simp add: f_div_def)
  have norm: "normalize_angle (Fin 0) = Some (Fin 0)" "normalize_angle NZero = Some NZero"
    by (simp_all add: normalize_angle_def wrap_down.simps wrap_up.simps PI_def f_lt_def)
  show ?thesis
    apply (simp add: control_tick_def engaged_tick_def take_snapshot_def Let_def demo_start_def demo_engaged_def
        autopilot_state_new_def update_sensor_def sensor_timed_out_def current_sensor_def unwrap_or_def or_else_def)
    apply (simp add: check_heading_def plausibility_check_def reset_for_mode_def plausibility_reset_def plausibility_new_def)
    apply (simp add: steer_def Let_def scheduled_gains_def validate_yaw_rate_def demo_config_def update_recovery_def
      recovery_update_def recovery_new_def recovery_reset_def recovery_apply_def f_sub_def norm round_f64_def)
    apply (simp add: mode_control_def heading_compute_def error_rate_def f_sub_def norm round_f64_def tick_dt_def one
        pid_compute_def config_pid_def f_div_def signed_zero_def)
    apply (simp add: gust_compensation_def heel_compensation_def limit_rudder_def f_clamp_def rate_limit_def
        monitor_update_def round_f64_def)
    done
qed

theorem steers_on_fresh_data_witness:
  "\<exists>e outs ls'. control_tick demo_libm (\<lambda>_ _. []) demo_config 7 (take_snapshot demo_config 5 demo_engaged) (py_loop demo_start)
       = Some (Steered (Fin 0) e 7, outs, ls')
     \<and> (\<exists>s. ap_sensor_last_seen demo_engaged (sensor_path (ap_mode demo_engaged)) = Some s
          \<and> 5 - s < (int (unat (cfg_sensor_timeout_secs demo_config)) + 1) * 1000000000)"
  using demo_steers steers_on_fresh_data by blast

text \<open>
  In compass mode an engaged autopilot that never saw a magnetic heading lets go at the
  next iteration, with the rudder centred, the alarm raised and the controller reset, whatever true
  heading it has: the fallback to the true heading is never reached.
\<close>

theorem compass_needs_magnetic_heading:
  assumes "ap_enabled st" and "ap_mode st = Compass"
    and "ap_sensor_last_seen st ''navigation.headingMagnetic'' = None"
  shows "\<exists>status ls'. control_tick m alarm_text cfg now (take_snapshot cfg seen st) ls
           = Some (Stopped, status @ timeout_outputs Compass, ls')
         \<and> pid_integral (ls_pid ls') = Fin 0 \<and> \<not> rs_active (ls_recovery ls')"
  using assms by (simp add: control_tick_def engaged_tick_def take_snapshot_def sensor_timed_out_def Let_def
      reset_for_failure_def pid_reset_def recovery_reset_def)

theorem compass_needs_magnetic_heading_witness:
  "\<exists>status ls'. control_tick demo_libm (\<lambda>_ _. []) demo_config 0
      (take_snapshot demo_config 0 (update_sensor 0 ''navigation.headingTrue'' (Fin 1) (pilot_engage (autopilot_state_new Compass))))
      (py_loop demo_start) = Some (Stopped, status @ timeout_outputs Compass, ls')"
proof -
  have "ap_enabled (update_sensor 0 ''navigation.headingTrue'' (Fin 1) (pilot_engage (autopilot_state_new Compass)))"
    "ap_mode (update_sensor 0 ''navigation.headingTrue'' (Fin 1) (pilot_engage (autopilot_state_new Compass))) = Compass"
    "ap_sensor_last_seen (update_sensor 0 ''navigation.headingTrue'' (Fin 1) (pilot_engage (autopilot_state_new Compass)))
       ''navigation.headingMagnetic'' = None"
    by (simp_all add: update_sensor_def pilot_engage_def autopilot_state_new_def)
  from compass_needs_magnetic_heading [OF this, of demo_libm "\<lambda>_ _. []" demo_config 0 0 "py_loop demo_start"]
  show ?thesis by blast
qed

text \<open>
  Disengaging by request resets neither the controller's integral nor the recovery mode
  nor the last rudder angle: after any number of idle iterations the loop's state is what it was, but
  for the tick counter, and engaging again in the same mode goes on from there.
\<close>

theorem reengaging_keeps_integral:
  assumes "ls_prev_mode ls = Some (ap_mode st)"
  shows "\<exists>outs ls'. run_ticks m alarm_text cfg ts (pilot_disengage st, ls) = Some ((pilot_disengage st, ls'), outs)
       \<and> reset_for_mode (ap_mode (pilot_engage (pilot_disengage st))) ls' = ls'
       \<and> ls' = ls\<lparr>ls_ticks := ls_ticks ls + of_nat (length ts)\<rparr>
       \<and> ls_pid ls' = ls_pid ls \<and> ls_recovery ls' = ls_recovery ls
       \<and> ap_last_rudder_rad (pilot_engage (pilot_disengage st)) = ap_last_rudder_rad st"
proof -
  have "\<exists>outs. run_ticks m alarm_text cfg ts (pilot_disengage st, ls) =
      Some ((pilot_disengage st, ls\<lparr>ls_ticks := ls_ticks ls + of_nat (length ts)\<rparr>), outs)" for ls
  proof (induction ts arbitrary: ls)
    case (Cons t ts)
    obtain seen now where t: "t = (seen, now)" by (cases t)
    from Cons [of "ls\<lparr>ls_ticks := ls_ticks ls + 1\<rparr>"] show ?case
      by (auto simp: t control_tick_def take_snapshot_def Let_def pilot_disengage_def add.assoc)
  qed simp
  with assms show ?thesis
    by (fastforce simp: reset_for_mode_def pilot_engage_def pilot_disengage_def)
qed

theorem reengaging_keeps_integral_witness:
  "\<exists>outs ls'. run_ticks demo_libm (\<lambda>_ _. []) demo_config [(1, 1), (2, 2)]
       (pilot_disengage demo_engaged, (py_loop demo_start)\<lparr>ls_pid := \<lparr>pid_integral = Fin 1, pid_integral_limit = Fin 2\<rparr>, ls_prev_mode := Some Compass\<rparr>)
     = Some ((pilot_disengage demo_engaged, ls'), outs) \<and> pid_integral (ls_pid ls') = Fin 1"
proof -
  have "ls_prev_mode ((py_loop demo_start)\<lparr>ls_pid := \<lparr>pid_integral = Fin 1, pid_integral_limit = Fin 2\<rparr>, ls_prev_mode := Some Compass\<rparr>)
      = Some (ap_mode demo_engaged)"
    by (simp add: demo_engaged_def autopilot_state_new_def update_sensor_def)
  from reengaging_keeps_integral [OF this, of demo_libm "\<lambda>_ _. []" demo_config "[(1, 1), (2, 2)]"]
  show ?thesis by fastforce
qed

section \<open>Recovery mode\<close>

text \<open>One update per tick; the answers, oldest first.\<close>

fun recovery_run :: "f64 list \<Rightarrow> f64 \<Rightarrow> u32 \<Rightarrow> recovery_state \<Rightarrow> bool list" where
  "recovery_run [] threshold n r = []"
| "recovery_run (e # es) threshold n r =
     (let (b, r') = recovery_update e threshold n r in b # recovery_run es threshold n r')"

lemma fraction_below:
  assumes t: "is_finite t" "0 < rv t" "is_f64 t" and q: "0 \<le> q" "q \<le> 1"
  shows "f_le (f_mul t (lit q)) t"
proof (cases "rv (lit q) = 0")
  case True
  with t lit_unit [OF q] show ?thesis by (cases t; cases "lit q") (auto simp: f_mul_def signed_zero_def Let_def)
next
  case False
  have "f_mul t (lit q) = round_f64 (rv t * rv (lit q))"
    using t lit_unit [OF q] False by (cases t; cases "lit q") (auto simp: f_mul_def)
  moreover have "rv t * rv (lit q) \<le> rv t" using t lit_unit [OF q] by (simp add: mult_left_le)
  ultimately show ?thesis using round_mono [of "rv t * rv (lit q)" "rv t"] t by (simp add: is_f64_def)
qed

lemma recovery_update_far:
  assumes t: "is_finite t" "0 < rv t" "is_f64 t" and e: "f_lt t (f_abs e)"
  shows "recovery_update e t n r =
    (let k = saturating_pred (if rs_active r then rs_ticks_remaining r else n)
     in (k \<noteq> 0, \<lparr>rs_active = k \<noteq> 0, rs_ticks_remaining = k\<rparr>))"
proof -
  have "f_le (f_mul t (lit (3 / 10))) t" using t by (rule fraction_below) simp_all
  then have "f_le (f_mul t (lit (3 / 10))) (f_abs e)" using e f_lt_imp_le f_le_trans by blast
  then have "\<not> f_lt (f_abs e) (f_mul t (lit (3 / 10)))" by (auto simp: f_lt_def)
  moreover have "\<not> f_le t (Fin 0)" using t by (simp add: f_le_finite)
  ultimately show ?thesis using e by (cases r) (simp add: recovery_update_def Let_def)
qed

definition recovery_phase :: "u32 \<Rightarrow> nat \<Rightarrow> recovery_state" where
  "recovery_phase n j = \<lparr>rs_active = j \<noteq> 0, rs_ticks_remaining = (if j = 0 then 0 else of_nat (unat n - j))\<rparr>"

lemma unat_u32: "unat (n :: u32) < 2 ^ 32"
  using unsigned_less [of n] by simp

lemma of_nat_u32_eq_0: "k < 2 ^ 32 \<Longrightarrow> (of_nat k :: u32) = 0 \<longleftrightarrow> k = 0"
  by (auto simp: word_of_nat_eq_0_iff dest: nat_dvd_not_less)

lemma recovery_phase_step:
  assumes t: "is_finite t" "0 < rv t" "is_f64 t" and e: "f_lt t (f_abs e)" and j: "j < unat n"
  shows "recovery_update e t n (recovery_phase n j) = (Suc j mod unat n \<noteq> 0, recovery_phase n (Suc j mod unat n))"
proof -
  have k: "unat n - Suc j < 2 ^ 32" using unat_u32 [of n] by (simp add: less_imp_diff_less)
  have "saturating_pred (if rs_active (recovery_phase n j) then rs_ticks_remaining (recovery_phase n j) else n)
      = of_nat (unat n - Suc j)"
  proof -
    have lt: "unat n - j < 2 ^ 32" by (rule le_less_trans [OF diff_le_self unat_u32])
    have "of_nat (unat n - j) \<noteq> (0 :: u32)"
      using of_nat_u32_eq_0 [OF lt] j by (metis zero_less_diff less_irrefl)
    moreover have "(of_nat (unat n - j) :: u32) - 1 = of_nat (unat n - Suc j)"
      using j by (simp add: Suc_diff_Suc [symmetric] del: Suc_diff_Suc)
    moreover have "of_nat (unat n - 0) = n" by simp
    ultimately show ?thesis by (cases "j = 0") (auto simp: saturating_pred_def recovery_phase_def)
  qed
  then have "recovery_update e t n (recovery_phase n j) =
      (let k = of_nat (unat n - Suc j) in (k \<noteq> 0, \<lparr>rs_active = k \<noteq> 0, rs_ticks_remaining = k\<rparr>))"
    unfolding recovery_update_far [OF t e] by (rule arg_cong)
  also have "\<dots> = (Suc j \<noteq> unat n, \<lparr>rs_active = Suc j \<noteq> unat n, rs_ticks_remaining = of_nat (unat n - Suc j)\<rparr>)"
    using of_nat_u32_eq_0 [OF k] j unfolding Let_def by (simp only: diff_is_0_eq) auto
  also have "\<dots> = (Suc j mod unat n \<noteq> 0, recovery_phase n (Suc j mod unat n))"
    using j by (cases "Suc j = unat n") (simp_all add: recovery_phase_def mod_Suc del: of_nat_diff)
  finally show ?thesis .
qed

lemma recovery_run_phases:
  assumes t: "is_finite t" "0 < rv t" "is_f64 t" and es: "\<forall>e\<in>set es. f_lt t (f_abs e)" and j: "j < unat n"
  shows "recovery_run es t n (recovery_phase n j) = map (\<lambda>i. (j + Suc i) mod unat n \<noteq> 0) [0..<length es]"
  using es j
proof (induction es arbitrary: j)
  case (Cons e es)
  have lt: "Suc j mod unat n < unat n" using Cons.prems by simp
  have "recovery_run (e # es) t n (recovery_phase n j)
      = (Suc j mod unat n \<noteq> 0) # map (\<lambda>i. (Suc j mod unat n + Suc i) mod unat n \<noteq> 0) [0..<length es]"
    using Cons.prems Cons.IH [OF _ lt] by (simp add: recovery_phase_step [OF t])
  also have "\<dots> = (Suc j mod unat n \<noteq> 0) # map (\<lambda>i. (j + Suc (Suc i)) mod unat n \<noteq> 0) [0..<length es]"
  proof -
    have "(Suc j mod unat n + Suc i) mod unat n = (j + Suc (Suc i)) mod unat n" for i
      unfolding mod_add_left_eq by simp
    then show ?thesis by metis
  qed
  also have "\<dots> = map (\<lambda>i. (j + Suc i) mod unat n \<noteq> 0) [0..<length (e # es)]"
    by (simp add: upt_conv_Cons map_Suc_upt [symmetric] del: upt_Suc)
  finally show ?case .
qed simp

text \<open>
  While the error stays above the threshold, recovery mode does not end after its maximal
  number of ticks: it is off in every n-th tick only, and triggered again in the one after it.
\<close>

theorem recovery_retriggers:
  assumes "is_finite threshold" and "0 < rv threshold" and "round_f64 (rv threshold) = threshold"
    and "n \<noteq> 0" and "\<forall>e\<in>set es. f_lt threshold (f_abs e)"
  shows "recovery_run es threshold n recovery_new = map (\<lambda>i. Suc i mod unat n \<noteq> 0) [0..<length es]"
proof -
  have "recovery_new = recovery_phase n 0" by (simp add: recovery_new_def recovery_phase_def)
  moreover have "0 < unat n" using assms(4) by (simp add: unat_gt_0)
  ultimately show ?thesis using recovery_run_phases [of threshold es 0 n] assms by (simp add: is_f64_def)
qed

theorem recovery_retriggers_witness:
  "recovery_run (replicate 7 (Fin 2)) (Fin 1) 3 recovery_new = [True, True, False, True, True, False, True]"
proof -
  have one: "round_f64 (rv (Fin 1)) = Fin 1" using round_of_int [of 1] by simp
  have "recovery_run (replicate 7 (Fin 2)) (Fin 1) 3 recovery_new =
      map (\<lambda>i. Suc i mod unat (3 :: u32) \<noteq> 0) [0..<length (replicate 7 (Fin 2))]"
    by (rule recovery_retriggers) (use one in \<open>simp_all add: f_lt_def\<close>)
  also have "\<dots> = [True, True, False, True, True, False, True]" by code_simp
  finally show ?thesis .
qed

section \<open>Heading glitches\<close>

fun heading_run :: "f64 list \<Rightarrow> f64 \<Rightarrow> f64 \<Rightarrow> heading_plausibility \<Rightarrow> plausibility_result list option" where
  "heading_run [] rate dt h = Some []"
| "heading_run (v # vs) rate dt h =
     Option.bind (plausibility_check v rate dt h) (\<lambda>(r, h'). map_option ((#) r) (heading_run vs rate dt h'))"

definition implausible :: "f64 \<Rightarrow> f64 \<Rightarrow> f64 \<Rightarrow> f64 \<Rightarrow> bool" where
  "implausible prev rate dt v \<longleftrightarrow>
     (\<exists>d. normalize_angle (f_sub v prev) = Some d \<and> \<not> f_le (f_abs d) (f_mul rate (f_max dt (Fin 0))))"

lemma heading_run_glitches:
  assumes "\<forall>v\<in>set vs. implausible prev rate dt v" and "hp_prev_value h = Some prev"
    and "unat (hp_glitch_count h) + length vs < unat (hp_max_glitches h)"
  shows "heading_run (vs @ ws) rate dt h =
    map_option ((@) (replicate (length vs) (Glitch prev)))
      (heading_run ws rate dt (h\<lparr>hp_glitch_count := hp_glitch_count h + of_nat (length vs)\<rparr>))"
  using assms
proof (induction vs arbitrary: h)
  case Nil
  then show ?case by (simp add: option.map_ident)
next
  case (Cons v vs)
  define h1 where "h1 = h\<lparr>hp_glitch_count := hp_glitch_count h + 1\<rparr>"
  have c: "unat (hp_glitch_count h + 1) = unat (hp_glitch_count h) + 1"
    using Cons.prems(3) unat_u32 [of "hp_max_glitches h"] unat_add_lem [of "hp_glitch_count h" 1] by simp
  have "plausibility_check v rate dt h = Some (Glitch prev, h1)"
    using Cons.prems c by (auto simp: plausibility_check_def implausible_def Let_def h1_def word_le_nat_alt)
  moreover have "heading_run (vs @ ws) rate dt h1 = map_option ((@) (replicate (length vs) (Glitch prev)))
      (heading_run ws rate dt (h1\<lparr>hp_glitch_count := hp_glitch_count h1 + of_nat (length vs)\<rparr>))"
    using Cons.prems c by (intro Cons.IH) (simp_all add: h1_def)
  ultimately show ?case by (simp add: h1_def add.assoc option.map_comp comp_def)
qed

text \<open>
  After an accepted heading, as many consecutive implausible readings as configured are a
  sensor failure, and the ones before the last are answered with the accepted heading.
\<close>

theorem glitches_end_in_failure:
  assumes "plausibility_check v rate dt h = Some (Plausible v, h1)"
    and "length vs + 1 = unat (hp_max_glitches h1)" and "\<forall>w\<in>set (vs @ [w]). implausible v rate dt w"
  shows "heading_run (vs @ [w]) rate dt h1 = Some (replicate (length vs) (Glitch v) @ [SensorFailure])"
proof -
  have c: "hp_glitch_count h1 = 0" "hp_prev_value h1 = Some v"
    using assms(1) by (auto simp: plausibility_check_def Let_def split: option.splits bind_splits if_splits)
  have n: "of_nat (length vs) + 1 = hp_max_glitches h1"
    using arg_cong [OF assms(2), of "of_nat :: nat \<Rightarrow> u32"] by (simp add: add.commute)
  have "heading_run (vs @ [w]) rate dt h1 = map_option ((@) (replicate (length vs) (Glitch v)))
      (heading_run [w] rate dt (h1\<lparr>hp_glitch_count := hp_glitch_count h1 + of_nat (length vs)\<rparr>))"
    using assms(2,3) by (intro heading_run_glitches) (auto simp: c)
  also have "heading_run [w] rate dt (h1\<lparr>hp_glitch_count := hp_glitch_count h1 + of_nat (length vs)\<rparr>) = Some [SensorFailure]"
    using assms n by (auto simp: plausibility_check_def implausible_def Let_def c)
  finally show ?thesis by simp
qed

theorem glitches_end_in_failure_witness:
  "heading_run [Fin 2, Fin 3, Fin 2] (Fin 1) (Fin 1)
     \<lparr>hp_prev_value = Some (Fin 0), hp_glitch_count = 0, hp_max_glitches = 3\<rparr>
   = Some [Glitch (Fin 0), Glitch (Fin 0), SensorFailure]"
proof -
  define h1 where "h1 = \<lparr>hp_prev_value = Some (Fin 0), hp_glitch_count = 0, hp_max_glitches = (3 :: u32)\<rparr>"
  have r: "round_f64 1 = Fin 1" "round_f64 2 = Fin 2" "round_f64 3 = Fin 3" "round_f64 0 = Fin 0"
    using round_of_int [of 1] round_of_int [of 2] round_of_int [of 3] by (simp_all add: round_f64_def)
  have norm: "normalize_angle (Fin 0) = Some (Fin 0)" "normalize_angle (Fin 2) = Some (Fin 2)" "normalize_angle (Fin 3) = Some (Fin 3)"
    by (simp_all add: normalize_angle_def wrap_down.simps wrap_up.simps PI_def f_lt_def)
  have "plausibility_check (Fin 0) (Fin 1) (Fin 1) (plausibility_new 3) = Some (Plausible (Fin 0), h1)"
    by (simp add: plausibility_check_def plausibility_new_def h1_def)
  moreover have "implausible (Fin 0) (Fin 1) (Fin 1) (Fin q)" if "q = 2 \<or> q = 3" for q
    using that norm r by (auto simp: implausible_def f_sub_def f_mul_def f_max_def f_lt_def)
  ultimately have "heading_run ([Fin 2, Fin 3] @ [Fin 2]) (Fin 1) (Fin 1) h1
      = Some (replicate (length [Fin 2, Fin 3]) (Glitch (Fin 0)) @ [SensorFailure])"
    by (intro glitches_end_in_failure) (auto simp: h1_def)
  then show ?thesis by (simp add: h1_def numeral_2_eq_2)
qed

end
