(* ===== verification/Ais.thy ===== *)
theory Ais
  imports Libm Types
begin

text \<open>
  AIS: the conversion of a contact to a delta (\<^verbatim>\<open>signalk-types/src/ais.rs\<close>), the closest
  point of approach (\<^verbatim>\<open>plugins/ais-status/src/cpa.rs\<close>), the target tracker
  (\<^verbatim>\<open>tracker.rs\<close>) and the plugin around it (\<^verbatim>\<open>lib.rs\<close>). An instant is a count
  of nanoseconds; a span of the configuration is a number of seconds in 64 bits. The targets are a
  hash map in its order of iteration.
\<close>

type_synonym u32 = "32 word"
type_synonym u8 = "8 word"

section \<open>Contacts\<close>

datatype target_class = CVessel | CAton | CBase | CSar

definition classify_mmsi :: "string \<Rightarrow> target_class" where
  "classify_mmsi m =
     (if starts_with m ''97'' then CAton else if starts_with m ''00'' then CBase
      else if starts_with m ''111'' then CSar else CVessel)"

record ais_contact =
  ac_mmsi :: u32
  ac_position :: "(f64 \<times> f64) option"
  ac_sog_ms :: "f64 option"
  ac_cog_rad :: "f64 option"
  ac_heading_rad :: "f64 option"
  ac_rot_rads :: "f64 option"
  ac_nav_status :: "u8 option"
  ac_name :: "string option"
  ac_callsign :: "string option"
  ac_imo :: "u32 option"
  ac_ship_type :: "u8 option"
  ac_destination :: "string option"
  ac_draught :: "f64 option"
  ac_length :: "f64 option"
  ac_beam :: "f64 option"

text \<open>Nine decimal digits, with leading zeros.\<close>

definition dec9 :: "nat \<Rightarrow> string" where
  "dec9 n = (let d = dec_digits n in replicate (9 - length d) CHR ''0'' @ d)"

definition mmsi_prefix :: string where
  "mmsi_prefix = ''vessels.urn:mrn:imo:mmsi:''"

definition contact_context :: "ais_contact \<Rightarrow> string" where
  "contact_context c = mmsi_prefix @ dec9 (unat (ac_mmsi c))"

text \<open>Codes of the navigation status and of the ship type.\<close>

definition nav_status_table :: "(nat \<times> string) list" where
  "nav_status_table =
     [(0, ''motoring''), (1, ''anchored''), (2, ''not under command''), (3, ''restricted maneuverability''),
      (4, ''constrained by draft''), (5, ''moored''), (6, ''aground''), (7, ''fishing''), (8, ''sailing''),
      (14, ''ais-sart'')]"

definition nav_status_to_str :: "u8 \<Rightarrow> string option" where
  "nav_status_to_str code = map_of nav_status_table (unat code)"

text \<open>The ranges of the \<^verbatim>\<open>match\<close>, by their upper end, in order.\<close>

definition ship_type_table :: "(nat \<times> string) list" where
  "ship_type_table =
     [(0, ''Not available''), (19, ''Reserved''), (29, ''Wing in ground''), (30, ''Fishing''), (31, ''Towing''),
      (32, ''Towing (large)''), (33, ''Dredging''), (34, ''Diving ops''), (35, ''Military ops''), (36, ''Sailing''),
      (37, ''Pleasure craft''), (39, ''Reserved''), (49, ''High speed craft''), (50, ''Pilot vessel''),
      (51, ''Search and rescue''), (52, ''Tug''), (53, ''Port tender''), (54, ''Anti-pollution''),
      (55, ''Law enforcement''), (57, ''Spare''), (58, ''Medical transport''), (59, ''Non-combatant ship''),
      (69, ''Passenger''), (79, ''Cargo''), (89, ''Tanker''), (99, ''Other'')]"

definition ship_type_name :: "u8 \<Rightarrow> string" where
  "ship_type_name code =
     (case List.find (\<lambda>(hi, _). unat code \<le> hi) ship_type_table of Some (_, n) \<Rightarrow> n | None \<Rightarrow> ''Unknown'')"

definition opt_pv :: "string \<Rightarrow> ('a \<Rightarrow> json) \<Rightarrow> 'a option \<Rightarrow> path_value list" where
  "opt_pv p e x = (case x of None \<Rightarrow> [] | Some a \<Rightarrow> [path_value_new p (e a)])"

definition filter_opt :: "('a \<Rightarrow> bool) \<Rightarrow> 'a option \<Rightarrow> 'a option" where
  "filter_opt P x = (case x of Some a \<Rightarrow> if P a then Some a else None | None \<Rightarrow> None)"

definition text_pv :: "string \<Rightarrow> string option \<Rightarrow> path_value list" where
  "text_pv p x = opt_pv p (\<lambda>s. JStr (trim s)) (filter_opt (\<lambda>s. trim s \<noteq> []) x)"

definition contact_values :: "ais_contact \<Rightarrow> path_value list" where
  "contact_values c =
     opt_pv ''navigation.position'' (\<lambda>(lat, lon). json_obj [(''latitude'', json_f64 lat), (''longitude'', json_f64 lon)])
       (ac_position c)
     @ opt_pv ''navigation.speedOverGround'' json_f64 (ac_sog_ms c)
     @ opt_pv ''navigation.courseOverGroundTrue'' json_f64 (ac_cog_rad c)
     @ opt_pv ''navigation.headingTrue'' json_f64 (ac_heading_rad c)
     @ opt_pv ''navigation.rateOfTurn'' json_f64 (ac_rot_rads c)
     @ opt_pv ''navigation.state'' JStr (Option.bind (ac_nav_status c) nav_status_to_str)
     @ text_pv ''name'' (ac_name c)
     @ text_pv ''communication.callsignVhf'' (ac_callsign c)
     @ opt_pv ''registrations.imo'' (\<lambda>n. JStr (''IMO '' @ dec_digits (unat n))) (filter_opt (\<lambda>n. 0 < n) (ac_imo c))
     @ opt_pv ''design.aisShipType''
         (\<lambda>st. json_obj [(''id'', JNum (PosInt (ucast st))), (''name'', JStr (ship_type_name st))]) (ac_ship_type c)
     @ opt_pv ''design.length.overall.value'' json_f64 (filter_opt (f_lt (Fin 0)) (ac_length c))
     @ opt_pv ''design.beam.value'' json_f64 (filter_opt (f_lt (Fin 0)) (ac_beam c))
     @ opt_pv ''design.draft.value.maximum'' json_f64 (filter_opt (f_lt (Fin 0)) (ac_draught c))
     @ text_pv ''navigation.destination.commonName'' (ac_destination c)"

definition contact_delta :: "datetime \<Rightarrow> source \<Rightarrow> ais_contact \<Rightarrow> delta" where
  "contact_delta utc src c = with_context (contact_context c) [update_new utc src (contact_values c)]"

section \<open>Closest point of approach\<close>

record cpa_result =
  cpa_m :: f64
  tcpa_s :: f64

definition EARTH_RADIUS_M :: f64 where
  "EARTH_RADIUS_M = Fin 6371000"

definition sog_cog_to_xy :: "libm \<Rightarrow> f64 \<Rightarrow> f64 \<Rightarrow> f64 \<times> f64" where
  "sog_cog_to_xy m sog cog = (f_mul sog (m_sin m cog), f_mul sog (m_cos m cog))"

definition f_dot :: "f64 \<Rightarrow> f64 \<Rightarrow> f64 \<Rightarrow> f64 \<Rightarrow> f64" where
  "f_dot a b c d = f_add (f_mul a b) (f_mul c d)"

record motion =
  mo_lat :: f64
  mo_lon :: f64
  mo_sog :: f64
  mo_cog :: f64

definition motion_finite :: "motion \<Rightarrow> bool" where
  "motion_finite a \<longleftrightarrow> is_finite (mo_lat a) \<and> is_finite (mo_lon a) \<and> is_finite (mo_sog a) \<and> is_finite (mo_cog a)"

definition compute_cpa :: "libm \<Rightarrow> motion \<Rightarrow> motion \<Rightarrow> cpa_result option" where
  "compute_cpa m own tgt =
     (if \<not> (motion_finite own \<and> motion_finite tgt) then None
      else
        (let mid_lat = to_radians (f_div (f_add (mo_lat own) (mo_lat tgt)) (Fin 2));
             cos_mid = m_cos m mid_lat;
             px = f_mul (f_mul (to_radians (f_sub (mo_lon tgt) (mo_lon own))) cos_mid) EARTH_RADIUS_M;
             py = f_mul (to_radians (f_sub (mo_lat tgt) (mo_lat own))) EARTH_RADIUS_M;
             (own_vx, own_vy) = sog_cog_to_xy m (mo_sog own) (mo_cog own);
             (tgt_vx, tgt_vy) = sog_cog_to_xy m (mo_sog tgt) (mo_cog tgt);
             vx = f_sub tgt_vx own_vx;
             vy = f_sub tgt_vy own_vy;
             v_sq = f_dot vx vx vy vy;
             tcpa = (if f_lt v_sq (lit (1 / 1000000)) then PInf
                     else f_div (f_neg (f_dot px vx py vy)) v_sq);
             cpa = (if tcpa = PInf \<or> tcpa = NInf then m_sqrt m (f_dot px px py py)
                    else (let cx = f_add px (f_mul vx tcpa); cy = f_add py (f_mul vy tcpa)
                          in m_sqrt m (f_dot cx cx cy cy)))
         in Some \<lparr>cpa_m = cpa, tcpa_s = tcpa\<rparr>))"

datatype cpa_level = CpaAlarm | CpaWarn

definition classify_cpa_alarm :: "f64 \<Rightarrow> f64 \<Rightarrow> f64 \<Rightarrow> f64 option \<Rightarrow> f64 option \<Rightarrow> cpa_level option" where
  "classify_cpa_alarm cpa tcpa tcpa_max warn alarm =
     (if f_lt (Fin 0) tcpa \<and> f_lt tcpa tcpa_max
      then if is_some_and alarm (f_lt cpa) then Some CpaAlarm
           else if is_some_and warn (f_lt cpa) then Some CpaWarn
           else None
      else None)"

section \<open>The tracker\<close>

record class_thresholds =
  th_confirm_count :: u32
  th_confirm_window :: u64
  th_lost_after :: u64
  th_remove_after :: u64

record threshold_overrides =
  to_confirm_count :: "u32 option"
  to_confirm_window_secs :: "u64 option"
  to_lost_after_secs :: "u64 option"
  to_remove_after_secs :: "u64 option"

fun class_defaults :: "target_class \<Rightarrow> class_thresholds" where
  "class_defaults CVessel =
     \<lparr>th_confirm_count = 2, th_confirm_window = 180, th_lost_after = 360, th_remove_after = 540\<rparr>"
| "class_defaults CAton =
     \<lparr>th_confirm_count = 1, th_confirm_window = 180, th_lost_after = 900, th_remove_after = 3600\<rparr>"
| "class_defaults _ =
     \<lparr>th_confirm_count = 1, th_confirm_window = 10, th_lost_after = 30, th_remove_after = 180\<rparr>"

definition thresholds_for :: "target_class \<Rightarrow> threshold_overrides option \<Rightarrow> class_thresholds" where
  "thresholds_for cls overrides =
     (let d = class_defaults cls in
      case overrides of
        Some ov \<Rightarrow> \<lparr>th_confirm_count = unwrap_or (to_confirm_count ov) (th_confirm_count d),
                    th_confirm_window = unwrap_or (to_confirm_window_secs ov) (th_confirm_window d),
                    th_lost_after = unwrap_or (to_lost_after_secs ov) (th_lost_after d),
                    th_remove_after = unwrap_or (to_remove_after_secs ov) (th_remove_after d)\<rparr>
      | None \<Rightarrow> d)"

text \<open>A number of seconds in nanoseconds.\<close>

definition span_ns :: "u64 \<Rightarrow> int" where
  "span_ns s = int (unat s) * 1000000000"

datatype target_status = Acquiring | Tracking | Lost

fun status_str :: "target_status \<Rightarrow> string" where
  "status_str Acquiring = ''acquiring''"
| "status_str Tracking = ''tracking''"
| "status_str Lost = ''lost''"

record status_transition =
  tr_mmsi :: string
  tr_context :: string
  tr_old_status :: target_status
  tr_new_status :: target_status

record tracked_target =
  tt_mmsi :: string
  tt_context :: string
  tt_class :: target_class
  tt_status :: target_status
  tt_thresholds :: class_thresholds
  tt_first_seen :: int
  tt_last_seen :: int
  tt_message_count :: u32
  tt_recent_messages :: "int list"
  tt_name :: "string option"
  tt_callsign :: "string option"
  tt_position :: "(f64 \<times> f64) option"
  tt_sog :: "f64 option"
  tt_cog :: "f64 option"
  tt_heading :: "f64 option"
  tt_last_cpa_m :: "f64 option"
  tt_last_tcpa_s :: "f64 option"
  tt_cpa_alarm_active :: bool

definition target_new :: "string \<Rightarrow> string \<Rightarrow> int \<Rightarrow> threshold_overrides option \<Rightarrow> tracked_target" where
  "target_new mmsi ctx now overrides =
     (let cls = classify_mmsi mmsi
      in \<lparr>tt_mmsi = mmsi, tt_context = ctx, tt_class = cls, tt_status = Acquiring,
          tt_thresholds = thresholds_for cls overrides, tt_first_seen = now, tt_last_seen = now,
          tt_message_count = 0, tt_recent_messages = [], tt_name = None, tt_callsign = None,
          tt_position = None, tt_sog = None, tt_cog = None, tt_heading = None, tt_last_cpa_m = None,
          tt_last_tcpa_s = None, tt_cpa_alarm_active = False\<rparr>)"

text \<open>\<^verbatim>\<open>Instant::checked_sub\<close>: an instant's seconds are a signed 64-bit number.\<close>

definition window_start :: "int \<Rightarrow> u64 \<Rightarrow> int" where
  "window_start now window =
     (if now - span_ns window < - (2 ^ 63) * 1000000000 then now else now - span_ns window)"

definition transition_of :: "tracked_target \<Rightarrow> target_status \<Rightarrow> status_transition" where
  "transition_of t new =
     \<lparr>tr_mmsi = tt_mmsi t, tr_context = tt_context t, tr_old_status = tt_status t, tr_new_status = new\<rparr>"

definition record_message :: "int \<Rightarrow> tracked_target \<Rightarrow> status_transition option \<times> tracked_target" where
  "record_message now t =
     (let start = window_start now (th_confirm_window (tt_thresholds t));
          t1 = t\<lparr>tt_last_seen := now, tt_message_count := tt_message_count t + 1,
                 tt_recent_messages := filter (\<lambda>m. start \<le> m) (tt_recent_messages t @ [now])\<rparr>
      in case tt_status t of
           Acquiring \<Rightarrow>
             if unat (th_confirm_count (tt_thresholds t1)) \<le> length (tt_recent_messages t1)
             then (Some (transition_of t1 Tracking), t1\<lparr>tt_status := Tracking\<rparr>)
             else (None, t1)
         | Lost \<Rightarrow> (Some (transition_of t1 Tracking), t1\<lparr>tt_status := Tracking, tt_recent_messages := [now]\<rparr>)
         | Tracking \<Rightarrow> (None, t1))"

definition update_from_value :: "string \<times> json \<Rightarrow> tracked_target \<Rightarrow> tracked_target" where
  "update_from_value pv t =
     (let (path, v) = pv in
      if path = ''name'' then t\<lparr>tt_name := as_str v\<rparr>
      else if path = ''communication.callsignVhf'' then t\<lparr>tt_callsign := as_str v\<rparr>
      else if path = ''navigation.position''
      then (case (Option.bind (jget ''latitude'' v) as_f64, Option.bind (jget ''longitude'' v) as_f64) of
              (Some lat, Some lon) \<Rightarrow> t\<lparr>tt_position := Some (lat, lon)\<rparr> | _ \<Rightarrow> t)
      else if path = ''navigation.speedOverGround'' then t\<lparr>tt_sog := as_f64 v\<rparr>
      else if path = ''navigation.courseOverGroundTrue'' then t\<lparr>tt_cog := as_f64 v\<rparr>
      else if path = ''navigation.headingTrue'' then t\<lparr>tt_heading := as_f64 v\<rparr>
      else t)"

definition update_from_values :: "(string \<times> json) list \<Rightarrow> tracked_target \<Rightarrow> tracked_target" where
  "update_from_values values t = fold update_from_value values t"

record tracker_config =
  tc_vessel :: "threshold_overrides option"
  tc_aton :: "threshold_overrides option"
  tc_base :: "threshold_overrides option"
  tc_sar :: "threshold_overrides option"

fun overrides_for :: "tracker_config \<Rightarrow> target_class \<Rightarrow> threshold_overrides option" where
  "overrides_for c CVessel = tc_vessel c"
| "overrides_for c CAton = tc_aton c"
| "overrides_for c CBase = tc_base c"
| "overrides_for c CSar = tc_sar c"

record ais_tracker =
  at_targets :: "tracked_target hmap"
  at_self_uri :: string
  at_config :: tracker_config

definition tracker_new :: "string \<Rightarrow> tracker_config \<Rightarrow> ais_tracker" where
  "tracker_new uri c = \<lparr>at_targets = [], at_self_uri = uri, at_config = c\<rparr>"

definition count_status :: "target_status \<Rightarrow> ais_tracker \<Rightarrow> nat" where
  "count_status st a = length (filter (\<lambda>(_, t). tt_status t = st) (at_targets a))"

definition count_by_status :: "ais_tracker \<Rightarrow> nat \<times> nat \<times> nat" where
  "count_by_status a = (count_status Tracking a, count_status Lost a, count_status Acquiring a)"

definition parse_mmsi :: "string \<Rightarrow> string option" where
  "parse_mmsi ctx = strip_prefix mmsi_prefix ctx"

definition update_target :: "string \<Rightarrow> (string \<times> json) list \<Rightarrow> int \<Rightarrow> ais_tracker \<Rightarrow> status_transition option \<times> ais_tracker" where
  "update_target ctx values now a =
     (if ends_with ctx (at_self_uri a) \<or> ctx = ''vessels.self'' then (None, a)
      else (case parse_mmsi ctx of
              None \<Rightarrow> (None, a)
            | Some mmsi \<Rightarrow>
                (let t = unwrap_or (map_of (at_targets a) mmsi)
                           (target_new mmsi ctx now (overrides_for (at_config a) (classify_mmsi mmsi)));
                     (tr, t') = record_message now (update_from_values values t)
                 in (tr, a\<lparr>at_targets := hm_insert mmsi t' (at_targets a)\<rparr>))))"

text \<open>
  One target at a tick: the transition, and what is left of it. The sum of the two spans panics
  when its seconds do not fit in 64 bits.
\<close>

definition tick_target :: "int \<Rightarrow> string \<Rightarrow> tracked_target \<Rightarrow> (status_transition option \<times> tracked_target option) option" where
  "tick_target now mmsi t =
     (let elapsed = max 0 (now - tt_last_seen t); th = tt_thresholds t in
      case tt_status t of
        Acquiring \<Rightarrow> Some (None, if span_ns (th_confirm_window th) < elapsed then None else Some t)
      | Tracking \<Rightarrow>
          if span_ns (th_lost_after th) < elapsed
          then Some (Some \<lparr>tr_mmsi = mmsi, tr_context = tt_context t, tr_old_status = Tracking, tr_new_status = Lost\<rparr>,
                     Some (t\<lparr>tt_status := Lost\<rparr>))
          else Some (None, Some t)
      | Lost \<Rightarrow>
          if 2 ^ 64 \<le> unat (th_lost_after th) + unat (th_remove_after th) then None
          else Some (None, if span_ns (th_lost_after th) + span_ns (th_remove_after th) < elapsed then None else Some t))"

fun tick_targets :: "int \<Rightarrow> tracked_target hmap \<Rightarrow> (status_transition list \<times> tracked_target hmap) option" where
  "tick_targets now [] = Some ([], [])"
| "tick_targets now ((k, t) # ts) =
     Option.bind (tick_target now k t) (\<lambda>(tr, t').
       map_option (\<lambda>(trs, ts'). ((case tr of None \<Rightarrow> trs | Some x \<Rightarrow> x # trs),
                                 (case t' of None \<Rightarrow> ts' | Some y \<Rightarrow> (k, y) # ts')))
         (tick_targets now ts))"

definition tracker_tick :: "int \<Rightarrow> ais_tracker \<Rightarrow> (status_transition list \<times> ais_tracker) option" where
  "tracker_tick now a = map_option (\<lambda>(trs, ts). (trs, a\<lparr>at_targets := ts\<rparr>)) (tick_targets now (at_targets a))"

record target_cpa_snapshot =
  cs_mmsi :: string
  cs_context :: string
  cs_motion :: motion
  cs_cpa_alarm_active :: bool

definition targets_for_cpa :: "ais_tracker \<Rightarrow> target_cpa_snapshot list" where
  "targets_for_cpa a =
     List.map_filter (\<lambda>(_, t).
       case tt_position t of
         None \<Rightarrow> None
       | Some (lat, lon) \<Rightarrow>
           if tt_status t = Tracking
           then Some \<lparr>cs_mmsi = tt_mmsi t, cs_context = tt_context t,
                      cs_motion = \<lparr>mo_lat = lat, mo_lon = lon, mo_sog = unwrap_or (tt_sog t) (Fin 0),
                                   mo_cog = unwrap_or (tt_cog t) (Fin 0)\<rparr>,
                      cs_cpa_alarm_active = tt_cpa_alarm_active t\<rparr>
           else None) (at_targets a)"

definition update_target_cpa :: "string \<Rightarrow> cpa_result \<Rightarrow> bool \<Rightarrow> ais_tracker \<Rightarrow> ais_tracker" where
  "update_target_cpa mmsi r active a =
     (case map_of (at_targets a) mmsi of
        None \<Rightarrow> a
      | Some t \<Rightarrow> a\<lparr>at_targets := hm_insert mmsi
          (t\<lparr>tt_last_cpa_m := Some (cpa_m r), tt_last_tcpa_s := Some (tcpa_s r), tt_cpa_alarm_active := active\<rparr>)
          (at_targets a)\<rparr>)"

end
