(* ===== verification/PluginHost.thy ===== *)
theory PluginHost
  imports Store
begin

text \<open>
  What the server gives an in-process plugin (\<^verbatim>\<open>signalk-server/src/plugins/host.rs\<close>): the
  context of a plugin with its status and its subscriptions, the chain of delta input handlers in
  front of the store (\<^verbatim>\<open>delta_filter.rs\<close>), the registry of PUT handlers and the table of
  routes (\<^verbatim>\<open>routes.rs\<close>). Handlers are functions or opaque values; a hash map is a list in
  its order of iteration.
\<close>

section \<open>Delta input handlers\<close>

type_synonym delta_filter_chain = "(string \<times> (delta \<Rightarrow> delta option)) list"

definition chain_register :: "string \<Rightarrow> (delta \<Rightarrow> delta option) \<Rightarrow> delta_filter_chain \<Rightarrow> delta_filter_chain" where
  "chain_register pid h c = c @ [(pid, h)]"

definition chain_remove_plugin :: "string \<Rightarrow> delta_filter_chain \<Rightarrow> delta_filter_chain" where
  "chain_remove_plugin pid c = filter (\<lambda>(p, _). p \<noteq> pid) c"

fun chain_apply :: "delta_filter_chain \<Rightarrow> delta \<Rightarrow> delta option" where
  "chain_apply [] d = Some d"
| "chain_apply ((p, h) # c) d = (case h d of Some d' \<Rightarrow> chain_apply c d' | None \<Rightarrow> None)"

definition handle_message :: "(json \<Rightarrow> string) \<Rightarrow> datetime \<Rightarrow> delta_filter_chain \<Rightarrow> delta \<Rightarrow> store \<Rightarrow> store" where
  "handle_message disp now c d s = (case chain_apply c d of Some d' \<Rightarrow> apply_delta disp now d' s | None \<Rightarrow> s)"

section \<open>Reading the store\<close>

definition ctx_get_self_path :: "store \<Rightarrow> string \<Rightarrow> json option" where
  "ctx_get_self_path s path = map_option sk_value (get_self_path s path)"

definition ctx_get_self_path_sources :: "store \<Rightarrow> string \<Rightarrow> json hmap option" where
  "ctx_get_self_path_sources s path =
     map_option (map (\<lambda>(src, sv). (src, sk_value sv))) (get_self_path_sources s path)"

text \<open>\<^verbatim>\<open>splitn(3, '.')\<close>.\<close>

definition split3 :: "string \<Rightarrow> string list" where
  "split3 s = (case split_on CHR ''.'' s of a # b # c # r \<Rightarrow> [a, b, join_with ''.'' (c # r)] | ps \<Rightarrow> ps)"

definition ctx_get_path :: "store \<Rightarrow> string \<Rightarrow> json option" where
  "ctx_get_path s full_path =
     (case split3 full_path of
        [a, vessel, path] \<Rightarrow>
          if a = ''vessels''
          then map_option sk_value (get_vessel_path s (if vessel = ''self'' then st_self_uri s else vessel) path)
          else map_option sk_value (get_self_path s full_path)
      | _ \<Rightarrow> map_option sk_value (get_self_path s full_path))"

section \<open>Subscriptions of a plugin\<close>

record subscription_spec =
  ss_context :: string
  ss_patterns :: "string list"

text \<open>Whether a delta that the store sent is handed to the callback.\<close>

definition spec_delivers :: "subscription_spec \<Rightarrow> delta \<Rightarrow> bool" where
  "spec_delivers spec d \<longleftrightarrow>
     (ss_context spec = ''*'' \<or> ss_context spec = unwrap_or (d_context d) ''vessels.self'') \<and>
     (\<exists>u\<in>set (d_updates d). \<exists>pv\<in>set (u_values u). \<exists>pat\<in>set (ss_patterns spec). matches_pattern pat (pv_path pv))"

record plugin_context =
  px_plugin_id :: string
  px_status :: string
  px_error :: "string option"
  px_subscriptions :: "(u64 \<times> subscription_spec) list"
  px_next_sub_id :: u64

definition context_new :: "string \<Rightarrow> plugin_context" where
  "context_new pid =
     \<lparr>px_plugin_id = pid, px_status = [], px_error = None, px_subscriptions = [], px_next_sub_id = 1\<rparr>"

definition ctx_subscribe :: "subscription_spec \<Rightarrow> plugin_context \<Rightarrow> u64 \<times> plugin_context" where
  "ctx_subscribe spec x =
     (let i = px_next_sub_id x
      in (i, x\<lparr>px_next_sub_id := i + 1, px_subscriptions := AList.update i spec (px_subscriptions x)\<rparr>))"

definition ctx_unsubscribe :: "u64 \<Rightarrow> plugin_context \<Rightarrow> plugin_context" where
  "ctx_unsubscribe i x = x\<lparr>px_subscriptions := AList.delete i (px_subscriptions x)\<rparr>"

definition ctx_set_status :: "string \<Rightarrow> plugin_context \<Rightarrow> plugin_context" where
  "ctx_set_status msg x = x\<lparr>px_status := msg, px_error := None\<rparr>"

definition ctx_set_error :: "string \<Rightarrow> plugin_context \<Rightarrow> plugin_context" where
  "ctx_set_error msg x = x\<lparr>px_error := Some msg\<rparr>"

definition cleanup_plugin :: "plugin_context \<Rightarrow> plugin_context" where
  "cleanup_plugin x = x\<lparr>px_subscriptions := []\<rparr>"

section \<open>PUT handlers and routes\<close>

type_synonym 'h put_registry = "(string \<times> 'h) hmap"

definition put_register :: "string \<Rightarrow> string \<Rightarrow> 'h \<Rightarrow> 'h put_registry \<Rightarrow> 'h put_registry" where
  "put_register path pid h r = hm_insert path (pid, h) r"

definition put_find :: "string \<Rightarrow> 'h put_registry \<Rightarrow> (string \<times> 'h) option" where
  "put_find path r = map_option snd (List.find (\<lambda>(pattern, _). matches_pattern pattern path) r)"

definition put_remove_plugin :: "string \<Rightarrow> 'h put_registry \<Rightarrow> 'h put_registry" where
  "put_remove_plugin pid r = filter (\<lambda>(_, (p, _)). p \<noteq> pid) r"

record 'h registered_route =
  rr_method :: string
  rr_path :: string
  rr_handler :: 'h

type_synonym 'h route_table = "string \<Rightarrow> 'h registered_route list option"

definition route_register :: "string \<Rightarrow> 'h registered_route list \<Rightarrow> 'h route_table \<Rightarrow> 'h route_table" where
  "route_register pid rs t = t(pid \<mapsto> rs)"

definition route_remove :: "string \<Rightarrow> 'h route_table \<Rightarrow> 'h route_table" where
  "route_remove pid t = t(pid := None)"

definition has_routes :: "string \<Rightarrow> 'h route_table \<Rightarrow> bool" where
  "has_routes pid t \<longleftrightarrow> t pid \<noteq> None"

definition route_handle :: "string \<Rightarrow> string \<Rightarrow> string \<Rightarrow> ('q \<Rightarrow> 'r) route_table \<Rightarrow> 'q \<Rightarrow> 'r option" where
  "route_handle pid method path t q =
     Option.bind (t pid) (\<lambda>rs.
       map_option (\<lambda>r. rr_handler r q) (List.find (\<lambda>r. rr_method r = method \<and> rr_path r = path) rs))"

end
