(* ===== verification/AisPlugin.thy ===== *)
theory AisPlugin
  imports Ais PluginHost
begin

text \<open>
  The plugin around the tracker (\<^verbatim>\<open>plugins/ais-status/src/lib.rs\<close>): its callback for the
  deltas of all vessels, the deltas it sends, its periodic collision check, and its place in the
  server: what it sends goes through the store and comes back to it as everybody's deltas do.
\<close>

section \<open>Status deltas\<close>

fun class_to_str :: "target_class \<Rightarrow> string" where
  "class_to_str CVessel = ''A''"
| "class_to_str CAton = ''aton''"
| "class_to_str CBase = ''base''"
| "class_to_str CSar = ''sar''"

definition status_values :: "status_transition \<Rightarrow> path_value list" where
  "status_values tr =
     path_value_new ''sensors.ais.status'' (JStr (status_str (tr_new_status tr)))
     # (if tr_old_status tr = Acquiring \<and> tr_new_status tr = Tracking
        then [path_value_new ''sensors.ais.class''
                (JStr (class_to_str (classify_mmsi (unwrap_or (parse_mmsi (tr_context tr)) (tr_mmsi tr)))))]
        else [])"

definition status_delta :: "datetime \<Rightarrow> status_transition \<Rightarrow> delta" where
  "status_delta utc tr = with_context (tr_context tr) [update_new utc (source_plugin ''ais-status'') (status_values tr)]"

definition ais_spec :: subscription_spec where
  "ais_spec = \<lparr>ss_context = ''*'', ss_patterns = [''**'']\<rparr>"

definition delta_pairs :: "delta \<Rightarrow> (string \<times> json) list" where
  "delta_pairs d = concat (map (\<lambda>u. map (\<lambda>pv. (pv_path pv, pv_value pv)) (u_values u)) (d_updates d))"

definition ais_callback :: "int \<Rightarrow> delta \<Rightarrow> ais_tracker \<Rightarrow> status_transition option \<times> ais_tracker" where
  "ais_callback now d a =
     (case d_context d of
        None \<Rightarrow> (None, a)
      | Some ctx \<Rightarrow> if \<not> starts_with ctx mmsi_prefix then (None, a) else update_target ctx (delta_pairs d) now a)"

section \<open>The collision check\<close>

record cpa_config =
  cc_warn_m :: "f64 option"
  cc_alarm_m :: "f64 option"
  cc_tcpa_max_s :: f64

definition own_motion :: "store \<Rightarrow> motion option" where
  "own_motion s =
     Option.bind (ctx_get_self_path s ''navigation.position'') (\<lambda>pos.
       Option.bind (Option.bind (jget ''latitude'' pos) as_f64) (\<lambda>lat.
         Option.bind (Option.bind (jget ''longitude'' pos) as_f64) (\<lambda>lon.
           Some \<lparr>mo_lat = lat, mo_lon = lon,
                 mo_sog = unwrap_or (Option.bind (ctx_get_self_path s ''navigation.speedOverGround'') as_f64) (Fin 0),
                 mo_cog = unwrap_or (Option.bind (ctx_get_self_path s ''navigation.courseOverGroundTrue'') as_f64) (Fin 0)\<rparr>)))"

fun cpa_snapshots :: "libm \<Rightarrow> cpa_config \<Rightarrow> motion \<Rightarrow> target_cpa_snapshot list \<Rightarrow> ais_tracker
    \<Rightarrow> (string \<times> cpa_result) list \<times> (string \<times> cpa_level option) list \<times> ais_tracker" where
  "cpa_snapshots m cfg own [] a = ([], [], a)"
| "cpa_snapshots m cfg own (sn # sns) a =
     (case compute_cpa m own (cs_motion sn) of
        None \<Rightarrow> cpa_snapshots m cfg own sns a
      | Some r \<Rightarrow>
          (let level = classify_cpa_alarm (cpa_m r) (tcpa_s r) (cc_tcpa_max_s cfg) (cc_warn_m cfg) (cc_alarm_m cfg);
               active = level \<noteq> None;
               changed = (active \<noteq> cs_cpa_alarm_active sn);
               (ds, cs, a') = cpa_snapshots m cfg own sns (update_target_cpa (cs_mmsi sn) r active a)
           in ((cs_context sn, r) # ds, (if changed then (cs_mmsi sn, level) # cs else cs), a')))"

definition cpa_delta :: "datetime \<Rightarrow> string \<times> cpa_result \<Rightarrow> delta" where
  "cpa_delta utc cr =
     with_context (fst cr) [update_new utc (source_plugin ''ais-status'')
       [path_value_new ''navigation.closestApproach.distance'' (json_f64 (cpa_m (snd cr))),
        path_value_new ''navigation.closestApproach.timeTo'' (json_f64 (tcpa_s (snd cr)))]]"

definition collision_value :: "string \<Rightarrow> cpa_level option \<Rightarrow> json" where
  "collision_value mmsi level =
     (case level of
        Some l \<Rightarrow> json_obj [(''state'', JStr (case l of CpaAlarm \<Rightarrow> ''alarm'' | CpaWarn \<Rightarrow> ''warn'')),
                          (''method'', JArr (case l of CpaAlarm \<Rightarrow> [JStr ''visual'', JStr ''sound''] | CpaWarn \<Rightarrow> [JStr ''visual''])),
                          (''message'', JStr (''Collision risk: MMSI '' @ mmsi))]
      | None \<Rightarrow> json_obj [(''state'', JStr ''normal''), (''method'', JArr []), (''message'', JStr [])])"

definition collision_delta :: "datetime \<Rightarrow> string \<times> cpa_level option \<Rightarrow> delta" where
  "collision_delta utc cl =
     self_vessel [update_new utc (source_plugin ''ais-status'')
       [path_value_new (''notifications.collision.mmsi-'' @ fst cl) (collision_value (fst cl) (snd cl))]]"

definition run_cpa_tick :: "libm \<Rightarrow> cpa_config \<Rightarrow> datetime \<Rightarrow> store \<Rightarrow> ais_tracker \<Rightarrow> delta list \<times> ais_tracker" where
  "run_cpa_tick m cfg utc s a =
     (case own_motion s of
        None \<Rightarrow> ([], a)
      | Some own \<Rightarrow>
          (let (ds, cs, a') = cpa_snapshots m cfg own (targets_for_cpa a) a
           in (map (cpa_delta utc) ds @ map (collision_delta utc) cs, a')))"

section \<open>The plugin in the server\<close>

text \<open>
  The tick sends the status deltas of its transitions and then, when a distance is configured, those
  of the collision check. What the store sends is numbered; the plugin's receiver reads one message
  at a time, hands it to the callback and sends the status delta of a transition. An outside delta
  goes to the store only. Every delta of the plugin passes the chain of input handlers, which is
  empty here.
\<close>

record ais_system =
  sy_store :: store
  sy_tracker :: ais_tracker
  sy_received :: nat

definition send_all :: "(json \<Rightarrow> string) \<Rightarrow> datetime \<Rightarrow> delta list \<Rightarrow> store \<Rightarrow> store" where
  "send_all disp now ds s = fold (handle_message disp now []) ds s"

definition ais_tick :: "libm \<Rightarrow> cpa_config \<Rightarrow> (json \<Rightarrow> string) \<Rightarrow> datetime \<Rightarrow> int \<Rightarrow> ais_system \<Rightarrow> ais_system option" where
  "ais_tick m cfg disp utc now y =
     map_option (\<lambda>(trs, a).
         (let s1 = send_all disp utc (map (status_delta utc) trs) (sy_store y);
              (ds, a') = (if cc_warn_m cfg \<noteq> None \<or> cc_alarm_m cfg \<noteq> None then run_cpa_tick m cfg utc s1 a else ([], a))
          in y\<lparr>sy_store := send_all disp utc ds s1, sy_tracker := a'\<rparr>))
       (tracker_tick now (sy_tracker y))"

definition ais_receive :: "(json \<Rightarrow> string) \<Rightarrow> datetime \<Rightarrow> int \<Rightarrow> ais_system \<Rightarrow> ais_system" where
  "ais_receive disp utc now y =
     (let d = st_sent (sy_store y) ! sy_received y;
          y1 = y\<lparr>sy_received := Suc (sy_received y)\<rparr>
      in if \<not> spec_delivers ais_spec d then y1
         else (let (tr, a) = ais_callback now d (sy_tracker y)
               in y1\<lparr>sy_tracker := a,
                     sy_store := (case tr of Some t \<Rightarrow> handle_message disp utc [] (status_delta utc t) (sy_store y)
                                  | None \<Rightarrow> sy_store y)\<rparr>))"

inductive ais_step :: "libm \<Rightarrow> cpa_config \<Rightarrow> (json \<Rightarrow> string) \<Rightarrow> ais_system \<Rightarrow> ais_system \<Rightarrow> bool"
  for m cfg disp where
  tick: "ais_tick m cfg disp utc now y = Some z \<Longrightarrow> ais_step m cfg disp y z"
| receive: "sy_received y < length (st_sent (sy_store y)) \<Longrightarrow> ais_step m cfg disp y (ais_receive disp utc now y)"
| outside: "\<forall>u\<in>set (d_updates d). \<forall>pv\<in>set (u_values u). pv_path pv \<noteq> ''sensors.ais.status'' \<Longrightarrow>
     ais_step m cfg disp y (y\<lparr>sy_store := apply_delta disp utc d (sy_store y)\<rparr>)"

inductive_cases ais_stepE [consumes 1, case_names tick receive outside]: "ais_step m cfg disp y z"

text \<open>The tracker skips the contexts that end with the word it is given for the own vessel.\<close>

definition ais_start :: "tracker_config \<Rightarrow> store \<Rightarrow> ais_system" where
  "ais_start tcfg s =
     \<lparr>sy_store = s, sy_tracker = tracker_new ''self'' tcfg, sy_received = length (st_sent s)\<rparr>"

end
