(* ===== verification/AisSpec.thy ===== *)
theory AisSpec
  imports StoreSpec AisPlugin F64Error
begin

text \<open>
  What the AIS plugin guarantees and what it does not: when a target is confirmed, how the alarm
  levels of the collision check reach the store, and what its own status deltas do to the lifecycle
  of its targets.
\<close>

section \<open>What a delta does to one path\<close>

lemma fold_apply_value_path:
  assumes "fold (apply_value now uri src ts) pvs (s, ap) = (s', ap')"
  shows "get_vessel_path s' u p = get_vessel_path s u p \<or>
         (u = uri \<and> (\<exists>pv\<in>set pvs. pv_path pv = p \<and> get_vessel_path s' u p = Some (signalk_value_new (pv_value pv) src ts)))"
  using assms
proof (induction pvs arbitrary: s ap)
  case (Cons pv pvs)
  obtain s1 ap1 where 1: "apply_value now uri src ts pv (s, ap) = (s1, ap1)"
    by (cases "apply_value now uri src ts pv (s, ap)")
  then have "fold (apply_value now uri src ts) pvs (s1, ap1) = (s', ap')" using Cons.prems by simp
  from Cons.IH [OF this] apply_value_get(1) [OF 1, of u p] show ?case by (auto split: if_splits)
qed auto

lemma fold_apply_value_grows:
  assumes "fold (apply_value now uri src ts) pvs (s, ap) = (s', ap')"
  shows "\<exists>more. ap' = ap @ more"
  using assms
proof (induction pvs arbitrary: s ap)
  case (Cons pv pvs)
  obtain s1 ap1 where 1: "apply_value now uri src ts pv (s, ap) = (s1, ap1)"
    by (cases "apply_value now uri src ts pv (s, ap)")
  then have "fold (apply_value now uri src ts) pvs (s1, ap1) = (s', ap')" using Cons.prems by simp
  from Cons.IH [OF this] apply_value_get(2) [OF 1] show ?case by (auto split: if_splits)
qed auto

definition written :: "(json \<Rightarrow> string) \<Rightarrow> update list \<Rightarrow> string \<Rightarrow> signalk_value \<Rightarrow> bool" where
  "written disp us p v \<longleftrightarrow>
     (\<exists>u\<in>set us. sk_source v = make_source_ref disp (u_source u) \<and> p \<in> pv_path ` set (u_values u))"

lemma apply_update_path:
  assumes "apply_update disp now uri u (s, us) = (s', us')"
  shows "get_vessel_path s' w p = get_vessel_path s w p \<or>
         (w = uri \<and> (\<exists>v. get_vessel_path s' w p = Some v \<and> written disp [u] p v))"
    and "\<exists>more. us' = us @ more"
proof -
  define src where "src = make_source_ref disp (u_source u)"
  obtain s1 ap where f: "fold (apply_value now uri src (u_timestamp u)) (u_values u)
      (register_source src (u_source u) s, []) = (s1, ap)"
    by (cases "fold (apply_value now uri src (u_timestamp u)) (u_values u) (register_source src (u_source u) s, [])")
  with assms have s': "s' = s1" and us': "us' = (if ap = [] then us else us @ [u\<lparr>u_values := ap\<rparr>])"
    by (simp_all add: apply_update_def src_def Let_def)
  show "get_vessel_path s' w p = get_vessel_path s w p \<or>
         (w = uri \<and> (\<exists>v. get_vessel_path s' w p = Some v \<and> written disp [u] p v))"
    using fold_apply_value_path [OF f, of w p] unfolding s' by (auto simp: written_def src_def)
  show "\<exists>more. us' = us @ more" by (auto simp: us')
qed

lemma fold_apply_update_path:
  assumes "fold (apply_update disp now uri) ups (s, us) = (s', us')"
  shows "get_vessel_path s' w p = get_vessel_path s w p \<or>
         (\<exists>v. get_vessel_path s' w p = Some v \<and> written disp ups p v)"
  using assms
proof (induction ups arbitrary: s us)
  case (Cons u ups)
  obtain s1 us1 where 1: "apply_update disp now uri u (s, us) = (s1, us1)"
    by (cases "apply_update disp now uri u (s, us)")
  then have "fold (apply_update disp now uri) ups (s1, us1) = (s', us')" using Cons.prems by simp
  from Cons.IH [OF this] apply_update_path(1) [OF 1, of w p] show ?case by (auto simp: written_def)
qed auto

lemma apply_delta_path:
  "get_vessel_path (apply_delta disp now d s) w p = get_vessel_path s w p \<or>
   (\<exists>v. get_vessel_path (apply_delta disp now d s) w p = Some v \<and> written disp (d_updates d) p v)"
proof (cases "strip_prefix ''vessels.'' (resolve_context s (d_context d))")
  case None
  then show ?thesis by (simp add: apply_delta_def)
next
  case (Some uri)
  obtain s' us where f: "fold (apply_update disp now uri) (d_updates d) (ensure_vessel uri s, []) = (s', us)"
    by (cases "fold (apply_update disp now uri) (d_updates d) (ensure_vessel uri s, [])")
  from fold_apply_update_path [OF f, of w p] show ?thesis by (auto simp: apply_delta_def Some f)
qed

lemma apply_delta_sent: "\<exists>new. st_sent (apply_delta disp now d s) = st_sent s @ new"
  using apply_delta_view [of disp now d s] by blast

text \<open>A delta with one update whose first value the store accepts is sent on, with that value.\<close>

lemma accepted_is_sent:
  assumes ctx: "d_context d = Some (''vessels.'' @ uri)" "uri \<noteq> ''self''"
    and ups: "d_updates d = [u]" and vals: "u_values u = pv # pvs"
    and acc: "accepts now s uri (make_source_ref disp (u_source u)) (pv_path pv)"
  shows "\<exists>d'. st_sent (apply_delta disp now d s) = st_sent s @ [d'] \<and> d_context d' = d_context d
           \<and> (\<exists>u'\<in>set (d_updates d'). u_values u' \<noteq> [])"
proof -
  define src where "src = make_source_ref disp (u_source u)"
  define r where "r = register_source src (u_source u) (ensure_vessel uri s)"
  have res: "strip_prefix ''vessels.'' (resolve_context s (d_context d)) = Some uri"
    using ctx by (simp add: resolve_context_def strip_prefix_Some)
  obtain s1 ap1 where 1: "apply_value now uri src (u_timestamp u) pv (r, []) = (s1, ap1)"
    by (cases "apply_value now uri src (u_timestamp u) pv (r, [])")
  have "accepts now r uri src (pv_path pv)"
    using acc accepts_cong [of r s] by (simp add: r_def src_def)
  then have ap1: "ap1 = [pv]" using apply_value_get(2) [OF 1] by simp
  obtain s2 ap2 where 2: "fold (apply_value now uri src (u_timestamp u)) pvs (s1, ap1) = (s2, ap2)"
    by (cases "fold (apply_value now uri src (u_timestamp u)) pvs (s1, ap1)")
  have ne: "ap2 \<noteq> []" using fold_apply_value_grows [OF 2] ap1 by auto
  have "apply_update disp now uri u (ensure_vessel uri s, []) = (s2, [u\<lparr>u_values := ap2\<rparr>])"
    using 1 2 ne by (simp add: apply_update_def vals src_def [symmetric] r_def Let_def)
  moreover have "st_sent s2 = st_sent s"
    using fold_apply_value_frame [OF 2] apply_value_frame(5) [OF 1] by (simp add: r_def)
  ultimately show ?thesis using ne by (auto simp: apply_delta_def res ups broadcast_def Let_def)
qed

section \<open>The plugin hears itself\<close>

abbreviation status_path :: string where
  "status_path \<equiv> ''sensors.ais.status''"

definition owned :: "store \<Rightarrow> bool" where
  "owned s \<longleftrightarrow> (\<forall>w v. get_vessel_path s w status_path = Some v \<longrightarrow> sk_source v = ''ais-status'')"

lemma owned_accepts: "owned s \<Longrightarrow> accepts now s w ''ais-status'' status_path"
  by (cases "get_vessel_path s w status_path") (auto simp: owned_def intro: accepts_fresh_path accepts_same_source)

lemma owned_delta:
  assumes "owned s" and "\<And>u. u \<in> set (d_updates d) \<Longrightarrow> status_path \<in> pv_path ` set (u_values u) \<Longrightarrow> u_source u = source_plugin ''ais-status''"
  shows "owned (apply_delta disp now d s)"
  unfolding owned_def
proof (intro allI impI)
  fix w v assume v: "get_vessel_path (apply_delta disp now d s) w status_path = Some v"
  from apply_delta_path [of disp now d s w status_path] show "sk_source v = ''ais-status''"
  proof
    assume "get_vessel_path (apply_delta disp now d s) w status_path = get_vessel_path s w status_path"
    then show ?thesis using v assms(1) by (simp add: owned_def)
  next
    assume "\<exists>v. get_vessel_path (apply_delta disp now d s) w status_path = Some v \<and> written disp (d_updates d) status_path v"
    then obtain u where "u \<in> set (d_updates d)" "sk_source v = make_source_ref disp (u_source u)"
      "status_path \<in> pv_path ` set (u_values u)" using v by (auto simp: written_def)
    then show ?thesis using assms(2) by simp
  qed
qed

lemma handle_message_no_filter [simp]: "handle_message disp now [] d s = apply_delta disp now d s"
  by (simp add: handle_message_def)

text \<open>The plugin's deltas: none takes the status path from the plugin.\<close>

definition own_delta :: "delta \<Rightarrow> bool" where
  "own_delta d \<longleftrightarrow> (\<forall>u\<in>set (d_updates d). u_source u = source_plugin ''ais-status'')"

lemma own_delta_simps [simp]:
  "own_delta (status_delta utc tr)" "own_delta (cpa_delta utc cr)" "own_delta (collision_delta utc cl)"
  by (simp_all add: own_delta_def status_delta_def cpa_delta_def collision_delta_def delta_cons_defs)

lemma owned_own_delta: "owned s \<Longrightarrow> own_delta d \<Longrightarrow> owned (apply_delta disp now d s)"
  by (rule owned_delta) (auto simp: own_delta_def)

lemma send_all_frame:
  "\<exists>new. st_sent (send_all disp now ds s) = st_sent s @ new"
  "owned s \<Longrightarrow> \<forall>d\<in>set ds. own_delta d \<Longrightarrow> owned (send_all disp now ds s)"
proof -
  show "\<exists>new. st_sent (send_all disp now ds s) = st_sent s @ new"
  proof (induction ds arbitrary: s)
    case (Cons d ds)
    from Cons [of "apply_delta disp now d s"] apply_delta_sent [of disp now d s] show ?case
      by (auto simp: send_all_def)
  qed (simp add: send_all_def)
  show "owned s \<Longrightarrow> \<forall>d\<in>set ds. own_delta d \<Longrightarrow> owned (send_all disp now ds s)"
    by (induction ds arbitrary: s) (auto simp: send_all_def owned_own_delta)
qed

text \<open>A message for a context waits from a position on.\<close>

definition message_for :: "string \<Rightarrow> delta \<Rightarrow> bool" where
  "message_for ctx d \<longleftrightarrow> d_context d = Some ctx \<and> (\<exists>u\<in>set (d_updates d). u_values u \<noteq> [])"

definition waiting :: "nat \<Rightarrow> store \<Rightarrow> string \<Rightarrow> bool" where
  "waiting n s ctx \<longleftrightarrow> (\<exists>d\<in>set (drop n (st_sent s)). message_for ctx d)"

lemma waiting_grows: "waiting n s ctx \<Longrightarrow> st_sent s' = st_sent s @ new \<Longrightarrow> waiting n s' ctx"
  by (auto simp: waiting_def)

lemma waiting_apply: "waiting n s ctx \<Longrightarrow> waiting n (apply_delta disp now d s) ctx"
  using waiting_grows apply_delta_sent by metis

lemma waiting_send_all: "waiting n s ctx \<Longrightarrow> waiting n (send_all disp now ds s) ctx"
  using waiting_grows send_all_frame(1) by metis

lemma status_delta_waits:
  assumes "owned s" and ctx: "tr_context tr = mmsi_prefix @ k" and n: "n \<le> length (st_sent s)"
  shows "waiting n (apply_delta disp now (status_delta utc tr) s) (tr_context tr)"
proof -
  have acc: "accepts now s (''urn:mrn:imo:mmsi:'' @ k) ''ais-status'' status_path"
    using assms(1) by (rule owned_accepts)
  have "\<exists>d'. st_sent (apply_delta disp now (status_delta utc tr) s) = st_sent s @ [d'] \<and> message_for (tr_context tr) d'"
    using accepted_is_sent [of "status_delta utc tr" "''urn:mrn:imo:mmsi:'' @ k"] acc
    by (force simp: status_delta_def status_values_def delta_cons_defs ctx mmsi_prefix_def message_for_def
        make_source_ref_plugin [unfolded source_plugin_def])
  then show ?thesis using n by (auto simp: waiting_def)
qed

lemma status_deltas_wait:
  assumes "owned s" and "n \<le> length (st_sent s)" and "\<forall>tr\<in>set trs. \<exists>k. tr_context tr = mmsi_prefix @ k" and "tr \<in> set trs"
  shows "waiting n (send_all disp now (map (status_delta utc) trs) s) (tr_context tr)"
  using assms
proof (induction trs arbitrary: s)
  case (Cons x trs)
  define s1 where "s1 = apply_delta disp now (status_delta utc x) s"
  have s1: "owned s1" "n \<le> length (st_sent s1)"
    using Cons.prems(1,2) apply_delta_sent [of disp now "status_delta utc x" s] by (auto simp: s1_def owned_own_delta)
  have step: "send_all disp now (status_delta utc x # map (status_delta utc) trs) s
      = send_all disp now (map (status_delta utc) trs) s1"
    by (simp add: send_all_def s1_def)
  show ?case
  proof (cases "tr \<in> set trs")
    case True
    then show ?thesis using Cons.IH [OF s1] Cons.prems by (simp add: step)
  next
    case False
    then have "waiting n s1 (tr_context tr)" using Cons.prems status_delta_waits [of s x _ n] by (auto simp: s1_def)
    then show ?thesis by (simp add: step waiting_send_all)
  qed
qed simp

section \<open>The tracker's invariant\<close>

definition tracker_ok :: "ais_tracker \<Rightarrow> bool" where
  "tracker_ok a \<longleftrightarrow> at_self_uri a = ''self'' \<and> hm_ok (at_targets a) \<and>
     (\<forall>k t. map_of (at_targets a) k = Some t \<longrightarrow>
        tt_mmsi t = k \<and> tt_context t = mmsi_prefix @ k \<and> \<not> ends_with (tt_context t) ''self'')"

lemma tracker_okD:
  assumes "tracker_ok a" and "map_of (at_targets a) k = Some t"
  shows "tt_context t = mmsi_prefix @ k" "\<not> ends_with (mmsi_prefix @ k) ''self''" "tt_mmsi t = k"
proof -
  have "tt_mmsi t = k \<and> tt_context t = mmsi_prefix @ k \<and> \<not> ends_with (tt_context t) ''self''"
    using assms unfolding tracker_ok_def by blast
  then show "tt_context t = mmsi_prefix @ k" and "\<not> ends_with (mmsi_prefix @ k) ''self''" and "tt_mmsi t = k" by metis+
qed

lemma tracker_okI:
  assumes "at_self_uri a = ''self''" and "hm_ok (at_targets a)"
    and "\<And>k t. map_of (at_targets a) k = Some t \<Longrightarrow> tt_mmsi t = k \<and> tt_context t = mmsi_prefix @ k \<and> \<not> ends_with (mmsi_prefix @ k) ''self''"
  shows "tracker_ok a"
  unfolding tracker_ok_def using assms by metis

lemma tick_target_life:
  assumes "tick_target now k t = Some (tr, Some t')"
  shows "t' = t \<and> tr = None \<or> tt_status t = Tracking \<and> t' = t\<lparr>tt_status := Lost\<rparr>
    \<and> tr = Some \<lparr>tr_mmsi = k, tr_context = tt_context t, tr_old_status = Tracking, tr_new_status = Lost\<rparr>"
  using assms by (auto simp: tick_target_def Let_def split: target_status.splits if_splits)

lemma tick_target_removed: "tick_target now k t = Some (tr, None) \<Longrightarrow> tr = None"
  by (auto simp: tick_target_def Let_def split: target_status.splits if_splits)

definition aged :: "status_transition list \<Rightarrow> tracked_target \<Rightarrow> tracked_target \<Rightarrow> bool" where
  "aged trs t t' \<longleftrightarrow> t' = t \<or>
     tt_status t = Tracking \<and> t' = t\<lparr>tt_status := Lost\<rparr> \<and> tt_context t \<in> tr_context ` set trs"

lemma aged_mono: "aged trs t t' \<Longrightarrow> set trs \<subseteq> set trs' \<Longrightarrow> aged trs' t t'"
  unfolding aged_def by blast

lemma tick_targets_Cons:
  assumes "tick_targets now ((k, t) # ts) = Some (trs, ts')"
  obtains tr t' trs1 ts1 where "tick_target now k t = Some (tr, t')" "tick_targets now ts = Some (trs1, ts1)"
    "trs = (case tr of None \<Rightarrow> trs1 | Some x \<Rightarrow> x # trs1)" "ts' = (case t' of None \<Rightarrow> ts1 | Some y \<Rightarrow> (k, y) # ts1)"
  using assms by (auto split: bind_splits prod.splits)

lemma tick_targets_keys:
  assumes "tick_targets now ts = Some (trs, ts')"
  shows "set (map fst ts') \<subseteq> set (map fst ts)" and "hm_ok ts \<Longrightarrow> hm_ok ts'"
proof -
  have "set (map fst ts') \<subseteq> set (map fst ts) \<and> (hm_ok ts \<longrightarrow> hm_ok ts')"
    using assms
  proof (induction ts arbitrary: trs ts')
    case (Cons a ts)
    obtain k t where a: "a = (k, t)" by (cases a)
    from Cons.prems obtain tr t' trs1 ts1 where r: "tick_targets now ts = Some (trs1, ts1)"
      and ts': "ts' = (case t' of None \<Rightarrow> ts1 | Some y \<Rightarrow> (k, y) # ts1)"
      unfolding a by (rule tick_targets_Cons)
    from Cons.IH [OF r] show ?case by (cases t') (auto simp: a ts')
  qed simp
  then show "set (map fst ts') \<subseteq> set (map fst ts)" "hm_ok ts \<Longrightarrow> hm_ok ts'" by simp_all
qed

lemma tick_targets_life:
  assumes "tick_targets now ts = Some (trs, ts')" and "hm_ok ts" and "map_of ts' k' = Some t'"
  shows "\<exists>t. map_of ts k' = Some t \<and> aged trs t t'"
  using assms
proof (induction ts arbitrary: trs ts')
  case (Cons a ts)
  obtain k t where a: "a = (k, t)" by (cases a)
  from Cons.prems(1) obtain tr y trs1 ts1 where t: "tick_target now k t = Some (tr, y)"
    and r: "tick_targets now ts = Some (trs1, ts1)"
    and trs: "trs = (case tr of None \<Rightarrow> trs1 | Some x \<Rightarrow> x # trs1)"
    and ts': "ts' = (case y of None \<Rightarrow> ts1 | Some y \<Rightarrow> (k, y) # ts1)"
    unfolding a by (rule tick_targets_Cons)
  have ok: "hm_ok ts" and new: "k \<notin> set (map fst ts)" using Cons.prems(2) by (auto simp: a)
  have mono: "set trs1 \<subseteq> set trs" by (auto simp: trs split: option.splits)
  have other: "\<exists>t. map_of ts k' = Some t \<and> aged trs t t'" if "map_of ts1 k' = Some t'"
    using Cons.IH [OF r ok that] aged_mono [OF _ mono] by blast
  show ?case
  proof (cases "k' = k")
    case True
    then have "map_of ts1 k' = None" using tick_targets_keys(1) [OF r] new by (auto simp: map_of_eq_None_iff)
    with Cons.prems(3) True have y: "y = Some t'" by (cases y) (auto simp: ts')
    from tick_target_life [OF t [unfolded y]] have "aged trs t t'" by (auto simp: aged_def trs)
    then show ?thesis by (simp add: a True)
  next
    case False
    then have "map_of ts1 k' = Some t'" using Cons.prems(3) by (cases y) (auto simp: ts')
    from other [OF this] False show ?thesis by (simp add: a)
  qed
qed simp

lemma tick_targets_transitions:
  assumes "tick_targets now ts = Some (trs, ts')" and "tr \<in> set trs"
  shows "\<exists>k t. (k, t) \<in> set ts \<and> tr_context tr = tt_context t \<and> tr_new_status tr = Lost"
  using assms
proof (induction ts arbitrary: trs ts')
  case (Cons a ts)
  obtain k t where a: "a = (k, t)" by (cases a)
  from Cons.prems(1) obtain x y trs1 ts1 where t: "tick_target now k t = Some (x, y)"
    and r: "tick_targets now ts = Some (trs1, ts1)"
    and trs: "trs = (case x of None \<Rightarrow> trs1 | Some x \<Rightarrow> x # trs1)"
    unfolding a by (rule tick_targets_Cons)
  show ?case
  proof (cases "tr \<in> set trs1")
    case True
    from Cons.IH [OF r this] show ?thesis by (auto simp: a)
  next
    case False
    then have x: "x = Some tr" using Cons.prems(2) by (cases x) (auto simp: trs)
    from t [unfolded x] tick_target_removed obtain y' where "y = Some y'" by (cases y) auto
    with tick_target_life [of now k t x y'] t x show ?thesis by (auto simp: a)
  qed
qed simp

text \<open>Everything but the lifecycle.\<close>

definition same_life :: "ais_tracker \<Rightarrow> ais_tracker \<Rightarrow> bool" where
  "same_life a b \<longleftrightarrow> at_self_uri a = at_self_uri b \<and> at_config a = at_config b \<and>
     (hm_ok (at_targets a) \<longrightarrow> hm_ok (at_targets b)) \<and>
     (\<forall>k. map_option (\<lambda>t. (tt_mmsi t, tt_context t, tt_status t)) (map_of (at_targets a) k)
        = map_option (\<lambda>t. (tt_mmsi t, tt_context t, tt_status t)) (map_of (at_targets b) k))"

lemma same_life_refl [simp]: "same_life a a"
  by (simp add: same_life_def)

lemma same_life_trans: "same_life a b \<Longrightarrow> same_life b c \<Longrightarrow> same_life a c"
  by (auto simp: same_life_def)

lemma same_life_cpa: "same_life a (update_target_cpa k r b a)"
  by (auto simp: same_life_def update_target_cpa_def split: option.splits)

lemma same_life_snapshots: "cpa_snapshots m cfg own sns a = (ds, cs, a') \<Longrightarrow> same_life a a'"
proof (induction sns arbitrary: a ds cs a')
  case (Cons sn sns)
  show ?case
  proof (cases "compute_cpa m own (cs_motion sn)")
    case None
    with Cons show ?thesis by simp
  next
    case (Some r)
    then obtain b ds1 cs1 where "cpa_snapshots m cfg own sns (update_target_cpa (cs_mmsi sn) r b a) = (ds1, cs1, a')"
      using Cons.prems by (auto simp: Let_def split: prod.splits)
    from Cons.IH [OF this] show ?thesis by (rule same_life_trans [OF same_life_cpa])
  qed
qed simp

lemma same_life_run: "run_cpa_tick m cfg utc s a = (ds, a') \<Longrightarrow> same_life a a' \<and> (\<forall>d\<in>set ds. own_delta d)"
  by (auto simp: run_cpa_tick_def Let_def split: option.splits prod.splits dest: same_life_snapshots)

lemma same_lifeD:
  assumes "same_life a b" and "map_of (at_targets b) k = Some t"
  shows "\<exists>t0. map_of (at_targets a) k = Some t0 \<and> tt_mmsi t0 = tt_mmsi t \<and> tt_context t0 = tt_context t \<and> tt_status t0 = tt_status t"
proof -
  have "map_option (\<lambda>t. (tt_mmsi t, tt_context t, tt_status t)) (map_of (at_targets a) k) = Some (tt_mmsi t, tt_context t, tt_status t)"
    using assms by (simp add: same_life_def)
  then show ?thesis by auto
qed

lemma tracker_ok_same:
  assumes "tracker_ok a" and "same_life a b" shows "tracker_ok b"
proof (rule tracker_okI)
  show "at_self_uri b = ''self''" "hm_ok (at_targets b)" using assms by (simp_all add: tracker_ok_def same_life_def)
  fix k t assume "map_of (at_targets b) k = Some t"
  from same_lifeD [OF assms(2) this] tracker_okD [OF assms(1)]
  show "tt_mmsi t = k \<and> tt_context t = mmsi_prefix @ k \<and> \<not> ends_with (mmsi_prefix @ k) ''self''" by metis
qed

lemma record_message_life:
  "record_message now t = (tr, t') \<Longrightarrow>
     tt_mmsi t' = tt_mmsi t \<and> tt_context t' = tt_context t \<and> (tt_status t' = Lost \<longrightarrow> False) \<and> tt_last_seen t' = now"
  by (auto simp: record_message_def Let_def split: target_status.splits if_splits)

lemma update_from_values_frame [simp]:
  "tt_mmsi (update_from_values vs t) = tt_mmsi t"
  "tt_context (update_from_values vs t) = tt_context t"
  "tt_status (update_from_values vs t) = tt_status t"
  "tt_thresholds (update_from_values vs t) = tt_thresholds t"
  "tt_recent_messages (update_from_values vs t) = tt_recent_messages t"
  "tt_last_seen (update_from_values vs t) = tt_last_seen t"
proof -
  have v: "tt_mmsi (update_from_value v t) = tt_mmsi t \<and> tt_context (update_from_value v t) = tt_context t \<and> tt_status (update_from_value v t) = tt_status t
      \<and> tt_thresholds (update_from_value v t) = tt_thresholds t
      \<and> tt_recent_messages (update_from_value v t) = tt_recent_messages t
      \<and> tt_last_seen (update_from_value v t) = tt_last_seen t" for v t
    by (auto simp: update_from_value_def Let_def split: prod.splits option.splits)
  have "tt_mmsi (fold update_from_value vs t) = tt_mmsi t \<and> tt_context (fold update_from_value vs t) = tt_context t \<and> tt_status (fold update_from_value vs t) = tt_status t
      \<and> tt_thresholds (fold update_from_value vs t) = tt_thresholds t
      \<and> tt_recent_messages (fold update_from_value vs t) = tt_recent_messages t
      \<and> tt_last_seen (fold update_from_value vs t) = tt_last_seen t"
    by (induction vs arbitrary: t) (simp_all add: v)
  then show "tt_mmsi (update_from_values vs t) = tt_mmsi t"
    "tt_context (update_from_values vs t) = tt_context t"
    "tt_status (update_from_values vs t) = tt_status t"
    "tt_thresholds (update_from_values vs t) = tt_thresholds t"
    "tt_recent_messages (update_from_values vs t) = tt_recent_messages t"
    "tt_last_seen (update_from_values vs t) = tt_last_seen t"
    by (simp_all add: update_from_values_def)
qed

section \<open>No target stays lost\<close>

definition lost_waits :: "nat \<Rightarrow> store \<Rightarrow> ais_tracker \<Rightarrow> bool" where
  "lost_waits n s a \<longleftrightarrow>
     (\<forall>k t. map_of (at_targets a) k = Some t \<longrightarrow> tt_status t = Lost \<longrightarrow> waiting n s (tt_context t))"

lemma lost_waitsD: "lost_waits n s a \<Longrightarrow> map_of (at_targets a) k = Some t \<Longrightarrow> tt_status t = Lost \<Longrightarrow> waiting n s (tt_context t)"
  by (auto simp: lost_waits_def)

lemma lost_waits_same: "lost_waits n s a \<Longrightarrow> same_life a b \<Longrightarrow> lost_waits n s b"
  unfolding lost_waits_def by (metis same_lifeD)

lemma lost_waits_mono: "lost_waits n s a \<Longrightarrow> (\<And>c. waiting n s c \<Longrightarrow> waiting n s' c) \<Longrightarrow> lost_waits n s' a"
  unfolding lost_waits_def by blast

definition ais_inv :: "ais_system \<Rightarrow> bool" where
  "ais_inv y \<longleftrightarrow> tracker_ok (sy_tracker y) \<and> owned (sy_store y)
     \<and> sy_received y \<le> length (st_sent (sy_store y))
     \<and> lost_waits (sy_received y) (sy_store y) (sy_tracker y)"

lemma tracker_tick_ok:
  assumes "tracker_tick now a = Some (trs, a')" and "tracker_ok a"
  shows "tracker_ok a'" and "\<forall>tr\<in>set trs. \<exists>k. tr_context tr = mmsi_prefix @ k"
proof -
  from assms(1) obtain ts where t: "tick_targets now (at_targets a) = Some (trs, ts)" and a': "a' = a\<lparr>at_targets := ts\<rparr>"
    by (auto simp: tracker_tick_def)
  have ok: "hm_ok (at_targets a)" "at_self_uri a = ''self''" using assms(2) by (simp_all add: tracker_ok_def)
  show "tracker_ok a'"
  proof (rule tracker_okI)
    show "at_self_uri a' = ''self''" "hm_ok (at_targets a')" using ok tick_targets_keys(2) [OF t] by (simp_all add: a')
    fix k t' assume "map_of (at_targets a') k = Some t'"
    then have "map_of ts k = Some t'" by (simp add: a')
    from tick_targets_life [OF t ok(1) this] obtain t0 where "map_of (at_targets a) k = Some t0" "aged trs t0 t'" by blast
    then show "tt_mmsi t' = k \<and> tt_context t' = mmsi_prefix @ k \<and> \<not> ends_with (mmsi_prefix @ k) ''self''"
      using tracker_okD [OF assms(2)] by (auto simp: aged_def)
  qed
  show "\<forall>tr\<in>set trs. \<exists>k. tr_context tr = mmsi_prefix @ k"
  proof
    fix tr assume "tr \<in> set trs"
    from tick_targets_transitions [OF t this] obtain k t0 where k: "(k, t0) \<in> set (at_targets a)" "tr_context tr = tt_context t0"
      by blast
    from map_of_is_SomeI [OF ok(1) k(1)] tracker_okD(1) [OF assms(2)] k(2) show "\<exists>k. tr_context tr = mmsi_prefix @ k" by auto
  qed
qed

lemma tick_lost_waits:
  assumes t: "tracker_tick now a = Some (trs, a')" and ok: "tracker_ok a" and own: "owned s"
    and n: "n \<le> length (st_sent s)" and w: "lost_waits n s a"
  shows "lost_waits n (send_all disp utc (map (status_delta utc') trs) s) a'"
  unfolding lost_waits_def
proof (intro allI impI)
  fix k t' assume k: "map_of (at_targets a') k = Some t'" and lost: "tt_status t' = Lost"
  from t obtain ts where ts: "tick_targets now (at_targets a) = Some (trs, ts)" and a': "a' = a\<lparr>at_targets := ts\<rparr>"
    by (auto simp: tracker_tick_def)
  have hm: "hm_ok (at_targets a)" using ok by (simp add: tracker_ok_def)
  from tick_targets_life [OF ts hm] k obtain t0 where t0: "map_of (at_targets a) k = Some t0" "aged trs t0 t'"
    by (auto simp: a')
  show "waiting n (send_all disp utc (map (status_delta utc') trs) s) (tt_context t')"
  proof (cases "t' = t0")
    case True
    with lost_waitsD [OF w t0(1)] lost show ?thesis by (simp add: waiting_send_all)
  next
    case False
    then obtain tr where tr: "tr \<in> set trs" "tt_context t' = tr_context tr" using t0(2) by (auto simp: aged_def)
    from status_deltas_wait [OF own n tracker_tick_ok(2) [OF t ok] tr(1)] show ?thesis by (simp add: tr(2))
  qed
qed

lemma update_target_life:
  assumes "update_target ctx vs now a = (tr, a')" and ok: "tracker_ok a"
  shows "tracker_ok a'"
    and "map_of (at_targets a') k = Some t \<Longrightarrow> tt_status t = Lost \<Longrightarrow> map_of (at_targets a) k = Some t"
    and "map_of (at_targets a') k = Some t \<Longrightarrow> tt_status t = Lost \<Longrightarrow> ctx \<noteq> tt_context t"
    and "tr = Some x \<Longrightarrow> tr_context x = ctx"
proof -
  have "tracker_ok a' \<and>
     (map_of (at_targets a') k = Some t \<longrightarrow> tt_status t = Lost \<longrightarrow> map_of (at_targets a) k = Some t \<and> ctx \<noteq> tt_context t)
     \<and> (tr = Some x \<longrightarrow> tr_context x = ctx)"
  proof (cases "ends_with ctx (at_self_uri a) \<or> ctx = ''vessels.self'' \<or> parse_mmsi ctx = None")
    case True
    then have skip: "a' = a" "tr = None" using assms(1) by (auto simp: update_target_def split: if_splits)
    have "ctx \<noteq> tt_context t" if "map_of (at_targets a) k = Some t"
    proof
      assume c: "ctx = tt_context t"
      have "ctx = mmsi_prefix @ k" "\<not> ends_with ctx ''self''"
        using tracker_okD [OF ok that] by (simp_all add: c)
      moreover have "at_self_uri a = ''self''" using ok by (simp add: tracker_ok_def)
      moreover have "ends_with ''vessels.self'' ''self''" by (simp add: ends_with_def)
      ultimately show False using True by (auto simp: parse_mmsi_def)
    qed
    then show ?thesis using ok by (auto simp: skip)
  next
    case False
    then obtain m where m: "parse_mmsi ctx = Some m" by blast
    then have ctx: "ctx = mmsi_prefix @ m" by (simp add: parse_mmsi_def strip_prefix_Some)
    have self: "\<not> ends_with ctx ''self''" using False ok by (simp add: tracker_ok_def)
    define t0 where "t0 = unwrap_or (map_of (at_targets a) m)
      (target_new m ctx now (overrides_for (at_config a) (classify_mmsi m)))"
    have c0: "tt_context t0 = ctx" "tt_mmsi t0 = m"
      by (cases "map_of (at_targets a) m"; simp add: t0_def ctx target_new_def Let_def tracker_okD(1) [OF ok])
        (cases "map_of (at_targets a) m"; auto simp: t0_def target_new_def Let_def dest: tracker_okD(3) [OF ok])
    obtain r t1 where r: "record_message now (update_from_values vs t0) = (r, t1)" by force
    from record_message_life [OF this] c0 have t1: "tt_context t1 = ctx" "tt_status t1 \<noteq> Lost" "tt_mmsi t1 = m" by auto
    have rx: "tr_context x = ctx" if "r = Some x"
      using r c0 that by (auto simp: record_message_def transition_of_def Let_def split: target_status.splits if_splits)
    have a': "a' = a\<lparr>at_targets := hm_insert m t1 (at_targets a)\<rparr>" and tr: "tr = r"
      using assms(1) False by (simp_all add: update_target_def m r t0_def [symmetric] Let_def)
    have "tracker_ok a'"
    proof (rule tracker_okI)
      show "at_self_uri a' = ''self''" "hm_ok (at_targets a')" using ok by (auto simp: a' tracker_ok_def)
      fix k t assume "map_of (at_targets a') k = Some t"
      then show "tt_mmsi t = k \<and> tt_context t = mmsi_prefix @ k \<and> \<not> ends_with (mmsi_prefix @ k) ''self''"
        using tracker_okD [OF ok] t1(1,3) self ctx by (auto simp: a' split: if_splits)
    qed
    moreover have "map_of (at_targets a) k = Some t \<and> ctx \<noteq> tt_context t"
      if "map_of (at_targets a') k = Some t" "tt_status t = Lost"
    proof -
      have km: "k \<noteq> m" using that t1(2) by (auto simp: a')
      with that have g: "map_of (at_targets a) k = Some t" by (simp add: a')
      with tracker_okD(1) [OF ok g] km show ?thesis by (simp add: ctx)
    qed
    ultimately show ?thesis using rx by (simp add: tr)
  qed
  then show "tracker_ok a'"
    and "map_of (at_targets a') k = Some t \<Longrightarrow> tt_status t = Lost \<Longrightarrow> map_of (at_targets a) k = Some t"
    and "map_of (at_targets a') k = Some t \<Longrightarrow> tt_status t = Lost \<Longrightarrow> ctx \<noteq> tt_context t"
    and "tr = Some x \<Longrightarrow> tr_context x = ctx" by simp_all
qed

lemma ais_callback_life:
  assumes "ais_callback now d a = (tr, a')" and ok: "tracker_ok a"
  shows "tracker_ok a'"
    and "map_of (at_targets a') k = Some t \<Longrightarrow> tt_status t = Lost \<Longrightarrow> map_of (at_targets a) k = Some t"
    and "map_of (at_targets a') k = Some t \<Longrightarrow> tt_status t = Lost \<Longrightarrow> d_context d \<noteq> Some (tt_context t)"
proof -
  have "tracker_ok a' \<and>
     (map_of (at_targets a') k = Some t \<longrightarrow> tt_status t = Lost \<longrightarrow>
        map_of (at_targets a) k = Some t \<and> d_context d \<noteq> Some (tt_context t))"
  proof (cases "\<exists>c. d_context d = Some c \<and> starts_with c mmsi_prefix")
    case True
    then obtain c where c: "d_context d = Some c" "update_target c (delta_pairs d) now a = (tr, a')"
      using assms(1) by (auto simp: ais_callback_def)
    from update_target_life(1-3) [OF c(2) ok] show ?thesis by (simp add: c(1))
  next
    case False
    then have a': "a' = a" using assms(1) by (auto simp: ais_callback_def split: option.splits)
    have "d_context d \<noteq> Some (tt_context t)" if "map_of (at_targets a) k = Some t"
      using tracker_okD(1) [OF ok that] False by auto
    then show ?thesis using ok by (simp add: a')
  qed
  then show "tracker_ok a'"
    and "map_of (at_targets a') k = Some t \<Longrightarrow> tt_status t = Lost \<Longrightarrow> map_of (at_targets a) k = Some t"
    and "map_of (at_targets a') k = Some t \<Longrightarrow> tt_status t = Lost \<Longrightarrow> d_context d \<noteq> Some (tt_context t)" by simp_all
qed

lemma message_for_delivered: "message_for c d \<Longrightarrow> spec_delivers ais_spec d"
proof -
  assume "message_for c d"
  then obtain u pv where "u \<in> set (d_updates d)" "pv \<in> set (u_values u)"
    by (fastforce simp: message_for_def neq_Nil_conv)
  then show ?thesis by (auto simp: spec_delivers_def ais_spec_def)
qed

lemma waiting_Suc:
  assumes "n < length (st_sent s)" and "waiting n s c"
  shows "message_for c (st_sent s ! n) \<or> waiting (Suc n) s c"
  using assms by (auto simp: waiting_def Cons_nth_drop_Suc [symmetric])

lemma ais_inv_tick:
  assumes "ais_tick m cfg disp utc now y = Some z" and "ais_inv y" shows "ais_inv z"
proof -
  from assms(1) obtain trs a where t: "tracker_tick now (sy_tracker y) = Some (trs, a)" by (auto simp: ais_tick_def)
  define s1 where "s1 = send_all disp utc (map (status_delta utc) trs) (sy_store y)"
  obtain ds a' where c: "(if cc_warn_m cfg \<noteq> None \<or> cc_alarm_m cfg \<noteq> None then run_cpa_tick m cfg utc s1 a else ([], a)) = (ds, a')"
    by force
  have z: "z = y\<lparr>sy_store := send_all disp utc ds s1, sy_tracker := a'\<rparr>"
    using assms(1) c by (simp only: ais_tick_def t s1_def [symmetric] Let_def option.map prod.case option.inject)
  have y: "tracker_ok (sy_tracker y)" "owned (sy_store y)" "sy_received y \<le> length (st_sent (sy_store y))"
    "lost_waits (sy_received y) (sy_store y) (sy_tracker y)" using assms(2) by (simp_all add: ais_inv_def)
  have run: "same_life a a' \<and> (\<forall>d\<in>set ds. own_delta d)"
    using c same_life_run by (auto split: if_splits)
  have own1: "owned s1" unfolding s1_def using y(2) by (rule send_all_frame(2)) auto
  have "tracker_ok a'" using tracker_ok_same [OF tracker_tick_ok(1) [OF t y(1)]] run by blast
  moreover have "owned (send_all disp utc ds s1)" using own1 run by (intro send_all_frame(2)) auto
  moreover have "sy_received y \<le> length (st_sent (send_all disp utc ds s1))"
    using y(3) send_all_frame(1) [of disp utc ds s1] send_all_frame(1) [of disp utc "map (status_delta utc) trs" "sy_store y"]
    by (auto simp: s1_def)
  moreover have "lost_waits (sy_received y) (send_all disp utc ds s1) a'"
  proof (rule lost_waits_same)
    have "lost_waits (sy_received y) s1 a" unfolding s1_def by (rule tick_lost_waits [OF t y(1,2,3,4)])
    then show "lost_waits (sy_received y) (send_all disp utc ds s1) a" by (rule lost_waits_mono) (rule waiting_send_all)
    show "same_life a a'" using run by blast
  qed
  ultimately show ?thesis by (simp add: ais_inv_def z)
qed

lemma ais_inv_receive:
  assumes "sy_received y < length (st_sent (sy_store y))" and "ais_inv y"
  shows "ais_inv (ais_receive disp utc now y)"
proof -
  define n where "n = sy_received y"
  define s where "s = sy_store y"
  define d where "d = st_sent s ! n"
  have y: "tracker_ok (sy_tracker y)" "owned s" "n < length (st_sent s)" "lost_waits n s (sy_tracker y)"
    using assms by (simp_all add: ais_inv_def n_def s_def)
  show ?thesis
  proof (cases "spec_delivers ais_spec d")
    case False
    have "lost_waits (Suc n) s (sy_tracker y)"
      using lost_waits_mono [OF y(4), of s] waiting_Suc [OF y(3)] message_for_delivered False
      unfolding lost_waits_def d_def by (metis y(4) lost_waitsD)
    then show ?thesis using y False by (simp add: ais_receive_def ais_inv_def d_def [symmetric] n_def [symmetric] s_def [symmetric])
  next
    case True
    obtain tr a where c: "ais_callback now d (sy_tracker y) = (tr, a)" by force
    define s' where "s' = (case tr of Some t \<Rightarrow> apply_delta disp utc (status_delta utc t) s | None \<Rightarrow> s)"
    have lw: "lost_waits (Suc n) s a"
      unfolding lost_waits_def
    proof (intro allI impI)
      fix k t assume k: "map_of (at_targets a) k = Some t" "tt_status t = Lost"
      from ais_callback_life(2,3) [OF c y(1) k]
      have "map_of (at_targets (sy_tracker y)) k = Some t" "d_context d \<noteq> Some (tt_context t)" .
      with lost_waitsD [OF y(4) _ k(2)] waiting_Suc [OF y(3)] show "waiting (Suc n) s (tt_context t)"
        by (auto simp: message_for_def d_def)
    qed
    have "lost_waits (Suc n) s' a" "owned s'" "Suc n \<le> length (st_sent s')"
      using lw y(2,3) apply_delta_sent [of disp utc "status_delta utc (the tr)" s]
      by (auto simp: s'_def owned_own_delta split: option.splits intro: lost_waits_mono waiting_apply)
    moreover have "ais_receive disp utc now y = y\<lparr>sy_received := Suc n, sy_tracker := a, sy_store := s'\<rparr>"
      using True c by (simp add: ais_receive_def d_def [symmetric] n_def [symmetric] s_def [symmetric] s'_def Let_def cong: option.case_cong)
    ultimately show ?thesis using ais_callback_life(1) [OF c y(1)] by (simp add: ais_inv_def)
  qed
qed

lemma ais_inv_outside:
  assumes "\<forall>u\<in>set (d_updates d). \<forall>pv\<in>set (u_values u). pv_path pv \<noteq> status_path" and "ais_inv y"
  shows "ais_inv (y\<lparr>sy_store := apply_delta disp utc d (sy_store y)\<rparr>)"
proof -
  have "owned (apply_delta disp utc d (sy_store y))"
  proof (rule owned_delta)
    show "owned (sy_store y)" using assms(2) by (simp add: ais_inv_def)
    fix u assume "u \<in> set (d_updates d)" "status_path \<in> pv_path ` set (u_values u)"
    then show "u_source u = source_plugin ''ais-status''" using assms(1) by force
  qed
  then show ?thesis
    using assms(2) apply_delta_sent [of disp utc d "sy_store y"]
    by (auto simp: ais_inv_def intro: lost_waits_mono waiting_apply)
qed

lemma ais_inv_step: "ais_step m cfg disp y z \<Longrightarrow> ais_inv y \<Longrightarrow> ais_inv z"
  by (erule ais_stepE) (blast intro: ais_inv_tick ais_inv_receive ais_inv_outside)+

lemma ais_inv_start: "owned s \<Longrightarrow> ais_inv (ais_start tcfg s)"
  by (simp add: ais_inv_def ais_start_def tracker_new_def tracker_ok_def lost_waits_def)

lemma ais_inv_reachable: "(ais_step m cfg disp)\<^sup>*\<^sup>* y z \<Longrightarrow> ais_inv y \<Longrightarrow> ais_inv z"
  by (induction rule: rtranclp_induct) (auto intro: ais_inv_step)

section \<open>The lifecycle\<close>

text \<open>Claim C32. Although the tracker marks a target that has been silent for long enough as lost,
  no target stays lost: the plugin announces the change with a delta in the context of the target,
  which comes back to its own callback and counts as a message of the target. Whenever every delta
  that the store has sent has been delivered, no target is lost, as long as nobody else writes the
  status path.\<close>

theorem delivered_never_lost:
  assumes "owned s" and "(ais_step m cfg disp)\<^sup>*\<^sup>* (ais_start tcfg s) y"
    and "sy_received y = length (st_sent (sy_store y))"
    and "map_of (at_targets (sy_tracker y)) mmsi = Some t"
  shows "tt_status t \<noteq> Lost"
proof
  assume lost: "tt_status t = Lost"
  have "ais_inv y" using ais_inv_reachable [OF assms(2) ais_inv_start [OF assms(1)]] .
  then have "waiting (sy_received y) (sy_store y) (tt_context t)"
    using lost_waitsD [OF _ assms(4) lost] by (simp add: ais_inv_def)
  with assms(3) show False by (simp add: waiting_def)
qed

definition demo_contact :: delta where
  "demo_contact = with_context ''vessels.urn:mrn:imo:mmsi:970100001'' [update_new 0 (source_plugin ''nmea'') [path_value_new ''name'' (JStr ''A'')]]"

definition demo_cpa :: cpa_config where
  "demo_cpa = \<lparr>cc_warn_m = None, cc_alarm_m = None, cc_tcpa_max_s = Fin 600\<rparr>"

definition demo_tracker_config :: tracker_config where
  "demo_tracker_config = \<lparr>tc_vessel = None, tc_aton = None, tc_base = None, tc_sar = None\<rparr>"

definition demo_heard :: ais_system where
  "demo_heard = ais_receive (\<lambda>_. []) 0 0
     ((ais_start demo_tracker_config (store_new ''me''))
        \<lparr>sy_store := apply_delta (\<lambda>_. []) 0 demo_contact (store_new ''me'')\<rparr>)"

definition demo_silent :: ais_system where
  "demo_silent = the (ais_tick demo_libm demo_cpa (\<lambda>_. []) 0 1000000000000 (ais_receive (\<lambda>_. []) 0 0 demo_heard))"

definition demo_found :: ais_system where
  "demo_found = ais_receive (\<lambda>_. []) 0 0 demo_silent"

definition demo_end :: ais_system where
  "demo_end = ais_receive (\<lambda>_. []) 0 0 demo_found"

lemma demo_run:
  "\<not> Option.is_none (ais_tick demo_libm demo_cpa (\<lambda>_. []) 0 1000000000000 (ais_receive (\<lambda>_. []) 0 0 demo_heard))"
  "length (st_sent (store_new ''me'')) = 0"
  "length (st_sent (apply_delta (\<lambda>_. []) 0 demo_contact (store_new ''me''))) = 1"
  "sy_received demo_heard = 1" "length (st_sent (sy_store demo_heard)) = 2"
  "sy_received demo_silent = 2" "length (st_sent (sy_store demo_silent)) = 3"
  "map_option tt_status (map_of (at_targets (sy_tracker demo_silent)) ''970100001'') = Some Lost"
  "sy_received demo_found = 3" "length (st_sent (sy_store demo_found)) = 4" "sy_received demo_end = 4"
  "length (st_sent (sy_store demo_end)) = 4"
  "map_option tt_status (map_of (at_targets (sy_tracker demo_end)) ''970100001'') = Some Tracking"
  by code_simp+

lemma demo_reached:
  "(ais_step demo_libm demo_cpa (\<lambda>_. []))\<^sup>*\<^sup>* (ais_start demo_tracker_config (store_new ''me''))
     demo_end"
proof -
  let ?step = "ais_step demo_libm demo_cpa (\<lambda>_. [])"
  define y0 where "y0 = ais_start demo_tracker_config (store_new ''me'')"
  define y1 where "y1 = y0\<lparr>sy_store := apply_delta (\<lambda>_. []) 0 demo_contact (store_new ''me'')\<rparr>"
  have rec0: "sy_received y1 = 0" "sy_store y1 = apply_delta (\<lambda>_. []) 0 demo_contact (store_new ''me'')"
    using demo_run(2) by (simp_all add: y1_def y0_def ais_start_def)
  have "?step y0 (y0\<lparr>sy_store := apply_delta (\<lambda>_. []) 0 demo_contact (sy_store y0)\<rparr>)"
    by (rule ais_step.outside) (simp add: demo_contact_def delta_cons_defs)
  then have 1: "?step y0 y1" by (simp add: y1_def y0_def ais_start_def)
  have 2: "?step y1 demo_heard"
    unfolding demo_heard_def y0_def [symmetric] y1_def [symmetric]
    by (rule ais_step.receive) (simp add: rec0 demo_run)
  have 3: "?step demo_heard (ais_receive (\<lambda>_. []) 0 0 demo_heard)"
    by (rule ais_step.receive) (simp add: demo_run)
  have 4: "?step (ais_receive (\<lambda>_. []) 0 0 demo_heard) demo_silent"
    using demo_run(1) by (intro ais_step.tick [of _ _ _ 0 1000000000000]) (auto simp: demo_silent_def Option.is_none_def)
  have 5: "?step demo_silent demo_found"
    unfolding demo_found_def by (rule ais_step.receive) (simp add: demo_run)
  have 6: "?step demo_found demo_end"
    unfolding demo_end_def by (rule ais_step.receive) (simp add: demo_run)
  show ?thesis unfolding y0_def [symmetric]
    using 1 2 3 4 5 6 by (meson r_into_rtranclp rtranclp_trans)
qed

theorem delivered_never_lost_witness:
  "\<exists>t. map_of (at_targets (sy_tracker demo_end)) ''970100001'' = Some t \<and> tt_status t \<noteq> Lost"
proof -
  obtain t where t: "map_of (at_targets (sy_tracker demo_end)) ''970100001'' = Some t"
    using demo_run(13) by auto
  have "owned (store_new ''me'')" by (simp add: owned_def)
  from delivered_never_lost [OF this demo_reached _ t] t demo_run(11,12) show ?thesis by simp
qed

definition hear :: "string \<Rightarrow> (int \<times> (string \<times> json) list) list \<Rightarrow> ais_tracker \<Rightarrow> ais_tracker" where
  "hear ctx ms a = fold (\<lambda>(now, vs) a. snd (update_target ctx vs now a)) ms a"

definition confirmed_by :: "nat \<Rightarrow> int \<Rightarrow> int list \<Rightarrow> bool" where
  "confirmed_by n w ts \<longleftrightarrow> (\<exists>i<length ts. n \<le> length (filter (\<lambda>t. ts ! i - w \<le> t) (take (Suc i) ts)))"

lemma confirmed_by_snoc:
  "confirmed_by n w (ts @ [x]) \<longleftrightarrow> confirmed_by n w ts \<or> n \<le> length (filter (\<lambda>t. x - w \<le> t) (ts @ [x]))"
  by (simp add: confirmed_by_def less_Suc_eq conj_disj_distribR ex_disj_distrib nth_append cong: conj_cong)

definition heard_as :: "class_thresholds \<Rightarrow> int list \<Rightarrow> tracked_target \<Rightarrow> bool" where
  "heard_as th ts t \<longleftrightarrow> tt_thresholds t = th \<and>
     tt_status t = (if confirmed_by (unat (th_confirm_count th)) (span_ns (th_confirm_window th)) ts then Tracking else Acquiring) \<and>
     (tt_status t = Acquiring \<longrightarrow> (\<forall>x. (\<forall>y\<in>set ts. y \<le> x) \<longrightarrow>
        filter (\<lambda>m. x - span_ns (th_confirm_window th) \<le> m) (tt_recent_messages t)
        = filter (\<lambda>m. x - span_ns (th_confirm_window th) \<le> m) ts))"

lemma heard_as_nothing:
  "heard_as (thresholds_for (classify_mmsi mmsi) ov) [] (target_new mmsi ctx now ov)"
  by (simp add: heard_as_def target_new_def confirmed_by_def Let_def)

lemma heard_as_message:
  assumes h: "heard_as th ts t" and now: "\<forall>y\<in>set ts. y \<le> now" "0 \<le> now"
    and w: "unat (th_confirm_window th) < 2 ^ 63"
  shows "heard_as th (ts @ [now]) (snd (record_message now (update_from_values vs t)))"
proof -
  define w where "w = span_ns (th_confirm_window th)"
  define t1 where "t1 = update_from_values vs t"
  have start: "window_start now (th_confirm_window th) = now - w"
  proof -
    have "int (unat (th_confirm_window th)) < int (2 ^ 63)" using w by (rule iffD2 [OF of_nat_less_iff])
    then have "int (unat (th_confirm_window th)) < 2 ^ 63" by (simp only: of_nat_power of_nat_numeral)
    then have "\<not> now - span_ns (th_confirm_window th) < - (2 ^ 63) * 1000000000"
      using now(2) unfolding span_ns_def by linarith
    then show ?thesis by (simp add: window_start_def w_def)
  qed
  have th: "tt_thresholds t1 = th" and st: "tt_status t1 = tt_status t" and rec: "tt_recent_messages t1 = tt_recent_messages t"
    using h by (simp_all add: t1_def heard_as_def)
  consider "tt_status t = Tracking" "confirmed_by (unat (th_confirm_count th)) w ts"
    | "tt_status t = Acquiring" "\<not> confirmed_by (unat (th_confirm_count th)) w ts"
    using h by (auto simp: heard_as_def w_def split: if_splits)
  then show ?thesis
  proof cases
    case 1
    then show ?thesis
      using th by (simp add: heard_as_def record_message_def Let_def t1_def [symmetric] st confirmed_by_snoc w_def)
  next
    case 2
    have "\<forall>x. (\<forall>y\<in>set ts. y \<le> x) \<longrightarrow> filter (\<lambda>m. x - w \<le> m) (tt_recent_messages t) = filter (\<lambda>m. x - w \<le> m) ts"
      using h 2(1) by (simp add: heard_as_def w_def)
    then have rec_now: "filter (\<lambda>m. now - w \<le> m) (tt_recent_messages t @ [now]) = filter (\<lambda>m. now - w \<le> m) (ts @ [now])"
      using now(1) by simp
    have later: "filter (\<lambda>m. x - w \<le> m) (filter (\<lambda>m. now - w \<le> m) (ts @ [now])) = filter (\<lambda>m. x - w \<le> m) (ts @ [now])"
      if "now \<le> x" for x
      unfolding filter_filter by (rule filter_cong) (use that in auto)
    have eq: "record_message now t1 =
      (if unat (th_confirm_count th) \<le> length (filter (\<lambda>m. now - w \<le> m) (ts @ [now]))
       then (Some (transition_of (t1\<lparr>tt_last_seen := now, tt_message_count := tt_message_count t1 + 1,
                 tt_recent_messages := filter (\<lambda>m. now - w \<le> m) (ts @ [now])\<rparr>) Tracking),
             t1\<lparr>tt_last_seen := now, tt_message_count := tt_message_count t1 + 1,
                 tt_recent_messages := filter (\<lambda>m. now - w \<le> m) (ts @ [now]), tt_status := Tracking\<rparr>)
       else (None, t1\<lparr>tt_last_seen := now, tt_message_count := tt_message_count t1 + 1,
                 tt_recent_messages := filter (\<lambda>m. now - w \<le> m) (ts @ [now])\<rparr>))"
      using 2(1) by (simp only: record_message_def Let_def th st rec start rec_now target_status.case tracked_target.simps) (simp add: th)
    show ?thesis
      using later 2 th st
      by (simp only: heard_as_def t1_def [symmetric] eq w_def [symmetric] confirmed_by_snoc) auto
  qed
qed

text \<open>Claim C33. A target that the tracker does not know yet is confirmed by its messages exactly
  when, at some message, at least as many messages as its class asks for have arrived within its
  window, whatever the tracker has thrown away of the messages before. The clock does not run
  backwards and no tick falls between the messages.\<close>

theorem confirmed_iff_enough_in_window:
  assumes "ctx = mmsi_prefix @ mmsi" and "\<not> ends_with ctx (at_self_uri a)"
    and "map_of (at_targets a) mmsi = None" and "ms \<noteq> []"
    and "sorted (map fst ms)" and "\<forall>now\<in>set (map fst ms). 0 \<le> now"
    and "th = thresholds_for (classify_mmsi mmsi) (overrides_for (at_config a) (classify_mmsi mmsi))"
    and "unat (th_confirm_window th) < 2 ^ 63"
  shows "map_option tt_status (map_of (at_targets (hear ctx ms a)) mmsi)
    = Some (if confirmed_by (unat (th_confirm_count th)) (span_ns (th_confirm_window th)) (map fst ms)
            then Tracking else Acquiring)"
proof -
  define kept where "kept = (\<lambda>b :: ais_tracker. at_self_uri b = at_self_uri a \<and> at_config b = at_config a)"
  have "kept (hear ctx ms a) \<and> (\<exists>t. map_of (at_targets (hear ctx ms a)) mmsi = Some t \<and> heard_as th (map fst ms) t)"
    using assms(4-6)
  proof (induction ms rule: rev_induct)
    case (snoc x ms)
    obtain now vs where x: "x = (now, vs)" by (cases x)
    define b where "b = hear ctx ms a"
    define t where "t = unwrap_or (map_of (at_targets b) mmsi)
      (target_new mmsi ctx now (overrides_for (at_config b) (classify_mmsi mmsi)))"
    have b: "kept b" and h: "heard_as th (map fst ms) t"
      using snoc assms(3,7) heard_as_nothing [of mmsi "overrides_for (at_config a) (classify_mmsi mmsi)" ctx now]
      by (cases "ms = []"; auto simp: b_def t_def kept_def hear_def sorted_append)+
    have "heard_as th (map fst ms @ [now]) (snd (record_message now (update_from_values vs t)))"
      using snoc.prems assms(8) by (intro heard_as_message [OF h]) (auto simp: x sorted_append)
    moreover have "ctx \<noteq> ''vessels.self''" unfolding assms(1) by (simp add: mmsi_prefix_def)
    then have "snd (update_target ctx vs now b)
        = b\<lparr>at_targets := hm_insert mmsi (snd (record_message now (update_from_values vs t))) (at_targets b)\<rparr>"
      using b assms(2) by (simp add: update_target_def kept_def parse_mmsi_def assms(1) t_def Let_def split_beta)
    ultimately show ?case using b by (simp add: hear_def x b_def [symmetric, unfolded hear_def] kept_def)
  qed simp
  then show ?thesis by (auto simp: heard_as_def)
qed

theorem confirmed_iff_enough_in_window_witness:
  "map_option tt_status (map_of (at_targets (hear (mmsi_prefix @ ''211457160'')
      [(0, []), (200000000000, []), (300000000000, [])] (tracker_new ''self'' demo_tracker_config))) ''211457160'') = Some Tracking
   \<and> map_option tt_status (map_of (at_targets (hear (mmsi_prefix @ ''211457160'')
      [(0, []), (200000000000, [])] (tracker_new ''self'' demo_tracker_config))) ''211457160'') = Some Acquiring"
proof -
  let ?a = "tracker_new ''self'' demo_tracker_config"
  let ?th = "thresholds_for (classify_mmsi ''211457160'') (overrides_for (at_config ?a) (classify_mmsi ''211457160''))"
  have th: "unat (th_confirm_window ?th) = 180" "unat (th_confirm_count ?th) = 2" by code_simp+
  have c: "\<not> ends_with (mmsi_prefix @ ''211457160'') (at_self_uri ?a)" "map_of (at_targets ?a) ''211457160'' = None"
    by code_simp+
  have "confirmed_by 2 180000000000 [0, 200000000000, 300000000000]" "\<not> confirmed_by 2 180000000000 [0, 200000000000]"
    by code_simp+
  then show ?thesis
    using confirmed_iff_enough_in_window [OF refl c, of "[(0, []), (200000000000, []), (300000000000, [])]", OF _ _ _ refl]
      confirmed_iff_enough_in_window [OF refl c, of "[(0, []), (200000000000, [])]", OF _ _ _ refl]
    by (simp add: th span_ns_def)
qed

section \<open>Collision notifications\<close>

definition collision_level :: "libm \<Rightarrow> cpa_config \<Rightarrow> motion \<Rightarrow> motion \<Rightarrow> cpa_level option option" where
  "collision_level m cfg own tgt =
     map_option (\<lambda>r. classify_cpa_alarm (cpa_m r) (tcpa_s r) (cc_tcpa_max_s cfg) (cc_warn_m cfg) (cc_alarm_m cfg))
       (compute_cpa m own tgt)"

definition target_motion :: "tracked_target \<Rightarrow> motion option" where
  "target_motion t =
     (if tt_status t = Tracking
      then map_option (\<lambda>(lat, lon). \<lparr>mo_lat = lat, mo_lon = lon, mo_sog = unwrap_or (tt_sog t) (Fin 0),
                                    mo_cog = unwrap_or (tt_cog t) (Fin 0)\<rparr>) (tt_position t)
      else None)"

lemma cpa_snapshots_changes:
  assumes "cpa_snapshots m cfg own sns a = (ds, cs, a')"
  shows "(k, l) \<in> set cs \<longleftrightarrow>
    (\<exists>sn\<in>set sns. cs_mmsi sn = k \<and> collision_level m cfg own (cs_motion sn) = Some l \<and> (l \<noteq> None) \<noteq> cs_cpa_alarm_active sn)"
  using assms
proof (induction sns arbitrary: a ds cs a')
  case (Cons sn sns)
  show ?case
  proof (cases "compute_cpa m own (cs_motion sn)")
    case None
    with Cons show ?thesis by (simp add: collision_level_def)
  next
    case (Some r)
    define level where "level = classify_cpa_alarm (cpa_m r) (tcpa_s r) (cc_tcpa_max_s cfg) (cc_warn_m cfg) (cc_alarm_m cfg)"
    obtain ds1 cs1 a1 where r: "cpa_snapshots m cfg own sns (update_target_cpa (cs_mmsi sn) r (level \<noteq> None) a) = (ds1, cs1, a1)"
      by (cases "cpa_snapshots m cfg own sns (update_target_cpa (cs_mmsi sn) r (level \<noteq> None) a)")
    have cs: "cs = (if (level \<noteq> None) \<noteq> cs_cpa_alarm_active sn then (cs_mmsi sn, level) # cs1 else cs1)"
      using Cons.prems r by (simp add: Some level_def [symmetric] Let_def)
    have sn: "collision_level m cfg own (cs_motion sn) = Some level" by (simp add: collision_level_def Some level_def)
    show ?thesis unfolding cs using Cons.IH [OF r] sn by auto
  qed
qed simp

lemma collision_delta_inject: "collision_delta utc (k, l) = collision_delta utc (k', l') \<longleftrightarrow> k = k' \<and> l = l'"
  by (auto simp: collision_delta_def collision_value_def json_obj_def delta_cons_defs split: option.splits cpa_level.splits)

lemma collision_not_cpa: "collision_delta utc cl \<noteq> cpa_delta utc cr"
  by (simp add: collision_delta_def cpa_delta_def delta_cons_defs)

lemma set_map_filter: "set (List.map_filter f xs) = {y. \<exists>x\<in>set xs. f x = Some y}"
  by (force simp: List.map_filter_def)

lemma targets_for_cpa_iff:
  assumes "tracker_ok a"
  shows "(\<exists>sn\<in>set (targets_for_cpa a). cs_mmsi sn = k \<and> P (cs_motion sn) (cs_cpa_alarm_active sn))
    \<longleftrightarrow> (\<exists>t mo. map_of (at_targets a) k = Some t \<and> target_motion t = Some mo \<and> P mo (tt_cpa_alarm_active t))"
proof -
  have "(\<exists>sn\<in>set (targets_for_cpa a). cs_mmsi sn = k \<and> P (cs_motion sn) (cs_cpa_alarm_active sn))
      \<longleftrightarrow> (\<exists>k' t mo. (k', t) \<in> set (at_targets a) \<and> tt_mmsi t = k \<and> target_motion t = Some mo \<and> P mo (tt_cpa_alarm_active t))"
    unfolding targets_for_cpa_def set_map_filter target_motion_def
    by (force split: option.splits if_splits)
  also have "\<dots> \<longleftrightarrow> (\<exists>t mo. map_of (at_targets a) k = Some t \<and> target_motion t = Some mo \<and> P mo (tt_cpa_alarm_active t))"
  proof -
    have ok: "hm_ok (at_targets a)" using assms by (simp add: tracker_ok_def)
    have "(k', t) \<in> set (at_targets a) \<and> tt_mmsi t = k \<longleftrightarrow> k' = k \<and> map_of (at_targets a) k = Some t" for k' t
      using map_of_eq_Some_iff [OF ok] tracker_okD(3) [OF assms] by metis
    then show ?thesis by metis
  qed
  finally show ?thesis .
qed

text \<open>The collision check sends a notification for a target exactly when the target is
  tracked, has a position, and a level is reached while no alarm is remembered for it, or no level
  while one is. In particular a warning that has become an alarm is not announced, and the alarm of
  a target that is lost stays.\<close>

theorem collision_notified_iff:
  assumes "tracker_ok a"
  shows "collision_delta utc (mmsi, level) \<in> set (fst (run_cpa_tick m cfg utc s a)) \<longleftrightarrow>
    (\<exists>own t mo. own_motion s = Some own \<and> map_of (at_targets a) mmsi = Some t \<and> target_motion t = Some mo
       \<and> collision_level m cfg own mo = Some level \<and> (level \<noteq> None) \<noteq> tt_cpa_alarm_active t)"
proof (cases "own_motion s")
  case None
  then show ?thesis by (simp add: run_cpa_tick_def)
next
  case (Some own)
  obtain ds cs a' where r: "cpa_snapshots m cfg own (targets_for_cpa a) a = (ds, cs, a')"
    by (cases "cpa_snapshots m cfg own (targets_for_cpa a) a")
  have "collision_delta utc (mmsi, level) \<in> set (fst (run_cpa_tick m cfg utc s a)) \<longleftrightarrow> (mmsi, level) \<in> set cs"
    using collision_not_cpa collision_delta_inject by (force simp: run_cpa_tick_def Some r)
  also have "\<dots> \<longleftrightarrow> (\<exists>t mo. map_of (at_targets a) mmsi = Some t \<and> target_motion t = Some mo
       \<and> collision_level m cfg own mo = Some level \<and> (level \<noteq> None) \<noteq> tt_cpa_alarm_active t)"
    unfolding cpa_snapshots_changes [OF r]
    using targets_for_cpa_iff [OF assms, of mmsi "\<lambda>mo act. collision_level m cfg own mo = Some level \<and> (level \<noteq> None) \<noteq> act"]
    by simp
  finally show ?thesis by (simp add: Some)
qed

definition demo_alarm_cpa :: cpa_config where
  "demo_alarm_cpa = \<lparr>cc_warn_m = Some (Fin 1000), cc_alarm_m = Some (Fin 100), cc_tcpa_max_s = Fin 600\<rparr>"

definition demo_known :: "bool \<Rightarrow> ais_tracker" where
  "demo_known active = (tracker_new ''self'' demo_tracker_config)\<lparr>at_targets :=
     [(''211457160'', (target_new ''211457160'' ''vessels.urn:mrn:imo:mmsi:211457160'' 0 None)
         \<lparr>tt_status := Tracking, tt_position := Some (Fin 0, Fin 0), tt_sog := Some (Fin 1),
          tt_cpa_alarm_active := active\<rparr>)]\<rparr>"

definition demo_own_store :: store where
  "demo_own_store = apply_delta (\<lambda>_. []) 0
     (self_vessel [update_new 0 (source_plugin ''gps'')
       [path_value_new ''navigation.position'' (json_obj [(''latitude'', json_f64 (Fin 0)), (''longitude'', json_f64 (Fin 0))])]])
     (store_new ''me'')"

lemma demo_own_motion:
  "own_motion demo_own_store = Some \<lparr>mo_lat = Fin 0, mo_lon = Fin 0, mo_sog = Fin 0, mo_cog = Fin 0\<rparr>"
  by code_simp

lemma demo_past:
  "collision_level demo_libm demo_alarm_cpa \<lparr>mo_lat = Fin 0, mo_lon = Fin 0, mo_sog = Fin 0, mo_cog = Fin 0\<rparr>
     \<lparr>mo_lat = Fin 0, mo_lon = Fin 0, mo_sog = Fin 1, mo_cog = Fin 0\<rparr> = Some None"
proof -
  define deg where "deg = f_div PI (Fin 180)"
  have "\<not> is_nan PI" by (simp add: PI_def)
  then have "deg = lit (rv PI / 180)" by (simp add: deg_def f_div_def lit_def Let_def)
  then have deg: "is_finite deg" "0 \<le> rv deg" "deg \<noteq> NZero"
    using lit_unit [of "rv PI / 180"] by (simp_all add: lit_def) (simp add: round_f64_def Let_def)
  have one: "round_f64 1 = Fin 1" "round_f64 0 = Fin 0" using round_of_int [of 1] by (simp_all add: round_f64_def)
  have zero: "to_radians (Fin 0) = Fin 0"
    using deg by (cases deg) (simp_all add: to_radians_def deg_def [symmetric] f_mul_def one signed_zero_def)
  have small: "\<not> f_lt (Fin 1) (lit (1 / 1000000))"
    using lit_unit [of "1 / 1000000"] by (simp add: f_lt_finite)
  show ?thesis
    by (simp add: collision_level_def compute_cpa_def motion_finite_def sog_cog_to_xy_def demo_libm_def f_dot_def f_mul_def
        f_sub_def f_div_def one zero small EARTH_RADIUS_M_def Let_def signed_zero_def classify_cpa_alarm_def f_lt_finite)
qed

theorem collision_notified_iff_witness:
  "collision_delta 0 (''211457160'', None) \<in> set (fst (run_cpa_tick demo_libm demo_alarm_cpa 0 demo_own_store (demo_known True)))
   \<and> collision_delta 0 (''211457160'', None) \<notin> set (fst (run_cpa_tick demo_libm demo_alarm_cpa 0 demo_own_store (demo_known False)))"
proof -
  have ok: "tracker_ok (demo_known b)" for b
    by (simp add: tracker_ok_def demo_known_def tracker_new_def target_new_def mmsi_prefix_def ends_with_def Let_def)
  show ?thesis
    unfolding collision_notified_iff [OF ok]
    by (simp add: demo_own_motion) (simp add: demo_known_def target_motion_def target_new_def demo_past Let_def)
qed

end
