(* ===== verification/DerivedCalc.thy ===== *)
theory DerivedCalc
  imports Geo Types "HOL-Library.Monad_Syntax"
begin

text \<open>
  The calculators of the derived-data plugin (\<^verbatim>\<open>plugins/derived-data/src/calculators\<close>).
  A calculator has a name, input paths (or prefixes of paths) and a function from the latest values
  to derived ones; only the wind shift keeps a state, the last direction. What the calculators take
  from other crates is an environment: mathematics, dates, the sun and the moon.
\<close>

record moon_phase =
  mp_phase :: f64
  mp_fraction :: f64
  mp_age :: f64
  mp_phase_name :: string

datatype sun_phase = Sunrise | Sunset | Dawn | Dusk

record derived_env =
  de_libm :: libm
  de_parse_ms :: "string \<Rightarrow> int option"
  de_format_ms :: "int \<Rightarrow> string"
  de_sun_pos :: "int \<Rightarrow> f64 \<Rightarrow> f64 \<Rightarrow> f64 \<times> f64"
  de_sun_time :: "int \<Rightarrow> sun_phase \<Rightarrow> f64 \<Rightarrow> f64 \<Rightarrow> int"
  de_moon :: "int \<Rightarrow> moon_phase"
  de_shift_text :: "f64 \<Rightarrow> string"

type_synonym snapshot = "json hmap"

record calculator =
  cl_name :: string
  cl_inputs :: "string list"
  cl_calculate :: "snapshot \<Rightarrow> f64 option \<Rightarrow> path_value list option \<times> f64 option"

definition stateless :: "string \<Rightarrow> string list \<Rightarrow> (snapshot \<Rightarrow> path_value list option) \<Rightarrow> calculator" where
  "stateless name inputs f = \<lparr>cl_name = name, cl_inputs = inputs, cl_calculate = (\<lambda>vs st. (f vs, st))\<rparr>"

definition get_num :: "string \<Rightarrow> snapshot \<Rightarrow> f64 option" where
  "get_num p vs = Option.bind (map_of vs p) as_f64"

definition get_text :: "string \<Rightarrow> snapshot \<Rightarrow> string option" where
  "get_text p vs = Option.bind (map_of vs p) as_str"

definition get_lat_lon :: "string \<Rightarrow> snapshot \<Rightarrow> (f64 \<times> f64) option" where
  "get_lat_lon p vs = do {
     v \<leftarrow> map_of vs p;
     lat \<leftarrow> Option.bind (jget ''latitude'' v) as_f64;
     lon \<leftarrow> Option.bind (jget ''longitude'' v) as_f64;
     Some (lat, lon)}"

definition num_value :: "string \<Rightarrow> f64 \<Rightarrow> path_value" where
  "num_value p x = path_value_new p (json_f64 x)"

definition strip_suffix :: "string \<Rightarrow> string \<Rightarrow> string option" where
  "strip_suffix suf s = (if ends_with s suf then Some (take (length s - length suf) s) else None)"

definition some_list :: "'a list \<Rightarrow> 'a list option" where
  "some_list xs = (if xs = [] then None else Some xs)"

definition f_within :: "f64 \<Rightarrow> f64 \<Rightarrow> f64 \<Rightarrow> bool" where
  "f_within lo hi x \<longleftrightarrow> f_le lo x \<and> f_le x hi"

definition KELVIN_OFFSET :: f64 where
  "KELVIN_OFFSET = lit (27315 / 100)"

definition tiny :: f64 where
  "tiny = lit (1 / 10 ^ 9)"

text \<open>The signed difference of two angles, brought into one turn by at most one step.\<close>

definition angle_diff :: "f64 \<Rightarrow> f64 \<Rightarrow> f64" where
  "angle_diff a b =
     (let e = f_sub a b in
      if f_lt PI e then f_sub e (f_mul (Fin 2) PI)
      else if f_lt e (f_neg PI) then f_add e (f_mul (Fin 2) PI)
      else e)"

section \<open>Navigation\<close>

definition heading_true :: calculator where
  "heading_true = stateless ''headingTrue'' [''navigation.headingMagnetic'', ''navigation.magneticVariation'']
     (\<lambda>vs. do {
        heading_mag \<leftarrow> get_num ''navigation.headingMagnetic'' vs;
        variation \<leftarrow> get_num ''navigation.magneticVariation'' vs;
        Some [num_value ''navigation.headingTrue'' (full_turn (f_add heading_mag variation))]})"

definition course_over_ground_magnetic :: calculator where
  "course_over_ground_magnetic =
     stateless ''courseOverGroundMagnetic'' [''navigation.courseOverGroundTrue'', ''navigation.magneticVariation'']
     (\<lambda>vs. do {
        cog_true \<leftarrow> get_num ''navigation.courseOverGroundTrue'' vs;
        variation \<leftarrow> get_num ''navigation.magneticVariation'' vs;
        Some [num_value ''navigation.courseOverGroundMagnetic'' (full_turn (f_sub cog_true variation))]})"

definition course_over_ground_true :: calculator where
  "course_over_ground_true =
     stateless ''courseOverGroundTrue'' [''navigation.courseOverGroundMagnetic'', ''navigation.magneticVariation'']
     (\<lambda>vs. do {
        cog_mag \<leftarrow> get_num ''navigation.courseOverGroundMagnetic'' vs;
        variation \<leftarrow> get_num ''navigation.magneticVariation'' vs;
        Some [num_value ''navigation.courseOverGroundTrue'' (full_turn (f_add cog_mag variation))]})"

definition leeway_angle :: calculator where
  "leeway_angle = stateless ''leewayAngle'' [''navigation.headingTrue'', ''navigation.courseOverGroundTrue'']
     (\<lambda>vs. do {
        heading \<leftarrow> get_num ''navigation.headingTrue'' vs;
        cog_true \<leftarrow> get_num ''navigation.courseOverGroundTrue'' vs;
        Some [num_value ''navigation.leewayAngle'' (angle_diff heading cog_true)]})"

definition leeway :: calculator where
  "leeway = stateless ''leeway'' [''navigation.attitude'', ''navigation.speedThroughWater'']
     (\<lambda>vs. do {
        attitude \<leftarrow> map_of vs ''navigation.attitude'';
        roll \<leftarrow> Option.bind (jget ''roll'' attitude) as_f64;
        stw \<leftarrow> get_num ''navigation.speedThroughWater'' vs;
        if f_lt stw (lit (1 / 2)) then None
        else Some [num_value ''navigation.leewayAngleHeel'' (f_div (f_mul (Fin 10) roll) (f_mul stw stw))]})"

definition set_drift_of :: "libm \<Rightarrow> f64 \<Rightarrow> f64 \<Rightarrow> f64 \<Rightarrow> f64 \<Rightarrow> f64 \<Rightarrow> path_value list" where
  "set_drift_of m heading_mag cog_true stw sog variation =
     (if f_lt (f_abs sog) tiny \<and> f_lt (f_abs stw) tiny
      then [num_value ''environment.current.drift'' (Fin 0), num_value ''environment.current.setTrue'' (Fin 0),
            num_value ''environment.current.setMagnetic'' (Fin 0)]
      else (let delta = f_sub cog_true heading_mag;
                drift = m_sqrt m (f_max (f_sub (f_add (f_sq sog) (f_sq stw))
                          (f_mul (f_mul (f_mul (Fin 2) stw) sog) (m_cos m delta))) (Fin 0));
                set_magnetic = full_turn (f_add (m_atan2 m (f_mul sog (m_sin m delta))
                                  (f_sub stw (f_mul sog (m_cos m delta)))) PI);
                set_true = full_turn (f_add set_magnetic variation)
            in [num_value ''environment.current.drift'' drift,
                num_value ''environment.current.setTrue'' set_true,
                num_value ''environment.current.setMagnetic'' set_magnetic]
               @ (if f_lt (lit (1 / 100)) stw
                  then [num_value ''environment.current.driftImpact'' (f_div drift stw)] else [])))"

definition set_drift :: "derived_env \<Rightarrow> calculator" where
  "set_drift env = stateless ''setDrift''
     [''navigation.headingMagnetic'', ''navigation.courseOverGroundTrue'', ''navigation.speedThroughWater'',
      ''navigation.speedOverGround'', ''navigation.magneticVariation'']
     (\<lambda>vs. do {
        heading_mag \<leftarrow> get_num ''navigation.headingMagnetic'' vs;
        cog_true \<leftarrow> get_num ''navigation.courseOverGroundTrue'' vs;
        stw \<leftarrow> get_num ''navigation.speedThroughWater'' vs;
        sog \<leftarrow> get_num ''navigation.speedOverGround'' vs;
        variation \<leftarrow> get_num ''navigation.magneticVariation'' vs;
        if \<not> (is_finite heading_mag \<and> is_finite cog_true \<and> is_finite stw \<and> is_finite sog \<and> is_finite variation)
        then None
        else Some (set_drift_of (de_libm env) heading_mag cog_true stw sog variation)})"

section \<open>Wind\<close>

definition true_wind :: "derived_env \<Rightarrow> calculator" where
  "true_wind env = stateless ''trueWind''
     [''navigation.headingTrue'', ''navigation.speedThroughWater'', ''environment.wind.speedApparent'',
      ''environment.wind.angleApparent'']
     (\<lambda>vs. do {
        heading \<leftarrow> get_num ''navigation.headingTrue'' vs;
        stw \<leftarrow> get_num ''navigation.speedThroughWater'' vs;
        aws \<leftarrow> get_num ''environment.wind.speedApparent'' vs;
        awa \<leftarrow> get_num ''environment.wind.angleApparent'' vs;
        if \<not> (is_finite heading \<and> is_finite stw \<and> is_finite aws \<and> is_finite awa) then None
        else (let m = de_libm env;
                  ax = f_mul (m_cos m awa) aws;
                  ay = f_mul (m_sin m awa) aws;
                  fwd = f_add (f_neg stw) ax;
                  angle = (if f_lt aws tiny then awa else m_atan2 m ay fwd);
                  speed = m_sqrt m (f_add (f_sq ay) (f_sq fwd));
                  direction = full_turn (f_add heading angle)
              in Some [num_value ''environment.wind.directionTrue'' direction,
                       num_value ''environment.wind.angleTrueWater'' angle,
                       num_value ''environment.wind.speedTrue'' speed])})"

definition vmg_wind :: "derived_env \<Rightarrow> calculator" where
  "vmg_wind env = stateless ''vmgWind'' [''environment.wind.angleTrueWater'', ''navigation.speedOverGround'']
     (\<lambda>vs. do {
        twa \<leftarrow> get_num ''environment.wind.angleTrueWater'' vs;
        sog \<leftarrow> get_num ''navigation.speedOverGround'' vs;
        if \<not> (is_finite twa \<and> is_finite sog) then None
        else Some [num_value ''performance.velocityMadeGood'' (f_mul (m_cos (de_libm env) twa) sog)]})"

definition vmg_stw :: "derived_env \<Rightarrow> calculator" where
  "vmg_stw env = stateless ''vmgStw'' [''environment.wind.angleTrueWater'', ''navigation.speedThroughWater'']
     (\<lambda>vs. do {
        angle \<leftarrow> get_num ''environment.wind.angleTrueWater'' vs;
        stw \<leftarrow> get_num ''navigation.speedThroughWater'' vs;
        Some [num_value ''performance.velocityMadeGoodWater'' (f_mul stw (m_cos (de_libm env) angle))]})"

definition wind_direction_magnetic :: calculator where
  "wind_direction_magnetic = stateless ''windDirectionMagnetic''
     [''environment.wind.directionTrue'', ''navigation.magneticVariation'']
     (\<lambda>vs. do {
        dir_true \<leftarrow> get_num ''environment.wind.directionTrue'' vs;
        variation \<leftarrow> get_num ''navigation.magneticVariation'' vs;
        Some [num_value ''environment.wind.directionMagnetic'' (full_turn (f_sub dir_true variation))]})"

definition wind_direction_magnetic2 :: calculator where
  "wind_direction_magnetic2 = stateless ''windDirectionMagnetic2''
     [''navigation.headingMagnetic'', ''environment.wind.angleApparent'']
     (\<lambda>vs. do {
        heading \<leftarrow> get_num ''navigation.headingMagnetic'' vs;
        angle_apparent \<leftarrow> get_num ''environment.wind.angleApparent'' vs;
        Some [num_value ''environment.wind.directionMagneticApparent'' (full_turn (f_add heading angle_apparent))]})"

definition wind_ground :: "derived_env \<Rightarrow> calculator" where
  "wind_ground env = stateless ''windGround''
     [''environment.wind.speedApparent'', ''environment.wind.angleApparent'', ''navigation.speedOverGround'']
     (\<lambda>vs. do {
        aws \<leftarrow> get_num ''environment.wind.speedApparent'' vs;
        awa \<leftarrow> get_num ''environment.wind.angleApparent'' vs;
        sog \<leftarrow> get_num ''navigation.speedOverGround'' vs;
        let m = de_libm env;
            u = f_sub (f_mul aws (m_cos m awa)) sog;
            v = f_mul aws (m_sin m awa);
            tws = m_sqrt m (f_add (f_mul u u) (f_mul v v));
            twa = m_atan2 m v u
        in Some [num_value ''environment.wind.angleTrueGround'' twa,
                 num_value ''environment.wind.speedOverGround'' tws]})"

definition wind_ground_direction :: calculator where
  "wind_ground_direction = stateless ''windGroundDirection''
     [''navigation.headingTrue'', ''environment.wind.angleTrueGround'']
     (\<lambda>vs. do {
        heading \<leftarrow> get_num ''navigation.headingTrue'' vs;
        angle \<leftarrow> get_num ''environment.wind.angleTrueGround'' vs;
        Some [num_value ''environment.wind.directionGround'' (full_turn (f_add heading angle))]})"

definition SHIFT_THRESHOLD :: f64 where
  "SHIFT_THRESHOLD = lit (26 / 100)"

definition wind_shift_of :: "f64 option \<Rightarrow> f64 \<Rightarrow> f64" where
  "wind_shift_of prev direction =
     (case prev of
        None \<Rightarrow> Fin 0
      | Some p \<Rightarrow> (let diff = f_abs (f_sub direction p)
                  in if f_lt PI diff then f_sub (f_mul (Fin 2) PI) diff else diff))"

definition wind_shift :: "derived_env \<Rightarrow> calculator" where
  "wind_shift env = \<lparr>cl_name = ''windShift'', cl_inputs = [''environment.wind.directionTrue''],
     cl_calculate = (\<lambda>vs prev.
       case get_num ''environment.wind.directionTrue'' vs of
         None \<Rightarrow> (None, prev)
       | Some direction \<Rightarrow>
           (let shift = wind_shift_of prev direction
            in (if f_lt SHIFT_THRESHOLD shift
                then Some [path_value_new ''notifications.environment.wind.directionChange''
                       (json_obj [(''state'', JStr ''alert''), (''method'', JArr [JStr ''visual'']),
                                  (''message'', JStr (de_shift_text env shift))])]
                else None, Some direction)))\<rparr>"

section \<open>Course\<close>

definition course_bearing :: "derived_env \<Rightarrow> calculator" where
  "course_bearing env = stateless ''courseBearing''
     [''navigation.position'', ''navigation.course.nextPoint.position'']
     (\<lambda>vs. do {
        (lat1, lon1) \<leftarrow> get_lat_lon ''navigation.position'' vs;
        (lat2, lon2) \<leftarrow> get_lat_lon ''navigation.course.nextPoint.position'' vs;
        Some [num_value ''navigation.course.calcValues.bearingTrackTrue''
                (initial_bearing (de_libm env) lat1 lon1 lat2 lon2)]})"

definition bearing_magnetic :: calculator where
  "bearing_magnetic = stateless ''bearingMagnetic''
     [''navigation.course.calcValues.bearingTrackTrue'', ''navigation.magneticVariation'']
     (\<lambda>vs. do {
        bearing_true \<leftarrow> get_num ''navigation.course.calcValues.bearingTrackTrue'' vs;
        variation \<leftarrow> get_num ''navigation.magneticVariation'' vs;
        if \<not> (is_finite bearing_true \<and> is_finite variation) then None
        else Some [num_value ''navigation.course.calcValues.bearingTrackMagnetic''
                     (full_turn (f_sub bearing_true variation))]})"

definition course_distance :: "derived_env \<Rightarrow> calculator" where
  "course_distance env = stateless ''courseDistance''
     [''navigation.position'', ''navigation.course.nextPoint.position'']
     (\<lambda>vs. do {
        (lat1, lon1) \<leftarrow> get_lat_lon ''navigation.position'' vs;
        (lat2, lon2) \<leftarrow> get_lat_lon ''navigation.course.nextPoint.position'' vs;
        Some [num_value ''navigation.course.calcValues.nextPoint.distance''
                (haversine_meters (de_libm env) lat1 lon1 lat2 lon2)]})"

definition previous_point_distance :: "derived_env \<Rightarrow> calculator" where
  "previous_point_distance env = stateless ''previousPointDistance''
     [''navigation.position'', ''navigation.course.previousPoint.position'']
     (\<lambda>vs. do {
        (lat1, lon1) \<leftarrow> get_lat_lon ''navigation.position'' vs;
        (lat2, lon2) \<leftarrow> get_lat_lon ''navigation.course.previousPoint.position'' vs;
        Some [num_value ''navigation.course.calcValues.previousPoint.distance''
                (haversine_meters (de_libm env) lat1 lon1 lat2 lon2)]})"

definition course_xte :: "derived_env \<Rightarrow> calculator" where
  "course_xte env = stateless ''courseXte''
     [''navigation.position'', ''navigation.course.nextPoint.position'', ''navigation.course.previousPoint.position'']
     (\<lambda>vs. do {
        pos \<leftarrow> get_lat_lon ''navigation.position'' vs;
        next_ll \<leftarrow> get_lat_lon ''navigation.course.nextPoint.position'' vs;
        prev_ll \<leftarrow> get_lat_lon ''navigation.course.previousPoint.position'' vs;
        Some [num_value ''navigation.course.calcValues.crossTrackError''
                (cross_track_error (de_libm env) pos prev_ll next_ll)]})"

definition vmg_waypoint :: "derived_env \<Rightarrow> calculator" where
  "vmg_waypoint env = stateless ''vmgWaypoint''
     [''navigation.speedOverGround'', ''navigation.courseOverGroundTrue'',
      ''navigation.course.calcValues.bearingTrackTrue'']
     (\<lambda>vs. do {
        sog \<leftarrow> get_num ''navigation.speedOverGround'' vs;
        cog \<leftarrow> get_num ''navigation.courseOverGroundTrue'' vs;
        bearing \<leftarrow> get_num ''navigation.course.calcValues.bearingTrackTrue'' vs;
        if \<not> (is_finite sog \<and> is_finite cog \<and> is_finite bearing) then None
        else Some [num_value ''navigation.course.calcValues.nextPoint.velocityMadeGood''
                     (f_mul sog (m_cos (de_libm env) (f_sub cog bearing)))]})"

definition eta :: calculator where
  "eta = stateless ''eta''
     [''navigation.course.calcValues.nextPoint.distance'',
      ''navigation.course.calcValues.nextPoint.velocityMadeGood'']
     (\<lambda>vs. do {
        distance \<leftarrow> get_num ''navigation.course.calcValues.nextPoint.distance'' vs;
        vmg \<leftarrow> get_num ''navigation.course.calcValues.nextPoint.velocityMadeGood'' vs;
        if f_le vmg (lit (1 / 10)) \<or> f_lt distance (Fin 0) then None
        else Some [num_value ''navigation.course.calcValues.nextPoint.estimatedTimeOfArrival''
                     (f_div distance vmg)]})"

definition steer_error :: calculator where
  "steer_error = stateless ''steerError''
     [''navigation.courseOverGroundTrue'', ''navigation.course.calcValues.bearingTrackTrue'']
     (\<lambda>vs. do {
        cog \<leftarrow> get_num ''navigation.courseOverGroundTrue'' vs;
        bearing \<leftarrow> get_num ''navigation.course.calcValues.bearingTrackTrue'' vs;
        Some [num_value ''navigation.course.steerError'' (angle_diff cog bearing)]})"

section \<open>Environment\<close>

definition dry_density :: "f64 \<Rightarrow> f64 \<Rightarrow> f64" where
  "dry_density pressure temperature = f_div pressure (f_mul (lit (287058 / 1000)) temperature)"

definition air_density :: "derived_env \<Rightarrow> calculator" where
  "air_density env = stateless ''airDensity''
     [''environment.outside.temperature'', ''environment.outside.pressure'', ''environment.outside.humidity'']
     (\<lambda>vs. do {
        temperature \<leftarrow> get_num ''environment.outside.temperature'' vs;
        pressure \<leftarrow> get_num ''environment.outside.pressure'' vs;
        if \<not> is_finite temperature \<or> \<not> is_finite pressure \<or> f_le temperature (Fin 0) \<or> f_le pressure (Fin 0)
        then None
        else Some [num_value ''environment.outside.airDensity''
          (case get_num ''environment.outside.humidity'' vs of
             Some humidity \<Rightarrow>
               if is_finite humidity \<and> f_lt (Fin 0) humidity \<and> f_le humidity (Fin 1)
               then (let temp_c = f_sub temperature KELVIN_OFFSET;
                         ps = f_mul (lit (61121 / 100)) (m_exp (de_libm env)
                                (f_div (f_mul (f_sub (lit (18678 / 1000)) (f_div temp_c (lit (2345 / 10)))) temp_c)
                                       (f_add (lit (25714 / 100)) temp_c)));
                         pv = f_mul humidity ps;
                         pd = f_sub pressure pv
                     in f_add (dry_density pd temperature)
                              (f_div pv (f_mul (lit (461495 / 1000)) temperature)))
               else dry_density pressure temperature
           | None \<Rightarrow> dry_density pressure temperature)]})"

definition dew_point :: "derived_env \<Rightarrow> calculator" where
  "dew_point env = stateless ''dewPoint''
     [''environment.outside.temperature'', ''environment.outside.humidity'']
     (\<lambda>vs. do {
        temp_k \<leftarrow> get_num ''environment.outside.temperature'' vs;
        humidity \<leftarrow> get_num ''environment.outside.humidity'' vs;
        if \<not> is_finite humidity \<or> \<not> is_finite temp_k \<or> f_le humidity (Fin 0) \<or> f_lt (Fin 1) humidity
           \<or> f_le temp_k (Fin 0)
        then None
        else (let b = lit (1767 / 100); c = lit (2435 / 10);
                  temp_c = f_sub temp_k KELVIN_OFFSET;
                  gamma = f_add (m_ln (de_libm env) humidity) (f_div (f_mul b temp_c) (f_add c temp_c));
                  dew_c = f_div (f_mul c gamma) (f_sub b gamma)
              in Some [num_value ''environment.outside.dewPointTemperature'' (f_add dew_c KELVIN_OFFSET)])})"

definition rothfusz :: "libm \<Rightarrow> f64 \<Rightarrow> f64 \<Rightarrow> f64" where
  "rothfusz m t r =
     (let hi = f_add (f_neg (lit (42379 / 1000))) (f_mul (lit (204901523 / 10 ^ 8)) t);
          hi = f_add hi (f_mul (lit (1014333127 / 10 ^ 8)) r);
          hi = f_sub hi (f_mul (f_mul (lit (22475541 / 10 ^ 8)) t) r);
          hi = f_sub hi (f_mul (f_mul (lit (683783 / 10 ^ 8)) t) t);
          hi = f_sub hi (f_mul (f_mul (lit (5481717 / 10 ^ 8)) r) r);
          hi = f_add hi (f_mul (f_mul (f_mul (lit (122874 / 10 ^ 8)) t) t) r);
          hi = f_add hi (f_mul (f_mul (f_mul (lit (85282 / 10 ^ 8)) t) r) r);
          hi = f_sub hi (f_mul (f_mul (f_mul (f_mul (lit (199 / 10 ^ 8)) t) t) r) r);
          hi = (if f_lt r (Fin 13) \<and> f_within (Fin 80) (Fin 112) t
                then f_sub hi (f_mul (f_div (f_sub (Fin 13) r) (Fin 4))
                       (m_sqrt m (f_div (f_sub (Fin 17) (f_abs (f_sub t (Fin 95)))) (Fin 17))))
                else hi)
      in if f_lt (Fin 85) r \<and> f_within (Fin 80) (Fin 87) t
         then f_add hi (f_mul (f_div (f_sub r (Fin 85)) (Fin 10)) (f_div (f_sub (Fin 87) t) (Fin 5)))
         else hi)"

definition heat_index :: "derived_env \<Rightarrow> calculator" where
  "heat_index env = stateless ''heatIndex''
     [''environment.outside.temperature'', ''environment.outside.humidity'']
     (\<lambda>vs. do {
        temp_k \<leftarrow> get_num ''environment.outside.temperature'' vs;
        humidity \<leftarrow> get_num ''environment.outside.humidity'' vs;
        if \<not> is_finite temp_k \<or> \<not> is_finite humidity \<or> f_le temp_k (Fin 0) \<or> \<not> f_within (Fin 0) (Fin 1) humidity
        then None
        else (let temp_c = f_sub temp_k KELVIN_OFFSET;
                  temp_f = f_add (f_div (f_mul temp_c (Fin 9)) (Fin 5)) (Fin 32);
                  rh = f_mul humidity (Fin 100);
                  simple = f_mul (lit (1 / 2)) (f_add (f_add (f_add temp_f (Fin 61))
                             (f_mul (f_sub temp_f (Fin 68)) (lit (12 / 10)))) (f_mul rh (lit (94 / 1000))));
                  hi_f = (if f_le (Fin 80) simple then rothfusz (de_libm env) temp_f rh else simple);
                  hi_c = f_div (f_mul (f_sub hi_f (Fin 32)) (Fin 5)) (Fin 9)
              in Some [num_value ''environment.outside.heatIndexTemperature'' (f_add hi_c KELVIN_OFFSET)])})"

definition wind_chill :: "derived_env \<Rightarrow> calculator" where
  "wind_chill env = stateless ''windChill''
     [''environment.outside.temperature'', ''environment.wind.speedApparent'']
     (\<lambda>vs. do {
        temp_k \<leftarrow> get_num ''environment.outside.temperature'' vs;
        wind_ms \<leftarrow> get_num ''environment.wind.speedApparent'' vs;
        if f_le temp_k (Fin 0) \<or> f_lt wind_ms (Fin 0) then None
        else (let temp_c = f_sub temp_k KELVIN_OFFSET;
                  wind_kmh = f_mul wind_ms (lit (36 / 10));
                  wc_c = (if f_le temp_c (Fin 10) \<and> f_le (lit (48 / 10)) wind_kmh
                          then (let v016 = m_powf (de_libm env) wind_kmh (lit (16 / 100))
                                in f_add (f_sub (f_add (lit (1312 / 100)) (f_mul (lit (6215 / 10000)) temp_c))
                                                (f_mul (lit (1137 / 100)) v016))
                                         (f_mul (f_mul (lit (3965 / 10000)) temp_c) v016))
                          else temp_c)
              in Some [num_value ''environment.outside.apparentWindChillTemperature'' (f_add wc_c KELVIN_OFFSET)])})"

definition depth_below_keel :: calculator where
  "depth_below_keel = stateless ''depthBelowKeel''
     [''environment.depth.belowTransducer'', ''environment.depth.transducerToKeel'']
     (\<lambda>vs. do {
        below_transducer \<leftarrow> get_num ''environment.depth.belowTransducer'' vs;
        let transducer_to_keel = unwrap_or (get_num ''environment.depth.transducerToKeel'' vs) (Fin 0)
        in Some [num_value ''environment.depth.belowKeel'' (f_sub below_transducer transducer_to_keel)]})"

definition depth_below_surface :: calculator where
  "depth_below_surface = stateless ''depthBelowSurface''
     [''environment.depth.belowKeel'', ''design.draft.value.current'']
     (\<lambda>vs. do {
        below_keel \<leftarrow> get_num ''environment.depth.belowKeel'' vs;
        draft \<leftarrow> get_num ''design.draft.value.current'' vs;
        if f_lt below_keel (Fin 0) \<or> f_lt draft (Fin 0) then None
        else Some [num_value ''environment.depth.belowSurface'' (f_add below_keel draft)]})"

definition transducer_to_keel :: calculator where
  "transducer_to_keel = stateless ''transducerToKeel''
     [''environment.depth.belowTransducer'', ''environment.depth.surfaceToTransducer'', ''design.draft.value.current'']
     (\<lambda>vs. do {
        below_transducer \<leftarrow> get_num ''environment.depth.belowTransducer'' vs;
        surface_to_transducer \<leftarrow> get_num ''environment.depth.surfaceToTransducer'' vs;
        draft \<leftarrow> get_num ''design.draft.value.current'' vs;
        let to_keel = f_sub draft surface_to_transducer
        in Some [num_value ''environment.depth.transducerToKeel'' to_keel,
                 num_value ''environment.depth.belowKeel'' (f_sub below_transducer to_keel)]})"

section \<open>Sun and moon\<close>

definition suncalc :: "derived_env \<Rightarrow> calculator" where
  "suncalc env = stateless ''suncalc'' [''navigation.position'', ''navigation.datetime'']
     (\<lambda>vs. do {
        (lat, lon) \<leftarrow> get_lat_lon ''navigation.position'' vs;
        text \<leftarrow> get_text ''navigation.datetime'' vs;
        ms \<leftarrow> de_parse_ms env text;
        let (azimuth, altitude) = de_sun_pos env ms lat lon
        in Some [num_value ''environment.sunlight.azimuth'' azimuth,
                 num_value ''environment.sunlight.altitude'' altitude]})"

definition suntime :: "derived_env \<Rightarrow> calculator" where
  "suntime env = stateless ''suntime'' [''navigation.position'', ''navigation.datetime'']
     (\<lambda>vs. do {
        (lat, lon) \<leftarrow> get_lat_lon ''navigation.position'' vs;
        text \<leftarrow> get_text ''navigation.datetime'' vs;
        ms \<leftarrow> de_parse_ms env text;
        let time = (\<lambda>ph. JStr (de_format_ms env (de_sun_time env ms ph lat lon)))
        in Some [path_value_new ''environment.sunlight.times.sunrise'' (time Sunrise),
                 path_value_new ''environment.sunlight.times.sunset'' (time Sunset),
                 path_value_new ''environment.sunlight.times.dawn'' (time Dawn),
                 path_value_new ''environment.sunlight.times.dusk'' (time Dusk)]})"

definition moon :: "derived_env \<Rightarrow> calculator" where
  "moon env = stateless ''moon'' [''navigation.datetime'']
     (\<lambda>vs. do {
        text \<leftarrow> get_text ''navigation.datetime'' vs;
        ms \<leftarrow> de_parse_ms env text;
        if ms < 0 then None
        else (let mp = de_moon env ms
              in Some [num_value ''environment.moon.phase'' (mp_phase mp),
                       num_value ''environment.moon.illumination'' (mp_fraction mp),
                       num_value ''environment.moon.age'' (mp_age mp),
                       path_value_new ''environment.moon.phaseName'' (JStr (mp_phase_name mp))])})"

section \<open>Propulsion and energy\<close>

text \<open>These look for their instances among all paths of the snapshot.\<close>

definition battery_power_at :: "snapshot \<Rightarrow> string \<times> json \<Rightarrow> path_value option" where
  "battery_power_at vs pv = do {
     prefix \<leftarrow> strip_suffix ''.voltage'' (fst pv);
     if \<not> starts_with prefix ''electrical.batteries.'' then None
     else do {
       voltage \<leftarrow> get_num (fst pv) vs;
       current \<leftarrow> get_num (prefix @ ''.current'') vs;
       Some (num_value (prefix @ ''.power'') (f_mul voltage current))}}"

definition battery_power :: calculator where
  "battery_power = stateless ''batteryPower'' [''electrical.batteries'']
     (\<lambda>vs. some_list (List.map_filter (battery_power_at vs) vs))"

definition prop_state_at :: "string \<times> json \<Rightarrow> path_value option" where
  "prop_state_at pv = do {
     prefix \<leftarrow> strip_suffix ''.revolutions'' (fst pv);
     if \<not> starts_with prefix ''propulsion.'' then None
     else do {
       rpm \<leftarrow> as_f64 (snd pv);
       Some (path_value_new (prefix @ ''.state.value'') (JStr (if f_lt (Fin 0) rpm then ''started'' else ''stopped'')))}}"

definition prop_state :: calculator where
  "prop_state = stateless ''propState'' [''propulsion''] (\<lambda>vs. some_list (List.map_filter prop_state_at vs))"

definition fuel_economy_at :: "f64 \<Rightarrow> string \<times> json \<Rightarrow> path_value option" where
  "fuel_economy_at sog pv = do {
     prefix \<leftarrow> strip_suffix ''.fuel.rate'' (fst pv);
     if \<not> starts_with prefix ''propulsion.'' then None
     else do {
       rate \<leftarrow> as_f64 (snd pv);
       if f_le rate (Fin 0) then None
       else Some (num_value (prefix @ ''.fuel.economy'') (f_div sog rate))}}"

definition fuel_consumption :: calculator where
  "fuel_consumption = stateless ''fuelConsumption'' [''navigation.speedOverGround'', ''propulsion'']
     (\<lambda>vs. do {
        sog \<leftarrow> get_num ''navigation.speedOverGround'' vs;
        if f_lt sog (lit (1 / 10)) then None
        else some_list (List.map_filter (fuel_economy_at sog) vs)})"

definition prop_slip_at :: "f64 \<Rightarrow> string \<times> json \<Rightarrow> path_value option" where
  "prop_slip_at stw pv = do {
     prefix \<leftarrow> strip_suffix ''.revolutions'' (fst pv);
     if \<not> starts_with prefix ''propulsion.'' then None
     else do {
       revolutions \<leftarrow> as_f64 (snd pv);
       if f_le revolutions (Fin 0) then None
       else Some (num_value (prefix @ ''.drive.propeller.slip'') (f_div stw revolutions))}}"

definition prop_slip :: calculator where
  "prop_slip = stateless ''propSlip'' [''navigation.speedThroughWater'', ''propulsion'']
     (\<lambda>vs. do {
        stw \<leftarrow> get_num ''navigation.speedThroughWater'' vs;
        some_list (List.map_filter (prop_slip_at stw) vs)})"

definition tank_volume_at :: "snapshot \<Rightarrow> string \<times> json \<Rightarrow> path_value option" where
  "tank_volume_at vs pv = do {
     prefix \<leftarrow> strip_suffix ''.capacity'' (fst pv);
     if \<not> starts_with prefix ''tanks.'' then None
     else do {
       capacity \<leftarrow> get_num (fst pv) vs;
       level \<leftarrow> get_num (prefix @ ''.currentLevel'') vs;
       if f_le capacity (Fin 0) \<or> \<not> f_within (Fin 0) (Fin 1) level then None
       else Some (num_value (prefix @ ''.currentVolume'') (f_mul level capacity))}}"

definition tank_volume :: calculator where
  "tank_volume = stateless ''tankVolume'' [''tanks''] (\<lambda>vs. some_list (List.map_filter (tank_volume_at vs) vs))"

section \<open>The list\<close>

definition all_calculators :: "derived_env \<Rightarrow> calculator list" where
  "all_calculators env =
     [heading_true, course_over_ground_magnetic, course_over_ground_true, leeway_angle, leeway, set_drift env,
      true_wind env, vmg_wind env, vmg_stw env, wind_direction_magnetic, wind_direction_magnetic2, wind_ground env,
      wind_ground_direction, wind_shift env,
      course_bearing env, bearing_magnetic, course_distance env, previous_point_distance env, course_xte env,
      vmg_waypoint env, eta, steer_error,
      air_density env, dew_point env, heat_index env, wind_chill env, depth_below_keel, depth_below_surface,
      transducer_to_keel,
      suncalc env, suntime env, moon env,
      battery_power, prop_state, fuel_consumption, prop_slip, tank_volume]"

definition path_matches_input :: "string \<Rightarrow> string \<Rightarrow> bool" where
  "path_matches_input changed input \<longleftrightarrow> changed = input \<or> starts_with changed (input @ ''.'')"

end
