(* ===== verification/DerivedData.thy ===== *)
theory DerivedData
  imports DerivedCalc PluginHost
begin

text \<open>
  The derived-data plugin (\<^verbatim>\<open>plugins/derived-data/src/lib.rs\<close>): its choice of
  calculators and of subscribed paths, and the callback that runs the calculators in rounds, each on
  the values of the round before, and sends one delta with what came out.
\<close>

definition enabled_calculators :: "derived_env \<Rightarrow> string list \<Rightarrow> calculator list" where
  "enabled_calculators env disabled = filter (\<lambda>c. cl_name c \<notin> set disabled) (all_calculators env)"

definition input_paths :: "calculator list \<Rightarrow> string list" where
  "input_paths cs = fold (\<lambda>p ps. if p \<in> set ps then ps else ps @ [p]) (concat (map cl_inputs cs)) []"

definition derived_spec :: "calculator list \<Rightarrow> subscription_spec" where
  "derived_spec cs = \<lparr>ss_context = ''vessels.self'', ss_patterns = input_paths cs\<rparr>"

definition foreign_values :: "delta \<Rightarrow> path_value list" where
  "foreign_values d = concat (map (\<lambda>u. if s_label (u_source u) = ''derived-data'' then [] else u_values u) (d_updates d))"

definition snap_insert :: "path_value list \<Rightarrow> snapshot \<Rightarrow> snapshot" where
  "snap_insert pvs snap = fold (\<lambda>pv. hm_insert (pv_path pv) (pv_value pv)) pvs snap"

definition affected :: "string list \<Rightarrow> calculator \<Rightarrow> bool" where
  "affected changed c \<longleftrightarrow> (\<exists>input\<in>set (cl_inputs c). \<exists>cp\<in>set changed. path_matches_input cp input)"

text \<open>One round: the values of the affected calculators, and the state of the wind shift.\<close>

fun run_calculators :: "string list \<Rightarrow> snapshot \<Rightarrow> calculator list \<Rightarrow> f64 option \<Rightarrow> path_value list \<times> f64 option" where
  "run_calculators changed snap [] st = ([], st)"
| "run_calculators changed snap (c # cs) st =
     (if affected changed c
      then (let (out, st1) = cl_calculate c snap st;
                (pvs, st2) = run_calculators changed snap cs st1
            in (unwrap_or out [] @ pvs, st2))
      else run_calculators changed snap cs st)"

definition max_iterations :: nat where
  "max_iterations = 5"

fun derive_rounds :: "calculator list \<Rightarrow> nat \<Rightarrow> string list \<Rightarrow> snapshot \<Rightarrow> f64 option
    \<Rightarrow> path_value list \<times> snapshot \<times> f64 option" where
  "derive_rounds cs 0 changed snap st = ([], snap, st)"
| "derive_rounds cs (Suc n) changed snap st =
     (let (new, st1) = run_calculators changed snap cs st in
      if new = [] then ([], snap, st1)
      else (let (more, snap2, st2) = derive_rounds cs n (map pv_path new) (snap_insert new snap) st1
            in (new @ more, snap2, st2)))"

text \<open>The last value of each path; the iteration order of the map is that of its list.\<close>

definition dedup_values :: "path_value list \<Rightarrow> path_value list" where
  "dedup_values pvs = map snd (fold (\<lambda>pv. hm_insert (pv_path pv) pv) pvs [])"

record derived_state =
  dd_snapshot :: snapshot
  dd_shift :: "f64 option"

definition derived_new :: derived_state where
  "derived_new = \<lparr>dd_snapshot = [], dd_shift = None\<rparr>"

definition derived_callback :: "calculator list \<Rightarrow> datetime \<Rightarrow> delta \<Rightarrow> derived_state \<Rightarrow> delta option \<times> derived_state" where
  "derived_callback cs utc d x =
     (let vals = foreign_values d; snap = snap_insert vals (dd_snapshot x) in
      if vals = [] then (None, x\<lparr>dd_snapshot := snap\<rparr>)
      else (let (derived, snap', st) = derive_rounds cs max_iterations (map pv_path vals) snap (dd_shift x)
            in (if derived = [] then None
                else Some (self_vessel [update_new utc (source_plugin ''derived-data'') (dedup_values derived)]),
                \<lparr>dd_snapshot = snap', dd_shift = st\<rparr>)))"

end
