(* ===== verification/DerivedSpec.thy ===== *)
theory DerivedSpec
  imports DerivedData F64Error
begin

text \<open>
  What the derived-data plugin guarantees: how many rounds its calculators need, that what it derived
  agrees with the values it was derived from, which deltas reach it, and the calculators that feed
  each other.
\<close>

section \<open>Snapshots\<close>

lemma snap_insert_Nil [simp]: "snap_insert [] snap = snap"
  by (simp add: snap_insert_def)

lemma snap_insert_Cons [simp]: "snap_insert (pv # pvs) snap = snap_insert pvs (hm_insert (pv_path pv) (pv_value pv) snap)"
  by (simp add: snap_insert_def)

lemma snap_insert_append [simp]: "snap_insert (a @ b) snap = snap_insert b (snap_insert a snap)"
  by (simp add: snap_insert_def)

lemma snap_insert_other: "p \<notin> pv_path ` set pvs \<Longrightarrow> map_of (snap_insert pvs snap) p = map_of snap p"
  by (induction pvs arbitrary: snap) auto

lemma snap_insert_path:
  "p \<in> pv_path ` set pvs \<Longrightarrow> \<exists>pv\<in>set pvs. pv_path pv = p \<and> map_of (snap_insert pvs snap) p = Some (pv_value pv)"
proof (induction pvs arbitrary: snap)
  case (Cons pv pvs)
  show ?case
  proof (cases "p \<in> pv_path ` set pvs")
    case True
    from Cons.IH [OF this] show ?thesis by auto
  next
    case False
    with Cons.prems show ?thesis by (auto simp: snap_insert_other)
  qed
qed simp

section \<open>Rounds\<close>

definition outcome :: "calculator \<Rightarrow> snapshot \<Rightarrow> f64 option \<Rightarrow> path_value list" where
  "outcome c snap st = unwrap_or (fst (cl_calculate c snap st)) []"

lemma run_calculators_set:
  assumes "run_calculators changed snap cs st = (pvs, st')" and "pv \<in> set pvs"
  shows "\<exists>c\<in>set cs. affected changed c \<and> (\<exists>st. pv \<in> set (outcome c snap st))"
  using assms
proof (induction cs arbitrary: st pvs st')
  case (Cons c cs)
  show ?case
  proof (cases "affected changed c")
    case False
    with Cons show ?thesis by auto
  next
    case True
    obtain out st1 pvs2 st2 where c: "cl_calculate c snap st = (out, st1)"
      and r: "run_calculators changed snap cs st1 = (pvs2, st2)" by (meson surj_pair)
    then have pvs: "pvs = unwrap_or out [] @ pvs2" using Cons.prems(1) True by simp
    show ?thesis
    proof (cases "pv \<in> set pvs2")
      case True
      from Cons.IH [OF r this] show ?thesis by auto
    next
      case False
      then have "pv \<in> set (outcome c snap st)" using Cons.prems(2) by (simp add: pvs outcome_def c)
      then show ?thesis using True by auto
    qed
  qed
qed simp

lemma run_calculators_mem:
  assumes "run_calculators changed snap cs st = (pvs, st')" and "c \<in> set cs" and "affected changed c"
  shows "\<exists>st. set (outcome c snap st) \<subseteq> set pvs"
  using assms
proof (induction cs arbitrary: st pvs st')
  case (Cons a cs)
  show ?case
  proof (cases "affected changed a")
    case False
    with Cons show ?thesis by auto
  next
    case True
    obtain out st1 pvs2 st2 where a: "cl_calculate a snap st = (out, st1)"
      and r: "run_calculators changed snap cs st1 = (pvs2, st2)" by (meson surj_pair)
    then have pvs: "pvs = unwrap_or out [] @ pvs2" using Cons.prems(1) True by simp
    show ?thesis
    proof (cases "c = a")
      case True
      then have "set (outcome c snap st) \<subseteq> set pvs" by (simp add: pvs outcome_def a)
      then show ?thesis ..
    next
      case False
      then have "c \<in> set cs" using Cons.prems(2) by simp
      from Cons.IH [OF r this Cons.prems(3)] show ?thesis by (auto simp: pvs)
    qed
  qed
qed simp

lemma rounds_Suc:
  assumes "derive_rounds cs (Suc n) changed snap st = (derived, snap', st')"
    and "run_calculators changed snap cs st = (new, st1)" and "new \<noteq> []"
  obtains more_vals where "derive_rounds cs n (map pv_path new) (snap_insert new snap) st1 = (more_vals, snap', st')"
    and "derived = new @ more_vals"
  using assms by (cases "derive_rounds cs n (map pv_path new) (snap_insert new snap) st1") auto

text \<open>The paths that a round can write when the round before wrote \<open>ps\<close>.\<close>

definition next_paths :: "(string \<Rightarrow> string list) \<Rightarrow> calculator list \<Rightarrow> string list \<Rightarrow> string list" where
  "next_paths outs cs ps = concat (map (\<lambda>c. outs (cl_name c)) (filter (affected ps) cs))"

lemma affected_mono: "affected ps c \<Longrightarrow> set ps \<subseteq> set qs \<Longrightarrow> affected qs c"
  by (auto simp: affected_def)

lemma not_affected: "\<not> affected ps c \<Longrightarrow> p \<in> set (cl_inputs c) \<Longrightarrow> p \<notin> set ps"
  by (auto simp: affected_def path_matches_input_def)

text \<open>
  A network of calculators: each depends on its inputs only and writes the paths it is given, each
  once.
\<close>

definition up_to_date :: "calculator \<Rightarrow> snapshot \<Rightarrow> bool" where
  "up_to_date c snap \<longleftrightarrow> (\<forall>pv\<in>set (outcome c snap None). map_of snap (pv_path pv) = Some (pv_value pv))"

locale calculator_net =
  fixes cs :: "calculator list" and outs :: "string \<Rightarrow> string list"
  assumes local_inputs: "c \<in> set cs \<Longrightarrow> (\<And>p. p \<in> set (cl_inputs c) \<Longrightarrow> map_of vs p = map_of ws p) \<Longrightarrow>
      cl_calculate c vs st = cl_calculate c ws st"
    and writes: "c \<in> set cs \<Longrightarrow> set (map pv_path (outcome c vs st)) \<subseteq> set (outs (cl_name c))"
    and writes_once: "c \<in> set cs \<Longrightarrow> distinct (map pv_path (outcome c vs st))"
    and names: "distinct (map cl_name cs)"
begin

lemma round_paths:
  assumes "run_calculators changed snap cs st = (pvs, st')" and "set changed \<subseteq> set ps"
  shows "set (map pv_path pvs) \<subseteq> set (next_paths outs cs ps)"
proof
  fix p assume "p \<in> set (map pv_path pvs)"
  then obtain pv where pv: "pv \<in> set pvs" "p = pv_path pv" by auto
  from run_calculators_set [OF assms(1) pv(1)] obtain c st where c: "c \<in> set cs" "affected changed c"
    "pv \<in> set (outcome c snap st)" by blast
  have "p \<in> set (outs (cl_name c))" using writes [OF c(1), of snap st] c(3) pv(2) by auto
  then show "p \<in> set (next_paths outs cs ps)"
    using c(1) affected_mono [OF c(2) assms(2)] by (auto simp: next_paths_def)
qed

text \<open>More rounds change nothing once the paths have run out.\<close>

lemma rounds_settle:
  assumes "set changed \<subseteq> set ps" and "(next_paths outs cs ^^ k) ps = []"
  shows "derive_rounds cs (k + n) changed snap st = derive_rounds cs k changed snap st"
  using assms
proof (induction k arbitrary: changed ps snap st)
  case 0
  then have none: "\<not> affected changed c" for c by (simp add: affected_def)
  have "run_calculators changed snap xs st = ([], st)" for xs by (induction xs) (simp_all add: none)
  then show ?case by (cases n) simp_all
next
  case (Suc k)
  obtain new st1 where r: "run_calculators changed snap cs st = (new, st1)" by force
  have "set (map pv_path new) \<subseteq> set (next_paths outs cs ps)" by (rule round_paths [OF r Suc.prems(1)])
  moreover have "(next_paths outs cs ^^ k) (next_paths outs cs ps) = []"
    using Suc.prems(2) by (simp add: funpow_swap1)
  ultimately have "derive_rounds cs (k + n) (map pv_path new) (snap_insert new snap) st1
      = derive_rounds cs k (map pv_path new) (snap_insert new snap) st1" by (rule Suc.IH)
  then show ?case by (simp add: r)
qed

definition sole_writer :: "calculator \<Rightarrow> bool" where
  "sole_writer c \<longleftrightarrow> (\<forall>c'\<in>set cs. cl_name c' \<noteq> cl_name c \<longrightarrow> set (outs (cl_name c')) \<inter> set (outs (cl_name c)) = {})
     \<and> (\<forall>vs st. outcome c vs st = outcome c vs None)"

lemma sole_writer_outcome: "sole_writer c \<Longrightarrow> outcome c vs st = outcome c vs None"
  unfolding sole_writer_def by blast

lemma sole_writerD:
  assumes "sole_writer c" and "c \<in> set cs" and "run_calculators changed snap cs st = (pvs, st')"
    and "pv \<in> set pvs" and "pv_path pv \<in> set (outs (cl_name c))"
  shows "affected changed c \<and> pv \<in> set (outcome c snap None)"
proof -
  from run_calculators_set [OF assms(3,4)] obtain c' st where c': "c' \<in> set cs" "affected changed c'"
    "pv \<in> set (outcome c' snap st)" by blast
  then have "pv_path pv \<in> set (outs (cl_name c'))" using writes [OF c'(1), of snap st] by auto
  then have "cl_name c' = cl_name c" using assms(1,5) c'(1) by (auto simp: sole_writer_def)
  then have "c' = c" using names c'(1) assms(2) by (simp add: distinct_map inj_on_def)
  moreover have "outcome c snap st = outcome c snap None" using assms(1) by (simp add: sole_writer_def)
  ultimately show ?thesis using c'(2,3) by simp
qed

lemma round_keeps_up_to_date:
  assumes c: "c \<in> set cs" "sole_writer c" and r: "run_calculators changed snap cs st = (new, st1)"
    and inv: "affected changed c \<or> up_to_date c snap" and calm: "\<not> affected (map pv_path new) c"
  shows "up_to_date c (snap_insert new snap)"
  unfolding up_to_date_def
proof
  fix pv assume "pv \<in> set (outcome c (snap_insert new snap) None)"
  moreover have "cl_calculate c (snap_insert new snap) None = cl_calculate c snap None"
    using not_affected [OF calm] by (intro local_inputs [OF c(1)]) (auto intro: snap_insert_other)
  ultimately have pv: "pv \<in> set (outcome c snap None)" by (simp add: outcome_def)
  then have out: "pv_path pv \<in> set (outs (cl_name c))" using writes [OF c(1), of snap None] by auto
  show "map_of (snap_insert new snap) (pv_path pv) = Some (pv_value pv)"
  proof (cases "pv_path pv \<in> pv_path ` set new")
    case True
    from snap_insert_path [OF this] obtain pv' where pv': "pv' \<in> set new" "pv_path pv' = pv_path pv"
      "map_of (snap_insert new snap) (pv_path pv) = Some (pv_value pv')" by blast
    have "pv' \<in> set (outcome c snap None)" using sole_writerD [OF c(2,1) r pv'(1)] out pv'(2) by simp
    then have "pv' = pv" using writes_once [OF c(1), of snap None] pv pv'(2) by (simp add: distinct_map inj_on_def)
    then show ?thesis using pv'(3) by simp
  next
    case False
    have "\<not> affected changed c"
    proof
      assume "affected changed c"
      from run_calculators_mem [OF r c(1) this] obtain st where "set (outcome c snap st) \<subseteq> set new" by blast
      then have "pv \<in> set new" using pv sole_writer_outcome [OF c(2), of snap st] by auto
      then show False using False by simp
    qed
    then have "map_of snap (pv_path pv) = Some (pv_value pv)" using inv pv by (auto simp: up_to_date_def)
    then show ?thesis using snap_insert_other [OF False] by simp
  qed
qed

lemma rounds_keep_up_to_date:
  assumes c: "c \<in> set cs" "sole_writer c" and "(next_paths outs cs ^^ k) ps = []" and "set changed \<subseteq> set ps"
    and "derive_rounds cs k changed snap st = (derived, snap', st')" and "affected changed c \<or> up_to_date c snap"
  shows "up_to_date c snap'"
  using assms(3-6)
proof (induction k arbitrary: changed ps snap st derived st')
  case 0
  then show ?case by (auto simp: affected_def)
next
  case (Suc k)
  obtain new st1 where r: "run_calculators changed snap cs st = (new, st1)" by force
  show ?case
  proof (cases "new = []")
    case True
    then have snap': "snap' = snap" using Suc.prems(3) r by simp
    show ?thesis
    proof (cases "affected changed c")
      case True
      from run_calculators_mem [OF r c(1) this] obtain st where "set (outcome c snap st) \<subseteq> set new" by blast
      then have "outcome c snap None = []" using \<open>new = []\<close> sole_writer_outcome [OF c(2), of snap st] by simp
      then show ?thesis by (simp add: up_to_date_def snap')
    next
      case False
      then show ?thesis using Suc.prems(4) snap' by simp
    qed
  next
    case False
    from Suc.prems(3) r False obtain more_vals where
      m: "derive_rounds cs k (map pv_path new) (snap_insert new snap) st1 = (more_vals, snap', st')" by (rule rounds_Suc)
    have "affected (map pv_path new) c \<or> up_to_date c (snap_insert new snap)"
      using round_keeps_up_to_date [OF c r Suc.prems(4)] by blast
    from Suc.IH [OF _ round_paths [OF r Suc.prems(2)] m this] Suc.prems(1) show ?thesis
      by (simp add: funpow_swap1)
  qed
qed

end

section \<open>The wiring of the calculators\<close>

text \<open>Name, inputs and outputs of the calculators with fixed paths.\<close>

definition wiring :: "(string \<times> string list \<times> string list) list" where
  "wiring =
     [(''headingTrue'', [''navigation.headingMagnetic'', ''navigation.magneticVariation''], [''navigation.headingTrue'']),
      (''courseOverGroundMagnetic'', [''navigation.courseOverGroundTrue'', ''navigation.magneticVariation''],
         [''navigation.courseOverGroundMagnetic'']),
      (''leewayAngle'', [''navigation.headingTrue'', ''navigation.courseOverGroundTrue''], [''navigation.leewayAngle'']),
      (''leeway'', [''navigation.attitude'', ''navigation.speedThroughWater''], [''navigation.leewayAngleHeel'']),
      (''setDrift'', [''navigation.headingMagnetic'', ''navigation.courseOverGroundTrue'', ''navigation.speedThroughWater'',
          ''navigation.speedOverGround'', ''navigation.magneticVariation''],
         [''environment.current.drift'', ''environment.current.setTrue'', ''environment.current.setMagnetic'',
          ''environment.current.driftImpact'']),
      (''trueWind'', [''navigation.headingTrue'', ''navigation.speedThroughWater'', ''environment.wind.speedApparent'',
          ''environment.wind.angleApparent''],
         [''environment.wind.directionTrue'', ''environment.wind.angleTrueWater'', ''environment.wind.speedTrue'']),
      (''vmgWind'', [''environment.wind.angleTrueWater'', ''navigation.speedOverGround''], [''performance.velocityMadeGood'']),
      (''vmgStw'', [''environment.wind.angleTrueWater'', ''navigation.speedThroughWater''],
         [''performance.velocityMadeGoodWater'']),
      (''windDirectionMagnetic'', [''environment.wind.directionTrue'', ''navigation.magneticVariation''],
         [''environment.wind.directionMagnetic'']),
      (''windDirectionMagnetic2'', [''navigation.headingMagnetic'', ''environment.wind.angleApparent''],
         [''environment.wind.directionMagneticApparent'']),
      (''windGround'', [''environment.wind.speedApparent'', ''environment.wind.angleApparent'', ''navigation.speedOverGround''],
         [''environment.wind.angleTrueGround'', ''environment.wind.speedOverGround'']),
      (''windGroundDirection'', [''navigation.headingTrue'', ''environment.wind.angleTrueGround''],
         [''environment.wind.directionGround'']),
      (''windShift'', [''environment.wind.directionTrue''], [''notifications.environment.wind.directionChange'']),
      (''courseBearing'', [''navigation.position'', ''navigation.course.nextPoint.position''],
         [''navigation.course.calcValues.bearingTrackTrue'']),
      (''bearingMagnetic'', [''navigation.course.calcValues.bearingTrackTrue'', ''navigation.magneticVariation''],
         [''navigation.course.calcValues.bearingTrackMagnetic'']),
      (''courseDistance'', [''navigation.position'', ''navigation.course.nextPoint.position''],
         [''navigation.course.calcValues.nextPoint.distance'']),
      (''previousPointDistance'', [''navigation.position'', ''navigation.course.previousPoint.position''],
         [''navigation.course.calcValues.previousPoint.distance'']),
      (''courseXte'', [''navigation.position'', ''navigation.course.nextPoint.position'',
          ''navigation.course.previousPoint.position''], [''navigation.course.calcValues.crossTrackError'']),
      (''vmgWaypoint'', [''navigation.speedOverGround'', ''navigation.courseOverGroundTrue'',
          ''navigation.course.calcValues.bearingTrackTrue''],
         [''navigation.course.calcValues.nextPoint.velocityMadeGood'']),
      (''eta'', [''navigation.course.calcValues.nextPoint.distance'',
          ''navigation.course.calcValues.nextPoint.velocityMadeGood''],
         [''navigation.course.calcValues.nextPoint.estimatedTimeOfArrival'']),
      (''steerError'', [''navigation.courseOverGroundTrue'', ''navigation.course.calcValues.bearingTrackTrue''],
         [''navigation.course.steerError'']),
      (''airDensity'', [''environment.outside.temperature'', ''environment.outside.pressure'', ''environment.outside.humidity''],
         [''environment.outside.airDensity'']),
      (''dewPoint'', [''environment.outside.temperature'', ''environment.outside.humidity''],
         [''environment.outside.dewPointTemperature'']),
      (''heatIndex'', [''environment.outside.temperature'', ''environment.outside.humidity''],
         [''environment.outside.heatIndexTemperature'']),
      (''windChill'', [''environment.outside.temperature'', ''environment.wind.speedApparent''],
         [''environment.outside.apparentWindChillTemperature'']),
      (''depthBelowKeel'', [''environment.depth.belowTransducer'', ''environment.depth.transducerToKeel''],
         [''environment.depth.belowKeel'']),
      (''depthBelowSurface'', [''environment.depth.belowKeel'', ''design.draft.value.current''],
         [''environment.depth.belowSurface'']),
      (''transducerToKeel'', [''environment.depth.belowTransducer'', ''environment.depth.surfaceToTransducer'',
          ''design.draft.value.current''], [''environment.depth.transducerToKeel'', ''environment.depth.belowKeel'']),
      (''suncalc'', [''navigation.position'', ''navigation.datetime''],
         [''environment.sunlight.azimuth'', ''environment.sunlight.altitude'']),
      (''suntime'', [''navigation.position'', ''navigation.datetime''],
         [''environment.sunlight.times.sunrise'', ''environment.sunlight.times.sunset'',
          ''environment.sunlight.times.dawn'', ''environment.sunlight.times.dusk'']),
      (''moon'', [''navigation.datetime''],
         [''environment.moon.phase'', ''environment.moon.illumination'', ''environment.moon.age'',
          ''environment.moon.phaseName''])]"

text \<open>A form of the match that stops at the first difference.\<close>

fun pm :: "string \<Rightarrow> string \<Rightarrow> bool" where
  "pm [] [] = True"
| "pm [] (d # x) = False"
| "pm (c # p) [] = (c = CHR ''.'')"
| "pm (c # p) (d # x) = (if c = d then pm p x else False)"

lemma path_matches_pm: "path_matches_input p x \<longleftrightarrow> pm p x"
proof -
  have "pm p x \<longleftrightarrow> p = x \<or> (\<exists>r. p = x @ CHR ''.'' # r)"
    by (induction p x rule: pm.induct) auto
  then show ?thesis by (simp add: path_matches_input_def starts_with_iff)
qed

definition any_match :: "string list \<Rightarrow> string list \<Rightarrow> bool" where
  "any_match ps xs \<longleftrightarrow> list_ex (\<lambda>x. list_ex (\<lambda>p. pm p x) ps) xs"

definition wired :: "string list \<Rightarrow> string list" where
  "wired ps = concat (map (\<lambda>(_, _, w). w) (filter (\<lambda>(_, i, _). any_match ps i) wiring))"

definition all_outputs :: "string list" where
  "all_outputs = concat (map (\<lambda>(_, _, w). w) wiring)"

lemma wired_out: "wired (wired (wired all_outputs)) = []"
  by code_simp

text \<open>What the net asks of a calculator.\<close>

definition good_calc :: "string list \<Rightarrow> calculator \<Rightarrow> bool" where
  "good_calc w c \<longleftrightarrow>
     (\<forall>vs ws st. (\<forall>p\<in>set (cl_inputs c). map_of vs p = map_of ws p) \<longrightarrow> cl_calculate c vs st = cl_calculate c ws st)
     \<and> (\<forall>vs st. set (map pv_path (outcome c vs st)) \<subseteq> set w \<and> distinct (map pv_path (outcome c vs st)))"

lemma good_stateless:
  assumes "\<And>vs ws. (\<forall>p\<in>set inputs. map_of vs p = map_of ws p) \<Longrightarrow> f vs = f ws"
    and "\<And>vs pvs. f vs = Some pvs \<Longrightarrow> set (map pv_path pvs) \<subseteq> set w \<and> distinct (map pv_path pvs)"
  shows "good_calc w (stateless name inputs f)"
proof -
  have "set (map pv_path (unwrap_or (f vs) [])) \<subseteq> set w \<and> distinct (map pv_path (unwrap_or (f vs) []))" for vs
    using assms(2) [of vs] by (cases "f vs") simp_all
  then show ?thesis using assms(1) by (auto simp: good_calc_def stateless_def outcome_def)
qed

definition acyclic_disabled :: "string list" where
  "acyclic_disabled = [''courseOverGroundTrue'', ''batteryPower'', ''propState'', ''fuelConsumption'', ''propSlip'', ''tankVolume'']"

definition static_calculators :: "derived_env \<Rightarrow> calculator list" where
  "static_calculators env =
     [heading_true, course_over_ground_magnetic, leeway_angle, leeway, set_drift env,
      true_wind env, vmg_wind env, vmg_stw env, wind_direction_magnetic, wind_direction_magnetic2, wind_ground env,
      wind_ground_direction, wind_shift env,
      course_bearing env, bearing_magnetic, course_distance env, previous_point_distance env, course_xte env,
      vmg_waypoint env, eta, steer_error,
      air_density env, dew_point env, heat_index env, wind_chill env, depth_below_keel, depth_below_surface,
      transducer_to_keel,
      suncalc env, suntime env, moon env]"

lemmas calculator_defs =
  heading_true_def course_over_ground_magnetic_def course_over_ground_true_def leeway_angle_def leeway_def set_drift_def
  true_wind_def vmg_wind_def vmg_stw_def wind_direction_magnetic_def wind_direction_magnetic2_def wind_ground_def
  wind_ground_direction_def course_bearing_def bearing_magnetic_def course_distance_def
  previous_point_distance_def course_xte_def vmg_waypoint_def eta_def steer_error_def air_density_def dew_point_def
  heat_index_def wind_chill_def depth_below_keel_def depth_below_surface_def transducer_to_keel_def suncalc_def
  suntime_def moon_def battery_power_def prop_state_def fuel_consumption_def prop_slip_def tank_volume_def

lemma stateless_simps [simp]:
  "cl_name (stateless n i f) = n" "cl_inputs (stateless n i f) = i" "cl_calculate (stateless n i f) vs st = (f vs, st)"
  by (simp_all add: stateless_def)

lemma wind_shift_simps [simp]:
  "cl_name (wind_shift env) = ''windShift''" "cl_inputs (wind_shift env) = [''environment.wind.directionTrue'']"
  by (simp_all add: wind_shift_def)

lemma static_names: "map (\<lambda>c. (cl_name c, cl_inputs c)) (static_calculators env) = map (\<lambda>(n, i, w). (n, i)) wiring"
  by (simp add: static_calculators_def calculator_defs wiring_def)

lemma static_enabled:
  "enabled_calculators env (acyclic_disabled @ off) = filter (\<lambda>c. cl_name c \<notin> set off) (static_calculators env)"
proof -
  have "filter (\<lambda>c. cl_name c \<notin> set acyclic_disabled) (all_calculators env) = static_calculators env"
    by (simp add: all_calculators_def static_calculators_def acyclic_disabled_def calculator_defs)
  then have "static_calculators env = filter (\<lambda>c. cl_name c \<notin> set acyclic_disabled) (all_calculators env)" by simp
  then show ?thesis by (simp add: enabled_calculators_def conj_commute)
qed

lemma good_wind_shift: "good_calc [''notifications.environment.wind.directionChange''] (wind_shift env)"
  by (auto simp: good_calc_def outcome_def wind_shift_def get_num_def path_value_new_def Let_def split: option.splits)

lemma set_drift_paths:
  "set (map pv_path (set_drift_of m h c w g v)) \<subseteq> set [''environment.current.drift'', ''environment.current.setTrue'',
     ''environment.current.setMagnetic'', ''environment.current.driftImpact'']"
  "distinct (map pv_path (set_drift_of m h c w g v))"
  by (auto simp: set_drift_of_def num_value_def path_value_new_def Let_def)

lemmas getter_defs = get_num_def get_text_def get_lat_lon_def

lemmas result_simps = bind_eq_Some_conv num_value_def path_value_new_def Let_def

lemma static_good: "list_all2 (\<lambda>c (n, i, w). good_calc w c) (static_calculators env) wiring"
  unfolding static_calculators_def wiring_def calculator_defs list_all2_Cons list_all2_Nil prod.case
  by (intro conjI TrueI good_stateless good_wind_shift;
      (simp add: getter_defs cong: if_cong option.case_cong; fail)?;
      (use set_drift_paths in \<open>auto simp: result_simps case_prod_beta split: if_splits\<close>))

definition outs :: "string \<Rightarrow> string list" where
  "outs n = (case map_of wiring n of Some (_, w) \<Rightarrow> w | None \<Rightarrow> [])"

lemma wiring_names: "distinct (map fst wiring)"
  by (simp add: wiring_def)

lemma static_entry:
  assumes "c \<in> set (static_calculators env)"
  shows "(cl_name c, cl_inputs c, outs (cl_name c)) \<in> set wiring" and "good_calc (outs (cl_name c)) c"
proof -
  from assms obtain k where k: "k < length (static_calculators env)" "static_calculators env ! k = c"
    by (auto simp: in_set_conv_nth)
  obtain n i w where e: "wiring ! k = (n, i, w)" by (cases "wiring ! k")
  have len: "length wiring = length (static_calculators env)" using list_all2_lengthD [OF static_good [of env]] by simp
  have "map (\<lambda>c. (cl_name c, cl_inputs c)) (static_calculators env) ! k = map (\<lambda>(n, i, w). (n, i)) wiring ! k"
    by (simp add: static_names)
  then have ni: "n = cl_name c" "i = cl_inputs c" using k e len by simp_all
  have mem: "(n, i, w) \<in> set wiring" using k(1) e len nth_mem by metis
  then have "map_of wiring n = Some (i, w)" using wiring_names by (simp add: map_of_eq_Some_iff)
  then have w: "outs n = w" by (simp add: outs_def)
  show "(cl_name c, cl_inputs c, outs (cl_name c)) \<in> set wiring" using mem ni w by simp
  have "good_calc w c" using list_all2_nthD [OF static_good k(1)] k(2) e by simp
  then show "good_calc (outs (cl_name c)) c" using ni w by simp
qed

lemma enabled_entry:
  assumes "c \<in> set (enabled_calculators env (acyclic_disabled @ off))"
  shows "c \<in> set (static_calculators env)"
  using assms by (simp add: static_enabled)

interpretation net: calculator_net "enabled_calculators env (acyclic_disabled @ off)" outs for env off
proof
  fix c vs ws st
  assume c: "c \<in> set (enabled_calculators env (acyclic_disabled @ off))"
  from static_entry(2) [OF enabled_entry [OF c]] have g: "good_calc (outs (cl_name c)) c" .
  show "cl_calculate c vs st = cl_calculate c ws st" if "\<And>p. p \<in> set (cl_inputs c) \<Longrightarrow> map_of vs p = map_of ws p"
    using g that unfolding good_calc_def by blast
  show "set (map pv_path (outcome c vs st)) \<subseteq> set (outs (cl_name c))" "distinct (map pv_path (outcome c vs st))"
    using g unfolding good_calc_def by blast+
next
  have "map cl_name (static_calculators env) = map fst wiring"
    using arg_cong [OF static_names [of env], of "map fst"] by (simp add: case_prod_beta comp_def)
  then have "distinct (map cl_name (static_calculators env))" using wiring_names by simp
  then show "distinct (map cl_name (enabled_calculators env (acyclic_disabled @ off)))"
    unfolding static_enabled by (rule distinct_map_filter)
qed

lemma any_match_iff: "any_match ps xs \<longleftrightarrow> (\<exists>x\<in>set xs. \<exists>p\<in>set ps. path_matches_input p x)"
  by (simp add: any_match_def list_ex_iff path_matches_pm)

lemma wired_mono: "set ps \<subseteq> set qs \<Longrightarrow> set (wired ps) \<subseteq> set (wired qs)"
  by (force simp: wired_def any_match_iff)

lemma next_paths_wired:
  "set (next_paths outs (enabled_calculators env (acyclic_disabled @ off)) ps) \<subseteq> set (wired ps)"
proof
  fix q assume "q \<in> set (next_paths outs (enabled_calculators env (acyclic_disabled @ off)) ps)"
  then obtain c where c: "c \<in> set (static_calculators env)" "affected ps c" "q \<in> set (outs (cl_name c))"
    using enabled_entry by (force simp: next_paths_def)
  have "any_match ps (cl_inputs c)" using c(2) by (auto simp: affected_def any_match_iff)
  then show "q \<in> set (wired ps)" using static_entry(1) [OF c(1)] c(3) by (force simp: wired_def)
qed

lemma wired_all: "set (wired ps) \<subseteq> set all_outputs"
  by (auto simp: wired_def all_outputs_def)

lemma four_rounds: "(next_paths outs (enabled_calculators env (acyclic_disabled @ off)) ^^ 4) ps = []"
proof -
  let ?n = "next_paths outs (enabled_calculators env (acyclic_disabled @ off))"
  have step: "set (?n qs) \<subseteq> set (wired rs)" if "set qs \<subseteq> set rs" for qs rs
    using next_paths_wired wired_mono [OF that] by blast
  have "set (?n ps) \<subseteq> set all_outputs" using next_paths_wired wired_all by blast
  then have "set (?n (?n (?n (?n ps)))) \<subseteq> set (wired (wired (wired all_outputs)))" by (intro step)
  then show ?thesis by (simp add: wired_out numeral_eq_Suc)
qed

section \<open>Convergence\<close>

text \<open>Claim C34. When the calculators that read what they write are disabled (the true course, which
  is computed from the magnetic course and the other way round, and those that look for instances below
  a prefix), the rounds of the others settle: whatever the snapshot and the changed paths, four rounds
  are enough and the bound of five is never the reason to stop.\<close>

theorem derivation_settles:
  "derive_rounds (enabled_calculators env (acyclic_disabled @ off)) (4 + n) changed snap st
   = derive_rounds (enabled_calculators env (acyclic_disabled @ off)) 4 changed snap st"
  by (rule net.rounds_settle [OF subset_refl four_rounds])

section \<open>Agreement\<close>

lemma rounds_insert:
  "derive_rounds cs n changed snap st = (derived, snap', st') \<Longrightarrow> snap' = snap_insert derived snap"
proof (induction n arbitrary: changed snap st derived st')
  case (Suc n)
  obtain new st1 where r: "run_calculators changed snap cs st = (new, st1)" by force
  show ?case
  proof (cases "new = []")
    case True
    then show ?thesis using Suc.prems r by simp
  next
    case False
    from Suc.prems r False obtain more_vals where
      m: "derive_rounds cs n (map pv_path new) (snap_insert new snap) st1 = (more_vals, snap', st')"
      and d: "derived = new @ more_vals" by (rule rounds_Suc)
    from Suc.IH [OF m] show ?thesis by (simp add: d)
  qed
qed simp

definition sole_output :: "string \<Rightarrow> bool" where
  "sole_output n \<longleftrightarrow> n \<noteq> ''windShift'' \<and> n \<noteq> ''depthBelowKeel'' \<and> n \<noteq> ''transducerToKeel''"

lemma outputs_distinct:
  "distinct (concat (map (\<lambda>(_, _, w). w) (filter (\<lambda>(n, _, _). n \<noteq> ''depthBelowKeel'') wiring)))"
  by (simp add: wiring_def)

lemma distinct_concat_disjoint:
  assumes "distinct (concat (map f xs))" and "x \<in> set xs" and "y \<in> set xs" and "x \<noteq> y"
  shows "set (f x) \<inter> set (f y) = {}"
  using assms
proof (induction xs)
  case (Cons z xs)
  have "set (f z) \<inter> set (f w) = {}" if "w \<in> set xs" for w using Cons.prems(1) that by auto
  then show ?case using Cons by auto
qed simp

lemma keel_outputs:
  "list_all (\<lambda>(n, i, w). n = ''depthBelowKeel'' \<or> n = ''transducerToKeel'' \<or> ''environment.depth.belowKeel'' \<notin> set w) wiring"
  by (simp add: wiring_def)

lemma depth_below_keel_entry: "map (\<lambda>(n, i, w). w) (filter (\<lambda>(n, i, w). n = ''depthBelowKeel'') wiring) = [[''environment.depth.belowKeel'']]"
  by (simp add: wiring_def)

lemma wiring_disjoint:
  assumes "(n, i, w) \<in> set wiring" and "(n', i', w') \<in> set wiring" and "n \<noteq> n'" and "sole_output n"
  shows "set w' \<inter> set w = {}"
proof (cases "n' = ''depthBelowKeel''")
  case True
  then have "w' \<in> set (map (\<lambda>(n, i, w). w) (filter (\<lambda>(n, i, w). n = ''depthBelowKeel'') wiring))"
    using assms(2) by force
  then have "w' = [''environment.depth.belowKeel'']" by (simp only: depth_below_keel_entry list.set) simp
  moreover have "''environment.depth.belowKeel'' \<notin> set w"
    using keel_outputs assms(1,4) by (auto simp: sole_output_def list_all_iff)
  ultimately show ?thesis by simp
next
  case False
  let ?ws = "filter (\<lambda>(n, _, _). n \<noteq> ''depthBelowKeel'') wiring"
  have "(n, i, w) \<in> set ?ws" "(n', i', w') \<in> set ?ws" using assms(1,2,4) False by (simp_all add: sole_output_def)
  from distinct_concat_disjoint [OF outputs_distinct this(2,1)] assms(3) show ?thesis by auto
qed

lemma static_stateless:
  "list_all (\<lambda>c. cl_name c = ''windShift'' \<or> (\<forall>vs st. outcome c vs st = outcome c vs None)) (static_calculators env)"
  by (simp add: static_calculators_def calculator_defs outcome_def)

lemma enabled_sole_writer:
  assumes "c \<in> set (enabled_calculators env (acyclic_disabled @ off))" and "sole_output (cl_name c)"
  shows "net.sole_writer env off c"
  unfolding net.sole_writer_def
proof (intro conjI ballI impI)
  note st = enabled_entry [OF assms(1)]
  show "\<forall>vs st. outcome c vs st = outcome c vs None"
    using static_stateless [of env] st assms(2) by (auto simp: list_all_iff sole_output_def)
  fix c' assume "c' \<in> set (enabled_calculators env (acyclic_disabled @ off))" "cl_name c' \<noteq> cl_name c"
  then show "set (outs (cl_name c')) \<inter> set (outs (cl_name c)) = {}"
    using wiring_disjoint [OF static_entry(1) [OF st] static_entry(1) [OF enabled_entry] _ assms(2)] by metis
qed

lemma static_empty: "list_all (\<lambda>c. outcome c [] None = []) (static_calculators env)"
  by (simp add: static_calculators_def calculator_defs outcome_def getter_defs wind_shift_def)

definition derived_run :: "calculator list \<Rightarrow> (datetime \<times> delta) list \<Rightarrow> derived_state" where
  "derived_run cs ds = fold (\<lambda>(utc, d) x. snd (derived_callback cs utc d x)) ds derived_new"

lemma callback_up_to_date:
  assumes c: "c \<in> set (enabled_calculators env (acyclic_disabled @ off))" "sole_output (cl_name c)"
    and free: "\<forall>pv\<in>set (foreign_values d). pv_path pv \<notin> set (outs (cl_name c))"
    and up: "up_to_date c (dd_snapshot x)"
  shows "up_to_date c (dd_snapshot (snd (derived_callback (enabled_calculators env (acyclic_disabled @ off)) utc d x)))"
proof -
  let ?cs = "enabled_calculators env (acyclic_disabled @ off)"
  let ?vals = "foreign_values d"
  let ?changed = "map pv_path ?vals"
  let ?snap = "snap_insert ?vals (dd_snapshot x)"
  have start: "affected ?changed c \<or> up_to_date c ?snap"
  proof (cases "affected ?changed c")
    case False
    have "cl_calculate c ?snap None = cl_calculate c (dd_snapshot x) None"
      using not_affected [OF False] by (intro net.local_inputs [OF c(1)]) (auto intro: snap_insert_other)
    then have "outcome c ?snap None = outcome c (dd_snapshot x) None" by (simp add: outcome_def)
    moreover have "map_of ?snap (pv_path pv) = map_of (dd_snapshot x) (pv_path pv)"
      if "pv \<in> set (outcome c (dd_snapshot x) None)" for pv
    proof -
      have "pv_path pv \<in> set (outs (cl_name c))" using net.writes [OF c(1), of "dd_snapshot x" None] that by auto
      then show ?thesis using free by (intro snap_insert_other) auto
    qed
    ultimately show ?thesis using up by (simp add: up_to_date_def)
  qed simp
  obtain derived snap' st where d: "derive_rounds ?cs max_iterations ?changed ?snap (dd_shift x) = (derived, snap', st)"
    by (cases "derive_rounds ?cs max_iterations ?changed ?snap (dd_shift x)")
  have "(next_paths outs ?cs ^^ max_iterations) ?changed = []"
    using four_rounds [of env off "next_paths outs ?cs ?changed"] by (simp add: max_iterations_def numeral_eq_Suc)
  from net.rounds_keep_up_to_date [OF c(1) enabled_sole_writer [OF c] this subset_refl d start]
  have "up_to_date c snap'" .
  then show ?thesis
    using start up by (cases "?vals = []") (simp_all add: derived_callback_def d Let_def)
qed


definition demo_env :: derived_env where
  "demo_env = \<lparr>de_libm = demo_libm, de_parse_ms = (\<lambda>_. None), de_format_ms = (\<lambda>_. []),
     de_sun_pos = (\<lambda>_ _ _. (Fin 0, Fin 0)), de_sun_time = (\<lambda>_ _ _ _. 0),
     de_moon = (\<lambda>_. \<lparr>mp_phase = Fin 0, mp_fraction = Fin 0, mp_age = Fin 0, mp_phase_name = []\<rparr>),
     de_shift_text = (\<lambda>_. [])\<rparr>"

definition demo_heading :: delta where
  "demo_heading = self_vessel [update_new 0 (source_plugin ''compass'')
     [num_value ''navigation.headingMagnetic'' (Fin 1), num_value ''navigation.magneticVariation'' (Fin (1 / 2))]]"


section \<open>What is sent\<close>

lemma map_of_last:
  "map_of (fold (\<lambda>pv. hm_insert (pv_path pv) (g pv)) pvs m) p
   = (case List.find (\<lambda>pv. pv_path pv = p) (rev pvs) of Some pv \<Rightarrow> Some (g pv) | None \<Rightarrow> map_of m p)"
proof (induction pvs rule: rev_induct)
  case (snoc pv pvs)
  then show ?case by (cases "pv_path pv = p") (simp_all split: option.splits)
qed simp

definition keyed :: "path_value hmap \<Rightarrow> bool" where
  "keyed m \<longleftrightarrow> (\<forall>k pv. map_of m k = Some pv \<longrightarrow> pv_path pv = k)"

lemma keyed_insert: "keyed m \<Longrightarrow> keyed (hm_insert (pv_path pv) pv m)"
  by (simp add: keyed_def)

lemma dedup_map: "keyed m \<Longrightarrow> keyed (fold (\<lambda>pv. hm_insert (pv_path pv) pv) pvs m)"
  by (induction pvs arbitrary: m) (simp_all add: keyed_insert)

lemma dedup_ok: "hm_ok m \<Longrightarrow> hm_ok (fold (\<lambda>pv. hm_insert (pv_path pv) pv) pvs m)"
  by (induction pvs arbitrary: m) auto

lemma dedup_values_props:
  "distinct (map pv_path (dedup_values pvs))"
  "pv \<in> set (dedup_values pvs) \<Longrightarrow> map_of (snap_insert pvs snap) (pv_path pv) = Some (pv_value pv)"
  "pv_path ` set (dedup_values pvs) = pv_path ` set pvs"
proof -
  define m where "m = fold (\<lambda>pv. hm_insert (pv_path pv) pv) pvs []"
  have ok: "hm_ok m" unfolding m_def by (rule dedup_ok) simp
  have "keyed m" unfolding m_def by (rule dedup_map) (simp add: keyed_def)
  then have key: "pv_path pv = k" if "(k, pv) \<in> set m" for k pv
    using that ok unfolding keyed_def by (metis map_of_eq_Some_iff)
  have keys: "map pv_path (map snd m) = map fst m" using key by (auto simp: case_prod_beta)
  have d: "dedup_values pvs = map snd m" by (simp add: dedup_values_def m_def)
  show "distinct (map pv_path (dedup_values pvs))" using ok by (simp only: d keys)
  have get: "map_of m p = List.find (\<lambda>pv. pv_path pv = p) (rev pvs)" for p
    unfolding m_def map_of_last [of "\<lambda>pv. pv"] by (simp split: option.splits)
  show "map_of (snap_insert pvs snap) (pv_path pv) = Some (pv_value pv)" if pv: "pv \<in> set (dedup_values pvs)"
  proof -
    from pv obtain k where k: "(k, pv) \<in> set m" by (auto simp: d)
    then have "pv_path pv = k" by (rule key)
    with k have "map_of m (pv_path pv) = Some pv" using ok by (simp add: map_of_eq_Some_iff)
    then have "List.find (\<lambda>x. pv_path x = pv_path pv) (rev pvs) = Some pv" by (simp add: get)
    then show ?thesis by (simp add: snap_insert_def map_of_last)
  qed
  have "p \<in> pv_path ` set (dedup_values pvs) \<longleftrightarrow> p \<in> pv_path ` set pvs" for p
  proof -
    have "p \<in> pv_path ` set (dedup_values pvs) \<longleftrightarrow> p \<in> set (map fst m)"
      unfolding d keys [symmetric] by auto
    also have "\<dots> \<longleftrightarrow> map_of m p \<noteq> None" by (simp add: map_of_eq_None_iff)
    also have "\<dots> \<longleftrightarrow> p \<in> pv_path ` set pvs" by (auto simp: get find_None_iff find_Some_iff)
    finally show ?thesis .
  qed
  then show "pv_path ` set (dedup_values pvs) = pv_path ` set pvs" by blast
qed

text \<open>The delta that the plugin sends names each path once and agrees with the snapshot, and
  it starts no feedback: when it comes back, whole or with any of its values, the plugin neither sends
  anything nor changes its state.\<close>

theorem sent_delta_agrees_and_is_ignored:
  assumes "derived_callback cs utc d x = (Some e, y)"
  shows "\<exists>pvs. e = self_vessel [update_new utc (source_plugin ''derived-data'') pvs] \<and> distinct (map pv_path pvs)
     \<and> (\<forall>pv\<in>set pvs. map_of (dd_snapshot y) (pv_path pv) = Some (pv_value pv))
     \<and> (\<forall>utc' vals. derived_callback cs utc' (self_vessel [update_new utc (source_plugin ''derived-data'') vals]) y = (None, y))"
proof -
  let ?vals = "foreign_values d"
  obtain derived snap' st where r: "derive_rounds cs max_iterations (map pv_path ?vals) (snap_insert ?vals (dd_snapshot x)) (dd_shift x)
      = (derived, snap', st)"
    by (cases "derive_rounds cs max_iterations (map pv_path ?vals) (snap_insert ?vals (dd_snapshot x)) (dd_shift x)")
  have e: "e = self_vessel [update_new utc (source_plugin ''derived-data'') (dedup_values derived)]"
    and y: "dd_snapshot y = snap'"
    using assms by (auto simp: derived_callback_def r Let_def split: if_splits)
  have "\<forall>utc' vals. derived_callback cs utc' (self_vessel [update_new utc (source_plugin ''derived-data'') vals]) y = (None, y)"
    by (simp add: derived_callback_def foreign_values_def delta_cons_defs)
  then show ?thesis
    using dedup_values_props(1,2) e unfolding y rounds_insert [OF r] by blast
qed

definition demo_engine :: delta where
  "demo_engine = self_vessel [update_new 0 (source_plugin ''n2k'') [num_value ''propulsion.main.revolutions'' (Fin 1)]]"

theorem sent_delta_agrees_and_is_ignored_witness:
  "\<exists>e y pvs. derived_callback [prop_state] 0 demo_engine derived_new = (Some e, y)
     \<and> e = self_vessel [update_new 0 (source_plugin ''derived-data'') pvs] \<and> distinct (map pv_path pvs)"
proof -
  obtain r y where c: "derived_callback [prop_state] 0 demo_engine derived_new = (r, y)" by force
  have "\<not> Option.is_none (fst (derived_callback [prop_state] 0 demo_engine derived_new))" by code_simp
  then obtain e where "derived_callback [prop_state] 0 demo_engine derived_new = (Some e, y)"
    using c by (auto simp: Option.is_none_def)
  from sent_delta_agrees_and_is_ignored [OF this] this show ?thesis by blast
qed

section \<open>What reaches the plugin\<close>

lemma input_paths_set: "set (input_paths cs) = (\<Union>c\<in>set cs. set (cl_inputs c))"
proof -
  have "set (fold (\<lambda>p ps. if p \<in> set ps then ps else ps @ [p]) xs ys) = set ys \<union> set xs" for xs ys :: "string list"
    by (induction xs arbitrary: ys) auto
  then show ?thesis by (simp add: input_paths_def)
qed

lemma inputs_literal: "list_all (\<lambda>c. list_all (\<lambda>p. CHR ''*'' \<notin> set p) (cl_inputs c)) (all_calculators env)"
  by (simp add: all_calculators_def calculator_defs)

text \<open>The plugin receives exactly the deltas of the own vessel in which some path is, letter
  for letter, an input of an enabled calculator. The inputs that are prefixes are subscribed to
  without a wildcard, so that a delta with battery, tank or engine values only never reaches the
  calculators made for them.\<close>

theorem derived_delivered_iff:
  "spec_delivers (derived_spec (enabled_calculators env disabled)) d \<longleftrightarrow>
     unwrap_or (d_context d) ''vessels.self'' = ''vessels.self'' \<and>
     (\<exists>u\<in>set (d_updates d). \<exists>pv\<in>set (u_values u). \<exists>c\<in>set (enabled_calculators env disabled).
        pv_path pv \<in> set (cl_inputs c))"
proof -
  have "matches_pattern pat p \<longleftrightarrow> p = pat"
    if "c \<in> set (enabled_calculators env disabled)" "pat \<in> set (cl_inputs c)" for pat p c
    using inputs_literal [of env] that by (intro literal_pattern) (auto simp: enabled_calculators_def list_all_iff)
  then show ?thesis by (auto simp: spec_delivers_def derived_spec_def input_paths_set)
qed

lemma no_dynamic_input:
  "list_all (\<lambda>c. list_all (\<lambda>p. \<not> starts_with p ''electrical.batteries.'' \<and> \<not> starts_with p ''tanks.''
      \<and> \<not> starts_with p ''propulsion.'') (cl_inputs c)) (all_calculators env)"
  by (simp add: all_calculators_def calculator_defs starts_with_def)

theorem instance_values_not_delivered:
  assumes "\<forall>u\<in>set (d_updates d). \<forall>pv\<in>set (u_values u). starts_with (pv_path pv) ''electrical.batteries.''
      \<or> starts_with (pv_path pv) ''tanks.'' \<or> starts_with (pv_path pv) ''propulsion.''"
  shows "\<not> spec_delivers (derived_spec (enabled_calculators env disabled)) d"
proof
  assume "spec_delivers (derived_spec (enabled_calculators env disabled)) d"
  then obtain u pv c where "u \<in> set (d_updates d)" "pv \<in> set (u_values u)" "c \<in> set (all_calculators env)"
    "pv_path pv \<in> set (cl_inputs c)"
    using literal_pattern inputs_literal [of env]
    by (fastforce simp: spec_delivers_def derived_spec_def input_paths_set enabled_calculators_def list_all_iff)
  then show False using assms no_dynamic_input [of env] by (auto simp: list_all_iff)
qed

section \<open>Calculators that feed each other\<close>

abbreviation cog_true_path :: string where
  "cog_true_path \<equiv> ''navigation.courseOverGroundTrue''"

abbreviation cog_magnetic_path :: string where
  "cog_magnetic_path \<equiv> ''navigation.courseOverGroundMagnetic''"

abbreviation variation_path :: string where
  "variation_path \<equiv> ''navigation.magneticVariation''"

lemma dynamic_paths:
  assumes "c \<in> {battery_power, prop_state, fuel_consumption, prop_slip, tank_volume}" and "pv \<in> set (outcome c vs st)"
  shows "last (pv_path pv) \<in> {CHR ''r'', CHR ''e'', CHR ''y'', CHR ''p''}"
proof -
  have map_filter: "\<exists>x\<in>set xs. f x = Some pv" if "pv \<in> set (List.map_filter f xs)" for f :: "string \<times> json \<Rightarrow> path_value option" and xs
    using that by (force simp: List.map_filter_def)
  show ?thesis
    using assms
    by (auto simp: outcome_def battery_power_def prop_state_def fuel_consumption_def prop_slip_def tank_volume_def some_list_def
        battery_power_at_def prop_state_at_def fuel_economy_at_def prop_slip_at_def tank_volume_at_def num_value_def
        path_value_new_def bind_eq_Some_conv split: if_splits option.splits Option.bind_splits dest!: map_filter)
qed

lemma cog_writers:
  assumes "c \<in> set (all_calculators env)" and "pv \<in> set (outcome c vs st)"
  shows "pv_path pv \<noteq> variation_path" and "pv_path pv = cog_magnetic_path \<Longrightarrow> c = course_over_ground_magnetic"
proof -
  have "set (all_calculators env) = insert course_over_ground_true (set (static_calculators env))
      \<union> {battery_power, prop_state, fuel_consumption, prop_slip, tank_volume}"
    by (auto simp: all_calculators_def static_calculators_def)
  then consider "c = course_over_ground_true" | "c \<in> set (static_calculators env)"
    | "c \<in> {battery_power, prop_state, fuel_consumption, prop_slip, tank_volume}"
    using assms(1) by blast
  then have "pv_path pv \<noteq> variation_path \<and> (pv_path pv = cog_magnetic_path \<longrightarrow> c = course_over_ground_magnetic)"
  proof cases
    case 1
    then show ?thesis
      using assms(2) by (auto simp: outcome_def course_over_ground_true_def result_simps split: Option.bind_splits)
  next
    case 2
    have e: "(cl_name c, cl_inputs c, outs (cl_name c)) \<in> set wiring" by (rule static_entry(1) [OF 2])
    have "set (map pv_path (outcome c vs st)) \<subseteq> set (outs (cl_name c))"
      using static_entry(2) [OF 2] unfolding good_calc_def by blast
    then have out: "pv_path pv \<in> set (outs (cl_name c))" using assms(2) by auto
    have "list_all (\<lambda>(n, i, w). variation_path \<notin> set w \<and> (cog_magnetic_path \<in> set w \<longrightarrow> n = ''courseOverGroundMagnetic'')) wiring"
      by (simp add: wiring_def)
    then have w: "variation_path \<notin> set (outs (cl_name c))"
      "cog_magnetic_path \<in> set (outs (cl_name c)) \<Longrightarrow> cl_name c = ''courseOverGroundMagnetic''"
      using e by (auto simp: list_all_iff)
    have "c = course_over_ground_magnetic" if "cl_name c = ''courseOverGroundMagnetic''"
    proof -
      have "list_all (\<lambda>c. cl_name c = ''courseOverGroundMagnetic'' \<longrightarrow> c = course_over_ground_magnetic) (static_calculators env)"
        by (simp add: static_calculators_def) (simp add: calculator_defs)
      then show ?thesis using that 2 by (simp add: list_all_iff)
    qed
    then show ?thesis using w out by auto
  next
    case 3
    from dynamic_paths [OF this assms(2)] show ?thesis by auto
  qed
  then show "pv_path pv \<noteq> variation_path" "pv_path pv = cog_magnetic_path \<Longrightarrow> c = course_over_ground_magnetic" by simp_all
qed

lemma get_num_finite: "is_finite x \<Longrightarrow> map_of vs p = Some (json_f64 x) \<Longrightarrow> get_num p vs = Some x"
  by (simp add: get_num_def as_f64_json_f64)

lemma f_sub_small:
  assumes "is_finite x" "is_finite y" "\<bar>rv x\<bar> \<le> 2 ^ 900" "\<bar>rv y\<bar> \<le> 2 ^ 900"
  shows "is_finite (f_sub x y)"
proof -
  have "is_finite (f_neg y)" "\<bar>rv x + rv (f_neg y)\<bar> \<le> 2 ^ 1000" using assms by simp_all
  then show ?thesis using assms(1) round_near(1) by (simp add: f_sub_def f_add_finite)
qed

text \<open>With both course calculators enabled, a course over ground that some sensor reports is
  sent back by the plugin under the same path: the magnetic course is computed from the true one, and
  in the next round the true one from the magnetic one.\<close>

theorem reported_course_is_sent_back:
  assumes "''courseOverGroundMagnetic'' \<notin> set disabled" and "''courseOverGroundTrue'' \<notin> set disabled"
    and "cog_true_path \<in> pv_path ` set (foreign_values d)"
    and "get_num cog_true_path (snap_insert (foreign_values d) (dd_snapshot x)) = Some cog"
    and "get_num variation_path (snap_insert (foreign_values d) (dd_snapshot x)) = Some var"
    and "is_finite cog" "is_finite var" "\<bar>rv cog\<bar> \<le> 2 ^ 900" "\<bar>rv var\<bar> \<le> 2 ^ 900"
  shows "\<exists>pvs. fst (derived_callback (enabled_calculators env disabled) utc d x)
      = Some (self_vessel [update_new utc (source_plugin ''derived-data'') pvs]) \<and> cog_true_path \<in> pv_path ` set pvs"
proof -
  let ?cs = "enabled_calculators env disabled"
  define vals where "vals = foreign_values d"
  define snap where "snap = snap_insert vals (dd_snapshot x)"
  define mag where "mag = full_turn (f_sub cog var)"
  have fin: "is_finite mag" using full_turn_range(1) [OF f_sub_small [OF assms(6-9)]] by (simp add: mag_def)
  have cs: "course_over_ground_magnetic \<in> set ?cs" "course_over_ground_true \<in> set ?cs"
    using assms(1,2) by (simp_all add: enabled_calculators_def all_calculators_def course_over_ground_magnetic_def course_over_ground_true_def)
  have sub: "c \<in> set (all_calculators env)" if "c \<in> set ?cs" for c using that by (simp add: enabled_calculators_def)
  obtain new1 st1 where r1: "run_calculators (map pv_path vals) snap ?cs (dd_shift x) = (new1, st1)" by force
  have aff1: "affected (map pv_path vals) course_over_ground_magnetic"
    using assms(3) by (auto simp: affected_def course_over_ground_magnetic_def path_matches_input_def vals_def)
  have out1: "outcome course_over_ground_magnetic snap st = [num_value cog_magnetic_path mag]" for st
    using assms(4,5) by (simp add: outcome_def course_over_ground_magnetic_def snap_def vals_def mag_def)
  from run_calculators_mem [OF r1 cs(1) aff1] have mem1: "num_value cog_magnetic_path mag \<in> set new1" by (auto simp: out1)
  then have changed: "cog_magnetic_path \<in> pv_path ` set new1" by (force simp: num_value_def path_value_new_def)
  define snap2 where "snap2 = snap_insert new1 snap"
  have "variation_path \<notin> pv_path ` set new1"
  proof
    assume "variation_path \<in> pv_path ` set new1"
    then obtain pv where pv: "pv \<in> set new1" "pv_path pv = variation_path" by force
    from run_calculators_set [OF r1 pv(1)] obtain c st where "c \<in> set ?cs" "pv \<in> set (outcome c snap st)" by blast
    then show False using cog_writers(1) [OF sub] pv(2) by blast
  qed
  then have var2: "get_num variation_path snap2 = Some var"
    using assms(5) by (simp add: get_num_def snap2_def snap_insert_other snap_def vals_def)
  have mag2: "get_num cog_magnetic_path snap2 = Some mag"
  proof -
    from snap_insert_path [OF changed] obtain pv where pv: "pv \<in> set new1" "pv_path pv = cog_magnetic_path"
      "map_of snap2 cog_magnetic_path = Some (pv_value pv)" by (auto simp: snap2_def)
    from run_calculators_set [OF r1 pv(1)] obtain c st where c: "c \<in> set ?cs" "pv \<in> set (outcome c snap st)" by blast
    have "c = course_over_ground_magnetic" by (rule cog_writers(2) [OF sub [OF c(1)] c(2) pv(2)])
    then have "pv = num_value cog_magnetic_path mag" using c(2) by (simp add: out1)
    then show ?thesis using pv(3) fin by (intro get_num_finite) (simp_all add: num_value_def path_value_new_def)
  qed
  obtain new2 st2 where r2: "run_calculators (map pv_path new1) snap2 ?cs st1 = (new2, st2)" by force
  have aff2: "affected (map pv_path new1) course_over_ground_true"
    using changed by (auto simp: affected_def course_over_ground_true_def path_matches_input_def)
  have out2: "pv_path ` set (outcome course_over_ground_true snap2 st) = {cog_true_path}" for st
    using var2 mag2 by (simp add: outcome_def course_over_ground_true_def num_value_def path_value_new_def)
  from run_calculators_mem [OF r2 cs(2) aff2] obtain st where "set (outcome course_over_ground_true snap2 st) \<subseteq> set new2" by blast
  then have "pv_path ` set (outcome course_over_ground_true snap2 st) \<subseteq> pv_path ` set new2" by (rule image_mono)
  then have mem2: "cog_true_path \<in> pv_path ` set new2" by (simp only: out2) simp
  obtain derived snap' st where d: "derive_rounds ?cs max_iterations (map pv_path vals) snap (dd_shift x) = (derived, snap', st)"
    by (cases "derive_rounds ?cs max_iterations (map pv_path vals) snap (dd_shift x)")
  have "new1 \<noteq> []" "new2 \<noteq> []" using mem1 mem2 by auto
  moreover have five: "max_iterations = Suc (Suc 3)" by (simp add: max_iterations_def)
  ultimately obtain m1 where m1: "derive_rounds ?cs (Suc 3) (map pv_path new1) snap2 st1 = (m1, snap', st)"
    and d1: "derived = new1 @ m1" using rounds_Suc [OF d [unfolded five] r1] by (auto simp: snap2_def)
  from m1 r2 \<open>new2 \<noteq> []\<close> obtain m2 where "m1 = new2 @ m2" by (rule rounds_Suc)
  then have sub2: "pv_path ` set new2 \<subseteq> pv_path ` set derived" by (auto simp: d1)
  then have "cog_true_path \<in> pv_path ` set (dedup_values derived)" using subsetD [OF sub2 mem2] by (simp only: dedup_values_props(3))
  moreover have "derived \<noteq> []" "vals \<noteq> []" using sub2 mem2 assms(3) by (auto simp: vals_def)
  ultimately show ?thesis
    using d by (auto simp: derived_callback_def vals_def [symmetric] snap_def Let_def)
qed

definition demo_course :: delta where
  "demo_course = self_vessel [update_new 0 (source_plugin ''gps'')
     [num_value variation_path (Fin (1 / 2)), num_value cog_true_path (Fin 1)]]"

theorem reported_course_is_sent_back_witness:
  "\<exists>pvs. fst (derived_callback (enabled_calculators demo_env []) 7 demo_course derived_new)
      = Some (self_vessel [update_new 7 (source_plugin ''derived-data'') pvs]) \<and> cog_true_path \<in> pv_path ` set pvs"
proof (rule reported_course_is_sent_back [where cog = "Fin 1" and var = "Fin (1 / 2)"])
  have vals: "foreign_values demo_course = [num_value variation_path (Fin (1 / 2)), num_value cog_true_path (Fin 1)]"
    by (simp add: demo_course_def foreign_values_def delta_cons_defs)
  show "cog_true_path \<in> pv_path ` set (foreign_values demo_course)"
    by (simp add: vals num_value_def path_value_new_def)
  show "get_num cog_true_path (snap_insert (foreign_values demo_course) (dd_snapshot derived_new)) = Some (Fin 1)"
    by (rule get_num_finite) (simp_all add: vals num_value_def path_value_new_def)
  show "get_num variation_path (snap_insert (foreign_values demo_course) (dd_snapshot derived_new)) = Some (Fin (1 / 2))"
    by (rule get_num_finite) (simp_all add: vals num_value_def path_value_new_def)
qed simp_all

section \<open>Angles\<close>

text \<open>The angle that the calculators and the bearing reduce to one turn lies, for every finite
  angle, between zero and the full turn, both included: the full turn itself is the result for a
  tiny negative angle, although the interval is documented as open.\<close>

theorem turn_in_closed_interval:
  assumes "is_finite x"
  shows "is_finite (full_turn x) \<and> f_le (Fin 0) (full_turn x) \<and> f_le (full_turn x) TWO_PI"
  using full_turn_range [OF assms] by (simp add: f_le_finite)

theorem turn_in_closed_interval_witness:
  "f_le (Fin 0) (full_turn (Fin (- 1 / 2 ^ 60))) \<and> full_turn (Fin (- 1 / 2 ^ 60)) = TWO_PI"
  using turn_in_closed_interval [of "Fin (- 1 / 2 ^ 60)"] full_turn_reached by simp

end
