(* ===== verification/Tracks.thy ===== *)
theory Tracks
  imports Geo PluginHost "HOL-Library.Char_ord" "HOL-Library.List_Lexorder" "HOL-Library.Product_Lexorder"
begin

text \<open>
  The track recorder (\<^verbatim>\<open>plugins/tracks/src\<close>): simplification of a line, the store of
  track points, the callback that records them, the queries of the REST interface and the two
  output formats. The database is the list of its rows in the order of insertion; a date is stored
  and compared as the text that \<open>tx_rfc\<close> gives it. What comes from other crates (dates, number
  parsing and formatting, mathematics) is an environment; a panic or an endless recursion is
  \<open>None\<close>.
\<close>

record track_env =
  tx_libm :: libm
  tx_rfc :: "datetime \<Rightarrow> string"
  tx_parse :: "string \<Rightarrow> string + datetime"
  tx_parse_f64 :: "string \<Rightarrow> string + f64"
  tx_parse_usize :: "string \<Rightarrow> string + nat"
  tx_fixed :: "nat \<Rightarrow> f64 \<Rightarrow> string"

record track_point =
  tp_lat :: f64
  tp_lon :: f64
  tp_timestamp :: datetime
  tp_sog :: "f64 option"
  tp_cog :: "f64 option"
  tp_depth :: "f64 option"

record vessel_track =
  vt_context :: string
  vt_label :: "string option"
  vt_segments :: "track_point list list"

datatype track_format = GeoJson | Gpx

record track_query =
  tq_context :: "string option"
  tq_after :: "datetime option"
  tq_before :: "datetime option"
  tq_bbox :: "(f64 \<times> f64 \<times> f64 \<times> f64) option"
  tq_radius :: "(f64 \<times> f64 \<times> f64) option"
  tq_limit :: "nat option"
  tq_simplify :: "f64 option"
  tq_format :: track_format

section \<open>Simplification\<close>

definition perpendicular_distance :: "libm \<Rightarrow> f64 \<times> f64 \<Rightarrow> f64 \<times> f64 \<Rightarrow> f64 \<times> f64 \<Rightarrow> f64" where
  "perpendicular_distance m p a b =
     (let dx = f_sub (fst b) (fst a);
          dy = f_sub (snd b) (snd a);
          len_sq = f_add (f_mul dx dx) (f_mul dy dy)
      in if f_lt len_sq (lit (1 / 10 ^ 20))
         then (let ex = f_sub (fst p) (fst a); ey = f_sub (snd p) (snd a)
               in m_sqrt m (f_add (f_mul ex ex) (f_mul ey ey)))
         else f_div (f_abs (f_sub (f_mul (f_sub (fst p) (fst a)) dy) (f_mul (f_sub (snd p) (snd a)) dx)))
                    (m_sqrt m len_sq))"

definition farthest :: "(nat \<Rightarrow> f64) \<Rightarrow> nat \<Rightarrow> nat \<Rightarrow> f64 \<times> nat" where
  "farthest dst s e =
     fold (\<lambda>i (d, k). if f_lt d (dst i) then (dst i, i) else (d, k)) [Suc s..<e] (Fin 0, s)"

partial_function (option) rdp_indices ::
  "libm \<Rightarrow> (f64 \<times> f64) list \<Rightarrow> f64 \<Rightarrow> nat \<Rightarrow> nat \<Rightarrow> bool list \<Rightarrow> bool list option" where
  "rdp_indices m pts eps s e keep =
     (if e \<le> s + 1 then Some keep
      else if length pts \<le> e then None
      else (let (d, k) = farthest (\<lambda>i. perpendicular_distance m (pts ! i) (pts ! s) (pts ! e)) s e
            in if f_lt eps d
               then Option.bind (rdp_indices m pts eps s k (keep[k := True])) (rdp_indices m pts eps k e)
               else Some keep))"

definition simplify_track_points :: "libm \<Rightarrow> track_point list \<Rightarrow> f64 \<Rightarrow> track_point list option" where
  "simplify_track_points m ps eps =
     (let n = length ps in
      if n \<le> 2 \<or> f_le eps (Fin 0) then Some ps
      else map_option (\<lambda>keep. map fst (filter snd (zip ps keep)))
             (rdp_indices m (map (\<lambda>p. (tp_lat p, tp_lon p)) ps) eps 0 (n - 1)
                ((replicate n False)[0 := True, n - 1 := True])))"

section \<open>The store\<close>

record track_row =
  rw_context :: string
  rw_lat :: f64
  rw_lon :: f64
  rw_timestamp :: string
  rw_sog :: "f64 option"
  rw_cog :: "f64 option"
  rw_depth :: "f64 option"

type_synonym track_db = "track_row list"

definition db_record :: "track_env \<Rightarrow> string \<Rightarrow> track_point \<Rightarrow> track_db \<Rightarrow> track_db" where
  "db_record env ctx p db =
     db @ [\<lparr>rw_context = ctx, rw_lat = tp_lat p, rw_lon = tp_lon p, rw_timestamp = tx_rfc env (tp_timestamp p),
            rw_sog = tp_sog p, rw_cog = tp_cog p, rw_depth = tp_depth p\<rparr>]"

definition holds_for :: "('a \<Rightarrow> bool) \<Rightarrow> 'a option \<Rightarrow> bool" where
  "holds_for P x = (case x of None \<Rightarrow> True | Some a \<Rightarrow> P a)"

definition row_selected :: "track_env \<Rightarrow> track_query \<Rightarrow> track_row \<Rightarrow> bool" where
  "row_selected env q r \<longleftrightarrow>
     holds_for (\<lambda>ctx. rw_context r = ctx) (tq_context q) \<and>
     holds_for (\<lambda>t. tx_rfc env t \<le> rw_timestamp r) (tq_after q) \<and>
     holds_for (\<lambda>t. rw_timestamp r \<le> tx_rfc env t) (tq_before q) \<and>
     holds_for (\<lambda>(west, south, east, north).
        f_le west (rw_lon r) \<and> f_le (rw_lon r) east \<and> f_le south (rw_lat r) \<and> f_le (rw_lat r) north) (tq_bbox q)"

definition row_time :: "track_env \<Rightarrow> track_row \<Rightarrow> datetime" where
  "row_time env r = (case tx_parse env (rw_timestamp r) of Inr t \<Rightarrow> t | Inl _ \<Rightarrow> 0)"

definition row_point :: "track_env \<Rightarrow> track_row \<Rightarrow> track_point" where
  "row_point env r =
     \<lparr>tp_lat = rw_lat r, tp_lon = rw_lon r, tp_timestamp = row_time env r, tp_sog = rw_sog r, tp_cog = rw_cog r,
      tp_depth = rw_depth r\<rparr>"

definition in_radius :: "libm \<Rightarrow> track_query \<Rightarrow> track_point \<Rightarrow> bool" where
  "in_radius m q p \<longleftrightarrow>
     holds_for (\<lambda>(lat, lon, radius). \<not> f_lt radius (haversine_meters m lat lon (tp_lat p) (tp_lon p))) (tq_radius q)"

definition SEGMENT_GAP :: int where
  "SEGMENT_GAP = 300 * 10 ^ 9"

fun segment_step :: "track_point \<times> track_point \<Rightarrow> track_point list list \<times> track_point list
    \<Rightarrow> track_point list list \<times> track_point list" where
  "segment_step (a, b) (segs, cur) =
     (if SEGMENT_GAP < tp_timestamp b - tp_timestamp a then (segs @ [cur], [b]) else (segs, cur @ [b]))"

definition segment_by_gap :: "track_point list \<Rightarrow> track_point list list" where
  "segment_by_gap ps =
     (case ps of [] \<Rightarrow> []
      | p # _ \<Rightarrow> (let (segs, cur) = fold segment_step (zip ps (tl ps)) ([], [p])
                 in if cur \<noteq> [] then segs @ [cur] else segs))"

definition limit_points :: "nat option \<Rightarrow> 'a list \<Rightarrow> 'a list" where
  "limit_points limit ps =
     (case limit of Some l \<Rightarrow> if l < length ps then drop (length ps - l) ps else ps | None \<Rightarrow> ps)"

definition group_row :: "track_env \<Rightarrow> track_query \<Rightarrow> track_row \<Rightarrow> track_point list hmap \<Rightarrow> track_point list hmap" where
  "group_row env q r g =
     (let p = row_point env r in
      if in_radius (tx_libm env) q p
      then hm_insert (rw_context r) (unwrap_or (map_of g (rw_context r)) [] @ [p]) g
      else g)"

definition db_query :: "track_env \<Rightarrow> track_query \<Rightarrow> track_db \<Rightarrow> vessel_track list" where
  "db_query env q db =
     (let rows = sort_key (\<lambda>r. (rw_context r, rw_timestamp r)) (filter (row_selected env q) db);
          grouped = fold (group_row env q) rows []
      in map (\<lambda>(ctx, ps). \<lparr>vt_context = ctx, vt_label = None, vt_segments = segment_by_gap (limit_points (tq_limit q) ps)\<rparr>)
           (filter (\<lambda>(_, ps). ps \<noteq> []) grouped))"

definition db_prune :: "track_env \<Rightarrow> datetime \<Rightarrow> int \<Rightarrow> track_db \<Rightarrow> track_db" where
  "db_prune env now max_age db = filter (\<lambda>r. \<not> rw_timestamp r < tx_rfc env (now - max_age)) db"

definition db_vessel_count :: "track_db \<Rightarrow> nat" where
  "db_vessel_count db = card (rw_context ` set db)"

definition db_clear_vessel :: "string \<Rightarrow> track_db \<Rightarrow> track_db" where
  "db_clear_vessel ctx db = filter (\<lambda>r. rw_context r \<noteq> ctx) db"

section \<open>Recording\<close>

record tracks_config =
  tf_min_interval :: int
  tf_track_self :: bool
  tf_track_others :: bool

record aux_cache =
  ax_sog :: "f64 option"
  ax_cog :: "f64 option"
  ax_depth :: "f64 option"

definition aux_default :: aux_cache where
  "aux_default = \<lparr>ax_sog = None, ax_cog = None, ax_depth = None\<rparr>"

record tracks_state =
  tk_db :: track_db
  tk_last :: "datetime hmap"
  tk_aux :: "aux_cache hmap"

definition tracks_spec :: subscription_spec where
  "tracks_spec = \<lparr>ss_context = ''*'', ss_patterns =
     [''navigation.position'', ''navigation.speedOverGround'', ''navigation.courseOverGroundTrue'',
      ''environment.depth.belowTransducer'']\<rparr>"

definition aux_set :: "string \<Rightarrow> (aux_cache \<Rightarrow> aux_cache) \<Rightarrow> aux_cache hmap \<Rightarrow> aux_cache hmap" where
  "aux_set ctx f m = hm_insert ctx (f (unwrap_or (map_of m ctx) aux_default)) m"

definition aux_number :: "string \<Rightarrow> json \<Rightarrow> (f64 \<Rightarrow> aux_cache \<Rightarrow> aux_cache) \<Rightarrow> aux_cache hmap \<Rightarrow> aux_cache hmap" where
  "aux_number ctx v f m = (case as_f64 v of Some x \<Rightarrow> aux_set ctx (f x) m | None \<Rightarrow> m)"

definition scan_value :: "string \<Rightarrow> path_value \<Rightarrow> (f64 \<times> f64) option \<times> aux_cache hmap \<Rightarrow> (f64 \<times> f64) option \<times> aux_cache hmap" where
  "scan_value ctx pv st =
     (let (pos, aux) = st; v = pv_value pv in
      if pv_path pv = ''navigation.position''
      then (case (Option.bind (jget ''latitude'' v) as_f64, Option.bind (jget ''longitude'' v) as_f64) of
              (Some lat, Some lon) \<Rightarrow> (Some (lat, lon), aux) | _ \<Rightarrow> (pos, aux))
      else if pv_path pv = ''navigation.speedOverGround'' then (pos, aux_number ctx v (\<lambda>x a. a\<lparr>ax_sog := Some x\<rparr>) aux)
      else if pv_path pv = ''navigation.courseOverGroundTrue'' then (pos, aux_number ctx v (\<lambda>x a. a\<lparr>ax_cog := Some x\<rparr>) aux)
      else if pv_path pv = ''environment.depth.belowTransducer'' then (pos, aux_number ctx v (\<lambda>x a. a\<lparr>ax_depth := Some x\<rparr>) aux)
      else (pos, aux))"

definition is_own_context :: "string \<Rightarrow> bool" where
  "is_own_context ctx \<longleftrightarrow> ctx = ''vessels.self'' \<or> starts_with ctx ''vessels.urn:mrn:signalk:uuid:''"

definition record_position :: "track_env \<Rightarrow> tracks_config \<Rightarrow> string \<Rightarrow> datetime \<Rightarrow> f64 \<times> f64 \<Rightarrow> tracks_state \<Rightarrow> tracks_state" where
  "record_position env cfg ctx ts pos x =
     (if (case map_of (tk_last x) ctx of Some prev \<Rightarrow> ts - prev < tf_min_interval cfg | None \<Rightarrow> False) then x
      else (let aux = unwrap_or (map_of (tk_aux x) ctx) aux_default;
                p = \<lparr>tp_lat = fst pos, tp_lon = snd pos, tp_timestamp = ts, tp_sog = ax_sog aux, tp_cog = ax_cog aux,
                     tp_depth = ax_depth aux\<rparr>
            in x\<lparr>tk_last := hm_insert ctx ts (tk_last x), tk_db := db_record env ctx p (tk_db x)\<rparr>))"

definition tracks_callback :: "track_env \<Rightarrow> tracks_config \<Rightarrow> datetime \<Rightarrow> delta \<Rightarrow> tracks_state \<Rightarrow> tracks_state" where
  "tracks_callback env cfg now d x =
     (case d_context d of
        None \<Rightarrow> x
      | Some ctx \<Rightarrow>
          if is_own_context ctx \<and> \<not> tf_track_self cfg then x
          else if \<not> is_own_context ctx \<and> \<not> tf_track_others cfg then x
          else (let ts = fold (\<lambda>u _. u_timestamp u) (d_updates d) now;
                    (pos, aux) = fold (scan_value ctx) (concat (map u_values (d_updates d))) (None, tk_aux x);
                    x1 = x\<lparr>tk_aux := aux\<rparr>
                in case pos of None \<Rightarrow> x1 | Some p \<Rightarrow> record_position env cfg ctx ts p x1))"

section \<open>Requests\<close>

text \<open>\<^verbatim>\<open>splitn(2, '=')\<close>.\<close>

definition split_pair :: "string \<Rightarrow> string \<times> string" where
  "split_pair s = (takeWhile (\<lambda>c. c \<noteq> CHR ''='') s, drop 1 (dropWhile (\<lambda>c. c \<noteq> CHR ''='') s))"

definition parse_query :: "string \<Rightarrow> string hmap" where
  "parse_query q = fold (\<lambda>s m. hm_insert (fst (split_pair s)) (snd (split_pair s)) m)
     (filter (\<lambda>s. s \<noteq> []) (split_on CHR ''&'' q)) []"

fun all_parsed :: "(string + 'a) list \<Rightarrow> string + 'a list" where
  "all_parsed [] = Inr []"
| "all_parsed (x # xs) = (case x of Inl e \<Rightarrow> Inl e | Inr a \<Rightarrow> map_sum id ((#) a) (all_parsed xs))"

definition parse_param :: "string hmap \<Rightarrow> string \<Rightarrow> (string \<Rightarrow> string + 'a) \<Rightarrow> string + 'a option" where
  "parse_param ps k f =
     (case map_of ps k of
        None \<Rightarrow> Inr None
      | Some s \<Rightarrow> map_sum (\<lambda>e. ''invalid '' @ [CHR 0x27] @ k @ [CHR 0x27] @ (if k \<in> {''after'', ''before''} then '' timestamp: '' else '': '') @ e)
                    Some (f s))"

definition numbers_of :: "track_env \<Rightarrow> string \<Rightarrow> string + f64 list" where
  "numbers_of env s = all_parsed (map (\<lambda>x. tx_parse_f64 env (trim x)) (split_on CHR '','' s))"

definition parse_bbox :: "track_env \<Rightarrow> string hmap \<Rightarrow> string + (f64 \<times> f64 \<times> f64 \<times> f64) option" where
  "parse_bbox env ps =
     (case parse_param ps ''bbox'' (numbers_of env) of
        Inl e \<Rightarrow> Inl e
      | Inr None \<Rightarrow> Inr None
      | Inr (Some [a, b, c, d]) \<Rightarrow> Inr (Some (a, b, c, d))
      | Inr (Some _) \<Rightarrow> Inl ([CHR 0x27] @ ''bbox'' @ [CHR 0x27] @ '' must have exactly 4 values: west,south,east,north''))"

definition parse_center :: "track_env \<Rightarrow> string hmap \<Rightarrow> string + (f64 \<times> f64 \<times> f64) option" where
  "parse_center env ps =
     (case parse_param ps ''center'' (numbers_of env) of
        Inl e \<Rightarrow> Inl e
      | Inr None \<Rightarrow> Inr None
      | Inr (Some [lat, lon]) \<Rightarrow>
          (case map_of ps ''radius'' of
             None \<Rightarrow> Inl ([CHR 0x27] @ ''radius'' @ [CHR 0x27] @ '' is required when '' @ [CHR 0x27] @ ''center'' @ [CHR 0x27] @ '' is specified'')
           | Some _ \<Rightarrow> map_sum id (map_option (\<lambda>r. (lat, lon, r))) (parse_param ps ''radius'' (tx_parse_f64 env)))
      | Inr (Some _) \<Rightarrow> Inl ([CHR 0x27] @ ''center'' @ [CHR 0x27] @ '' must have exactly 2 values: lat,lon''))"

definition parse_format :: "string hmap \<Rightarrow> string + track_format" where
  "parse_format ps =
     (case map_of ps ''format'' of
        None \<Rightarrow> Inr GeoJson
      | Some f \<Rightarrow> if f = ''gpx'' then Inr Gpx else if f = ''geojson'' then Inr GeoJson
                 else Inl (''unknown format '' @ [CHR 0x27] @ f @ [CHR 0x27] @ '', expected '' @ [CHR 0x27] @ ''geojson''
                           @ [CHR 0x27] @ '' or '' @ [CHR 0x27] @ ''gpx'' @ [CHR 0x27]))"

definition parse_track_query :: "track_env \<Rightarrow> string \<Rightarrow> string + track_query" where
  "parse_track_query env s =
     (let ps = parse_query s;
          context = (case map_of ps ''context'' of Some c \<Rightarrow> if c \<noteq> [] then Some c else None | None \<Rightarrow> None)
      in case parse_param ps ''after'' (tx_parse env) of Inl e \<Rightarrow> Inl e | Inr after \<Rightarrow>
         case parse_param ps ''before'' (tx_parse env) of Inl e \<Rightarrow> Inl e | Inr before \<Rightarrow>
         case parse_bbox env ps of Inl e \<Rightarrow> Inl e | Inr bbox \<Rightarrow>
         case parse_center env ps of Inl e \<Rightarrow> Inl e | Inr radius \<Rightarrow>
         case parse_param ps ''limit'' (tx_parse_usize env) of Inl e \<Rightarrow> Inl e | Inr limit \<Rightarrow>
         case parse_param ps ''simplify'' (tx_parse_f64 env) of Inl e \<Rightarrow> Inl e | Inr simplify \<Rightarrow>
         case parse_format ps of Inl e \<Rightarrow> Inl e | Inr format \<Rightarrow>
           Inr \<lparr>tq_context = context, tq_after = after, tq_before = before, tq_bbox = bbox, tq_radius = radius,
                tq_limit = limit, tq_simplify = simplify, tq_format = format\<rparr>)"

section \<open>Output\<close>

definition track_feature :: "track_env \<Rightarrow> vessel_track \<Rightarrow> json" where
  "track_feature env t =
     (let segs = vt_segments t;
          oldest = (case segs of (p # _) # _ \<Rightarrow> Some (tx_rfc env (tp_timestamp p)) | _ \<Rightarrow> None);
          newest = (if segs = [] \<or> last segs = [] then None else Some (tx_rfc env (tp_timestamp (last (last segs)))));
          opt = (\<lambda>k x. case x of Some s \<Rightarrow> [(k, JStr s)] | None \<Rightarrow> [])
      in json_obj
           [(''type'', JStr ''Feature''),
            (''properties'', json_obj ([(''context'', JStr (vt_context t)),
                (''pointCount'', JNum (PosInt (of_nat (sum_list (map length segs)))))]
               @ opt ''label'' (vt_label t) @ opt ''oldest'' oldest @ opt ''newest'' newest)),
            (''geometry'', json_obj [(''type'', JStr ''MultiLineString''),
               (''coordinates'', JArr (map (\<lambda>seg. JArr (map (\<lambda>p. JArr [json_f64 (tp_lon p), json_f64 (tp_lat p)]) seg)) segs))])])"

definition tracks_to_geojson :: "track_env \<Rightarrow> vessel_track list \<Rightarrow> json" where
  "tracks_to_geojson env ts =
     json_obj [(''type'', JStr ''FeatureCollection''), (''features'', JArr (map (track_feature env) ts))]"

definition replace_char :: "char \<Rightarrow> string \<Rightarrow> string \<Rightarrow> string" where
  "replace_char c r s = concat (map (\<lambda>x. if x = c then r else [x]) s)"

definition xml_escape :: "string \<Rightarrow> string" where
  "xml_escape s =
     replace_char (CHR 0x27) ''&apos;'' (replace_char (CHR 0x22) ''&quot;'' (replace_char (CHR ''>'') ''&gt;''
       (replace_char (CHR ''<'') ''&lt;'' (replace_char (CHR ''&'') ''&amp;'' s))))"

definition quoted :: "string \<Rightarrow> string" where
  "quoted s = [CHR 0x22] @ s @ [CHR 0x22]"

definition gpx_number :: "track_env \<Rightarrow> string \<Rightarrow> nat \<Rightarrow> f64 option \<Rightarrow> string" where
  "gpx_number env tag digits x =
     (case x of None \<Rightarrow> []
      | Some v \<Rightarrow> ''          <'' @ tag @ ''>'' @ tx_fixed env digits v @ ''</'' @ tag @ ''>'' @ [CHR 0x0A])"

definition gpx_point :: "track_env \<Rightarrow> track_point \<Rightarrow> string" where
  "gpx_point env p =
     ''      <trkpt lat='' @ quoted (tx_fixed env 6 (tp_lat p)) @ '' lon='' @ quoted (tx_fixed env 6 (tp_lon p)) @ ''>'' @ [CHR 0x0A]
     @ ''        <time>'' @ tx_rfc env (tp_timestamp p) @ ''</time>'' @ [CHR 0x0A]
     @ (if tp_sog p \<noteq> None \<or> tp_cog p \<noteq> None \<or> tp_depth p \<noteq> None
        then ''        <extensions>'' @ [CHR 0x0A] @ gpx_number env ''sog'' 2 (tp_sog p) @ gpx_number env ''cog'' 4 (tp_cog p)
             @ gpx_number env ''depth'' 1 (tp_depth p) @ ''        </extensions>'' @ [CHR 0x0A]
        else [])
     @ ''      </trkpt>'' @ [CHR 0x0A]"

definition gpx_track :: "track_env \<Rightarrow> vessel_track \<Rightarrow> string" where
  "gpx_track env t =
     ''  <trk>'' @ [CHR 0x0A]
     @ ''    <name>'' @ xml_escape (unwrap_or (vt_label t) (vt_context t)) @ ''</name>'' @ [CHR 0x0A]
     @ ''    <desc>context='' @ xml_escape (vt_context t) @ ''</desc>'' @ [CHR 0x0A]
     @ concat (map (\<lambda>seg. ''    <trkseg>'' @ [CHR 0x0A] @ concat (map (gpx_point env) seg) @ ''    </trkseg>'' @ [CHR 0x0A])
         (vt_segments t))
     @ ''  </trk>'' @ [CHR 0x0A]"

definition tracks_to_gpx :: "track_env \<Rightarrow> vessel_track list \<Rightarrow> string" where
  "tracks_to_gpx env ts =
     ''<?xml version='' @ quoted ''1.0'' @ '' encoding='' @ quoted ''UTF-8'' @ ''?>'' @ [CHR 0x0A]
     @ ''<gpx version='' @ quoted ''1.1'' @ '' creator='' @ quoted ''signalk-rs'' @ '' xmlns=''
     @ quoted ''http://www.topografix.com/GPX/1/1'' @ ''>'' @ [CHR 0x0A]
     @ concat (map (gpx_track env) ts) @ ''</gpx>'' @ [CHR 0x0A]"

datatype track_response = JsonResponse nat json | GpxResponse string

fun simplify_all :: "libm \<Rightarrow> f64 \<Rightarrow> track_point list list \<Rightarrow> track_point list list option" where
  "simplify_all m eps [] = Some []"
| "simplify_all m eps (s # ss) =
     Option.bind (simplify_track_points m s eps) (\<lambda>s'. map_option ((#) s') (simplify_all m eps ss))"

fun simplify_tracks :: "libm \<Rightarrow> f64 \<Rightarrow> vessel_track list \<Rightarrow> vessel_track list option" where
  "simplify_tracks m eps [] = Some []"
| "simplify_tracks m eps (t # ts) =
     Option.bind (simplify_all m eps (vt_segments t)) (\<lambda>ss. map_option ((#) (t\<lparr>vt_segments := ss\<rparr>)) (simplify_tracks m eps ts))"

definition handle_get_tracks :: "track_env \<Rightarrow> track_db \<Rightarrow> string option \<Rightarrow> track_response option" where
  "handle_get_tracks env db query =
     (case parse_track_query env (unwrap_or query []) of
        Inl e \<Rightarrow> Some (JsonResponse 400 (json_obj [(''error'', JStr e)]))
      | Inr q \<Rightarrow>
          map_option (\<lambda>ts. case tq_format q of GeoJson \<Rightarrow> JsonResponse 200 (tracks_to_geojson env ts)
                                               | Gpx \<Rightarrow> GpxResponse (tracks_to_gpx env ts))
            (case tq_simplify q of None \<Rightarrow> Some (db_query env q db)
             | Some eps \<Rightarrow> simplify_tracks (tx_libm env) eps (db_query env q db)))"

definition handle_delete_tracks :: "track_db \<Rightarrow> string option \<Rightarrow> track_response \<times> track_db" where
  "handle_delete_tracks db query =
     (case map_of (parse_query (unwrap_or query [])) ''context'' of
        Some ctx \<Rightarrow> (JsonResponse 200 (json_obj [(''message'', JStr (''cleared tracks for '' @ ctx))]), db_clear_vessel ctx db)
      | None \<Rightarrow> (JsonResponse 200 (json_obj [(''message'', JStr ''all tracks cleared'')]), []))"

inductive tracks_step :: "track_env \<Rightarrow> tracks_config \<Rightarrow> tracks_state \<Rightarrow> tracks_state \<Rightarrow> bool" for env cfg where
  receive: "spec_delivers tracks_spec d \<Longrightarrow> tracks_step env cfg x (tracks_callback env cfg now d x)"
| prune: "tracks_step env cfg x (x\<lparr>tk_db := db_prune env now max_age (tk_db x)\<rparr>)"
| delete: "tracks_step env cfg x (x\<lparr>tk_db := snd (handle_delete_tracks (tk_db x) query)\<rparr>)"

inductive_cases tracks_stepE [consumes 1, case_names receive prune delete]: "tracks_step env cfg x y"

definition tracks_start :: tracks_state where
  "tracks_start = \<lparr>tk_db = [], tk_last = [], tk_aux = []\<rparr>"

end
