(* ===== verification/TracksSpec.thy ===== *)
theory TracksSpec
  imports Tracks
begin

text \<open>
  The track recorder: what a segment is, what the simplification of a line may drop, the distance in
  time of the recorded points, and the escaping of the GPX text.
\<close>

section \<open>Segments\<close>

definition gap_between :: "track_point \<Rightarrow> track_point \<Rightarrow> bool" where
  "gap_between a b \<longleftrightarrow> SEGMENT_GAP < tp_timestamp b - tp_timestamp a"

text \<open>A division into non-empty segments: no gap inside one, a gap from one to the next.\<close>

fun segmented :: "track_point list list \<Rightarrow> bool" where
  "segmented [] \<longleftrightarrow> True"
| "segmented (s # ss) \<longleftrightarrow> s \<noteq> [] \<and> successively (\<lambda>a b. \<not> gap_between a b) s \<and> segmented ss
     \<and> (case ss of t # _ \<Rightarrow> t \<noteq> [] \<and> gap_between (last s) (hd t) | [] \<Rightarrow> True)"

text \<open>The division, written as a recursion over the points.\<close>

fun split_gaps :: "track_point list \<Rightarrow> track_point list list" where
  "split_gaps [] = []"
| "split_gaps [a] = [[a]]"
| "split_gaps (a # b # ps) =
     (if gap_between a b then [a] # split_gaps (b # ps)
      else (case split_gaps (b # ps) of s # ss \<Rightarrow> (a # s) # ss | [] \<Rightarrow> [[a]]))"

lemma split_gaps_Cons: "\<exists>s ss. split_gaps (b # ps) = (b # s) # ss"
  by (induction ps arbitrary: b) (auto split: list.splits)

lemma split_gaps_segmented: "segmented (split_gaps ps) \<and> concat (split_gaps ps) = ps"
proof (induction ps rule: split_gaps.induct)
  case (3 a b ps)
  obtain s ss where s: "split_gaps (b # ps) = (b # s) # ss" using split_gaps_Cons by blast
  show ?case
  proof (cases "gap_between a b")
    case True
    then show ?thesis using 3(1) s by simp
  next
    case False
    then show ?thesis using 3(2) s by (cases ss) auto
  qed
qed simp_all

lemma segmented_split:
  assumes "segmented ss" shows "split_gaps (concat ss) = ss"
  using assms
proof (induction ss)
  case (Cons s ss)
  then have ne: "s \<noteq> []" and calm: "successively (\<lambda>a b. \<not> gap_between a b) s" and IH: "split_gaps (concat ss) = ss"
    and nxt: "\<And>t ts. ss = t # ts \<Longrightarrow> t \<noteq> [] \<and> gap_between (last s) (hd t)"
    by (auto split: list.splits)
  have "split_gaps (s @ concat ss) = s # ss"
    using ne calm nxt
  proof (induction s rule: list_nonempty_induct)
    case (single a)
    show ?case
    proof (cases ss)
      case (Cons t ts)
      then obtain b t' where "t = b # t'" using single(2) [OF Cons] by (cases t) auto
      then show ?thesis using single(2) [OF Cons] IH Cons by simp
    qed simp
  next
    case (cons a s)
    then obtain b s' where s: "s = b # s'" by (cases s) auto
    then show ?case using cons by simp
  qed
  then show ?case by simp
qed simp

lemma segment_fold:
  assumes "fold segment_step (zip (a # ps) ps) (segs, cur) = (segs', cur')" and "cur \<noteq> []"
  shows "cur' \<noteq> [] \<and> (\<exists>s ss. split_gaps (a # ps) = (a # s) # ss \<and> segs' @ [cur'] = segs @ (cur @ s) # ss)"
  using assms
proof (induction ps arbitrary: a segs cur)
  case (Cons b ps)
  show ?case
  proof (cases "gap_between a b")
    case True
    then have "fold segment_step (zip (b # ps) ps) (segs @ [cur], [b]) = (segs', cur')"
      using Cons.prems(1) by (simp add: gap_between_def)
    from Cons.IH [OF this] True show ?thesis by auto
  next
    case False
    then have "fold segment_step (zip (b # ps) ps) (segs, cur @ [b]) = (segs', cur')"
      using Cons.prems(1) by (simp add: gap_between_def)
    from Cons.IH [OF this] False show ?thesis by auto
  qed
qed simp

text \<open>The points of a track are divided into segments in the one possible way: joined together
  the segments are the points, none is empty, no two neighbours in a segment are more than five
  minutes apart, and each segment ends more than five minutes before the next one begins.\<close>

theorem segment_by_gap_iff:
  "segment_by_gap ps = ss \<longleftrightarrow> concat ss = ps \<and> segmented ss"
proof -
  have "segment_by_gap ps = split_gaps ps"
  proof (cases ps)
    case (Cons a qs)
    obtain segs' cur' where f: "fold segment_step (zip (a # qs) qs) ([], [a]) = (segs', cur')"
      by (cases "fold segment_step (zip (a # qs) qs) ([], [a])")
    from segment_fold [OF f] obtain s ss where "cur' \<noteq> []" "split_gaps (a # qs) = (a # s) # ss"
      "segs' @ [cur'] = (a # s) # ss" by auto
    then show ?thesis using f by (simp add: segment_by_gap_def Cons)
  qed (simp add: segment_by_gap_def)
  then show ?thesis using split_gaps_segmented [of ps] segmented_split [of ss] by auto
qed

section \<open>Simplification\<close>

lemma farthest_props:
  assumes "farthest dst s e = (d, k)"
  shows "f_lt (Fin 0) d \<or> d = Fin 0" and "d \<noteq> Fin 0 \<Longrightarrow> s < k \<and> k < e \<and> dst k = d"
    and "s < i \<Longrightarrow> i < e \<Longrightarrow> \<not> f_lt d (dst i)"
proof -
  define st where "st = (\<lambda>is. fold (\<lambda>i (d, k). if f_lt d (dst i) then (dst i, i) else (d, k)) is (Fin 0, s))"
  have "(f_lt (Fin 0) (fst (st is)) \<or> fst (st is) = Fin 0)
      \<and> (fst (st is) \<noteq> Fin 0 \<longrightarrow> snd (st is) \<in> set is \<and> dst (snd (st is)) = fst (st is))
      \<and> (\<forall>i\<in>set is. \<not> f_lt (fst (st is)) (dst i))" for "is"
  proof (induction "is" rule: rev_induct)
    case Nil
    then show ?case by (simp add: st_def)
  next
    case (snoc x xs)
    obtain d0 k0 where dk: "st xs = (d0, k0)" by (cases "st xs")
    have step: "st (xs @ [x]) = (if f_lt d0 (dst x) then (dst x, x) else (d0, k0))" using dk by (simp add: st_def)
    show ?case
    proof (cases "f_lt d0 (dst x)")
      case True
      have "f_lt (Fin 0) (dst x)" using snoc True dk f_lt_trans by auto
      moreover have "\<not> f_lt (dst x) (dst i)" if "i \<in> set xs" for i
        using snoc that True dk f_lt_trans [of d0 "dst x" "dst i"] by auto
      ultimately show ?thesis using True by (simp add: step)
    next
      case False
      then show ?thesis using snoc dk by (auto simp: step)
    qed
  qed
  from this [of "[Suc s..<e]"] assms
  show "f_lt (Fin 0) d \<or> d = Fin 0" and "d \<noteq> Fin 0 \<Longrightarrow> s < k \<and> k < e \<and> dst k = d"
    and "s < i \<Longrightarrow> i < e \<Longrightarrow> \<not> f_lt d (dst i)"
    by (auto simp: farthest_def st_def)
qed

text \<open>A point that was dropped lies within the tolerance of the line between its kept neighbours.\<close>

definition close_to_kept :: "libm \<Rightarrow> (f64 \<times> f64) list \<Rightarrow> f64 \<Rightarrow> bool list \<Rightarrow> nat \<Rightarrow> nat \<Rightarrow> nat \<Rightarrow> bool" where
  "close_to_kept m pts eps keep s e i \<longleftrightarrow>
     (\<exists>a b. s \<le> a \<and> a < i \<and> i < b \<and> b \<le> e \<and> keep ! a \<and> keep ! b \<and> (\<forall>j. a < j \<longrightarrow> j < b \<longrightarrow> \<not> keep ! j)
        \<and> \<not> f_lt eps (perpendicular_distance m (pts ! i) (pts ! a) (pts ! b)))"

lemma close_to_kept_cong:
  assumes "close_to_kept m pts eps keep s e i" and "s' \<le> s" and "e \<le> e'"
    and "\<And>j. s \<le> j \<Longrightarrow> j \<le> e \<Longrightarrow> keep' ! j = keep ! j"
  shows "close_to_kept m pts eps keep' s' e' i"
proof -
  from assms(1) obtain a b where ab: "s \<le> a" "a < i" "i < b" "b \<le> e" "keep ! a" "keep ! b"
    "\<And>j. a < j \<Longrightarrow> j < b \<Longrightarrow> \<not> keep ! j" "\<not> f_lt eps (perpendicular_distance m (pts ! i) (pts ! a) (pts ! b))"
    by (auto simp: close_to_kept_def)
  then have "keep' ! a" "keep' ! b" "\<And>j. a < j \<Longrightarrow> j < b \<Longrightarrow> \<not> keep' ! j" using assms(4) by auto
  then show ?thesis unfolding close_to_kept_def using ab assms(2,3) by (intro exI [of _ a] exI [of _ b]) auto
qed

definition thinned :: "libm \<Rightarrow> (f64 \<times> f64) list \<Rightarrow> f64 \<Rightarrow> nat \<Rightarrow> nat \<Rightarrow> bool list \<Rightarrow> bool list \<Rightarrow> bool" where
  "thinned m pts eps s e keep keep' \<longleftrightarrow> length keep' = length keep
     \<and> (\<forall>j. j \<le> s \<or> e \<le> j \<longrightarrow> keep' ! j = keep ! j)
     \<and> (\<forall>i. s < i \<longrightarrow> i < e \<longrightarrow> \<not> keep' ! i \<longrightarrow> close_to_kept m pts eps keep' s e i)"

lemma thinnedD:
  assumes "thinned m pts eps s e keep keep'"
  shows "length keep' = length keep" and "j \<le> s \<or> e \<le> j \<Longrightarrow> keep' ! j = keep ! j"
    and "s < i \<Longrightarrow> i < e \<Longrightarrow> \<not> keep' ! i \<Longrightarrow> close_to_kept m pts eps keep' s e i"
  using assms unfolding thinned_def by blast+

lemma rdp_indices_ok:
  assumes eps: "\<not> f_lt eps (Fin 0)" and "s < e" "e < length pts" "length keep = length pts"
    and "keep ! s" "keep ! e" and "\<And>j. s < j \<Longrightarrow> j < e \<Longrightarrow> \<not> keep ! j"
  shows "\<exists>keep'. rdp_indices m pts eps s e keep = Some keep' \<and> thinned m pts eps s e keep keep'"
  using assms(2-)
proof (induction "e - s" arbitrary: s e keep rule: less_induct)
  case less
  define dst where "dst = (\<lambda>i. perpendicular_distance m (pts ! i) (pts ! s) (pts ! e))"
  obtain d k where f: "farthest dst s e = (d, k)" by force
  note far = farthest_props [OF f]
  show ?case
  proof (cases "e \<le> s + 1")
    case True
    then show ?thesis by (auto simp: thinned_def rdp_indices.simps [of m pts eps s e])
  next
    case wide: False
    show ?thesis
    proof (cases "f_lt eps d")
      case False
      have "close_to_kept m pts eps keep s e i" if i: "s < i" "i < e" for i
      proof -
        have "\<not> f_lt eps (dst i)"
        proof
          assume l: "f_lt eps (dst i)"
          have "d \<noteq> NaN" "dst i \<noteq> NaN" using far(1) l by (auto simp: f_lt_def)
          then have "f_le (dst i) d" using far(3) [OF i] f_le_total [of "dst i" d] by (auto simp: f_lt_def)
          then show False using l False f_le_trans by (auto simp: f_lt_def)
        qed
        then show ?thesis
          unfolding close_to_kept_def using less.prems i by (intro exI [of _ s] exI [of _ e]) (auto simp: dst_def)
      qed
      moreover have "rdp_indices m pts eps s e keep = Some keep"
        using f False wide less.prems by (simp add: rdp_indices.simps [of m pts eps s e] dst_def)
      ultimately show ?thesis by (simp add: thinned_def)
    next
      case True
      then have "d \<noteq> Fin 0" using eps by auto
      then have k: "s < k" "k < e" using far(2) by simp_all
      define keep1 where "keep1 = keep[k := True]"
      have k1: "length keep1 = length pts" "keep1 ! k" "keep1 ! s" "keep1 ! e"
        "\<And>j. s < j \<Longrightarrow> j < e \<Longrightarrow> j \<noteq> k \<Longrightarrow> \<not> keep1 ! j" "\<And>j. j \<noteq> k \<Longrightarrow> keep1 ! j = keep ! j"
        using less.prems k by (auto simp: keep1_def)
      have "\<exists>keep2. rdp_indices m pts eps s k keep1 = Some keep2 \<and> thinned m pts eps s k keep1 keep2"
        by (rule less.hyps) (use k less.prems k1 in auto)
      then obtain keep2 where r2: "rdp_indices m pts eps s k keep1 = Some keep2" and t2: "thinned m pts eps s k keep1 keep2"
        by blast
      note o2 = thinnedD(2) [OF t2] and c2 = thinnedD(3) [OF t2]
      have l2: "length keep2 = length pts" using thinnedD(1) [OF t2] k1(1) by simp
      have "\<exists>keep3. rdp_indices m pts eps k e keep2 = Some keep3 \<and> thinned m pts eps k e keep2 keep3"
      proof (rule less.hyps)
        show "keep2 ! k" "keep2 ! e" using o2 k1(2,4) k by simp_all
        show "\<not> keep2 ! j" if "k < j" "j < e" for j using o2 [of j] k1(5) [of j] k that by simp
      qed (use k less.prems l2 in auto)
      then obtain keep3 where r3: "rdp_indices m pts eps k e keep2 = Some keep3" and t3: "thinned m pts eps k e keep2 keep3"
        by blast
      note o3 = thinnedD(2) [OF t3] and c3 = thinnedD(3) [OF t3]
      have l3: "length keep3 = length pts" using thinnedD(1) [OF t3] l2 by simp
      have "rdp_indices m pts eps s e keep = Some keep3"
        using f True wide less.prems r2 r3 by (simp add: rdp_indices.simps [of m pts eps s e] dst_def keep1_def)
      moreover have "close_to_kept m pts eps keep3 s e i" if "s < i" "i < e" "\<not> keep3 ! i" for i
      proof -
        consider "i < k" | "i = k" | "k < i" by linarith
        then show ?thesis
        proof cases
          case 1
          then have "close_to_kept m pts eps keep2 s k i" using c2 that o3 by simp
          then show ?thesis by (rule close_to_kept_cong) (use k o3 in auto)
        next
          case 2
          then show ?thesis using that(3) o3 o2 k1(2) by simp
        next
          case 3
          from c3 [OF 3 that(2,3)] show ?thesis by (rule close_to_kept_cong) (use k in auto)
        qed
      qed
      moreover have "keep3 ! j = keep ! j" if "j \<le> s \<or> e \<le> j" for j
      proof -
        have "j \<le> k \<or> e \<le> j" "j \<le> s \<or> k \<le> j" "j \<noteq> k" using that k by auto
        then show ?thesis using o3 [of j] o2 [of j] k1(6) [of j] by simp
      qed
      ultimately show ?thesis using l3 less.prems(3) unfolding thinned_def by (intro exI [of _ keep3]) simp
    qed
  qed
qed

text \<open>The points that are kept, by their positions.\<close>

definition kept :: "'a list \<Rightarrow> bool list \<Rightarrow> 'a list" where
  "kept ps keep = map fst (filter snd (zip ps keep))"

text \<open>Claim C39. The simplification of a track always returns. It keeps the points in their order, the
  first and the last among them, and a point that it drops is, for the positive tolerance it is given,
  not farther than the tolerance from the line between its neighbours among the kept points.\<close>

theorem simplify_within_tolerance:
  "\<exists>keep. simplify_track_points m ps eps = Some (kept ps keep) \<and> length keep = length ps
     \<and> (ps \<noteq> [] \<longrightarrow> keep ! 0 \<and> keep ! (length ps - 1))
     \<and> (\<forall>i<length ps. \<not> keep ! i \<longrightarrow>
          close_to_kept m (map (\<lambda>p. (tp_lat p, tp_lon p)) ps) eps keep 0 (length ps - 1) i)"
proof (cases "length ps \<le> 2 \<or> f_le eps (Fin 0)")
  case True
  have "kept ps (replicate (length ps) True) = ps"
    by (induction ps) (simp_all add: kept_def)
  then show ?thesis using True by (intro exI [of _ "replicate (length ps) True"]) (auto simp: simplify_track_points_def Let_def)
next
  case False
  define n where "n = length ps"
  define pts where "pts = map (\<lambda>p. (tp_lat p, tp_lon p)) ps"
  define keep where "keep = (replicate n False)[0 := True, n - 1 := True]"
  have len: "length pts = n" by (simp add: pts_def n_def)
  have n: "2 < n" and eps: "\<not> f_lt eps (Fin 0)" using False by (auto simp: n_def f_lt_def)
  have k: "length keep = length pts" "keep ! 0" "keep ! (n - 1)" "\<And>j. 0 < j \<Longrightarrow> j < n - 1 \<Longrightarrow> \<not> keep ! j"
    using n by (auto simp: keep_def len nth_list_update)
  have "\<exists>keep'. rdp_indices m pts eps 0 (n - 1) keep = Some keep' \<and> thinned m pts eps 0 (n - 1) keep keep'"
    by (rule rdp_indices_ok [OF eps _ _ k]) (use n in \<open>simp_all add: len\<close>)
  then obtain keep' where rd: "rdp_indices m pts eps 0 (n - 1) keep = Some keep'" and t: "thinned m pts eps 0 (n - 1) keep keep'"
    by blast
  have r: "length keep' = n" "keep' ! 0" "keep' ! (n - 1)"
    using thinnedD(1,2) [OF t] k len by simp_all
  have "close_to_kept m pts eps keep' 0 (n - 1) i" if "i < n" "\<not> keep' ! i" for i
  proof -
    have "i \<noteq> 0" "i \<noteq> n - 1" using that r(2,3) by metis+
    then show ?thesis using thinnedD(3) [OF t] that by simp
  qed
  then show ?thesis
    using False r rd by (intro exI [of _ keep']) (simp add: simplify_track_points_def Let_def kept_def n_def pts_def keep_def)
qed

definition demo_point :: "rat \<Rightarrow> datetime \<Rightarrow> track_point" where
  "demo_point x t = \<lparr>tp_lat = Fin x, tp_lon = Fin 0, tp_timestamp = t, tp_sog = None, tp_cog = None, tp_depth = None\<rparr>"

theorem simplify_within_tolerance_witness:
  "\<exists>keep. simplify_track_points demo_libm [demo_point 0 0, demo_point 1 1, demo_point 2 2] (Fin 1)
      = Some (kept [demo_point 0 0, demo_point 1 1, demo_point 2 2] keep) \<and> keep ! 0 \<and> keep ! 2"
proof -
  obtain keep where "simplify_track_points demo_libm [demo_point 0 0, demo_point 1 1, demo_point 2 2] (Fin 1)
      = Some (kept [demo_point 0 0, demo_point 1 1, demo_point 2 2] keep)" "keep ! 0" "keep ! 2"
    using simplify_within_tolerance [of demo_libm "[demo_point 0 0, demo_point 1 1, demo_point 2 2]" "Fin 1"]
    by (auto simp: numeral_2_eq_2)
  then show ?thesis by blast
qed

section \<open>Recording\<close>

definition times_of :: "track_env \<Rightarrow> string \<Rightarrow> track_db \<Rightarrow> datetime list" where
  "times_of env ctx db = map (row_time env) (filter (\<lambda>r. rw_context r = ctx) db)"

definition spaced :: "int \<Rightarrow> datetime list \<Rightarrow> bool" where
  "spaced gap ts \<longleftrightarrow> sorted_wrt (\<lambda>a b. a + gap \<le> b) ts"

definition tracks_inv :: "track_env \<Rightarrow> tracks_config \<Rightarrow> tracks_state \<Rightarrow> bool" where
  "tracks_inv env cfg x \<longleftrightarrow> (\<forall>ctx. spaced (tf_min_interval cfg) (times_of env ctx (tk_db x))
     \<and> (\<forall>t\<in>set (times_of env ctx (tk_db x)). \<exists>l. map_of (tk_last x) ctx = Some l \<and> t \<le> l))"

lemma tracks_invD:
  assumes "tracks_inv env cfg x"
  shows "spaced (tf_min_interval cfg) (times_of env ctx (tk_db x))"
    and "t \<in> set (times_of env ctx (tk_db x)) \<Longrightarrow> \<exists>l. map_of (tk_last x) ctx = Some l \<and> t \<le> l"
  using assms unfolding tracks_inv_def by blast+

text \<open>Deleting rows keeps it.\<close>

lemma tracks_inv_filter:
  assumes "tracks_inv env cfg x" shows "tracks_inv env cfg (x\<lparr>tk_db := filter P (tk_db x)\<rparr>)"
  unfolding tracks_inv_def
proof (intro allI conjI ballI)
  fix ctx
  have "times_of env ctx (filter P (tk_db x)) = map (row_time env) (filter P (filter (\<lambda>r. rw_context r = ctx) (tk_db x)))"
    by (simp add: times_of_def conj_commute)
  then show "spaced (tf_min_interval cfg) (times_of env ctx (tk_db (x\<lparr>tk_db := filter P (tk_db x)\<rparr>)))"
    using tracks_invD(1) [OF assms, of ctx] by (simp add: spaced_def times_of_def sorted_wrt_map sorted_wrt_filter del: filter_filter)
  fix t assume "t \<in> set (times_of env ctx (tk_db (x\<lparr>tk_db := filter P (tk_db x)\<rparr>)))"
  then have "t \<in> set (times_of env ctx (tk_db x))" by (auto simp: times_of_def)
  from tracks_invD(2) [OF assms this] show "\<exists>l. map_of (tk_last (x\<lparr>tk_db := filter P (tk_db x)\<rparr>)) ctx = Some l \<and> t \<le> l"
    by simp
qed

lemma record_position_inv:
  assumes inv: "tracks_inv env cfg x" and rt: "\<And>t. tx_parse env (tx_rfc env t) = Inr t" and gap: "0 \<le> tf_min_interval cfg"
  shows "tracks_inv env cfg (record_position env cfg ctx ts pos x)"
proof (cases "case map_of (tk_last x) ctx of Some prev \<Rightarrow> ts - prev < tf_min_interval cfg | None \<Rightarrow> False")
  case True
  then show ?thesis using inv by (simp add: record_position_def)
next
  case False
  define y where "y = record_position env cfg ctx ts pos x"
  have last: "tk_last y = hm_insert ctx ts (tk_last x)"
    and times: "times_of env c (tk_db y) = times_of env c (tk_db x) @ (if c = ctx then [ts] else [])" for c
    using False rt by (auto simp: y_def record_position_def db_record_def times_of_def row_time_def Let_def)
  have later: "t + tf_min_interval cfg \<le> ts" if t: "t \<in> set (times_of env ctx (tk_db x))" for t
  proof -
    from tracks_invD(2) [OF inv t] obtain l where "map_of (tk_last x) ctx = Some l" "t \<le> l" by blast
    then show ?thesis using False by simp
  qed
  show ?thesis
    unfolding tracks_inv_def y_def [symmetric]
  proof (intro allI conjI ballI)
    fix c
    show "spaced (tf_min_interval cfg) (times_of env c (tk_db y))"
      using tracks_invD(1) [OF inv, of c] later by (auto simp: times spaced_def sorted_wrt_append)
    fix t assume t: "t \<in> set (times_of env c (tk_db y))"
    show "\<exists>l. map_of (tk_last y) c = Some l \<and> t \<le> l"
    proof (cases "c = ctx")
      case True
      then have "t \<le> ts" using t later gap by (force simp: times)
      then show ?thesis by (simp add: last True)
    next
      case False
      then show ?thesis using tracks_invD(2) [OF inv, of t c] t by (simp add: times last)
    qed
  qed
qed

lemma tracks_inv_step:
  assumes "tracks_step env cfg x y" and "tracks_inv env cfg x"
    and rt: "\<And>t. tx_parse env (tx_rfc env t) = Inr t" and gap: "0 \<le> tf_min_interval cfg"
  shows "tracks_inv env cfg y"
  using assms(1)
proof (cases rule: tracks_stepE)
  case (receive d now)
  have aux: "tracks_inv env cfg (x\<lparr>tk_aux := a\<rparr>)" for a using assms(2) by (simp add: tracks_inv_def)
  show ?thesis
    unfolding receive tracks_callback_def Let_def
    using aux assms(2) record_position_inv [OF aux rt gap] by (simp split: option.splits prod.splits)
next
  case (prune now max_age)
  then show ?thesis using tracks_inv_filter [OF assms(2)] by (simp add: db_prune_def)
next
  case (delete query)
  have "\<exists>P. snd (handle_delete_tracks (tk_db x) query) = filter P (tk_db x)"
  proof (cases "map_of (parse_query (unwrap_or query [])) ''context''")
    case None
    then have "snd (handle_delete_tracks (tk_db x) query) = filter (\<lambda>_. False) (tk_db x)"
      by (simp add: handle_delete_tracks_def)
    then show ?thesis by blast
  next
    case (Some ctx)
    then have "snd (handle_delete_tracks (tk_db x) query) = filter (\<lambda>r. rw_context r \<noteq> ctx) (tk_db x)"
      by (simp add: handle_delete_tracks_def db_clear_vessel_def)
    then show ?thesis by blast
  qed
  then obtain P where "snd (handle_delete_tracks (tk_db x) query) = filter P (tk_db x)" by blast
  then show ?thesis using tracks_inv_filter [OF assms(2)] by (simp add: delete)
qed


definition demo_text :: "int \<Rightarrow> string" where
  "demo_text t = (if 0 \<le> t then CHR ''+'' else CHR ''-'') # replicate (nat \<bar>t\<bar>) CHR ''1''"

definition demo_track_env :: track_env where
  "demo_track_env = \<lparr>tx_libm = demo_libm, tx_rfc = demo_text,
     tx_parse = (\<lambda>s. case s of [] \<Rightarrow> Inl [] | c # r \<Rightarrow> Inr (if c = CHR ''+'' then int (length r) else - int (length r))),
     tx_parse_f64 = (\<lambda>_. Inl []), tx_parse_usize = (\<lambda>_. Inl []), tx_fixed = (\<lambda>_ _. [])\<rparr>"

definition demo_tracks_config :: tracks_config where
  "demo_tracks_config = \<lparr>tf_min_interval = 5, tf_track_self = True, tf_track_others = True\<rparr>"

definition demo_fix :: "datetime \<Rightarrow> delta" where
  "demo_fix t = self_vessel [update_new t (source_plugin ''gps'')
     [path_value_new ''navigation.position'' (json_obj [(''latitude'', json_f64 (Fin 0)), (''longitude'', json_f64 (Fin 0))])]]"


section \<open>Escaping\<close>

definition escape_char :: "char \<Rightarrow> string" where
  "escape_char c =
     (if c = CHR ''&'' then ''&amp;'' else if c = CHR ''<'' then ''&lt;'' else if c = CHR ''>'' then ''&gt;''
      else if c = CHR 0x22 then ''&quot;'' else if c = CHR 0x27 then ''&apos;'' else [c])"

text \<open>The five replacements one after the other escape each character once.\<close>

theorem xml_escape_each: "xml_escape s = concat (map escape_char s)"
proof -
  have step: "replace_char c r (concat (map f s)) = concat (map (\<lambda>x. replace_char c r (f x)) s)" for c r f
    by (induction s) (simp_all add: replace_char_def)
  have "xml_escape s = concat (map (\<lambda>x. replace_char (CHR 0x27) ''&apos;'' (replace_char (CHR 0x22) ''&quot;''
     (replace_char (CHR ''>'') ''&gt;'' (replace_char (CHR ''<'') ''&lt;'' (if x = CHR ''&'' then ''&amp;'' else [x])))))  s)"
    unfolding xml_escape_def step [symmetric] by (simp add: replace_char_def)
  also have "\<dots> = concat (map escape_char s)"
    by (rule arg_cong [of _ _ concat], rule map_cong) (auto simp: escape_char_def replace_char_def)
  finally show ?thesis .
qed

end
