(* ===== verification/AnchorAlarm.thy ===== *)
theory AnchorAlarm
  imports Geo PluginHost Notifications
begin

text \<open>
  The anchor alarm (\<^verbatim>\<open>plugins/anchor-alarm/src/lib.rs\<close>): its callback compares each
  position of the own vessel with the anchor and hands every change of the alarm to a task of its
  own, which raises the notification. The tasks run in any order.
\<close>

record anchor_config =
  an_latitude :: f64
  an_longitude :: f64
  an_radius :: f64

definition default_radius :: f64 where
  "default_radius = Fin 50"

definition anchor_spec :: subscription_spec where
  "anchor_spec = \<lparr>ss_context = ''vessels.self'', ss_patterns = [''navigation.position'']\<rparr>"

text \<open>The distance of a value from the anchor, when it is a position.\<close>

definition anchor_distance :: "libm \<Rightarrow> anchor_config \<Rightarrow> path_value \<Rightarrow> f64 option" where
  "anchor_distance m cfg pv =
     (if pv_path pv \<noteq> ''navigation.position'' then None
      else Option.bind (Option.bind (jget ''latitude'' (pv_value pv)) as_f64) (\<lambda>lat.
             Option.bind (Option.bind (jget ''longitude'' (pv_value pv)) as_f64) (\<lambda>lon.
               Some (haversine_meters m (an_latitude cfg) (an_longitude cfg) lat lon))))"

text \<open>One value: the alarm, and the change to report with its distance.\<close>

definition anchor_check :: "libm \<Rightarrow> anchor_config \<Rightarrow> path_value \<Rightarrow> bool \<times> (f64 \<times> bool) list \<Rightarrow> bool \<times> (f64 \<times> bool) list" where
  "anchor_check m cfg pv st =
     (case anchor_distance m cfg pv of
        None \<Rightarrow> st
      | Some dst \<Rightarrow>
          (let (was_alarming, tasks) = st; is_outside = f_lt (an_radius cfg) dst
           in if is_outside \<and> \<not> was_alarming then (True, tasks @ [(dst, True)])
              else if \<not> is_outside \<and> was_alarming then (False, tasks @ [(dst, False)])
              else st))"

definition anchor_callback :: "libm \<Rightarrow> anchor_config \<Rightarrow> delta \<Rightarrow> bool \<Rightarrow> bool \<times> (f64 \<times> bool) list" where
  "anchor_callback m cfg d alarming = fold (anchor_check m cfg) (concat (map u_values (d_updates d))) (alarming, [])"

definition raise_notification :: "(json \<Rightarrow> string) \<Rightarrow> datetime \<Rightarrow> delta_filter_chain \<Rightarrow> string \<Rightarrow> notification \<Rightarrow> string \<Rightarrow> store \<Rightarrow> store" where
  "raise_notification disp now c path n plugin s =
     handle_message disp now c
       (self_vessel [update_new now (source_plugin plugin) [path_value_new (''notifications.'' @ path) (notification_to_json n)]]) s"

definition clear_notification :: "(json \<Rightarrow> string) \<Rightarrow> datetime \<Rightarrow> delta_filter_chain \<Rightarrow> string \<Rightarrow> string \<Rightarrow> store \<Rightarrow> store" where
  "clear_notification disp now c path plugin s =
     raise_notification disp now c path
       \<lparr>nt_id = None, nt_state = Normal, nt_method = [], nt_message = [], nt_status = None\<rparr> plugin s"

definition anchor_notification :: "(f64 \<Rightarrow> string) \<Rightarrow> anchor_config \<Rightarrow> f64 \<times> bool \<Rightarrow> notification" where
  "anchor_notification fmt cfg task =
     (let (dst, alarming) = task in
      if alarming
      then \<lparr>nt_id = None, nt_state = Alarm, nt_method = [Visual, Sound],
            nt_message = ''Anchor alarm! Vessel is '' @ fmt dst @ ''m from anchor (radius: '' @ fmt (an_radius cfg) @ ''m)'',
            nt_status = None\<rparr>
      else \<lparr>nt_id = None, nt_state = Normal, nt_method = [],
            nt_message = ''Back within anchor radius ('' @ fmt dst @ ''m, radius: '' @ fmt (an_radius cfg) @ ''m)'',
            nt_status = None\<rparr>)"

record anchor_system =
  ay_store :: store
  ay_alarming :: bool
  ay_tasks :: "(f64 \<times> bool) list"

inductive anchor_step :: "libm \<Rightarrow> (f64 \<Rightarrow> string) \<Rightarrow> (json \<Rightarrow> string) \<Rightarrow> anchor_config \<Rightarrow> anchor_system \<Rightarrow> anchor_system \<Rightarrow> bool"
  for m fmt disp cfg where
  receive: "spec_delivers anchor_spec d \<Longrightarrow> anchor_callback m cfg d (ay_alarming y) = (alarming, tasks) \<Longrightarrow>
     anchor_step m fmt disp cfg y (y\<lparr>ay_alarming := alarming, ay_tasks := ay_tasks y @ tasks\<rparr>)"
| run: "ay_tasks y = before @ task # after \<Longrightarrow>
     anchor_step m fmt disp cfg y (y\<lparr>ay_tasks := before @ after,
       ay_store := raise_notification disp now [] ''navigation.anchor'' (anchor_notification fmt cfg task) ''anchor-alarm'' (ay_store y)\<rparr>)"

inductive_cases anchor_stepE [consumes 1, case_names receive run]: "anchor_step m fmt disp cfg y z"

section \<open>The reports alternate\<close>

fun alternates :: "bool \<Rightarrow> bool list \<Rightarrow> bool" where
  "alternates b [] \<longleftrightarrow> True"
| "alternates b (x # xs) \<longleftrightarrow> x \<noteq> b \<and> alternates x xs"

lemma alternates_snoc: "alternates b (xs @ [x]) \<longleftrightarrow> alternates b xs \<and> x \<noteq> last (b # xs)"
  by (induction xs arbitrary: b) auto

text \<open>A callback reports alternating changes, starting from the state it found, and ends in the state
  that it reported last.\<close>

theorem anchor_reports_alternate:
  assumes "anchor_callback m cfg d alarming = (alarming', tasks)"
  shows "alternates alarming (map snd tasks) \<and> alarming' = last (alarming # map snd tasks)"
proof -
  have "alternates alarming (map snd ts) \<and> a = last (alarming # map snd ts)"
    if "fold (anchor_check m cfg) pvs (alarming, []) = (a, ts)" for pvs a ts
    using that
  proof (induction pvs arbitrary: a ts rule: rev_induct)
    case (snoc pv pvs)
    obtain a0 ts0 where f: "fold (anchor_check m cfg) pvs (alarming, []) = (a0, ts0)"
      by (cases "fold (anchor_check m cfg) pvs (alarming, [])")
    have IH: "alternates alarming (map snd ts0)" "a0 = last (alarming # map snd ts0)" using snoc.IH [OF f] by simp_all
    have "anchor_check m cfg pv (a0, ts0) = (a, ts)" using snoc.prems f by simp
    then show ?case using IH by (auto simp: anchor_check_def alternates_snoc Let_def split: option.splits if_splits)
  qed simp
  then show ?thesis using assms by (simp add: anchor_callback_def)
qed

section \<open>The tasks race\<close>

definition demo_anchor :: anchor_config where
  "demo_anchor = \<lparr>an_latitude = Fin 0, an_longitude = Fin 0, an_radius = Fin 50\<rparr>"

definition anchor_state :: "store \<Rightarrow> json option" where
  "anchor_state s = Option.bind (ctx_get_self_path s ''notifications.navigation.anchor'') (jget ''state'')"

lemma run_two_reversed:
  assumes "ay_tasks y = [t1, t2]"
  shows "(anchor_step m fmt disp cfg)\<^sup>*\<^sup>* y (y\<lparr>ay_tasks := [],
     ay_store := raise_notification disp 0 [] ''navigation.anchor'' (anchor_notification fmt cfg t1) ''anchor-alarm''
       (raise_notification disp 0 [] ''navigation.anchor'' (anchor_notification fmt cfg t2) ''anchor-alarm'' (ay_store y))\<rparr>)"
proof -
  define z where "z = y\<lparr>ay_tasks := [t1],
     ay_store := raise_notification disp 0 [] ''navigation.anchor'' (anchor_notification fmt cfg t2) ''anchor-alarm'' (ay_store y)\<rparr>"
  have "anchor_step m fmt disp cfg y z"
    unfolding z_def using anchor_step.run [of y "[t1]" t2 "[]" m fmt disp cfg 0] assms by simp
  moreover have "anchor_step m fmt disp cfg z (z\<lparr>ay_tasks := [],
     ay_store := raise_notification disp 0 [] ''navigation.anchor'' (anchor_notification fmt cfg t1) ''anchor-alarm'' (ay_store z)\<rparr>)"
    using anchor_step.run [of z "[]" t1 "[]" m fmt disp cfg 0] by (simp add: z_def)
  ultimately show ?thesis by (simp add: z_def)
qed

text \<open>When the vessel swings out and back before the two tasks have run, the alarm can stay in the
  store although the vessel is back: the task of the alarm runs last.\<close>

theorem anchor_alarm_can_stay:
  "\<exists>y. (anchor_step demo_libm (\<lambda>_. []) (\<lambda>_. []) demo_anchor)\<^sup>*\<^sup>*
      \<lparr>ay_store = store_new ''me'', ay_alarming = False, ay_tasks = [(Fin 60, True), (Fin 40, False)]\<rparr> y
    \<and> ay_tasks y = [] \<and> \<not> ay_alarming y \<and> anchor_state (ay_store y) = Some (JStr ''alarm'')"
proof -
  let ?raise = "\<lambda>t. raise_notification (\<lambda>_. []) 0 [] ''navigation.anchor'' (anchor_notification (\<lambda>_. []) demo_anchor t) ''anchor-alarm''"
  have "anchor_state (?raise (Fin 60, True) (?raise (Fin 40, False) (store_new ''me''))) = Some (JStr ''alarm'')"
    by code_simp
  then show ?thesis
    using run_two_reversed [of "\<lparr>ay_store = store_new ''me'', ay_alarming = False, ay_tasks = [(Fin 60, True), (Fin 40, False)]\<rparr>"]
    by fastforce
qed

end
