(* ===== verification/FullModel.thy ===== *)
theory FullModel
  imports Store "HOL-Library.Sublist"
begin

text \<open>
  The JSON form of the full model: \<^verbatim>\<open>signalk-types/src/full.rs\<close> with the encoders and
  decoders that the derive attributes give to the types of \<^verbatim>\<open>meta.rs\<close> and
  \<^verbatim>\<open>full.rs\<close>. A vessel keeps its values in a flat map by dotted path and is written as a
  tree of objects. The text form of a time is that of another crate and an argument, printing as
  \<open>ts\<close> and reading as \<open>tp\<close>; text that the reader refuses fails the decoding.
\<close>

section \<open>Metadata\<close>

fun zone_state_str :: "zone_state \<Rightarrow> string" where
  "zone_state_str ZNominal = ''nominal''"
| "zone_state_str ZAlert = ''alert''"
| "zone_state_str ZWarn = ''warn''"
| "zone_state_str ZAlarm = ''alarm''"
| "zone_state_str ZEmergency = ''emergency''"

definition zone_state_of_json :: "json \<Rightarrow> zone_state option" where
  "zone_state_of_json v = Option.bind (enum_tag v) (\<lambda>t.
     map_of [(''nominal'', ZNominal), (''alert'', ZAlert), (''warn'', ZWarn), (''alarm'', ZAlarm),
             (''emergency'', ZEmergency)] t)"

definition zone_to_json :: "zone \<Rightarrow> json" where
  "zone_to_json z = json_obj
     (opt_field ''lower'' json_f64 (z_lower z) @ opt_field ''upper'' json_f64 (z_upper z) @
      [(''state'', JStr (zone_state_str (z_state z)))] @ opt_field ''message'' JStr (z_message z))"

definition zone_of_json :: "json \<Rightarrow> zone option" where
  "zone_of_json v =
     Option.bind (struct_field [''lower'', ''upper'', ''state'', ''message''] v) (\<lambda>f.
     Option.bind (decode_opt as_f64 (f ''lower'')) (\<lambda>lo.
     Option.bind (decode_opt as_f64 (f ''upper'')) (\<lambda>up.
     Option.bind (Option.bind (f ''state'') zone_state_of_json) (\<lambda>st.
     Option.bind (decode_opt as_str (f ''message'')) (\<lambda>msg.
       Some \<lparr>z_lower = lo, z_upper = up, z_state = st, z_message = msg\<rparr>)))))"

definition display_units_to_json :: "display_units \<Rightarrow> json" where
  "display_units_to_json u = json_obj
     ([(''category'', JStr (du_category u)), (''targetUnit'', JStr (du_target_unit u)),
       (''formula'', JStr (du_formula u)), (''inverseFormula'', JStr (du_inverse_formula u)),
       (''symbol'', JStr (du_symbol u))] @ opt_field ''displayFormat'' JStr (du_display_format u))"

definition display_units_of_json :: "json \<Rightarrow> display_units option" where
  "display_units_of_json v =
     Option.bind (struct_field [''category'', ''targetUnit'', ''formula'', ''inverseFormula'', ''symbol'',
                                ''displayFormat''] v) (\<lambda>f.
     Option.bind (Option.bind (f ''category'') as_str) (\<lambda>c.
     Option.bind (Option.bind (f ''targetUnit'') as_str) (\<lambda>t.
     Option.bind (Option.bind (f ''formula'') as_str) (\<lambda>fo.
     Option.bind (Option.bind (f ''inverseFormula'') as_str) (\<lambda>fi.
     Option.bind (Option.bind (f ''symbol'') as_str) (\<lambda>s.
     Option.bind (decode_opt as_str (f ''displayFormat'')) (\<lambda>d.
       Some \<lparr>du_category = c, du_target_unit = t, du_formula = fo, du_inverse_formula = fi, du_symbol = s,
             du_display_format = d\<rparr>)))))))"

definition metadata_to_json :: "metadata \<Rightarrow> json" where
  "metadata_to_json m = json_obj
     (opt_field ''description'' JStr (m_description m) @ opt_field ''units'' JStr (m_units m) @
      opt_field ''displayName'' JStr (m_display_name m) @ opt_field ''longName'' JStr (m_long_name m) @
      opt_field ''timeout'' json_f64 (m_timeout m) @ opt_field ''minValue'' json_f64 (m_min_value m) @
      opt_field ''maxValue'' json_f64 (m_max_value m) @
      (if m_zones m = [] then [] else [(''zones'', JArr (map zone_to_json (m_zones m)))]) @
      opt_field ''displayUnits'' display_units_to_json (m_display_units m))"

definition metadata_of_json :: "json \<Rightarrow> metadata option" where
  "metadata_of_json v =
     Option.bind (struct_field [''description'', ''units'', ''displayName'', ''longName'', ''timeout'',
                                ''minValue'', ''maxValue'', ''zones'', ''displayUnits''] v) (\<lambda>f.
     Option.bind (decode_opt as_str (f ''description'')) (\<lambda>d.
     Option.bind (decode_opt as_str (f ''units'')) (\<lambda>u.
     Option.bind (decode_opt as_str (f ''displayName'')) (\<lambda>dn.
     Option.bind (decode_opt as_str (f ''longName'')) (\<lambda>ln.
     Option.bind (decode_opt as_f64 (f ''timeout'')) (\<lambda>t.
     Option.bind (decode_opt as_f64 (f ''minValue'')) (\<lambda>mi.
     Option.bind (decode_opt as_f64 (f ''maxValue'')) (\<lambda>ma.
     Option.bind (case f ''zones'' of None \<Rightarrow> Some [] | Some z \<Rightarrow> decode_vec zone_of_json z) (\<lambda>zs.
     Option.bind (decode_opt display_units_of_json (f ''displayUnits'')) (\<lambda>du.
       Some \<lparr>m_description = d, m_units = u, m_display_name = dn, m_long_name = ln, m_timeout = t,
             m_min_value = mi, m_max_value = ma, m_zones = zs, m_display_units = du\<rparr>))))))))))"

section \<open>Values\<close>

definition time_of_json :: "(string \<Rightarrow> datetime option) \<Rightarrow> json \<Rightarrow> datetime option" where
  "time_of_json tp v = Option.bind (as_str v) tp"

definition source_value_to_json :: "(datetime \<Rightarrow> string) \<Rightarrow> source_value \<Rightarrow> json" where
  "source_value_to_json ts v = json_obj [(''value'', sv_val v), (''timestamp'', JStr (ts (sv_time v)))]"

definition source_value_of_json :: "(string \<Rightarrow> datetime option) \<Rightarrow> json \<Rightarrow> source_value option" where
  "source_value_of_json tp v =
     Option.bind (struct_field [''value'', ''timestamp''] v) (\<lambda>f.
     Option.bind (f ''value'') (\<lambda>x.
     Option.bind (Option.bind (f ''timestamp'') (time_of_json tp)) (\<lambda>t.
       Some \<lparr>sv_val = x, sv_time = t\<rparr>)))"

text \<open>The entries of an object with the decoded values, for a \<^verbatim>\<open>HashMap\<close> field.\<close>

fun decode_entries :: "(json \<Rightarrow> 'a option) \<Rightarrow> json omap \<Rightarrow> 'a hmap option" where
  "decode_entries d [] = Some []"
| "decode_entries d ((k, v) # m) =
     Option.bind (d v) (\<lambda>x. Option.bind (decode_entries d m) (\<lambda>r. Some ((k, x) # r)))"

definition decode_map :: "(json \<Rightarrow> 'a option) \<Rightarrow> json \<Rightarrow> 'a hmap option" where
  "decode_map d v = Option.bind (as_object v) (decode_entries d)"

definition map_to_json :: "('a \<Rightarrow> json) \<Rightarrow> 'a hmap \<Rightarrow> json" where
  "map_to_json e m = json_obj (map (\<lambda>(k, x). (k, e x)) m)"

definition signalk_value_to_json :: "(datetime \<Rightarrow> string) \<Rightarrow> signalk_value \<Rightarrow> json" where
  "signalk_value_to_json ts v = json_obj
     ([(''value'', sk_value v), (''$source'', JStr (sk_source v)), (''timestamp'', JStr (ts (sk_timestamp v)))] @
      opt_field ''meta'' metadata_to_json (sk_meta v) @
      opt_field ''values'' (map_to_json (source_value_to_json ts)) (sk_values v))"

definition signalk_value_of_json :: "(string \<Rightarrow> datetime option) \<Rightarrow> json \<Rightarrow> signalk_value option" where
  "signalk_value_of_json tp v =
     Option.bind (struct_field [''value'', ''$source'', ''timestamp'', ''meta'', ''values''] v) (\<lambda>f.
     Option.bind (f ''value'') (\<lambda>x.
     Option.bind (Option.bind (f ''$source'') as_str) (\<lambda>s.
     Option.bind (Option.bind (f ''timestamp'') (time_of_json tp)) (\<lambda>t.
     Option.bind (decode_opt metadata_of_json (f ''meta'')) (\<lambda>m.
     Option.bind (decode_opt (decode_map (source_value_of_json tp)) (f ''values'')) (\<lambda>vs.
       Some \<lparr>sk_value = x, sk_source = s, sk_timestamp = t, sk_meta = m, sk_values = vs\<rparr>))))))"

section \<open>Vessels\<close>

fun insert_nested :: "string list \<Rightarrow> json \<Rightarrow> json omap \<Rightarrow> json omap" where
  "insert_nested [] v m = m"
| "insert_nested [k] v m = om_insert k v m"
| "insert_nested (k # l # ks) v m =
     (case map_of m k of
        None \<Rightarrow> om_insert k (JObj (insert_nested (l # ks) v [])) m
      | Some (JObj n) \<Rightarrow> om_insert k (JObj (insert_nested (l # ks) v n)) m
      | Some _ \<Rightarrow> m)"

definition insert_value :: "(datetime \<Rightarrow> string) \<Rightarrow> string \<times> signalk_value \<Rightarrow> json omap \<Rightarrow> json omap" where
  "insert_value ts = (\<lambda>(path, v). insert_nested (path_split path) (signalk_value_to_json ts v))"

definition identity_fields :: "vessel_data \<Rightarrow> json omap" where
  "identity_fields v = fold (\<lambda>(k, x). om_insert k x)
     (opt_field ''uuid'' JStr (v_uuid v) @ opt_field ''name'' JStr (v_name v) @ opt_field ''mmsi'' JStr (v_mmsi v)) []"

definition vessel_to_json :: "(datetime \<Rightarrow> string) \<Rightarrow> vessel_data \<Rightarrow> json" where
  "vessel_to_json ts v = JObj (fold (insert_value ts) (v_values v) (identity_fields v))"

definition is_leaf :: "json omap \<Rightarrow> bool" where
  "is_leaf m \<longleftrightarrow> map_of m ''value'' \<noteq> None \<and> map_of m ''$source'' \<noteq> None \<and> map_of m ''timestamp'' \<noteq> None"

definition child_prefix :: "string \<Rightarrow> string \<Rightarrow> string" where
  "child_prefix pre k = (if pre = [] then k else pre @ ''.'' @ k)"

fun flatten_into :: "(string \<Rightarrow> datetime option) \<Rightarrow> string \<Rightarrow> json \<Rightarrow> signalk_value hmap \<Rightarrow> signalk_value hmap option"
and flatten_entries :: "(string \<Rightarrow> datetime option) \<Rightarrow> string \<Rightarrow> json omap \<Rightarrow> signalk_value hmap \<Rightarrow> signalk_value hmap option" where
  "flatten_into tp pre (JObj m) acc =
     (if is_leaf m then map_option (\<lambda>v. hm_insert pre v acc) (signalk_value_of_json tp (JObj m))
      else flatten_entries tp pre m acc)"
| "flatten_into tp pre JNull acc = Some acc"
| "flatten_into tp pre (JBool b) acc = Some acc"
| "flatten_into tp pre (JNum n) acc = Some acc"
| "flatten_into tp pre (JStr s) acc = Some acc"
| "flatten_into tp pre (JArr xs) acc = Some acc"
| "flatten_entries tp pre [] acc = Some acc"
| "flatten_entries tp pre ((k, v) # m) acc =
     Option.bind (flatten_into tp (child_prefix pre k) v acc) (flatten_entries tp pre m)"

fun read_fields :: "(string \<Rightarrow> datetime option) \<Rightarrow> json omap \<Rightarrow> vessel_data \<Rightarrow> vessel_data option" where
  "read_fields tp [] w = Some w"
| "read_fields tp ((k, v) # m) w =
     (if k = ''uuid'' then read_fields tp m (w\<lparr>v_uuid := as_str v\<rparr>)
      else if k = ''name'' then read_fields tp m (w\<lparr>v_name := as_str v\<rparr>)
      else if k = ''mmsi'' then read_fields tp m (w\<lparr>v_mmsi := as_str v\<rparr>)
      else Option.bind (flatten_into tp k v (v_values w)) (\<lambda>vs. read_fields tp m (w\<lparr>v_values := vs\<rparr>)))"

definition vessel_of_json :: "(string \<Rightarrow> datetime option) \<Rightarrow> json \<Rightarrow> vessel_data option" where
  "vessel_of_json tp v = Option.bind (as_object v) (\<lambda>m. read_fields tp m vessel_default)"

section \<open>The model\<close>

definition full_model_to_json :: "(datetime \<Rightarrow> string) \<Rightarrow> full_model \<Rightarrow> json" where
  "full_model_to_json ts fm = json_obj
     [(''version'', JStr (fm_version fm)), (''self'', JStr (fm_self fm)),
      (''vessels'', map_to_json (vessel_to_json ts) (fm_vessels fm)), (''sources'', fm_sources fm)]"

definition full_model_of_json :: "(string \<Rightarrow> datetime option) \<Rightarrow> json \<Rightarrow> full_model option" where
  "full_model_of_json tp v =
     Option.bind (struct_field [''version'', ''self'', ''vessels'', ''sources''] v) (\<lambda>f.
     Option.bind (Option.bind (f ''version'') as_str) (\<lambda>ver.
     Option.bind (Option.bind (f ''self'') as_str) (\<lambda>uri.
     Option.bind (Option.bind (f ''vessels'') (decode_map (vessel_of_json tp))) (\<lambda>vs.
       Some \<lparr>fm_version = ver, fm_self = uri, fm_vessels = vs, fm_sources = unwrap_or (f ''sources'') (JObj [])\<rparr>))))"

end
