(* ===== verification/FullModelSpec.thy ===== *)
theory FullModelSpec
  imports FullModel
begin

text \<open>
  What the JSON form of the full model keeps. The codecs of the values are inverse to each other on
  finite numbers; the tree of a vessel holds each value at the place its path names, and reading it
  back gives the flat map again, as long as no path lies below another and none uses a name that the
  format reserves.
\<close>

section \<open>Codecs\<close>

lemma as_f64_finite: "is_finite x \<Longrightarrow> as_f64 (json_f64 x) = Some x" "is_finite x \<Longrightarrow> json_f64 x \<noteq> JNull"
  by (simp_all add: as_f64_json_f64 json_f64_def)

definition opt_finite :: "f64 option \<Rightarrow> bool" where
  "opt_finite x \<longleftrightarrow> (case x of None \<Rightarrow> True | Some a \<Rightarrow> is_finite a)"

lemma decode_opt_f64: "opt_finite x \<Longrightarrow> decode_opt as_f64 (map_option json_f64 x) = Some x"
  by (intro decode_opt_ok) (simp add: opt_finite_def as_f64_finite)

definition zone_ok :: "zone \<Rightarrow> bool" where
  "zone_ok z \<longleftrightarrow> opt_finite (z_lower z) \<and> opt_finite (z_upper z)"

definition metadata_ok :: "metadata \<Rightarrow> bool" where
  "metadata_ok m \<longleftrightarrow> opt_finite (m_timeout m) \<and> opt_finite (m_min_value m) \<and> opt_finite (m_max_value m)
     \<and> list_all zone_ok (m_zones m)"

lemma zone_state_roundtrip [simp]: "zone_state_of_json (JStr (zone_state_str z)) = Some z"
  by (cases z) (simp_all add: zone_state_of_json_def)

lemma zone_roundtrip: "zone_ok z \<Longrightarrow> zone_of_json (zone_to_json z) = Some z"
  by (simp add: zone_of_json_def zone_to_json_def struct_json_obj opt_field_lookup zone_ok_def decode_opt_f64
      del: map_of_append)

lemma display_units_roundtrip: "display_units_of_json (display_units_to_json u) = Some u"
  by (simp add: display_units_of_json_def display_units_to_json_def struct_json_obj opt_field_lookup
      del: map_of_append)

lemma display_units_not_null: "display_units_to_json u \<noteq> JNull"
  by (simp add: display_units_to_json_def)

lemma metadata_not_null: "metadata_to_json m \<noteq> JNull"
  by (simp only: metadata_to_json_def json_obj_not_JNull) simp

lemma zones_lookup:
  "map_of (if zs = [] then [] else [(''zones'', JArr (map zone_to_json zs))]) k =
     (if k = ''zones'' \<and> zs \<noteq> [] then Some (JArr (map zone_to_json zs)) else None)"
  by simp

lemma metadata_roundtrip: "metadata_ok m \<Longrightarrow> metadata_of_json (metadata_to_json m) = Some m"
proof -
  assume ok: "metadata_ok m"
  have u: "decode_opt display_units_of_json (map_option display_units_to_json (m_display_units m)) = Some (m_display_units m)"
    by (intro decode_opt_ok) (simp add: display_units_roundtrip display_units_not_null)
  have z: "decode_vec zone_of_json (JArr (map zone_to_json (m_zones m))) = Some (m_zones m)"
    using ok decode_list_map [of "m_zones m" zone_of_json zone_to_json]
    by (simp add: decode_vec_def metadata_ok_def list_all_iff zone_roundtrip)
  show ?thesis
    using ok u z
    by (cases "m_zones m = []")
       (simp_all add: metadata_of_json_def metadata_to_json_def struct_json_obj opt_field_lookup metadata_ok_def decode_opt_f64
         del: map_of_append)
qed

text \<open>The listing of a map in the order of its keys, in which JSON has it.\<close>

definition by_key :: "'a hmap \<Rightarrow> 'a hmap" where
  "by_key m = fold (\<lambda>(k, x). om_insert k x) m []"

lemma fold_om_insert_ok: "om_ok m \<Longrightarrow> om_ok (fold (\<lambda>(k, x). om_insert k x) kvs m)"
  by (induction kvs arbitrary: m) auto

lemma map_of_by_key: "hm_ok m \<Longrightarrow> map_of (by_key m) = map_of m"
  by (simp add: by_key_def map_of_fold_om_insert map_of_rev_distinct)

lemma om_insert_map:
  "map (\<lambda>(k, x). (k, f x)) (om_insert k v m) = om_insert k (f v) (map (\<lambda>(k, x). (k, f x)) m)"
  by (induction k v m rule: om_insert.induct) auto

lemma map_to_json_by_key: "map_to_json e m = JObj (map (\<lambda>(k, x). (k, e x)) (by_key m))"
proof -
  have "map (\<lambda>(k, x). (k, e x)) (fold (\<lambda>(k, x). om_insert k x) m m0)
      = fold (\<lambda>(k, x). om_insert k x) (map (\<lambda>(k, x). (k, e x)) m) (map (\<lambda>(k, x). (k, e x)) m0)" for m0
    by (induction m arbitrary: m0) (auto simp: om_insert_map)
  from this [of "[]"] show ?thesis by (simp add: map_to_json_def json_obj_def by_key_def)
qed

lemma map_to_json_not_null [simp]: "map_to_json e m \<noteq> JNull"
  by (simp add: map_to_json_def)

lemma decode_entries_map:
  "\<forall>x\<in>snd ` set m. d (e x) = Some (g x) \<Longrightarrow>
     decode_entries d (map (\<lambda>(k, x). (k, e x)) m) = Some (map (\<lambda>(k, x). (k, g x)) m)"
  by (induction m) auto

lemma decode_map_roundtrip:
  assumes "\<And>x. x \<in> snd ` set (by_key m) \<Longrightarrow> d (e x) = Some (g x)"
  shows "decode_map d (map_to_json e m) = Some (map (\<lambda>(k, x). (k, g x)) (by_key m))"
  using assms by (simp add: decode_map_def map_to_json_by_key decode_entries_map)

lemma decode_map_same:
  assumes "\<And>x. d (e x) = Some x"
  shows "decode_map d (map_to_json e m) = Some (by_key m)"
  using decode_map_roundtrip [of m d e "\<lambda>x. x"] assms by simp

definition value_ok :: "signalk_value \<Rightarrow> bool" where
  "value_ok v \<longleftrightarrow> (case sk_meta v of None \<Rightarrow> True | Some m \<Rightarrow> metadata_ok m)"

definition listed :: "signalk_value \<Rightarrow> signalk_value" where
  "listed v = v\<lparr>sk_values := map_option by_key (sk_values v)\<rparr>"

lemma value_roundtrip:
  assumes "\<And>t. tp (ts t) = Some t" and "value_ok v"
  shows "signalk_value_of_json tp (signalk_value_to_json ts v) = Some (listed v)"
proof -
  have sv: "source_value_of_json tp (source_value_to_json ts x) = Some x" for x
    by (simp add: source_value_of_json_def source_value_to_json_def struct_json_obj time_of_json_def assms(1))
  have m: "decode_opt metadata_of_json (map_option metadata_to_json (sk_meta v)) = Some (sk_meta v)"
    using assms(2) by (intro decode_opt_ok) (simp add: value_ok_def metadata_roundtrip metadata_not_null)
  have vs: "decode_opt (decode_map (source_value_of_json tp)) (map_option (map_to_json (source_value_to_json ts)) (sk_values v))
      = Some (map_option by_key (sk_values v))"
    by (cases "sk_values v") (simp_all add: decode_map_same [OF sv])
  show ?thesis
    using m vs by (simp add: signalk_value_of_json_def signalk_value_to_json_def struct_json_obj opt_field_lookup
        time_of_json_def assms(1) listed_def del: map_of_append)
qed

section \<open>Looking up in the tree\<close>

lemma insert_nested_other:
  "\<not> prefix ps qs \<Longrightarrow> \<not> prefix qs ps \<Longrightarrow> jpointer ps (JObj (insert_nested qs v m)) = jpointer ps (JObj m)"
proof (induction qs v m arbitrary: ps rule: insert_nested.induct)
  case (2 k v m)
  then show ?case by (cases ps) auto
next
  case (3 k l ks v m)
  from 3(3) obtain p ps' where ps: "ps = p # ps'" by (cases ps) auto
  show ?case
  proof (cases "map_of m k")
    case None
    then show ?thesis
      using 3(1) [OF None, of ps'] 3(3,4) by (cases ps') (auto simp: ps)
  next
    case (Some x)
    then show ?thesis
      using 3(2) [of x, OF Some] 3(3,4) by (cases x) (auto simp: ps)
  qed
qed simp

text \<open>A place is free when nothing but objects stand on the way to it.\<close>

fun free_place :: "string list \<Rightarrow> json omap \<Rightarrow> bool" where
  "free_place [] m = False"
| "free_place [k] m = True"
| "free_place (k # l # ks) m =
     (case map_of m k of None \<Rightarrow> True | Some (JObj n) \<Rightarrow> free_place (l # ks) n | Some _ \<Rightarrow> False)"

lemma free_place_empty: "free_place (k # ks) []"
  by (cases ks) simp_all

lemma insert_nested_same:
  "free_place qs m \<Longrightarrow> jpointer qs (JObj (insert_nested qs v m)) = Some v"
proof (induction qs v m rule: insert_nested.induct)
  case (3 k l ks v m)
  show ?case
  proof (cases "map_of m k")
    case None
    then show ?thesis using 3(1) [OF None free_place_empty] by simp
  next
    case (Some x)
    then show ?thesis using 3(2) [of x, OF Some] 3(3) by (cases x) auto
  qed
qed simp_all

section \<open>The leaves of a tree\<close>

text \<open>The places of the leaves of an object, with what stands there.\<close>

inductive leaf_in :: "json omap \<Rightarrow> string list \<Rightarrow> json omap \<Rightarrow> bool" where
  here: "map_of m k = Some (JObj n) \<Longrightarrow> is_leaf n \<Longrightarrow> leaf_in m [k] n"
| below: "map_of m k = Some (JObj n) \<Longrightarrow> \<not> is_leaf n \<Longrightarrow> leaf_in n ps x \<Longrightarrow> leaf_in m (k # ps) x"

inductive_cases leaf_inE: "leaf_in m ps x"

lemma leaf_in_Cons:
  "leaf_in m (k # ps) x \<longleftrightarrow>
     (\<exists>n. map_of m k = Some (JObj n) \<and> (if is_leaf n then ps = [] \<and> x = n else leaf_in n ps x))"
  by (auto intro: leaf_in.intros elim: leaf_inE)

lemma leaf_in_Nil [simp]: "\<not> leaf_in m [] x" "\<not> leaf_in [] ps x"
  by (auto elim: leaf_inE)

text \<open>Apart from the names in \<open>ids\<close>, a tree holds objects only, each a leaf or a tree, and no
  place has the name of the source.\<close>

inductive tree :: "string set \<Rightarrow> json omap \<Rightarrow> bool" where
  "om_ok m \<Longrightarrow>
   (\<And>k v. map_of m k = Some v \<Longrightarrow> k \<notin> ids \<Longrightarrow> k \<noteq> ''$source'' \<and> (\<exists>n. v = JObj n \<and> (is_leaf n \<or> tree {} n))) \<Longrightarrow>
   tree ids m"

lemma treeD:
  assumes "tree ids m"
  shows "om_ok m"
    and "map_of m k = Some v \<Longrightarrow> k \<notin> ids \<Longrightarrow> k \<noteq> ''$source'' \<and> (\<exists>n. v = JObj n \<and> (is_leaf n \<or> tree {} n))"
  using assms by (auto elim: tree.cases)

lemma tree_empty [simp]: "tree ids []"
  by (rule tree.intros) simp_all

lemma tree_not_leaf: "tree {} m \<Longrightarrow> \<not> is_leaf m"
  using treeD(2) [of "{}" m "''$source''"] by (cases "map_of m ''$source''") (auto simp: is_leaf_def)

lemma tree_insert:
  "tree ids m \<Longrightarrow> k \<notin> ids \<longrightarrow> k \<noteq> ''$source'' \<and> (\<exists>n. v = JObj n \<and> (is_leaf n \<or> tree {} n)) \<Longrightarrow>
     tree ids (om_insert k v m)"
  by (rule tree.intros) (auto dest: treeD split: if_splits)

lemma leaf_in_om_insert:
  "leaf_in (om_insert k v m) ps x \<longleftrightarrow>
     (if ps \<noteq> [] \<and> hd ps = k
      then (\<exists>n. v = JObj n \<and> (if is_leaf n then tl ps = [] \<and> x = n else leaf_in n (tl ps) x))
      else leaf_in m ps x)"
  by (cases ps) (auto simp: leaf_in_Cons)

lemma leaf_in_object:
  "map_of m k = Some (JObj n) \<Longrightarrow> \<not> is_leaf n \<Longrightarrow> leaf_in m (k # ps) x \<longleftrightarrow> leaf_in n ps x"
  by (simp add: leaf_in_Cons)

lemma leaf_in_absent: "map_of m k = None \<Longrightarrow> \<not> leaf_in m (k # ps) x"
  by (simp add: leaf_in_Cons)

definition apart :: "string list \<Rightarrow> string list \<Rightarrow> bool" where
  "apart ps qs \<longleftrightarrow> \<not> prefix ps qs \<and> \<not> prefix qs ps"

lemma apart_Cons: "apart (k # ps) (k # qs) \<longleftrightarrow> apart ps qs"
  by (simp add: apart_def)

lemma insert_leaf:
  assumes "tree ids m" and "qs \<noteq> []" and "hd qs \<notin> ids" and "''$source'' \<notin> set qs" and "is_leaf n"
    and "\<And>ps x. leaf_in m ps x \<Longrightarrow> apart ps qs"
  shows "free_place qs m \<and> tree ids (insert_nested qs (JObj n) m)
     \<and> (\<forall>ps x. leaf_in (insert_nested qs (JObj n) m) ps x \<longleftrightarrow> (ps = qs \<and> x = n) \<or> leaf_in m ps x)"
  using assms
proof (induction qs arbitrary: ids m)
  case (Cons k ks)
  show ?case
  proof (cases ks)
    case Nil
    have "\<not> leaf_in m (k # ps) x" for ps x using Cons.prems(6) [of "k # ps" x] by (auto simp: Nil apart_def)
    then have "leaf_in (om_insert k (JObj n) m) ps x \<longleftrightarrow> (ps = [k] \<and> x = n) \<or> leaf_in m ps x" for ps x
      using Cons.prems(5) by (cases ps) (auto simp: leaf_in_om_insert)
    then show ?thesis using Cons.prems by (auto simp: Nil intro!: tree_insert)
  next
    case (Cons l ks')
    have ks: "ks \<noteq> []" "hd ks \<notin> {}" "''$source'' \<notin> set ks" using Cons Cons.prems(4) by auto
    show ?thesis
    proof (cases "map_of m k")
      case None
      from Cons.IH [OF tree_empty ks Cons.prems(5)]
      have IH: "tree {} (insert_nested ks (JObj n) [])"
        "\<And>ps x. leaf_in (insert_nested ks (JObj n) []) ps x \<longleftrightarrow> ps = ks \<and> x = n" by auto
      have "leaf_in (om_insert k (JObj (insert_nested ks (JObj n) [])) m) ps x
          \<longleftrightarrow> (ps = k # ks \<and> x = n) \<or> leaf_in m ps x" for ps x
        using leaf_in_absent [OF None] by (cases ps) (auto simp: leaf_in_om_insert tree_not_leaf [OF IH(1)] IH(2))
      moreover have "tree ids (om_insert k (JObj (insert_nested ks (JObj n) [])) m)"
        using Cons.prems IH(1) by (intro tree_insert) auto
      ultimately show ?thesis using None by (simp add: Cons)
    next
      case (Some v)
      from treeD(2) [OF Cons.prems(1) Some] Cons.prems(3) obtain n' where v: "v = JObj n'" and n': "is_leaf n' \<or> tree {} n'" by auto
      have "\<not> is_leaf n'"
        using Cons.prems(6) [OF leaf_in.here [of m k n']] Some by (auto simp: v apart_def)
      with n' have t: "tree {} n'" by simp
      note obj = leaf_in_object [OF Some [unfolded v] tree_not_leaf [OF t]]
      have "apart ps ks" if "leaf_in n' ps x" for ps x
        using Cons.prems(6) [of "k # ps" x] that by (simp add: obj apart_Cons)
      from Cons.IH [OF t ks Cons.prems(5) this]
      have IH: "free_place ks n'" "tree {} (insert_nested ks (JObj n) n')"
        "\<And>ps x. leaf_in (insert_nested ks (JObj n) n') ps x \<longleftrightarrow> (ps = ks \<and> x = n) \<or> leaf_in n' ps x" by auto
      have "leaf_in (om_insert k (JObj (insert_nested ks (JObj n) n')) m) ps x
          \<longleftrightarrow> (ps = k # ks \<and> x = n) \<or> leaf_in m ps x" for ps x
        by (cases ps) (auto simp: leaf_in_om_insert tree_not_leaf [OF IH(2)] IH(3) obj)
      moreover have "tree ids (om_insert k (JObj (insert_nested ks (JObj n) n')) m)"
        using Cons.prems IH(2) by (intro tree_insert) auto
      ultimately show ?thesis using Some IH(1) by (simp add: Cons v)
    qed
  qed
qed simp

lemma leaf_in_jpointer: "leaf_in m ps x \<Longrightarrow> jpointer ps (JObj m) = Some (JObj x)"
  by (induction rule: leaf_in.induct) simp_all

section \<open>Reading a tree\<close>

definition leaf_at :: "json \<Rightarrow> string list \<Rightarrow> json omap \<Rightarrow> bool" where
  "leaf_at v ps x \<longleftrightarrow> (\<exists>n. v = JObj n \<and> (if is_leaf n then ps = [] \<and> x = n else leaf_in n ps x))"

lemma leaf_in_Cons_at: "leaf_in m (k # ps) x \<longleftrightarrow> (\<exists>v. map_of m k = Some v \<and> leaf_at v ps x)"
  by (auto simp: leaf_in_Cons leaf_at_def)

lemma leaf_in_entry:
  "k \<notin> fst ` set m \<Longrightarrow> leaf_in ((k, v) # m) ps x \<longleftrightarrow> (\<exists>qs. ps = k # qs \<and> leaf_at v qs x) \<or> leaf_in m ps x"
  by (cases ps) (auto simp: leaf_in_Cons_at dest: map_of_SomeD intro: rev_image_eqI)

lemma tree_tail: "tree ids ((k, v) # m) \<Longrightarrow> tree ids m \<and> k \<notin> fst ` set m"
proof -
  assume t: "tree ids ((k, v) # m)"
  then have ok: "om_ok ((k, v) # m)" by (rule treeD)
  then have k: "k \<notin> fst ` set m" using om_ok_distinct [OF ok] by simp
  have "om_ok m" using ok by (simp add: om_ok_def)
  have sub: "map_of ((k, v) # m) k' = Some v'" if "map_of m k' = Some v'" for k' v'
    using that k by (auto dest: map_of_SomeD intro: rev_image_eqI)
  have "tree ids m"
    by (rule tree.intros [OF \<open>om_ok m\<close>]) (rule treeD(2) [OF t sub])
  with k show ?thesis by simp
qed

text \<open>Reading puts what \<open>M\<close> has for the paths of the leaves over what was there before.\<close>

definition overlaid :: "(string \<Rightarrow> bool) \<Rightarrow> (string \<Rightarrow> 'a option) \<Rightarrow> 'a hmap \<Rightarrow> 'a hmap \<Rightarrow> bool" where
  "overlaid P M acc acc' \<longleftrightarrow> (\<forall>p. map_of acc' p = (if P p then M p else map_of acc p))"

lemma overlaid_trans: "overlaid P M a b \<Longrightarrow> overlaid Q M b c \<Longrightarrow> overlaid (\<lambda>p. P p \<or> Q p) M a c"
  by (auto simp: overlaid_def)

lemma overlaid_refl: "overlaid (\<lambda>p. False) M a a"
  by (simp add: overlaid_def)

lemma flatten_overlays:
  "(\<And>n. v = JObj n \<Longrightarrow> is_leaf n \<or> tree {} n) \<Longrightarrow>
   (\<And>ps x. leaf_at v ps x \<Longrightarrow> \<exists>y. signalk_value_of_json tp (JObj x) = Some y \<and> M (foldl child_prefix pre ps) = Some y) \<Longrightarrow>
   \<exists>acc'. flatten_into tp pre v acc = Some acc'
     \<and> overlaid (\<lambda>p. \<exists>ps x. leaf_at v ps x \<and> p = foldl child_prefix pre ps) M acc acc'"
  and "tree {} m \<Longrightarrow>
   (\<And>ps x. leaf_in m ps x \<Longrightarrow> \<exists>y. signalk_value_of_json tp (JObj x) = Some y \<and> M (foldl child_prefix pre ps) = Some y) \<Longrightarrow>
   \<exists>acc'. flatten_entries tp pre m acc = Some acc'
     \<and> overlaid (\<lambda>p. \<exists>ps x. leaf_in m ps x \<and> p = foldl child_prefix pre ps) M acc acc'"
proof (induction tp pre v acc and tp pre m acc rule: flatten_into_flatten_entries.induct)
  case (1 tp pre m acc)
  show ?case
  proof (cases "is_leaf m")
    case True
    with 1(3) [of "[]" m] obtain y where "signalk_value_of_json tp (JObj m) = Some y" "M pre = Some y"
      by (auto simp: leaf_at_def)
    with True show ?thesis by (auto simp: overlaid_def leaf_at_def)
  next
    case False
    then have at: "leaf_at (JObj m) ps x \<longleftrightarrow> leaf_in m ps x" for ps x by (simp add: leaf_at_def)
    have "tree {} m" using 1(2) False by simp
    from 1(1) [OF False this] 1(3) False show ?thesis by (simp add: at)
  qed
next
  case (8 tp pre k v m acc)
  have t: "tree {} m" and k: "k \<notin> fst ` set m" using tree_tail [OF 8(3)] by auto
  note entry = leaf_in_entry [OF k, of v]
  have v: "\<exists>n. v = JObj n \<and> (is_leaf n \<or> tree {} n)" using treeD(2) [OF 8(3), of k v] by auto
  have "\<exists>y. signalk_value_of_json tp (JObj x) = Some y \<and> M (foldl child_prefix (child_prefix pre k) ps) = Some y"
    if "leaf_at v ps x" for ps x using 8(4) [of "k # ps" x] that by (auto simp: entry)
  with 8(1) v obtain acc1 where f: "flatten_into tp (child_prefix pre k) v acc = Some acc1"
    and o1: "overlaid (\<lambda>p. \<exists>ps x. leaf_at v ps x \<and> p = foldl child_prefix (child_prefix pre k) ps) M acc acc1" by blast
  have "\<exists>y. signalk_value_of_json tp (JObj x) = Some y \<and> M (foldl child_prefix pre ps) = Some y"
    if "leaf_in m ps x" for ps x using 8(4) [of ps x] that by (auto simp: entry)
  from 8(2) [OF f t this] obtain acc2 where e: "flatten_entries tp pre m acc1 = Some acc2"
    and o2: "overlaid (\<lambda>p. \<exists>ps x. leaf_in m ps x \<and> p = foldl child_prefix pre ps) M acc1 acc2" by blast
  have "(\<exists>ps x. leaf_in ((k, v) # m) ps x \<and> p = foldl child_prefix pre ps) \<longleftrightarrow>
     (\<exists>ps x. leaf_at v ps x \<and> p = foldl child_prefix (child_prefix pre k) ps)
     \<or> (\<exists>ps x. leaf_in m ps x \<and> p = foldl child_prefix pre ps)" for p
    by (auto simp: entry) (metis foldl_Cons)
  then show ?case using overlaid_trans [OF o1 o2] f e by simp
qed (auto simp: leaf_at_def overlaid_refl)

definition id_names :: "string set" where
  "id_names = {''uuid'', ''name'', ''mmsi''}"

definition read_text :: "json omap \<Rightarrow> string \<Rightarrow> string option \<Rightarrow> string option" where
  "read_text m k old = (case map_of m k of None \<Rightarrow> old | Some v \<Rightarrow> as_str v)"

lemma read_fields_overlays:
  assumes "tree id_names m"
    and "\<And>k ps x. k \<notin> id_names \<Longrightarrow> leaf_in m (k # ps) x \<Longrightarrow>
      \<exists>y. signalk_value_of_json tp (JObj x) = Some y \<and> M (foldl child_prefix k ps) = Some y"
  shows "\<exists>w'. read_fields tp m w = Some w' \<and> v_uuid w' = read_text m ''uuid'' (v_uuid w)
     \<and> v_name w' = read_text m ''name'' (v_name w) \<and> v_mmsi w' = read_text m ''mmsi'' (v_mmsi w)
     \<and> overlaid (\<lambda>p. \<exists>k ps x. k \<notin> id_names \<and> leaf_in m (k # ps) x \<and> p = foldl child_prefix k ps) M (v_values w) (v_values w')"
  using assms
proof (induction m arbitrary: w rule: list.induct)
  case Nil
  then show ?case by (auto simp: read_text_def overlaid_refl)
next
  case (Cons e m)
  obtain k v where e: "e = (k, v)" by (cases e)
  have t: "tree id_names m" and k: "k \<notin> fst ` set m" using tree_tail [of id_names k v m] Cons.prems(1) by (auto simp: e)
  have sub: "\<exists>y. signalk_value_of_json tp (JObj x) = Some y \<and> M (foldl child_prefix k' ps) = Some y"
    if "k' \<notin> id_names" "leaf_in m (k' # ps) x" for k' ps x
    using Cons.prems(2) [of k' ps x] that by (auto simp: e leaf_in_entry [OF k])
  have none: "map_of m k = None" using k by (simp add: map_of_eq_None_iff)
  note IH = Cons.IH [OF t sub]
  show ?case
  proof (cases "k \<in> id_names")
    case True
    then have same: "(\<exists>k' ps x. k' \<notin> id_names \<and> leaf_in (e # m) (k' # ps) x \<and> p = foldl child_prefix k' ps)
        \<longleftrightarrow> (\<exists>k' ps x. k' \<notin> id_names \<and> leaf_in m (k' # ps) x \<and> p = foldl child_prefix k' ps)" for p
      by (auto simp: e leaf_in_entry [OF k])
    from True consider "k = ''uuid''" | "k = ''name''" | "k = ''mmsi''" by (auto simp: id_names_def)
    then show ?thesis
    proof cases
      case 1
      then show ?thesis using IH [of "w\<lparr>v_uuid := as_str v\<rparr>"] none unfolding same by (auto simp: e read_text_def)
    next
      case 2
      then show ?thesis using IH [of "w\<lparr>v_name := as_str v\<rparr>"] none unfolding same by (auto simp: e read_text_def)
    next
      case 3
      then show ?thesis using IH [of "w\<lparr>v_mmsi := as_str v\<rparr>"] none unfolding same by (auto simp: e read_text_def)
    qed
  next
    case False
    have obj: "v = JObj n \<Longrightarrow> is_leaf n \<or> tree {} n" for n
      using treeD(2) [OF Cons.prems(1), of k v] False by (auto simp: e)
    have "\<exists>y. signalk_value_of_json tp (JObj x) = Some y \<and> M (foldl child_prefix k ps) = Some y"
      if "leaf_at v ps x" for ps x
      using Cons.prems(2) [OF False, of ps x] that by (auto simp: e leaf_in_entry [OF k])
    from flatten_overlays(1) [of v tp M k "v_values w", OF obj this] obtain vs where f: "flatten_into tp k v (v_values w) = Some vs"
      and o1: "overlaid (\<lambda>p. \<exists>ps x. leaf_at v ps x \<and> p = foldl child_prefix k ps) M (v_values w) vs" by blast
    from IH [of "w\<lparr>v_values := vs\<rparr>"] obtain w' where r: "read_fields tp m (w\<lparr>v_values := vs\<rparr>) = Some w'"
      and ids: "v_uuid w' = read_text m ''uuid'' (v_uuid w)" "v_name w' = read_text m ''name'' (v_name w)"
        "v_mmsi w' = read_text m ''mmsi'' (v_mmsi w)"
      and o2: "overlaid (\<lambda>p. \<exists>k ps x. k \<notin> id_names \<and> leaf_in m (k # ps) x \<and> p = foldl child_prefix k ps) M vs (v_values w')"
      by auto
    have "(\<exists>k' ps x. k' \<notin> id_names \<and> leaf_in (e # m) (k' # ps) x \<and> p = foldl child_prefix k' ps)
        \<longleftrightarrow> (\<exists>ps x. leaf_at v ps x \<and> p = foldl child_prefix k ps)
           \<or> (\<exists>k' ps x. k' \<notin> id_names \<and> leaf_in m (k' # ps) x \<and> p = foldl child_prefix k' ps)" for p
      unfolding e leaf_in_entry [OF k] list.inject using False by blast
    then have "overlaid (\<lambda>p. \<exists>k' ps x. k' \<notin> id_names \<and> leaf_in (e # m) (k' # ps) x \<and> p = foldl child_prefix k' ps)
        M (v_values w) (v_values w')" using overlaid_trans [OF o1 o2] by simp
    moreover have "k \<noteq> ''uuid''" "k \<noteq> ''name''" "k \<noteq> ''mmsi''" using False by (auto simp: id_names_def)
    ultimately show ?thesis using f r ids by (auto simp: e read_text_def)
  qed
qed

section \<open>The round trip\<close>

text \<open>The paths whose tree can be read back: none is below another, no first part is empty or the
  name of an identity field, and no part is \<open>$source\<close>.\<close>

definition readable :: "string list \<Rightarrow> bool" where
  "readable paths \<longleftrightarrow> distinct paths
     \<and> list_all (\<lambda>p. hd (path_split p) \<notin> {'''', ''uuid'', ''name'', ''mmsi''} \<and> ''$source'' \<notin> set (path_split p)) paths
     \<and> list_all (\<lambda>p. list_all (\<lambda>q. p = q \<or> \<not> prefix (path_split p) (path_split q)) paths) paths"

lemma readable_Cons: "readable (p # ps) \<Longrightarrow> readable ps"
  by (auto simp: readable_def list_all_iff)

lemma readableD:
  assumes "readable paths" and "p \<in> set paths"
  shows "hd (path_split p) \<notin> id_names" "hd (path_split p) \<noteq> []" "''$source'' \<notin> set (path_split p)"
    and "q \<in> set paths \<Longrightarrow> q \<noteq> p \<Longrightarrow> apart (path_split p) (path_split q)"
  using assms by (auto simp: readable_def list_all_iff id_names_def apart_def)

lemma path_split_not_empty [simp]: "path_split p \<noteq> []"
  by (simp add: path_split_def)

lemma value_leaf: "\<exists>n. signalk_value_to_json ts v = JObj n \<and> is_leaf n"
proof -
  obtain n where n: "signalk_value_to_json ts v = JObj n" by (simp add: signalk_value_to_json_def json_obj_def)
  have "map_of n k = jget k (signalk_value_to_json ts v)" for k by (simp add: n)
  then have "is_leaf n" by (simp add: is_leaf_def signalk_value_to_json_def jget_json_obj opt_field_lookup del: map_of_append)
  with n show ?thesis by simp
qed

lemma identity_tree: "tree id_names (identity_fields v)" "\<not> leaf_in (identity_fields v) ps x"
proof -
  have "\<exists>s. x = JStr s \<and> k \<in> id_names" if "map_of (identity_fields v) k = Some x" for k x
    using that by (auto simp: identity_fields_def map_of_fold_om_insert opt_field_lookup id_names_def split: if_splits
        simp del: map_of_append)
  note only = this
  have "om_ok (identity_fields v)"
    by (simp add: identity_fields_def fold_om_insert_ok)
  then show "tree id_names (identity_fields v)"
    by (rule tree.intros) (use only in blast)
  show "\<not> leaf_in (identity_fields v) ps x"
  proof
    assume "leaf_in (identity_fields v) ps x"
    then obtain k n where "map_of (identity_fields v) k = Some (JObj n)" by (rule leaf_inE) auto
    from only [OF this] show False by simp
  qed
qed

lemma identity_lookup:
  "map_of (identity_fields v) ''uuid'' = map_option JStr (v_uuid v)"
  "map_of (identity_fields v) ''name'' = map_option JStr (v_name v)"
  "map_of (identity_fields v) ''mmsi'' = map_option JStr (v_mmsi v)"
  by (simp_all add: identity_fields_def map_of_fold_om_insert opt_field_lookup map_add_def
      split: option.split del: map_of_append)

lemma fold_values:
  assumes "readable (map fst vs @ done)" and "tree id_names m"
    and "\<And>ps x. leaf_in m ps x \<Longrightarrow> \<exists>p\<in>set done. ps = path_split p"
  shows "tree id_names (fold (insert_value ts) vs m)
    \<and> (\<forall>ps x. leaf_in (fold (insert_value ts) vs m) ps x \<longleftrightarrow>
         (\<exists>(p, v)\<in>set vs. ps = path_split p \<and> signalk_value_to_json ts v = JObj x) \<or> leaf_in m ps x)"
  using assms
proof (induction vs arbitrary: m "done")
  case (Cons a vs)
  obtain p v where a: "a = (p, v)" by (cases a)
  obtain n where n: "signalk_value_to_json ts v = JObj n" "is_leaf n" using value_leaf by blast
  note rd = readableD [OF Cons.prems(1), of p]
  have "apart ps (path_split p)" if l: "leaf_in m ps x" for ps x
  proof -
    obtain q where q: "q \<in> set done" "ps = path_split q" using Cons.prems(3) [OF l] by blast
    have "q \<noteq> p" using Cons.prems(1) q(1) by (auto simp: readable_def a)
    then show ?thesis using rd(4) [of q] q by (auto simp: a apart_def)
  qed
  from insert_leaf [OF Cons.prems(2) _ rd(1,3) n(2) this]
  have ins: "tree id_names (insert_value ts a m)"
    "\<And>ps x. leaf_in (insert_value ts a m) ps x \<longleftrightarrow> (ps = path_split p \<and> x = n) \<or> leaf_in m ps x"
    by (simp_all add: a insert_value_def n(1))
  have "readable (map fst vs @ p # done)"
    using Cons.prems(1) by (auto simp: readable_def list_all_iff a)
  from Cons.IH [OF this ins(1)] Cons.prems(3) ins(2) n(1) show ?case by (auto simp: a)
qed simp

lemma foldl_child_prefix: "pre \<noteq> [] \<Longrightarrow> foldl child_prefix pre ps = path_join (pre # ps)"
proof (induction ps arbitrary: pre)
  case (Cons p ps)
  have "path_join (pre # p # ps) = path_join ((pre @ ''.'' @ p) # ps)"
    by (cases ps) (simp_all add: path_join_def)
  with Cons show ?case by (simp add: child_prefix_def)
qed (simp add: path_join_def)

lemma leaf_in_vessel:
  assumes "readable (map fst (v_values v))" and "vessel_to_json ts v = JObj m"
  shows "tree id_names m"
    and "leaf_in m ps x \<longleftrightarrow> (\<exists>(p, sv)\<in>set (v_values v). ps = path_split p \<and> signalk_value_to_json ts sv = JObj x)"
  using fold_values [of "v_values v" "[]" "identity_fields v" ts] assms identity_tree
  by (simp_all add: vessel_to_json_def)

lemma jpointer_single: "jpointer [k] (JObj m) = map_of m k"
  by (cases "map_of m k") simp_all

lemma fold_values_identity:
  "\<forall>p\<in>fst ` set vs. hd (path_split p) \<notin> id_names \<Longrightarrow> k \<in> id_names \<Longrightarrow>
     map_of (fold (insert_value ts) vs m) k = map_of m k"
proof (induction vs arbitrary: m)
  case (Cons a vs)
  obtain p v where a: "a = (p, v)" by (cases a)
  obtain q qs where q: "path_split p = q # qs" by (cases "path_split p") auto
  have "q \<noteq> k" using Cons.prems by (auto simp: a q)
  then have "jpointer [k] (JObj (insert_nested (path_split p) (signalk_value_to_json ts v) m)) = jpointer [k] (JObj m)"
    by (intro insert_nested_other) (auto simp: q)
  then have "map_of (insert_value ts a m) k = map_of m k" by (simp only: jpointer_single a insert_value_def prod.case)
  with Cons show ?case by simp
qed simp


section \<open>What the tree does not keep\<close>

text \<open>A value below another one is written into the object of the other: here the state of an engine
  turns into an object, and reading the model back loses the second value.\<close>

definition demo_time :: "datetime \<Rightarrow> string" where
  "demo_time t = (if 0 \<le> t then CHR ''+'' else CHR ''-'') # replicate (nat \<bar>t\<bar>) CHR ''1''"

definition demo_parse_time :: "string \<Rightarrow> datetime option" where
  "demo_parse_time s = (case s of [] \<Rightarrow> None
     | c # r \<Rightarrow> Some (if c = CHR ''+'' then int (length r) else - int (length r)))"

lemma demo_time_roundtrip [simp]: "demo_parse_time (demo_time t) = Some t"
  by (simp add: demo_time_def demo_parse_time_def)

definition demo_values :: "string list \<Rightarrow> signalk_value hmap" where
  "demo_values paths = map (\<lambda>p. (p, signalk_value_new (JStr p) ''engine'' 0)) paths"

definition demo_vessel :: "string list \<Rightarrow> vessel_data" where
  "demo_vessel paths = \<lparr>v_uuid = None, v_name = Some ''Ada'', v_mmsi = None, v_values = demo_values paths\<rparr>"

theorem nested_value_is_lost:
  "map_option (\<lambda>w. map fst (v_values w))
     (vessel_of_json demo_parse_time (vessel_to_json demo_time (demo_vessel [''a.state'', ''a.state.value'']))) = Some [''a.state'']"
  "jpointer [''a'', ''state'', ''value''] (vessel_to_json demo_time (demo_vessel [''a.state'', ''a.state.value'']))
     \<noteq> Some (JStr ''a.state'')"
  by code_simp+


end
