(* ===== verification/Files.thy ===== *)
theory Files
  imports Resources
begin

text \<open>
  What the handlers share: replies of the HTTP server, and the files they read and write. A file is
  its absolute path, as the list of its components, with its contents. \<open>join_path\<close> is
  \<^verbatim>\<open>Path::join\<close> followed by the resolution that opening a file does, on a file system without
  symbolic links whose directories are there: an absolute text replaces the path, \<^verbatim>\<open>..\<close> leaves a
  directory. Writing does not fail. The text of a JSON value is that of \<^verbatim>\<open>serde_json\<close> and an
  argument, printing as \<open>print\<close> and reading as \<open>parse\<close>.
\<close>

datatype reply =
    Reply nat json
  | Plain nat string
  | Empty nat

definition message_reply :: "nat \<Rightarrow> string \<Rightarrow> reply" where
  "message_reply status msg = Reply status (json_obj [(''message'', JStr msg)])"

definition completed_reply :: reply where
  "completed_reply = Reply 200 (json_obj [(''state'', JStr ''COMPLETED''), (''statusCode'', JNum (PosInt 200))])"

text \<open>The text of a plugin error, as its \<^verbatim>\<open>Display\<close> gives it.\<close>

fun plugin_error_text :: "plugin_error \<Rightarrow> string" where
  "plugin_error_text (Config m) = ''invalid configuration: '' @ m"
| "plugin_error_text (Io m) = ''I/O error: '' @ m"
| "plugin_error_text (Json_err m) = ''JSON error: '' @ m"
| "plugin_error_text (Runtime m) = ''runtime error: '' @ m"
| "plugin_error_text (InvalidState m) = ''invalid state: '' @ m"
| "plugin_error_text (Registration m) = ''registration rejected: '' @ m"
| "plugin_error_text (NotFound m) = ''not found: '' @ m"
| "plugin_error_text (BadRequest m) = ''bad request: '' @ m"
| "plugin_error_text (Other m) = m"

fun enter :: "string \<Rightarrow> file_path \<Rightarrow> file_path" where
  "enter c p = (if c = [] \<or> c = ''.'' then p else if c = ''..'' then butlast p else p @ [c])"

definition join_path :: "file_path \<Rightarrow> string \<Rightarrow> file_path" where
  "join_path p s = fold enter (split_on CHR ''/'' s) (if starts_with s ''/'' then [] else p)"

lemma join_path_name:
  "CHR ''/'' \<notin> set s \<Longrightarrow> join_path p s = enter s p"
  by (cases s) (auto simp: join_path_def split_on_no_sep starts_with_def simp del: enter.simps)

lemma fold_enter_names:
  "\<forall>c\<in>set cs. c \<noteq> [] \<and> c \<noteq> ''.'' \<and> c \<noteq> ''..'' \<Longrightarrow> fold enter cs p = p @ cs"
  by (induction cs arbitrary: p) auto

text \<open>The components of a file that is there: no empty ones, and neither \<^verbatim>\<open>.\<close> nor \<^verbatim>\<open>..\<close>.\<close>

definition plain_path :: "file_path \<Rightarrow> bool" where
  "plain_path p \<longleftrightarrow> list_all (\<lambda>c. c \<noteq> [] \<and> c \<noteq> ''.'' \<and> c \<noteq> ''..'' \<and> CHR ''/'' \<notin> set c) p"

lemma join_absolute:
  assumes "plain_path d"
  shows "join_path p (''/'' @ join_with ''/'' d) = d"
proof (cases "d = []")
  case False
  have "split_on CHR ''/'' (join_with [CHR ''/''] d) = d"
    using assms False by (intro split_join_on) (auto simp: plain_path_def list_all_iff)
  then have "split_on CHR ''/'' (''/'' @ join_with ''/'' d) = [] # d"
    using split_on_append_sep [of "CHR ''/''" "[]"] by simp
  moreover have "fold enter d [] = [] @ d"
    using assms by (intro fold_enter_names) (auto simp: plain_path_def list_all_iff)
  ultimately show ?thesis by (simp add: join_path_def starts_with_def)
qed (simp add: join_path_def starts_with_def)

definition write_file :: "file_path \<Rightarrow> string \<Rightarrow> disk \<Rightarrow> disk" where
  "write_file p c d = AList.update p c d"

lemma read_write_file [simp]: "map_of (write_file p c d) = (map_of d)(p \<mapsto> c)"
  by (simp add: write_file_def update_conv')

end
