(* ===== verification/UnitPrefs.thy ===== *)
theory UnitPrefs
  imports Files FullModel
begin

text \<open>
  The unit preferences of \<^verbatim>\<open>signalk-server/src/unitpreferences\<close>: the types of
  \<^verbatim>\<open>types.rs\<close> with the codecs their derive attributes give, the files of \<^verbatim>\<open>loader.rs\<close>,
  the resolution of \<^verbatim>\<open>resolver.rs\<close>, the manager of \<^verbatim>\<open>mod.rs\<close> and the handlers of
  \<^verbatim>\<open>api.rs\<close>. A struct is read from an object only; the texts of errors, which nothing looks at,
  are left out. Static files and user files are in the directories \<open>sd\<close> and \<open>dd\<close> of one disk.
\<close>

section \<open>Types\<close>

record conversion_def =
  cv_formula :: string
  cv_inverse_formula :: string
  cv_symbol :: string
  cv_long_name :: "string option"
  cv_key :: "string option"

record unit_definition =
  ud_long_name :: "string option"
  ud_conversions :: "conversion_def hmap"

type_synonym unit_definitions = "unit_definition hmap"

record categories_file =
  cf_base_units :: "string hmap"
  cf_core :: "string list"

record default_category =
  dc_si_unit :: string
  dc_paths :: "string list"

record default_categories =
  df_description :: string
  df_version :: string
  df_categories :: "default_category hmap"

type_synonym custom_categories = "string hmap"

record preset_category =
  pc_base_unit :: string
  pc_target_unit :: string
  pc_display_format :: "string option"

record preset =
  ps_version :: string
  ps_date :: string
  ps_name :: string
  ps_description :: string
  ps_categories :: "preset_category hmap"

record unit_prefs_config =
  uc_active_preset :: string

definition str_field :: "string \<Rightarrow> json \<Rightarrow> string option" where
  "str_field k v = Option.bind (jget k v) as_str"

definition conversion_to_json :: "conversion_def \<Rightarrow> json" where
  "conversion_to_json c = json_obj
     ([(''formula'', JStr (cv_formula c)), (''inverseFormula'', JStr (cv_inverse_formula c)),
       (''symbol'', JStr (cv_symbol c))] @
      opt_field ''longName'' JStr (cv_long_name c) @ opt_field ''key'' JStr (cv_key c))"

definition conversion_of_json :: "json \<Rightarrow> conversion_def option" where
  "conversion_of_json v =
     Option.bind (str_field ''formula'' v) (\<lambda>f.
     Option.bind (str_field ''inverseFormula'' v) (\<lambda>i.
     Option.bind (str_field ''symbol'' v) (\<lambda>s.
     Option.bind (decode_opt as_str (jget ''longName'' v)) (\<lambda>l.
     Option.bind (decode_opt as_str (jget ''key'' v)) (\<lambda>k.
       Some \<lparr>cv_formula = f, cv_inverse_formula = i, cv_symbol = s, cv_long_name = l, cv_key = k\<rparr>)))))"

definition unit_definition_to_json :: "unit_definition \<Rightarrow> json" where
  "unit_definition_to_json u = json_obj
     (opt_field ''longName'' JStr (ud_long_name u) @
      [(''conversions'', map_to_json conversion_to_json (ud_conversions u))])"

definition unit_definition_of_json :: "json \<Rightarrow> unit_definition option" where
  "unit_definition_of_json v =
     (if as_object v = None then None
      else Option.bind (decode_opt as_str (jget ''longName'' v)) (\<lambda>l.
           Option.bind (Option.bind (jget ''conversions'' v) (decode_map conversion_of_json)) (\<lambda>c.
             Some \<lparr>ud_long_name = l, ud_conversions = c\<rparr>)))"

definition definitions_to_json :: "unit_definitions \<Rightarrow> json" where
  "definitions_to_json = map_to_json unit_definition_to_json"

definition definitions_of_json :: "json \<Rightarrow> unit_definitions option" where
  "definitions_of_json = decode_map unit_definition_of_json"

definition categories_of_json :: "json \<Rightarrow> categories_file option" where
  "categories_of_json v =
     Option.bind (Option.bind (jget ''categoryToBaseUnit'' v) (decode_map as_str)) (\<lambda>b.
     Option.bind (Option.bind (jget ''coreCategories'' v) (decode_vec as_str)) (\<lambda>c.
       Some \<lparr>cf_base_units = b, cf_core = c\<rparr>))"

definition default_category_of_json :: "json \<Rightarrow> default_category option" where
  "default_category_of_json v =
     Option.bind (str_field ''siUnit'' v) (\<lambda>u.
     Option.bind (Option.bind (jget ''paths'' v) (decode_vec as_str)) (\<lambda>p.
       Some \<lparr>dc_si_unit = u, dc_paths = p\<rparr>))"

definition default_categories_of_json :: "json \<Rightarrow> default_categories option" where
  "default_categories_of_json v =
     Option.bind (str_field ''description'' v) (\<lambda>d.
     Option.bind (str_field ''version'' v) (\<lambda>ver.
     Option.bind (Option.bind (jget ''categories'' v) (decode_map default_category_of_json)) (\<lambda>c.
       Some \<lparr>df_description = d, df_version = ver, df_categories = c\<rparr>)))"

definition custom_categories_to_json :: "custom_categories \<Rightarrow> json" where
  "custom_categories_to_json = map_to_json JStr"

definition custom_categories_of_json :: "json \<Rightarrow> custom_categories option" where
  "custom_categories_of_json = decode_map as_str"

definition preset_category_to_json :: "preset_category \<Rightarrow> json" where
  "preset_category_to_json c = json_obj
     ([(''baseUnit'', JStr (pc_base_unit c)), (''targetUnit'', JStr (pc_target_unit c))] @
      opt_field ''displayFormat'' JStr (pc_display_format c))"

definition preset_category_of_json :: "json \<Rightarrow> preset_category option" where
  "preset_category_of_json v =
     Option.bind (str_field ''baseUnit'' v) (\<lambda>b.
     Option.bind (str_field ''targetUnit'' v) (\<lambda>t.
     Option.bind (decode_opt as_str (jget ''displayFormat'' v)) (\<lambda>d.
       Some \<lparr>pc_base_unit = b, pc_target_unit = t, pc_display_format = d\<rparr>)))"

definition preset_to_json :: "preset \<Rightarrow> json" where
  "preset_to_json p = json_obj
     [(''version'', JStr (ps_version p)), (''date'', JStr (ps_date p)), (''name'', JStr (ps_name p)),
      (''description'', JStr (ps_description p)), (''categories'', map_to_json preset_category_to_json (ps_categories p))]"

definition preset_of_json :: "json \<Rightarrow> preset option" where
  "preset_of_json v =
     Option.bind (str_field ''version'' v) (\<lambda>ver.
     Option.bind (str_field ''date'' v) (\<lambda>d.
     Option.bind (str_field ''name'' v) (\<lambda>n.
     Option.bind (str_field ''description'' v) (\<lambda>de.
     Option.bind (Option.bind (jget ''categories'' v) (decode_map preset_category_of_json)) (\<lambda>c.
       Some \<lparr>ps_version = ver, ps_date = d, ps_name = n, ps_description = de, ps_categories = c\<rparr>)))))"

definition config_to_json :: "unit_prefs_config \<Rightarrow> json" where
  "config_to_json c = json_obj [(''activePreset'', JStr (uc_active_preset c))]"

definition config_of_json :: "json \<Rightarrow> unit_prefs_config option" where
  "config_of_json v = Option.bind (str_field ''activePreset'' v) (\<lambda>a. Some \<lparr>uc_active_preset = a\<rparr>)"

section \<open>Resolution\<close>

definition matches_wildcard :: "string \<Rightarrow> string \<Rightarrow> bool" where
  "matches_wildcard pattern path \<longleftrightarrow>
     (let ps = path_split pattern; qs = path_split path
      in length ps = length qs \<and> list_all (\<lambda>(p, s). p = ''*'' \<or> p = s) (zip ps qs))"

definition find_category :: "(string \<Rightarrow> bool) \<Rightarrow> default_categories \<Rightarrow> string option" where
  "find_category hit cats = map_option fst (List.find (\<lambda>(_, e). list_ex hit (dc_paths e)) (df_categories cats))"

definition resolve_category :: "string \<Rightarrow> default_categories \<Rightarrow> custom_categories \<Rightarrow> string option" where
  "resolve_category path defaults customs =
     or_else (map_of customs path)
       (or_else (find_category (\<lambda>pattern. pattern = path) defaults)
                (find_category (\<lambda>pattern. CHR ''*'' \<in> set pattern \<and> matches_wildcard pattern path) defaults))"

definition conversion_for :: "unit_definition \<Rightarrow> string \<Rightarrow> string \<Rightarrow> conversion_def option" where
  "conversion_for u base target =
     (case map_of (ud_conversions u) target of
        Some c \<Rightarrow> Some c
      | None \<Rightarrow>
          if target = base
          then Some \<lparr>cv_formula = ''value * 1'', cv_inverse_formula = ''value * 1'', cv_symbol = base,
                     cv_long_name = ud_long_name u, cv_key = None\<rparr>
          else None)"

definition resolve_display_units :: "string \<Rightarrow> default_categories \<Rightarrow> custom_categories \<Rightarrow> categories_file
    \<Rightarrow> preset \<Rightarrow> unit_definitions \<Rightarrow> display_units option" where
  "resolve_display_units path defaults customs cats active defs =
     Option.bind (resolve_category path defaults customs) (\<lambda>category.
     Option.bind (map_of (cf_base_units cats) category) (\<lambda>base.
     Option.bind (map_of (ps_categories active) category) (\<lambda>pc.
     Option.bind (map_of defs base) (\<lambda>u.
     Option.bind (conversion_for u base (pc_target_unit pc)) (\<lambda>c.
       Some \<lparr>du_category = category, du_target_unit = pc_target_unit pc, du_formula = cv_formula c,
             du_inverse_formula = cv_inverse_formula c, du_symbol = cv_symbol c,
             du_display_format = pc_display_format pc\<rparr>)))))"

definition resolve_base_unit :: "string \<Rightarrow> default_categories \<Rightarrow> custom_categories \<Rightarrow> categories_file \<Rightarrow> string option" where
  "resolve_base_unit path defaults customs cats =
     Option.bind (resolve_category path defaults customs) (map_of (cf_base_units cats))"

text \<open>The entries that one category adds to the result of \<^verbatim>\<open>resolve_all\<close>.\<close>

definition resolve_category_paths :: "(string \<Rightarrow> display_units option) \<Rightarrow> custom_categories
    \<Rightarrow> string \<times> default_category \<Rightarrow> display_units hmap \<Rightarrow> display_units hmap" where
  "resolve_category_paths resolve customs = (\<lambda>(category, e) m.
     fold (\<lambda>p m. case resolve p of Some u \<Rightarrow> hm_insert p u m | None \<Rightarrow> m)
       (filter (\<lambda>p. CHR ''*'' \<notin> set p) (dc_paths e) @ map fst (filter (\<lambda>(_, c). c = category) customs)) m)"

definition resolve_all :: "default_categories \<Rightarrow> custom_categories \<Rightarrow> categories_file \<Rightarrow> preset
    \<Rightarrow> unit_definitions \<Rightarrow> display_units hmap" where
  "resolve_all defaults customs cats active defs =
     fold (resolve_category_paths (\<lambda>p. resolve_display_units p defaults customs cats active defs) customs)
       (df_categories defaults) []"

section \<open>Files\<close>

definition load_json :: "(string \<Rightarrow> json option) \<Rightarrow> (json \<Rightarrow> 'a option) \<Rightarrow> disk \<Rightarrow> file_path \<Rightarrow> 'a option" where
  "load_json parse dec d p = Option.bind (Option.bind (map_of d p) parse) dec"

definition preset_path :: "file_path \<Rightarrow> string \<Rightarrow> file_path" where
  "preset_path dir name = join_path dir (''presets/'' @ name @ ''.json'')"

definition merge_definition :: "string \<times> unit_definition \<Rightarrow> unit_definitions \<Rightarrow> unit_definitions" where
  "merge_definition = (\<lambda>(base, u) defs.
     (let entry = unwrap_or (map_of defs base) \<lparr>ud_long_name = ud_long_name u, ud_conversions = []\<rparr>
      in hm_insert base (entry\<lparr>ud_conversions := fold (\<lambda>(t, c). hm_insert t c) (ud_conversions u) (ud_conversions entry)\<rparr>) defs))"

definition load_definitions :: "(string \<Rightarrow> json option) \<Rightarrow> file_path \<Rightarrow> file_path \<Rightarrow> disk \<Rightarrow> unit_definitions option" where
  "load_definitions parse sd dd d =
     Option.bind (load_json parse definitions_of_json d (join_path sd ''standard-units-definitions.json'')) (\<lambda>defs.
       (let p = join_path dd ''custom-units-definitions.json''
        in if map_of d p = None then Some defs
           else map_option (\<lambda>custom. fold merge_definition custom defs) (load_json parse definitions_of_json d p)))"

definition load_custom_categories :: "(string \<Rightarrow> json option) \<Rightarrow> file_path \<Rightarrow> disk \<Rightarrow> custom_categories" where
  "load_custom_categories parse dd d =
     unwrap_or (load_json parse custom_categories_of_json d (join_path dd ''custom-categories.json'')) []"

definition load_config :: "(string \<Rightarrow> json option) \<Rightarrow> file_path \<Rightarrow> file_path \<Rightarrow> disk \<Rightarrow> unit_prefs_config" where
  "load_config parse sd dd d =
     unwrap_or (or_else (load_json parse config_of_json d (join_path dd ''config.json''))
                        (load_json parse config_of_json d (join_path sd ''config.json'')))
       \<lparr>uc_active_preset = ''nautical-metric''\<rparr>"

definition load_preset :: "(string \<Rightarrow> json option) \<Rightarrow> file_path \<Rightarrow> file_path \<Rightarrow> disk \<Rightarrow> string \<Rightarrow> preset option" where
  "load_preset parse sd dd d name =
     (if map_of d (preset_path dd name) \<noteq> None then load_json parse preset_of_json d (preset_path dd name)
      else load_json parse preset_of_json d (preset_path sd name))"

section \<open>The manager\<close>

record unit_manager =
  um_definitions :: unit_definitions
  um_categories :: categories_file
  um_default_categories :: default_categories
  um_custom_categories :: custom_categories
  um_config :: unit_prefs_config
  um_active_preset :: preset

definition manager_load :: "(string \<Rightarrow> json option) \<Rightarrow> file_path \<Rightarrow> file_path \<Rightarrow> disk \<Rightarrow> unit_manager option" where
  "manager_load parse sd dd d =
     Option.bind (load_definitions parse sd dd d) (\<lambda>defs.
     Option.bind (load_json parse categories_of_json d (join_path sd ''categories.json'')) (\<lambda>cats.
     Option.bind (load_json parse default_categories_of_json d (join_path sd ''default-categories.json'')) (\<lambda>defaults.
       (let customs = load_custom_categories parse dd d; config = load_config parse sd dd d
        in Option.bind (load_preset parse sd dd d (uc_active_preset config)) (\<lambda>active.
             Some \<lparr>um_definitions = defs, um_categories = cats, um_default_categories = defaults,
                   um_custom_categories = customs, um_config = config, um_active_preset = active\<rparr>)))))"

definition manager_resolve :: "unit_manager \<Rightarrow> string \<Rightarrow> display_units option" where
  "manager_resolve m path = resolve_display_units path (um_default_categories m) (um_custom_categories m)
     (um_categories m) (um_active_preset m) (um_definitions m)"

record unit_env =
  ue_parse :: "string \<Rightarrow> json option"
  ue_print :: "json \<Rightarrow> string"
  ue_static :: file_path
  ue_data :: file_path

type_synonym unit_state = "unit_manager \<times> disk"

definition set_active_preset :: "unit_env \<Rightarrow> string \<Rightarrow> unit_state \<Rightarrow> bool \<times> unit_state" where
  "set_active_preset e name = (\<lambda>(m, d).
     (case load_preset (ue_parse e) (ue_static e) (ue_data e) d name of
        None \<Rightarrow> (False, m, d)
      | Some p \<Rightarrow>
          (let config = (um_config m)\<lparr>uc_active_preset := name\<rparr>
           in (True, m\<lparr>um_config := config, um_active_preset := p\<rparr>,
               write_file (join_path (ue_data e) ''config.json'') (ue_print e (config_to_json config)) d))))"

definition save_custom_preset :: "unit_env \<Rightarrow> string \<Rightarrow> preset \<Rightarrow> unit_state \<Rightarrow> bool \<times> unit_state" where
  "save_custom_preset e name p = (\<lambda>(m, d).
     (True, if uc_active_preset (um_config m) = name then m\<lparr>um_active_preset := p\<rparr> else m,
      write_file (preset_path (ue_data e) name) (ue_print e (preset_to_json p)) d))"

definition delete_custom_preset :: "unit_env \<Rightarrow> string \<Rightarrow> unit_state \<Rightarrow> bool \<times> unit_state" where
  "delete_custom_preset e name = (\<lambda>(m, d).
     (if map_of d (preset_path (ue_data e) name) = None then (False, m, d)
      else (True, m, AList.delete (preset_path (ue_data e) name) d)))"

definition save_custom_definitions :: "unit_env \<Rightarrow> unit_definitions \<Rightarrow> unit_state \<Rightarrow> bool \<times> unit_state" where
  "save_custom_definitions e defs = (\<lambda>(m, d).
     (let d' = write_file (join_path (ue_data e) ''custom-units-definitions.json'') (ue_print e (definitions_to_json defs)) d
      in case load_definitions (ue_parse e) (ue_static e) (ue_data e) d' of
           None \<Rightarrow> (False, m, d')
         | Some defs' \<Rightarrow> (True, m\<lparr>um_definitions := defs'\<rparr>, d')))"

definition save_custom_categories :: "unit_env \<Rightarrow> custom_categories \<Rightarrow> unit_state \<Rightarrow> bool \<times> unit_state" where
  "save_custom_categories e cats = (\<lambda>(m, d).
     (True, m\<lparr>um_custom_categories := cats\<rparr>,
      write_file (join_path (ue_data e) ''custom-categories.json'') (ue_print e (custom_categories_to_json cats)) d))"

definition custom_definitions :: "unit_env \<Rightarrow> disk \<Rightarrow> unit_definitions" where
  "custom_definitions e d =
     unwrap_or (load_json (ue_parse e) definitions_of_json d (join_path (ue_data e) ''custom-units-definitions.json'')) []"

definition preset_names :: "disk \<Rightarrow> file_path \<Rightarrow> string list" where
  "preset_names d dir = sort (map (\<lambda>(p, _). fst (file_stem_ext (last p)))
     (filter (\<lambda>(p, _). p \<noteq> [] \<and> butlast p = dir @ [''presets'']) d))"

definition preset_summaries :: "unit_env \<Rightarrow> disk \<Rightarrow> file_path \<Rightarrow> (string \<times> string) hmap" where
  "preset_summaries e d dir = fold (\<lambda>n m.
       case load_preset (ue_parse e) (ue_static e) (ue_data e) d n of
         Some p \<Rightarrow> hm_insert n (ps_name p, ps_description p) m | None \<Rightarrow> m)
     (preset_names d dir) []"

definition list_presets :: "unit_env \<Rightarrow> disk \<Rightarrow> (string \<times> string) hmap \<times> (string \<times> string) hmap" where
  "list_presets e d = (preset_summaries e d (ue_static e), preset_summaries e d (ue_data e))"

section \<open>Requests\<close>

text \<open>The bodies are decoded before the handler runs; a body that does not decode is refused by the
  framework and changes nothing.\<close>

datatype unit_request =
    Set_config unit_prefs_config
  | Save_preset string preset
  | Delete_preset string
  | Set_definitions unit_definitions
  | Set_categories custom_categories

fun unit_put :: "unit_env \<Rightarrow> unit_request \<Rightarrow> unit_state \<Rightarrow> nat \<times> unit_state" where
  "unit_put e (Set_config c) x = (case set_active_preset e (uc_active_preset c) x of (ok, y) \<Rightarrow> (if ok then 200 else 400, y))"
| "unit_put e (Save_preset n p) x = (case save_custom_preset e n p x of (ok, y) \<Rightarrow> (if ok then 200 else 500, y))"
| "unit_put e (Delete_preset n) x = (case delete_custom_preset e n x of (ok, y) \<Rightarrow> (if ok then 200 else 404, y))"
| "unit_put e (Set_definitions u) x = (case save_custom_definitions e u x of (ok, y) \<Rightarrow> (if ok then 200 else 500, y))"
| "unit_put e (Set_categories c) x = (case save_custom_categories e c x of (ok, y) \<Rightarrow> (if ok then 200 else 500, y))"

end
