(* ===== verification/JsonText.thy ===== *)
theory JsonText
  imports Json "HOL-Library.Countable"
begin

text \<open>
  A text form of JSON values that can be read back, for the witnesses of theorems about whatever
  printer and parser: JSON values are countable, and the text of a value is its number in strokes.
\<close>

instance f64 :: countable by countable_datatype

instance jnum :: countable by countable_datatype

instance json :: countable by countable_datatype

definition stroke_text :: "json \<Rightarrow> string" where
  "stroke_text v = replicate (to_nat v) CHR ''1''"

definition read_strokes :: "string \<Rightarrow> json option" where
  "read_strokes s = Some (from_nat (length s))"

lemma stroke_roundtrip [simp]: "read_strokes (stroke_text v) = Some v"
  by (simp add: read_strokes_def stroke_text_def)

end
