(* ===== verification/UnitPrefsSpec.thy ===== *)
theory UnitPrefsSpec
  imports UnitPrefs FullModelSpec JsonText
begin

text \<open>
  The unit preferences in memory and on disk: what the requests change is what the next start loads,
  except that the active preset may be deleted.
\<close>

section \<open>Codecs\<close>

lemma preset_category_roundtrip: "preset_category_of_json (preset_category_to_json c) = Some c"
  by (simp add: preset_category_of_json_def preset_category_to_json_def str_field_def jget_json_obj opt_field_lookup
      del: map_of_append)

lemma conversion_roundtrip: "conversion_of_json (conversion_to_json c) = Some c"
  by (simp add: conversion_of_json_def conversion_to_json_def str_field_def jget_json_obj opt_field_lookup
      del: map_of_append)

lemma config_roundtrip: "config_of_json (config_to_json c) = Some c"
  by (simp add: config_of_json_def config_to_json_def str_field_def jget_json_obj)

lemma custom_categories_roundtrip: "custom_categories_of_json (custom_categories_to_json c) = Some (by_key c)"
  by (simp add: custom_categories_of_json_def custom_categories_to_json_def decode_map_same)

definition preset_listed :: "preset \<Rightarrow> preset" where
  "preset_listed p = p\<lparr>ps_categories := by_key (ps_categories p)\<rparr>"

lemma preset_roundtrip: "preset_of_json (preset_to_json p) = Some (preset_listed p)"
  by (simp add: preset_of_json_def preset_to_json_def str_field_def jget_json_obj preset_listed_def
      decode_map_same [OF preset_category_roundtrip])

definition unit_definition_listed :: "unit_definition \<Rightarrow> unit_definition" where
  "unit_definition_listed u = u\<lparr>ud_conversions := by_key (ud_conversions u)\<rparr>"

lemma unit_definition_roundtrip:
  "unit_definition_of_json (unit_definition_to_json u) = Some (unit_definition_listed u)"
proof -
  obtain m where "unit_definition_to_json u = JObj m" by (simp add: unit_definition_to_json_def json_obj_def)
  then have "as_object (unit_definition_to_json u) \<noteq> None" by simp
  then show ?thesis
    by (simp add: unit_definition_of_json_def)
       (simp add: unit_definition_to_json_def jget_json_obj opt_field_lookup unit_definition_listed_def
          decode_map_same [OF conversion_roundtrip] del: map_of_append)
qed

lemma definitions_readable: "definitions_of_json (definitions_to_json u) \<noteq> None"
  using decode_map_roundtrip [of u unit_definition_of_json unit_definition_to_json unit_definition_listed]
  by (simp add: definitions_of_json_def definitions_to_json_def unit_definition_roundtrip)

section \<open>Places\<close>

definition unit_env_ok :: "unit_env \<Rightarrow> bool" where
  "unit_env_ok e \<longleftrightarrow> (\<forall>v. ue_parse e (ue_print e v) = Some v) \<and> apart (ue_static e) (ue_data e)"

definition preset_name_ok :: "string \<Rightarrow> bool" where
  "preset_name_ok n \<longleftrightarrow> CHR ''/'' \<notin> set n"

lemma named_path:
  "join_path p ''config.json'' = p @ [''config.json'']"
  "join_path p ''categories.json'' = p @ [''categories.json'']"
  "join_path p ''default-categories.json'' = p @ [''default-categories.json'']"
  "join_path p ''custom-categories.json'' = p @ [''custom-categories.json'']"
  "join_path p ''standard-units-definitions.json'' = p @ [''standard-units-definitions.json'']"
  "join_path p ''custom-units-definitions.json'' = p @ [''custom-units-definitions.json'']"
  by (simp_all add: join_path_name)

lemma json_name: "n @ ''.json'' \<noteq> []" "n @ ''.json'' \<noteq> ''.''" "n @ ''.json'' \<noteq> ''..''"
  by (rule notI, drule arg_cong [of _ _ rev], simp)+

lemma preset_path_ok: "preset_name_ok n \<Longrightarrow> preset_path p n = p @ [''presets'', n @ ''.json'']"
proof -
  assume "preset_name_ok n"
  then have "split_on CHR ''/'' (''presets/'' @ n @ ''.json'') = [''presets'', n @ ''.json'']"
    using split_on_append_sep [of "CHR ''/''" "''presets''" "n @ ''.json''"]
      split_on_no_sep [of "CHR ''/''" "n @ ''.json''"] by (simp add: preset_name_ok_def)
  moreover have "\<not> starts_with (''presets/'' @ n @ ''.json'') ''/''" by (simp add: starts_with_def)
  ultimately show ?thesis using json_name [of n] by (simp only: preset_path_def join_path_def) simp
qed

lemma apart_append: "apart p q \<Longrightarrow> p @ r \<noteq> q @ s"
  by (auto simp: apart_def append_eq_append_conv2 prefix_def)

lemmas unit_places = named_path preset_path_ok

section \<open>A restart changes nothing\<close>

definition preset_agrees :: "preset \<Rightarrow> preset \<Rightarrow> bool" where
  "preset_agrees p q \<longleftrightarrow> map_of (ps_categories p) = map_of (ps_categories q) \<and> ps_name p = ps_name q
     \<and> ps_description p = ps_description q \<and> ps_version p = ps_version q \<and> ps_date p = ps_date q"

definition manager_agrees :: "unit_manager \<Rightarrow> unit_manager \<Rightarrow> bool" where
  "manager_agrees m n \<longleftrightarrow> um_definitions m = um_definitions n \<and> um_categories m = um_categories n
     \<and> um_default_categories m = um_default_categories n
     \<and> map_of (um_custom_categories m) = map_of (um_custom_categories n)
     \<and> um_config m = um_config n \<and> preset_agrees (um_active_preset m) (um_active_preset n)"

lemma preset_agrees_refl [simp]: "preset_agrees p p"
  by (simp add: preset_agrees_def)

lemma preset_agrees_listed: "hm_ok (ps_categories p) \<Longrightarrow> preset_agrees p (preset_listed p)"
  by (simp add: preset_agrees_def preset_listed_def map_of_by_key)

lemma resolve_agrees: "manager_agrees m n \<Longrightarrow> manager_resolve m path = manager_resolve n path"
  by (simp add: manager_resolve_def resolve_display_units_def resolve_category_def manager_agrees_def preset_agrees_def)

text \<open>What a start loads from the disk agrees with the memory.\<close>

definition restart_agrees :: "unit_env \<Rightarrow> unit_state \<Rightarrow> bool" where
  "restart_agrees e x \<longleftrightarrow>
     (\<exists>m. manager_load (ue_parse e) (ue_static e) (ue_data e) (snd x) = Some m \<and> manager_agrees (fst x) m)"

text \<open>The requests that are safe in a state: they name presets by a file name, do not delete the active
  one, and their maps have no key twice.\<close>

fun request_safe :: "unit_request \<Rightarrow> unit_manager \<Rightarrow> bool" where
  "request_safe (Set_config c) m \<longleftrightarrow> preset_name_ok (uc_active_preset c)"
| "request_safe (Save_preset n p) m \<longleftrightarrow> preset_name_ok n \<and> hm_ok (ps_categories p)"
| "request_safe (Delete_preset n) m \<longleftrightarrow> preset_name_ok n \<and> n \<noteq> uc_active_preset (um_config m)"
| "request_safe (Set_definitions u) m \<longleftrightarrow> True"
| "request_safe (Set_categories c) m \<longleftrightarrow> hm_ok c"

definition unit_inv :: "unit_env \<Rightarrow> unit_state \<Rightarrow> bool" where
  "unit_inv e x \<longleftrightarrow> restart_agrees e x \<and> preset_name_ok (uc_active_preset (um_config (fst x)))"

lemma manager_load_iff:
  "manager_load parse sd dd d = Some n \<longleftrightarrow>
     load_definitions parse sd dd d = Some (um_definitions n)
     \<and> load_json parse categories_of_json d (join_path sd ''categories.json'') = Some (um_categories n)
     \<and> load_json parse default_categories_of_json d (join_path sd ''default-categories.json'') = Some (um_default_categories n)
     \<and> um_custom_categories n = load_custom_categories parse dd d \<and> um_config n = load_config parse sd dd d
     \<and> load_preset parse sd dd d (uc_active_preset (load_config parse sd dd d)) = Some (um_active_preset n)"
  unfolding manager_load_def Let_def bind_eq_Some_conv
  by (cases n) auto

definition synced :: "unit_env \<Rightarrow> unit_manager \<Rightarrow> disk \<Rightarrow> bool" where
  "synced e m d \<longleftrightarrow>
     load_definitions (ue_parse e) (ue_static e) (ue_data e) d = Some (um_definitions m)
     \<and> load_json (ue_parse e) categories_of_json d (ue_static e @ [''categories.json'']) = Some (um_categories m)
     \<and> load_json (ue_parse e) default_categories_of_json d (ue_static e @ [''default-categories.json''])
         = Some (um_default_categories m)
     \<and> map_of (um_custom_categories m) = map_of (load_custom_categories (ue_parse e) (ue_data e) d)
     \<and> load_config (ue_parse e) (ue_static e) (ue_data e) d = um_config m
     \<and> (\<exists>p. load_preset (ue_parse e) (ue_static e) (ue_data e) d (uc_active_preset (um_config m)) = Some p
         \<and> preset_agrees (um_active_preset m) p)"

lemma unit_inv_iff: "unit_inv e (m, d) \<longleftrightarrow> synced e m d \<and> preset_name_ok (uc_active_preset (um_config m))"
proof
  assume "unit_inv e (m, d)"
  then obtain n where "manager_load (ue_parse e) (ue_static e) (ue_data e) d = Some n" "manager_agrees m n"
    "preset_name_ok (uc_active_preset (um_config m))" by (auto simp: unit_inv_def restart_agrees_def)
  then show "synced e m d \<and> preset_name_ok (uc_active_preset (um_config m))"
    by (simp add: synced_def manager_load_iff manager_agrees_def named_path)
next
  assume r: "synced e m d \<and> preset_name_ok (uc_active_preset (um_config m))"
  then obtain p where "load_preset (ue_parse e) (ue_static e) (ue_data e) d (uc_active_preset (um_config m)) = Some p"
    "preset_agrees (um_active_preset m) p" by (auto simp: synced_def)
  with r show "unit_inv e (m, d)"
    by (simp add: synced_def unit_inv_def restart_agrees_def manager_load_def manager_agrees_def Let_def named_path)
qed

lemma load_json_write: "load_json parse dec (write_file p c d) q = (if q = p then Option.bind (parse c) dec else load_json parse dec d q)"
  by (simp add: load_json_def)

lemma load_json_delete: "q \<noteq> p \<Longrightarrow> load_json parse dec (AList.delete p d) q = load_json parse dec d q"
  by (simp add: load_json_def delete_conv')

lemma path_neq:
  assumes "unit_env_ok e"
  shows "ue_static e @ p \<noteq> ue_data e @ q" "ue_data e @ q \<noteq> ue_static e @ p"
  using assms apart_append by (auto simp: unit_env_ok_def) metis+

lemmas load_defs = load_definitions_def load_custom_categories_def load_config_def load_preset_def unit_places Let_def

lemma set_config_keeps:
  assumes e: "unit_env_ok e" and s: "synced e m d" and n: "preset_name_ok n" "preset_name_ok (uc_active_preset (um_config m))"
    and l: "load_preset (ue_parse e) (ue_static e) (ue_data e) d n = Some p"
  shows "synced e (m\<lparr>um_config := (um_config m)\<lparr>uc_active_preset := n\<rparr>, um_active_preset := p\<rparr>)
    (write_file (join_path (ue_data e) ''config.json'') (ue_print e (config_to_json ((um_config m)\<lparr>uc_active_preset := n\<rparr>))) d)"
  using s l e n path_neq [OF e]
  by (simp add: synced_def load_defs load_json_write config_roundtrip unit_env_ok_def cong: if_cong)

lemma save_preset_keeps:
  assumes e: "unit_env_ok e" and s: "synced e m d" and n: "preset_name_ok n" "preset_name_ok (uc_active_preset (um_config m))"
    and p: "hm_ok (ps_categories p)"
  shows "synced e (if uc_active_preset (um_config m) = n then m\<lparr>um_active_preset := p\<rparr> else m)
    (write_file (preset_path (ue_data e) n) (ue_print e (preset_to_json p)) d)"
  using s e n p path_neq [OF e]
  by (simp add: synced_def load_defs load_json_write preset_roundtrip preset_agrees_listed unit_env_ok_def cong: if_cong)

lemma delete_preset_keeps:
  assumes e: "unit_env_ok e" and s: "synced e m d" and n: "preset_name_ok n" "preset_name_ok (uc_active_preset (um_config m))"
    and "n \<noteq> uc_active_preset (um_config m)"
  shows "synced e m (AList.delete (preset_path (ue_data e) n) d)"
  using s e n assms(5) path_neq [OF e]
  by (simp add: synced_def load_defs load_json_delete delete_conv' cong: if_cong)

lemma set_categories_keeps:
  assumes e: "unit_env_ok e" and s: "synced e m d" and n: "preset_name_ok (uc_active_preset (um_config m))" and c: "hm_ok c"
  shows "synced e (m\<lparr>um_custom_categories := c\<rparr>)
    (write_file (join_path (ue_data e) ''custom-categories.json'') (ue_print e (custom_categories_to_json c)) d)"
  using s e n c path_neq [OF e]
  by (simp add: synced_def load_defs load_json_write custom_categories_roundtrip map_of_by_key unit_env_ok_def cong: if_cong)

lemma set_definitions_keeps:
  fixes u :: unit_definitions
  assumes e: "unit_env_ok e" and s: "synced e m d" and n: "preset_name_ok (uc_active_preset (um_config m))"
  defines "d' \<equiv> write_file (join_path (ue_data e) ''custom-units-definitions.json'') (ue_print e (definitions_to_json u)) d"
  shows "\<exists>defs. load_definitions (ue_parse e) (ue_static e) (ue_data e) d' = Some defs \<and> synced e (m\<lparr>um_definitions := defs\<rparr>) d'"
proof -
  obtain v where v: "definitions_of_json (definitions_to_json u) = Some v" using definitions_readable by auto
  obtain std where std: "load_json (ue_parse e) definitions_of_json d (ue_static e @ [''standard-units-definitions.json'']) = Some std"
    using s by (auto simp: synced_def load_definitions_def named_path split: bind_splits)
  have "load_definitions (ue_parse e) (ue_static e) (ue_data e) d' = Some (fold merge_definition v std)"
    using v std e path_neq [OF e] by (simp add: d'_def load_defs load_json_write unit_env_ok_def)
  moreover have "synced e (m\<lparr>um_definitions := fold merge_definition v std\<rparr>) d'"
    using s e n path_neq [OF e] calculation by (simp add: synced_def) (simp add: d'_def load_defs load_json_write cong: if_cong)
  ultimately show ?thesis by blast
qed

inductive unit_step :: "unit_env \<Rightarrow> unit_state \<Rightarrow> unit_state \<Rightarrow> bool" for e where
  "request_safe r (fst x) \<Longrightarrow> unit_step e x (snd (unit_put e r x))"

lemma unit_inv_step: "unit_step e x y \<Longrightarrow> unit_env_ok e \<Longrightarrow> unit_inv e x \<Longrightarrow> unit_inv e y"
proof (induction rule: unit_step.induct)
  case (1 r x)
  obtain m d where x: "x = (m, d)" by (cases x)
  from 1 have s: "synced e m d" and n: "preset_name_ok (uc_active_preset (um_config m))" by (simp_all add: x unit_inv_iff)
  show ?case
  proof (cases r)
    case (Set_config c)
    with 1 have nc: "preset_name_ok (uc_active_preset c)" by simp
    show ?thesis
      using 1 set_config_keeps [OF 1(2) s nc n] nc
      by (cases "load_preset (ue_parse e) (ue_static e) (ue_data e) d (uc_active_preset c)")
         (simp_all add: Set_config x set_active_preset_def Let_def unit_inv_iff)
  next
    case (Save_preset name p)
    with 1 save_preset_keeps [OF 1(2) s _ n, of name p] n show ?thesis
      by (simp add: x save_custom_preset_def unit_inv_iff)
  next
    case (Delete_preset name)
    with 1 delete_preset_keeps [OF 1(2) s _ n, of name] n show ?thesis
      by (simp add: x delete_custom_preset_def unit_inv_iff)
  next
    case (Set_definitions u)
    from set_definitions_keeps [OF 1(2) s n, of u] n show ?thesis
      by (auto simp: Set_definitions x save_custom_definitions_def Let_def unit_inv_iff)
  next
    case (Set_categories c)
    with 1 set_categories_keeps [OF 1(2) s n, of c] n show ?thesis
      by (simp add: x save_custom_categories_def unit_inv_iff)
  qed
qed

lemma unit_inv_start:
  assumes "manager_load (ue_parse e) (ue_static e) (ue_data e) d = Some m" and "preset_name_ok (uc_active_preset (um_config m))"
  shows "unit_inv e (m, d)"
  using assms by (simp add: unit_inv_def restart_agrees_def manager_agrees_def)


text \<open>Deleting the active preset, when there is no static one of its name, is accepted and leaves a
  disk from which the next start fails.\<close>

theorem deleted_preset_fails_restart:
  assumes "unit_env_ok e" and "synced e m d" and "name = uc_active_preset (um_config m)" and "preset_name_ok name"
    and "map_of d (preset_path (ue_data e) name) \<noteq> None" and "map_of d (preset_path (ue_static e) name) = None"
  shows "\<exists>d'. unit_put e (Delete_preset name) (m, d) = (200, m, d')
    \<and> manager_load (ue_parse e) (ue_static e) (ue_data e) d' = None"
proof -
  let ?d = "AList.delete (preset_path (ue_data e) name) d"
  have c: "load_config (ue_parse e) (ue_static e) (ue_data e) ?d = um_config m"
    using assms(1,2,4) path_neq [OF assms(1)] by (simp add: synced_def load_defs load_json_delete)
  have none: "load_preset (ue_parse e) (ue_static e) (ue_data e) ?d name = None"
    using assms(6) by (simp add: load_preset_def load_json_def delete_conv')
  have "manager_load (ue_parse e) (ue_static e) (ue_data e) ?d \<noteq> Some n" for n
    unfolding manager_load_iff c assms(3) [symmetric] none by simp
  then have "manager_load (ue_parse e) (ue_static e) (ue_data e) ?d = None" by auto
  then show ?thesis using assms(5) by (auto simp: delete_custom_preset_def)
qed

definition demo_unit_env :: unit_env where
  "demo_unit_env = \<lparr>ue_parse = read_strokes, ue_print = stroke_text, ue_static = [''share''], ue_data = [''data'']\<rparr>"

definition demo_preset :: preset where
  "demo_preset = \<lparr>ps_version = ''1'', ps_date = ''2025'', ps_name = ''Mine'', ps_description = [],
     ps_categories = [(''speed'', \<lparr>pc_base_unit = ''m/s'', pc_target_unit = ''m/s'', pc_display_format = None\<rparr>)]\<rparr>"

definition demo_unit_disk :: disk where
  "demo_unit_disk =
     [([''share'', ''standard-units-definitions.json''], stroke_text (definitions_to_json [])),
      ([''share'', ''categories.json''],
        stroke_text (json_obj [(''categoryToBaseUnit'', JObj []), (''coreCategories'', JArr [])])),
      ([''share'', ''default-categories.json''],
        stroke_text (json_obj [(''description'', JStr []), (''version'', JStr []), (''categories'', JObj [])])),
      ([''data'', ''config.json''], stroke_text (config_to_json \<lparr>uc_active_preset = ''mine''\<rparr>)),
      ([''data'', ''presets'', ''mine.json''], stroke_text (preset_to_json demo_preset))]"

definition demo_manager :: unit_manager where
  "demo_manager = \<lparr>um_definitions = [], um_categories = \<lparr>cf_base_units = [], cf_core = []\<rparr>,
     um_default_categories = \<lparr>df_description = [], df_version = [], df_categories = []\<rparr>, um_custom_categories = [],
     um_config = \<lparr>uc_active_preset = ''mine''\<rparr>, um_active_preset = preset_listed demo_preset\<rparr>"

lemma demo_env_ok: "unit_env_ok demo_unit_env"
  by (simp add: unit_env_ok_def demo_unit_env_def apart_def)

lemma demo_units_start: "manager_load (ue_parse demo_unit_env) (ue_static demo_unit_env) (ue_data demo_unit_env) demo_unit_disk = Some demo_manager"
proof -
  have d: "definitions_of_json (definitions_to_json []) = Some []"
    by (simp add: definitions_of_json_def definitions_to_json_def map_to_json_def decode_map_def json_obj_def)
  have n: "preset_name_ok ''mine''" by (simp add: preset_name_ok_def)
  show ?thesis
    using n by (simp add: manager_load_iff demo_unit_env_def demo_unit_disk_def load_defs load_json_def d
      config_roundtrip preset_roundtrip demo_manager_def categories_of_json_def default_categories_of_json_def
      str_field_def jget_json_obj decode_map_def decode_vec_def)
qed


theorem deleted_preset_fails_restart_witness:
  "\<exists>d'. unit_put demo_unit_env (Delete_preset ''mine'') (demo_manager, demo_unit_disk) = (200, demo_manager, d')
    \<and> manager_load (ue_parse demo_unit_env) (ue_static demo_unit_env) (ue_data demo_unit_env) d' = None"
proof -
  have n: "preset_name_ok ''mine''" by (simp add: preset_name_ok_def)
  have "synced demo_unit_env demo_manager demo_unit_disk"
    using unit_inv_start [OF demo_units_start] n by (simp add: unit_inv_iff demo_manager_def)
  then show ?thesis
    using n by (intro deleted_preset_fails_restart [OF demo_env_ok])
      (simp_all add: demo_manager_def demo_unit_env_def demo_unit_disk_def preset_path_ok)
qed

end
