(* ===== verification/RestApi.thy ===== *)
theory RestApi
  imports UnitPrefs PluginHost Notifications
begin

text \<open>
  The version 1 handlers of \<^verbatim>\<open>signalk-server/src/api/mod.rs\<close>: the traversal of the full
  model, writing through PUT handlers, the dispatch of plugin routes, and the data of applications,
  which are JSON files below the data directory. The texts that errors of other crates print, the
  UUIDs and the process behind the bridge are arguments. The segments of a URL are those that the
  HTTP framework hands over, with their percent encoding undone, so that they can contain a slash.
\<close>

section \<open>Reading the model\<close>

definition enrich_value_units :: "unit_manager \<Rightarrow> string \<times> signalk_value \<Rightarrow> string \<times> signalk_value" where
  "enrich_value_units m = (\<lambda>(path, sv).
     (path, case sk_meta sv of
              None \<Rightarrow> sv
            | Some me \<Rightarrow> (case manager_resolve m path of
                None \<Rightarrow> sv
              | Some du \<Rightarrow> sv\<lparr>sk_meta := Some (me\<lparr>m_display_units := Some du\<rparr>)\<rparr>)))"

definition enrich_display_units :: "unit_manager option \<Rightarrow> full_model \<Rightarrow> full_model" where
  "enrich_display_units um fm =
     (case um of None \<Rightarrow> fm
      | Some m \<Rightarrow> fm\<lparr>fm_vessels := map (\<lambda>(uri, v). (uri, v\<lparr>v_values := map (enrich_value_units m) (v_values v)\<rparr>))
                                     (fm_vessels fm)\<rparr>)"

definition model_json :: "(datetime \<Rightarrow> string) \<Rightarrow> unit_manager option \<Rightarrow> store \<Rightarrow> json" where
  "model_json ts um s = full_model_to_json ts (enrich_display_units um (full_model_of s))"

fun traverse_json :: "json \<Rightarrow> string list \<Rightarrow> json option" where
  "traverse_json v [] = Some v"
| "traverse_json (JObj m) (p # ps) = (case map_of m p of Some c \<Rightarrow> traverse_json c ps | None \<Rightarrow> None)"
| "traverse_json _ (p # ps) = None"

definition url_parts :: "string \<Rightarrow> string list" where
  "url_parts url = filter (\<lambda>p. p \<noteq> []) (split_on CHR ''/'' url)"

definition data_path :: "string list \<Rightarrow> string" where
  "data_path parts = path_join (if 2 \<le> length parts \<and> hd parts = ''vessels'' then drop 2 parts else parts)"

definition own_parts :: "string \<Rightarrow> string list \<Rightarrow> string list" where
  "own_parts uri parts =
     (case parts of a # b # r \<Rightarrow> if b = ''self'' \<and> a = ''vessels'' then a # uri # r else parts | _ \<Rightarrow> parts)"

definition rest_get :: "(datetime \<Rightarrow> string) \<Rightarrow> unit_manager option \<Rightarrow> store \<Rightarrow> string \<Rightarrow> source_ref option \<Rightarrow> reply" where
  "rest_get ts um s url source =
     (let parts = url_parts url in
      if parts = [] then Reply 200 (model_json ts um s)
      else (case source of
        Some src \<Rightarrow>
          (case get_self_path_by_source s (data_path parts) src of
             Some v \<Rightarrow> Reply 200 (signalk_value_to_json ts v)
           | None \<Rightarrow> message_reply 404 (''No value for '' @ data_path parts @ '' from source '' @ src))
      | None \<Rightarrow>
          (case traverse_json (model_json ts um s) (own_parts (st_self_uri s) parts) of
             Some v \<Rightarrow> Reply 200 v
           | None \<Rightarrow> message_reply 404 (''Path not found: '' @ url))))"

definition discovery :: "string \<Rightarrow> string option \<Rightarrow> reply" where
  "discovery version host =
     (let h = unwrap_or host ''localhost:3000''
      in Reply 200 (json_obj
           [(''endpoints'', json_obj [(''v1'', json_obj
               [(''version'', JStr SIGNALK_VERSION), (''signalk-http'', JStr (''http://'' @ h @ ''/signalk/v1/api/'')),
                (''signalk-ws'', JStr (''ws://'' @ h @ ''/signalk/v1/stream''))])]),
            (''server'', json_obj [(''id'', JStr ''signalk-rs''), (''version'', JStr version)])]))"

section \<open>Writing values\<close>

record put_command =
  pc_path :: string
  pc_value :: json
  pc_source :: "string option"
  pc_request_id :: string

datatype put_result = Put_completed | Put_failed string | Put_pending

text \<open>A handler changes the world of the plugins.\<close>

type_synonym 'w put_handler = "put_command \<Rightarrow> 'w \<Rightarrow> put_result plugin_result \<times> 'w"

record 'w put_server =
  pw_store :: store
  pw_world :: 'w
  pw_registry :: "'w put_handler put_registry"
  pw_bridge_handlers :: "string hmap"

definition put_reply :: "nat \<Rightarrow> string \<Rightarrow> (string \<times> json) list \<Rightarrow> reply" where
  "put_reply status state more_fields =
     Reply status (json_obj ([(''state'', JStr state), (''statusCode'', JNum (PosInt (of_nat status)))] @ more_fields))"

definition handler_reply :: "put_result plugin_result \<Rightarrow> reply" where
  "handler_reply r =
     (case r of
        Inr Put_completed \<Rightarrow> put_reply 200 ''COMPLETED'' []
      | Inr Put_pending \<Rightarrow> put_reply 202 ''PENDING'' []
      | Inr (Put_failed msg) \<Rightarrow> put_reply 500 ''FAILED'' [(''message'', JStr msg)]
      | Inl e \<Rightarrow> put_reply 500 ''FAILED'' [(''message'', JStr (plugin_error_text e))])"

definition bridge_reply :: "string + json \<Rightarrow> reply" where
  "bridge_reply r =
     (case r of
        Inl e \<Rightarrow> message_reply 503 (''Bridge unreachable: '' @ e)
      | Inr v \<Rightarrow>
          (let state = unwrap_or (Option.bind (jget ''state'' v) as_str) ''FAILED'';
               code = ucast (unwrap_or (Option.bind (jget ''statusCode'' v) as_u64) 500) :: 16 word
           in Reply (if state = ''COMPLETED'' then 200 else 500)
                (json_obj [(''state'', JStr state), (''statusCode'', JNum (PosInt (ucast code)))])))"

definition dots_to_slashes :: "string \<Rightarrow> string" where
  "dots_to_slashes = map (\<lambda>c. if c = CHR ''.'' then CHR ''/'' else c)"

definition put_meta :: "(json \<Rightarrow> string) \<Rightarrow> string \<Rightarrow> json \<Rightarrow> 'w put_server \<Rightarrow> reply \<times> 'w put_server" where
  "put_meta decode_error path body x =
     (if \<not> ends_with path ''.meta'' then (message_reply 400 ''Invalid meta path'', x)
      else (case metadata_of_json body of
              None \<Rightarrow> (message_reply 400 (''Invalid metadata: '' @ decode_error body), x)
            | Some m \<Rightarrow> (completed_reply, x\<lparr>pw_store := set_metadata (take (length path - 5) path) m (pw_store x)\<rparr>)))"

definition rest_put :: "(json \<Rightarrow> string) \<Rightarrow> (string \<Rightarrow> json \<Rightarrow> string + json) \<Rightarrow> string \<Rightarrow> string \<Rightarrow> json \<Rightarrow> 'w put_server
    \<Rightarrow> reply \<times> 'w put_server" where
  "rest_put decode_error bridge uuid url body x =
     (let parts = url_parts url; path = data_path parts in
      if parts \<noteq> [] \<and> last parts = ''meta'' then put_meta decode_error path body x
      else (let v = unwrap_or (jget ''value'' body) body in
        case put_find path (pw_registry x) of
          Some (pid, h) \<Rightarrow>
            (let (r, w) = h \<lparr>pc_path = path, pc_value = v, pc_source = None, pc_request_id = uuid\<rparr> (pw_world x)
             in (handler_reply r, x\<lparr>pw_world := w\<rparr>))
        | None \<Rightarrow>
            (case List.find (\<lambda>(pattern, _). matches_pattern pattern path) (pw_bridge_handlers x) of
               Some (_, pid) \<Rightarrow>
                 (bridge_reply (bridge (''/put/'' @ pid @ ''/'' @ dots_to_slashes path)
                    (json_obj [(''requestId'', JStr uuid), (''value'', v)])), x)
             | None \<Rightarrow> (message_reply 404 (''No handler registered for path: '' @ path), x))))"

section \<open>Plugin routes\<close>

record plugin_request =
  pq_method :: string
  pq_path :: string
  pq_query :: "string option"
  pq_headers :: "(string \<times> string) list"
  pq_body :: string

definition route_plugin_id :: "string \<Rightarrow> string" where
  "route_plugin_id path = hd (split_on CHR ''/'' (unwrap_or (strip_prefix ''/plugins/'' path) []))"

definition relative_path :: "string \<Rightarrow> string" where
  "relative_path path =
     (let r = unwrap_or (strip_prefix (''/plugins/'' @ route_plugin_id path) path) ''/''
      in if r = [] then ''/'' else r)"

text \<open>The request as it arrives, its body read or not, and the plugins that the bridge serves. A
  reply of a plugin or of the bridge is on the right.\<close>

definition proxy_plugin_route :: "(plugin_request \<Rightarrow> 'r) route_table \<Rightarrow> string list \<Rightarrow> (plugin_request \<Rightarrow> string + 'r)
    \<Rightarrow> plugin_request \<Rightarrow> (string + string) \<Rightarrow> reply + 'r" where
  "proxy_plugin_route table bridged bridge q body =
     (let pid = route_plugin_id (pq_path q) in
      if pid = [] then Inl (message_reply 404 ''Missing plugin id in path'')
      else (case body of
        Inl e \<Rightarrow> Inl (message_reply 400 (''Failed to read body: '' @ e))
      | Inr b \<Rightarrow>
          (let r = relative_path (pq_path q);
               local = (if has_routes pid table
                        then route_handle pid (pq_method q) r table (q\<lparr>pq_path := r, pq_body := b\<rparr>) else None)
           in case local of
                Some x \<Rightarrow> Inr x
              | None \<Rightarrow>
                  (if pid \<notin> set bridged then Inl (message_reply 404 (''No route registered for plugin: '' @ pid))
                   else (case bridge (q\<lparr>pq_body := b\<rparr>) of
                           Inl e \<Rightarrow> Inl (message_reply 503 (''Bridge unreachable: '' @ e))
                         | Inr x \<Rightarrow> Inr x)))))"

section \<open>Application data\<close>

record app_env =
  ap_parse :: "string \<Rightarrow> string + json"
  ap_print :: "json \<Rightarrow> string"
  ap_data_dir :: file_path

definition scope_ok :: "string \<Rightarrow> bool" where
  "scope_ok scope \<longleftrightarrow> scope = ''global'' \<or> scope = ''user''"

definition invalid_scope :: "string \<Rightarrow> reply" where
  "invalid_scope scope = message_reply 400 (''Invalid scope: '' @ scope @ ''. Must be '' @ [CHR 0x27] @ ''global''
     @ [CHR 0x27] @ '' or '' @ [CHR 0x27] @ ''user'' @ [CHR 0x27])"

definition app_data_dir :: "file_path \<Rightarrow> string \<Rightarrow> string \<Rightarrow> file_path" where
  "app_data_dir dir scope app =
     join_path (join_path (join_path dir ''applicationData'') (if scope = ''user'' then ''global'' else scope)) app"

definition app_file :: "app_env \<Rightarrow> string \<Rightarrow> string \<Rightarrow> string \<Rightarrow> file_path" where
  "app_file e scope app version = join_path (app_data_dir (ap_data_dir e) scope app) (version @ ''.json'')"

definition name_refused :: "string \<Rightarrow> bool" where
  "name_refused n \<longleftrightarrow> CHR ''/'' \<in> set n \<or> contains_str n ''..''"

definition get_app_data :: "app_env \<Rightarrow> string \<Rightarrow> string \<Rightarrow> string \<Rightarrow> disk \<Rightarrow> reply" where
  "get_app_data e scope app version d =
     (if \<not> scope_ok scope then invalid_scope scope
      else (case map_of d (app_file e scope app version) of
              None \<Rightarrow> message_reply 404 (''No data for '' @ app @ ''/'' @ version)
            | Some c \<Rightarrow> (case ap_parse e c of
                Inr v \<Rightarrow> Reply 200 v
              | Inl err \<Rightarrow> message_reply 500 (''Corrupt data file: '' @ err))))"

definition set_app_data :: "app_env \<Rightarrow> string \<Rightarrow> string \<Rightarrow> string \<Rightarrow> json \<Rightarrow> disk \<Rightarrow> reply \<times> disk" where
  "set_app_data e scope app version body d =
     (if \<not> scope_ok scope then (invalid_scope scope, d)
      else if name_refused app \<or> name_refused version then (message_reply 400 ''Invalid appId or version'', d)
      else (completed_reply, write_file (app_file e scope app version) (ap_print e body) d))"

fun set_nested :: "string list \<Rightarrow> json \<Rightarrow> json \<Rightarrow> json" where
  "set_nested [] v node = v"
| "set_nested (k # ks) v node =
     (let m = (case node of JObj m \<Rightarrow> m | _ \<Rightarrow> [])
      in JObj (om_insert k (if ks = [] then v else set_nested ks v (unwrap_or (map_of m k) (JObj []))) m))"

definition get_app_data_key :: "app_env \<Rightarrow> string \<Rightarrow> string \<Rightarrow> string \<Rightarrow> string \<Rightarrow> disk \<Rightarrow> reply" where
  "get_app_data_key e scope app version key d =
     (if \<not> scope_ok scope then invalid_scope scope
      else (case map_of d (app_file e scope app version) of
              None \<Rightarrow> message_reply 404 (''No data for '' @ app @ ''/'' @ version)
            | Some c \<Rightarrow> (case ap_parse e c of
                Inl err \<Rightarrow> message_reply 500 (''Corrupt data file: '' @ err)
              | Inr node \<Rightarrow> (case traverse_json node (url_parts key) of
                  Some v \<Rightarrow> Reply 200 v
                | None \<Rightarrow> message_reply 404 (''Key not found: '' @ key)))))"

definition app_root :: "app_env \<Rightarrow> file_path \<Rightarrow> disk \<Rightarrow> json" where
  "app_root e p d = (case map_of d p of None \<Rightarrow> JObj [] | Some c \<Rightarrow> (case ap_parse e c of Inr v \<Rightarrow> v | Inl _ \<Rightarrow> JObj []))"

definition set_app_data_key :: "app_env \<Rightarrow> string \<Rightarrow> string \<Rightarrow> string \<Rightarrow> string \<Rightarrow> json \<Rightarrow> disk \<Rightarrow> reply \<times> disk" where
  "set_app_data_key e scope app version key body d =
     (if \<not> scope_ok scope then (invalid_scope scope, d)
      else if name_refused app \<or> name_refused version then (message_reply 400 ''Invalid appId or version'', d)
      else (let p = app_file e scope app version
            in (completed_reply, write_file p (ap_print e (set_nested (url_parts key) body (app_root e p d))) d)))"

section \<open>Injected deltas\<close>

definition test_inject_delta :: "(nat \<Rightarrow> string) \<Rightarrow> (json \<Rightarrow> string) \<Rightarrow> datetime \<Rightarrow> delta \<Rightarrow> notification_server \<Rightarrow> reply \<times> notification_server" where
  "test_inject_delta uuid disp now d x =
     (let (d', nm) = enrich_delta uuid d (nv_manager x)
      in (Reply 200 (json_obj [(''success'', JBool True)]),
          x\<lparr>nv_manager := nm, nv_store := apply_delta disp now d' (nv_store x)\<rparr>))"

end
