(* ===== verification/RestApiSpec.thy ===== *)
theory RestApiSpec
  imports RestApi FullModelSpec JsonText
begin

text \<open>
  What the version 1 handlers promise: a stored value is found below the URL of its vessel and
  path; application data are written only below their own directory, and read back; and what they do
  not: the vessel of a URL is ignored when a source is named and when a value is written, and the
  names of application data are not checked when they are read.
\<close>

section \<open>Reading the model\<close>

definition shown :: "unit_manager option \<Rightarrow> store \<Rightarrow> string \<Rightarrow> string \<Rightarrow> signalk_value \<Rightarrow> signalk_value" where
  "shown um s uri path sv =
     (let sv1 = (if uri = st_self_uri s then snd (enrich_value s (path, sv)) else sv)
      in case um of None \<Rightarrow> sv1 | Some m \<Rightarrow> snd (enrich_value_units m (path, sv1)))"

definition shown_vessel :: "unit_manager option \<Rightarrow> store \<Rightarrow> string \<Rightarrow> vessel_data \<Rightarrow> vessel_data" where
  "shown_vessel um s uri v = v\<lparr>v_values := map (\<lambda>(p, sv). (p, shown um s uri p sv)) (v_values v)\<rparr>"

lemma enrich_pair:
  "enrich_value s (p, sv) = (p, snd (enrich_value s (p, sv)))"
  "enrich_value_units m (p, sv) = (p, snd (enrich_value_units m (p, sv)))"
  by (simp_all add: enrich_value_def enrich_value_units_def Let_def)

lemma shown_vessels:
  "fm_vessels (enrich_display_units um (full_model_of s)) = map (\<lambda>(uri, v). (uri, shown_vessel um s uri v)) (st_vessels s)"
proof -
  have "(\<lambda>(p, sv). (p, sv)) = id" by auto
  moreover have "enrich_value s = (\<lambda>(p, sv). (p, snd (enrich_value s (p, sv))))"
    "enrich_value_units m = (\<lambda>(p, sv). (p, snd (enrich_value_units m (p, sv))))" for m
    using enrich_pair by (auto simp: fun_eq_iff)
  ultimately show ?thesis
    by (cases um) (auto simp: enrich_display_units_def full_model_of_def shown_vessel_def shown_def Let_def comp_def
        split: prod.split simp flip: enrich_pair)
qed

lemma map_of_map_snd: "map_of (map (\<lambda>(k, x). (k, f k x)) m) k = map_option (f k) (map_of m k)"
  by (induction m) auto

lemma leaf_in_traverse: "leaf_in m ps x \<Longrightarrow> traverse_json (JObj m) ps = Some (JObj x)"
  by (induction rule: leaf_in.induct) auto

lemma model_vessel:
  assumes "hm_ok (st_vessels s)" and "map_of (st_vessels s) uri = Some v"
  shows "traverse_json (model_json ts um s) (''vessels'' # uri # ps)
       = traverse_json (vessel_to_json ts (shown_vessel um s uri v)) ps"
proof -
  have ok: "hm_ok (map (\<lambda>(uri, v). (uri, shown_vessel um s uri v)) (st_vessels s))"
    using assms(1) by (simp add: comp_def case_prod_beta)
  have "map_of (map (\<lambda>(k, x). (k, vessel_to_json ts x)) (by_key (map (\<lambda>(uri, v). (uri, shown_vessel um s uri v)) (st_vessels s)))) uri
      = Some (vessel_to_json ts (shown_vessel um s uri v))"
    using map_of_by_key [OF ok] assms(2)
    by (simp add: map_of_map_snd [of "\<lambda>_. vessel_to_json ts"] map_of_map_snd [of "shown_vessel um s"])
  then show ?thesis
    by (simp add: model_json_def full_model_to_json_def shown_vessels json_obj_def
        map_to_json_by_key)
qed


definition demo_store :: store where
  "demo_store = (store_new ''urn:ada'')\<lparr>st_vessels := [(''urn:ada'', demo_vessel [''a.state'', ''a.speed''])]\<rparr>"


lemma data_path_vessel: "data_path (''vessels'' # u # r) = path_join r"
  by (simp add: data_path_def)

text \<open>The vessel in a URL is ignored when the value of one source is asked for, and
  when a value is written: both go to the own vessel.\<close>

theorem vessel_in_url_ignored:
  assumes "url_parts a = ''vessels'' # u # r" and "url_parts b = ''vessels'' # t # r"
  shows "rest_get ts um s a (Some src) = rest_get ts um s b (Some src)"
    and "r \<noteq> [] \<Longrightarrow> rest_put de bridge uuid a body x = rest_put de bridge uuid b body x"
proof -
  show "rest_get ts um s a (Some src) = rest_get ts um s b (Some src)"
    unfolding rest_get_def Let_def assms data_path_vessel by simp
  assume "r \<noteq> []"
  then show "rest_put de bridge uuid a body x = rest_put de bridge uuid b body x"
    unfolding rest_put_def Let_def assms data_path_vessel by simp
qed

section \<open>Application data\<close>

lemma app_name_enter: "\<not> name_refused app \<Longrightarrow> enter app p = p \<or> enter app p = p @ [app]"
proof -
  assume ok: "\<not> name_refused app"
  have "contains_str ''..'' ''..''" by (simp add: contains_str_iff) (rule exI [of _ "[]"], simp)
  then show ?thesis using ok by (auto simp: name_refused_def)
qed

lemma app_file_eq:
  assumes "scope_ok scope" and "\<not> name_refused app" and "\<not> name_refused version"
  shows "app_file e scope app version
       = enter app (ap_data_dir e @ [''applicationData'', ''global'']) @ [version @ ''.json'']"
proof -
  have "enter (version @ ''.json'') p = p @ [version @ ''.json'']" for p
    by (cases version) (auto simp: neq_Nil_conv)
  moreover have "CHR ''/'' \<notin> set app" "CHR ''/'' \<notin> set version"
    using assms(2,3) by (auto simp: name_refused_def)
  ultimately show ?thesis
    using assms(1)
    by (auto simp: app_file_def app_data_dir_def join_path_name scope_ok_def simp del: enter.simps)
      (simp_all add: enter.simps)
qed

lemma enter_prefix: "c \<noteq> ''..'' \<Longrightarrow> prefix p (enter c p)"
  by simp

text \<open>Claim C7. Writing application data, whole or one key, changes no file outside the directory
  of the global application data.\<close>

theorem app_data_confined:
  assumes "\<not> prefix (ap_data_dir e @ [''applicationData'', ''global'']) p"
  shows "map_of (snd (set_app_data e scope app version body d)) p = map_of d p
    \<and> map_of (snd (set_app_data_key e scope app version key body d)) p = map_of d p"
proof -
  have "p \<noteq> app_file e scope app version" if "scope_ok scope" "\<not> (name_refused app \<or> name_refused version)"
    using assms app_file_eq [of scope app version e] app_name_enter [of app "ap_data_dir e @ [''applicationData'', ''global'']"] that
    by (auto simp: prefix_def simp del: enter.simps)
  then show ?thesis
    by (auto simp: set_app_data_def set_app_data_key_def Let_def)
qed

definition demo_app_env :: app_env where
  "demo_app_env = \<lparr>ap_parse = (\<lambda>t. case read_strokes t of Some v \<Rightarrow> Inr v | None \<Rightarrow> Inl ''no JSON''),
     ap_print = stroke_text, ap_data_dir = [''data'']\<rparr>"

theorem app_data_confined_witness:
  "map_of (snd (set_app_data demo_app_env ''user'' ''chart'' ''1'' JNull [([''etc'', ''passwd''], ''x'')])) [''etc'', ''passwd'']
     = Some ''x''"
  using app_data_confined [of demo_app_env "[''etc'', ''passwd'']" "''user''" "''chart''" "''1''" JNull
      "[([''etc'', ''passwd''], ''x'')]"]
  by (simp add: demo_app_env_def)

lemma traverse_set_nested: "traverse_json (set_nested qs v j) qs = Some v"
proof (induction qs v j rule: set_nested.induct)
  case (2 k ks v j)
  show ?case by (cases "ks = []") (simp_all add: Let_def "2.IH" [OF refl])
qed simp

lemma traverse_set_nested_other:
  "apart ps qs \<Longrightarrow> traverse_json (set_nested qs v j) ps = traverse_json j ps"
proof (induction qs v j arbitrary: ps rule: set_nested.induct)
  case (2 k ks v j)
  obtain l ls where ps: "ps = l # ls" using "2.prems" by (cases ps) (auto simp: apart_def)
  show ?case
  proof (cases "l = k")
    case True
    then have a: "apart ls ks" using "2.prems" ps by (simp add: apart_def)
    then have "ks \<noteq> []" by (auto simp: apart_def)
    moreover have "ls \<noteq> []" using a by (auto simp: apart_def)
    then have "traverse_json (JObj []) ls = None" by (cases ls) simp_all
    ultimately show ?thesis
      using "2.IH" [OF refl _ a] True ps by (cases j) (auto simp: Let_def unwrap_or_def split: option.splits)
  next
    case False
    then show ?thesis using ps by (cases j) (auto simp: Let_def)
  qed
qed (simp add: apart_def)

text \<open>A key that was written is what reading it returns, and the keys apart from it keep
  their answers.\<close>

theorem app_data_key_roundtrip:
  assumes "\<forall>v. ap_parse e (ap_print e v) = Inr v"
    and "scope_ok scope" and "\<not> name_refused app" and "\<not> name_refused version"
    and "d' = snd (set_app_data_key e scope app version key body d)"
  shows "get_app_data_key e scope app version key d' = Reply 200 body"
    and "map_of d (app_file e scope app version) = Some c \<Longrightarrow> ap_parse e c = Inr v \<Longrightarrow>
      apart (url_parts other) (url_parts key) \<Longrightarrow>
      get_app_data_key e scope app version other d' = get_app_data_key e scope app version other d"
  using assms
  by (simp_all add: get_app_data_key_def set_app_data_key_def Let_def traverse_set_nested traverse_set_nested_other
      app_root_def)

theorem app_data_key_roundtrip_witness:
  "get_app_data_key demo_app_env ''global'' ''chart'' ''1'' ''layers/depth''
     (snd (set_app_data_key demo_app_env ''global'' ''chart'' ''1'' ''layers/depth'' (JBool True) [])) = Reply 200 (JBool True)"
  by (rule app_data_key_roundtrip(1) [OF _ _ _ _ refl])
    (simp_all add: demo_app_env_def scope_ok_def name_refused_def starts_with_def)

text \<open>Reading application data does not check the names: an application named by an
  absolute path returns any JSON file of the server.\<close>

theorem app_data_read_anywhere:
  assumes "plain_path dirs" and "CHR ''/'' \<notin> set version"
    and "map_of d (dirs @ [version @ ''.json'']) = Some c" and "ap_parse e c = Inr v"
  shows "get_app_data e ''global'' (''/'' @ join_with ''/'' dirs) version d = Reply 200 v"
proof -
  have "enter (version @ ''.json'') p = p @ [version @ ''.json'']" for p
    by (cases version) (auto simp: neq_Nil_conv)
  then have "app_file e ''global'' (''/'' @ join_with ''/'' dirs) version = dirs @ [version @ ''.json'']"
    using assms(1,2) join_absolute [OF assms(1)]
    by (simp add: app_file_def app_data_dir_def join_path_name del: enter.simps)
  then show ?thesis using assms(3,4) by (simp add: get_app_data_def scope_ok_def)
qed

theorem app_data_read_anywhere_witness:
  "get_app_data demo_app_env ''global'' (''/'' @ join_with ''/'' [''srv'', ''keys'']) ''private''
     [([''srv'', ''keys'', ''private.json''], stroke_text (JStr ''secret''))] = Reply 200 (JStr ''secret'')"
proof (rule app_data_read_anywhere)
  show "ap_parse demo_app_env (stroke_text (JStr ''secret'')) = Inr (JStr ''secret'')"
    unfolding demo_app_env_def app_env.simps stroke_roundtrip option.case by (rule refl)
qed (simp_all add: plain_path_def)

end
