(* ===== verification/ApiV2.thy ===== *)
theory ApiV2
  imports Files Course PilotLoop
begin

text \<open>
  The version 2 handlers for autopilots, the course and resources: \<^verbatim>\<open>autopilot/manager.rs\<close>, the
  registry of the autopilot providers, and \<^verbatim>\<open>api/v2/autopilot.rs\<close>, \<^verbatim>\<open>api/v2/course.rs\<close> and
  \<^verbatim>\<open>api/v2/resources.rs\<close>, which answer requests with the operations of the autopilots, the course
  manager and the resource registry. A reply is missing when the provider's call does not return.
\<close>

section \<open>Autopilot providers\<close>

text \<open>The calls of the provider interface that change the device. The providers share a state of
  type \<open>'w\<close>, and read the store.\<close>

datatype pilot_call =
    Call_set_state string
  | Call_set_mode string
  | Call_set_target f64
  | Call_adjust_target f64
  | Call_engage
  | Call_disengage
  | Call_tack tack_direction
  | Call_gybe tack_direction
  | Call_dodge "f64 option"
  | Call_course_current_point
  | Call_course_next_point

record 'w autopilot_provider =
  vp_device_id :: string
  vp_get_data :: "store \<Rightarrow> 'w \<Rightarrow> autopilot_data plugin_result"
  vp_get_state :: "'w \<Rightarrow> string plugin_result"
  vp_get_mode :: "'w \<Rightarrow> string plugin_result"
  vp_get_target :: "'w \<Rightarrow> f64 option plugin_result"
  vp_call :: "pilot_call \<Rightarrow> store \<Rightarrow> 'w \<Rightarrow> (unit plugin_result \<times> 'w) option"

text \<open>The autopilot plugin's provider: the devices are states by their names.\<close>

fun request_of :: "store \<Rightarrow> pilot_call \<Rightarrow> pilot_request" where
  "request_of s (Call_set_state v) = SetState v"
| "request_of s (Call_set_mode v) = SetMode v"
| "request_of s (Call_set_target v) = SetTarget v"
| "request_of s (Call_adjust_target v) = AdjustTarget v"
| "request_of s Call_engage = Engage"
| "request_of s Call_disengage = Disengage"
| "request_of s (Call_tack d) = Tack d"
| "request_of s (Call_gybe d) = Gybe d"
| "request_of s (Call_dodge v) = Dodge v"
| "request_of s Call_course_current_point =
     CourseCurrentPoint (store_read s ''navigation.course.calcValues.bearingTrackTrue'')"
| "request_of s Call_course_next_point = CourseNextPoint"

type_synonym pilots = "string \<Rightarrow> autopilot_state"

definition provider_handle :: "string \<Rightarrow> pilots autopilot_provider" where
  "provider_handle i =
     \<lparr>vp_device_id = i,
      vp_get_data = (\<lambda>s w. Inr (pilot_data (store_read s) (w i))),
      vp_get_state = (\<lambda>w. Inr (enabled_str (ap_enabled (w i)))),
      vp_get_mode = (\<lambda>w. Inr (mode_str (ap_mode (w i)))),
      vp_get_target = (\<lambda>w. Inr (ap_target_rad (w i))),
      vp_call = (\<lambda>c s w. map_option (\<lambda>(r, st). (r, w(i := st))) (pilot_request_result (request_of s c) (w i)))\<rparr>"

record 'w autopilot_manager =
  vm_providers :: "('w autopilot_provider \<times> string) hmap"
  vm_default_id :: "string option"

definition autopilot_manager_new :: "'w autopilot_manager" where
  "autopilot_manager_new = \<lparr>vm_providers = [], vm_default_id = None\<rparr>"

definition vm_register :: "'w autopilot_provider \<Rightarrow> string \<Rightarrow> 'w autopilot_manager \<Rightarrow> 'w autopilot_manager" where
  "vm_register p plugin vm =
     (let i = vp_device_id p
      in vm\<lparr>vm_default_id := (if vm_providers vm = [] then Some i else vm_default_id vm),
            vm_providers := hm_insert i (p, plugin) (vm_providers vm)\<rparr>)"

definition vm_get :: "string \<Rightarrow> 'w autopilot_manager \<Rightarrow> 'w autopilot_provider option" where
  "vm_get i vm = map_option fst (map_of (vm_providers vm) i)"

definition vm_get_default :: "'w autopilot_manager \<Rightarrow> 'w autopilot_provider option" where
  "vm_get_default vm = Option.bind (vm_default_id vm) (\<lambda>i. vm_get i vm)"

definition vm_list :: "'w autopilot_manager \<Rightarrow> (string \<times> string \<times> bool) list" where
  "vm_list vm = map (\<lambda>(i, (p, plugin)). (i, plugin, vm_default_id vm = Some i)) (vm_providers vm)"

definition vm_set_default :: "string \<Rightarrow> 'w autopilot_manager \<Rightarrow> unit plugin_result \<times> 'w autopilot_manager" where
  "vm_set_default i vm =
     (if map_of (vm_providers vm) i \<noteq> None then (Inr (), vm\<lparr>vm_default_id := Some i\<rparr>)
      else (Inl (NotFound (''Autopilot device not found: '' @ i)), vm))"

definition vm_resolve_id :: "string \<Rightarrow> 'w autopilot_manager \<Rightarrow> string option" where
  "vm_resolve_id i vm =
     (if i = ''_default'' then vm_default_id vm
      else if map_of (vm_providers vm) i \<noteq> None then Some i else None)"

section \<open>Autopilot requests\<close>

record 'w pilot_server =
  sv_course :: course_manager
  sv_pilots :: "'w autopilot_manager"
  sv_world :: 'w

abbreviation sv_store :: "'w pilot_server \<Rightarrow> store" where
  "sv_store x \<equiv> cm_store (sv_course x)"

definition pilot_radians :: "f64 \<Rightarrow> string option \<Rightarrow> f64" where
  "pilot_radians v units = (if units = Some ''deg'' then to_radians v else v)"

definition resolve_provider :: "string \<Rightarrow> 'w autopilot_manager \<Rightarrow> 'w autopilot_provider option" where
  "resolve_provider i vm = Option.bind (vm_resolve_id i vm) (\<lambda>j. vm_get j vm)"

definition pilot_not_found :: "string \<Rightarrow> reply" where
  "pilot_not_found i = message_reply 404 (''Autopilot not found: '' @ i)"

definition plugin_err :: "plugin_error \<Rightarrow> reply" where
  "plugin_err e = message_reply (if is_not_found e then 404 else if is_bad_request e then 400 else 500) (plugin_error_text e)"

text \<open>Lower case is Unicode's, in which no other character becomes a letter of the two words.\<close>

definition parse_direction :: "string \<Rightarrow> tack_direction option" where
  "parse_direction s =
     (let l = ascii_lower s
      in if l = ''port'' then Some Port else if l = ''starboard'' then Some Starboard else None)"

definition bad_direction :: "string \<Rightarrow> reply" where
  "bad_direction s = message_reply 400 (''Invalid direction: '' @ [CHR 0x27] @ s @ [CHR 0x27] @ ''. Use '' @ [CHR 0x27]
     @ ''port'' @ [CHR 0x27] @ '' or '' @ [CHR 0x27] @ ''starboard'' @ [CHR 0x27] @ ''.'')"

definition list_autopilots :: "'w pilot_server \<Rightarrow> reply" where
  "list_autopilots x = Reply 200 (json_obj (map (\<lambda>(i, plugin, d).
     (i, json_obj [(''provider'', JStr plugin), (''isDefault'', JBool d)])) (vm_list (sv_pilots x))))"

definition get_default_pilot :: "'w pilot_server \<Rightarrow> reply" where
  "get_default_pilot x =
     (case vm_default_id (sv_pilots x) of
        Some i \<Rightarrow> Reply 200 (json_obj [(''id'', JStr i)])
      | None \<Rightarrow> message_reply 404 ''No autopilot registered'')"

definition set_default_pilot :: "course_env \<Rightarrow> string \<Rightarrow> 'w pilot_server \<Rightarrow> reply \<times> 'w pilot_server" where
  "set_default_pilot env i x =
     (case vm_set_default i (sv_pilots x) of
        (Inl e, vm) \<Rightarrow> (plugin_err e, x\<lparr>sv_pilots := vm\<rparr>)
      | (Inr _, vm) \<Rightarrow>
          (Empty 204, x\<lparr>sv_pilots := vm, sv_course := (sv_course x)\<lparr>cm_store :=
             store_write (ce_disp env) (ce_now env) (ce_utc env) ''autopilot-api''
               [(''steering.autopilot.defaultPilot'', JStr i)] (sv_store x)\<rparr>\<rparr>))"

definition action_to_json :: "autopilot_action \<Rightarrow> json" where
  "action_to_json a = json_obj [(''id'', JStr (aa_id a)), (''name'', JStr (aa_name a)), (''available'', JBool (aa_available a))]"

definition data_to_json :: "autopilot_data \<Rightarrow> json" where
  "data_to_json a = json_obj
     [(''state'', JStr (ad_state a)), (''mode'', JStr (ad_mode a)), (''target'', null_or json_f64 (ad_target a)),
      (''engaged'', JBool (ad_engaged a)),
      (''options'', json_obj [(''state'', JArr (map JStr (ad_option_states a))),
         (''mode'', JArr (map JStr (ad_option_modes a))), (''actions'', JArr (map action_to_json (ad_option_actions a)))])]"

definition with_pilot :: "string \<Rightarrow> 'w pilot_server \<Rightarrow> ('w autopilot_provider \<Rightarrow> json plugin_result) \<Rightarrow> reply" where
  "with_pilot i x f =
     (case resolve_provider i (sv_pilots x) of
        None \<Rightarrow> pilot_not_found i
      | Some p \<Rightarrow> (case f p of Inr v \<Rightarrow> Reply 200 v | Inl e \<Rightarrow> plugin_err e))"

definition value_json :: "json \<Rightarrow> json" where
  "value_json v = json_obj [(''value'', v)]"

definition get_autopilot :: "string \<Rightarrow> 'w pilot_server \<Rightarrow> reply" where
  "get_autopilot i x = with_pilot i x (\<lambda>p. map_sum id data_to_json (vp_get_data p (sv_store x) (sv_world x)))"

definition get_pilot_state :: "string \<Rightarrow> 'w pilot_server \<Rightarrow> reply" where
  "get_pilot_state i x = with_pilot i x (\<lambda>p. map_sum id (\<lambda>v. value_json (JStr v)) (vp_get_state p (sv_world x)))"

definition get_pilot_mode :: "string \<Rightarrow> 'w pilot_server \<Rightarrow> reply" where
  "get_pilot_mode i x = with_pilot i x (\<lambda>p. map_sum id (\<lambda>v. value_json (JStr v)) (vp_get_mode p (sv_world x)))"

definition get_pilot_target :: "string \<Rightarrow> 'w pilot_server \<Rightarrow> reply" where
  "get_pilot_target i x =
     with_pilot i x (\<lambda>p. map_sum id (\<lambda>v. value_json (null_or json_f64 v)) (vp_get_target p (sv_world x)))"

text \<open>A request that changes a device, once its body is read.\<close>

definition call_pilot :: "string \<Rightarrow> pilot_call \<Rightarrow> 'w pilot_server \<Rightarrow> (reply \<times> 'w pilot_server) option" where
  "call_pilot i c x =
     (case resolve_provider i (sv_pilots x) of
        None \<Rightarrow> Some (pilot_not_found i, x)
      | Some p \<Rightarrow>
          map_option (\<lambda>(r, w). (case r of Inr _ \<Rightarrow> Empty 204 | Inl e \<Rightarrow> plugin_err e, x\<lparr>sv_world := w\<rparr>))
            (vp_call p c (sv_store x) (sv_world x)))"

definition with_text :: "json \<Rightarrow> (string \<Rightarrow> pilot_call) \<Rightarrow> string \<Rightarrow> 'w pilot_server \<Rightarrow> (reply \<times> 'w pilot_server) option" where
  "with_text body c i x =
     (case Option.bind (jget ''value'' body) as_str of
        None \<Rightarrow> Some (message_reply 400 (''Missing '' @ [CHR 0x27] @ ''value'' @ [CHR 0x27] @ '' field''), x)
      | Some v \<Rightarrow> call_pilot i (c v) x)"

definition with_angle :: "json \<Rightarrow> (f64 \<Rightarrow> pilot_call) \<Rightarrow> string \<Rightarrow> 'w pilot_server \<Rightarrow> (reply \<times> 'w pilot_server) option" where
  "with_angle body c i x =
     (case Option.bind (jget ''value'' body) as_f64 of
        None \<Rightarrow> Some (message_reply 400 (''Missing or non-numeric '' @ [CHR 0x27] @ ''value'' @ [CHR 0x27] @ '' field''), x)
      | Some v \<Rightarrow> call_pilot i (c (pilot_radians v (Option.bind (jget ''units'' body) as_str))) x)"

definition with_direction :: "string \<Rightarrow> (tack_direction \<Rightarrow> pilot_call) \<Rightarrow> string \<Rightarrow> 'w pilot_server \<Rightarrow> (reply \<times> 'w pilot_server) option" where
  "with_direction d c i x =
     (case parse_direction d of None \<Rightarrow> Some (bad_direction d, x) | Some t \<Rightarrow> call_pilot i (c t) x)"

text \<open>The requests of the API, with what is left of their URL and body.\<close>

datatype pilot_api =
    Put_state json
  | Put_mode json
  | Put_target json
  | Put_adjust json
  | Post_engage
  | Post_disengage
  | Post_tack string
  | Post_gybe string
  | Post_dodge
  | Put_dodge json
  | Delete_dodge
  | Post_course_current_point
  | Post_course_next_point

fun pilot_api_handler :: "course_env \<Rightarrow> string \<Rightarrow> pilot_api \<Rightarrow> 'w pilot_server \<Rightarrow> (reply \<times> 'w pilot_server) option" where
  "pilot_api_handler env i (Put_state b) x = with_text b Call_set_state i x"
| "pilot_api_handler env i (Put_mode b) x = with_text b Call_set_mode i x"
| "pilot_api_handler env i (Put_target b) x = with_angle b Call_set_target i x"
| "pilot_api_handler env i (Put_adjust b) x = with_angle b Call_adjust_target i x"
| "pilot_api_handler env i Post_engage x = call_pilot i Call_engage x"
| "pilot_api_handler env i Post_disengage x = call_pilot i Call_disengage x"
| "pilot_api_handler env i (Post_tack d) x = with_direction d Call_tack i x"
| "pilot_api_handler env i (Post_gybe d) x = with_direction d Call_gybe i x"
| "pilot_api_handler env i Post_dodge x = call_pilot i (Call_dodge (Some (Fin 0))) x"
| "pilot_api_handler env i (Put_dodge b) x = with_angle b (\<lambda>v. Call_dodge (Some v)) i x"
| "pilot_api_handler env i Delete_dodge x = call_pilot i (Call_dodge None) x"
| "pilot_api_handler env i Post_course_current_point x = call_pilot i Call_course_current_point x"
| "pilot_api_handler env i Post_course_next_point x =
     (case advance_next_point env 1 (sv_course x) of
        (Inl e, cm) \<Rightarrow> Some (message_reply 400 (''Failed to advance waypoint: '' @ plugin_error_text e), x\<lparr>sv_course := cm\<rparr>)
      | (Inr _, cm) \<Rightarrow> call_pilot i Call_course_next_point (x\<lparr>sv_course := cm\<rparr>))"

section \<open>Course requests\<close>

definition status_reply :: "nat \<Rightarrow> unit plugin_result \<Rightarrow> reply" where
  "status_reply failed r = (case r of Inr _ \<Rightarrow> Empty 200 | Inl e \<Rightarrow> Plain failed (plugin_error_text e))"

text \<open>The status of a missing resource is found in the text of the error.\<close>

definition lookup_reply :: "unit plugin_result \<Rightarrow> reply" where
  "lookup_reply r = (case r of Inr _ \<Rightarrow> Empty 200
     | Inl e \<Rightarrow> Plain (if contains_str (plugin_error_text e) ''not found'' then 404 else 400) (plugin_error_text e))"

datatype course_api =
    Delete_course
  | Put_destination destination_request
  | Put_active_route active_route_request
  | Put_next_point "32 word"
  | Put_point_index nat
  | Put_reverse
  | Put_arrival_time json
  | Put_arrival_circle json
  | Post_api_only
  | Delete_api_only

fun course_api_handler :: "course_env \<Rightarrow> course_api \<Rightarrow> course_manager \<Rightarrow> reply \<times> course_manager" where
  "course_api_handler env Delete_course cm = apfst (status_reply 500) (course_clear env cm)"
| "course_api_handler env (Put_destination q) cm = apfst lookup_reply (set_destination env q cm)"
| "course_api_handler env (Put_active_route q) cm = apfst lookup_reply (set_active_route env q cm)"
| "course_api_handler env (Put_next_point n) cm = apfst (status_reply 400) (advance_next_point env n cm)"
| "course_api_handler env (Put_point_index n) cm = apfst (status_reply 400) (set_point_index env n cm)"
| "course_api_handler env Put_reverse cm = apfst (status_reply 400) (reverse_route env cm)"
| "course_api_handler env (Put_arrival_time b) cm =
     apfst (status_reply 400) (set_target_arrival_time env (Option.bind (jget ''value'' b) as_str) cm)"
| "course_api_handler env (Put_arrival_circle b) cm =
     (case Option.bind (jget ''value'' b) as_f64 of
        Some r \<Rightarrow> (if f_le (Fin 0) r then apfst (status_reply 500) (set_arrival_circle env r cm)
                   else (Plain 400 ''Invalid arrival circle radius'', cm))
      | None \<Rightarrow> (Plain 400 ''Invalid arrival circle radius'', cm))"
| "course_api_handler env Post_api_only cm = (Empty 200, enable_api_only env cm)"
| "course_api_handler env Delete_api_only cm = (Empty 200, disable_api_only cm)"

definition get_course :: "course_env \<Rightarrow> course_manager \<Rightarrow> reply" where
  "get_course env cm = Reply 200 (course_state_to_json (get_state env cm))"

definition get_course_config :: "course_manager \<Rightarrow> reply" where
  "get_course_config cm = Reply 200 (json_obj
     [(''arrivalCircle'', json_f64 (cc_arrival_circle (cm_config cm))), (''apiOnly'', JBool (cc_api_only (cm_config cm)))])"

definition get_course_calc_values :: "course_manager \<Rightarrow> reply" where
  "get_course_calc_values cm = Reply 200 (get_calc_values (cm_store cm))"

section \<open>Resource requests\<close>

record 'w resource_server =
  rv_store :: store
  rv_registry :: "'w registry"
  rv_world :: 'w

definition resource_name_ok :: "string \<Rightarrow> bool" where
  "resource_name_ok t \<longleftrightarrow> t \<noteq> [] \<and> valid_component t"

definition bad_resource_name :: "string \<Rightarrow> reply" where
  "bad_resource_name t = Plain 400 (''Invalid resource type: '' @ t)"

definition resource_error :: "plugin_error \<Rightarrow> reply" where
  "resource_error e = Plain (if is_not_found e then 404 else 500) (plugin_error_text e)"

definition change_error :: "plugin_error \<Rightarrow> reply" where
  "change_error e = (if is_not_found e then Empty 404 else Plain 500 (plugin_error_text e))"

text \<open>The clock and the printing of values that the store needs.\<close>

record store_env =
  se_disp :: "json \<Rightarrow> string"
  se_now :: datetime
  se_utc :: datetime

definition resource_delta :: "datetime \<Rightarrow> string \<Rightarrow> string \<Rightarrow> json \<Rightarrow> delta" where
  "resource_delta utc t i v = with_context ''resources''
     [update_new utc (source_plugin ''resource-manager'') [path_value_new (t @ ''.'' @ i) v]]"

definition emit_resource_delta :: "store_env \<Rightarrow> string \<Rightarrow> string \<Rightarrow> json \<Rightarrow> store \<Rightarrow> store" where
  "emit_resource_delta env t i v = apply_delta (se_disp env) (se_now env) (resource_delta (se_utc env) t i v)"

definition list_resources :: "string \<Rightarrow> resource_query \<Rightarrow> 'w resource_server \<Rightarrow> reply" where
  "list_resources t q x =
     (if \<not> resource_name_ok t then bad_resource_name t
      else (case reg_list t q (rv_registry x) (rv_world x) of Inr v \<Rightarrow> Reply 200 v | Inl e \<Rightarrow> resource_error e))"

definition get_resource :: "string \<Rightarrow> string \<Rightarrow> resource_query \<Rightarrow> 'w resource_server \<Rightarrow> reply" where
  "get_resource t i q x =
     (if \<not> resource_name_ok t then bad_resource_name t
      else (case reg_get t i (rq_provider q) (rv_registry x) (rv_world x) of
              Inr (Some v) \<Rightarrow> Reply 200 v
            | Inr None \<Rightarrow> Empty 404
            | Inl e \<Rightarrow> resource_error e))"

definition create_resource :: "store_env \<Rightarrow> string \<Rightarrow> resource_query \<Rightarrow> json \<Rightarrow> 'w resource_server \<Rightarrow> reply \<times> 'w resource_server" where
  "create_resource env t q body x =
     (if \<not> resource_name_ok t then (bad_resource_name t, x)
      else (case reg_create t body (rq_provider q) (rv_registry x) (rv_world x) of
              (Inr i, w) \<Rightarrow>
                (Reply 200 (json_obj [(''state'', JStr ''COMPLETED''), (''statusCode'', JNum (PosInt 200)), (''id'', JStr i)]),
                 x\<lparr>rv_world := w, rv_store := emit_resource_delta env t i body (rv_store x)\<rparr>)
            | (Inl e, w) \<Rightarrow> (resource_error e, x\<lparr>rv_world := w\<rparr>)))"

definition change_resource :: "store_env \<Rightarrow> string \<Rightarrow> string \<Rightarrow> json \<Rightarrow> unit plugin_result \<times> 'w \<Rightarrow> 'w resource_server
    \<Rightarrow> reply \<times> 'w resource_server" where
  "change_resource env t i v done x =
     (case done of
        (Inr _, w) \<Rightarrow> (Empty 200, x\<lparr>rv_world := w, rv_store := emit_resource_delta env t i v (rv_store x)\<rparr>)
      | (Inl e, w) \<Rightarrow> (change_error e, x\<lparr>rv_world := w\<rparr>))"

definition update_resource :: "store_env \<Rightarrow> string \<Rightarrow> string \<Rightarrow> resource_query \<Rightarrow> json \<Rightarrow> 'w resource_server
    \<Rightarrow> reply \<times> 'w resource_server" where
  "update_resource env t i q body x =
     (if \<not> resource_name_ok t then (bad_resource_name t, x)
      else change_resource env t i body (reg_update t i body (rq_provider q) (rv_registry x) (rv_world x)) x)"

definition delete_resource :: "store_env \<Rightarrow> string \<Rightarrow> string \<Rightarrow> resource_query \<Rightarrow> 'w resource_server
    \<Rightarrow> reply \<times> 'w resource_server" where
  "delete_resource env t i q x =
     (if \<not> resource_name_ok t then (bad_resource_name t, x)
      else change_resource env t i JNull (reg_delete t i (rq_provider q) (rv_registry x) (rv_world x)) x)"

definition list_providers :: "string \<Rightarrow> 'w resource_server \<Rightarrow> reply" where
  "list_providers t x =
     (if \<not> resource_name_ok t then bad_resource_name t
      else Reply 200 (JArr (map JStr (reg_provider_ids t (rv_registry x)))))"

definition get_default_provider :: "string \<Rightarrow> 'w resource_server \<Rightarrow> reply" where
  "get_default_provider t x =
     (if \<not> resource_name_ok t then bad_resource_name t
      else Reply 200 (json_obj [(''id'', JStr (reg_active_provider_id t (rv_registry x)))]))"

definition set_default_provider :: "string \<Rightarrow> string \<Rightarrow> 'w resource_server \<Rightarrow> reply \<times> 'w resource_server" where
  "set_default_provider t pid x =
     (if \<not> resource_name_ok t then (bad_resource_name t, x)
      else (case reg_set_default t pid (rv_registry x) of
              (Inr _, rg) \<Rightarrow> (Empty 200, x\<lparr>rv_registry := rg\<rparr>)
            | (Inl e, rg) \<Rightarrow> (resource_error e, x\<lparr>rv_registry := rg\<rparr>)))"

end
