(* ===== verification/ApiV2Spec.thy ===== *)
theory ApiV2Spec
  imports ApiV2 CourseSpec
begin

text \<open>
  What the version 2 handlers promise: one of the registered autopilots is the default, a request
  reaches the device it names and no other, a change of a resource is announced exactly when it
  succeeded. One request advances the course before it looks for the device.
\<close>

section \<open>The default autopilot\<close>

datatype 'w manager_request = Register "'w autopilot_provider" string | Set_default string

fun manager_step :: "'w manager_request \<Rightarrow> 'w autopilot_manager \<Rightarrow> 'w autopilot_manager" where
  "manager_step (Register p plugin) vm = vm_register p plugin vm"
| "manager_step (Set_default i) vm = snd (vm_set_default i vm)"

definition manager_ok :: "'w autopilot_manager \<Rightarrow> bool" where
  "manager_ok vm \<longleftrightarrow> hm_ok (vm_providers vm) \<and>
     (case vm_default_id vm of None \<Rightarrow> vm_providers vm = [] | Some i \<Rightarrow> i \<in> fst ` set (vm_providers vm))"

lemma manager_ok_new: "manager_ok autopilot_manager_new"
  by (simp add: manager_ok_def autopilot_manager_new_def)

lemma manager_ok_step: "manager_ok vm \<Longrightarrow> manager_ok (manager_step q vm)"
  by (cases q) (auto simp: manager_ok_def vm_register_def vm_set_default_def Let_def keys_hm_insert rev_image_eqI
      split: option.splits if_splits)

lemma manager_ok_run: "manager_ok vm \<Longrightarrow> manager_ok (fold manager_step qs vm)"
  by (induction qs arbitrary: vm) (simp_all add: manager_ok_step)

lemma one_key: "distinct (map fst m) \<Longrightarrow> k \<in> fst ` set m \<Longrightarrow> length (filter (\<lambda>e. k = fst e) m) = 1"
proof (induction m)
  case (Cons a m)
  then show ?case by (cases "fst a = k") (auto simp: filter_empty_conv rev_image_eqI)
qed simp

lemma listed_default:
  "length (filter (\<lambda>(i, plugin, d). d) (vm_list vm)) = length (filter (\<lambda>e. vm_default_id vm = Some (fst e)) (vm_providers vm))"
  by (simp add: vm_list_def filter_map comp_def case_prod_beta)



section \<open>Requests to a device\<close>

definition refused :: "reply \<Rightarrow> bool" where
  "refused r \<longleftrightarrow> (case r of Reply n _ \<Rightarrow> 400 \<le> n | Plain n _ \<Rightarrow> 400 \<le> n | Empty n \<Rightarrow> 400 \<le> n)"

lemma refused_message [simp]: "refused (message_reply n m) \<longleftrightarrow> 400 \<le> n"
  by (simp add: refused_def message_reply_def)

lemma call_pilot_unknown: "resolve_provider i (sv_pilots x) = None \<Longrightarrow> call_pilot i c x = Some (pilot_not_found i, x)"
  by (simp add: call_pilot_def)

text \<open>A request to an unknown autopilot is refused and changes nothing, apart from the
  request for the next point.\<close>

theorem unknown_autopilot_changes_nothing:
  assumes "resolve_provider i (sv_pilots x) = None" and "q \<noteq> Post_course_next_point"
  shows "\<exists>r. pilot_api_handler env i q x = Some (r, x) \<and> refused r"
  using assms(2)
  by (cases q) (auto simp: with_text_def with_angle_def with_direction_def call_pilot_unknown [OF assms(1)]
      pilot_not_found_def bad_direction_def split: option.split)

theorem unknown_autopilot_changes_nothing_witness:
  "\<exists>r. pilot_api_handler demo_env ''aft'' Post_engage
      \<lparr>sv_course = demo_route, sv_pilots = autopilot_manager_new, sv_world = (\<lambda>_. autopilot_state_new Wind)\<rparr>
    = Some (r, \<lparr>sv_course = demo_route, sv_pilots = autopilot_manager_new, sv_world = (\<lambda>_. autopilot_state_new Wind)\<rparr>) \<and> refused r"
  by (rule unknown_autopilot_changes_nothing)
    (simp_all add: resolve_provider_def vm_resolve_id_def autopilot_manager_new_def)

text \<open>The request for the next point moves the course on before it looks for the device:
  for an unknown autopilot it is answered as not found, with the course already advanced.\<close>

theorem next_point_moves_course_first:
  assumes "resolve_provider i (sv_pilots x) = None" and "advance_next_point env 1 (sv_course x) = (Inr (), cm)"
  shows "pilot_api_handler env i Post_course_next_point x = Some (pilot_not_found i, x\<lparr>sv_course := cm\<rparr>)"
  using assms by (simp add: call_pilot_unknown)

lemma demo_route_advances:
  "\<exists>cm c r. advance_next_point demo_env 1 demo_route = (Inr (), cm) \<and> cm_state cm = Some c
     \<and> cs_active_route c = Some r \<and> ar_point_index r = 1"
proof -
  obtain c r where c: "cm_state demo_route = Some c" "cs_active_route c = Some r" "ar_href r = demo_href"
      "ar_point_index r = 0"
    using demo_route_state by blast
  have io: "ce_io demo_env = Inr ()" by (simp add: demo_env_def)
  show ?thesis
    using c demo_resolve io
    by (auto simp: advance_next_point_def with_route_def with_course_def go_to_point_def store_course_def Let_def
        persist_and_emit_def persist_state_def emit_deltas_def cm_write_def)
qed

theorem next_point_moves_course_first_witness:
  "\<exists>cm c r. pilot_api_handler demo_env ''aft'' Post_course_next_point
        \<lparr>sv_course = demo_route, sv_pilots = autopilot_manager_new, sv_world = ()\<rparr>
      = Some (pilot_not_found ''aft'', \<lparr>sv_course = cm, sv_pilots = autopilot_manager_new, sv_world = ()\<rparr>)
    \<and> cm_state cm = Some c \<and> cs_active_route c = Some r \<and> ar_point_index r = 1"
proof -
  let ?x = "\<lparr>sv_course = demo_route, sv_pilots = autopilot_manager_new, sv_world = ()\<rparr>"
  obtain cm c r where a: "advance_next_point demo_env 1 demo_route = (Inr (), cm)" and c: "cm_state cm = Some c"
      "cs_active_route c = Some r" "ar_point_index r = 1"
    using demo_route_advances by blast
  have n: "resolve_provider ''aft'' (sv_pilots ?x) = None"
    by (simp add: resolve_provider_def vm_resolve_id_def autopilot_manager_new_def)
  have "advance_next_point demo_env 1 (sv_course ?x) = (Inr (), cm)" using a by simp
  from next_point_moves_course_first [OF n this] c show ?thesis by auto
qed

text \<open>A request that is answered changes no other device than the one it names, and
  leaves the registered autopilots and the default as they are.\<close>

theorem request_changes_one_device:
  assumes "resolve_provider i (sv_pilots x) = Some (provider_handle j)"
    and "pilot_api_handler env i q x = Some (r, y)" and "k \<noteq> j"
  shows "sv_world y k = sv_world x k \<and> sv_pilots y = sv_pilots x"
proof -
  have call: "sv_world y k = sv_world x' k \<and> sv_pilots y = sv_pilots x'"
    if "call_pilot i c x' = Some (r, y)" "sv_pilots x' = sv_pilots x" for c x'
    using that assms(1,3) by (auto simp: call_pilot_def provider_handle_def)
  show ?thesis
  proof (cases q)
    case Post_course_next_point
    then show ?thesis
      using assms(2) call [of Call_course_next_point] by (auto split: prod.splits sum.splits)
  qed (use assms(2) call in \<open>auto simp: with_text_def with_angle_def with_direction_def split: option.splits\<close>)
qed

theorem request_changes_one_device_witness:
  "let x = \<lparr>sv_course = demo_route, sv_pilots = vm_register (provider_handle ''aft'') ''autopilot'' autopilot_manager_new,
            sv_world = (\<lambda>_. autopilot_state_new Compass)\<rparr>
   in \<exists>r y. pilot_api_handler demo_env ''_default'' Post_engage x = Some (r, y) \<and> r = Empty 204
     \<and> ap_enabled (sv_world y ''aft'') \<and> sv_world y ''fore'' = autopilot_state_new Compass"
proof -
  let ?x = "\<lparr>sv_course = demo_route, sv_pilots = vm_register (provider_handle ''aft'') ''autopilot'' autopilot_manager_new,
            sv_world = (\<lambda>_. autopilot_state_new Compass)\<rparr>"
  have p: "resolve_provider ''_default'' (sv_pilots ?x) = Some (provider_handle ''aft'')"
    by (simp add: resolve_provider_def vm_resolve_id_def vm_get_def vm_register_def autopilot_manager_new_def
        provider_handle_def Let_def)
  then have h: "pilot_api_handler demo_env ''_default'' Post_engage ?x
      = Some (Empty 204, ?x\<lparr>sv_world := (sv_world ?x)(''aft'' := pilot_engage (sv_world ?x ''aft''))\<rparr>)"
    by (simp add: call_pilot_def provider_handle_def)
  have "''fore'' \<noteq> ''aft''" by simp
  from request_changes_one_device [OF p h this] h show ?thesis by (auto simp: Let_def pilot_engage_def)
qed

section \<open>Announcing resources\<close>

lemma emit_resource_eq: "emit_resource_delta env t i v s = broadcast (resource_delta (se_utc env) t i v) s"
proof -
  have "strip_prefix ''vessels.'' (resolve_context s (Some ''resources'')) = None"
    by (simp add: resolve_context_def strip_prefix_None starts_with_def split: option.split)
  then show ?thesis by (simp add: emit_resource_delta_def apply_delta_def resource_delta_def with_context_def)
qed

lemma change_announced:
  shows "create_resource env t q v x = (r, y) \<Longrightarrow>
      if refused r then rv_store y = rv_store x
      else \<exists>i. rv_store y = (rv_store x)\<lparr>st_sent := st_sent (rv_store x) @ [resource_delta (se_utc env) t i v]\<rparr>"
    and "update_resource env t i q v x = (r, y) \<Longrightarrow>
      if refused r then rv_store y = rv_store x
      else rv_store y = (rv_store x)\<lparr>st_sent := st_sent (rv_store x) @ [resource_delta (se_utc env) t i v]\<rparr>"
    and "delete_resource env t i q x = (r, y) \<Longrightarrow>
      if refused r then rv_store y = rv_store x
      else rv_store y = (rv_store x)\<lparr>st_sent := st_sent (rv_store x) @ [resource_delta (se_utc env) t i JNull]\<rparr>"
  by (auto simp: create_resource_def update_resource_def delete_resource_def change_resource_def refused_def
      bad_resource_name_def resource_error_def change_error_def emit_resource_eq broadcast_def
      split: if_splits prod.splits sum.splits)


definition demo_resources :: "disk resource_server" where
  "demo_resources = \<lparr>rv_store = store_new ''urn:ada'',
     rv_registry = registry_new (file_provider (\<lambda>_. Some (JBool True)) (\<lambda>_. ''true'') ''1''), rv_world = []\<rparr>"


end
