(* ===== verification/StoreTyping.thy ===== *)
theory StoreTyping
  imports StoreSpec
begin

text \<open>
  The store is well formed, whatever deltas and settings it was given: no map has a key twice, the
  own vessel is there, every value was sent by a source that is registered and counted, and a
  value that is kept for a source names that source.
\<close>

declare map_of_eq_Some_iff [simp del]

definition known :: "'v hmap \<Rightarrow> string \<Rightarrow> bool" where
  "known m k \<longleftrightarrow> map_of m k \<noteq> None"

lemma known_simps [simp]:
  "known (hm_insert k v m) k' \<longleftrightarrow> k' = k \<or> known m k'"
  "known (hm_or_insert k v m) k' \<longleftrightarrow> k' = k \<or> known m k'"
  by (auto simp: known_def)

definition typed_vessel :: "source hmap \<Rightarrow> vessel_data \<Rightarrow> bool" where
  "typed_vessel srcs v \<longleftrightarrow> hm_ok (v_values v) \<and>
     (\<forall>p x. map_of (v_values v) p = Some x \<longrightarrow> known srcs (sk_source x))"

definition typed_sources :: "source hmap \<Rightarrow> signalk_value hmap \<Rightarrow> bool" where
  "typed_sources srcs m \<longleftrightarrow> hm_ok m \<and>
     (\<forall>src x. map_of m src = Some x \<longrightarrow> sk_source x = src \<and> known srcs src)"

definition source_label :: "source_ref \<Rightarrow> string" where
  "source_label src = hd (split_on CHR ''.'' src)"

definition store_typed :: "store \<Rightarrow> bool" where
  "store_typed s \<longleftrightarrow> hm_ok (st_vessels s) \<and> hm_ok (st_sources s) \<and> hm_ok (st_multi s) \<and> hm_ok (st_source_counts s)
     \<and> known (st_vessels s) (st_self_uri s)
     \<and> (\<forall>u v. map_of (st_vessels s) u = Some v \<longrightarrow> typed_vessel (st_sources s) v)
     \<and> (\<forall>p m. map_of (st_multi s) p = Some m \<longrightarrow> typed_sources (st_sources s) m)
     \<and> (\<forall>src. known (st_sources s) src \<longrightarrow> known (st_source_counts s) (source_label src))"

named_theorems typing_intros

lemma typed_vessel_default [typing_intros]: "v_values v = [] \<Longrightarrow> typed_vessel srcs v"
  by (simp add: typed_vessel_def)

lemma typed_sources_Nil [typing_intros]: "typed_sources srcs []"
  by (simp add: typed_sources_def)

lemma typed_vessel_insert [typing_intros]:
  "typed_vessel srcs v \<Longrightarrow> known srcs (sk_source x) \<Longrightarrow>
     typed_vessel srcs (v\<lparr>v_values := hm_insert p x (v_values v)\<rparr>)"
  by (auto simp: typed_vessel_def hm_insert_ok)

lemma typed_sources_insert [typing_intros]:
  "typed_sources srcs m \<Longrightarrow> known srcs src \<Longrightarrow> sk_source x = src \<Longrightarrow> typed_sources srcs (hm_insert src x m)"
  by (auto simp: typed_sources_def hm_insert_ok)

lemma typed_sources_remove [typing_intros]: "typed_sources srcs m \<Longrightarrow> typed_sources srcs (hm_remove src m)"
  by (auto simp: typed_sources_def hm_remove_ok)

lemma typed_more_sources:
  assumes "\<And>src. known srcs src \<Longrightarrow> known srcs' src"
  shows "typed_vessel srcs v \<Longrightarrow> typed_vessel srcs' v" and "typed_sources srcs m \<Longrightarrow> typed_sources srcs' m"
  using assms unfolding typed_vessel_def typed_sources_def by blast+

lemma typed_set_vessel [typing_intros]:
  assumes "store_typed s" and "typed_vessel (st_sources s) v"
  shows "store_typed (s\<lparr>st_vessels := hm_insert u v (st_vessels s)\<rparr>)"
  using assms unfolding store_typed_def by (simp add: hm_insert_ok)

lemma typed_set_multi [typing_intros]:
  assumes "store_typed s" and "typed_sources (st_sources s) m"
  shows "store_typed (s\<lparr>st_multi := hm_insert p m (st_multi s)\<rparr>)"
  using assms unfolding store_typed_def by (simp add: hm_insert_ok)

lemma typed_value:
  assumes "store_typed s" and "known (st_sources s) (sk_source x)"
  shows "store_typed (set_vessel_value u p x s)"
proof -
  have "typed_vessel (st_sources s) (unwrap_or (map_of (st_vessels s) u) vessel_default)"
    using assms(1) by (cases "map_of (st_vessels s) u")
      (simp_all add: store_typed_def typed_vessel_default vessel_default_def)
  then show ?thesis
    using assms by (simp add: set_vessel_value_def Let_def typing_intros)
qed

lemma typed_note:
  assumes "store_typed s" and "known (st_sources s) src" and "sk_source x = src"
  shows "store_typed (note_source u src x p s)"
proof -
  have "typed_sources (st_sources s) (unwrap_or (map_of (st_multi s) p) [])"
    using assms(1) by (cases "map_of (st_multi s) p") (simp_all add: store_typed_def typed_sources_Nil)
  then show ?thesis
    using assms by (simp add: note_source_def multi_insert_def typing_intros)
qed

lemma typed_evict: "store_typed s \<Longrightarrow> store_typed (multi_evict p src s)"
  by (auto simp: multi_evict_def split: option.split intro!: typing_intros) (simp add: store_typed_def)

lemma set_value_sources [simp]:
  "st_sources (set_vessel_value u p x s) = st_sources s" "st_sources (multi_evict p src s) = st_sources s"
  by (auto simp: set_vessel_value_def multi_evict_def Let_def split: option.split)

lemma typed_apply_value:
  assumes "store_typed s" and "known (st_sources s) src"
    and "apply_value now u src ts pv (s, ap) = (s', ap')"
  shows "store_typed s'" and "st_sources s' = st_sources s"
proof -
  let ?x = "signalk_value_new (pv_value pv) src ts" and ?n = "note_source u src (signalk_value_new (pv_value pv) src ts) (pv_path pv) s"
  have x: "sk_source ?x = src" by (simp add: signalk_value_new_def)
  have n: "store_typed ?n" "st_sources ?n = st_sources s" using typed_note [OF assms(1,2) x] by simp_all
  show "store_typed s'" "st_sources s' = st_sources s"
    using assms(2,3) n typed_value [of _ ?x] typed_evict [OF n(1)] x
    by (auto simp: apply_value_def Let_def split: if_splits option.splits)
qed

lemma typed_apply_values:
  assumes "store_typed s" and "known (st_sources s) src"
    and "fold (apply_value now u src ts) pvs (s, ap) = (s', ap')"
  shows "store_typed s'"
  using assms
proof (induction pvs arbitrary: s ap)
  case (Cons pv pvs)
  obtain s1 ap1 where 1: "apply_value now u src ts pv (s, ap) = (s1, ap1)"
    by (cases "apply_value now u src ts pv (s, ap)")
  with Cons.IH [of s1 ap1] Cons.prems typed_apply_value [OF Cons.prems(1,2) 1] show ?case by simp
qed simp

lemma typed_register:
  assumes "store_typed s"
  shows "store_typed (register_source src so s)" and "known (st_sources (register_source src so s)) src"
proof -
  let ?srcs = "hm_or_insert src so (st_sources s)"
  have more: "known ?srcs r" if "known (st_sources s) r" for r
    using that by auto
  have counted: "known (hm_insert (source_label src) n (st_source_counts s)) (source_label r)"
    if "known ?srcs r" for n r
    using that assms unfolding store_typed_def by (cases "r = src") (auto split: if_splits)
  show "store_typed (register_source src so s)"
    using assms typed_more_sources [OF more] counted
    unfolding store_typed_def register_source_def source_label_def [symmetric]
    by (simp add: Let_def hm_or_insert_ok hm_insert_ok del: map_of_hm_or_insert map_of_hm_insert)
  show "known (st_sources (register_source src so s)) src"
    by (simp add: register_source_def Let_def)
qed

lemma typed_apply_update:
  assumes "store_typed s" and "apply_update disp now u up (s, us) = (s', us')"
  shows "store_typed s'"
  using assms(2) typed_apply_values [OF typed_register [OF assms(1)]]
  by (simp add: apply_update_def Let_def split: prod.splits)

lemma typed_apply_updates:
  "store_typed s \<Longrightarrow> fold (apply_update disp now u) ups (s, us) = (s', us') \<Longrightarrow> store_typed s'"
proof (induction ups arbitrary: s us)
  case (Cons up ups)
  obtain s1 us1 where 1: "apply_update disp now u up (s, us) = (s1, us1)"
    by (cases "apply_update disp now u up (s, us)")
  with Cons.IH [of s1 us1] Cons.prems typed_apply_update [OF Cons.prems(1) 1] show ?case by simp
qed simp

lemma typed_ensure: "store_typed s \<Longrightarrow> store_typed (ensure_vessel u s)"
proof -
  assume "store_typed s"
  then have "store_typed (s\<lparr>st_vessels := hm_insert u vessel_default (st_vessels s)\<rparr>)"
    by (intro typing_intros) (simp_all add: vessel_default_def)
  then show ?thesis
    using \<open>store_typed s\<close> by (simp add: ensure_vessel_def hm_or_insert_def split: option.split)
qed

lemma typed_frame:
  "store_typed s \<Longrightarrow> st_vessels t = st_vessels s \<Longrightarrow> st_sources t = st_sources s \<Longrightarrow> st_multi t = st_multi s \<Longrightarrow>
     st_source_counts t = st_source_counts s \<Longrightarrow> st_self_uri t = st_self_uri s \<Longrightarrow> store_typed t"
  by (simp add: store_typed_def)

lemma typed_delta: "store_typed s \<Longrightarrow> store_typed (apply_delta disp now d s)"
proof -
  assume s: "store_typed s"
  have t: "store_typed s'" if "fold (apply_update disp now u) (d_updates d) (ensure_vessel u s, []) = (s', us)" for u s' us
    by (rule typed_apply_updates [OF typed_ensure [OF s] that])
  then show ?thesis
    using s by (auto simp: apply_delta_def broadcast_def Let_def split: option.split prod.split intro: typed_frame [OF s] typed_frame [OF t])
qed

lemma typed_identity: "store_typed s \<Longrightarrow> store_typed (set_vessel_identity u n m s)"
proof (cases "map_of (st_vessels s) u")
  case (Some v)
  assume s: "store_typed s"
  have "typed_vessel (st_sources s) (v\<lparr>v_name := a, v_mmsi := b\<rparr>)" for a b
    using s Some by (simp add: store_typed_def typed_vessel_def)
  moreover obtain a b where "set_vessel_identity u n m s
      = s\<lparr>st_vessels := hm_insert u (v\<lparr>v_name := a, v_mmsi := b\<rparr>) (st_vessels s)\<rparr>"
  proof -
    have "\<exists>a b. set_vessel_identity u n m s = s\<lparr>st_vessels := hm_insert u (v\<lparr>v_name := a, v_mmsi := b\<rparr>) (st_vessels s)\<rparr>"
      using Some by (auto simp: set_vessel_identity_def Let_def split: option.split)
        (metis vessel_data.surjective vessel_data.update_convs(2,3))+
    then show ?thesis using that by blast
  qed
  ultimately show ?thesis using s by (simp add: typing_intros)
qed (simp add: set_vessel_identity_def)

lemma typed_new: "store_typed (store_new u)"
  by (simp add: store_typed_def store_new_def typed_vessel_def vessel_default_def known_def)

declare map_of_eq_Some_iff [simp]



end
