(* ===== verification/ConfigStore.thy ===== *)
theory ConfigStore
  imports Files Store
begin

text \<open>
  \<^verbatim>\<open>signalk-server/src/config_store.rs\<close>: the configuration that changes at run time, kept in
  a table of the database with a cache in memory, the requests of \<^verbatim>\<open>api/server_routes.rs\<close>
  that change it together with the data store, and the data store that the server starts with.
  The table is the list of its rows by namespace and key, its primary key; the time stamps of the
  rows are left out. The text of JSON values is an argument.
\<close>

record plugin_config_entry =
  ke_enabled :: bool
  ke_config :: json

record config_cache =
  kc_vessel_uuid :: string
  kc_vessel_name :: "string option"
  kc_vessel_mmsi :: "string option"
  kc_priorities :: "u16 hmap"
  kc_ttls :: "u64 hmap"
  kc_plugins :: "plugin_config_entry hmap"

type_synonym config_rows = "((string \<times> string) \<times> string) list"

record config_store =
  ks_db :: config_rows
  ks_cache :: config_cache

record seed_config =
  sd_uuid :: string
  sd_name :: "string option"
  sd_mmsi :: "string option"
  sd_priorities :: "u16 hmap"
  sd_ttls :: "u64 hmap"
  sd_plugins :: "(string \<times> plugin_config_entry) list"

record json_text =
  jt_print :: "json \<Rightarrow> string"
  jt_parse :: "string \<Rightarrow> json option"

section \<open>Rows\<close>

definition json_str :: "json_text \<Rightarrow> string \<Rightarrow> string" where
  "json_str x s = jt_print x (JStr s)"

definition from_json_str :: "json_text \<Rightarrow> string \<Rightarrow> string" where
  "from_json_str x t = unwrap_or (Option.bind (jt_parse x t) as_str) t"

definition json_u16 :: "u16 \<Rightarrow> json" where
  "json_u16 n = JNum (PosInt (ucast n))"

definition u16_of_json :: "json \<Rightarrow> u16 option" where
  "u16_of_json v = Option.bind (as_u64 v) (\<lambda>n. if unat n < 2 ^ 16 then Some (ucast n) else None)"

definition json_u64 :: "u64 \<Rightarrow> json" where
  "json_u64 n = JNum (PosInt n)"

definition entry_to_json :: "plugin_config_entry \<Rightarrow> json" where
  "entry_to_json e = json_obj [(''enabled'', JBool (ke_enabled e)), (''config'', ke_config e)]"

definition entry_of_json :: "json \<Rightarrow> plugin_config_entry option" where
  "entry_of_json v =
     Option.bind (struct_field [''enabled'', ''config''] v) (\<lambda>f.
     Option.bind (Option.bind (f ''enabled'') as_bool) (\<lambda>b.
       Some \<lparr>ke_enabled = b, ke_config = unwrap_or (f ''config'') (JObj [])\<rparr>))"

definition upsert :: "string \<Rightarrow> string \<Rightarrow> string \<Rightarrow> config_rows \<Rightarrow> config_rows" where
  "upsert ns k v db = AList.update (ns, k) v db"

definition delete_row :: "string \<Rightarrow> string \<Rightarrow> config_rows \<Rightarrow> config_rows" where
  "delete_row ns k db = AList.delete (ns, k) db"

definition delete_namespace :: "string \<Rightarrow> config_rows \<Rightarrow> config_rows" where
  "delete_namespace ns db = filter (\<lambda>((n, _), _). n \<noteq> ns) db"

definition upsert_all :: "string \<Rightarrow> ('a \<Rightarrow> string) \<Rightarrow> (string \<times> 'a) list \<Rightarrow> config_rows \<Rightarrow> config_rows" where
  "upsert_all ns f kvs db = fold (\<lambda>(k, v). upsert ns k (f v)) kvs db"

section \<open>Loading\<close>

definition upsert_opt :: "string \<Rightarrow> string \<Rightarrow> string option \<Rightarrow> config_rows \<Rightarrow> config_rows" where
  "upsert_opt ns k v db = (case v of Some t \<Rightarrow> upsert ns k t db | None \<Rightarrow> db)"

definition seed_from_config :: "json_text \<Rightarrow> seed_config \<Rightarrow> config_rows \<Rightarrow> config_rows" where
  "seed_from_config x sd db =
     upsert_all ''plugins'' (\<lambda>e. jt_print x (entry_to_json e)) (sd_plugins sd)
    (upsert_all ''source_ttls'' (\<lambda>n. jt_print x (json_u64 n)) (sd_ttls sd)
    (upsert_all ''source_priorities'' (\<lambda>n. jt_print x (json_u16 n)) (sd_priorities sd)
    (upsert_opt ''server'' ''vessel_mmsi'' (map_option (json_str x) (sd_mmsi sd))
    (upsert_opt ''server'' ''vessel_name'' (map_option (json_str x) (sd_name sd))
    (upsert ''server'' ''vessel_uuid'' (json_str x (sd_uuid sd)) db)))))"

definition cache_empty :: config_cache where
  "cache_empty = \<lparr>kc_vessel_uuid = [], kc_vessel_name = None, kc_vessel_mmsi = None,
     kc_priorities = [], kc_ttls = [], kc_plugins = []\<rparr>"

definition insert_opt :: "string \<Rightarrow> 'a option \<Rightarrow> 'a hmap \<Rightarrow> 'a hmap" where
  "insert_opt k v m = (case v of Some a \<Rightarrow> hm_insert k a m | None \<Rightarrow> m)"

definition load_server_row :: "json_text \<Rightarrow> string \<Rightarrow> string \<Rightarrow> config_cache \<Rightarrow> config_cache" where
  "load_server_row x k v c =
     (if k = ''vessel_uuid'' then c\<lparr>kc_vessel_uuid := from_json_str x v\<rparr>
      else if k = ''vessel_name'' then c\<lparr>kc_vessel_name := Some (from_json_str x v)\<rparr>
      else if k = ''vessel_mmsi'' then c\<lparr>kc_vessel_mmsi := Some (from_json_str x v)\<rparr>
      else c)"

definition load_row :: "json_text \<Rightarrow> (string \<times> string) \<times> string \<Rightarrow> config_cache \<Rightarrow> config_cache" where
  "load_row x = (\<lambda>((ns, k), v) c.
     if ns = ''server'' then load_server_row x k v c
     else if ns = ''source_priorities'' then c\<lparr>kc_priorities := insert_opt k (Option.bind (jt_parse x v) u16_of_json) (kc_priorities c)\<rparr>
     else if ns = ''source_ttls'' then c\<lparr>kc_ttls := insert_opt k (Option.bind (jt_parse x v) as_u64) (kc_ttls c)\<rparr>
     else if ns = ''plugins'' then c\<lparr>kc_plugins := insert_opt k (Option.bind (jt_parse x v) entry_of_json) (kc_plugins c)\<rparr>
     else c)"

definition load_cache :: "json_text \<Rightarrow> string \<Rightarrow> config_rows \<Rightarrow> config_cache" where
  "load_cache x uuid db =
     (let c = fold (load_row x) db cache_empty
      in if kc_vessel_uuid c = [] then c\<lparr>kc_vessel_uuid := ''urn:mrn:signalk:uuid:'' @ uuid\<rparr> else c)"

definition config_store_new :: "json_text \<Rightarrow> string \<Rightarrow> seed_config \<Rightarrow> config_rows \<Rightarrow> config_store" where
  "config_store_new x uuid sd db =
     (let db1 = (if db = [] then seed_from_config x sd db else db)
      in \<lparr>ks_db = db1, ks_cache = load_cache x uuid db1\<rparr>)"

section \<open>Changing\<close>

definition set_vessel_field :: "json_text \<Rightarrow> string \<Rightarrow> string option \<Rightarrow> config_rows \<Rightarrow> config_rows" where
  "set_vessel_field x k v db = (case v of Some s \<Rightarrow> upsert ''server'' k (json_str x s) db | None \<Rightarrow> delete_row ''server'' k db)"

definition set_vessel :: "json_text \<Rightarrow> string option \<Rightarrow> string option \<Rightarrow> config_store \<Rightarrow> config_store" where
  "set_vessel x name mmsi ks =
     \<lparr>ks_db = set_vessel_field x ''vessel_mmsi'' mmsi (set_vessel_field x ''vessel_name'' name (ks_db ks)),
      ks_cache = (ks_cache ks)\<lparr>kc_vessel_name := name, kc_vessel_mmsi := mmsi\<rparr>\<rparr>"

definition set_vessel_uuid :: "json_text \<Rightarrow> string \<Rightarrow> config_store \<Rightarrow> config_store" where
  "set_vessel_uuid x u ks =
     \<lparr>ks_db = upsert ''server'' ''vessel_uuid'' (json_str x u) (ks_db ks), ks_cache = (ks_cache ks)\<lparr>kc_vessel_uuid := u\<rparr>\<rparr>"

definition config_set_priorities :: "json_text \<Rightarrow> u16 hmap \<Rightarrow> config_store \<Rightarrow> config_store" where
  "config_set_priorities x m ks =
     \<lparr>ks_db = upsert_all ''source_priorities'' (\<lambda>n. jt_print x (json_u16 n)) m (delete_namespace ''source_priorities'' (ks_db ks)),
      ks_cache = (ks_cache ks)\<lparr>kc_priorities := m\<rparr>\<rparr>"

definition config_set_ttls :: "json_text \<Rightarrow> u64 hmap \<Rightarrow> config_store \<Rightarrow> config_store" where
  "config_set_ttls x m ks =
     \<lparr>ks_db = upsert_all ''source_ttls'' (\<lambda>n. jt_print x (json_u64 n)) m (delete_namespace ''source_ttls'' (ks_db ks)),
      ks_cache = (ks_cache ks)\<lparr>kc_ttls := m\<rparr>\<rparr>"

definition put_plugin_entry :: "json_text \<Rightarrow> string \<Rightarrow> plugin_config_entry \<Rightarrow> config_store \<Rightarrow> config_store" where
  "put_plugin_entry x i e ks =
     \<lparr>ks_db = upsert ''plugins'' i (jt_print x (entry_to_json e)) (ks_db ks),
      ks_cache = (ks_cache ks)\<lparr>kc_plugins := hm_insert i e (kc_plugins (ks_cache ks))\<rparr>\<rparr>"

definition plugin_config :: "string \<Rightarrow> config_store \<Rightarrow> plugin_config_entry option" where
  "plugin_config i ks = map_of (kc_plugins (ks_cache ks)) i"

definition set_plugin_config :: "json_text \<Rightarrow> string \<Rightarrow> json \<Rightarrow> config_store \<Rightarrow> config_store" where
  "set_plugin_config x i v ks =
     put_plugin_entry x i ((unwrap_or (plugin_config i ks) \<lparr>ke_enabled = True, ke_config = JObj []\<rparr>)\<lparr>ke_config := v\<rparr>) ks"

definition set_plugin_enabled :: "json_text \<Rightarrow> string \<Rightarrow> bool \<Rightarrow> config_store \<Rightarrow> config_store" where
  "set_plugin_enabled x i b ks =
     put_plugin_entry x i ((unwrap_or (plugin_config i ks) \<lparr>ke_enabled = b, ke_config = JObj []\<rparr>)\<lparr>ke_enabled := b\<rparr>) ks"

section \<open>The data store\<close>

text \<open>The data store when the server starts, and the requests that change both.\<close>

definition start_store :: "config_store \<Rightarrow> store" where
  "start_store ks =
     (let c = ks_cache ks; u = kc_vessel_uuid c;
          s = set_vessel_identity u (kc_vessel_name c) (kc_vessel_mmsi c) (store_new u);
          s1 = (if kc_priorities c = [] then s else set_source_priorities (map_of (kc_priorities c)) s)
      in if kc_ttls c = [] then s1 else set_source_ttls (map_of (kc_ttls c)) s1)"

definition put_vessel :: "json_text \<Rightarrow> json \<Rightarrow> config_store \<times> store \<Rightarrow> reply \<times> config_store \<times> store" where
  "put_vessel x body = (\<lambda>(ks, s).
     let name = Option.bind (jget ''name'' body) as_str; mmsi = Option.bind (jget ''mmsi'' body) as_str;
         ks1 = set_vessel x name mmsi ks
     in (Empty 204, ks1, set_vessel_identity (kc_vessel_uuid (ks_cache ks1)) name mmsi s))"

definition put_source_priorities :: "json_text \<Rightarrow> u16 hmap \<Rightarrow> config_store \<times> store \<Rightarrow> reply \<times> config_store \<times> store" where
  "put_source_priorities x m = (\<lambda>(ks, s).
     (Empty 204, config_set_priorities x m ks, set_source_priorities (map_of m) s))"

definition get_vessel :: "config_store \<Rightarrow> reply" where
  "get_vessel ks = Reply 200 (json_obj
     [(''name'', unwrap_or (map_option JStr (kc_vessel_name (ks_cache ks))) JNull),
      (''uuid'', JStr (kc_vessel_uuid (ks_cache ks))),
      (''mmsi'', unwrap_or (map_option JStr (kc_vessel_mmsi (ks_cache ks))) JNull)])"

end
