(* ===== verification/ConfigStoreSpec.thy ===== *)
theory ConfigStoreSpec
  imports ConfigStore StoreSpec JsonText
begin

text \<open>
  The cache of the configuration is what loading the table again gives, whatever was set: the
  configuration survives a restart. It does not for a vessel whose identity was not configured,
  and the data store in memory keeps a name that was taken out of the configuration.
\<close>

definition json_text_ok :: "json_text \<Rightarrow> bool" where
  "json_text_ok x \<longleftrightarrow> (\<forall>v. jt_parse x (jt_print x v) = Some v)"

lemma from_json_str_str [simp]: "json_text_ok x \<Longrightarrow> from_json_str x (json_str x s) = s"
  by (simp add: json_text_ok_def from_json_str_def json_str_def as_str_def)

lemma as_u64_json [simp]: "as_u64 (json_u64 n) = Some n"
  by (simp add: as_u64_def json_u64_def)

lemma u16_roundtrip [simp]: "u16_of_json (json_u16 n) = Some n"
proof -
  have less: "unat n < 2 ^ 16" using unsigned_less [of n] by simp
  have u: "unat (ucast n :: u64) = unat n"
    using less by (simp add: unsigned_ucast_eq take_bit_nat_eq_self)
  have "ucast (ucast n :: u64) = n"
    by (rule word_unat_eq_iff [THEN iffD2]) (use u less in \<open>simp add: unsigned_ucast_eq take_bit_nat_eq_self take_bit_word_eq_self\<close>)
  then show ?thesis using u less by (simp add: u16_of_json_def as_u64_def json_u16_def)
qed

lemma entry_roundtrip [simp]: "entry_of_json (entry_to_json e) = Some e"
  by (simp add: entry_of_json_def entry_to_json_def struct_json_obj as_bool_def)

section \<open>What a table holds\<close>

definition rows_text :: "json_text \<Rightarrow> string \<Rightarrow> config_rows \<Rightarrow> string option" where
  "rows_text x k db = map_option (from_json_str x) (map_of db (''server'', k))"

definition rows_map :: "json_text \<Rightarrow> string \<Rightarrow> (json \<Rightarrow> 'a option) \<Rightarrow> config_rows \<Rightarrow> string \<Rightarrow> 'a option" where
  "rows_map x ns d db k = Option.bind (map_of db (ns, k)) (\<lambda>t. Option.bind (jt_parse x t) d)"

definition holds :: "json_text \<Rightarrow> config_rows \<Rightarrow> config_cache \<Rightarrow> bool" where
  "holds x db c \<longleftrightarrow> kc_vessel_name c = rows_text x ''vessel_name'' db \<and> kc_vessel_mmsi c = rows_text x ''vessel_mmsi'' db
     \<and> map_of (kc_priorities c) = rows_map x ''source_priorities'' u16_of_json db
     \<and> map_of (kc_ttls c) = rows_map x ''source_ttls'' as_u64 db
     \<and> map_of (kc_plugins c) = rows_map x ''plugins'' entry_of_json db"

definition loaded_map :: "json_text \<Rightarrow> string \<Rightarrow> (json \<Rightarrow> 'a option) \<Rightarrow> config_rows \<Rightarrow> 'a hmap \<Rightarrow> string \<Rightarrow> 'a option" where
  "loaded_map x ns d db m k = or_else (rows_map x ns d db k) (map_of m k)"

lemma map_of_insert_opt: "map_of (insert_opt k v m) q = (if q = k then or_else v (map_of m q) else map_of m q)"
  by (simp add: insert_opt_def split: option.split)

lemma load_fields:
  "kc_vessel_uuid (load_row x ((ns, k), v) c) = (if ns = ''server'' \<and> k = ''vessel_uuid'' then from_json_str x v else kc_vessel_uuid c)"
  "kc_vessel_name (load_row x ((ns, k), v) c) = (if ns = ''server'' \<and> k = ''vessel_name'' then Some (from_json_str x v) else kc_vessel_name c)"
  "kc_vessel_mmsi (load_row x ((ns, k), v) c) = (if ns = ''server'' \<and> k = ''vessel_mmsi'' then Some (from_json_str x v) else kc_vessel_mmsi c)"
  "kc_priorities (load_row x ((ns, k), v) c) =
     (if ns = ''source_priorities'' then insert_opt k (Option.bind (jt_parse x v) u16_of_json) (kc_priorities c) else kc_priorities c)"
  "kc_ttls (load_row x ((ns, k), v) c) =
     (if ns = ''source_ttls'' then insert_opt k (Option.bind (jt_parse x v) as_u64) (kc_ttls c) else kc_ttls c)"
  "kc_plugins (load_row x ((ns, k), v) c) =
     (if ns = ''plugins'' then insert_opt k (Option.bind (jt_parse x v) entry_of_json) (kc_plugins c) else kc_plugins c)"
  by (simp_all add: load_row_def load_server_row_def)

lemma load_scalar:
  assumes "\<And>ns k v c. g (load_row x ((ns, k), v) c) = (if ns = ''server'' \<and> k = key then h v else g c)"
    and "distinct (map fst db)"
  shows "g (fold (load_row x) db c) = (case map_of db (''server'', key) of Some t \<Rightarrow> h t | None \<Rightarrow> g c)"
  using assms(2)
proof (induction db arbitrary: c)
  case (Cons a db)
  obtain ns k v where a: "a = ((ns, k), v)" by (metis surj_pair)
  show ?case
    using Cons.IH [of "load_row x a c"] Cons.prems a assms(1) [of ns k v c]
    by (auto simp: map_of_eq_None_iff split: option.split dest: map_of_SomeD) force+
qed simp

lemma load_map:
  assumes "\<And>ns' k v c. g (load_row x ((ns', k), v) c) =
      (if ns' = ns then insert_opt k (Option.bind (jt_parse x v) d) (g c) else g c)"
    and "distinct (map fst db)"
  shows "map_of (g (fold (load_row x) db c)) q = loaded_map x ns d db (g c) q"
  using assms(2)
proof (induction db arbitrary: c)
  case (Cons a db)
  obtain ns' k v where a: "a = ((ns', k), v)" by (metis surj_pair)
  have none: "map_of db (ns', k) = None" using Cons.prems a by (simp add: map_of_eq_None_iff)
  show ?case
    using Cons.IH [of "load_row x a c"] Cons.prems a assms(1) [of ns' k v c] none
    by (auto simp: loaded_map_def rows_map_def map_of_insert_opt)
qed (simp add: loaded_map_def rows_map_def)

lemma load_holds:
  assumes "distinct (map fst db)"
  shows "holds x db (load_cache x uuid db)"
proof -
  let ?c = "fold (load_row x) db cache_empty"
  have "kc_vessel_name ?c = rows_text x ''vessel_name'' db" "kc_vessel_mmsi ?c = rows_text x ''vessel_mmsi'' db"
    using load_scalar [OF load_fields(2) assms] load_scalar [OF load_fields(3) assms]
    by (simp_all add: rows_text_def cache_empty_def split: option.split)
  moreover have "map_of (kc_priorities ?c) = rows_map x ''source_priorities'' u16_of_json db"
    "map_of (kc_ttls ?c) = rows_map x ''source_ttls'' as_u64 db"
    "map_of (kc_plugins ?c) = rows_map x ''plugins'' entry_of_json db"
    using load_map [OF load_fields(4) assms] load_map [OF load_fields(5) assms] load_map [OF load_fields(6) assms]
    by (simp_all add: fun_eq_iff loaded_map_def cache_empty_def)
  ultimately show ?thesis by (simp add: holds_def load_cache_def Let_def)
qed

lemma load_uuid:
  assumes "distinct (map fst db)"
  shows "kc_vessel_uuid (load_cache x uuid db) =
    (let u = unwrap_or (rows_text x ''vessel_uuid'' db) [] in if u = [] then ''urn:mrn:signalk:uuid:'' @ uuid else u)"
  using load_scalar [OF load_fields(1) assms]
  by (simp add: load_cache_def Let_def rows_text_def cache_empty_def split: option.split)

section \<open>Changing a table\<close>

lemma map_of_upsert [simp]: "map_of (upsert ns k v db) = (map_of db)((ns, k) \<mapsto> v)"
  by (simp add: upsert_def update_conv')

lemma map_of_delete_row [simp]: "map_of (delete_row ns k db) = (map_of db)((ns, k) := None)"
  by (simp add: delete_row_def delete_conv')

lemma map_of_delete_namespace [simp]:
  "map_of (delete_namespace ns db) (n, k) = (if n = ns then None else map_of db (n, k))"
  by (induction db) (auto simp: delete_namespace_def)

lemma map_of_upsert_all:
  "distinct (map fst m) \<Longrightarrow> map_of (upsert_all ns f m db) (n, k) =
     (if n = ns then (case map_of m k of Some v \<Rightarrow> Some (f v) | None \<Rightarrow> map_of db (n, k)) else map_of db (n, k))"
proof (induction m arbitrary: db)
  case (Cons a m)
  obtain k' v where a: "a = (k', v)" by (metis surj_pair)
  have "upsert_all ns f (a # m) db = upsert_all ns f m (upsert ns k' (f v) db)" by (simp add: upsert_all_def a)
  moreover have "map_of m k' = None" using Cons.prems a by (simp add: map_of_eq_None_iff)
  ultimately show ?case using Cons.IH [of "upsert ns k' (f v) db"] Cons.prems a by (auto split: option.split)
qed (simp add: upsert_all_def)

lemma rows_distinct [inv_intros]:
  "distinct (map fst db) \<Longrightarrow> distinct (map fst (upsert ns k v db))"
  "distinct (map fst db) \<Longrightarrow> distinct (map fst (delete_row ns k db))"
  "distinct (map fst db) \<Longrightarrow> distinct (map fst (delete_namespace ns db))"
  by (simp_all add: upsert_def delete_row_def delete_namespace_def distinct_update distinct_delete distinct_map_filter)

lemma upsert_all_distinct [inv_intros]: "distinct (map fst db) \<Longrightarrow> distinct (map fst (upsert_all ns f m db))"
  by (induction m arbitrary: db) (auto simp: upsert_all_def intro: rows_distinct)

lemma rows_text_simps [simp]:
  "rows_text x k (upsert ns k' v db) = (if ns = ''server'' \<and> k' = k then Some (from_json_str x v) else rows_text x k db)"
  "rows_text x k (delete_row ns k' db) = (if ns = ''server'' \<and> k' = k then None else rows_text x k db)"
  "rows_text x k (delete_namespace ns db) = (if ns = ''server'' then None else rows_text x k db)"
  by (auto simp: rows_text_def)

lemma rows_map_simps [simp]:
  "rows_map x n d (upsert ns k v db) = (if ns = n then (rows_map x n d db)(k := Option.bind (jt_parse x v) d) else rows_map x n d db)"
  "n \<noteq> ''server'' \<Longrightarrow> rows_map x n d (delete_row ''server'' k db) = rows_map x n d db"
  "rows_map x n d (delete_namespace ns db) = (if ns = n then (\<lambda>_. None) else rows_map x n d db)"
  by (auto simp: rows_map_def fun_eq_iff)

lemma rows_text_upsert_all [simp]:
  "ns \<noteq> ''server'' \<Longrightarrow> rows_text x k (upsert_all ns f m db) = rows_text x k db"
  by (induction m arbitrary: db) (auto simp: upsert_all_def)

lemma rows_map_upsert_all:
  assumes "distinct (map fst m)" and "\<And>v. jt_parse x (f v) = Some (e v)" and "\<And>v. d (e v) = Some v"
  shows "rows_map x n d (upsert_all ns f m db) q =
     (if n = ns then or_else (map_of m q) (rows_map x n d db q) else rows_map x n d db q)"
  using assms by (auto simp: rows_map_def map_of_upsert_all split: option.split)

lemma rows_map_upsert_other [simp]:
  "n \<noteq> ns \<Longrightarrow> rows_map x n d (upsert_all ns f m db) = rows_map x n d db"
  by (induction m arbitrary: db) (auto simp: upsert_all_def)

section \<open>Requests\<close>

datatype config_request =
    Set_vessel "string option" "string option"
  | Set_uuid string
  | Set_priorities "u16 hmap"
  | Set_ttls "u64 hmap"
  | Set_plugin_config string json
  | Set_plugin_enabled string bool

fun config_step :: "json_text \<Rightarrow> config_request \<Rightarrow> config_store \<Rightarrow> config_store" where
  "config_step x (Set_vessel n m) ks = set_vessel x n m ks"
| "config_step x (Set_uuid u) ks = set_vessel_uuid x u ks"
| "config_step x (Set_priorities m) ks = config_set_priorities x m ks"
| "config_step x (Set_ttls m) ks = config_set_ttls x m ks"
| "config_step x (Set_plugin_config i v) ks = set_plugin_config x i v ks"
| "config_step x (Set_plugin_enabled i b) ks = set_plugin_enabled x i b ks"

fun request_ok :: "config_request \<Rightarrow> bool" where
  "request_ok (Set_priorities m) = hm_ok m"
| "request_ok (Set_ttls m) = hm_ok m"
| "request_ok (Set_uuid u) = (u \<noteq> [])"
| "request_ok q = True"

definition coherent :: "json_text \<Rightarrow> config_store \<Rightarrow> bool" where
  "coherent x ks \<longleftrightarrow> distinct (map fst (ks_db ks)) \<and> holds x (ks_db ks) (ks_cache ks)
     \<and> rows_text x ''vessel_uuid'' (ks_db ks) \<noteq> None
     \<and> (rows_text x ''vessel_uuid'' (ks_db ks) \<noteq> Some [] \<longrightarrow>
          rows_text x ''vessel_uuid'' (ks_db ks) = Some (kc_vessel_uuid (ks_cache ks)))"

lemma coherent_put_entry:
  assumes x: "json_text_ok x" and c: "coherent x ks"
  shows "coherent x (put_plugin_entry x i e ks)"
  using assms by (auto simp: coherent_def holds_def put_plugin_entry_def rows_distinct json_text_ok_def)

lemma coherent_step:
  assumes x: "json_text_ok x" and c: "coherent x ks" and q: "request_ok q"
  shows "coherent x (config_step x q ks)"
proof (cases q)
  case (Set_vessel n m)
  have "coherent x (set_vessel x n m ks)"
    using x c by (cases n; cases m) (auto simp: coherent_def holds_def set_vessel_def set_vessel_field_def rows_distinct)
  then show ?thesis using Set_vessel by simp
next
  case (Set_uuid u)
  then show ?thesis using x c by (simp add: coherent_def holds_def set_vessel_uuid_def rows_distinct)
next
  case (Set_priorities m)
  have "rows_map x ''source_priorities'' u16_of_json
      (upsert_all ''source_priorities'' (\<lambda>n. jt_print x (json_u16 n)) m (delete_namespace ''source_priorities'' (ks_db ks))) = map_of m"
    using rows_map_upsert_all [of m x "\<lambda>n. jt_print x (json_u16 n)" json_u16 u16_of_json] x q Set_priorities
    by (simp add: fun_eq_iff json_text_ok_def)
  then show ?thesis
    using c Set_priorities by (simp add: coherent_def holds_def config_set_priorities_def rows_distinct upsert_all_distinct)
next
  case (Set_ttls m)
  have "rows_map x ''source_ttls'' as_u64
      (upsert_all ''source_ttls'' (\<lambda>n. jt_print x (json_u64 n)) m (delete_namespace ''source_ttls'' (ks_db ks))) = map_of m"
    using rows_map_upsert_all [of m x "\<lambda>n. jt_print x (json_u64 n)" json_u64 as_u64] x q Set_ttls
    by (simp add: fun_eq_iff json_text_ok_def)
  then show ?thesis
    using c Set_ttls by (simp add: coherent_def holds_def config_set_ttls_def rows_distinct upsert_all_distinct)
qed (use coherent_put_entry [OF x c] in \<open>simp_all add: set_plugin_config_def set_plugin_enabled_def\<close>)

lemma coherent_run:
  assumes "json_text_ok x"
  shows "coherent x ks \<Longrightarrow> list_all request_ok qs \<Longrightarrow> coherent x (fold (config_step x) qs ks)"
  by (induction qs arbitrary: ks) (simp_all add: coherent_step [OF assms])

lemma seed_uuid:
  "json_text_ok x \<Longrightarrow> rows_text x ''vessel_uuid'' (seed_from_config x sd db) = Some (sd_uuid sd)"
  by (simp add: seed_from_config_def upsert_opt_def split: option.split)

lemma seed_distinct: "distinct (map fst (seed_from_config x sd []))"
  by (auto simp: seed_from_config_def upsert_opt_def intro!: rows_distinct upsert_all_distinct split: option.split)

lemma coherent_new:
  assumes "json_text_ok x"
  shows "coherent x (config_store_new x uuid sd [])"
proof -
  let ?db = "seed_from_config x sd []"
  have "holds x ?db (load_cache x uuid ?db)" by (rule load_holds [OF seed_distinct])
  moreover have "sd_uuid sd \<noteq> [] \<Longrightarrow> kc_vessel_uuid (load_cache x uuid ?db) = sd_uuid sd"
    by (simp add: load_uuid [OF seed_distinct] seed_uuid [OF assms])
  ultimately show ?thesis
    by (simp add: coherent_def config_store_new_def Let_def seed_uuid [OF assms] seed_distinct)
qed


definition stroke_json :: json_text where
  "stroke_json = \<lparr>jt_print = stroke_text, jt_parse = read_strokes\<rparr>"

lemma stroke_json_ok: "json_text_ok stroke_json"
  by (simp add: json_text_ok_def stroke_json_def)

definition demo_seed :: "string \<Rightarrow> seed_config" where
  "demo_seed u = \<lparr>sd_uuid = u, sd_name = Some ''Ada'', sd_mmsi = None, sd_priorities = [], sd_ttls = [], sd_plugins = []\<rparr>"


text \<open>A vessel whose identity is not configured gets a new one at every start: the
  generated one is not written to the table.\<close>

theorem identity_changes_on_restart:
  assumes "json_text_ok x" and "sd_uuid sd = []" and "u \<noteq> u'"
    and "ks = config_store_new x u sd []" and "ks' = config_store_new x u' sd (ks_db ks)"
  shows "st_self_uri (start_store ks') \<noteq> st_self_uri (start_store ks)"
proof -
  let ?db = "seed_from_config x sd []"
  have self: "st_self_uri (start_store k) = kc_vessel_uuid (ks_cache k)" for k
    by (simp add: start_store_def Let_def) (simp add: store_new_def)
  have e: "rows_text x ''vessel_uuid'' ?db = Some []" using seed_uuid [OF assms(1)] assms(2) by simp
  then have "?db \<noteq> []" by (auto simp: rows_text_def)
  then show ?thesis
    using assms(3-5) by (simp add: self config_store_new_def load_uuid [OF seed_distinct] e Let_def)
qed

theorem identity_changes_on_restart_witness:
  "st_self_uri (start_store (config_store_new stroke_json ''2'' (demo_seed [])
       (ks_db (config_store_new stroke_json ''1'' (demo_seed []) []))))
   \<noteq> st_self_uri (start_store (config_store_new stroke_json ''1'' (demo_seed []) []))"
  by (rule identity_changes_on_restart [OF stroke_json_ok _ _ refl refl]) (simp_all add: demo_seed_def)

text \<open>Taking the name out of the configuration leaves it in the data store: they differ
  until the next start.\<close>

theorem removed_name_stays_in_store:
  assumes "jget ''name'' body = None" and "map_of (st_vessels s) (kc_vessel_uuid (ks_cache ks)) = Some v"
    and "put_vessel x body (ks, s) = (r, ks', s')"
  shows "kc_vessel_name (ks_cache ks') = None"
    and "\<exists>w. map_of (st_vessels s') (kc_vessel_uuid (ks_cache ks)) = Some w \<and> v_name w = v_name v"
  using assms by (auto simp: put_vessel_def Let_def set_vessel_def set_vessel_identity_def split: option.split)

theorem removed_name_stays_in_store_witness:
  "let ks = config_store_new stroke_json ''1'' (demo_seed ''urn:ada'') []; s = start_store ks
   in map_option v_name (map_of (st_vessels (snd (snd (put_vessel stroke_json (JObj []) (ks, s))))) (kc_vessel_uuid (ks_cache ks)))
      = Some (Some ''Ada'')"
proof -
  define ks where "ks = config_store_new stroke_json ''1'' (demo_seed ''urn:ada'') []"
  have n: "kc_vessel_name (ks_cache ks) = Some ''Ada''"
    using load_holds [OF seed_distinct [of stroke_json "demo_seed ''urn:ada''"], of stroke_json "''1''"]
    by (simp add: ks_def config_store_new_def Let_def holds_def seed_from_config_def upsert_opt_def demo_seed_def upsert_all_def stroke_json_ok
        split: if_splits)
  obtain v where v: "map_of (st_vessels (start_store ks)) (kc_vessel_uuid (ks_cache ks)) = Some v" "v_name v = Some ''Ada''"
    using n by (auto simp: start_store_def Let_def set_vessel_identity_def store_new_def set_source_priorities_def
        set_source_ttls_def split: option.split)
  obtain r ks' s' where p: "put_vessel stroke_json (JObj []) (ks, start_store ks) = (r, ks', s')" by (metis surj_pair)
  from removed_name_stays_in_store(2) [OF _ v(1) p] v(2) p show ?thesis
    by (auto simp: Let_def ks_def [symmetric])
qed

end
