(* ===== verification/Plugins.thy ===== *)
theory Plugins
  imports PluginHost ApiV2 ConfigStore
begin

text \<open>
  The life of the in-process plugins: \<^verbatim>\<open>plugins/manager.rs\<close> with the isolation of their start
  (\<^verbatim>\<open>plugins/isolation.rs\<close>), the calls of a plugin's context (\<^verbatim>\<open>plugins/host.rs\<close>), the
  registry for the administration (\<^verbatim>\<open>plugins/registry.rs\<close>), the web applications
  (\<^verbatim>\<open>webapps.rs\<close>) and the administration requests (\<^verbatim>\<open>api/admin.rs\<close>,
  \<^verbatim>\<open>api/v2/features.rs\<close>). A plugin is code over a state of its own: its start and stop are
  the calls it makes to its context, in their order, with their outcome.
\<close>

section \<open>Web applications\<close>

datatype webapp_source = NpmPackage | RustPlugin string | BridgePlugin string

record webapp_info =
  wa_name :: string
  wa_version :: string
  wa_display_name :: "string option"
  wa_description :: "string option"
  wa_keywords :: "string list"
  wa_url :: string
  wa_public_dir :: file_path
  wa_source :: "webapp_source option"

definition webapp_register :: "webapp_info \<Rightarrow> webapp_info list \<Rightarrow> webapp_info list" where
  "webapp_register i es = filter (\<lambda>e. wa_name e \<noteq> wa_name i) es @ [i]"

definition webapp_find :: "string \<Rightarrow> webapp_info list \<Rightarrow> webapp_info option" where
  "webapp_find name es = List.find (\<lambda>e. wa_name e = name) es"

text \<open>A package of the modules directory: its \<^verbatim>\<open>package.json\<close> when that can be read and parsed,
  and whether it has a directory of static files.\<close>

record package =
  pk_path :: file_path
  pk_name :: string
  pk_json :: "json option"
  pk_public :: bool

definition try_read_webapp :: "package \<Rightarrow> webapp_info option" where
  "try_read_webapp p =
     Option.bind (pk_json p) (\<lambda>j.
     Option.bind (Option.bind (jget ''keywords'' j) as_array) (\<lambda>ks.
       if JStr ''signalk-webapp'' \<notin> set ks \<or> \<not> pk_public p then None
       else Some \<lparr>wa_name = pk_name p,
                  wa_version = unwrap_or (Option.bind (jget ''version'' j) as_str) ''0.0.0'',
                  wa_display_name = Option.bind (Option.bind (jget ''signalk'' j) (jget ''displayName'')) as_str,
                  wa_description = Option.bind (jget ''description'' j) as_str,
                  wa_keywords = List.map_filter as_str ks, wa_url = ''/'' @ pk_name p,
                  wa_public_dir = pk_path p @ [''public''], wa_source = Some NpmPackage\<rparr>))"

definition discover_webapps :: "package list \<Rightarrow> webapp_info list" where
  "discover_webapps ps = List.map_filter try_read_webapp ps"

section \<open>Calls of a context\<close>

record webapp_registration =
  wr_display_name :: string
  wr_description :: "string option"
  wr_public_dir :: file_path

record ('r, 'p, 'w) shared =
  sh_store :: store
  sh_routes :: "'r route_table"
  sh_puts :: "'p put_registry"
  sh_put_map :: "string hmap"
  sh_route_map :: "string hmap"
  sh_filter :: delta_filter_chain
  sh_webapps :: "webapp_info list"
  sh_pilots :: "'w autopilot_manager"
  sh_resources :: "'w registry"
  sh_config :: config_store

datatype ('r, 'p, 'w) context_call =
    Handle_message delta
  | Subscribe subscription_spec
  | Unsubscribe u64
  | Register_put_handler string 'p
  | Register_routes "'r registered_route list"
  | Save_options json
  | Set_status string
  | Set_error string
  | Register_webapp webapp_registration
  | Register_delta_input_handler "delta \<Rightarrow> delta option"
  | Register_autopilot_provider "'w autopilot_provider"
  | Register_resource_provider string "'w provider"

text \<open>What the calls need from the server: the text of JSON values, their printing and the clock.\<close>

record host_env =
  he_text :: json_text
  he_store :: store_env

definition webapp_of_plugin :: "string \<Rightarrow> webapp_registration \<Rightarrow> webapp_info" where
  "webapp_of_plugin pid w =
     \<lparr>wa_name = pid, wa_version = [], wa_display_name = Some (wr_display_name w), wa_description = wr_description w,
      wa_keywords = [''signalk-webapp''], wa_url = ''/@signalk/'' @ pid, wa_public_dir = wr_public_dir w,
      wa_source = Some (RustPlugin pid)\<rparr>"

fun run_call :: "host_env \<Rightarrow> ('r, 'p, 'w) context_call \<Rightarrow> plugin_context \<times> ('r, 'p, 'w) shared
    \<Rightarrow> plugin_context \<times> ('r, 'p, 'w) shared" where
  "run_call env (Handle_message d) (x, sh) =
     (x, sh\<lparr>sh_store := handle_message (se_disp (he_store env)) (se_now (he_store env)) (sh_filter sh) d (sh_store sh)\<rparr>)"
| "run_call env (Subscribe spec) (x, sh) = (snd (ctx_subscribe spec x), sh)"
| "run_call env (Unsubscribe i) (x, sh) = (ctx_unsubscribe i x, sh)"
| "run_call env (Register_put_handler path h) (x, sh) =
     (x, sh\<lparr>sh_puts := put_register path (px_plugin_id x) h (sh_puts sh),
            sh_put_map := hm_insert path (px_plugin_id x) (sh_put_map sh)\<rparr>)"
| "run_call env (Register_routes rs) (x, sh) =
     (x, sh\<lparr>sh_routes := route_register (px_plugin_id x) rs (sh_routes sh),
            sh_route_map := hm_insert (px_plugin_id x) (''/plugins/'' @ px_plugin_id x) (sh_route_map sh)\<rparr>)"
| "run_call env (Save_options v) (x, sh) =
     (x, sh\<lparr>sh_config := set_plugin_config (he_text env) (px_plugin_id x) v (sh_config sh)\<rparr>)"
| "run_call env (Set_status m) (x, sh) = (ctx_set_status m x, sh)"
| "run_call env (Set_error m) (x, sh) = (ctx_set_error m x, sh)"
| "run_call env (Register_webapp w) (x, sh) =
     (x, sh\<lparr>sh_webapps := webapp_register (webapp_of_plugin (px_plugin_id x) w) (sh_webapps sh)\<rparr>)"
| "run_call env (Register_delta_input_handler h) (x, sh) =
     (x, sh\<lparr>sh_filter := chain_register (px_plugin_id x) h (sh_filter sh)\<rparr>)"
| "run_call env (Register_autopilot_provider p) (x, sh) =
     (x, sh\<lparr>sh_pilots := vm_register p (px_plugin_id x) (sh_pilots sh)\<rparr>)"
| "run_call env (Register_resource_provider t p) (x, sh) =
     (x, sh\<lparr>sh_resources := reg_register t (px_plugin_id x) p (sh_resources sh)\<rparr>)"

definition run_calls :: "host_env \<Rightarrow> ('r, 'p, 'w) context_call list \<Rightarrow> plugin_context \<times> ('r, 'p, 'w) shared
    \<Rightarrow> plugin_context \<times> ('r, 'p, 'w) shared" where
  "run_calls env cs xs = fold (run_call env) cs xs"

section \<open>The manager\<close>

record plugin_metadata =
  pg_id :: string
  pg_name :: string
  pg_description :: string
  pg_version :: string

datatype plugin_status = Stopped | Starting | Running string | Error string | Stopping

text \<open>The end of a plugin's start, which runs in a task of its own.\<close>

datatype start_end = Start_ok | Start_err plugin_error | Start_panicked | Start_cancelled string

record ('r, 'p, 'w, 's) plugin_code =
  pg_metadata :: plugin_metadata
  pg_schema :: "json option"
  pg_start :: "json \<Rightarrow> ('r, 'p, 'w) shared \<Rightarrow> 's \<Rightarrow> ('r, 'p, 'w) context_call list \<times> start_end \<times> 's"
  pg_stop :: "('r, 'p, 'w) shared \<Rightarrow> 's \<Rightarrow> ('r, 'p, 'w) context_call list \<times> 's"

datatype ('r, 'p, 'w, 's) boxed_plugin = Plugin "('r, 'p, 'w, 's) plugin_code" 's | Placeholder string

fun metadata_of :: "('r, 'p, 'w, 's) boxed_plugin \<Rightarrow> plugin_metadata" where
  "metadata_of (Plugin c s) = pg_metadata c"
| "metadata_of (Placeholder i) = \<lparr>pg_id = i, pg_name = ''placeholder'', pg_description = [], pg_version = ''0.0.0''\<rparr>"

fun schema_of :: "('r, 'p, 'w, 's) boxed_plugin \<Rightarrow> json option" where
  "schema_of (Plugin c s) = pg_schema c"
| "schema_of (Placeholder i) = None"

fun start_of :: "('r, 'p, 'w, 's) boxed_plugin \<Rightarrow> json \<Rightarrow> ('r, 'p, 'w) shared
    \<Rightarrow> ('r, 'p, 'w) context_call list \<times> start_end \<times> ('r, 'p, 'w, 's) boxed_plugin" where
  "start_of (Plugin c s) v sh = (let (cs, e, s') = pg_start c v sh s in (cs, e, Plugin c s'))"
| "start_of (Placeholder i) v sh = ([], Start_err (Runtime ''placeholder plugin cannot be started''), Placeholder i)"

fun stop_of :: "('r, 'p, 'w, 's) boxed_plugin \<Rightarrow> ('r, 'p, 'w) shared
    \<Rightarrow> ('r, 'p, 'w) context_call list \<times> ('r, 'p, 'w, 's) boxed_plugin" where
  "stop_of (Plugin c s) sh = (let (cs, s') = pg_stop c sh s in (cs, Plugin c s'))"
| "stop_of (Placeholder i) sh = ([], Placeholder i)"

definition guarded :: "string \<Rightarrow> start_end \<Rightarrow> unit plugin_result" where
  "guarded pid e =
     (case e of
        Start_ok \<Rightarrow> Inr ()
      | Start_err err \<Rightarrow> Inl err
      | Start_panicked \<Rightarrow> Inl (Runtime (''plugin '' @ [CHR 0x27] @ pid @ [CHR 0x27] @ '' panicked''))
      | Start_cancelled m \<Rightarrow> Inl (Runtime (''plugin '' @ [CHR 0x27] @ pid @ [CHR 0x27] @ '' task failed: '' @ m)))"

record ('r, 'p, 'w, 's) plugin_entry =
  pe_plugin :: "('r, 'p, 'w, 's) boxed_plugin"
  pe_status :: plugin_status
  pe_context :: "plugin_context option"

text \<open>A context that the manager drops keeps its subscriptions: their tasks go on. \<open>pm_dropped\<close> are
  these contexts.\<close>

record ('r, 'p, 'w, 's) plugin_manager =
  pm_plugins :: "('r, 'p, 'w, 's) plugin_entry hmap"
  pm_shared :: "('r, 'p, 'w) shared"
  pm_dropped :: "plugin_context list"

definition unknown_plugin :: "string \<Rightarrow> plugin_error" where
  "unknown_plugin pid = Runtime (''Unknown plugin: '' @ pid)"

definition is_running_status :: "plugin_status \<Rightarrow> bool" where
  "is_running_status st = (case st of Running _ \<Rightarrow> True | _ \<Rightarrow> False)"

definition register_plugin :: "('r, 'p, 'w, 's) boxed_plugin \<Rightarrow> ('r, 'p, 'w, 's) plugin_manager \<Rightarrow> ('r, 'p, 'w, 's) plugin_manager" where
  "register_plugin p mg = mg\<lparr>pm_plugins := hm_insert (pg_id (metadata_of p))
     \<lparr>pe_plugin = p, pe_status = Stopped, pe_context = None\<rparr> (pm_plugins mg)\<rparr>"

definition start_plugin :: "host_env \<Rightarrow> string \<Rightarrow> json \<Rightarrow> ('r, 'p, 'w, 's) plugin_manager
    \<Rightarrow> unit plugin_result \<times> ('r, 'p, 'w, 's) plugin_manager" where
  "start_plugin env pid v mg =
     (case map_of (pm_plugins mg) pid of
        None \<Rightarrow> (Inl (unknown_plugin pid), mg)
      | Some en \<Rightarrow>
          if is_running_status (pe_status en) then (Inr (), mg)
          else (let (cs, e, p) = start_of (pe_plugin en) v (pm_shared mg);
                    (x, sh) = run_calls env cs (context_new pid, pm_shared mg)
                in case guarded pid e of
                     Inr _ \<Rightarrow> (Inr (), mg\<lparr>pm_shared := sh, pm_plugins := hm_insert pid
                       \<lparr>pe_plugin = p, pe_status = Running ''Started'', pe_context = Some x\<rparr> (pm_plugins mg)\<rparr>)
                   | Inl err \<Rightarrow> (Inl err, mg\<lparr>pm_shared := sh, pm_dropped := pm_dropped mg @ [x], pm_plugins := hm_insert pid
                       \<lparr>pe_plugin = Placeholder pid, pe_status = Error (plugin_error_text err), pe_context = None\<rparr> (pm_plugins mg)\<rparr>)))"

definition release_plugin :: "string \<Rightarrow> ('r, 'p, 'w) shared \<Rightarrow> ('r, 'p, 'w) shared" where
  "release_plugin pid sh =
     sh\<lparr>sh_routes := route_remove pid (sh_routes sh), sh_puts := put_remove_plugin pid (sh_puts sh),
        sh_filter := chain_remove_plugin pid (sh_filter sh), sh_resources := reg_unregister pid (sh_resources sh),
        sh_put_map := filter (\<lambda>(_, p). p \<noteq> pid) (sh_put_map sh), sh_route_map := hm_remove pid (sh_route_map sh)\<rparr>"

text \<open>The plugin's own stop may still call its context; afterwards its subscriptions end and what it
  registered is taken back. An error of its stop is only logged.\<close>

definition stop_plugin :: "host_env \<Rightarrow> string \<Rightarrow> ('r, 'p, 'w, 's) plugin_manager
    \<Rightarrow> unit plugin_result \<times> ('r, 'p, 'w, 's) plugin_manager" where
  "stop_plugin env pid mg =
     (case map_of (pm_plugins mg) pid of
        None \<Rightarrow> (Inl (unknown_plugin pid), mg)
      | Some en \<Rightarrow>
          if pe_status en = Stopped then (Inr (), mg)
          else (let (cs, p) = stop_of (pe_plugin en) (pm_shared mg);
                    sh = (case pe_context en of Some x \<Rightarrow> snd (run_calls env cs (x, pm_shared mg)) | None \<Rightarrow> pm_shared mg)
                in (Inr (), mg\<lparr>pm_shared := release_plugin pid sh, pm_plugins := hm_insert pid
                      \<lparr>pe_plugin = p, pe_status = Stopped, pe_context = None\<rparr> (pm_plugins mg)\<rparr>)))"

definition start_all :: "host_env \<Rightarrow> json hmap \<Rightarrow> ('r, 'p, 'w, 's) plugin_manager \<Rightarrow> ('r, 'p, 'w, 's) plugin_manager" where
  "start_all env configs mg = fold (\<lambda>(pid, v) m. snd (start_plugin env pid v m)) configs mg"

definition stop_all :: "host_env \<Rightarrow> ('r, 'p, 'w, 's) plugin_manager \<Rightarrow> ('r, 'p, 'w, 's) plugin_manager" where
  "stop_all env mg = fold (\<lambda>pid m. snd (stop_plugin env pid m)) (map fst (pm_plugins mg)) mg"

definition is_running :: "string \<Rightarrow> ('r, 'p, 'w, 's) plugin_manager \<Rightarrow> bool" where
  "is_running pid mg = is_some_and (map_of (pm_plugins mg) pid) (\<lambda>en. is_running_status (pe_status en))"

definition plugin_statuses :: "('r, 'p, 'w, 's) plugin_manager \<Rightarrow> (plugin_metadata \<times> plugin_status) list" where
  "plugin_statuses mg = map (\<lambda>(_, en). (metadata_of (pe_plugin en), pe_status en)) (pm_plugins mg)"

definition read_plugin_config :: "string \<Rightarrow> ('r, 'p, 'w, 's) plugin_manager \<Rightarrow> json option" where
  "read_plugin_config pid mg = map_option ke_config (plugin_config pid (sh_config (pm_shared mg)))"

definition save_plugin_config :: "host_env \<Rightarrow> string \<Rightarrow> json \<Rightarrow> ('r, 'p, 'w, 's) plugin_manager \<Rightarrow> ('r, 'p, 'w, 's) plugin_manager" where
  "save_plugin_config env pid v mg =
     mg\<lparr>pm_shared := (pm_shared mg)\<lparr>sh_config := set_plugin_config (he_text env) pid v (sh_config (pm_shared mg))\<rparr>\<rparr>"

text \<open>A running plugin calls its context.\<close>

definition plugin_acts :: "host_env \<Rightarrow> string \<Rightarrow> ('r, 'p, 'w) context_call list \<Rightarrow> ('r, 'p, 'w, 's) plugin_manager
    \<Rightarrow> ('r, 'p, 'w, 's) plugin_manager" where
  "plugin_acts env pid cs mg =
     (case map_of (pm_plugins mg) pid of
        None \<Rightarrow> mg
      | Some en \<Rightarrow> (case pe_context en of
          None \<Rightarrow> mg
        | Some x \<Rightarrow> (let (x', sh) = run_calls env cs (x, pm_shared mg)
                     in mg\<lparr>pm_shared := sh, pm_plugins := hm_insert pid (en\<lparr>pe_context := Some x'\<rparr>) (pm_plugins mg)\<rparr>)))"

end
