(* ===== verification/Admin.thy ===== *)
theory Admin
  imports Plugins
begin

text \<open>
  The registry of all plugins (\<^verbatim>\<open>plugins/registry.rs\<close>) and the administration requests that
  control them (\<^verbatim>\<open>api/admin.rs\<close>, \<^verbatim>\<open>api/v2/features.rs\<close>), with the registry's
  copy of the manager's states. The clock and the process behind the bridge are arguments.
\<close>

section \<open>The registry\<close>

datatype plugin_tier = Rust | Bridge | Standalone

record plugin_info =
  pi_id :: string
  pi_name :: string
  pi_description :: string
  pi_version :: string
  pi_tier :: plugin_tier
  pi_status :: string
  pi_enabled :: bool
  pi_keywords :: "string list"
  pi_has_webapp :: bool
  pi_webapp_url :: "string option"
  pi_schema :: "json option"
  pi_last_error_time :: "datetime option"

record bridge_plugin_info =
  bi_id :: string
  bi_name :: string
  bi_version :: string
  bi_description :: string
  bi_has_webapp :: bool

type_synonym plugin_registry = "plugin_info hmap"

definition register_tier1 :: "datetime \<Rightarrow> plugin_metadata \<Rightarrow> string \<Rightarrow> bool \<Rightarrow> plugin_registry \<Rightarrow> plugin_registry" where
  "register_tier1 now m status enabled rg =
     hm_insert (pg_id m)
       \<lparr>pi_id = pg_id m, pi_name = pg_name m, pi_description = pg_description m, pi_version = pg_version m,
        pi_tier = Rust, pi_status = status, pi_enabled = enabled, pi_keywords = [''signalk-node-server-plugin''],
        pi_has_webapp = False, pi_webapp_url = None, pi_schema = None,
        pi_last_error_time = (if starts_with status ''error'' then Some now
                              else Option.bind (map_of rg (pg_id m)) pi_last_error_time)\<rparr> rg"

definition register_tier2 :: "bridge_plugin_info \<Rightarrow> plugin_registry \<Rightarrow> plugin_registry" where
  "register_tier2 b rg =
     hm_insert (bi_id b)
       \<lparr>pi_id = bi_id b, pi_name = bi_name b, pi_description = bi_description b, pi_version = bi_version b,
        pi_tier = Bridge, pi_status = ''running'', pi_enabled = True, pi_keywords = [''signalk-node-server-plugin''],
        pi_has_webapp = bi_has_webapp b, pi_webapp_url = None, pi_schema = None, pi_last_error_time = None\<rparr> rg"

definition modify :: "string \<Rightarrow> (plugin_info \<Rightarrow> plugin_info) \<Rightarrow> plugin_registry \<Rightarrow> plugin_registry" where
  "modify i f rg = (case map_of rg i of Some info \<Rightarrow> hm_insert i (f info) rg | None \<Rightarrow> rg)"

definition update_status :: "datetime \<Rightarrow> string \<Rightarrow> string \<Rightarrow> plugin_registry \<Rightarrow> plugin_registry" where
  "update_status now i status = modify i (\<lambda>info. info
     \<lparr>pi_last_error_time := (if starts_with status ''error'' then Some now else pi_last_error_time info),
      pi_status := status, pi_enabled := \<not> starts_with status ''stopped'' \<and> \<not> starts_with status ''error''\<rparr>)"

definition set_webapp_url :: "string \<Rightarrow> string \<Rightarrow> plugin_registry \<Rightarrow> plugin_registry" where
  "set_webapp_url i url = modify i (\<lambda>info. info\<lparr>pi_has_webapp := True, pi_webapp_url := Some url\<rparr>)"

definition tier_label :: "plugin_tier \<Rightarrow> string" where
  "tier_label t = (case t of Rust \<Rightarrow> ''signalk-rs'' | Bridge \<Rightarrow> ''node-bridge'' | Standalone \<Rightarrow> ''standalone'')"

text \<open>The order of strings is that of their bytes, which is that of the library's lists.\<close>

definition plugin_providers :: "plugin_registry \<Rightarrow> (string \<times> string \<times> bool) list" where
  "plugin_providers rg = map snd (fold (\<lambda>(_, p). om_insert (pi_id p) (pi_id p, tier_label (pi_tier p), pi_enabled p)) rg [])"

section \<open>The manager's states in the registry\<close>

definition status_text :: "plugin_status \<Rightarrow> string \<times> bool" where
  "status_text s = (case s of
     Stopped \<Rightarrow> (''stopped'', False) | Starting \<Rightarrow> (''starting'', True) | Running m \<Rightarrow> (''running: '' @ m, True)
   | Stopping \<Rightarrow> (''stopping'', True) | Error m \<Rightarrow> (''error: '' @ m, False))"

definition sync_tier1_status :: "datetime \<Rightarrow> ('r, 'p, 'w, 's) plugin_manager \<Rightarrow> plugin_registry \<Rightarrow> plugin_registry" where
  "sync_tier1_status now mg rg =
     fold (\<lambda>(m, s). register_tier1 now m (fst (status_text s)) (snd (status_text s))) (plugin_statuses mg) rg"

definition add_schema :: "('r, 'p, 'w, 's) boxed_plugin \<Rightarrow> plugin_registry \<Rightarrow> plugin_registry" where
  "add_schema p = (case schema_of p of
     Some s \<Rightarrow> modify (pg_id (metadata_of p)) (\<lambda>info. info\<lparr>pi_schema := Some s\<rparr>) | None \<Rightarrow> id)"

definition populate_registry :: "datetime \<Rightarrow> ('r, 'p, 'w, 's) plugin_manager \<Rightarrow> plugin_registry \<Rightarrow> plugin_registry" where
  "populate_registry now mg rg = fold (\<lambda>(_, en). add_schema (pe_plugin en)) (pm_plugins mg) (sync_tier1_status now mg rg)"

section \<open>Requests\<close>

record ('r, 'p, 'w, 's) admin_server =
  as_registry :: plugin_registry
  as_manager :: "('r, 'p, 'w, 's) plugin_manager"

record admin_env =
  ae_host :: host_env
  ae_now :: datetime
  ae_bridge :: "string \<Rightarrow> json \<Rightarrow> string option"

definition plugin_not_found :: "string \<Rightarrow> reply" where
  "plugin_not_found pid = message_reply 404 (''Plugin not found: '' @ pid)"

definition synced :: "admin_env \<Rightarrow> ('r, 'p, 'w, 's) admin_server \<Rightarrow> ('r, 'p, 'w, 's) admin_server" where
  "synced env x = x\<lparr>as_registry := sync_tier1_status (ae_now env) (as_manager x) (as_registry x)\<rparr>"

definition get_plugin_config :: "string \<Rightarrow> ('r, 'p, 'w, 's) admin_server \<Rightarrow> reply" where
  "get_plugin_config pid x =
     (case map_of (as_registry x) pid of
        None \<Rightarrow> plugin_not_found pid
      | Some info \<Rightarrow> Reply 200 (json_obj
          [(''schema'', unwrap_or (pi_schema info) JNull),
           (''configuration'', if pi_tier info = Rust then unwrap_or (read_plugin_config pid (as_manager x)) JNull else JNull)]))"

definition update_plugin_config :: "admin_env \<Rightarrow> string \<Rightarrow> json \<Rightarrow> ('r, 'p, 'w, 's) admin_server
    \<Rightarrow> reply \<times> ('r, 'p, 'w, 's) admin_server" where
  "update_plugin_config env pid v x =
     (case map_of (as_registry x) pid of
        None \<Rightarrow> (plugin_not_found pid, x)
      | Some info \<Rightarrow>
          if pi_tier info \<noteq> Rust
          then (message_reply 400 ''Config update only supported for Tier 1 (Rust) plugins'', x)
          else (let mg = save_plugin_config (ae_host env) pid v (as_manager x) in
            if \<not> is_running pid mg then (Empty 204, synced env (x\<lparr>as_manager := mg\<rparr>))
            else (case stop_plugin (ae_host env) pid mg of
                    (Inl e, mg1) \<Rightarrow> (message_reply 500 (''Failed to stop plugin: '' @ plugin_error_text e), x\<lparr>as_manager := mg1\<rparr>)
                  | (Inr _, mg1) \<Rightarrow> (case start_plugin (ae_host env) pid v mg1 of
                      (Inl e, mg2) \<Rightarrow> (message_reply 500 (''Failed to restart plugin: '' @ plugin_error_text e), x\<lparr>as_manager := mg2\<rparr>)
                    | (Inr _, mg2) \<Rightarrow> (Empty 204, synced env (x\<lparr>as_manager := mg2\<rparr>))))))"

definition lifecycle :: "admin_env \<Rightarrow> string \<Rightarrow> string \<Rightarrow> string option" where
  "lifecycle env pid action =
     ae_bridge env ''/lifecycle'' (json_obj [(''event'', JStr action), (''pluginId'', JStr pid)])"

definition standalone_reply :: reply where
  "standalone_reply = message_reply 400 ''Cannot control standalone plugins''"

definition bridge_failed :: "string \<Rightarrow> reply" where
  "bridge_failed e = message_reply 502 (''Bridge lifecycle failed: '' @ e)"

definition stored_config :: "string \<Rightarrow> ('r, 'p, 'w, 's) plugin_manager \<Rightarrow> json" where
  "stored_config pid mg = unwrap_or (read_plugin_config pid mg) (JObj [])"

definition start_and_sync :: "admin_env \<Rightarrow> string \<Rightarrow> json \<Rightarrow> ('r, 'p, 'w, 's) admin_server \<Rightarrow> reply \<times> ('r, 'p, 'w, 's) admin_server" where
  "start_and_sync env pid v x =
     (case start_plugin (ae_host env) pid v (as_manager x) of
        (Inl e, mg) \<Rightarrow> (message_reply 500 (''Failed to start plugin: '' @ plugin_error_text e), synced env (x\<lparr>as_manager := mg\<rparr>))
      | (Inr _, mg) \<Rightarrow> (Empty 204, synced env (x\<lparr>as_manager := mg\<rparr>)))"

definition set_enabled :: "admin_env \<Rightarrow> string \<Rightarrow> bool \<Rightarrow> ('r, 'p, 'w, 's) admin_server \<Rightarrow> ('r, 'p, 'w, 's) admin_server" where
  "set_enabled env pid b x =
     (let mg = as_manager x; sh = pm_shared mg
      in x\<lparr>as_manager := mg\<lparr>pm_shared := sh\<lparr>sh_config := set_plugin_enabled (he_text (ae_host env)) pid b (sh_config sh)\<rparr>\<rparr>\<rparr>)"

datatype admin_action = Restart | Enable | Disable

definition control_rust :: "admin_env \<Rightarrow> string \<Rightarrow> admin_action \<Rightarrow> ('r, 'p, 'w, 's) admin_server
    \<Rightarrow> reply \<times> ('r, 'p, 'w, 's) admin_server" where
  "control_rust env pid action x =
     (case action of
        Restart \<Rightarrow>
          (case stop_plugin (ae_host env) pid (as_manager x) of
             (Inl e, mg) \<Rightarrow> (message_reply 500 (''Failed to stop plugin: '' @ plugin_error_text e), x\<lparr>as_manager := mg\<rparr>)
           | (Inr _, mg) \<Rightarrow> start_and_sync env pid (stored_config pid (as_manager x)) (x\<lparr>as_manager := mg\<rparr>))
      | Enable \<Rightarrow>
          (let x1 = set_enabled env pid True x in start_and_sync env pid (stored_config pid (as_manager x1)) x1)
      | Disable \<Rightarrow>
          (let x1 = set_enabled env pid False x in
           case stop_plugin (ae_host env) pid (as_manager x1) of
             (Inl e, mg) \<Rightarrow> (message_reply 500 (''Failed to stop plugin: '' @ plugin_error_text e), synced env (x1\<lparr>as_manager := mg\<rparr>))
           | (Inr _, mg) \<Rightarrow> (Empty 204, synced env (x1\<lparr>as_manager := mg\<rparr>))))"

definition control_bridge :: "admin_env \<Rightarrow> string \<Rightarrow> admin_action \<Rightarrow> ('r, 'p, 'w, 's) admin_server
    \<Rightarrow> reply \<times> ('r, 'p, 'w, 's) admin_server" where
  "control_bridge env pid action x =
     (case lifecycle env pid (case action of Restart \<Rightarrow> ''restart'' | Enable \<Rightarrow> ''start'' | Disable \<Rightarrow> ''stop'') of
        Some e \<Rightarrow> (bridge_failed e, x)
      | None \<Rightarrow> (Empty 204, (case action of
            Restart \<Rightarrow> x
          | Enable \<Rightarrow> x\<lparr>as_registry := update_status (ae_now env) pid ''running'' (as_registry x)\<rparr>
          | Disable \<Rightarrow> x\<lparr>as_registry := update_status (ae_now env) pid ''stopped'' (as_registry x)\<rparr>)))"

definition control_plugin :: "admin_env \<Rightarrow> string \<Rightarrow> admin_action \<Rightarrow> ('r, 'p, 'w, 's) admin_server
    \<Rightarrow> reply \<times> ('r, 'p, 'w, 's) admin_server" where
  "control_plugin env pid action x =
     (case map_of (as_registry x) pid of
        None \<Rightarrow> (plugin_not_found pid, x)
      | Some info \<Rightarrow> (case pi_tier info of
            Rust \<Rightarrow> control_rust env pid action x
          | Bridge \<Rightarrow> control_bridge env pid action x
          | Standalone \<Rightarrow> (standalone_reply, x)))"

section \<open>Discovery of features\<close>

definition feature_json :: "string \<times> string \<times> bool \<Rightarrow> json" where
  "feature_json = (\<lambda>(i, n, b). json_obj [(''id'', JStr i), (''name'', JStr n), (''enabled'', JBool b)])"

definition get_features :: "('r, 'p, 'w, 's) admin_server \<Rightarrow> reply" where
  "get_features x = Reply 200 (json_obj
     [(''apis'', JArr (map feature_json
        [(''resources'', ''Resources API'', True), (''course'', ''Course API'', True),
         (''autopilot'', ''Autopilot API'', vm_list (sh_pilots (pm_shared (as_manager x))) \<noteq> []),
         (''notifications'', ''Notifications API'', True), (''history'', ''History API'', True)])),
      (''plugins'', JArr (map (\<lambda>(_, p). feature_json (pi_id p, pi_name p, pi_enabled p)) (as_registry x)))])"

end
