(* ===== verification/PluginsSpec.thy ===== *)
theory PluginsSpec
  imports Plugins
begin

text \<open>
  The life of plugins: a stopped plugin has no routes, handlers, filters or providers left; a
  plugin whose start failed once never runs again, and its subscriptions never end; the autopilots
  of a stopped plugin stay registered.
\<close>

section \<open>What a plugin has registered\<close>

definition owners :: "('r, 'p, 'w) shared \<Rightarrow> string set" where
  "owners sh = dom (sh_routes sh) \<union> (fst \<circ> snd) ` set (sh_puts sh) \<union> fst ` set (sh_filter sh)
     \<union> (\<Union>t. fst ` set (registered (sh_resources sh) t)) \<union> snd ` set (sh_put_map sh) \<union> fst ` set (sh_route_map sh)"

definition owns :: "string \<Rightarrow> ('r, 'p, 'w) shared \<Rightarrow> bool" where
  "owns pid sh \<longleftrightarrow> pid \<in> owners sh"

lemma hm_insert_set: "set (hm_insert k v m) \<subseteq> insert (k, v) (set m)"
  by (induction m) (auto split: if_splits)

lemma owned_register:
  "registered (reg_register t pid p rg) u = (if u = t then AList.update pid p (registered rg t) else registered rg u)"
  by (simp add: registered_def reg_register_def replace_or_push_def)

lemma owned_unregister: "registered (reg_unregister pid rg) t = filter (\<lambda>(i, _). i \<noteq> pid) (registered rg t)"
  by (simp add: registered_def reg_unregister_def unwrap_or_def split: option.split)

lemma release_owns: "\<not> owns pid (release_plugin pid sh)"
  by (auto simp: owns_def owners_def release_plugin_def route_remove_def put_remove_plugin_def chain_remove_plugin_def
      owned_unregister hm_remove_def AList.delete_eq)

lemma release_subset:
  "set (put_remove_plugin pid r) \<subseteq> set r" "set (chain_remove_plugin pid c) \<subseteq> set c"
  "set (registered (reg_unregister pid rg) t) \<subseteq> set (registered rg t)" "set (hm_remove pid m) \<subseteq> set m"
  "dom (route_remove pid rt) \<subseteq> dom rt"
  by (auto simp: put_remove_plugin_def chain_remove_plugin_def owned_unregister hm_remove_def AList.delete_eq
      route_remove_def)

lemma release_other: "owns q (release_plugin pid sh) \<Longrightarrow> owns q sh"
proof -
  have "owners (release_plugin pid sh) \<subseteq> owners sh"
    unfolding owners_def release_plugin_def
    by (intro Un_mono UN_mono image_mono order_refl; simp add: release_subset; auto)
  then show "owns q (release_plugin pid sh) \<Longrightarrow> owns q sh" by (auto simp: owns_def)
qed

lemma run_call_id: "run_call env c (x, sh) = (x', sh') \<Longrightarrow> px_plugin_id x' = px_plugin_id x"
  by (cases c) (auto simp: ctx_subscribe_def ctx_unsubscribe_def ctx_set_status_def ctx_set_error_def Let_def)

lemma grow_Un: "A' \<subseteq> insert i A \<Longrightarrow> B' \<subseteq> insert i B \<Longrightarrow> A' \<union> B' \<subseteq> insert i (A \<union> B)"
  by blast

lemma grow_UN: "(\<And>t. A' t \<subseteq> insert i (A t)) \<Longrightarrow> (\<Union>t. A' t) \<subseteq> insert i (\<Union>t. A t)"
  by blast

lemma grow_hm_keys: "fst ` set (hm_insert i v m) \<subseteq> insert i (fst ` set m)"
  by (simp add: keys_hm_insert)

lemma grow_hm_values: "f (k, v) = i \<Longrightarrow> f ` set (hm_insert k v m) \<subseteq> insert i (f ` set m)"
  using hm_insert_set [of k v m] by auto

lemma grow_update: "fst ` set (AList.update i v m) \<subseteq> insert i (fst ` set m)"
  by (simp add: dom_update)

lemma run_call_owners: "owners (snd (run_call env c (x, sh))) \<subseteq> insert (px_plugin_id x) (owners sh)"
  unfolding owners_def
  by (cases c; intro grow_Un grow_UN)
    (simp_all add: put_register_def route_register_def chain_register_def owned_register
      grow_hm_keys grow_hm_values grow_update subset_insertI)

lemma run_call_owns: "run_call env c (x, sh) = (x', sh') \<Longrightarrow> owns q sh' \<Longrightarrow> q = px_plugin_id x \<or> owns q sh"
  using run_call_owners [of env c x sh] by (auto simp: owns_def)

lemma run_calls_owns:
  "run_calls env cs (x, sh) = (x', sh') \<Longrightarrow> px_plugin_id x' = px_plugin_id x \<and> (owns q sh' \<longrightarrow> q = px_plugin_id x \<or> owns q sh)"
proof (induction cs arbitrary: x sh)
  case (Cons c cs)
  obtain x1 sh1 where 1: "run_call env c (x, sh) = (x1, sh1)" by (metis surj_pair)
  show ?case
    using Cons.IH [of x1 sh1] Cons.prems 1 run_call_id [OF 1] run_call_owns [OF 1]
    by (auto simp: run_calls_def)
qed (simp add: run_calls_def)

section \<open>Reachable managers\<close>

datatype ('r, 'p, 'w) manager_request =
    Start string json
  | Stop string
  | Acts string "('r, 'p, 'w) context_call list"
  | Save_config string json

fun manager_do :: "host_env \<Rightarrow> ('r, 'p, 'w) manager_request \<Rightarrow> ('r, 'p, 'w, 's) plugin_manager \<Rightarrow> ('r, 'p, 'w, 's) plugin_manager" where
  "manager_do env (Start pid v) mg = snd (start_plugin env pid v mg)"
| "manager_do env (Stop pid) mg = snd (stop_plugin env pid mg)"
| "manager_do env (Acts pid cs) mg = plugin_acts env pid cs mg"
| "manager_do env (Save_config pid v) mg = save_plugin_config env pid v mg"

definition manager_fresh :: "('r, 'p, 'w, 's) plugin_manager \<Rightarrow> bool" where
  "manager_fresh mg \<longleftrightarrow> (\<forall>pid. \<not> owns pid (pm_shared mg)) \<and>
     (\<forall>pid en. map_of (pm_plugins mg) pid = Some en \<longrightarrow> pe_status en = Stopped \<and> pe_context en = None)"

definition entry_ok :: "('r, 'p, 'w) shared \<Rightarrow> string \<Rightarrow> ('r, 'p, 'w, 's) plugin_entry \<Rightarrow> bool" where
  "entry_ok sh pid en \<longleftrightarrow> (pe_status en = Stopped \<longrightarrow> \<not> owns pid sh) \<and>
     (pe_context en \<noteq> None \<longleftrightarrow> is_running_status (pe_status en)) \<and> (\<forall>x. pe_context en = Some x \<longrightarrow> px_plugin_id x = pid)"

definition plugins_ok :: "('r, 'p, 'w, 's) plugin_manager \<Rightarrow> bool" where
  "plugins_ok mg \<longleftrightarrow> (\<forall>pid en. map_of (pm_plugins mg) pid = Some en \<longrightarrow> entry_ok (pm_shared mg) pid en)"

lemma entry_ok_mono:
  "entry_ok sh q en \<Longrightarrow> (owns q sh' \<longrightarrow> owns q sh) \<Longrightarrow> entry_ok sh' q en"
  by (auto simp: entry_ok_def)

lemma plugins_ok_insert:
  assumes "plugins_ok mg" and "entry_ok sh pid en" and "\<And>q. q \<noteq> pid \<Longrightarrow> owns q sh \<Longrightarrow> owns q (pm_shared mg)"
  shows "plugins_ok (mg\<lparr>pm_shared := sh, pm_plugins := hm_insert pid en (pm_plugins mg)\<rparr>)"
  unfolding plugins_ok_def
proof (intro allI impI)
  fix q eq
  assume "map_of (pm_plugins (mg\<lparr>pm_shared := sh, pm_plugins := hm_insert pid en (pm_plugins mg)\<rparr>)) q = Some eq"
  then show "entry_ok (pm_shared (mg\<lparr>pm_shared := sh, pm_plugins := hm_insert pid en (pm_plugins mg)\<rparr>)) q eq"
    using assms entry_ok_mono [of "pm_shared mg" q eq sh] by (cases "q = pid") (auto simp: plugins_ok_def)
qed

lemma plugins_ok_dropped [simp]:
  "plugins_ok (mg\<lparr>pm_shared := sh, pm_dropped := d, pm_plugins := ps\<rparr>) = plugins_ok (mg\<lparr>pm_shared := sh, pm_plugins := ps\<rparr>)"
  by (simp add: plugins_ok_def)

lemma plugins_ok_start: "plugins_ok mg \<Longrightarrow> plugins_ok (snd (start_plugin env pid v mg))"
proof (cases "map_of (pm_plugins mg) pid")
  case (Some en)
  assume ok: "plugins_ok mg"
  obtain cs e p where s: "start_of (pe_plugin en) v (pm_shared mg) = (cs, e, p)" by (metis surj_pair)
  obtain x sh where r: "run_calls env cs (context_new pid, pm_shared mg) = (x, sh)" by (metis surj_pair)
  have x: "px_plugin_id x = pid" and o: "\<And>q. q \<noteq> pid \<Longrightarrow> owns q sh \<Longrightarrow> owns q (pm_shared mg)"
    using run_calls_owns [OF r] by (auto simp: context_new_def)
  let ?run = "\<lparr>pe_plugin = p, pe_status = Running ''Started'', pe_context = Some x\<rparr>"
  let ?err = "\<lambda>m. \<lparr>pe_plugin = Placeholder pid, pe_status = Error m, pe_context = None\<rparr>"
  have e1: "entry_ok sh pid ?run" and e2: "\<And>m. entry_ok sh pid (?err m)"
    using x by (simp_all add: entry_ok_def is_running_status_def)
  show ?thesis
    using ok s r plugins_ok_insert [OF ok e1 o] plugins_ok_insert [OF ok e2 o] Some
    by (auto simp: start_plugin_def Let_def split: sum.split)
qed (simp add: start_plugin_def)

lemma plugins_ok_stop: "plugins_ok mg \<Longrightarrow> plugins_ok (snd (stop_plugin env pid mg))"
proof (cases "map_of (pm_plugins mg) pid")
  case (Some en)
  assume ok: "plugins_ok mg"
  obtain cs p where s: "stop_of (pe_plugin en) (pm_shared mg) = (cs, p)" by (metis surj_pair)
  define sh where "sh = (case pe_context en of Some x \<Rightarrow> snd (run_calls env cs (x, pm_shared mg)) | None \<Rightarrow> pm_shared mg)"
  have "owns q (pm_shared mg)" if "q \<noteq> pid" "owns q sh" for q
  proof (cases "pe_context en")
    case (Some x)
    obtain x' sh' where r: "run_calls env cs (x, pm_shared mg) = (x', sh')" by (metis surj_pair)
    have "px_plugin_id x = pid"
      using ok \<open>map_of (pm_plugins mg) pid = Some en\<close> Some by (auto simp: plugins_ok_def entry_ok_def)
    then show ?thesis using run_calls_owns [OF r, of q] that Some r by (simp add: sh_def)
  qed (use that in \<open>simp add: sh_def\<close>)
  then have o: "\<And>q. q \<noteq> pid \<Longrightarrow> owns q (release_plugin pid sh) \<Longrightarrow> owns q (pm_shared mg)"
    using release_other by blast
  have e: "entry_ok (release_plugin pid sh) pid \<lparr>pe_plugin = p, pe_status = Stopped, pe_context = None\<rparr>"
    using release_owns by (simp add: entry_ok_def is_running_status_def)
  show ?thesis
    using ok s plugins_ok_insert [OF ok e o] Some by (simp add: stop_plugin_def Let_def sh_def)
qed (simp add: stop_plugin_def)

lemma plugins_ok_acts: "plugins_ok mg \<Longrightarrow> plugins_ok (plugin_acts env pid cs mg)"
proof (cases "Option.bind (map_of (pm_plugins mg) pid) pe_context")
  case (Some x)
  assume ok: "plugins_ok mg"
  from Some obtain en where en: "map_of (pm_plugins mg) pid = Some en" "pe_context en = Some x"
    by (auto simp: bind_eq_Some_conv)
  then have id: "px_plugin_id x = pid" and run: "is_running_status (pe_status en)"
    using ok by (auto simp: plugins_ok_def entry_ok_def)
  obtain x' sh where r: "run_calls env cs (x, pm_shared mg) = (x', sh)" by (metis surj_pair)
  have o: "\<And>q. q \<noteq> pid \<Longrightarrow> owns q sh \<Longrightarrow> owns q (pm_shared mg)" and x': "px_plugin_id x' = pid"
    using run_calls_owns [OF r] id by auto
  have e: "entry_ok sh pid (en\<lparr>pe_context := Some x'\<rparr>)"
    using x' run by (auto simp: entry_ok_def is_running_status_def)
  show ?thesis using plugins_ok_insert [OF ok e o] en r by (simp add: plugin_acts_def)
qed (auto simp: plugin_acts_def bind_eq_None_conv split: option.split)

lemma plugins_ok_do: "plugins_ok mg \<Longrightarrow> plugins_ok (manager_do env q mg)"
proof (cases q)
  case (Save_config pid v)
  assume "plugins_ok mg"
  moreover have "owns p (pm_shared (save_plugin_config env pid v mg)) = owns p (pm_shared mg)" for p
    by (simp add: owns_def owners_def save_plugin_config_def)
  moreover have "pm_plugins (save_plugin_config env pid v mg) = pm_plugins mg" by (simp add: save_plugin_config_def)
  ultimately show ?thesis using Save_config by (simp add: plugins_ok_def entry_ok_def)
qed (simp_all add: plugins_ok_start plugins_ok_stop plugins_ok_acts)


text \<open>A plugin that registers a route and a subscription and then starts or fails as its configuration
  says.\<close>

definition demo_code :: "string \<Rightarrow> (nat, nat, unit, unit) plugin_code" where
  "demo_code pid =
     \<lparr>pg_metadata = \<lparr>pg_id = pid, pg_name = ''Demo'', pg_description = [], pg_version = ''1''\<rparr>, pg_schema = None,
      pg_start = (\<lambda>v sh s. ([Register_routes [], Subscribe \<lparr>ss_context = ''*'', ss_patterns = []\<rparr>],
                   if v = JBool True then Start_ok else Start_err (Config ''no port''), s)),
      pg_stop = (\<lambda>sh s. ([], s))\<rparr>"

definition demo_shared :: "(nat, nat, unit) shared" where
  "demo_shared =
     \<lparr>sh_store = store_new ''me'', sh_routes = Map.empty, sh_puts = [], sh_put_map = [], sh_route_map = [], sh_filter = [],
      sh_webapps = [], sh_pilots = autopilot_manager_new,
      sh_resources = registry_new \<lparr>rp_list = \<lambda>_ _ _. Inl (Other []), rp_get = \<lambda>_ _ _. Inl (Other []),
        rp_create = \<lambda>_ _ w. (Inl (Other []), w), rp_update = \<lambda>_ _ _ w. (Inl (Other []), w), rp_delete = \<lambda>_ _ w. (Inl (Other []), w)\<rparr>,
      sh_config = \<lparr>ks_db = [], ks_cache = cache_empty\<rparr>\<rparr>"

definition demo_manager :: "(nat, nat, unit, unit) plugin_manager" where
  "demo_manager = register_plugin (Plugin (demo_code ''demo'') ()) \<lparr>pm_plugins = [], pm_shared = demo_shared, pm_dropped = []\<rparr>"

definition demo_host :: host_env where
  "demo_host = \<lparr>he_text = \<lparr>jt_print = (\<lambda>_. []), jt_parse = (\<lambda>_. None)\<rparr>,
     he_store = \<lparr>se_disp = (\<lambda>_. []), se_now = 0, se_utc = 0\<rparr>\<rparr>"

lemma demo_fresh: "manager_fresh demo_manager"
  by (simp add: manager_fresh_def demo_manager_def register_plugin_def demo_shared_def owns_def demo_code_def
      owners_def registered_def registry_new_def)

lemma demo_plugin:
  "pm_plugins demo_manager = [(''demo'', \<lparr>pe_plugin = Plugin (demo_code ''demo'') (), pe_status = Stopped, pe_context = None\<rparr>)]"
  by (simp add: demo_manager_def register_plugin_def demo_code_def)

lemma demo_started:
  "pm_plugins (snd (start_plugin demo_host ''demo'' (JBool True) demo_manager)) = [(''demo'',
     \<lparr>pe_plugin = Plugin (demo_code ''demo'') (), pe_status = Running ''Started'',
      pe_context = Some ((context_new ''demo'')\<lparr>px_next_sub_id := 2, px_subscriptions := [(1, \<lparr>ss_context = ''*'', ss_patterns = []\<rparr>)]\<rparr>)\<rparr>)]"
  by (simp add: start_plugin_def demo_plugin is_running_status_def)
    (simp add: demo_plugin demo_code_def run_calls_def guarded_def ctx_subscribe_def context_new_def Let_def)


section \<open>A start that fails\<close>

lemma dropped_stay: "x \<in> set (pm_dropped mg) \<Longrightarrow> x \<in> set (pm_dropped (manager_do env q mg))"
  by (cases q) (auto simp: start_plugin_def stop_plugin_def plugin_acts_def save_plugin_config_def Let_def
      split: option.split prod.split sum.split)

definition burnt :: "string \<Rightarrow> ('r, 'p, 'w, 's) plugin_manager \<Rightarrow> bool" where
  "burnt pid mg \<longleftrightarrow> (\<exists>en. map_of (pm_plugins mg) pid = Some en \<and> (\<exists>i. pe_plugin en = Placeholder i)
     \<and> \<not> is_running_status (pe_status en) \<and> pe_context en = None)"

lemma burnt_start: "burnt pid mg \<Longrightarrow> burnt pid (snd (start_plugin env q v mg))"
  by (cases "q = pid") (auto simp: burnt_def start_plugin_def Let_def is_running_status_def guarded_def
      split: option.split prod.split sum.split)

lemma burnt_do: "burnt pid mg \<Longrightarrow> burnt pid (manager_do env q mg)"
proof (cases q)
  case (Stop p)
  assume "burnt pid mg"
  then show ?thesis
    using Stop by (cases "p = pid") (auto simp: burnt_def stop_plugin_def Let_def is_running_status_def
        split: option.split prod.split)
next
  case (Acts p cs)
  assume "burnt pid mg"
  then show ?thesis
    using Acts by (cases "p = pid") (auto simp: burnt_def plugin_acts_def split: option.split prod.split)
qed (simp_all add: burnt_start, simp add: burnt_def save_plugin_config_def)

text \<open>A plugin whose start failed once can not be started again, with any configuration,
  whatever is requested in between; and its context is dropped with its subscriptions still
  running, for good.\<close>

theorem failed_start_is_permanent:
  assumes "start_plugin env pid v mg = (Inl e, mg')" and "map_of (pm_plugins mg) pid = Some en"
    and "later = fold (manager_do env) qs mg'"
    and "start_of (pe_plugin en) v (pm_shared mg) = (cs, fin, p)"
  shows "fst (start_plugin env pid w later) = Inl (Runtime ''placeholder plugin cannot be started'')
    \<and> fst (run_calls env cs (context_new pid, pm_shared mg)) \<in> set (pm_dropped later)"
proof -
  have "burnt pid mg'"
    using assms(1,2) by (auto simp: start_plugin_def burnt_def is_running_status_def Let_def split: prod.splits sum.splits if_splits)
  then have "burnt pid later" unfolding assms(3) by (induction qs arbitrary: mg') (simp_all add: burnt_do)
  then have "fst (start_plugin env pid w later) = Inl (Runtime ''placeholder plugin cannot be started'')"
    by (auto simp: burnt_def start_plugin_def guarded_def run_calls_def)
  moreover have "fst (run_calls env cs (context_new pid, pm_shared mg)) \<in> set (pm_dropped mg')"
    using assms(1,2,4) by (auto simp: start_plugin_def Let_def split: prod.splits sum.splits if_splits)
  then have "fst (run_calls env cs (context_new pid, pm_shared mg)) \<in> set (pm_dropped later)"
    unfolding assms(3) by (induction qs arbitrary: mg') (simp_all add: dropped_stay)
  ultimately show ?thesis ..
qed

theorem failed_start_is_permanent_witness:
  "let mg = fold (manager_do demo_host) [Start ''demo'' (JBool False), Stop ''demo''] demo_manager
   in fst (start_plugin demo_host ''demo'' (JBool True) mg) = Inl (Runtime ''placeholder plugin cannot be started'')
     \<and> (\<exists>x\<in>set (pm_dropped mg). px_subscriptions x \<noteq> [])"
proof -
  obtain x sh where r: "run_calls demo_host [Register_routes [], Subscribe \<lparr>ss_context = ''*'', ss_patterns = []\<rparr>]
      (context_new ''demo'', pm_shared demo_manager) = (x, sh)" by (metis surj_pair)
  obtain mg' where s: "start_plugin demo_host ''demo'' (JBool False) demo_manager = (Inl (Config ''no port''), mg')"
    by (simp add: start_plugin_def demo_plugin is_running_status_def) (simp add: demo_code_def guarded_def Let_def r)
  have en: "map_of (pm_plugins demo_manager) ''demo''
      = Some \<lparr>pe_plugin = Plugin (demo_code ''demo'') (), pe_status = Stopped, pe_context = None\<rparr>"
    by (simp add: demo_plugin)
  have st: "start_of (pe_plugin \<lparr>pe_plugin = Plugin (demo_code ''demo'') (), pe_status = Stopped, pe_context = None\<rparr>) (JBool False) (pm_shared demo_manager)
      = ([Register_routes [], Subscribe \<lparr>ss_context = ''*'', ss_patterns = []\<rparr>], Start_err (Config ''no port''), Plugin (demo_code ''demo'') ())"
    by (simp add: demo_code_def)
  note f = failed_start_is_permanent [OF s en refl st, where qs = "[Stop ''demo'']"]
  have "px_subscriptions (fst (run_calls demo_host [Register_routes [], Subscribe \<lparr>ss_context = ''*'', ss_patterns = []\<rparr>]
      (context_new ''demo'', pm_shared demo_manager))) \<noteq> []"
    by (simp add: run_calls_def ctx_subscribe_def context_new_def Let_def)
  then show ?thesis using f [of "JBool True"] s by (auto simp: Let_def)
qed

section \<open>The autopilots of a stopped plugin\<close>

text \<open>Stopping a plugin leaves the autopilots it registered in place, the default among
  them: requests still reach the provider of the stopped plugin.\<close>

theorem stopped_autopilot_stays:
  assumes "map_of (pm_plugins mg) pid = Some en" and "pe_plugin en = Plugin code s"
    and "pg_stop code (pm_shared mg) s = ([], s')"
  shows "sh_pilots (pm_shared (snd (stop_plugin env pid mg))) = sh_pilots (pm_shared mg)"
  using assms by (auto simp: stop_plugin_def release_plugin_def run_calls_def Let_def split: option.split)

theorem stopped_autopilot_stays_witness:
  "let mg = snd (start_plugin demo_host ''demo'' (JBool True) demo_manager)
   in sh_pilots (pm_shared (snd (stop_plugin demo_host ''demo'' mg))) = sh_pilots (pm_shared mg)"
proof -
  let ?mg = "snd (start_plugin demo_host ''demo'' (JBool True) demo_manager)"
  obtain en where en: "map_of (pm_plugins ?mg) ''demo'' = Some en" "pe_plugin en = Plugin (demo_code ''demo'') ()"
    by (simp add: demo_started)
  have "pg_stop (demo_code ''demo'') (pm_shared ?mg) () = ([], ())" by (simp add: demo_code_def)
  from stopped_autopilot_stays [OF en this] show ?thesis by (simp add: Let_def)
qed

end
