(* ===== verification/AdminSpec.thy ===== *)
theory AdminSpec
  imports Admin PluginsSpec
begin

text \<open>
  The registry that the administration shows agrees with the manager after every request that
  starts or stops a plugin, but loses the schemas of their configuration; a change of a
  configuration with which the plugin does not start leaves the registry behind.
\<close>

definition keyed :: "('r, 'p, 'w, 's) plugin_manager \<Rightarrow> bool" where
  "keyed mg \<longleftrightarrow> hm_ok (pm_plugins mg) \<and>
     (\<forall>pid en. map_of (pm_plugins mg) pid = Some en \<longrightarrow> pg_id (metadata_of (pe_plugin en)) = pid)"

lemma start_of_id: "start_of p v sh = (cs, e, p') \<Longrightarrow> metadata_of p' = metadata_of p"
  by (cases p) (auto split: prod.splits)

lemma stop_of_id: "stop_of p sh = (cs, p') \<Longrightarrow> metadata_of p' = metadata_of p"
  by (cases p) (auto split: prod.splits)

lemma keyed_insert_row [simp]:
  assumes "keyed mg" and "pg_id (metadata_of (pe_plugin en)) = pid"
  shows "keyed (mg\<lparr>pm_shared := sh, pm_plugins := hm_insert pid en (pm_plugins mg)\<rparr>)"
    and "keyed (mg\<lparr>pm_shared := sh, pm_dropped := d, pm_plugins := hm_insert pid en (pm_plugins mg)\<rparr>)"
  using assms by (simp_all add: keyed_def hm_insert_ok del: map_of_eq_Some_iff)

lemma keyed_start: "keyed mg \<Longrightarrow> keyed (snd (start_plugin env pid v mg))"
proof (cases "map_of (pm_plugins mg) pid")
  case (Some en)
  assume ok: "keyed mg"
  obtain cs e p where s: "start_of (pe_plugin en) v (pm_shared mg) = (cs, e, p)" by (metis surj_pair)
  have "pg_id (metadata_of p) = pid"
    using ok Some start_of_id [OF s] by (simp add: keyed_def del: map_of_eq_Some_iff)
  then show ?thesis
    using ok Some s by (simp add: start_plugin_def split: prod.split sum.split)
qed (simp add: start_plugin_def)

lemma keyed_stop: "keyed mg \<Longrightarrow> keyed (snd (stop_plugin env pid mg))"
proof (cases "map_of (pm_plugins mg) pid")
  case (Some en)
  assume ok: "keyed mg"
  obtain cs p where s: "stop_of (pe_plugin en) (pm_shared mg) = (cs, p)" by (metis surj_pair)
  have "pg_id (metadata_of p) = pid"
    using ok Some stop_of_id [OF s] by (simp add: keyed_def del: map_of_eq_Some_iff)
  then show ?thesis
    using ok Some s by (simp add: stop_plugin_def Let_def)
qed (simp add: stop_plugin_def)

section \<open>Agreement\<close>

definition reflects :: "plugin_registry \<Rightarrow> string \<Rightarrow> plugin_status \<Rightarrow> bool" where
  "reflects rg pid st \<longleftrightarrow> (case map_of rg pid of
     Some info \<Rightarrow> pi_status info = fst (status_text st) \<and> pi_enabled info = snd (status_text st) \<and> pi_schema info = None
   | None \<Rightarrow> False)"

definition agrees :: "plugin_registry \<Rightarrow> ('r, 'p, 'w, 's) plugin_manager \<Rightarrow> bool" where
  "agrees rg mg \<longleftrightarrow> (\<forall>pid en. map_of (pm_plugins mg) pid = Some en \<longrightarrow> reflects rg pid (pe_status en))"

lemma reflects_register:
  "reflects (register_tier1 now m (fst (status_text st')) (snd (status_text st')) rg) pid st \<longleftrightarrow>
     (if pid = pg_id m then fst (status_text st) = fst (status_text st') \<and> snd (status_text st) = snd (status_text st')
      else reflects rg pid st)"
  by (auto simp: reflects_def register_tier1_def)

lemma sync_fold:
  assumes "distinct (map fst es)" and "\<And>k en. (k, en) \<in> set es \<Longrightarrow> pg_id (metadata_of (pe_plugin en)) = k"
  shows "(pid, en) \<in> set es \<or> pid \<notin> fst ` set es \<and> reflects rg pid (pe_status en) \<Longrightarrow>
    reflects (fold (\<lambda>(m, s). register_tier1 now m (fst (status_text s)) (snd (status_text s)))
      (map (\<lambda>(_, en). (metadata_of (pe_plugin en), pe_status en)) es) rg) pid (pe_status en)"
  using assms
proof (induction es arbitrary: rg)
  case (Cons a es)
  obtain k b where a: "a = (k, b)" by (metis surj_pair)
  let ?rg = "register_tier1 now (metadata_of (pe_plugin b)) (fst (status_text (pe_status b))) (snd (status_text (pe_status b))) rg"
  have "(pid, en) \<in> set es \<or> pid \<notin> fst ` set es \<and> reflects ?rg pid (pe_status en)"
    using Cons.prems a by (auto simp: reflects_register)
  from Cons.IH [OF this] Cons.prems(2,3) a show ?case by auto
qed auto

lemma sync_agrees: "keyed mg \<Longrightarrow> agrees (sync_tier1_status now mg rg) mg"
  unfolding agrees_def sync_tier1_status_def plugin_statuses_def
  by (intro allI impI sync_fold) (auto simp: keyed_def)

lemma synced_agrees: "keyed (as_manager x) \<Longrightarrow> agrees (as_registry (synced env x)) (as_manager (synced env x))"
  by (simp add: synced_def sync_agrees)

lemma keyed_set_enabled [simp]: "keyed (as_manager (set_enabled env pid b x)) = keyed (as_manager x)"
  by (simp add: set_enabled_def Let_def keyed_def)

lemma start_and_sync_agrees:
  "keyed (as_manager x) \<Longrightarrow> start_and_sync env pid v x = (r, y) \<Longrightarrow> agrees (as_registry y) (as_manager y)"
  using keyed_start [of "as_manager x" "ae_host env" pid v]
  by (auto simp: start_and_sync_def intro!: synced_agrees split: prod.splits sum.splits)

text \<open>Claim C31. After a plugin was restarted, enabled or disabled, successfully or not, the registry
  shows the manager's state of every plugin, and no plugin has its configuration schema any more.\<close>

theorem control_keeps_registry_in_step:
  assumes "keyed (as_manager x)" and "map_of (as_registry x) pid = Some info" and "pi_tier info = Rust"
    and "map_of (pm_plugins (as_manager x)) pid = Some entry" and "control_plugin env pid action x = (r, y)"
    and "map_of (pm_plugins (as_manager y)) q = Some en"
  shows "\<exists>i. map_of (as_registry y) q = Some i \<and> pi_status i = fst (status_text (pe_status en))
    \<and> pi_enabled i = snd (status_text (pe_status en)) \<and> pi_schema i = None"
proof -
  have c: "control_rust env pid action x = (r, y)" using assms(2,3,5) by (simp add: control_plugin_def)
  have "fst (stop_plugin (ae_host env) pid (as_manager x)) = Inr ()"
    using assms(4) by (simp add: stop_plugin_def Let_def split: prod.split del: map_of_eq_Some_iff)
  then obtain mg where st: "stop_plugin (ae_host env) pid (as_manager x) = (Inr (), mg)" by (metis prod.collapse)
  then have k: "keyed mg" using keyed_stop [OF assms(1), of "ae_host env" pid] by simp
  have "agrees (as_registry y) (as_manager y)"
  proof (cases action)
    case Restart
    then show ?thesis
      using c k start_and_sync_agrees [of "x\<lparr>as_manager := mg\<rparr>"] by (simp add: control_rust_def st)
  next
    case Enable
    then show ?thesis
      using c assms(1) start_and_sync_agrees [of "set_enabled env pid True x"] by (simp add: control_rust_def Let_def)
  next
    case Disable
    then show ?thesis
      using c assms(1) keyed_stop [of "as_manager (set_enabled env pid False x)" "ae_host env" pid]
      by (auto simp: control_rust_def Let_def intro!: synced_agrees split: prod.splits sum.splits)
  qed
  then have "reflects (as_registry y) q (pe_status en)" using assms(6) unfolding agrees_def by blast
  then show ?thesis by (auto simp: reflects_def split: option.splits)
qed

definition demo_admin :: "json option \<Rightarrow> (nat, nat, unit, unit) admin_server" where
  "demo_admin schema = \<lparr>as_registry = [(''demo'', \<lparr>pi_id = ''demo'', pi_name = ''Demo'', pi_description = [], pi_version = ''1'',
     pi_tier = Rust, pi_status = ''running: Started'', pi_enabled = True, pi_keywords = [], pi_has_webapp = False,
     pi_webapp_url = None, pi_schema = schema, pi_last_error_time = None\<rparr>)],
     as_manager = snd (start_plugin demo_host ''demo'' (JBool True) demo_manager)\<rparr>"

definition demo_admin_env :: admin_env where
  "demo_admin_env = \<lparr>ae_host = demo_host, ae_now = 0, ae_bridge = (\<lambda>_ _. None)\<rparr>"

lemma demo_ids: "keyed (as_manager (demo_admin schema))"
  by (simp add: demo_admin_def keyed_start keyed_def demo_plugin demo_started) (simp add: demo_code_def)

theorem control_keeps_registry_in_step_witness:
  "let y = snd (control_plugin demo_admin_env ''demo'' Disable (demo_admin (Some (JBool True))))
   in \<exists>i. map_of (as_registry y) ''demo'' = Some i \<and> pi_status i = ''stopped'' \<and> pi_schema i = None"
proof -
  let ?x = "demo_admin (Some (JBool True))"
  obtain r y where c: "control_plugin demo_admin_env ''demo'' Disable ?x = (r, y)" by (metis surj_pair)
  obtain info where i: "map_of (as_registry ?x) ''demo'' = Some info" "pi_tier info = Rust" by (simp add: demo_admin_def)
  obtain entry where e: "map_of (pm_plugins (as_manager ?x)) ''demo'' = Some entry" by (simp add: demo_admin_def demo_started)
  have "\<exists>p. map_of (pm_plugins (as_manager y)) ''demo'' = Some \<lparr>pe_plugin = p, pe_status = Stopped, pe_context = None\<rparr>"
    using c i by (auto simp: control_plugin_def control_rust_def stop_plugin_def Let_def set_enabled_def synced_def
        demo_admin_def demo_started split: prod.splits)
  then obtain p where "map_of (pm_plugins (as_manager y)) ''demo'' = Some \<lparr>pe_plugin = p, pe_status = Stopped, pe_context = None\<rparr>"
    by blast
  from control_keeps_registry_in_step [OF demo_ids i e c this] c show ?thesis
    by (auto simp: Let_def status_text_def)
qed

text \<open>A new configuration with which a running plugin does not start is answered with an
  error, the plugin is not running any more, and the registry still shows what it showed before.\<close>

theorem failed_config_leaves_registry:
  assumes "map_of (as_registry x) pid = Some info" and "pi_tier info = Rust" and "is_running pid (as_manager x)"
    and "update_plugin_config env pid v x = (Reply n m, y)"
  shows "as_registry y = as_registry x" and "\<not> is_running pid (as_manager y)"
proof -
  let ?mg = "save_plugin_config (ae_host env) pid v (as_manager x)"
  have run: "is_running pid ?mg" using assms(3) by (simp add: is_running_def save_plugin_config_def)
  then have "fst (stop_plugin (ae_host env) pid ?mg) = Inr ()"
    by (auto simp: is_running_def is_some_and_iff stop_plugin_def Let_def split: prod.split)
  then obtain mg1 where s: "stop_plugin (ae_host env) pid ?mg = (Inr (), mg1)" by (metis prod.collapse)
  obtain e mg2 where t: "start_plugin (ae_host env) pid v mg1 = (Inl e, mg2)" "y = x\<lparr>as_manager := mg2\<rparr>"
    using assms run s by (auto simp: update_plugin_config_def Let_def split: prod.splits sum.splits)
  then show "as_registry y = as_registry x" by simp
  show "\<not> is_running pid (as_manager y)"
    using t by (auto simp: start_plugin_def is_running_def is_some_and_def is_running_status_def Let_def
        split: option.splits prod.splits sum.splits if_splits)
qed

theorem failed_config_leaves_registry_witness:
  "\<exists>y m. update_plugin_config demo_admin_env ''demo'' (JBool False) (demo_admin None) = (Reply 500 m, y)
     \<and> as_registry y = as_registry (demo_admin None) \<and> \<not> is_running ''demo'' (as_manager y)"
proof -
  let ?x = "demo_admin None"
  obtain info where i: "map_of (as_registry ?x) ''demo'' = Some info" "pi_tier info = Rust" by (simp add: demo_admin_def)
  have run: "is_running ''demo'' (as_manager ?x)"
    by (simp add: demo_admin_def is_running_def demo_started is_running_status_def is_some_and_def)
  obtain m y where u: "update_plugin_config demo_admin_env ''demo'' (JBool False) ?x = (Reply 500 m, y)"
  proof -
    let ?mg = "save_plugin_config demo_host ''demo'' (JBool False) (as_manager ?x)"
    have r: "is_running ''demo'' ?mg" using run by (simp add: is_running_def save_plugin_config_def)
    have p: "pm_plugins ?mg = pm_plugins (as_manager ?x)" by (simp add: save_plugin_config_def)
    obtain mg1 where s: "stop_plugin demo_host ''demo'' ?mg = (Inr (), mg1)"
      and q: "map_of (pm_plugins mg1) ''demo'' = Some \<lparr>pe_plugin = Plugin (demo_code ''demo'') (), pe_status = Stopped, pe_context = None\<rparr>"
      by (simp add: stop_plugin_def p Let_def) (simp add: demo_admin_def demo_started demo_code_def Let_def)
    obtain e mg2 where "start_plugin demo_host ''demo'' (JBool False) mg1 = (Inl e, mg2)"
      by (cases "run_calls demo_host [Register_routes [], Subscribe \<lparr>ss_context = ''*'', ss_patterns = []\<rparr>] (context_new ''demo'', pm_shared mg1)")
        (simp add: start_plugin_def q is_running_status_def demo_code_def guarded_def Let_def)
    then show ?thesis
      using that i r s by (simp add: update_plugin_config_def demo_admin_env_def message_reply_def Let_def)
  qed
  from failed_config_leaves_registry [OF i run u] u show ?thesis by blast
qed

end
