(* ===== verification/History.thy ===== *)
theory History
  imports Store Files Geo "HOL-Library.Product_Lexorder"
begin

text \<open>
  The recording of history (\<^verbatim>\<open>signalk-server/src/history\<close> and
  \<^verbatim>\<open>api/v2/history.rs\<close>): the choice of the paths to record, the ingestion of deltas,
  the provider over SQLite with its daily summaries, and the queries of the history interface.

  A table is the list of its rows in the order of insertion, and a date in it is the text that was
  stored; SQLite and the server compare it as text. What SQLite and \<^verbatim>\<open>chrono\<close> compute
  is an environment. The connection is behind a mutex that a panic under the lock poisons; a panic
  is \<open>None\<close>. Failures of the database itself are not modelled.
\<close>

section \<open>Configuration\<close>

record history_config =
  hc_enabled :: bool
  hc_sampling_interval_secs :: f64
  hc_include :: "string list"
  hc_exclude :: "string list"
  hc_retention_raw_days :: "32 word"
  hc_retention_daily_days :: "32 word"
  hc_aggregation_interval_secs :: u64
  hc_max_db_size_mb :: u64
  hc_vacuum_after_prune :: bool

definition history_config_default :: history_config where
  "history_config_default =
     \<lparr>hc_enabled = True, hc_sampling_interval_secs = Fin 1, hc_include = [''**''], hc_exclude = [],
      hc_retention_raw_days = 3, hc_retention_daily_days = 90, hc_aggregation_interval_secs = 300,
      hc_max_db_size_mb = 500, hc_vacuum_after_prune = True\<rparr>"

fun glob_parts :: "string list \<Rightarrow> string list \<Rightarrow> bool" where
  "glob_parts path [] \<longleftrightarrow> path = []"
| "glob_parts path (q # qs) \<longleftrightarrow>
     (if q = ''**''
      then qs = [] \<or> list_ex (\<lambda>i. glob_parts (drop i path) qs) [0..<Suc (length path)]
      else (case path of [] \<Rightarrow> False | p # ps \<Rightarrow> (q = ''*'' \<or> q = p) \<and> glob_parts ps qs))"

definition path_matches_glob :: "string \<Rightarrow> string \<Rightarrow> bool" where
  "path_matches_glob path pattern \<longleftrightarrow>
     pattern = ''**'' \<or> glob_parts (split_on CHR ''.'' path) (split_on CHR ''.'' pattern)"

definition should_record :: "string \<Rightarrow> string list \<Rightarrow> string list \<Rightarrow> bool" where
  "should_record path include exclude \<longleftrightarrow>
     \<not> list_ex (path_matches_glob path) exclude \<and> list_ex (path_matches_glob path) include"

section \<open>Requests\<close>

datatype aggregate_method = Average | Min_value | Max_value | First | Last | Count | Mid | MiddleIndex

definition parse_method :: "string \<Rightarrow> aggregate_method" where
  "parse_method s =
     (let l = ascii_lower s in
      if l = ''min'' then Min_value else if l = ''max'' then Max_value else if l = ''first'' then First
      else if l = ''last'' then Last else if l = ''count'' then Count else if l = ''mid'' then Mid
      else if l = ''middle_index'' \<or> l = ''middleindex'' then MiddleIndex else Average)"

fun method_as_str :: "aggregate_method \<Rightarrow> string" where
  "method_as_str Average = ''average''"
| "method_as_str Min_value = ''min''"
| "method_as_str Max_value = ''max''"
| "method_as_str First = ''first''"
| "method_as_str Last = ''last''"
| "method_as_str Count = ''count''"
| "method_as_str Mid = ''mid''"
| "method_as_str MiddleIndex = ''middle_index''"

record path_spec =
  sp_path :: string
  sp_method :: aggregate_method

record values_request =
  hq_context :: string
  hq_path_specs :: "path_spec list"
  hq_from :: "string option"
  hq_to :: "string option"
  hq_duration :: "string option"
  hq_resolution :: "string option"

record contexts_request =
  cq_from :: "string option"
  cq_to :: "string option"
  cq_duration :: "string option"

record paths_request =
  pq_context :: string
  pq_from :: "string option"
  pq_to :: "string option"
  pq_duration :: "string option"

record values_response =
  hr_context :: string
  hr_range :: "string \<times> string"
  hr_values :: "(string \<times> string) list"
  hr_data :: "json list list"

definition auto_resolution_secs :: "f64 \<Rightarrow> f64 option" where
  "auto_resolution_secs secs =
     (if f_le secs (Fin 0) then None
      else (let bucket = f_div secs (Fin 500) in
        if f_lt bucket (Fin 1) then None
        else if f_lt bucket (Fin 5) then Some (Fin 1)
        else if f_lt bucket (Fin 30) then Some (Fin 10)
        else if f_lt bucket (Fin 120) then Some (Fin 60)
        else if f_lt bucket (Fin 600) then Some (Fin 300)
        else if f_lt bucket (Fin 3600) then Some (Fin 900)
        else if f_lt bucket (Fin 14400) then Some (Fin 3600)
        else Some (Fin 86400)))"

text \<open>
  The loop of \<^verbatim>\<open>parse_duration_secs\<close> over the characters after the \<^verbatim>\<open>P\<close>: \<open>num\<close>
  holds the characters since \<^verbatim>\<open>num_start\<close>, and \<open>None\<close> is the early return.
\<close>

fun iso_duration :: "(string \<Rightarrow> f64 option) \<Rightarrow> string \<Rightarrow> bool \<Rightarrow> string \<Rightarrow> f64 \<Rightarrow> f64 option" where
  "iso_duration parse [] in_time num acc = (if f_lt (Fin 0) acc then Some acc else None)"
| "iso_duration parse (c # cs) in_time num acc =
     (let unit = (\<lambda>k. Option.bind (parse num) (\<lambda>n. iso_duration parse cs in_time [] (f_add acc (f_mul n k)))) in
      if c = CHR ''T'' then iso_duration parse cs True [] acc
      else if c = CHR ''D'' \<and> \<not> in_time then unit (Fin 86400)
      else if c = CHR ''H'' \<and> in_time then unit (Fin 3600)
      else if c = CHR ''M'' \<and> in_time then unit (Fin 60)
      else if c = CHR ''S'' \<and> in_time then
        Option.bind (parse num) (\<lambda>n. iso_duration parse cs in_time [] (f_add acc n))
      else iso_duration parse cs in_time (num @ [c]) acc)"

definition parse_duration_secs :: "(string \<Rightarrow> f64 option) \<Rightarrow> string \<Rightarrow> f64 option" where
  "parse_duration_secs parse s =
     (case parse s of
        Some ms \<Rightarrow> Some (f_div ms (Fin 1000))
      | None \<Rightarrow> (case strip_prefix ''P'' (trim s) of
          None \<Rightarrow> None
        | Some r \<Rightarrow> iso_duration parse r False [] (Fin 0)))"

definition parse_resolution_secs :: "(string \<Rightarrow> f64 option) \<Rightarrow> string \<Rightarrow> f64 option" where
  "parse_resolution_secs parse s0 =
     (let s = trim s0 in
      if ends_with s ''s'' then parse (butlast s)
      else if ends_with s ''m'' then map_option (\<lambda>v. f_mul v (Fin 60)) (parse (butlast s))
      else if ends_with s ''h'' then map_option (\<lambda>v. f_mul v (Fin 3600)) (parse (butlast s))
      else if ends_with s ''d'' then map_option (\<lambda>v. f_mul v (Fin 86400)) (parse (butlast s))
      else map_option (\<lambda>ms. f_div ms (Fin 1000)) (parse s))"

section \<open>The database\<close>

text \<open>
  \<open>hx_rfc\<close> and \<open>hx_parse\<close> are \<^verbatim>\<open>to_rfc3339\<close> and \<^verbatim>\<open>parse_from_rfc3339\<close>, with the
  offset in seconds; \<open>hx_in_range\<close> says which instants \<^verbatim>\<open>chrono\<close> can hold.
  \<open>hx_datetime t n\<close> and \<open>hx_date t n\<close> are SQLite's \<^verbatim>\<open>datetime('now', '-n days')\<close>
  and \<^verbatim>\<open>date\<close> at \<open>t\<close>, null outside their range; \<open>hx_strftime\<close> and \<open>hx_avg\<close> are its
  functions of those names. \<open>hx_join\<close> is the text of a task's panic.
\<close>

record history_env =
  hx_rfc :: "int \<Rightarrow> datetime \<Rightarrow> string"
  hx_parse :: "string \<Rightarrow> string + int \<times> datetime"
  hx_parse_f64 :: "string \<Rightarrow> f64 option"
  hx_in_range :: "datetime \<Rightarrow> bool"
  hx_datetime :: "datetime \<Rightarrow> nat \<Rightarrow> string option"
  hx_date :: "datetime \<Rightarrow> nat \<Rightarrow> string option"
  hx_strftime :: "string \<Rightarrow> string \<Rightarrow> string option"
  hx_avg :: "f64 list \<Rightarrow> f64"
  hx_join :: string

record raw_row =
  rr_timestamp :: string
  rr_context :: string
  rr_path :: string
  rr_value :: "f64 option"

record daily_row =
  dr_date :: string
  dr_context :: string
  dr_path :: string
  dr_avg :: "f64 option"
  dr_min :: "f64 option"
  dr_max :: "f64 option"
  dr_count :: nat

record history_db =
  hd_raw :: "raw_row list"
  hd_daily :: "daily_row list"

text \<open>SQLite stores a float that is not a number as null.\<close>

definition sql_real :: "f64 \<Rightarrow> f64 option" where
  "sql_real x = (if is_nan x then None else Some x)"

fun sql_min :: "f64 list \<Rightarrow> f64" where
  "sql_min [] = NaN"
| "sql_min (v # vs) = fold (\<lambda>x m. if f_lt x m then x else m) vs v"

fun sql_max :: "f64 list \<Rightarrow> f64" where
  "sql_max [] = NaN"
| "sql_max (v # vs) = fold (\<lambda>x m. if f_lt m x then x else m) vs v"

text \<open>The mutex around a value, and an operation that runs under its lock.\<close>

record 'd locked =
  g_poisoned :: bool
  g_data :: 'd

definition lock_error :: string where
  "lock_error = ''lock: poisoned lock: another task failed inside''"

definition with_conn :: "('d \<Rightarrow> (string + 'a) option \<times> 'd) \<Rightarrow> 'd locked \<Rightarrow> (string + 'a) option \<times> 'd locked" where
  "with_conn f g =
     (if g_poisoned g then (Some (Inl lock_error), g)
      else (let (r, d) = f (g_data g) in (r, \<lparr>g_poisoned = (r = None), g_data = d\<rparr>)))"

type_synonym record_entry = "string \<times> string \<times> f64 \<times> string option"

definition raw_row_of :: "history_env \<Rightarrow> datetime \<Rightarrow> record_entry \<Rightarrow> raw_row" where
  "raw_row_of env now = (\<lambda>(context, path, v, ts).
     let t = unwrap_or ts [] in
     \<lparr>rr_timestamp = (if t = [] then hx_rfc env 0 now else t), rr_context = context, rr_path = path,
      rr_value = sql_real v\<rparr>)"

definition record_batch :: "history_env \<Rightarrow> datetime \<Rightarrow> record_entry list \<Rightarrow> history_db \<Rightarrow>
    (string + unit) option \<times> history_db" where
  "record_batch env now batch db = (Some (Inr ()), db\<lparr>hd_raw := hd_raw db @ map (raw_row_of env now) batch\<rparr>)"

section \<open>Daily summaries\<close>

definition before_cut :: "string option \<Rightarrow> string \<Rightarrow> bool" where
  "before_cut limit t = (case limit of Some c \<Rightarrow> t < c | None \<Rightarrow> False)"

type_synonym day_key = "string \<times> string \<times> string"

definition raw_key :: "raw_row \<Rightarrow> day_key" where
  "raw_key r = (take 10 (rr_timestamp r), rr_context r, rr_path r)"

definition daily_key :: "daily_row \<Rightarrow> day_key" where
  "daily_key d = (dr_date d, dr_context d, dr_path d)"

definition daily_summary :: "history_env \<Rightarrow> raw_row list \<Rightarrow> day_key \<Rightarrow> daily_row" where
  "daily_summary env rows k =
     (let vs = List.map_filter rr_value (filter (\<lambda>r. raw_key r = k) rows)
      in \<lparr>dr_date = fst k, dr_context = fst (snd k), dr_path = snd (snd k), dr_avg = sql_real (hx_avg env vs),
          dr_min = sql_real (sql_min vs), dr_max = sql_real (sql_max vs), dr_count = length vs\<rparr>)"

text \<open>\<^verbatim>\<open>INSERT OR REPLACE\<close>: the row with the same primary key is deleted first.\<close>

definition replace_daily :: "daily_row \<Rightarrow> daily_row list \<Rightarrow> daily_row list" where
  "replace_daily d ds = filter (\<lambda>e. daily_key e \<noteq> daily_key d) ds @ [d]"

definition summarize :: "history_env \<Rightarrow> string option \<Rightarrow> history_db \<Rightarrow> history_db" where
  "summarize env limit db =
     (let old = filter (\<lambda>r. before_cut limit (rr_timestamp r) \<and> rr_value r \<noteq> None) (hd_raw db)
      in db\<lparr>hd_daily := fold replace_daily (map (daily_summary env old) (remdups (map raw_key old))) (hd_daily db)\<rparr>)"

definition prune_raw :: "string option \<Rightarrow> history_db \<Rightarrow> history_db" where
  "prune_raw limit db = db\<lparr>hd_raw := filter (\<lambda>r. \<not> before_cut limit (rr_timestamp r)) (hd_raw db)\<rparr>"

definition prune_daily :: "string option \<Rightarrow> history_db \<Rightarrow> history_db" where
  "prune_daily limit db = db\<lparr>hd_daily := filter (\<lambda>d. \<not> before_cut limit (dr_date d)) (hd_daily db)\<rparr>"

text \<open>The three statements run one after the other, each at its own time.\<close>

definition aggregate_and_prune :: "history_env \<Rightarrow> datetime \<times> datetime \<times> datetime \<Rightarrow> 32 word \<Rightarrow> 32 word \<Rightarrow> history_db \<Rightarrow>
    (string + unit) option \<times> history_db" where
  "aggregate_and_prune env = (\<lambda>(t1, t2, t3) raw_days daily_days db.
     (Some (Inr ()),
      prune_daily (hx_date env t3 (unat daily_days))
        (prune_raw (hx_datetime env t2 (unat raw_days))
          (summarize env (hx_datetime env t1 (unat raw_days)) db))))"

section \<open>Ingestion and maintenance\<close>

datatype history_provider = Disabled_provider | Sqlite_provider

text \<open>A call on the provider the manager holds.\<close>

fun provider_record :: "history_env \<Rightarrow> history_provider \<Rightarrow> datetime \<Rightarrow> record_entry list \<Rightarrow> history_db locked \<Rightarrow>
    (string + unit) option \<times> history_db locked" where
  "provider_record env Disabled_provider now batch g = (Some (Inr ()), g)"
| "provider_record env Sqlite_provider now batch g = with_conn (record_batch env now batch) g"

fun provider_aggregate :: "history_env \<Rightarrow> history_provider \<Rightarrow> datetime \<times> datetime \<times> datetime \<Rightarrow> 32 word \<Rightarrow> 32 word \<Rightarrow>
    history_db locked \<Rightarrow> (string + unit) option \<times> history_db locked" where
  "provider_aggregate env Disabled_provider t raw_days daily_days g = (Some (Inr ()), g)"
| "provider_aggregate env Sqlite_provider t raw_days daily_days g = with_conn (aggregate_and_prune env t raw_days daily_days) g"

definition entry_value :: "history_config \<Rightarrow> string \<Rightarrow> string \<Rightarrow> path_value \<Rightarrow> record_entry list" where
  "entry_value cfg context ts pv =
     (if \<not> should_record (pv_path pv) (hc_include cfg) (hc_exclude cfg) then []
      else (case as_f64 (pv_value pv) of Some n \<Rightarrow> [(context, pv_path pv, n, Some ts)] | None \<Rightarrow> []))"

definition delta_entries :: "history_env \<Rightarrow> history_config \<Rightarrow> delta \<Rightarrow> record_entry list" where
  "delta_entries env cfg d =
     concat (map (\<lambda>u. concat (map (entry_value cfg (unwrap_or (d_context d) ''vessels.self'') (hx_rfc env 0 (u_timestamp u)))
       (u_values u))) (d_updates d))"

text \<open>
  The task of the ingestion. Its interval of \<open>sampling_millis\<close> milliseconds must not be empty:
  \<^verbatim>\<open>tokio::time::interval\<close> panics on zero, and then nothing is ever received. A tick hands
  the batch to a thread of its own, so the writes that are under way may finish in any order.
\<close>

record ingestion =
  in_batch :: "record_entry list"
  in_writes :: "record_entry list list"
  in_shared :: "history_db locked"

definition sampling_millis :: "history_config \<Rightarrow> int" where
  "sampling_millis cfg = f64_as_int 0 (2 ^ 64 - 1) (f_mul (hc_sampling_interval_secs cfg) (Fin 1000))"

definition ingestion_runs :: "history_config \<Rightarrow> bool" where
  "ingestion_runs cfg \<longleftrightarrow> sampling_millis cfg \<noteq> 0"

definition ingest_delta :: "history_env \<Rightarrow> history_config \<Rightarrow> delta \<Rightarrow> ingestion \<Rightarrow> ingestion" where
  "ingest_delta env cfg d x = x\<lparr>in_batch := in_batch x @ delta_entries env cfg d\<rparr>"

definition ingest_tick :: "ingestion \<Rightarrow> ingestion" where
  "ingest_tick x = (if in_batch x = [] then x else x\<lparr>in_batch := [], in_writes := in_writes x @ [in_batch x]\<rparr>)"

definition ingest_write :: "history_env \<Rightarrow> history_provider \<Rightarrow> datetime \<Rightarrow> nat \<Rightarrow> ingestion \<Rightarrow> ingestion" where
  "ingest_write env p now i x =
     (if i < length (in_writes x)
      then x\<lparr>in_writes := take i (in_writes x) @ drop (Suc i) (in_writes x),
             in_shared := snd (provider_record env p now (in_writes x ! i) (in_shared x))\<rparr>
      else x)"

text \<open>One run of the maintenance, with the size of the database when it is asked for, and the
  times of the statements of both prunings. A \<^verbatim>\<open>VACUUM\<close> changes no row.\<close>

definition max_size_bytes :: "history_config \<Rightarrow> u64" where
  "max_size_bytes cfg = hc_max_db_size_mb cfg * 1024 * 1024"

definition maintenance_tick :: "history_env \<Rightarrow> history_provider \<Rightarrow> history_config \<Rightarrow> datetime \<times> datetime \<times> datetime \<Rightarrow>
    u64 option \<Rightarrow> datetime \<times> datetime \<times> datetime \<Rightarrow> history_db locked \<Rightarrow> history_db locked" where
  "maintenance_tick env p cfg t bytes t' g =
     (case provider_aggregate env p t (hc_retention_raw_days cfg) (hc_retention_daily_days cfg) g of
        (Some (Inr _), g1) \<Rightarrow>
          (if 0 < max_size_bytes cfg \<and> is_some_and bytes (\<lambda>n. max_size_bytes cfg < n)
           then snd (provider_aggregate env p t' (hc_retention_raw_days cfg div 2) (hc_retention_daily_days cfg div 2) g1)
           else g1)
      | (_, g1) \<Rightarrow> g1)"

definition history_provider_of :: "history_config \<Rightarrow> history_provider" where
  "history_provider_of cfg = (if hc_enabled cfg then Sqlite_provider else Disabled_provider)"

text \<open>The manager: requests ask the provider it holds, while the tasks that it has started keep the
  one they were started with.\<close>

record history_manager =
  hm_provider :: history_provider
  hm_task_provider :: "history_provider option"
  hm_config :: history_config

definition history_manager_new :: "history_config \<Rightarrow> history_manager" where
  "history_manager_new cfg = \<lparr>hm_provider = history_provider_of cfg, hm_task_provider = None, hm_config = cfg\<rparr>"

definition history_start :: "history_manager \<Rightarrow> history_manager" where
  "history_start m = (if hc_enabled (hm_config m) then m\<lparr>hm_task_provider := Some (hm_provider m)\<rparr> else m)"

definition history_set_provider :: "history_provider \<Rightarrow> history_manager \<Rightarrow> history_manager" where
  "history_set_provider p m = m\<lparr>hm_provider := p\<rparr>"

end
