(* ===== verification/HistoryQuery.thy ===== *)
theory HistoryQuery
  imports History
begin

text \<open>
  The queries of the recorded history (\<^verbatim>\<open>history/provider.rs\<close>) and the handlers of the
  history interface (\<^verbatim>\<open>api/v2/history.rs\<close>). A query runs under the lock of the
  connection; \<open>None\<close> is a panic, which the handler answers with status 500.
\<close>

section \<open>The range of time\<close>

text \<open>Adding seconds to an instant panics outside the range of \<^verbatim>\<open>TimeDelta\<close> or of dates.\<close>

definition add_seconds :: "history_env \<Rightarrow> datetime \<Rightarrow> int \<Rightarrow> datetime option" where
  "add_seconds env t secs =
     (if \<bar>secs\<bar> \<le> (2 ^ 63 - 1) div 1000 \<and> hx_in_range env (t + secs * 10 ^ 9) then Some (t + secs * 10 ^ 9) else None)"

definition seconds_i64 :: "f64 \<Rightarrow> int" where
  "seconds_i64 x = f64_as_int (- (2 ^ 63)) (2 ^ 63 - 1) x"

definition invalid_date :: "string \<Rightarrow> string \<Rightarrow> string" where
  "invalid_date what e = ''Invalid '' @ what @ '': '' @ e"

text \<open>A date \<open>secs\<close> away from the one written in \<open>s\<close>, in the offset of \<open>s\<close>.\<close>

definition shifted_date :: "history_env \<Rightarrow> string \<Rightarrow> string \<Rightarrow> int \<Rightarrow> (string \<Rightarrow> string \<times> string) \<Rightarrow>
    (string + string \<times> string) option" where
  "shifted_date env what s secs f =
     (case hx_parse env s of
        Inl e \<Rightarrow> Some (Inl (invalid_date what e))
      | Inr (off, t) \<Rightarrow> map_option (\<lambda>t'. Inr (f (hx_rfc env off t'))) (add_seconds env t secs))"

definition with_duration :: "history_env \<Rightarrow> string \<Rightarrow> (int \<Rightarrow> (string + 'a) option) \<Rightarrow> (string + 'a) option" where
  "with_duration env dur f =
     (case parse_duration_secs (hx_parse_f64 env) dur of
        None \<Rightarrow> Some (Inl (''Invalid duration: '' @ dur))
      | Some secs \<Rightarrow> f (seconds_i64 secs))"

fun resolve_time_range :: "history_env \<Rightarrow> datetime \<Rightarrow> string option \<Rightarrow> string option \<Rightarrow> string option \<Rightarrow>
    (string + string \<times> string) option" where
  "resolve_time_range env now None None (Some dur) =
     with_duration env dur (\<lambda>secs. map_option (\<lambda>t. Inr (hx_rfc env 0 t, hx_rfc env 0 now)) (add_seconds env now (- secs)))"
| "resolve_time_range env now (Some f) None (Some dur) =
     with_duration env dur (\<lambda>secs. shifted_date env ''from'' f secs (\<lambda>t. (f, t)))"
| "resolve_time_range env now None (Some t) (Some dur) =
     with_duration env dur (\<lambda>secs. shifted_date env ''to'' t (- secs) (\<lambda>f. (f, t)))"
| "resolve_time_range env now (Some f) None None = Some (Inr (f, hx_rfc env 0 now))"
| "resolve_time_range env now (Some f) (Some t) _ = Some (Inr (f, t))"
| "resolve_time_range env now None None None =
     map_option (\<lambda>t. Inr (hx_rfc env 0 t, hx_rfc env 0 now)) (add_seconds env now (- 3600))"
| "resolve_time_range env now None (Some t) None = shifted_date env ''to'' t (- 3600) (\<lambda>f. (f, t))"

section \<open>The values of a path\<close>

text \<open>\<^verbatim>\<open>&s[..10.min(s.len())]\<close> panics when the tenth byte is inside a character.\<close>

definition date_part :: "string \<Rightarrow> string option" where
  "date_part s =
     (if length s \<le> 10 then Some s
      else if (of_char (s ! 10) :: nat) \<in> {128..<192} then None else Some (take 10 s))"

definition raw_selected :: "string \<Rightarrow> string \<Rightarrow> string \<Rightarrow> string \<Rightarrow> raw_row list \<Rightarrow> raw_row list" where
  "raw_selected context path from to rows =
     filter (\<lambda>r. rr_context r = context \<and> rr_path r = path \<and> from \<le> rr_timestamp r \<and> rr_timestamp r \<le> to) rows"

text \<open>The rows with a value, in the order of their timestamps.\<close>

definition raw_values :: "raw_row list \<Rightarrow> (string \<times> f64) list" where
  "raw_values rows = List.map_filter (\<lambda>r. map_option (Pair (rr_timestamp r)) (rr_value r)) (sort_key rr_timestamp rows)"

definition bucket_format :: "f64 option \<Rightarrow> string option" where
  "bucket_format resolution =
     (case resolution of
        None \<Rightarrow> None
      | Some s \<Rightarrow>
          if f_le (Fin 86400) s then Some ''%Y-%m-%dT00:00:00Z''
          else if f_le (Fin 3600) s then Some ''%Y-%m-%dT%H:00:00Z''
          else if f_le (Fin 60) s then Some ''%Y-%m-%dT%H:%M:00Z''
          else None)"

definition bucketed :: "history_env \<Rightarrow> string \<Rightarrow> (string \<times> f64) list \<Rightarrow> (string \<times> f64) list" where
  "bucketed env fmt vs = List.map_filter (\<lambda>(t, v). map_option (\<lambda>b. (b, v)) (hx_strftime env fmt t)) vs"

fun sql_aggregate :: "history_env \<Rightarrow> aggregate_method \<Rightarrow> f64 list \<Rightarrow> f64 option" where
  "sql_aggregate env Min_value vs = sql_real (sql_min vs)"
| "sql_aggregate env Max_value vs = sql_real (sql_max vs)"
| "sql_aggregate env First vs = sql_real (sql_min vs)"
| "sql_aggregate env Last vs = sql_real (sql_max vs)"
| "sql_aggregate env Count vs = Some (round_f64 (of_nat (length vs)))"
| "sql_aggregate env _ vs = sql_real (hx_avg env vs)"

definition grouped :: "(string \<times> f64) list \<Rightarrow> (string \<times> f64 list) list" where
  "grouped vs = map (\<lambda>b. (b, map snd (filter (\<lambda>(c, _). c = b) vs))) (sort (remdups (map fst vs)))"

fun f_insert :: "f64 \<Rightarrow> f64 list \<Rightarrow> f64 list" where
  "f_insert x [] = [x]"
| "f_insert x (y # ys) = (if f_lt y x then y # f_insert x ys else x # y # ys)"

definition f_sort :: "f64 list \<Rightarrow> f64 list" where
  "f_sort vs = foldr f_insert vs []"

text \<open>The buckets of \<^verbatim>\<open>query_raw_bucketed_rust\<close>: rows arrive ordered by bucket and time, and
  a row of the last bucket is added to it.\<close>

fun push_bucket :: "string \<times> f64 \<Rightarrow> (string \<times> f64 list) list \<Rightarrow> (string \<times> f64 list) list" where
  "push_bucket (b, v) bs =
     (if bs \<noteq> [] \<and> fst (last bs) = b then butlast bs @ [(b, snd (last bs) @ [v])] else bs @ [(b, [v])])"

definition mid_value :: "f64 list \<Rightarrow> f64" where
  "mid_value vals =
     (let vs = f_sort vals; mid = length vs div 2
      in if even (length vs) \<and> 2 \<le> length vs then f_div (f_add (vs ! (mid - 1)) (vs ! mid)) (Fin 2) else vs ! mid)"

definition query_raw_bucketed_rust :: "history_env \<Rightarrow> raw_row list \<Rightarrow> string \<Rightarrow> aggregate_method \<Rightarrow> (string \<times> json) list" where
  "query_raw_bucketed_rust env rows fmt method =
     map (\<lambda>(b, vals). (b, json_f64 (if method = Mid then mid_value vals else vals ! (length vals div 2))))
       (fold push_bucket (sort_key fst (bucketed env fmt (raw_values rows))) [])"

definition query_raw_values :: "history_env \<Rightarrow> raw_row list \<Rightarrow> f64 option \<Rightarrow> aggregate_method \<Rightarrow> (string \<times> json) list" where
  "query_raw_values env rows resolution method =
     (case bucket_format resolution of
        Some fmt \<Rightarrow>
          if method \<in> {Mid, MiddleIndex} then query_raw_bucketed_rust env rows fmt method
          else List.map_filter (\<lambda>(b, vs). map_option (\<lambda>v. (b, json_f64 v)) (sql_aggregate env method vs))
                 (grouped (bucketed env fmt (raw_values rows)))
      | None \<Rightarrow> map (\<lambda>(t, v). (t, json_f64 v)) (raw_values rows))"

fun daily_column :: "aggregate_method \<Rightarrow> daily_row \<Rightarrow> f64 option" where
  "daily_column Min_value d = dr_min d"
| "daily_column Max_value d = dr_max d"
| "daily_column Count d = Some (round_f64 (of_nat (dr_count d)))"
| "daily_column _ d = dr_avg d"

definition query_daily_values :: "history_db \<Rightarrow> string \<Rightarrow> string \<Rightarrow> string \<Rightarrow> string \<Rightarrow> aggregate_method \<Rightarrow>
    (string \<times> json) list option" where
  "query_daily_values db context path from to method =
     Option.bind (date_part from) (\<lambda>f. Option.bind (date_part to) (\<lambda>t.
       Some (List.map_filter (\<lambda>d. map_option (\<lambda>v. (dr_date d @ ''T00:00:00Z'', json_f64 v)) (daily_column method d))
         (sort_key dr_date (filter (\<lambda>d. dr_context d = context \<and> dr_path d = path \<and> f \<le> dr_date d \<and> dr_date d \<le> t)
            (hd_daily db))))))"

definition query_path_values :: "history_env \<Rightarrow> history_db \<Rightarrow> string \<Rightarrow> string \<Rightarrow> string \<Rightarrow> string \<Rightarrow> f64 option \<Rightarrow>
    aggregate_method \<Rightarrow> (string \<times> json) list option" where
  "query_path_values env db context path from to resolution method =
     (let rows = raw_selected context path from to (hd_raw db)
      in if 0 < length rows then Some (query_raw_values env rows resolution method)
         else query_daily_values db context path from to method)"

section \<open>The table of values\<close>

text \<open>The rows of a further path are merged into those there are, by the text of their timestamps.
  \<open>col\<close> counts the paths up to this one.\<close>

definition pad_row :: "nat \<Rightarrow> json list \<Rightarrow> json list" where
  "pad_row n row = row @ replicate (n - length row) JNull"

definition row_time_text :: "json list \<Rightarrow> string" where
  "row_time_text row = (case row of JStr t # _ \<Rightarrow> t | _ \<Rightarrow> [])"

definition time_index :: "json list list \<Rightarrow> nat hmap" where
  "time_index table = fold (\<lambda>(i, row). case row of JStr t # _ \<Rightarrow> hm_insert t i | _ \<Rightarrow> id) (enumerate 0 table) []"

fun merge_value :: "nat \<Rightarrow> string \<times> json \<Rightarrow> nat hmap \<times> json list list \<Rightarrow> nat hmap \<times> json list list" where
  "merge_value col (t, v) (ix, table) =
     (case map_of ix t of
        Some i \<Rightarrow> (ix, table[i := pad_row col (table ! i) @ [v]])
      | None \<Rightarrow> (hm_insert t (length table) ix, table @ [JStr t # replicate (col - 1) JNull @ [v]]))"

definition merge_path :: "nat \<Rightarrow> (string \<times> json) list \<Rightarrow> json list list \<Rightarrow> json list list" where
  "merge_path col rows table =
     (if col = 1 then map (\<lambda>(t, v). [JStr t, v]) rows
      else snd (fold (merge_value col) rows (time_index table, table)))"

fun collect_values :: "history_env \<Rightarrow> history_db \<Rightarrow> string \<Rightarrow> string \<Rightarrow> string \<Rightarrow> f64 option \<Rightarrow> path_spec list \<Rightarrow> nat \<Rightarrow>
    json list list \<Rightarrow> json list list option" where
  "collect_values env db context from to resolution [] n table = Some table"
| "collect_values env db context from to resolution (s # specs) n table =
     Option.bind (query_path_values env db context (sp_path s) from to resolution (sp_method s)) (\<lambda>rows.
       collect_values env db context from to resolution specs (Suc n) (merge_path (Suc n) rows table))"

definition query_resolution :: "history_env \<Rightarrow> string option \<Rightarrow> string \<Rightarrow> string \<Rightarrow> f64 option" where
  "query_resolution env resolution from to =
     or_else (Option.bind resolution (parse_resolution_secs (hx_parse_f64 env)))
       (case (hx_parse env from, hx_parse env to) of
          (Inr (_, f), Inr (_, t)) \<Rightarrow> auto_resolution_secs (round_f64 (of_int (num_seconds (t - f))))
        | _ \<Rightarrow> None)"

definition get_values :: "history_env \<Rightarrow> datetime \<Rightarrow> values_request \<Rightarrow> history_db \<Rightarrow> (string + values_response) option \<times> history_db" where
  "get_values env now q db =
     (case resolve_time_range env now (hq_from q) (hq_to q) (hq_duration q) of
        None \<Rightarrow> (None, db)
      | Some (Inl e) \<Rightarrow> (Some (Inl e), db)
      | Some (Inr (from, to)) \<Rightarrow>
          (map_option (\<lambda>table. Inr
               \<lparr>hr_context = hq_context q, hr_range = (from, to),
                hr_values = map (\<lambda>s. (sp_path s, method_as_str (sp_method s))) (hq_path_specs q),
                hr_data = sort_key row_time_text table\<rparr>)
             (collect_values env db (hq_context q) from to (query_resolution env (hq_resolution q) from to) (hq_path_specs q) 0 []),
           db))"

section \<open>Contexts and paths\<close>

definition in_raw_range :: "string \<Rightarrow> string \<Rightarrow> raw_row \<Rightarrow> bool" where
  "in_raw_range from to r \<longleftrightarrow> from \<le> rr_timestamp r \<and> rr_timestamp r \<le> to"

definition in_daily_range :: "string \<Rightarrow> string \<Rightarrow> daily_row \<Rightarrow> bool" where
  "in_daily_range from to d \<longleftrightarrow> from \<le> dr_date d \<and> dr_date d \<le> to"

definition get_contexts :: "history_env \<Rightarrow> datetime \<Rightarrow> contexts_request \<Rightarrow> history_db \<Rightarrow> (string + string list) option \<times> history_db" where
  "get_contexts env now q db =
     (case resolve_time_range env now (cq_from q) (cq_to q) (cq_duration q) of
        None \<Rightarrow> (None, db)
      | Some (Inl e) \<Rightarrow> (Some (Inl e), db)
      | Some (Inr (from, to)) \<Rightarrow>
          (Option.bind (date_part from) (\<lambda>f. Option.bind (date_part to) (\<lambda>t.
             Some (Inr (sort (remdups (map rr_context (filter (in_raw_range from to) (hd_raw db))
                @ map dr_context (filter (in_daily_range f t) (hd_daily db)))))))), db))"

definition get_paths :: "history_env \<Rightarrow> datetime \<Rightarrow> paths_request \<Rightarrow> history_db \<Rightarrow> (string + string list) option \<times> history_db" where
  "get_paths env now q db =
     (case resolve_time_range env now (pq_from q) (pq_to q) (pq_duration q) of
        None \<Rightarrow> (None, db)
      | Some (Inl e) \<Rightarrow> (Some (Inl e), db)
      | Some (Inr (from, to)) \<Rightarrow>
          (Option.bind (date_part from) (\<lambda>f. Option.bind (date_part to) (\<lambda>t.
             Some (Inr (sort (remdups
               (map rr_path (filter (\<lambda>r. rr_context r = pq_context q \<and> in_raw_range from to r) (hd_raw db))
                @ map dr_path (filter (\<lambda>d. dr_context d = pq_context q \<and> in_daily_range f t d) (hd_daily db)))))))), db))"

section \<open>The interface\<close>

record values_params =
  vp_paths :: "string option"
  vp_context :: "string option"
  vp_resolution :: "string option"
  vp_from :: "string option"
  vp_to :: "string option"
  vp_duration :: "string option"

text \<open>\<^verbatim>\<open>rsplit_once(':')\<close>.\<close>

definition rsplit_colon :: "string \<Rightarrow> (string \<times> string) option" where
  "rsplit_colon s =
     (if CHR '':'' \<in> set s
      then (let parts = split_on CHR '':'' s in Some (join_with '':'' (butlast parts), last parts))
      else None)"

definition parse_path_spec :: "string \<Rightarrow> path_spec" where
  "parse_path_spec entry =
     (case rsplit_colon (trim entry) of
        Some (path, m) \<Rightarrow> \<lparr>sp_path = path, sp_method = parse_method m\<rparr>
      | None \<Rightarrow> \<lparr>sp_path = trim entry, sp_method = Average\<rparr>)"

definition parse_path_specs :: "string \<Rightarrow> path_spec list" where
  "parse_path_specs s = map parse_path_spec (filter (\<lambda>e. trim e \<noteq> []) (split_on CHR '','' s))"

definition response_json :: "values_response \<Rightarrow> json" where
  "response_json r = json_obj
     [(''context'', JStr (hr_context r)),
      (''range'', json_obj [(''from'', JStr (fst (hr_range r))), (''to'', JStr (snd (hr_range r)))]),
      (''values'', JArr (map (\<lambda>(p, m). json_obj [(''path'', JStr p), (''method'', JStr m)]) (hr_values r))),
      (''data'', JArr (map JArr (hr_data r)))]"

definition query_reply :: "history_env \<Rightarrow> ('a \<Rightarrow> json) \<Rightarrow> (string + 'a) option \<times> 's \<Rightarrow> reply \<times> 's" where
  "query_reply env enc = (\<lambda>(r, s).
     (case r of
        Some (Inr a) \<Rightarrow> Reply 200 (enc a)
      | Some (Inl e) \<Rightarrow> message_reply 400 e
      | None \<Rightarrow> message_reply 500 (''join: '' @ hx_join env), s))"

fun provider_query :: "history_provider \<Rightarrow> (history_db \<Rightarrow> (string + 'a) option \<times> history_db) \<Rightarrow> history_db locked \<Rightarrow>
    (string + 'a) option \<times> history_db locked" where
  "provider_query Disabled_provider f g = (Some (Inl ''History is disabled''), g)"
| "provider_query Sqlite_provider f g = with_conn f g"

definition handle_values :: "history_env \<Rightarrow> history_provider \<Rightarrow> datetime \<Rightarrow> values_params \<Rightarrow> history_db locked \<Rightarrow>
    reply \<times> history_db locked" where
  "handle_values env p now ps g =
     (case vp_paths ps of
        None \<Rightarrow> (message_reply 400 ''Missing required parameter: paths'', g)
      | Some s \<Rightarrow>
          if s = [] then (message_reply 400 ''Missing required parameter: paths'', g)
          else if parse_path_specs s = [] then (message_reply 400 ''No valid paths specified'', g)
          else query_reply env response_json (provider_query p (get_values env now
            \<lparr>hq_context = unwrap_or (vp_context ps) ''vessels.self'', hq_path_specs = parse_path_specs s,
             hq_from = vp_from ps, hq_to = vp_to ps, hq_duration = vp_duration ps, hq_resolution = vp_resolution ps\<rparr>) g))"

definition handle_contexts :: "history_env \<Rightarrow> history_provider \<Rightarrow> datetime \<Rightarrow> contexts_request \<Rightarrow> history_db locked \<Rightarrow>
    reply \<times> history_db locked" where
  "handle_contexts env p now q g =
     query_reply env (\<lambda>cs. JArr (map JStr cs)) (provider_query p (get_contexts env now q) g)"

definition handle_paths :: "history_env \<Rightarrow> history_provider \<Rightarrow> datetime \<Rightarrow> string option \<Rightarrow> contexts_request \<Rightarrow>
    history_db locked \<Rightarrow> reply \<times> history_db locked" where
  "handle_paths env p now context q g =
     query_reply env (\<lambda>cs. JArr (map JStr cs)) (provider_query p (get_paths env now
       \<lparr>pq_context = unwrap_or context ''vessels.self'', pq_from = cq_from q, pq_to = cq_to q, pq_duration = cq_duration q\<rparr>) g)"

definition HISTORY_PROVIDER_ID :: string where
  "HISTORY_PROVIDER_ID = ''signalk-rs''"

definition list_history_providers :: reply where
  "list_history_providers = Reply 200 (json_obj [(HISTORY_PROVIDER_ID, json_obj [(''isDefault'', JBool True)])])"

definition get_default_history_provider :: reply where
  "get_default_history_provider = Reply 200 (json_obj [(''id'', JStr HISTORY_PROVIDER_ID)])"

definition set_default_history_provider :: "string \<Rightarrow> reply" where
  "set_default_history_provider i =
     (if i = HISTORY_PROVIDER_ID then Empty 200 else message_reply 404 (''Unknown history provider: '' @ i))"

end
