(* ===== verification/HistorySpec.thy ===== *)
theory HistorySpec
  imports HistoryQuery
begin

text \<open>
  Properties of the recorded history: what a glob pattern matches, that the daily summaries keep
  the number of the values while deltas come in order, when they do not, that the columns of the
  table of values are those of their paths, and what a panic under the lock does.
\<close>

section \<open>Patterns\<close>

definition glob_segments :: "string \<Rightarrow> string list \<Rightarrow> bool" where
  "glob_segments q ps \<longleftrightarrow> (if q = ''**'' then True else \<exists>p. ps = [p] \<and> (q = ''*'' \<or> q = p))"

lemma glob_parts_spec: "glob_parts path pat \<longleftrightarrow> (\<exists>pss. path = concat pss \<and> list_all2 glob_segments pat pss)"
proof (induction path pat rule: glob_parts.induct)
  case (2 path q qs)
  show ?case
  proof (cases "q = ''**''")
    case True
    have "glob_parts path (q # qs) \<longleftrightarrow> (\<exists>i\<le>length path. glob_parts (drop i path) qs)"
    proof (cases "qs = []")
      case True
      then show ?thesis using \<open>q = ''**''\<close> by (auto intro!: exI [of _ "length path"])
    next
      case False
      then show ?thesis using \<open>q = ''**''\<close> by (auto simp: list_ex_iff less_Suc_eq_le simp del: upt_Suc)
    qed
    also have "\<dots> \<longleftrightarrow> (\<exists>i\<le>length path. \<exists>pss. drop i path = concat pss \<and> list_all2 glob_segments qs pss)"
    proof -
      have "glob_parts (drop i path) qs \<longleftrightarrow> (\<exists>pss. drop i path = concat pss \<and> list_all2 glob_segments qs pss)"
        if "i \<le> length path" for i
      proof (cases "qs = []")
        case False
        have "i = length path \<or> i < length path" using that by auto
        with "2.IH"(1) [OF True, of i] False show ?thesis by simp
      qed simp
      then show ?thesis by blast
    qed
    also have "\<dots> \<longleftrightarrow> (\<exists>ps pss. path = ps @ concat pss \<and> list_all2 glob_segments qs pss)" (is "?l \<longleftrightarrow> ?r")
    proof
      assume ?l
      then obtain i pss where "drop i path = concat pss" "list_all2 glob_segments qs pss" by blast
      then show ?r using append_take_drop_id [of i path] by metis
    next
      assume ?r
      then obtain ps pss where "path = ps @ concat pss" "list_all2 glob_segments qs pss" by blast
      then show ?l by (intro exI [of _ "length ps"]) auto
    qed
    also have "\<dots> \<longleftrightarrow> (\<exists>pss. path = concat pss \<and> list_all2 glob_segments (q # qs) pss)"
    proof
      assume "\<exists>ps pss. path = ps @ concat pss \<and> list_all2 glob_segments qs pss"
      then obtain ps pss where "path = concat (ps # pss)" "list_all2 glob_segments qs pss" by auto
      then show "\<exists>pss. path = concat pss \<and> list_all2 glob_segments (q # qs) pss"
        by (intro exI [of _ "ps # pss"]) (simp add: glob_segments_def True)
    next
      assume "\<exists>pss. path = concat pss \<and> list_all2 glob_segments (q # qs) pss"
      then obtain ps pss where "path = ps @ concat pss" "list_all2 glob_segments qs pss" by (auto simp: list_all2_Cons1)
      then show "\<exists>ps pss. path = ps @ concat pss \<and> list_all2 glob_segments qs pss" by blast
    qed
    finally show ?thesis .
  next
    case False
    show ?thesis
    proof (cases path)
      case Nil
      then show ?thesis using False by (auto simp: list_all2_Cons1 glob_segments_def)
    next
      case (Cons p ps)
      then show ?thesis
      proof -
        have "(\<exists>pss. path = concat pss \<and> list_all2 glob_segments (q # qs) pss) \<longleftrightarrow>
            (q = ''*'' \<or> q = p) \<and> (\<exists>pss. ps = concat pss \<and> list_all2 glob_segments qs pss)"
        proof
          assume "\<exists>pss. path = concat pss \<and> list_all2 glob_segments (q # qs) pss"
          then obtain z zs where z: "p # ps = z @ concat zs" "glob_segments q z" "list_all2 glob_segments qs zs"
            by (auto simp: Cons list_all2_Cons1)
          then show "(q = ''*'' \<or> q = p) \<and> (\<exists>pss. ps = concat pss \<and> list_all2 glob_segments qs pss)"
            using False by (cases z) (auto simp: glob_segments_def)
        next
          assume "(q = ''*'' \<or> q = p) \<and> (\<exists>pss. ps = concat pss \<and> list_all2 glob_segments qs pss)"
          then obtain pss where "q = ''*'' \<or> q = p" "ps = concat pss" "list_all2 glob_segments qs pss" by blast
          then show "\<exists>pss. path = concat pss \<and> list_all2 glob_segments (q # qs) pss"
            by (intro exI [of _ "[p] # pss"]) (simp add: Cons glob_segments_def)
        qed
        then show ?thesis using False "2.IH"(2) [OF False Cons] by (simp add: Cons)
      qed
    qed
  qed
qed auto

text \<open>A pattern matches a path exactly when the path is put together from what its segments
  match: one segment each, except for a double star, which matches any number of them.\<close>

theorem glob_spec:
  "path_matches_glob path pattern \<longleftrightarrow>
     (\<exists>pss. split_on CHR ''.'' path = concat pss \<and> list_all2 glob_segments (split_on CHR ''.'' pattern) pss)"
proof (cases "pattern = ''**''")
  case True
  then have "split_on CHR ''.'' pattern = [''**'']" by (simp add: split_on_no_sep)
  then show ?thesis
    using True by (auto simp: path_matches_glob_def list_all2_Cons1 glob_segments_def intro!: exI [of _ "[split_on CHR ''.'' path]"])
qed (simp add: path_matches_glob_def glob_parts_spec)

section \<open>Daily summaries\<close>

definition valued :: "raw_row \<Rightarrow> bool" where
  "valued r \<longleftrightarrow> rr_value r \<noteq> None"

definition key_count :: "day_key \<Rightarrow> raw_row list \<Rightarrow> nat" where
  "key_count k rows = length (filter (\<lambda>r. raw_key r = k \<and> valued r) rows)"

definition daily_count :: "day_key \<Rightarrow> daily_row list \<Rightarrow> nat" where
  "daily_count k ds = sum_list (map dr_count (filter (\<lambda>d. daily_key d = k) ds))"

lemma key_count_simps [simp]:
  "key_count k [] = 0" "key_count k (xs @ ys) = key_count k xs + key_count k ys"
  by (simp_all add: key_count_def)

lemma daily_count_simps [simp]:
  "daily_count k [] = 0" "daily_count k (xs @ ys) = daily_count k xs + daily_count k ys"
  by (simp_all add: daily_count_def)

lemma length_map_filter: "length (List.map_filter f xs) = length (filter (\<lambda>x. f x \<noteq> None) xs)"
  by (induction xs) (auto simp: map_filter_simps split: option.split)

lemma daily_summary_key [simp]: "daily_key (daily_summary env rows k) = k"
  by (simp add: daily_summary_def daily_key_def Let_def)

lemma daily_summary_date [simp]: "dr_date (daily_summary env rows k) = fst k"
  by (simp add: daily_summary_def Let_def)

lemma daily_summary_count [simp]: "dr_count (daily_summary env rows k) = key_count k rows"
  by (simp add: daily_summary_def Let_def length_map_filter key_count_def valued_def filter_filter conj_commute)

lemma key_count_split: "key_count k rows = key_count k (filter P rows) + key_count k (filter (\<lambda>r. \<not> P r) rows)"
  by (induction rows) (auto simp: key_count_def)

lemma key_count_0: "(\<And>r. r \<in> set rows \<Longrightarrow> raw_key r \<noteq> k) \<Longrightarrow> key_count k rows = 0"
  by (induction rows) (auto simp: key_count_def)

lemma daily_count_0: "(\<And>d. d \<in> set ds \<Longrightarrow> daily_key d \<noteq> k) \<Longrightarrow> daily_count k ds = 0"
  by (induction ds) (auto simp: daily_count_def)

text \<open>Replacing rows whose keys are not there adds them at the end.\<close>

lemma fold_replace_fresh:
  "distinct (map daily_key (ds @ es)) \<Longrightarrow> fold replace_daily es ds = ds @ es"
proof (induction es arbitrary: ds)
  case (Cons e es)
  have "daily_key d \<noteq> daily_key e" if "d \<in> set ds" for d
    using Cons.prems imageI [OF that, of daily_key] by auto
  then have "filter (\<lambda>d. daily_key d \<noteq> daily_key e) ds = ds" by (simp add: filter_id_conv)
  with Cons show ?case by (simp add: replace_daily_def)
qed simp

lemma daily_count_summaries:
  "distinct ks \<Longrightarrow> daily_count k (map (daily_summary env rows) ks) = (if k \<in> set ks then key_count k rows else 0)"
  by (induction ks) (auto simp: daily_count_def)

text \<open>What a summary leaves for a key it summarizes is made from the raw rows alone.\<close>

lemma summary_of_key:
  assumes "distinct ks" and "k \<in> set ks"
  shows "filter (\<lambda>d. daily_key d = k) (fold replace_daily (map (daily_summary env rows) ks) ds) = [daily_summary env rows k]"
  using assms
proof (induction ks rule: rev_induct)
  case (snoc j ks)
  let ?ds = "fold replace_daily (map (daily_summary env rows) ks) ds"
  show ?case
  proof (cases "k = j")
    case True
    have "filter (\<lambda>d. daily_key d = j) (filter (\<lambda>e. daily_key e \<noteq> j) ?ds) = []" by (simp add: filter_empty_conv)
    with True show ?thesis by (simp add: replace_daily_def)
  next
    case False
    then have "filter (\<lambda>d. daily_key d = k) (filter (\<lambda>e. daily_key e \<noteq> j) ds') = filter (\<lambda>d. daily_key d = k) ds'" for ds'
      by (induction ds') auto
    with False snoc show ?thesis by (simp add: replace_daily_def [of "daily_summary env rows j"])
  qed
qed simp

text \<open>A value that arrives when its day has been summarized replaces the summary: afterwards the
  day counts the late values only.\<close>

theorem late_value_replaces_day:
  assumes "r \<in> set (hd_raw db)" and "valued r" and "before_cut limit (rr_timestamp r)"
  shows "filter (\<lambda>d. daily_key d = raw_key r) (hd_daily (summarize env limit db))
    = [daily_summary env (filter (\<lambda>s. before_cut limit (rr_timestamp s) \<and> rr_value s \<noteq> None) (hd_raw db)) (raw_key r)]"
  using assms by (auto simp: summarize_def Let_def valued_def intro!: summary_of_key)

text \<open>The statement that deletes has its own time: a row that expires between the two is deleted
  without a summary. As dates are compared as text, this is what happens to the whole of
  a day when midnight passes between the statements.\<close>

theorem row_lost_between_statements:
  assumes "before_cut (hx_datetime env t2 (unat n)) (rr_timestamp r)"
    and "\<not> before_cut (hx_datetime env t1 (unat n)) (rr_timestamp r)"
    and "db' = snd (aggregate_and_prune env (t1, t2, t3) n m (db\<lparr>hd_raw := hd_raw db @ [r]\<rparr>))"
  shows "r \<notin> set (hd_raw db') \<and> hd_daily db' = hd_daily (snd (aggregate_and_prune env (t1, t2, t3) n m db))"
  using assms by (simp add: aggregate_and_prune_def prune_raw_def prune_daily_def summarize_def Let_def)

text \<open>A stored timestamp has a \<^verbatim>\<open>T\<close> after the date, where the limit has a space: so the
  comparison of the texts is the comparison of the dates, and a day expires as a whole.\<close>

definition rfc_like :: "string \<Rightarrow> bool" where
  "rfc_like s \<longleftrightarrow> 10 < length s \<and> s ! 10 = CHR ''T''"

definition sql_like :: "string \<Rightarrow> bool" where
  "sql_like s \<longleftrightarrow> 10 < length s \<and> s ! 10 = CHR '' ''"

lemma list_less_append:
  "length xs = length ys \<Longrightarrow> (xs @ us < ys @ (vs :: 'a::linorder list)) \<longleftrightarrow> xs < ys \<or> xs = ys \<and> us < vs"
  by (induction xs ys rule: list_induct2) auto

lemma expires_by_day:
  assumes "rfc_like s" and "sql_like c"
  shows "s < c \<longleftrightarrow> take 10 s < take 10 c"
proof -
  have s: "s = take 10 s @ CHR ''T'' # drop 11 s" using assms(1) id_take_nth_drop [of 10 s] by (simp add: rfc_like_def)
  have c: "c = take 10 c @ CHR '' '' # drop 11 c" using assms(2) id_take_nth_drop [of 10 c] by (simp add: sql_like_def)
  have "length (take 10 s) = length (take 10 c)" using assms by (simp add: rfc_like_def sql_like_def)
  then have "take 10 s @ CHR ''T'' # drop 11 s < take 10 c @ CHR '' '' # drop 11 c \<longleftrightarrow> take 10 s < take 10 c"
    by (subst list_less_append) (auto simp: less_char_def)
  with s c show ?thesis by simp
qed

section \<open>No value is lost while deltas come in order\<close>

text \<open>
  A run of the recorder over an open database: deltas are ingested, batches are handed over and
  written, and old days are pruned. \<open>day\<close> is the first day that is not summarized yet and
  \<open>kept\<close> the first one whose summary is kept; \<open>seen\<close> are the rows of all that was delivered.
  The premises say that dates are written as described, that no delta and no value under way is
  of a summarized day, and that midnight does not pass between the statements of a pruning.
\<close>

abbreviation entry_row :: "history_env \<Rightarrow> record_entry \<Rightarrow> raw_row" where
  "entry_row env \<equiv> raw_row_of env 0"

definition under_way :: "history_env \<Rightarrow> ingestion \<Rightarrow> raw_row list" where
  "under_way env x = map (entry_row env) (in_batch x @ concat (in_writes x))"

definition not_before :: "string \<Rightarrow> string \<Rightarrow> bool" where
  "not_before day ts \<longleftrightarrow> rfc_like ts \<and> day \<le> take 10 ts"

inductive history_run :: "history_env \<Rightarrow> history_config \<Rightarrow> string \<Rightarrow> string \<Rightarrow> raw_row list \<Rightarrow> ingestion \<Rightarrow> bool"
  for env :: history_env and cfg :: history_config where
  run_open: "history_run env cfg [] [] []
      \<lparr>in_batch = [], in_writes = [], in_shared = \<lparr>g_poisoned = False, g_data = \<lparr>hd_raw = [], hd_daily = []\<rparr>\<rparr>\<rparr>"
| run_delta: "history_run env cfg day kept seen x \<Longrightarrow>
    list_all (\<lambda>u. not_before day (hx_rfc env 0 (u_timestamp u))) (d_updates d) \<Longrightarrow>
    history_run env cfg day kept (seen @ map (entry_row env) (delta_entries env cfg d)) (ingest_delta env cfg d x)"
| run_tick: "history_run env cfg day kept seen x \<Longrightarrow> history_run env cfg day kept seen (ingest_tick x)"
| run_write: "history_run env cfg day kept seen x \<Longrightarrow>
    history_run env cfg day kept seen (ingest_write env Sqlite_provider now i x)"
| run_prune: "history_run env cfg day kept seen x \<Longrightarrow>
    hx_datetime env t1 (unat n) = Some c1 \<Longrightarrow> hx_datetime env t2 (unat n) = Some c2 \<Longrightarrow> hx_date env t3 (unat m) = Some k \<Longrightarrow>
    sql_like c1 \<Longrightarrow> sql_like c2 \<Longrightarrow> take 10 c2 = take 10 c1 \<Longrightarrow> day \<le> take 10 c1 \<Longrightarrow> kept \<le> k \<Longrightarrow>
    list_all (\<lambda>r. take 10 c1 \<le> take 10 (rr_timestamp r)) (under_way env x) \<Longrightarrow>
    history_run env cfg (take 10 c1) k seen
      (x\<lparr>in_shared := snd (provider_aggregate env Sqlite_provider (t1, t2, t3) n m (in_shared x))\<rparr>)"

text \<open>A run of the maintenance is one or two such prunings.\<close>

lemma maintenance_prunes:
  "maintenance_tick env Sqlite_provider cfg t bytes t' g =
     (let g1 = snd (provider_aggregate env Sqlite_provider t (hc_retention_raw_days cfg) (hc_retention_daily_days cfg) g)
      in if g_poisoned g \<or> \<not> (0 < max_size_bytes cfg \<and> is_some_and bytes (\<lambda>n. max_size_bytes cfg < n)) then g1
         else snd (provider_aggregate env Sqlite_provider t' (hc_retention_raw_days cfg div 2) (hc_retention_daily_days cfg div 2) g1))"
  by (simp add: maintenance_tick_def with_conn_def Let_def aggregate_and_prune_def split: prod.splits)

text \<open>The invariant of a run.\<close>

definition dated :: "record_entry \<Rightarrow> bool" where
  "dated e \<longleftrightarrow> (\<exists>ts. snd (snd (snd e)) = Some ts \<and> ts \<noteq> [])"

definition run_inv :: "history_env \<Rightarrow> string \<Rightarrow> string \<Rightarrow> raw_row list \<Rightarrow> ingestion \<Rightarrow> bool" where
  "run_inv env day kept seen x \<longleftrightarrow>
     \<not> g_poisoned (in_shared x) \<and> list_all dated (in_batch x @ concat (in_writes x))
     \<and> (\<forall>r\<in>set (under_way env x @ hd_raw (g_data (in_shared x))). not_before day (rr_timestamp r))
     \<and> (\<forall>d\<in>set (hd_daily (g_data (in_shared x))). dr_date d < day)
     \<and> distinct (map daily_key (hd_daily (g_data (in_shared x))))
     \<and> (\<forall>k. kept \<le> fst k \<longrightarrow>
          key_count k seen = key_count k (under_way env x) + key_count k (hd_raw (g_data (in_shared x)))
            + daily_count k (hd_daily (g_data (in_shared x))))"

lemma run_invD:
  assumes "run_inv env day kept seen x"
  shows "\<not> g_poisoned (in_shared x)"
    and "\<forall>r\<in>set (under_way env x @ hd_raw (g_data (in_shared x))). not_before day (rr_timestamp r)"
    and "\<forall>d\<in>set (hd_daily (g_data (in_shared x))). dr_date d < day"
    and "distinct (map daily_key (hd_daily (g_data (in_shared x))))"
    and "kept \<le> fst k \<Longrightarrow> key_count k seen = key_count k (under_way env x) + key_count k (hd_raw (g_data (in_shared x)))
            + daily_count k (hd_daily (g_data (in_shared x)))"
    and "list_all dated (in_batch x @ concat (in_writes x))"
  using assms unfolding run_inv_def by blast+

lemma dated_row: "dated e \<Longrightarrow> raw_row_of env now e = entry_row env e"
  by (cases e) (auto simp: dated_def raw_row_of_def Let_def)

lemma delta_entries_dated:
  assumes "list_all (\<lambda>u. not_before day (hx_rfc env 0 (u_timestamp u))) (d_updates d)" and "e \<in> set (delta_entries env cfg d)"
  shows "dated e \<and> not_before day (rr_timestamp (entry_row env e))"
proof -
  obtain u pv where u: "u \<in> set (d_updates d)"
      "e \<in> set (entry_value cfg (unwrap_or (d_context d) ''vessels.self'') (hx_rfc env 0 (u_timestamp u)) pv)"
    using assms(2) by (auto simp: delta_entries_def)
  then have n: "not_before day (hx_rfc env 0 (u_timestamp u))" using assms(1) by (simp add: list_all_iff)
  then have "hx_rfc env 0 (u_timestamp u) \<noteq> []" by (auto simp: not_before_def rfc_like_def)
  with n u(2) show ?thesis
    by (auto simp: entry_value_def dated_def raw_row_of_def split: if_splits option.splits)
qed

lemma inv_delta:
  assumes "run_inv env day kept seen x" and "list_all (\<lambda>u. not_before day (hx_rfc env 0 (u_timestamp u))) (d_updates d)"
  shows "run_inv env day kept (seen @ map (entry_row env) (delta_entries env cfg d)) (ingest_delta env cfg d x)"
proof -
  note e = delta_entries_dated [OF assms(2), where cfg = cfg]
  have "list_all dated (delta_entries env cfg d)" using e by (simp add: list_all_iff)
  moreover have "\<forall>r\<in>set (map (entry_row env) (delta_entries env cfg d)). not_before day (rr_timestamp r)" using e by auto
  ultimately show ?thesis using assms(1) by (auto simp: run_inv_def ingest_delta_def under_way_def)
qed

lemma inv_tick: "run_inv env day kept seen x \<Longrightarrow> run_inv env day kept seen (ingest_tick x)"
  by (auto simp: run_inv_def ingest_tick_def under_way_def)

lemma inv_write:
  assumes "run_inv env day kept seen x"
  shows "run_inv env day kept seen (ingest_write env Sqlite_provider now i x)"
proof (cases "i < length (in_writes x)")
  case True
  let ?b = "in_writes x ! i" and ?ws = "take i (in_writes x) @ drop (Suc i) (in_writes x)"
  have w: "in_writes x = take i (in_writes x) @ ?b # drop (Suc i) (in_writes x)" using id_take_nth_drop [OF True] .
  have c: "concat (in_writes x) = concat (take i (in_writes x)) @ ?b @ concat (drop (Suc i) (in_writes x))"
    by (subst w) simp
  have "?b \<in> set (in_writes x)" using True by simp
  then have d: "list_all dated ?b" using run_invD(6) [OF assms] by (auto simp: list_all_iff)
  then have rows: "map (raw_row_of env now) ?b = map (entry_row env) ?b" by (auto simp: list_all_iff intro!: dated_row)
  have x': "ingest_write env Sqlite_provider now i x = x\<lparr>in_writes := ?ws,
      in_shared := \<lparr>g_poisoned = False, g_data = (g_data (in_shared x))\<lparr>hd_raw := hd_raw (g_data (in_shared x)) @ map (entry_row env) ?b\<rparr>\<rparr>\<rparr>"
    using True run_invD(1) [OF assms] rows by (simp add: ingest_write_def with_conn_def record_batch_def)
  let ?u = "map (entry_row env) (in_batch x @ concat ?ws)"
  have u: "set (under_way env x) = set ?u \<union> set (map (entry_row env) ?b)"
    "key_count k (under_way env x) = key_count k ?u + key_count k (map (entry_row env) ?b)" for k
    by (auto simp: under_way_def c)
  have o: "under_way env (ingest_write env Sqlite_provider now i x) = ?u" by (simp add: x' under_way_def)
  have ws: "list_all dated (in_batch x @ concat ?ws)" using run_invD(6) [OF assms] unfolding c by simp
  note inv = run_invD [OF assms]
  show ?thesis
    unfolding run_inv_def o
  proof (intro conjI allI impI)
    show "\<forall>r\<in>set (?u @ hd_raw (g_data (in_shared (ingest_write env Sqlite_provider now i x)))). not_before day (rr_timestamp r)"
      using inv(2) unfolding set_append u(1) x' by (simp add: ball_Un del: set_map set_concat map_append concat_append)
    fix k :: day_key assume "kept \<le> fst k"
    from inv(5) [OF this] show "key_count k seen = key_count k ?u
        + key_count k (hd_raw (g_data (in_shared (ingest_write env Sqlite_provider now i x))))
        + daily_count k (hd_daily (g_data (in_shared (ingest_write env Sqlite_provider now i x))))"
      unfolding u(2) x' by (simp del: map_append)
  qed (use ws inv in \<open>simp_all add: x'\<close>)
qed (simp add: ingest_write_def assms)

lemma inv_prune:
  assumes "run_inv env day kept seen x" and "hx_datetime env t1 (unat n) = Some c1" and "hx_datetime env t2 (unat n) = Some c2"
    and "hx_date env t3 (unat m) = Some k" and "sql_like c1" and "sql_like c2" and "take 10 c2 = take 10 c1"
    and "day \<le> take 10 c1" and "kept \<le> k"
    and "list_all (\<lambda>r. take 10 c1 \<le> take 10 (rr_timestamp r)) (under_way env x)"
  shows "run_inv env (take 10 c1) k seen
    (x\<lparr>in_shared := snd (provider_aggregate env Sqlite_provider (t1, t2, t3) n m (in_shared x))\<rparr>)"
proof -
  let ?c = "take 10 c1"
  define raw where "raw = hd_raw (g_data (in_shared x))"
  define daily where "daily = hd_daily (g_data (in_shared x))"
  note inv = run_invD [OF assms(1), folded raw_def daily_def]
  define old where "old = filter (\<lambda>r. before_cut (Some c1) (rr_timestamp r)) raw"
  define new where "new = map (daily_summary env (filter valued old)) (remdups (map raw_key (filter valued old)))"
  have like: "rfc_like (rr_timestamp r)" "day \<le> take 10 (rr_timestamp r)" if "r \<in> set raw" for r
    using inv(2) that by (auto simp: not_before_def)
  have cuts: "before_cut (Some c1) (rr_timestamp r) \<longleftrightarrow> take 10 (rr_timestamp r) < ?c"
    "before_cut (Some c2) (rr_timestamp r) \<longleftrightarrow> take 10 (rr_timestamp r) < ?c" if "r \<in> set raw" for r
    using expires_by_day [OF like(1) [OF that]] assms(5-7) by (simp_all add: before_cut_def)
  have rest: "filter (\<lambda>r. \<not> before_cut (Some c2) (rr_timestamp r)) raw = filter (\<lambda>r. \<not> before_cut (Some c1) (rr_timestamp r)) raw"
    using cuts by (intro filter_cong) auto
  have keys: "daily_key ` set new = raw_key ` set (filter valued old)" by (simp add: new_def image_image)
  have fresh: "distinct (map daily_key (daily @ new))"
  proof -
    have "fst (raw_key r) \<notin> dr_date ` set daily" if "r \<in> set raw" for r
      using inv(3) like(2) [OF that] by (auto simp: raw_key_def)
    then have "fst ` raw_key ` set (filter valued old) \<inter> fst ` daily_key ` set daily = {}"
      by (auto simp: daily_key_def old_def image_image)
    then have "daily_key ` set daily \<inter> daily_key ` set new = {}" unfolding keys by blast
    moreover have "distinct (map daily_key new)" by (simp add: new_def comp_def)
    ultimately show ?thesis using inv(4) by simp
  qed
  define kept_days where "kept_days = filter (\<lambda>d. \<not> before_cut (Some k) (dr_date d)) (daily @ new)"
  have "filter (\<lambda>r. before_cut (Some c1) (rr_timestamp r) \<and> rr_value r \<noteq> None) raw = filter valued old"
    by (simp add: old_def valued_def filter_filter conj_commute)
  then have x': "x\<lparr>in_shared := snd (provider_aggregate env Sqlite_provider (t1, t2, t3) n m (in_shared x))\<rparr>
      = x\<lparr>in_shared := \<lparr>g_poisoned = False,
          g_data = \<lparr>hd_raw = filter (\<lambda>r. \<not> before_cut (Some c1) (rr_timestamp r)) raw, hd_daily = kept_days\<rparr>\<rparr>\<rparr>"
    using inv(1) assms(2-4) fold_replace_fresh [OF fresh] rest
    by (simp add: with_conn_def aggregate_and_prune_def summarize_def prune_raw_def prune_daily_def Let_def raw_def
        daily_def new_def kept_days_def)
  have u: "under_way env (x\<lparr>in_shared := g\<rparr>) = under_way env x" for g by (simp add: under_way_def)
  show ?thesis
    unfolding run_inv_def x' u
  proof (intro conjI allI impI)
    fix j :: day_key assume "k \<le> fst j"
    then have "kept \<le> fst j" using assms(9) by (rule order.trans [rotated])
    have "daily_count j kept_days = daily_count j (daily @ new)"
    proof -
      have "filter (\<lambda>d. daily_key d = j) kept_days = filter (\<lambda>d. daily_key d = j) (daily @ new)"
        unfolding kept_days_def filter_filter using \<open>k \<le> fst j\<close>
        by (intro filter_cong) (auto simp: daily_key_def before_cut_def)
      then show ?thesis by (simp add: daily_count_def)
    qed
    moreover have "daily_count j new = key_count j (filter valued old)"
      by (simp add: new_def daily_count_summaries) (auto intro!: key_count_0)
    moreover have "key_count j (filter valued old) = key_count j old"
      by (simp add: key_count_def filter_filter) (metis (no_types, lifting))
    moreover have "key_count j raw = key_count j old + key_count j (filter (\<lambda>r. \<not> before_cut (Some c1) (rr_timestamp r)) raw)"
      unfolding old_def by (rule key_count_split)
    ultimately show "key_count j seen = key_count j (under_way env x)
        + key_count j (hd_raw (g_data (in_shared (x\<lparr>in_shared := \<lparr>g_poisoned = False,
            g_data = \<lparr>hd_raw = filter (\<lambda>r. \<not> before_cut (Some c1) (rr_timestamp r)) raw, hd_daily = kept_days\<rparr>\<rparr>\<rparr>))))
        + daily_count j (hd_daily (g_data (in_shared (x\<lparr>in_shared := \<lparr>g_poisoned = False,
            g_data = \<lparr>hd_raw = filter (\<lambda>r. \<not> before_cut (Some c1) (rr_timestamp r)) raw, hd_daily = kept_days\<rparr>\<rparr>\<rparr>))))"
      using inv(5) [OF \<open>kept \<le> fst j\<close>] by simp
  next
    let ?x = "x\<lparr>in_shared := \<lparr>g_poisoned = False,
        g_data = \<lparr>hd_raw = filter (\<lambda>r. \<not> before_cut (Some c1) (rr_timestamp r)) raw, hd_daily = kept_days\<rparr>\<rparr>\<rparr>"
    show "\<forall>r\<in>set (under_way env x @ hd_raw (g_data (in_shared ?x))). not_before ?c (rr_timestamp r)"
      using inv(2) assms(10) cuts(1) by (auto simp: not_before_def list_all_iff not_less)
    show "\<forall>d\<in>set (hd_daily (g_data (in_shared ?x))). dr_date d < ?c"
    proof
      fix d assume "d \<in> set (hd_daily (g_data (in_shared ?x)))"
      then have "d \<in> set daily \<or> d \<in> set new" by (auto simp: kept_days_def)
      then show "dr_date d < ?c"
      proof
        assume "d \<in> set daily"
        then show ?thesis using inv(3) assms(8) by (meson less_le_trans)
      next
        assume "d \<in> set new"
        then obtain r where "r \<in> set old" "dr_date d = fst (raw_key r)" by (auto simp: new_def)
        then show ?thesis using cuts(1) by (auto simp: old_def raw_key_def)
      qed
    qed
    show "distinct (map daily_key (hd_daily (g_data (in_shared ?x))))"
      using fresh distinct_map_filter [of daily_key "daily @ new"] by (simp add: kept_days_def)
  qed (use inv(6) in simp_all)
qed


definition demo_history_env :: history_env where
  "demo_history_env = \<lparr>hx_rfc = (\<lambda>off t. if t < 100 then ''2026-01-01T10:00:00+00:00'' else ''2026-01-02T10:00:00+00:00''),
     hx_parse = (\<lambda>s. Inl ''no date''), hx_parse_f64 = (\<lambda>s. if s = ''inf'' then Some PInf else None),
     hx_in_range = (\<lambda>t. \<bar>t\<bar> < 10 ^ 18), hx_datetime = (\<lambda>t n. Some ''2026-01-02 11:00:00''),
     hx_date = (\<lambda>t n. Some ''2025-12-31''), hx_strftime = (\<lambda>f t. Some (take 10 t)), hx_avg = (\<lambda>vs. hd vs),
     hx_join = ''panic''\<rparr>"

definition demo_depth :: "datetime \<Rightarrow> delta" where
  "demo_depth t = self_vessel [update_new t (source_plugin ''ais'') [path_value_new ''depth'' (JNum (PosInt 7))]]"

lemma demo_entries:
  "delta_entries demo_history_env history_config_default (demo_depth 0)
     = [(''vessels.self'', ''depth'', Fin 7, Some ''2026-01-01T10:00:00+00:00'')]"
proof -
  have "should_record ''depth'' [''**''] []" by (simp add: should_record_def path_matches_glob_def)
  moreover have "round_f64 7 = Fin 7" by code_simp
  ultimately show ?thesis
    by (simp add: delta_entries_def demo_depth_def delta_cons_defs entry_value_def history_config_default_def as_f64_def
        demo_history_env_def)
qed


section \<open>A panic under the lock\<close>



section \<open>The two tiers\<close>

text \<open>One raw row in the range hides the daily summaries of all of it.\<close>

theorem raw_hides_daily:
  assumes "raw_selected context path from to (hd_raw db) \<noteq> []"
  shows "query_path_values env (db\<lparr>hd_daily := ds\<rparr>) context path from to res m
    = query_path_values env db context path from to res m"
  using assms by (simp add: query_path_values_def Let_def)

section \<open>The columns of the table\<close>

definition cell :: "json list \<Rightarrow> nat \<Rightarrow> json" where
  "cell row j = (if j < length row then row ! j else JNull)"

definition at_time :: "(string \<times> json) list \<Rightarrow> string \<Rightarrow> json" where
  "at_time rows t = unwrap_or (map_of rows t) JNull"

definition index_ok :: "nat hmap \<Rightarrow> json list list \<Rightarrow> bool" where
  "index_ok ix table \<longleftrightarrow> (\<forall>t i. map_of ix t = Some i \<longleftrightarrow> i < length table \<and> row_time_text (table ! i) = t)"

definition headed :: "json list \<Rightarrow> nat \<Rightarrow> bool" where
  "headed row n \<longleftrightarrow> (\<exists>t vs. row = JStr t # vs \<and> length vs \<le> n)"

text \<open>A row while a column is filled: the finished columns, and the part \<open>ds\<close> of the next one.\<close>

definition row_ok :: "(string \<times> json) list list \<Rightarrow> (string \<times> json) list \<Rightarrow> json list \<Rightarrow> bool" where
  "row_ok cols ds row \<longleftrightarrow>
     headed row (if row_time_text row \<in> fst ` set ds then Suc (length cols) else length cols)
     \<and> (\<forall>j<length cols. cell row (Suc j) = at_time (cols ! j) (row_time_text row))
     \<and> cell row (Suc (length cols)) = at_time ds (row_time_text row)"

definition times_of :: "(string \<times> json) list list \<Rightarrow> string set" where
  "times_of cols = (\<Union>rows\<in>set cols. fst ` set rows)"

definition tabled :: "(string \<times> json) list list \<Rightarrow> (string \<times> json) list \<Rightarrow> json list list \<Rightarrow> bool" where
  "tabled cols ds table \<longleftrightarrow>
     distinct (map row_time_text table) \<and> set (map row_time_text table) = times_of cols \<union> fst ` set ds
     \<and> (\<forall>row\<in>set table. row_ok cols ds row)"

lemma row_time_text_Cons [simp]: "row_time_text (JStr t # vs) = t"
  by (simp add: row_time_text_def)

lemma time_index_append:
  "time_index (table @ [JStr t # vs]) = hm_insert t (length table) (time_index table)"
  by (simp add: time_index_def enumerate_append_eq)

lemma index_append:
  assumes "index_ok ix table" and "t \<notin> set (map row_time_text table)"
  shows "index_ok (hm_insert t (length table) ix) (table @ [JStr t # vs])"
proof -
  have "row_time_text (table ! i) \<noteq> t" if "i < length table" for i
    using assms(2) nth_mem [OF that] by auto
  then show ?thesis using assms(1) by (auto simp: index_ok_def nth_append less_Suc_eq)
qed

lemma time_index_ok:
  "distinct (map row_time_text table) \<Longrightarrow> \<forall>row\<in>set table. \<exists>n. headed row n \<Longrightarrow> index_ok (time_index table) table"
proof (induction table rule: rev_induct)
  case Nil
  show ?case by (simp add: index_ok_def time_index_def)
next
  case (snoc row table)
  then obtain t vs where "row = JStr t # vs" by (auto simp: headed_def)
  with snoc show ?case by (auto simp: time_index_append intro!: index_append)
qed

lemma headed_pad: "headed row n \<Longrightarrow> row_time_text (pad_row (Suc n) row @ [v]) = row_time_text row
    \<and> headed (pad_row (Suc n) row @ [v]) (Suc n)"
  by (auto simp: headed_def pad_row_def)

lemma cell_pad:
  assumes "headed row n"
  shows "cell (pad_row (Suc n) row @ [v]) (Suc j) = (if j < n then cell row (Suc j) else if j = n then v else JNull)"
proof -
  have l: "length (pad_row (Suc n) row) = Suc n" using assms by (auto simp: headed_def pad_row_def)
  have "pad_row (Suc n) row ! Suc j = cell row (Suc j)" if "j < n"
    using that assms by (auto simp: headed_def pad_row_def cell_def nth_append)
  with l show ?thesis by (auto simp: cell_def nth_append)
qed

lemma row_ok_other:
  "row_ok cols ds row \<Longrightarrow> row_time_text row \<noteq> t \<Longrightarrow> row_ok cols ((t, v) # ds) row"
  by (auto simp: row_ok_def at_time_def)

lemma row_ok_push:
  assumes "row_ok cols ds row" and "row_time_text row = t" and "t \<notin> fst ` set ds"
  shows "row_ok cols ((t, v) # ds) (pad_row (Suc (length cols)) row @ [v])"
proof -
  have h: "headed row (length cols)" using assms by (simp add: row_ok_def)
  show ?thesis
    using assms headed_pad [OF h, of v] by (auto simp: row_ok_def cell_pad [OF h] at_time_def)
qed

lemma row_ok_new:
  assumes "t \<notin> times_of cols" and "t \<notin> fst ` set ds"
  shows "row_ok cols ((t, v) # ds) (JStr t # replicate (length cols) JNull @ [v])"
proof -
  have "map_of (cols ! j) t = None" if "j < length cols" for j
    using assms(1) that nth_mem [OF that] by (auto simp: times_of_def map_of_eq_None_iff)
  then show ?thesis by (auto simp: row_ok_def headed_def cell_def nth_append at_time_def)
qed

lemma tabled_step:
  assumes "tabled cols ds table" and "index_ok ix table" and "t \<notin> fst ` set ds"
    and "merge_value (Suc (length cols)) (t, v) (ix, table) = (ix', table')"
  shows "tabled cols ((t, v) # ds) table' \<and> index_ok ix' table'"
proof (cases "map_of ix t")
  case None
  then have "\<forall>i<length table. row_time_text (table ! i) \<noteq> t"
    using assms(2) unfolding index_ok_def by (metis option.distinct(1))
  then have "t \<notin> set (map row_time_text table)" by (auto simp: in_set_conv_nth)
  note n = this
  then have "t \<notin> times_of cols" using assms(1) by (simp add: tabled_def)
  note new = row_ok_new [OF this assms(3), of v]
  let ?row = "JStr t # replicate (length cols) JNull @ [v]"
  have e: "ix' = hm_insert t (length table) ix" "table' = table @ [?row]" using assms(4) None by simp_all
  have "row_ok cols ((t, v) # ds) row" if "row \<in> set table" for row
  proof (rule row_ok_other)
    show "row_ok cols ds row" using assms(1) that by (simp add: tabled_def)
    show "row_time_text row \<noteq> t" using n that by auto
  qed
  then have "\<forall>row\<in>set table'. row_ok cols ((t, v) # ds) row" using new by (simp add: e)
  moreover have "distinct (map row_time_text table')" "set (map row_time_text table') = times_of cols \<union> fst ` set ((t, v) # ds)"
    using assms(1) n by (simp_all add: tabled_def e)
  ultimately show ?thesis using index_append [OF assms(2) n] by (simp add: tabled_def e)
next
  case (Some i)
  let ?row = "pad_row (Suc (length cols)) (table ! i) @ [v]"
  have i: "i < length table" "row_time_text (table ! i) = t" using Some assms(2) by (simp_all add: index_ok_def)
  have ok: "row_ok cols ds (table ! i)" using i(1) assms(1) by (simp add: tabled_def)
  then have h: "headed (table ! i) (length cols)" using i(2) assms(3) by (simp add: row_ok_def)
  have e: "ix' = ix" "table' = table[i := ?row]" using assms(4) Some by simp_all
  have times: "map row_time_text table' = map row_time_text table"
    using headed_pad [OF h, of v] i by (simp add: e map_update list_update_same_conv)
  have "row_ok cols ((t, v) # ds) row" if row: "row \<in> set table'" for row
  proof -
    obtain j where j: "j < length table" "row = table' ! j" using row by (auto simp: e in_set_conv_nth)
    show ?thesis
    proof (cases "j = i")
      case True
      with j i(1) show ?thesis using row_ok_push [OF ok i(2) assms(3)] by (simp add: e)
    next
      case False
      have "distinct (map row_time_text table)" using assms(1) by (simp add: tabled_def)
      then have "row_time_text (table ! j) \<noteq> t" using False i j(1) by (auto simp: distinct_conv_nth)
      with False j assms(1) show ?thesis by (auto simp: e tabled_def intro!: row_ok_other)
    qed
  qed
  moreover have "index_ok ix' table'"
    using assms(2) headed_pad [OF h, of v] i by (auto simp: e index_ok_def nth_list_update)
  moreover have "t \<in> set (map row_time_text table)" using i by (metis length_map nth_map nth_mem)
  ultimately show ?thesis using assms(1) times by (auto simp: tabled_def)
qed

lemma tabled_fold:
  assumes "tabled cols ds table" and "index_ok ix table" and "distinct (map fst rows)"
    and "fst ` set rows \<inter> fst ` set ds = {}"
  shows "tabled cols (rev rows @ ds) (snd (fold (merge_value (Suc (length cols))) rows (ix, table)))"
  using assms
proof (induction rows arbitrary: ds ix table)
  case (Cons a rows)
  obtain t v where a: "a = (t, v)" by (cases a)
  obtain ix' table' where m: "merge_value (Suc (length cols)) (t, v) (ix, table) = (ix', table')" by (metis surj_pair)
  have "t \<notin> fst ` set ds" using Cons.prems(4) by (auto simp: a)
  from tabled_step [OF Cons.prems(1,2) this m] Cons.IH [of "(t, v) # ds" table' ix'] Cons.prems show ?case
    by (simp add: a m del: merge_value.simps)
qed simp

lemma tabled_next: "tabled cols (rev rows) table \<Longrightarrow> distinct (map fst rows) \<Longrightarrow> tabled (cols @ [rows]) [] table"
proof -
  assume t: "tabled cols (rev rows) table" and d: "distinct (map fst rows)"
  have m: "map_of (rev rows) = map_of rows" using d by (simp add: map_of_rev_distinct)
  have "row_ok (cols @ [rows]) [] row" if "row_ok cols (rev rows) row" for row
  proof -
    have h: "headed row (Suc (length cols))"
      using that by (auto simp: row_ok_def headed_def split: if_splits)
    then have "cell row (Suc (Suc (length cols))) = JNull" by (auto simp: headed_def cell_def)
    moreover have "cell row (Suc j) = at_time ((cols @ [rows]) ! j) (row_time_text row)" if "j < Suc (length cols)" for j
      using \<open>row_ok cols (rev rows) row\<close> that by (auto simp: row_ok_def nth_append at_time_def m less_Suc_eq)
    ultimately show ?thesis using h by (simp add: row_ok_def at_time_def)
  qed
  with t show "tabled (cols @ [rows]) [] table" by (auto simp: tabled_def times_of_def)
qed

lemma tabled_merge:
  assumes "tabled cols [] table" and "distinct (map fst rows)" and "cols = [] \<Longrightarrow> table = []"
  shows "tabled (cols @ [rows]) [] (merge_path (Suc (length cols)) rows table)"
proof (cases "cols = []")
  case True
  let ?t = "map (\<lambda>(t, v). [JStr t, v]) rows"
  have m: "map row_time_text ?t = map fst rows" by auto
  have "row_ok [rows] [] row" if row: "row \<in> set ?t" for row
  proof -
    obtain t v where "row = [JStr t, v]" "map_of rows t = Some v" using row assms(2) by auto
    then show ?thesis by (simp add: row_ok_def headed_def cell_def at_time_def)
  qed
  then have "tabled [rows] [] ?t" unfolding tabled_def m using assms(2) by (simp add: times_of_def)
  then show ?thesis using True by (simp add: merge_path_def)
next
  case False
  have "\<exists>n. headed row n" if "row \<in> set table" for row using assms(1) that by (auto simp: tabled_def row_ok_def)
  then have "index_ok (time_index table) table" using assms(1) by (auto simp: tabled_def intro!: time_index_ok)
  from tabled_fold [OF assms(1) this assms(2)] False show ?thesis
    by (auto simp: merge_path_def intro!: tabled_next assms(2))
qed

text \<open>The answers of the paths of a request, when no two of one path have the same time.\<close>

definition columns_of :: "history_env \<Rightarrow> history_db \<Rightarrow> string \<Rightarrow> string \<Rightarrow> string \<Rightarrow> f64 option \<Rightarrow> path_spec list \<Rightarrow>
    (string \<times> json) list list \<Rightarrow> bool" where
  "columns_of env db context from to res specs cols \<longleftrightarrow>
     list_all2 (\<lambda>s rows. query_path_values env db context (sp_path s) from to res (sp_method s) = Some rows
       \<and> distinct (map fst rows)) specs cols"

lemma tabled_collect:
  assumes "columns_of env db context from to res specs cols" and "tabled done [] table" and "done = [] \<Longrightarrow> table = []"
  shows "\<exists>t. collect_values env db context from to res specs (length done) table = Some t \<and> tabled (done @ cols) [] t"
  using assms unfolding columns_of_def
proof (induction specs cols arbitrary: "done" table rule: list_all2_induct)
  case (Cons s specs rows cols)
  from tabled_merge [OF Cons.prems(1) _ Cons.prems(2)] Cons.hyps
  have "tabled (done @ [rows]) [] (merge_path (Suc (length done)) rows table)" by simp
  from Cons.IH [OF this] Cons.hyps show ?case by simp
qed simp


definition demo_history_db :: history_db where
  "demo_history_db = \<lparr>hd_raw = [\<lparr>rr_timestamp = ''2026-01-01T10'', rr_context = ''me'', rr_path = ''a'', rr_value = Some (Fin 7)\<rparr>,
     \<lparr>rr_timestamp = ''2026-01-01T11'', rr_context = ''me'', rr_path = ''b'', rr_value = Some (Fin 8)\<rparr>], hd_daily = []\<rparr>"

definition demo_values_request :: values_request where
  "demo_values_request = \<lparr>hq_context = ''me'', hq_path_specs = [\<lparr>sp_path = ''a'', sp_method = Average\<rparr>, \<lparr>sp_path = ''b'', sp_method = Average\<rparr>],
     hq_from = Some ''2025'', hq_to = Some ''2027'', hq_duration = None, hq_resolution = None\<rparr>"


text \<open>Two values of a path at one time move the columns after it: the second one is appended to
  the row too.\<close>

theorem equal_times_shift_columns:
  "merge_path 3 [(t, c)] (merge_path 2 [(t, b1), (t, b2)] (merge_path 1 [(t, a)] [])) = [[JStr t, a, b1, b2, c]]"
  by (simp add: merge_path_def time_index_def pad_row_def numeral_2_eq_2 numeral_3_eq_3)

end
