(* ===== verification/Nmea0183.thy ===== *)
theory Nmea0183
  imports Ais Notifications
begin

text \<open>
  The input of NMEA 0183 (\<^verbatim>\<open>plugins/nmea0183-receive/src\<close>): the conversion of parsed
  sentences to values, AIS and DSC messages, and the loop over the lines of a connection. The
  crates \<^verbatim>\<open>nmea\<close> and \<^verbatim>\<open>ais\<close> parse the text: their results are records here, with the
  fields the sources read, and the parsers are an environment. A number that they give in 32 bits
  is the same number in 64. A line that is not UTF-8 is an error of the reader.
\<close>

section \<open>Units\<close>

definition KNOTS_TO_MS :: f64 where
  "KNOTS_TO_MS = lit (514444 / 1000000)"

definition DEG_TO_RAD :: f64 where
  "DEG_TO_RAD = f_div PI (Fin 180)"

definition NM_TO_M :: f64 where
  "NM_TO_M = Fin 1852"

definition FEET_TO_M :: f64 where
  "FEET_TO_M = lit (3048 / 10000)"

definition FATHOMS_TO_M :: f64 where
  "FATHOMS_TO_M = lit (18288 / 10000)"

definition KELVIN_OFFSET_0183 :: f64 where
  "KELVIN_OFFSET_0183 = lit (27315 / 100)"

definition BAR_TO_PA :: f64 where
  "BAR_TO_PA = Fin 100000"

text \<open>A value that is there, scaled: \<^verbatim>\<open>json!(v * unit)\<close>.\<close>

definition scaled :: "string \<Rightarrow> f64 \<Rightarrow> f64 option \<Rightarrow> path_value list" where
  "scaled path unit v = opt_pv path (\<lambda>x. json_f64 (f_mul x unit)) v"

definition plain_value :: "string \<Rightarrow> f64 option \<Rightarrow> path_value list" where
  "plain_value path v = opt_pv path json_f64 v"

definition in_kelvin :: "string \<Rightarrow> f64 option \<Rightarrow> path_value list" where
  "in_kelvin path v = opt_pv path (\<lambda>x. json_f64 (f_add x KELVIN_OFFSET_0183)) v"

definition both :: "'a option \<Rightarrow> 'b option \<Rightarrow> ('a \<times> 'b) option" where
  "both x y = Option.bind x (\<lambda>a. map_option (Pair a) y)"

definition position_json :: "f64 option \<Rightarrow> f64 \<times> f64 \<Rightarrow> json" where
  "position_json alt = (\<lambda>(lat, lon). json_obj
     ([(''latitude'', json_f64 lat), (''longitude'', json_f64 lon)] @ opt_field ''altitude'' json_f64 alt))"

definition position_value :: "string \<Rightarrow> f64 option \<Rightarrow> f64 option \<Rightarrow> f64 option \<Rightarrow> path_value list" where
  "position_value path lat lon alt = opt_pv path (position_json alt) (both lat lon)"

definition json_int :: "int \<Rightarrow> json" where
  "json_int n = JNum (if 0 \<le> n then PosInt (of_int n) else NegInt (of_int n))"

definition json_nat :: "nat \<Rightarrow> json" where
  "json_nat n = JNum (PosInt (of_nat n))"

section \<open>Position\<close>

text \<open>A time of day as \<^verbatim>\<open>chrono\<close> has it: seconds and nanoseconds, the latter above a second
  in a leap second. A date is the count of its days since 1970.\<close>

record naive_time =
  nt_secs :: nat
  nt_nanos :: nat

definition timestamp_millis :: "int \<Rightarrow> naive_time \<Rightarrow> int" where
  "timestamp_millis day t = (day * 86400 + int (nt_secs t)) * 1000 + int (nt_nanos t div 1000000)"

definition utc_values :: "int \<Rightarrow> naive_time \<Rightarrow> path_value list" where
  "utc_values day t =
     [path_value_new ''environment.time.millis'' (json_int (timestamp_millis day t)),
      path_value_new ''environment.time.timezoneOffset'' (json_int 0),
      path_value_new ''environment.time.timezoneRegion'' (JStr ''UTC'')]"

datatype rmc_status = Autonomous | Differential | Invalid_fix

record rmc_data =
  rmc_lat :: "f64 option"
  rmc_lon :: "f64 option"
  rmc_speed :: "f64 option"
  rmc_course :: "f64 option"
  rmc_variation :: "f64 option"
  rmc_status_of_fix :: rmc_status
  rmc_date :: "int option"
  rmc_time :: "naive_time option"

definition from_rmc :: "(int \<Rightarrow> naive_time \<Rightarrow> string) \<Rightarrow> rmc_data \<Rightarrow> path_value list" where
  "from_rmc fmt x =
     position_value ''navigation.position'' (rmc_lat x) (rmc_lon x) None
     @ scaled ''navigation.speedOverGround'' KNOTS_TO_MS (rmc_speed x)
     @ scaled ''navigation.courseOverGroundTrue'' DEG_TO_RAD (rmc_course x)
     @ scaled ''navigation.magneticVariation'' DEG_TO_RAD (rmc_variation x)
     @ (if rmc_status_of_fix x \<noteq> Invalid_fix
        then (case both (rmc_date x) (rmc_time x) of
                Some (day, t) \<Rightarrow> path_value_new ''navigation.datetime'' (JStr (fmt day t)) # utc_values day t
              | None \<Rightarrow> [])
        else [])"

datatype fix_type = Fix_invalid | Fix_gps | Fix_dgps | Fix_pps | Fix_rtk | Fix_float_rtk | Fix_estimated | Fix_manual | Fix_sbas
    | Fix_simulation

fun fix_method :: "fix_type \<Rightarrow> string" where
  "fix_method Fix_invalid = ''no GPS''"
| "fix_method Fix_gps = ''GNSS''"
| "fix_method Fix_dgps = ''DGNSS''"
| "fix_method Fix_pps = ''PPS''"
| "fix_method Fix_rtk = ''RTK fixed''"
| "fix_method Fix_float_rtk = ''RTK float''"
| "fix_method Fix_estimated = ''estimated''"
| "fix_method Fix_manual = ''manual''"
| "fix_method Fix_sbas = ''DGNSS''"
| "fix_method Fix_simulation = ''simulation''"

record gga_data =
  gga_lat :: "f64 option"
  gga_lon :: "f64 option"
  gga_altitude :: "f64 option"
  gga_hdop :: "f64 option"
  gga_satellites :: "u32 option"
  gga_fix :: "fix_type option"

definition from_gga :: "gga_data \<Rightarrow> path_value list" where
  "from_gga x =
     position_value ''navigation.position'' (gga_lat x) (gga_lon x) (gga_altitude x)
     @ plain_value ''navigation.gnss.horizontalDilution'' (gga_hdop x)
     @ opt_pv ''navigation.gnss.satellites'' (\<lambda>n. json_nat (unat n)) (gga_satellites x)
     @ opt_pv ''navigation.gnss.methodQuality'' (\<lambda>f. JStr (fix_method f)) (gga_fix x)"

record vtg_data =
  vtg_course :: "f64 option"
  vtg_speed :: "f64 option"

definition from_vtg :: "vtg_data \<Rightarrow> path_value list" where
  "from_vtg x =
     scaled ''navigation.courseOverGroundTrue'' DEG_TO_RAD (vtg_course x)
     @ scaled ''navigation.speedOverGround'' KNOTS_TO_MS (vtg_speed x)"

record gll_data =
  gll_lat :: "f64 option"
  gll_lon :: "f64 option"
  gll_valid :: bool

definition from_gll :: "gll_data \<Rightarrow> path_value list" where
  "from_gll x =
     (if gll_valid x then position_value ''navigation.position'' (gll_lat x) (gll_lon x) None else [])"

section \<open>Course\<close>

record rmb_data =
  rmb_status :: bool
  rmb_lat :: "f64 option"
  rmb_lon :: "f64 option"
  rmb_range :: "f64 option"
  rmb_bearing :: "f64 option"
  rmb_cross_track :: "f64 option"

definition from_rmb :: "rmb_data \<Rightarrow> path_value list" where
  "from_rmb x =
     (if \<not> rmb_status x then []
      else position_value ''navigation.courseGreatCircle.nextPoint.position'' (rmb_lat x) (rmb_lon x) None
        @ scaled ''navigation.courseGreatCircle.nextPoint.distance'' NM_TO_M (rmb_range x)
        @ scaled ''navigation.courseGreatCircle.nextPoint.bearingTrue'' DEG_TO_RAD (rmb_bearing x)
        @ scaled ''navigation.courseGreatCircle.crossTrackError'' NM_TO_M (rmb_cross_track x))"

record bwc_data =
  bwc_lat :: "f64 option"
  bwc_lon :: "f64 option"
  bwc_true :: "f64 option"
  bwc_magnetic :: "f64 option"
  bwc_distance :: "f64 option"

definition from_bwc :: "bwc_data \<Rightarrow> path_value list" where
  "from_bwc x =
     position_value ''navigation.courseGreatCircle.nextPoint.position'' (bwc_lat x) (bwc_lon x) None
     @ scaled ''navigation.courseGreatCircle.nextPoint.bearingTrue'' DEG_TO_RAD (bwc_true x)
     @ scaled ''navigation.courseGreatCircle.nextPoint.bearingMagnetic'' DEG_TO_RAD (bwc_magnetic x)
     @ scaled ''navigation.courseGreatCircle.nextPoint.distance'' NM_TO_M (bwc_distance x)"

record bod_data =
  bod_true :: "f64 option"
  bod_magnetic :: "f64 option"

definition from_bod :: "bod_data \<Rightarrow> path_value list" where
  "from_bod x =
     scaled ''navigation.courseGreatCircle.bearingTrackTrue'' DEG_TO_RAD (bod_true x)
     @ scaled ''navigation.courseGreatCircle.bearingTrackMagnetic'' DEG_TO_RAD (bod_magnetic x)"

record xte_data =
  xte_status_general :: bool
  xte_error :: "f64 option"

definition from_xte :: "xte_data \<Rightarrow> path_value list" where
  "from_xte x =
     (if xte_status_general x then scaled ''navigation.courseGreatCircle.crossTrackError'' NM_TO_M (xte_error x) else [])"

section \<open>Depth\<close>

text \<open>The depth below the transducer, and below surface or keel by the sign of the offset; NMEA 2000
  has the same.\<close>

definition depth_values :: "f64 option \<Rightarrow> f64 option \<Rightarrow> path_value list" where
  "depth_values depth offset =
     (case depth of
        None \<Rightarrow> []
      | Some d \<Rightarrow> path_value_new ''environment.depth.belowTransducer'' (json_f64 d) #
          opt_pv (if is_some_and offset (f_le (Fin 0)) then ''environment.depth.belowSurface'' else ''environment.depth.belowKeel'')
            (\<lambda>off. json_f64 (f_add d off)) offset)"

record dpt_data =
  dpt_depth :: "f64 option"
  dpt_offset :: "f64 option"

definition from_dpt :: "dpt_data \<Rightarrow> path_value list" where
  "from_dpt x =
     depth_values (dpt_depth x) (dpt_offset x)"

record depth3 =
  d3_meters :: "f64 option"
  d3_feet :: "f64 option"
  d3_fathoms :: "f64 option"

definition depth3_meters :: "depth3 \<Rightarrow> f64 option" where
  "depth3_meters x =
     or_else (d3_meters x) (or_else (map_option (\<lambda>f. f_mul f FEET_TO_M) (d3_feet x))
       (map_option (\<lambda>f. f_mul f FATHOMS_TO_M) (d3_fathoms x)))"

definition from_dbt :: "depth3 \<Rightarrow> path_value list" where
  "from_dbt x =
     plain_value ''environment.depth.belowTransducer'' (depth3_meters x)"

definition from_dbs :: "depth3 \<Rightarrow> path_value list" where
  "from_dbs x =
     plain_value ''environment.depth.belowSurface'' (depth3_meters x)"

definition from_dbk :: "depth3 \<Rightarrow> path_value list" where
  "from_dbk x =
     plain_value ''environment.depth.belowKeel'' (depth3_meters x)"

section \<open>Environment\<close>

record mtw_data =
  mtw_temperature :: "f64 option"

definition from_mtw :: "mtw_data \<Rightarrow> path_value list" where
  "from_mtw x =
     in_kelvin ''environment.water.temperature'' (mtw_temperature x)"

text \<open>A speed in metres per second, or else in knots.\<close>

definition ms_or_knots :: "f64 option \<Rightarrow> f64 option \<Rightarrow> f64 option" where
  "ms_or_knots ms knots = or_else ms (map_option (\<lambda>s. f_mul s KNOTS_TO_MS) knots)"

record mda_data =
  mda_pressure_bar :: "f64 option"
  mda_air_temp :: "f64 option"
  mda_water_temp :: "f64 option"
  mda_humidity :: "f64 option"
  mda_dew_point :: "f64 option"
  mda_wind_true :: "f64 option"
  mda_wind_ms :: "f64 option"
  mda_wind_knots :: "f64 option"

definition from_mda :: "mda_data \<Rightarrow> path_value list" where
  "from_mda x =
     scaled ''environment.outside.pressure'' BAR_TO_PA (mda_pressure_bar x)
     @ in_kelvin ''environment.outside.temperature'' (mda_air_temp x)
     @ in_kelvin ''environment.water.temperature'' (mda_water_temp x)
     @ opt_pv ''environment.outside.humidity'' (\<lambda>h. json_f64 (f_div h (Fin 100))) (mda_humidity x)
     @ in_kelvin ''environment.outside.dewPointTemperature'' (mda_dew_point x)
     @ scaled ''environment.wind.directionTrue'' DEG_TO_RAD (mda_wind_true x)
     @ plain_value ''environment.wind.speedTrue'' (ms_or_knots (mda_wind_ms x) (mda_wind_knots x))"

record vdr_data =
  vdr_true :: "f64 option"
  vdr_speed :: "f64 option"

definition from_vdr :: "vdr_data \<Rightarrow> path_value list" where
  "from_vdr x =
     scaled ''environment.current.setTrue'' DEG_TO_RAD (vdr_true x)
     @ scaled ''environment.current.drift'' KNOTS_TO_MS (vdr_speed x)"

record vlw_data =
  vlw_trip :: "f64 option"
  vlw_total :: "f64 option"

definition from_vlw :: "vlw_data \<Rightarrow> path_value list" where
  "from_vlw x =
     scaled ''navigation.trip.log'' NM_TO_M (vlw_trip x)
     @ scaled ''navigation.log'' NM_TO_M (vlw_total x)"

section \<open>Satellites and time\<close>

definition dec_pad :: "nat \<Rightarrow> nat \<Rightarrow> string" where
  "dec_pad k n = (let d = dec_digits n in replicate (k - length d) CHR ''0'' @ d)"

record zda_data =
  zda_time :: "naive_time option"
  zda_day :: "u8 option"
  zda_month :: "u8 option"
  zda_year :: "16 word option"

definition zda_iso :: "naive_time \<Rightarrow> nat \<Rightarrow> nat \<Rightarrow> nat \<Rightarrow> string" where
  "zda_iso t day month year =
     dec_pad 4 year @ ''-'' @ dec_pad 2 month @ ''-'' @ dec_pad 2 day @ ''T''
     @ dec_pad 2 (nt_secs t div 3600) @ '':'' @ dec_pad 2 (nt_secs t div 60 mod 60) @ '':'' @ dec_pad 2 (nt_secs t mod 60)
     @ ''.'' @ dec_pad 3 (nt_nanos t div 1000000) @ ''Z''"

definition from_zda :: "(int \<Rightarrow> nat \<Rightarrow> nat \<Rightarrow> int option) \<Rightarrow> zda_data \<Rightarrow> path_value list" where
  "from_zda from_ymd x =
     (case (zda_time x, zda_day x, zda_month x, zda_year x) of
        (Some t, Some day, Some month, Some year) \<Rightarrow>
          path_value_new ''navigation.datetime'' (JStr (zda_iso t (unat day) (unat month) (unat year)))
          # (case from_ymd (uint year) (unat month) (unat day) of Some d \<Rightarrow> utc_values d t | None \<Rightarrow> [])
      | _ \<Rightarrow> [])"

record gsa_data =
  gsa_hdop :: "f64 option"
  gsa_pdop :: "f64 option"
  gsa_sats :: nat

definition from_gsa :: "gsa_data \<Rightarrow> path_value list" where
  "from_gsa x =
     plain_value ''navigation.gnss.horizontalDilution'' (gsa_hdop x)
     @ plain_value ''navigation.gnss.positionDilution'' (gsa_pdop x)
     @ (if 0 < gsa_sats x then [path_value_new ''navigation.gnss.satellites'' (json_nat (gsa_sats x))] else [])"

datatype gns_status = Safe | Caution | Unsafe | Not_valid

fun gns_method :: "gns_status \<Rightarrow> string" where
  "gns_method Safe = ''GNSS''"
| "gns_method Caution = ''GNSS''"
| "gns_method Unsafe = ''estimated''"
| "gns_method Not_valid = ''no GPS''"

record gns_data =
  gns_lat :: "f64 option"
  gns_lon :: "f64 option"
  gns_alt :: "f64 option"
  gns_hdop :: "f64 option"
  gns_satellites :: nat
  gns_nav_status :: "gns_status option"

definition from_gns :: "gns_data \<Rightarrow> path_value list" where
  "from_gns x =
     position_value ''navigation.position'' (gns_lat x) (gns_lon x) (gns_alt x)
     @ plain_value ''navigation.gnss.horizontalDilution'' (gns_hdop x)
     @ [path_value_new ''navigation.gnss.satellites'' (json_nat (gns_satellites x))]
     @ opt_pv ''navigation.gnss.methodQuality'' (\<lambda>s. JStr (gns_method s)) (gns_nav_status x)"

section \<open>Heading\<close>

record hdt_data =
  hdt_heading :: "f64 option"

definition from_hdt :: "hdt_data \<Rightarrow> path_value list" where
  "from_hdt x =
     scaled ''navigation.headingTrue'' DEG_TO_RAD (hdt_heading x)"

record hdg_data =
  hdg_heading :: "f64 option"
  hdg_deviation :: "f64 option"
  hdg_variation :: "f64 option"

definition from_hdg :: "hdg_data \<Rightarrow> path_value list" where
  "from_hdg x =
     scaled ''navigation.headingMagnetic'' DEG_TO_RAD (hdg_heading x)
     @ scaled ''navigation.magneticDeviation'' DEG_TO_RAD (hdg_deviation x)
     @ scaled ''navigation.magneticVariation'' DEG_TO_RAD (hdg_variation x)"

record hdm_data =
  hdm_heading :: "f64 option"

definition from_hdm :: "hdm_data \<Rightarrow> path_value list" where
  "from_hdm x =
     scaled ''navigation.headingMagnetic'' DEG_TO_RAD (hdm_heading x)"

record vhw_data =
  vhw_speed_knots :: "f64 option"
  vhw_true :: "f64 option"
  vhw_magnetic :: "f64 option"

definition from_vhw :: "vhw_data \<Rightarrow> path_value list" where
  "from_vhw x =
     scaled ''navigation.speedThroughWater'' KNOTS_TO_MS (vhw_speed_knots x)
     @ scaled ''navigation.headingTrue'' DEG_TO_RAD (vhw_true x)
     @ scaled ''navigation.headingMagnetic'' DEG_TO_RAD (vhw_magnetic x)"

record rot_data =
  rot_valid :: "bool option"
  rot_rate :: "f64 option"

definition from_rot :: "rot_data \<Rightarrow> path_value list" where
  "from_rot x =
     (if rot_valid x \<noteq> Some False
      then opt_pv ''navigation.rateOfTurn'' (\<lambda>r. json_f64 (f_div (f_mul r DEG_TO_RAD) (Fin 60))) (rot_rate x) else [])"

section \<open>Propulsion\<close>

record rsa_data =
  rsa_starboard :: "f64 option"
  rsa_starboard_valid :: bool
  rsa_port :: "f64 option"
  rsa_port_valid :: bool

definition from_rsa :: "rsa_data \<Rightarrow> path_value list" where
  "from_rsa x =
     (if rsa_starboard_valid x then scaled ''steering.rudderAngle'' DEG_TO_RAD (rsa_starboard x) else [])
     @ (if rsa_port_valid x then scaled ''steering.rudderAnglePort'' DEG_TO_RAD (rsa_port x) else [])"

datatype rpm_source = Rpm_engine | Rpm_shaft

record rpm_data =
  rpm_source_of :: "rpm_source option"
  rpm_number :: "u8 option"
  rpm_rpm :: "f64 option"
  rpm_pitch :: "f64 option"
  rpm_valid :: bool

definition rpm_prefix :: "rpm_data \<Rightarrow> string" where
  "rpm_prefix x =
     (if rpm_source_of x = Some Rpm_engine then ''propulsion.engine'' else ''propulsion.shaft'')
     @ dec_digits (unat (unwrap_or (rpm_number x) 0))"

definition from_rpm :: "rpm_data \<Rightarrow> path_value list" where
  "from_rpm x =
     (if \<not> rpm_valid x then []
      else opt_pv (rpm_prefix x @ ''.revolutions'') (\<lambda>r. json_f64 (f_div r (Fin 60))) (rpm_rpm x)
        @ opt_pv (rpm_prefix x @ ''.pitch'') (\<lambda>p. json_f64 (f_div p (Fin 100))) (rpm_pitch x))"

section \<open>Wind\<close>

datatype wind_units = Knots | Meters_per_second | Kilometers_per_hour | Miles_per_hour

datatype mwv_reference = Relative | Theoretical

record mwv_data =
  mwv_direction :: "f64 option"
  mwv_reference_of :: "mwv_reference option"
  mwv_speed :: "f64 option"
  mwv_units :: "wind_units option"
  mwv_data_valid :: bool

fun wind_ms :: "wind_units \<Rightarrow> f64 \<Rightarrow> f64" where
  "wind_ms Knots s = f_mul s KNOTS_TO_MS"
| "wind_ms Meters_per_second s = s"
| "wind_ms Kilometers_per_hour s = f_div s (lit (36 / 10))"
| "wind_ms Miles_per_hour s = f_mul s (lit (44704 / 100000))"

definition from_mwv :: "mwv_data \<Rightarrow> path_value list" where
  "from_mwv x =
     (let angle = map_option (\<lambda>a. f_mul a DEG_TO_RAD) (mwv_direction x);
          speed = map_option (\<lambda>(s, u). wind_ms u s) (both (mwv_speed x) (mwv_units x))
      in if \<not> mwv_data_valid x then []
         else (case mwv_reference_of x of
             Some Relative \<Rightarrow>
               plain_value ''environment.wind.angleApparent'' angle @ plain_value ''environment.wind.speedApparent'' speed
           | Some Theoretical \<Rightarrow>
               plain_value ''environment.wind.angleTrueWater'' angle @ plain_value ''environment.wind.speedTrue'' speed
           | None \<Rightarrow> []))"

record mwd_data =
  mwd_true :: "f64 option"
  mwd_magnetic :: "f64 option"
  mwd_ms :: "f64 option"
  mwd_knots :: "f64 option"

definition from_mwd :: "mwd_data \<Rightarrow> path_value list" where
  "from_mwd x =
     scaled ''environment.wind.directionTrue'' DEG_TO_RAD (mwd_true x)
     @ scaled ''environment.wind.directionMagnetic'' DEG_TO_RAD (mwd_magnetic x)
     @ plain_value ''environment.wind.speedTrue'' (ms_or_knots (mwd_ms x) (mwd_knots x))"

record vw_data =
  vw_angle :: "f64 option"
  vw_ms :: "f64 option"
  vw_knots :: "f64 option"

definition from_vwr :: "vw_data \<Rightarrow> path_value list" where
  "from_vwr x =
     scaled ''environment.wind.angleApparent'' DEG_TO_RAD (vw_angle x)
     @ plain_value ''environment.wind.speedApparent'' (ms_or_knots (vw_ms x) (vw_knots x))"

definition from_vwt :: "vw_data \<Rightarrow> path_value list" where
  "from_vwt x =
     scaled ''environment.wind.angleTrueWater'' DEG_TO_RAD (vw_angle x)
     @ plain_value ''environment.wind.speedTrue'' (ms_or_knots (vw_ms x) (vw_knots x))"

section \<open>Transducers\<close>

record xdr_measurement =
  xm_type :: "char option"
  xm_value :: "f64 option"
  xm_name :: string

datatype xdr_conversion = Identity | Celsius_to_kelvin | Bar_to_pascal | Deg_to_rad | Percent_to_ratio

fun xdr_convert :: "xdr_conversion \<Rightarrow> f64 \<Rightarrow> f64" where
  "xdr_convert Identity v = v"
| "xdr_convert Celsius_to_kelvin v = f_add v KELVIN_OFFSET_0183"
| "xdr_convert Bar_to_pascal v = f_mul v BAR_TO_PA"
| "xdr_convert Deg_to_rad v = f_mul v DEG_TO_RAD"
| "xdr_convert Percent_to_ratio v = f_div v (Fin 100)"

definition name_matches :: "string \<Rightarrow> string \<Rightarrow> bool" where
  "name_matches pattern name =
     (if ends_with pattern ''*'' then starts_with name (butlast pattern) else name = pattern)"

definition xdr_mappings :: "(char \<times> string \<times> string \<times> xdr_conversion) list" where
  "xdr_mappings =
     [(CHR ''P'', ''BARO*'', ''environment.outside.pressure'', Bar_to_pascal),
      (CHR ''P'', ''BAR*'', ''environment.outside.pressure'', Bar_to_pascal),
      (CHR ''P'', ''Barometer'', ''environment.outside.pressure'', Bar_to_pascal),
      (CHR ''C'', ''WTHI'', ''environment.water.temperature'', Celsius_to_kelvin),
      (CHR ''C'', ''WATER*'', ''environment.water.temperature'', Celsius_to_kelvin),
      (CHR ''C'', ''ENV_WATER_T'', ''environment.water.temperature'', Celsius_to_kelvin),
      (CHR ''C'', ''ENV_OUTAIR*'', ''environment.outside.temperature'', Celsius_to_kelvin),
      (CHR ''C'', ''AIR*'', ''environment.outside.temperature'', Celsius_to_kelvin),
      (CHR ''C'', ''TempAir'', ''environment.outside.temperature'', Celsius_to_kelvin),
      (CHR ''A'', ''PTCH'', ''ATTITUDE_PITCH'', Deg_to_rad),
      (CHR ''A'', ''PITCH'', ''ATTITUDE_PITCH'', Deg_to_rad),
      (CHR ''A'', ''Pitch'', ''ATTITUDE_PITCH'', Deg_to_rad),
      (CHR ''A'', ''ROLL'', ''ATTITUDE_ROLL'', Deg_to_rad),
      (CHR ''A'', ''Roll'', ''ATTITUDE_ROLL'', Deg_to_rad),
      (CHR ''H'', ''ENV_OUTSIDE_H*'', ''environment.outside.humidity'', Percent_to_ratio),
      (CHR ''H'', ''HUM*'', ''environment.outside.humidity'', Percent_to_ratio),
      (CHR ''H'', ''Humidity'', ''environment.outside.humidity'', Percent_to_ratio),
      (CHR ''U'', ''BATT*'', ''electrical.batteries.main.voltage'', Identity)]"

record xdr_state =
  xs_out :: "path_value list"
  xs_pitch :: "f64 option"
  xs_roll :: "f64 option"

definition xdr_step :: "xdr_measurement \<Rightarrow> xdr_state \<Rightarrow> xdr_state" where
  "xdr_step m s =
     (case both (xm_type m) (xm_value m) of
        None \<Rightarrow> s
      | Some (ty, v) \<Rightarrow>
          (case List.find (\<lambda>(c, pat, _). c = ty \<and> name_matches pat (xm_name m)) xdr_mappings of
             None \<Rightarrow> s
           | Some (_, _, path, conv) \<Rightarrow>
               if path = ''ATTITUDE_PITCH'' then s\<lparr>xs_pitch := Some (xdr_convert conv v)\<rparr>
               else if path = ''ATTITUDE_ROLL'' then s\<lparr>xs_roll := Some (xdr_convert conv v)\<rparr>
               else s\<lparr>xs_out := xs_out s @ [path_value_new path (json_f64 (xdr_convert conv v))]\<rparr>))"

definition from_xdr :: "xdr_measurement list \<Rightarrow> path_value list" where
  "from_xdr ms =
     (let s = fold xdr_step ms \<lparr>xs_out = [], xs_pitch = None, xs_roll = None\<rparr>
      in xs_out s
         @ (if xs_pitch s \<noteq> None \<or> xs_roll s \<noteq> None
            then [path_value_new ''navigation.attitude''
                    (json_obj (opt_field ''pitch'' json_f64 (xs_pitch s) @ opt_field ''roll'' json_f64 (xs_roll s)))]
            else []))"

section \<open>Sentences\<close>

record dsc_data =
  dsc_sender_mmsi :: "nat option"
  dsc_position :: "(f64 \<times> f64) option"
  dsc_category :: "u8 option"
  dsc_first_telecommand :: "u8 option"

datatype sentence =
    RMC rmc_data | GGA gga_data | VTG vtg_data | HDT hdt_data | MWV mwv_data | DPT dpt_data | HDG hdg_data
  | HDM hdm_data | VHW vhw_data | MTW mtw_data | ROT rot_data | MDA mda_data | MWD mwd_data | RSA rsa_data
  | RPM rpm_data | GLL gll_data | DBT depth3 | DBS depth3 | DBK depth3 | VDR vdr_data | VLW vlw_data
  | VWR vw_data | VWT vw_data | RMB rmb_data | BWC bwc_data | BOD bod_data | XTE xte_data | GSA gsa_data
  | GNS gns_data | ZDA zda_data | XDR "xdr_measurement list" | DSC dsc_data | Other_sentence

text \<open>
  \<open>nx_parse\<close> is \<^verbatim>\<open>nmea::parse_str\<close>; \<open>nx_iso\<close> formats a date and time,
  \<open>nx_from_ymd\<close> is \<^verbatim>\<open>from_ymd_opt\<close>, and \<open>nx_fixed\<close> formats with a number of decimals.
\<close>

record nmea_env =
  nx_parse :: "string \<Rightarrow> sentence option"
  nx_iso :: "int \<Rightarrow> naive_time \<Rightarrow> string"
  nx_from_ymd :: "int \<Rightarrow> nat \<Rightarrow> nat \<Rightarrow> int option"
  nx_fixed :: "nat \<Rightarrow> f64 \<Rightarrow> string"

fun sentence_values :: "nmea_env \<Rightarrow> sentence \<Rightarrow> path_value list" where
  "sentence_values env (RMC x) = from_rmc (nx_iso env) x"
| "sentence_values env (GGA x) = from_gga x"
| "sentence_values env (VTG x) = from_vtg x"
| "sentence_values env (HDT x) = from_hdt x"
| "sentence_values env (MWV x) = from_mwv x"
| "sentence_values env (DPT x) = from_dpt x"
| "sentence_values env (HDG x) = from_hdg x"
| "sentence_values env (HDM x) = from_hdm x"
| "sentence_values env (VHW x) = from_vhw x"
| "sentence_values env (MTW x) = from_mtw x"
| "sentence_values env (ROT x) = from_rot x"
| "sentence_values env (MDA x) = from_mda x"
| "sentence_values env (MWD x) = from_mwd x"
| "sentence_values env (RSA x) = from_rsa x"
| "sentence_values env (RPM x) = from_rpm x"
| "sentence_values env (GLL x) = from_gll x"
| "sentence_values env (DBT x) = from_dbt x"
| "sentence_values env (DBS x) = from_dbs x"
| "sentence_values env (DBK x) = from_dbk x"
| "sentence_values env (VDR x) = from_vdr x"
| "sentence_values env (VLW x) = from_vlw x"
| "sentence_values env (VWR x) = from_vwr x"
| "sentence_values env (VWT x) = from_vwt x"
| "sentence_values env (RMB x) = from_rmb x"
| "sentence_values env (BWC x) = from_bwc x"
| "sentence_values env (BOD x) = from_bod x"
| "sentence_values env (XTE x) = from_xte x"
| "sentence_values env (GSA x) = from_gsa x"
| "sentence_values env (GNS x) = from_gns x"
| "sentence_values env (ZDA x) = from_zda (nx_from_ymd env) x"
| "sentence_values env (XDR x) = from_xdr x"
| "sentence_values env _ = []"

definition talker_of :: "string \<Rightarrow> string" where
  "talker_of raw =
     (case strip_prefix ''$'' raw of
        Some s \<Rightarrow> if 2 \<le> length s \<and> (length s = 2 \<or> \<not> (of_char (s ! 2) :: nat) \<in> {128..<192}) then take 2 s else ''UN''
      | None \<Rightarrow> ''UN'')"

definition sentence_to_delta :: "nmea_env \<Rightarrow> datetime \<Rightarrow> string \<Rightarrow> string \<Rightarrow> delta option" where
  "sentence_to_delta env now raw label =
     Option.bind (nx_parse env raw) (\<lambda>p.
       if sentence_values env p = [] then None
       else Some (self_vessel [update_new now (source_nmea0183 label (talker_of raw)) (sentence_values env p)]))"

section \<open>Distress calls\<close>

definition distress_paths :: "(nat \<times> string) list" where
  "distress_paths =
     [(0, ''notifications.fire''), (1, ''notifications.flooding''), (2, ''notifications.collision''),
      (3, ''notifications.grounding''), (4, ''notifications.listing''), (5, ''notifications.sinking''),
      (6, ''notifications.adrift''), (8, ''notifications.abandon''), (9, ''notifications.piracy''),
      (10, ''notifications.mob'')]"

definition distress_labels :: "(nat \<times> string) list" where
  "distress_labels =
     [(0, ''Fire/Explosion''), (1, ''Flooding''), (2, ''Collision''), (3, ''Grounding''), (4, ''Listing/Capsizing''),
      (5, ''Sinking''), (6, ''Adrift''), (8, ''Abandon ship''), (9, ''Piracy''), (10, ''Man overboard''),
      (12, ''EPIRB emission'')]"

definition distress_notification_path :: "u8 option \<Rightarrow> string" where
  "distress_notification_path nature =
     unwrap_or (Option.bind nature (\<lambda>n. map_of distress_paths (unat n))) ''notifications.distress''"

definition distress_nature_label :: "u8 option \<Rightarrow> string" where
  "distress_nature_label nature =
     unwrap_or (Option.bind nature (\<lambda>n. map_of distress_labels (unat n))) ''Undesignated distress''"

definition distress_message :: "nmea_env \<Rightarrow> dsc_data \<Rightarrow> nat \<Rightarrow> string" where
  "distress_message env x mmsi =
     ''DSC Distress: '' @ distress_nature_label (dsc_first_telecommand x) @ '' from MMSI '' @ dec9 mmsi
     @ (case dsc_position x of Some (lat, lon) \<Rightarrow> '' at '' @ nx_fixed env 4 lat @ '','' @ nx_fixed env 4 lon | None \<Rightarrow> [])"

definition distress_notification :: "nmea_env \<Rightarrow> dsc_data \<Rightarrow> nat \<Rightarrow> notification" where
  "distress_notification env x mmsi =
     \<lparr>nt_id = None, nt_state = Emergency, nt_method = [Visual, Sound], nt_message = distress_message env x mmsi, nt_status = None\<rparr>"

definition dsc_values :: "nmea_env \<Rightarrow> dsc_data \<Rightarrow> nat \<Rightarrow> path_value list" where
  "dsc_values env x mmsi =
     opt_pv ''navigation.position'' (position_json None) (dsc_position x)
     @ (if dsc_category x = Some 12
        then [path_value_new (distress_notification_path (dsc_first_telecommand x))
                (notification_to_json (distress_notification env x mmsi))]
        else [])"

definition try_decode_dsc :: "nmea_env \<Rightarrow> datetime \<Rightarrow> string \<Rightarrow> string \<Rightarrow> delta list option" where
  "try_decode_dsc env now raw label =
     (if \<not> contains_str raw ''DSC'' then None
      else (case nx_parse env raw of
          Some (DSC x) \<Rightarrow>
            Option.bind (dsc_sender_mmsi x) (\<lambda>mmsi.
              if dsc_values env x mmsi = [] then None
              else Some [with_context (mmsi_prefix @ dec9 mmsi)
                           [update_new now (source_nmea0183 label ''DS'') (dsc_values env x mmsi)]])
        | _ \<Rightarrow> None))"

section \<open>AIS\<close>

datatype ais_nav_status =
    Under_way_using_engine | At_anchor | Not_under_command | Restricted_manouverability | Constrained_by_draught
  | Moored | Aground | Engaged_in_fishing | Under_way_sailing | Reserved_for_hsc | Reserved_for_wig
  | Reserved01 | Reserved02 | Reserved03 | Ais_sart_is_active | Unknown_status u8

fun nav_status_to_code :: "ais_nav_status \<Rightarrow> u8" where
  "nav_status_to_code Under_way_using_engine = 0"
| "nav_status_to_code At_anchor = 1"
| "nav_status_to_code Not_under_command = 2"
| "nav_status_to_code Restricted_manouverability = 3"
| "nav_status_to_code Constrained_by_draught = 4"
| "nav_status_to_code Moored = 5"
| "nav_status_to_code Aground = 6"
| "nav_status_to_code Engaged_in_fishing = 7"
| "nav_status_to_code Under_way_sailing = 8"
| "nav_status_to_code Reserved_for_hsc = 9"
| "nav_status_to_code Reserved_for_wig = 10"
| "nav_status_to_code Reserved01 = 11"
| "nav_status_to_code Reserved02 = 12"
| "nav_status_to_code Reserved03 = 13"
| "nav_status_to_code Ais_sart_is_active = 14"
| "nav_status_to_code (Unknown_status x) = x"

text \<open>The rate of turn: its magnitude in degrees per minute, and whether it is to port.\<close>

record position_report =
  pr_mmsi :: u32
  pr_lat :: "f64 option"
  pr_lon :: "f64 option"
  pr_sog :: "f64 option"
  pr_cog :: "f64 option"
  pr_heading :: "16 word option"
  pr_nav_status :: "ais_nav_status option"
  pr_rate_of_turn :: "(f64 option \<times> bool) option"

record ship_size =
  sz_bow :: "16 word"
  sz_stern :: "16 word"
  sz_port :: "16 word"
  sz_starboard :: "16 word"

record static_voyage =
  sv_mmsi :: u32
  sv_vessel_name :: string
  sv_callsign :: string
  sv_imo :: u32
  sv_ship_type :: "u8 option"
  sv_destination :: string
  sv_draught :: f64
  sv_size :: ship_size

record class_b_extended =
  cb_report :: position_report
  cb_name :: string
  cb_ship_type :: "u8 option"
  cb_size :: ship_size

record aton_report =
  an_mmsi :: u32
  an_lat :: "f64 option"
  an_lon :: "f64 option"
  an_name :: string

datatype message_part = PartA string | PartB "u8 option" string ship_size | Part_other

datatype ais_message =
    Position_report position_report | Static_voyage static_voyage | Class_b position_report
  | Class_b_extended class_b_extended | Aton_report aton_report | Static_data u32 message_part | Other_message

definition contact_default :: ais_contact where
  "contact_default =
     \<lparr>ac_mmsi = 0, ac_position = None, ac_sog_ms = None, ac_cog_rad = None, ac_heading_rad = None, ac_rot_rads = None,
      ac_nav_status = None, ac_name = None, ac_callsign = None, ac_imo = None, ac_ship_type = None,
      ac_destination = None, ac_draught = None, ac_length = None, ac_beam = None\<rparr>"

definition positive_sum :: "16 word \<Rightarrow> 16 word \<Rightarrow> f64 option" where
  "positive_sum a b = (let l = round_f64 (of_nat (unat (a + b))) in if f_lt (Fin 0) l then Some l else None)"

definition size_length :: "ship_size \<Rightarrow> f64 option" where
  "size_length s = positive_sum (sz_bow s) (sz_stern s)"

definition size_beam :: "ship_size \<Rightarrow> f64 option" where
  "size_beam s = positive_sum (sz_port s) (sz_starboard s)"

definition from_class_b :: "position_report \<Rightarrow> ais_contact" where
  "from_class_b p = contact_default
     \<lparr>ac_mmsi := pr_mmsi p, ac_position := both (pr_lat p) (pr_lon p),
      ac_sog_ms := map_option (\<lambda>s. f_mul s KNOTS_TO_MS) (pr_sog p),
      ac_cog_rad := map_option (\<lambda>c. f_mul c DEG_TO_RAD) (pr_cog p),
      ac_heading_rad := map_option (\<lambda>h. f_mul (round_f64 (of_nat (unat h))) DEG_TO_RAD) (pr_heading p)\<rparr>"

definition from_position_report :: "position_report \<Rightarrow> ais_contact" where
  "from_position_report p = (from_class_b p)
     \<lparr>ac_nav_status := map_option nav_status_to_code (pr_nav_status p),
      ac_rot_rads := Option.bind (pr_rate_of_turn p) (\<lambda>(rate, to_port).
        map_option (\<lambda>r. f_div (f_mul (f_mul (if to_port then Fin (- 1) else Fin 1) r) DEG_TO_RAD) (Fin 60)) rate)\<rparr>"

definition from_static_voyage :: "static_voyage \<Rightarrow> ais_contact" where
  "from_static_voyage x = contact_default
     \<lparr>ac_mmsi := sv_mmsi x, ac_name := Some (sv_vessel_name x), ac_callsign := Some (sv_callsign x),
      ac_imo := Some (sv_imo x), ac_ship_type := sv_ship_type x, ac_destination := Some (sv_destination x),
      ac_draught := Some (sv_draught x), ac_length := size_length (sv_size x), ac_beam := size_beam (sv_size x)\<rparr>"

definition from_class_b_extended :: "class_b_extended \<Rightarrow> ais_contact" where
  "from_class_b_extended x = (from_class_b (cb_report x))
     \<lparr>ac_name := Some (cb_name x), ac_ship_type := cb_ship_type x, ac_length := size_length (cb_size x),
      ac_beam := size_beam (cb_size x)\<rparr>"

definition from_aton :: "aton_report \<Rightarrow> ais_contact" where
  "from_aton x = contact_default
     \<lparr>ac_mmsi := an_mmsi x, ac_position := both (an_lat x) (an_lon x), ac_name := Some (an_name x)\<rparr>"

fun from_static_data_report :: "u32 \<Rightarrow> message_part \<Rightarrow> ais_contact" where
  "from_static_data_report mmsi (PartA name) = contact_default\<lparr>ac_mmsi := mmsi, ac_name := Some name\<rparr>"
| "from_static_data_report mmsi (PartB ty callsign sz) = contact_default
     \<lparr>ac_mmsi := mmsi, ac_callsign := Some callsign, ac_ship_type := ty, ac_length := size_length sz, ac_beam := size_beam sz\<rparr>"
| "from_static_data_report mmsi Part_other = contact_default\<lparr>ac_mmsi := mmsi\<rparr>"

fun message_to_contact :: "ais_message \<Rightarrow> ais_contact option" where
  "message_to_contact (Position_report p) = Some (from_position_report p)"
| "message_to_contact (Static_voyage x) = Some (from_static_voyage x)"
| "message_to_contact (Class_b p) = Some (from_class_b p)"
| "message_to_contact (Class_b_extended x) = Some (from_class_b_extended x)"
| "message_to_contact (Aton_report x) = Some (from_aton x)"
| "message_to_contact (Static_data mmsi p) = Some (from_static_data_report mmsi p)"
| "message_to_contact Other_message = None"

text \<open>The parser of the \<^verbatim>\<open>ais\<close> crate keeps the fragments of the messages under way; a parsed line
  is a complete message, which may have no decoded content, or a fragment.\<close>

datatype ais_fragments = Complete "ais_message option" | Incomplete

type_synonym 'p ais_parser = "string \<Rightarrow> 'p \<Rightarrow> ais_fragments option \<times> 'p"

definition try_decode :: "'p ais_parser \<Rightarrow> datetime \<Rightarrow> string \<Rightarrow> string \<Rightarrow> 'p \<Rightarrow> delta option \<times> 'p" where
  "try_decode ais now label sentence p =
     (if \<not> contains_str sentence ''VDM'' \<and> \<not> contains_str sentence ''VDO'' then (None, p)
      else (let (f, p') = ais sentence p in
        (case f of
           Some (Complete m) \<Rightarrow>
             map_option (contact_delta now (source_nmea0183 label ''AI'')) (Option.bind m message_to_contact)
         | _ \<Rightarrow> None, p')))"

section \<open>Connections\<close>

text \<open>One line of a connection: the deltas that are handed to the server.\<close>

definition handle_line :: "nmea_env \<Rightarrow> 'p ais_parser \<Rightarrow> datetime \<Rightarrow> string \<Rightarrow> string \<Rightarrow> 'p \<Rightarrow> delta list \<times> 'p" where
  "handle_line env ais now label line p =
     (let s = trim line in
      if s = [] then ([], p)
      else (let (d, p') = try_decode ais now label s p in
        (case d of
           Some x \<Rightarrow> [x]
         | None \<Rightarrow>
             (case try_decode_dsc env now s label of
                Some ds \<Rightarrow> ds
              | None \<Rightarrow> (case sentence_to_delta env now s label of Some x \<Rightarrow> [x] | None \<Rightarrow> [])), p')))"

datatype input_line = Line string | Not_utf8

text \<open>A connection is read up to its end or to the first line that is not UTF-8. The result says
  whether it ended with an error.\<close>

fun read_lines :: "nmea_env \<Rightarrow> 'p ais_parser \<Rightarrow> datetime \<Rightarrow> string \<Rightarrow> input_line list \<Rightarrow> 'p \<Rightarrow> delta list \<times> bool" where
  "read_lines env ais now label [] p = ([], False)"
| "read_lines env ais now label (Not_utf8 # ls) p = ([], True)"
| "read_lines env ais now label (Line l # ls) p =
     (let (ds, p') = handle_line env ais now label l p; (ds', e) = read_lines env ais now label ls p' in (ds @ ds', e))"

text \<open>The serial port is opened again, with a new decoder, after an error: each time it is opened it
  gives some lines. When they end without an error the reader ends.\<close>

fun run_serial_reader :: "nmea_env \<Rightarrow> 'p ais_parser \<Rightarrow> datetime \<Rightarrow> string \<Rightarrow> 'p \<Rightarrow> input_line list list \<Rightarrow> delta list" where
  "run_serial_reader env ais now label p0 [] = []"
| "run_serial_reader env ais now label p0 (ls # opens) =
     (let (ds, e) = read_lines env ais now label ls p0 in ds @ (if e then run_serial_reader env ais now label p0 opens else []))"

end
