(* ===== verification/Nmea2000.thy ===== *)
theory Nmea2000
  imports Nmea0183 Geo
begin

text \<open>
  The input of NMEA 2000 (\<^verbatim>\<open>plugins/nmea2000-receive/src\<close>): the conversion of decoded
  messages to deltas. The crate \<^verbatim>\<open>nmea2000\<close> decodes: a message is a record with the values
  the sources read, \<open>None\<close> where its accessor gives none. The bus is read until an error says that
  the device is gone, and then opened again.
\<close>

record n2k_source =
  n2_label :: string
  n2_src :: u8
  n2_pgn :: u32

definition make_n2k_source :: "n2k_source \<Rightarrow> source" where
  "make_n2k_source s = source_nmea2000 (n2_label s) (n2_src s) (n2_pgn s)"

definition self_delta :: "datetime \<Rightarrow> n2k_source \<Rightarrow> path_value list \<Rightarrow> delta option" where
  "self_delta now s vs = (if vs = [] then None else Some (self_vessel [update_new now (make_n2k_source s) vs]))"

section \<open>Navigation\<close>

datatype direction_reference = True_north | Magnetic_north | Other_direction

record n2k_heading =
  vh_heading :: "f64 option"
  vh_reference :: "direction_reference option"
  vh_variation :: "f64 option"

definition from_vessel_heading :: "n2k_heading \<Rightarrow> path_value list" where
  "from_vessel_heading m =
     plain_value (if vh_reference m = Some Magnetic_north then ''navigation.headingMagnetic'' else ''navigation.headingTrue'')
       (vh_heading m)
     @ plain_value ''navigation.magneticVariation'' (vh_variation m)"

definition from_speed :: "f64 option \<Rightarrow> f64 option \<Rightarrow> path_value list" where
  "from_speed water ground =
     plain_value ''navigation.speedThroughWater'' water @ plain_value ''navigation.speedOverGround'' ground"

definition from_distance_log :: "u64 option \<Rightarrow> u64 option \<Rightarrow> path_value list" where
  "from_distance_log all_log trip =
     plain_value ''navigation.log'' (map_option (\<lambda>n. round_f64 (of_nat (unat n))) all_log)
     @ plain_value ''navigation.trip.log'' (map_option (\<lambda>n. round_f64 (of_nat (unat n))) trip)"

definition from_position :: "f64 option \<Rightarrow> f64 option \<Rightarrow> f64 option \<Rightarrow> path_value list" where
  "from_position lat lon alt = position_value ''navigation.position'' lat lon alt"

record n2k_cog_sog =
  cs_cog :: "f64 option"
  cs_reference :: "direction_reference option"
  cs_sog :: "f64 option"

definition from_cog_sog_rapid :: "n2k_cog_sog \<Rightarrow> path_value list" where
  "from_cog_sog_rapid m =
     plain_value (if cs_reference m = Some Magnetic_north then ''navigation.courseOverGroundMagnetic''
                  else ''navigation.courseOverGroundTrue'') (cs_cog m)
     @ plain_value ''navigation.speedOverGround'' (cs_sog m)"

text \<open>\<open>stamp\<close> is \<^verbatim>\<open>DateTime::from_timestamp\<close> followed by the formatting.\<close>

definition from_time_date :: "(int \<Rightarrow> string option) \<Rightarrow> 16 word option \<Rightarrow> f64 option \<Rightarrow> path_value list" where
  "from_time_date stamp date secs =
     (case both date secs of
        None \<Rightarrow> []
      | Some (d, s) \<Rightarrow>
          (let total_secs = uint d * 86400 + f64_as_int (- (2 ^ 63)) (2 ^ 63 - 1) s in
           case stamp total_secs of
             None \<Rightarrow> []
           | Some t \<Rightarrow>
               [path_value_new ''navigation.datetime'' (JStr t),
                path_value_new ''environment.time.millis'' (json_int (total_secs * 1000)),
                path_value_new ''environment.time.timezoneOffset'' (json_int 0),
                path_value_new ''environment.time.timezoneRegion'' (JStr ''UTC'')]))"

definition from_cross_track_error :: "f64 option \<Rightarrow> path_value list" where
  "from_cross_track_error x = plain_value ''navigation.courseGreatCircle.crossTrackError'' x"

definition from_rate_of_turn :: "f64 option \<Rightarrow> path_value list" where
  "from_rate_of_turn x = plain_value ''navigation.rateOfTurn'' x"

definition from_attitude :: "f64 option \<Rightarrow> f64 option \<Rightarrow> f64 option \<Rightarrow> path_value list" where
  "from_attitude yaw pitch roll =
     plain_value ''navigation.attitude.yaw'' yaw @ plain_value ''navigation.attitude.pitch'' pitch
     @ plain_value ''navigation.attitude.roll'' roll"

section \<open>Environment\<close>

datatype wind_reference = Apparent | True_boat | True_water | True_ground_north | Other_wind

record n2k_wind =
  nw_speed :: "f64 option"
  nw_angle :: "f64 option"
  nw_reference :: "wind_reference option"

fun wind_paths :: "wind_reference \<Rightarrow> (string \<times> string) option" where
  "wind_paths Apparent = Some (''environment.wind.speedApparent'', ''environment.wind.angleApparent'')"
| "wind_paths True_boat = Some (''environment.wind.speedTrue'', ''environment.wind.angleTrueWater'')"
| "wind_paths True_water = Some (''environment.wind.speedTrue'', ''environment.wind.angleTrueWater'')"
| "wind_paths True_ground_north = Some (''environment.wind.speedTrue'', ''environment.wind.angleTrueGround'')"
| "wind_paths Other_wind = None"

definition from_wind_data :: "n2k_wind \<Rightarrow> path_value list" where
  "from_wind_data m =
     (case Option.bind (nw_reference m) wind_paths of
        None \<Rightarrow> []
      | Some (speed, angle) \<Rightarrow> plain_value speed (nw_speed m) @ plain_value angle (nw_angle m))"

datatype temperature_source = Sea | Outside | Inside | Main_cabin | Other_temperature

fun temperature_path :: "temperature_source \<Rightarrow> string option" where
  "temperature_path Sea = Some ''environment.water.temperature''"
| "temperature_path Outside = Some ''environment.outside.temperature''"
| "temperature_path Inside = Some ''environment.inside.temperature''"
| "temperature_path Main_cabin = Some ''environment.inside.mainCabinTemperature''"
| "temperature_path Other_temperature = None"

definition from_temperature :: "temperature_source option \<Rightarrow> f64 option \<Rightarrow> path_value list" where
  "from_temperature src t =
     (case both (Option.bind src temperature_path) t of Some (path, v) \<Rightarrow> [path_value_new path (json_f64 v)] | None \<Rightarrow> [])"

section \<open>Propulsion\<close>

definition engine_prefix :: "u64 option \<Rightarrow> string" where
  "engine_prefix inst = ''propulsion.'' @ dec_digits (unat (unwrap_or inst 0))"

definition from_rudder :: "f64 option \<Rightarrow> path_value list" where
  "from_rudder x = plain_value ''steering.rudderAngle'' x"

definition TAU :: f64 where
  "TAU = f_mul (Fin 2) PI"

definition from_engine_rapid :: "u64 option \<Rightarrow> f64 option \<Rightarrow> path_value list" where
  "from_engine_rapid inst rpm =
     opt_pv (engine_prefix inst @ ''.revolutions'') (\<lambda>r. json_f64 (f_div (f_mul r TAU) (Fin 60))) rpm"

record n2k_engine =
  ne_instance :: "u64 option"
  ne_oil_pressure :: "f64 option"
  ne_temperature :: "f64 option"
  ne_oil_temperature :: "f64 option"
  ne_alternator :: "f64 option"

definition from_engine_dynamic :: "n2k_engine \<Rightarrow> path_value list" where
  "from_engine_dynamic m =
     plain_value (engine_prefix (ne_instance m) @ ''.oilPressure'') (ne_oil_pressure m)
     @ plain_value (engine_prefix (ne_instance m) @ ''.coolantTemperature'') (ne_temperature m)
     @ plain_value (engine_prefix (ne_instance m) @ ''.oilTemperature'') (ne_oil_temperature m)
     @ plain_value (engine_prefix (ne_instance m) @ ''.alternatorVoltage'') (ne_alternator m)"

record n2k_battery =
  nb_instance :: "u64 option"
  nb_voltage :: "f64 option"
  nb_current :: "f64 option"
  nb_temperature :: "f64 option"

definition battery_prefix :: "u64 option \<Rightarrow> string" where
  "battery_prefix inst = ''electrical.batteries.'' @ dec_digits (unat (unwrap_or inst 0))"

definition from_battery_status :: "n2k_battery \<Rightarrow> path_value list" where
  "from_battery_status m =
     plain_value (battery_prefix (nb_instance m) @ ''.voltage'') (nb_voltage m)
     @ plain_value (battery_prefix (nb_instance m) @ ''.current'') (nb_current m)
     @ plain_value (battery_prefix (nb_instance m) @ ''.temperature'') (nb_temperature m)"

section \<open>AIS\<close>

text \<open>The fields the AIS messages share; those that a message does not have are \<open>None\<close>.\<close>

record n2k_ais =
  na_user_id :: "u64 option"
  na_lat :: "f64 option"
  na_lon :: "f64 option"
  na_sog :: "f64 option"
  na_cog :: "f64 option"
  na_heading :: "f64 option"
  na_rate_of_turn :: "f64 option"
  na_nav_status :: "u64 option"
  na_name :: "string option"
  na_callsign :: "string option"
  na_imo :: "u64 option"
  na_type_of_ship :: "u64 option"
  na_destination :: "string option"
  na_draft :: "f64 option"
  na_length :: "f64 option"
  na_beam :: "f64 option"

definition with_contact :: "datetime \<Rightarrow> n2k_source \<Rightarrow> n2k_ais \<Rightarrow> (ais_contact \<Rightarrow> ais_contact) \<Rightarrow> delta option" where
  "with_contact now s m f =
     map_option (\<lambda>i. contact_delta now (make_n2k_source s) (f (contact_default\<lparr>ac_mmsi := ucast i\<rparr>))) (na_user_id m)"

definition set_motion :: "n2k_ais \<Rightarrow> ais_contact \<Rightarrow> ais_contact" where
  "set_motion m c = c\<lparr>ac_position := both (na_lat m) (na_lon m), ac_sog_ms := na_sog m, ac_cog_rad := na_cog m,
     ac_heading_rad := na_heading m\<rparr>"

definition set_size :: "n2k_ais \<Rightarrow> ais_contact \<Rightarrow> ais_contact" where
  "set_size m c = c\<lparr>ac_ship_type := map_option ucast (na_type_of_ship m),
     ac_length := filter_opt (f_lt (Fin 0)) (na_length m), ac_beam := filter_opt (f_lt (Fin 0)) (na_beam m)\<rparr>"

definition from_ais_class_a_position :: "datetime \<Rightarrow> n2k_source \<Rightarrow> n2k_ais \<Rightarrow> delta option" where
  "from_ais_class_a_position now s m = with_contact now s m (\<lambda>c.
     (set_motion m c)\<lparr>ac_rot_rads := na_rate_of_turn m, ac_nav_status := map_option ucast (na_nav_status m)\<rparr>)"

definition from_ais_class_b_position :: "datetime \<Rightarrow> n2k_source \<Rightarrow> n2k_ais \<Rightarrow> delta option" where
  "from_ais_class_b_position now s m = with_contact now s m (set_motion m)"

definition from_ais_class_b_extended :: "datetime \<Rightarrow> n2k_source \<Rightarrow> n2k_ais \<Rightarrow> delta option" where
  "from_ais_class_b_extended now s m = with_contact now s m (\<lambda>c. (set_size m (set_motion m c))\<lparr>ac_name := na_name m\<rparr>)"

definition from_ais_class_a_static :: "datetime \<Rightarrow> n2k_source \<Rightarrow> n2k_ais \<Rightarrow> delta option" where
  "from_ais_class_a_static now s m = with_contact now s m (\<lambda>c. (set_size m c)
     \<lparr>ac_name := na_name m, ac_callsign := na_callsign m, ac_imo := map_option ucast (na_imo m),
      ac_destination := na_destination m, ac_draught := na_draft m\<rparr>)"

definition from_ais_static_24a :: "datetime \<Rightarrow> n2k_source \<Rightarrow> n2k_ais \<Rightarrow> delta option" where
  "from_ais_static_24a now s m = with_contact now s m (\<lambda>c. c\<lparr>ac_name := na_name m\<rparr>)"

definition from_ais_static_24b :: "datetime \<Rightarrow> n2k_source \<Rightarrow> n2k_ais \<Rightarrow> delta option" where
  "from_ais_static_24b now s m = with_contact now s m (\<lambda>c. (set_size m c)\<lparr>ac_callsign := na_callsign m\<rparr>)"

section \<open>Messages\<close>

datatype decoded_message =
    Vessel_heading n2k_heading | Speed "f64 option" "f64 option" | Water_depth "f64 option" "f64 option"
  | Position_rapid "f64 option" "f64 option" | Cog_sog_rapid n2k_cog_sog
  | Gnss_position "f64 option" "f64 option" "f64 option" | Rate_of_turn "f64 option"
  | Attitude "f64 option" "f64 option" "f64 option" | Distance_log "u64 option" "u64 option"
  | Time_date "16 word option" "f64 option" | Cross_track_error "f64 option" | Wind_data n2k_wind
  | Temperature "temperature_source option" "f64 option" | Rudder "f64 option"
  | Engine_rapid "u64 option" "f64 option" | Engine_dynamic n2k_engine | Battery_status n2k_battery
  | Ais_class_a_position n2k_ais | Ais_class_b_position n2k_ais | Ais_class_b_extended n2k_ais
  | Ais_class_a_static n2k_ais | Ais_static_24a n2k_ais | Ais_static_24b n2k_ais | Other_pgn

fun message_values :: "(int \<Rightarrow> string option) \<Rightarrow> decoded_message \<Rightarrow> path_value list" where
  "message_values st (Vessel_heading m) = from_vessel_heading m"
| "message_values st (Speed w g) = from_speed w g"
| "message_values st (Water_depth d off) = depth_values d off"
| "message_values st (Position_rapid lat lon) = from_position lat lon None"
| "message_values st (Cog_sog_rapid m) = from_cog_sog_rapid m"
| "message_values st (Gnss_position lat lon alt) = from_position lat lon alt"
| "message_values st (Rate_of_turn r) = from_rate_of_turn r"
| "message_values st (Attitude y p r) = from_attitude y p r"
| "message_values st (Distance_log l t) = from_distance_log l t"
| "message_values st (Time_date d s) = from_time_date st d s"
| "message_values st (Cross_track_error x) = from_cross_track_error x"
| "message_values st (Wind_data m) = from_wind_data m"
| "message_values st (Temperature s t) = from_temperature s t"
| "message_values st (Rudder x) = from_rudder x"
| "message_values st (Engine_rapid i r) = from_engine_rapid i r"
| "message_values st (Engine_dynamic m) = from_engine_dynamic m"
| "message_values st (Battery_status m) = from_battery_status m"
| "message_values st _ = []"

fun decoded_to_delta :: "(int \<Rightarrow> string option) \<Rightarrow> datetime \<Rightarrow> n2k_source \<Rightarrow> decoded_message \<Rightarrow> delta option" where
  "decoded_to_delta st now s (Ais_class_a_position m) = from_ais_class_a_position now s m"
| "decoded_to_delta st now s (Ais_class_b_position m) = from_ais_class_b_position now s m"
| "decoded_to_delta st now s (Ais_class_b_extended m) = from_ais_class_b_extended now s m"
| "decoded_to_delta st now s (Ais_class_a_static m) = from_ais_class_a_static now s m"
| "decoded_to_delta st now s (Ais_static_24a m) = from_ais_static_24a now s m"
| "decoded_to_delta st now s (Ais_static_24b m) = from_ais_static_24b now s m"
| "decoded_to_delta st now s m = self_delta now s (message_values st m)"

section \<open>The bus\<close>

text \<open>What the transport gives: a message, which may not decode, or an error, which is fatal when
  the device is gone. After a fatal error the transport is opened again, without an end.\<close>

datatype bus_event = Received "u8 \<times> u32" "decoded_message option" | Read_error bool

definition message_delta :: "(int \<Rightarrow> string option) \<Rightarrow> datetime \<Rightarrow> string \<Rightarrow> u8 \<times> u32 \<Rightarrow> decoded_message option \<Rightarrow> delta list" where
  "message_delta st now label = (\<lambda>(src, pgn) m.
     (case Option.bind m (decoded_to_delta st now \<lparr>n2_label = label, n2_src = src, n2_pgn = pgn\<rparr>) of
        Some d \<Rightarrow> [d] | None \<Rightarrow> []))"

fun read_bus :: "(int \<Rightarrow> string option) \<Rightarrow> datetime \<Rightarrow> string \<Rightarrow> bus_event list \<Rightarrow> delta list" where
  "read_bus st now label [] = []"
| "read_bus st now label (Received h m # es) = message_delta st now label h m @ read_bus st now label es"
| "read_bus st now label (Read_error fatal # es) = (if fatal then [] else read_bus st now label es)"

definition run_n2k_reader :: "(int \<Rightarrow> string option) \<Rightarrow> datetime \<Rightarrow> string \<Rightarrow> bus_event list list \<Rightarrow> delta list" where
  "run_n2k_reader st now label opens = concat (map (read_bus st now label) opens)"

end
