(* ===== verification/NmeaOutput.thy ===== *)
theory NmeaOutput
  imports Ais
begin

text \<open>
  The output plugins (\<^verbatim>\<open>plugins/nmea0183-send\<close> and \<^verbatim>\<open>plugins/nmea2000-send\<close>):
  a snapshot of the last values of the own vessel, the sentences and messages made from it, and,
  for NMEA 2000, the thread of the bus with its claimed address. The text of a sentence and the
  bytes of a message come from other crates, as functions that may fail.
\<close>

section \<open>Sentences\<close>

text \<open>\<^verbatim>\<open>as f32\<close>: rounding to 24 bits.\<close>

definition ulp_exp32 :: "rat \<Rightarrow> int" where
  "ulp_exp32 q = max (ilog2 q - 23) (- 149)"

definition mag32 :: "rat \<Rightarrow> rat" where
  "mag32 q = of_int (rne (q / 2 powi ulp_exp32 q)) * 2 powi ulp_exp32 q"

fun to_f32 :: "f64 \<Rightarrow> f64" where
  "to_f32 (Fin q) =
     (if q = 0 then Fin 0
      else if 0 < q then (if 2 ^ 128 \<le> mag32 q then PInf else Fin (mag32 q))
      else if 2 ^ 128 \<le> mag32 (- q) then NInf
      else if mag32 (- q) = 0 then NZero else Fin (- mag32 (- q)))"
| "to_f32 x = x"

definition to_degrees :: "f64 \<Rightarrow> f64" where
  "to_degrees x = f_mul x (f_div (Fin 180) PI)"

definition MPS_TO_KNOTS :: f64 where
  "MPS_TO_KNOTS = lit (1943844 / 1000000)"

definition FEET_PER_METER :: f64 where
  "FEET_PER_METER = lit (328084 / 100000)"

definition FATHOMS_PER_METER :: f64 where
  "FATHOMS_PER_METER = lit (546807 / 1000000)"

record nav_snapshot =
  ns_latitude :: "f64 option"
  ns_longitude :: "f64 option"
  ns_sog :: "f64 option"
  ns_cog :: "f64 option"
  ns_heading :: "f64 option"
  ns_variation :: "f64 option"
  ns_wind_angle :: "f64 option"
  ns_wind_speed :: "f64 option"
  ns_depth :: "f64 option"

definition nav_snapshot_default :: nav_snapshot where
  "nav_snapshot_default =
     \<lparr>ns_latitude = None, ns_longitude = None, ns_sog = None, ns_cog = None, ns_heading = None, ns_variation = None,
      ns_wind_angle = None, ns_wind_speed = None, ns_depth = None\<rparr>"

definition snapshot_value :: "path_value \<Rightarrow> nav_snapshot \<Rightarrow> nav_snapshot" where
  "snapshot_value pv s =
     (let p = pv_path pv; v = pv_value pv in
      if p = ''navigation.position''
      then s\<lparr>ns_latitude := Option.bind (jget ''latitude'' v) as_f64, ns_longitude := Option.bind (jget ''longitude'' v) as_f64\<rparr>
      else if p = ''navigation.speedOverGround'' then s\<lparr>ns_sog := as_f64 v\<rparr>
      else if p = ''navigation.courseOverGroundTrue'' then s\<lparr>ns_cog := as_f64 v\<rparr>
      else if p = ''navigation.headingTrue'' then s\<lparr>ns_heading := as_f64 v\<rparr>
      else if p = ''navigation.magneticVariation'' then s\<lparr>ns_variation := as_f64 v\<rparr>
      else if p = ''environment.wind.angleApparent'' then s\<lparr>ns_wind_angle := as_f64 v\<rparr>
      else if p = ''environment.wind.speedApparent'' then s\<lparr>ns_wind_speed := as_f64 v\<rparr>
      else if p = ''environment.depth.belowTransducer'' then s\<lparr>ns_depth := as_f64 v\<rparr>
      else s)"

definition snapshot_delta :: "delta \<Rightarrow> nav_snapshot \<Rightarrow> nav_snapshot" where
  "snapshot_delta d s = fold (\<lambda>u. fold snapshot_value (u_values u)) (d_updates d) s"

text \<open>What is given to the generator of a sentence.\<close>

record rmc_out =
  ro_valid :: bool
  ro_lat :: "f64 option"
  ro_lon :: "f64 option"
  ro_speed :: "f64 option"
  ro_course :: "f64 option"
  ro_variation :: "f64 option"

record mwv_out =
  wo_direction :: "f64 option"
  wo_speed_knots :: "f64 option"
  wo_valid :: bool

record dbt_out =
  bo_feet :: "f64 option"
  bo_meters :: "f64 option"
  bo_fathoms :: "f64 option"

datatype out_sentence =
    Rmc_out rmc_out | Hdt_out "f64 option" | Mwv_out mwv_out | Dbt_out dbt_out | Vtg_out "f64 option" "f64 option"

definition in_knots :: "f64 option \<Rightarrow> f64 option" where
  "in_knots v = map_option (\<lambda>x. to_f32 (f_mul x MPS_TO_KNOTS)) v"

definition in_degrees :: "f64 option \<Rightarrow> f64 option" where
  "in_degrees v = map_option (\<lambda>x. to_f32 (to_degrees x)) v"

definition snapshot_to_rmc :: "nav_snapshot \<Rightarrow> rmc_out" where
  "snapshot_to_rmc s = \<lparr>ro_valid = (ns_latitude s \<noteq> None), ro_lat = ns_latitude s, ro_lon = ns_longitude s,
     ro_speed = in_knots (ns_sog s), ro_course = in_degrees (ns_cog s), ro_variation = in_degrees (ns_variation s)\<rparr>"

definition snapshot_to_mwv :: "nav_snapshot \<Rightarrow> mwv_out" where
  "snapshot_to_mwv s = \<lparr>wo_direction = in_degrees (ns_wind_angle s), wo_speed_knots = in_knots (ns_wind_speed s),
     wo_valid = (ns_wind_angle s \<noteq> None)\<rparr>"

definition snapshot_to_dbt :: "nav_snapshot \<Rightarrow> dbt_out" where
  "snapshot_to_dbt s = \<lparr>bo_feet = map_option (\<lambda>v. f_mul v FEET_PER_METER) (ns_depth s), bo_meters = ns_depth s,
     bo_fathoms = map_option (\<lambda>v. f_mul v FATHOMS_PER_METER) (ns_depth s)\<rparr>"

definition sentences_of :: "nav_snapshot \<Rightarrow> out_sentence list" where
  "sentences_of s =
     Rmc_out (snapshot_to_rmc s)
     # (if ns_heading s \<noteq> None then [Hdt_out (in_degrees (ns_heading s))] else [])
     @ (if ns_wind_angle s \<noteq> None \<or> ns_wind_speed s \<noteq> None then [Mwv_out (snapshot_to_mwv s)] else [])
     @ (if ns_depth s \<noteq> None then [Dbt_out (snapshot_to_dbt s)] else [])
     @ (if ns_cog s \<noteq> None \<or> ns_sog s \<noteq> None then [Vtg_out (in_degrees (ns_cog s)) (in_knots (ns_sog s))] else [])"

definition generate_all_sentences :: "(string \<Rightarrow> out_sentence \<Rightarrow> string option) \<Rightarrow> nav_snapshot \<Rightarrow> string \<Rightarrow> string list" where
  "generate_all_sentences gen s talker =
     List.map_filter (\<lambda>x. map_option (\<lambda>t. t @ [CHR 0x0D, CHR 0x0A]) (gen talker x)) (sentences_of s)"

section \<open>NMEA 2000\<close>

record bus_snapshot =
  bs_heading :: "f64 option"
  bs_variation :: "f64 option"
  bs_cog :: "f64 option"
  bs_sog :: "f64 option"
  bs_wind_speed :: "f64 option"
  bs_wind_angle :: "f64 option"

definition bus_snapshot_value :: "path_value \<Rightarrow> bus_snapshot \<Rightarrow> bus_snapshot" where
  "bus_snapshot_value pv s =
     (let p = pv_path pv; v = pv_value pv in
      if p = ''navigation.headingTrue'' then s\<lparr>bs_heading := as_f64 v\<rparr>
      else if p = ''navigation.magneticVariation'' then s\<lparr>bs_variation := as_f64 v\<rparr>
      else if p = ''navigation.courseOverGroundTrue'' then s\<lparr>bs_cog := as_f64 v\<rparr>
      else if p = ''navigation.speedOverGround'' then s\<lparr>bs_sog := as_f64 v\<rparr>
      else if p = ''environment.wind.speedApparent'' then s\<lparr>bs_wind_speed := as_f64 v\<rparr>
      else if p = ''environment.wind.angleApparent'' then s\<lparr>bs_wind_angle := as_f64 v\<rparr>
      else s)"

definition bus_snapshot_delta :: "delta \<Rightarrow> bus_snapshot \<Rightarrow> bus_snapshot" where
  "bus_snapshot_delta d s = fold (\<lambda>u. fold bus_snapshot_value (u_values u)) (d_updates d) s"

text \<open>The messages before their encoding, with the sequence id that the first field holds.\<close>

datatype out_pgn =
    Heading_out u8 f64 "f64 option" | Cog_sog_out u8 "f64 option" "f64 option" | Wind_out u8 "f64 option" "f64 option"

record encoded_pgn =
  ep_pgn :: u32
  ep_priority :: u8
  ep_data :: "u8 list"

fun pgn_number :: "out_pgn \<Rightarrow> u32" where
  "pgn_number (Heading_out _ _ _) = 127250"
| "pgn_number (Cog_sog_out _ _ _) = 129026"
| "pgn_number (Wind_out _ _ _) = 130306"

definition encode_pgn :: "(out_pgn \<Rightarrow> u8 list option) \<Rightarrow> out_pgn \<Rightarrow> encoded_pgn list" where
  "encode_pgn enc p = (case enc p of Some bs \<Rightarrow> [\<lparr>ep_pgn = pgn_number p, ep_priority = 2, ep_data = bs\<rparr>] | None \<Rightarrow> [])"

text \<open>Each of the three messages takes the next sequence id when it is built, encoded or not.\<close>

definition pgn_makers :: "bus_snapshot \<Rightarrow> (u8 \<Rightarrow> out_pgn) list" where
  "pgn_makers s =
     (case bs_heading s of Some h \<Rightarrow> [\<lambda>sid. Heading_out sid h (bs_variation s)] | None \<Rightarrow> [])
     @ (if bs_cog s \<noteq> None \<or> bs_sog s \<noteq> None then [\<lambda>sid. Cog_sog_out sid (bs_cog s) (bs_sog s)] else [])
     @ (if bs_wind_speed s \<noteq> None \<or> bs_wind_angle s \<noteq> None
        then [\<lambda>sid. Wind_out sid (bs_wind_speed s) (bs_wind_angle s)] else [])"

definition build_pgns :: "(out_pgn \<Rightarrow> u8 list option) \<Rightarrow> bus_snapshot \<Rightarrow> u8 \<Rightarrow> encoded_pgn list \<times> u8" where
  "build_pgns enc s sid =
     fold (\<lambda>mk (ps, i). (ps @ encode_pgn enc (mk i), i + 1)) (pgn_makers s) ([], sid)"

section \<open>The thread of the bus\<close>

definition ADDR_NOT_CLAIMED :: u8 where
  "ADDR_NOT_CLAIMED = 254"

datatype address_action = Send_claim u8 | Send_cannot_claim | Address_claimed u8 | Address_lost u8

datatype bus_frame = Claim_frame u8 | Cannot_claim_frame | Data_frame u8 encoded_pgn

text \<open>The shared address and queue, the snapshot, the sequence id, and, for what is said about the
  bus, the actions that were handled and the frames that were sent, in order.\<close>

datatype bus_log = Handled address_action | Sent bus_frame

record bus_state =
  bu_claimed :: u8
  bu_queue :: "encoded_pgn list"
  bu_snapshot :: bus_snapshot
  bu_sid :: u8
  bu_log :: "bus_log list"

definition bus_start :: bus_state where
  "bus_start = \<lparr>bu_claimed = ADDR_NOT_CLAIMED, bu_queue = [],
     bu_snapshot = \<lparr>bs_heading = None, bs_variation = None, bs_cog = None, bs_sog = None, bs_wind_speed = None, bs_wind_angle = None\<rparr>,
     bu_sid = 0, bu_log = []\<rparr>"

fun handle_claim_action :: "address_action \<Rightarrow> bus_state \<Rightarrow> bus_state" where
  "handle_claim_action (Send_claim a) x = x\<lparr>bu_log := bu_log x @ [Handled (Send_claim a), Sent (Claim_frame a)]\<rparr>"
| "handle_claim_action Send_cannot_claim x =
     x\<lparr>bu_claimed := ADDR_NOT_CLAIMED, bu_log := bu_log x @ [Handled Send_cannot_claim, Sent Cannot_claim_frame]\<rparr>"
| "handle_claim_action (Address_claimed a) x = x\<lparr>bu_claimed := a, bu_log := bu_log x @ [Handled (Address_claimed a)]\<rparr>"
| "handle_claim_action (Address_lost a) x =
     x\<lparr>bu_claimed := ADDR_NOT_CLAIMED, bu_log := bu_log x @ [Handled (Address_lost a)]\<rparr>"

definition send_next :: "bus_state \<Rightarrow> bus_state" where
  "send_next x =
     (case bu_queue x of
        [] \<Rightarrow> x
      | e # es \<Rightarrow> x\<lparr>bu_queue := es,
          bu_log := (if bu_claimed x < ADDR_NOT_CLAIMED then bu_log x @ [Sent (Data_frame (bu_claimed x) e)] else bu_log x)\<rparr>)"

definition bus_tick :: "(out_pgn \<Rightarrow> u8 list option) \<Rightarrow> bus_state \<Rightarrow> bus_state" where
  "bus_tick enc x =
     (if ADDR_NOT_CLAIMED \<le> bu_claimed x then x
      else (let (ps, sid) = build_pgns enc (bu_snapshot x) (bu_sid x) in x\<lparr>bu_queue := bu_queue x @ ps, bu_sid := sid\<rparr>))"

text \<open>The two threads and the subscription in any order.\<close>

datatype bus_step = Bus_delta delta | Bus_tick | Bus_action address_action | Bus_send

fun bus_do :: "(out_pgn \<Rightarrow> u8 list option) \<Rightarrow> bus_step \<Rightarrow> bus_state \<Rightarrow> bus_state" where
  "bus_do enc (Bus_delta d) x = x\<lparr>bu_snapshot := bus_snapshot_delta d (bu_snapshot x)\<rparr>"
| "bus_do enc Bus_tick x = bus_tick enc x"
| "bus_do enc (Bus_action a) x = handle_claim_action a x"
| "bus_do enc Bus_send x = send_next x"

end
