(* ===== verification/NmeaSpec.thy ===== *)
theory NmeaSpec
  imports Nmea2000 NmeaOutput
begin

text \<open>
  Properties of the NMEA plugins: an input delta names each path once and is of the own vessel, a
  distress call raises an emergency, a line that is not UTF-8 ends its connection, and an output
  message carries the address that is claimed when it is sent.
\<close>

section \<open>Values of a sentence\<close>

lemma paths_opt_pv [simp]: "map pv_path (opt_pv p e x) = (if x = None then [] else [p])"
  by (simp add: opt_pv_def path_value_new_def split: option.split)

lemma paths_units [simp]:
  "map pv_path (scaled p k x) = (if x = None then [] else [p])"
  "map pv_path (plain_value p x) = (if x = None then [] else [p])"
  "map pv_path (in_kelvin p x) = (if x = None then [] else [p])"
  "map pv_path (position_value p lat lon alt) = (if lat = None \<or> lon = None then [] else [p])"
  by (simp_all add: scaled_def plain_value_def in_kelvin_def position_value_def both_def paths_opt_pv bind_eq_None_conv)

lemma opt_pv_set [simp]: "pv_path ` set (opt_pv p e x) = (if x = None then {} else {p})"
  by (cases x) (simp_all add: opt_pv_def path_value_new_def)

lemma path_sets [simp]:
  "pv_path ` set (scaled p k x) = (if x = None then {} else {p})"
  "pv_path ` set (plain_value p x) = (if x = None then {} else {p})"
  "pv_path ` set (in_kelvin p x) = (if x = None then {} else {p})"
  "pv_path ` set (position_value p lat lon alt) = (if lat = None \<or> lon = None then {} else {p})"
  by (simp_all add: scaled_def plain_value_def in_kelvin_def position_value_def both_def opt_pv_set bind_eq_None_conv)

lemma path_of_new [simp]: "pv_path (path_value_new p v) = p"
  by (simp add: path_value_new_def)

lemma paths_utc [simp]:
  "map pv_path (utc_values day t) = [''environment.time.millis'', ''environment.time.timezoneOffset'', ''environment.time.timezoneRegion'']"
  by (simp add: utc_values_def)

lemma utc_set [simp]:
  "pv_path ` set (utc_values day t) = {''environment.time.millis'', ''environment.time.timezoneOffset'', ''environment.time.timezoneRegion''}"
  by (simp add: utc_values_def path_value_new_def)

lemma paths_depth: "distinct (map pv_path (depth_values d off))"
  by (auto simp: depth_values_def split: option.split)

lemmas from_defs_position = from_gga_def from_vtg_def from_gll_def from_gsa_def from_gns_def
lemmas from_defs_course = from_rmb_def from_bwc_def from_bod_def from_xte_def
lemmas from_defs_other = from_dpt_def from_dbt_def from_dbs_def from_dbk_def from_mtw_def from_mda_def from_vdr_def from_vlw_def
  from_hdt_def from_hdg_def from_hdm_def from_vhw_def from_rot_def from_rsa_def from_rpm_def from_mwv_def from_mwd_def
  from_vwr_def from_vwt_def

lemma distinct_rmc: "distinct (map pv_path (from_rmc f a))"
proof (cases "both (rmc_date a) (rmc_time a)")
  case None
  show ?thesis unfolding from_rmc_def None option.simps by simp
next
  case (Some dt)
  obtain day t where "both (rmc_date a) (rmc_time a) = Some (day, t)" using Some by (cases dt) simp
  note dt = this
  show ?thesis unfolding from_rmc_def dt option.simps prod.simps
    by (cases "rmc_status_of_fix a = Invalid_fix") (simp_all add: utc_values_def)
qed

lemma distinct_position:
  "distinct (map pv_path (from_gga b))" "distinct (map pv_path (from_vtg c))" "distinct (map pv_path (from_gll d))"
  "distinct (map pv_path (from_gsa h))" "distinct (map pv_path (from_gns i))"
  by (simp_all add: from_defs_position)

lemma distinct_zda: "distinct (map pv_path (from_zda g e))"
  by (simp add: from_zda_def split: option.split)

lemma distinct_course:
  "distinct (map pv_path (from_rmb a))" "distinct (map pv_path (from_bwc b))" "distinct (map pv_path (from_bod c))"
  "distinct (map pv_path (from_xte d))"
  by (simp_all add: from_defs_course)

lemma distinct_other:
  "distinct (map pv_path (from_dpt a))" "distinct (map pv_path (from_dbt b))" "distinct (map pv_path (from_dbs b))"
  "distinct (map pv_path (from_dbk b))" "distinct (map pv_path (from_mtw c))" "distinct (map pv_path (from_mda d))"
  "distinct (map pv_path (from_vdr e))" "distinct (map pv_path (from_vlw f))" "distinct (map pv_path (from_hdt g))"
  "distinct (map pv_path (from_hdg h))" "distinct (map pv_path (from_hdm i))" "distinct (map pv_path (from_vhw j))"
  "distinct (map pv_path (from_rot k))" "distinct (map pv_path (from_rsa l))" "distinct (map pv_path (from_rpm m))"
  "distinct (map pv_path (from_mwv n))" "distinct (map pv_path (from_mwd p))" "distinct (map pv_path (from_vwr q))"
  "distinct (map pv_path (from_vwt q))"
  by (simp_all add: from_defs_other paths_depth Let_def split: option.split mwv_reference.split)

text \<open>The delta of a sentence is of the own vessel, and its update names each path once,
  with at least one value; transducers apart, of which several may have the same path.\<close>

theorem sentence_names_paths_once:
  assumes "sentence_to_delta env now raw label = Some d" and "\<forall>ms. nx_parse env raw \<noteq> Some (XDR ms)"
  shows "\<exists>u. d = self_vessel [u] \<and> u_values u \<noteq> [] \<and> distinct (map pv_path (u_values u))"
proof -
  obtain s where s: "nx_parse env raw = Some s" "sentence_values env s \<noteq> []"
      "d = self_vessel [update_new now (source_nmea0183 label (talker_of raw)) (sentence_values env s)]"
    using assms(1) by (auto simp: sentence_to_delta_def split: option.splits if_splits bind_splits)
  have "distinct (map pv_path (sentence_values env s))"
    using s(1) assms(2) by (cases s) (simp_all add: distinct_rmc distinct_position distinct_zda distinct_course distinct_other)
  with s(2,3) show ?thesis by (auto simp: update_new_def)
qed

definition demo_nmea :: nmea_env where
  "demo_nmea = \<lparr>nx_parse = (\<lambda>s. if s = ''$GPHDT,0,T'' then Some (HDT \<lparr>hdt_heading = Some (Fin 0)\<rparr>)
       else if s = ''$CDDSC'' then Some (DSC \<lparr>dsc_sender_mmsi = Some 211000001, dsc_position = None, dsc_category = Some 12,
         dsc_first_telecommand = Some 10\<rparr>) else None),
     nx_iso = (\<lambda>_ _. []), nx_from_ymd = (\<lambda>_ _ _. None), nx_fixed = (\<lambda>_ _. [])\<rparr>"

theorem sentence_names_paths_once_witness:
  "\<exists>d u. sentence_to_delta demo_nmea 0 ''$GPHDT,0,T'' ''gps'' = Some d \<and> d = self_vessel [u] \<and> u_values u \<noteq> []
     \<and> distinct (map pv_path (u_values u))"
proof -
  have v: "nx_parse demo_nmea ''$GPHDT,0,T'' = Some (HDT \<lparr>hdt_heading = Some (Fin 0)\<rparr>)" by (simp add: demo_nmea_def)
  then obtain d where d: "sentence_to_delta demo_nmea 0 ''$GPHDT,0,T'' ''gps'' = Some d"
    by (simp add: sentence_to_delta_def from_hdt_def scaled_def opt_pv_def)
  from sentence_names_paths_once [OF this] v d show ?thesis by auto
qed

section \<open>Distress calls\<close>

lemma distress_path_prefix: "starts_with (distress_notification_path n) ''notifications.''"
proof -
  have "\<forall>p\<in>snd ` set distress_paths. starts_with p ''notifications.''" by (simp add: distress_paths_def starts_with_def)
  then have "starts_with p ''notifications.''" if "map_of distress_paths k = Some p" for k p
    using map_of_SomeD [OF that] by force
  then show ?thesis
    by (cases "Option.bind n (\<lambda>n. map_of distress_paths (unat n))")
      (auto simp: distress_notification_path_def starts_with_def split: bind_splits)
qed

text \<open>A distress call is handed on as one delta of the calling vessel, with a notification
  that decodes as an emergency to be seen and heard, whatever its nature.\<close>

theorem distress_call_notifies:
  assumes "contains_str raw ''DSC''" and "nx_parse env raw = Some (DSC x)"
    and "dsc_sender_mmsi x = Some mmsi" and "dsc_category x = Some 12"
  shows "\<exists>u pv n. try_decode_dsc env now raw label = Some [with_context (mmsi_prefix @ dec9 mmsi) [u]]
    \<and> pv \<in> set (u_values u) \<and> starts_with (pv_path pv) ''notifications.''
    \<and> notification_of_json (pv_value pv) = Some n \<and> nt_state n = Emergency \<and> nt_method n = [Visual, Sound]"
proof -
  let ?pv = "path_value_new (distress_notification_path (dsc_first_telecommand x)) (notification_to_json (distress_notification env x mmsi))"
  let ?u = "update_new now (source_nmea0183 label ''DS'') (dsc_values env x mmsi)"
  have pv: "?pv \<in> set (u_values ?u)" using assms(4) by (simp add: dsc_values_def update_new_def)
  then have "dsc_values env x mmsi \<noteq> []" by (auto simp: update_new_def)
  then have d: "try_decode_dsc env now raw label = Some [with_context (mmsi_prefix @ dec9 mmsi) [?u]]"
    using assms by (simp add: try_decode_dsc_def)
  show ?thesis
    by (intro exI [of _ ?u] exI [of _ ?pv] exI [of _ "distress_notification env x mmsi"] conjI)
      (simp_all add: d pv distress_path_prefix, simp_all add: path_value_new_def notification_roundtrip_lemma distress_notification_def)
qed

theorem distress_call_notifies_witness:
  "\<exists>u pv n. try_decode_dsc demo_nmea 0 ''$CDDSC'' ''vhf'' = Some [with_context (mmsi_prefix @ dec9 211000001) [u]]
    \<and> pv \<in> set (u_values u) \<and> notification_of_json (pv_value pv) = Some n \<and> nt_state n = Emergency"
proof -
  have c: "contains_str ''$CDDSC'' ''DSC''" by (simp add: starts_with_def)
  have p: "nx_parse demo_nmea ''$CDDSC'' = Some (DSC \<lparr>dsc_sender_mmsi = Some 211000001, dsc_position = None,
      dsc_category = Some 12, dsc_first_telecommand = Some 10\<rparr>)" by (simp add: demo_nmea_def)
  from distress_call_notifies [OF c p, of 211000001 0 "''vhf''"] show ?thesis by auto
qed

section \<open>Lines that are not UTF-8\<close>

text \<open>The first line that is not UTF-8 ends the connection: nothing after it is read.\<close>

theorem bad_line_ends_connection:
  "read_lines env ais now label (ls @ Not_utf8 # rest) p = read_lines env ais now label (ls @ [Not_utf8]) p"
proof (induction ls arbitrary: p)
  case (Cons l ls)
  then show ?case by (cases l) simp_all
qed simp

section \<open>The unit of revolutions\<close>

lemma f_div_mono_60: "f_le (Fin 360) x \<Longrightarrow> f_le (Fin 6) (f_div x (Fin 60))"
proof (cases x)
  case (Fin q)
  assume "f_le (Fin 360) x"
  then have "6 \<le> q / 60" by (simp add: Fin)
  from round_mono [OF this] have "f_le (round_f64 6) (round_f64 (q / 60))" .
  moreover have "round_f64 6 = Fin 6" by code_simp
  ultimately show ?thesis using \<open>f_le (Fin 360) x\<close> by (simp add: Fin f_div_def)
qed (simp_all add: f_div_def signed_inf_def)

text \<open>One revolution per second is 1 from NMEA 0183 and more than 6 from NMEA 2000, under paths of
  the same meaning: one input counts revolutions, the other radians.\<close>

theorem revolutions_differ:
  "\<exists>y. from_rpm \<lparr>rpm_source_of = Some Rpm_engine, rpm_number = Some 0, rpm_rpm = Some (Fin 60), rpm_pitch = None, rpm_valid = True\<rparr>
       = [path_value_new ''propulsion.engine0.revolutions'' (JNum (Float (Fin 1)))]
    \<and> from_engine_rapid (Some 0) (Some (Fin 60)) = [path_value_new ''propulsion.0.revolutions'' (json_f64 y)]
    \<and> f_le (Fin 6) y"
proof -
  have one: "f_div (Fin 60) (Fin 60) = Fin 1" by code_simp
  have d: "dec_digits 0 = ''0''" by code_simp
  have tau: "TAU = Fin (884279719003555 / 140737488355328)" unfolding TAU_def using TWO_PI_eq by (simp add: TWO_PI_def)
  have "f_le (round_f64 360) (round_f64 (60 * (884279719003555 / 140737488355328)))" by (rule round_mono) simp
  moreover have "round_f64 360 = Fin 360" by code_simp
  ultimately have "f_le (Fin 360) (f_mul (Fin 60) TAU)" by (simp add: f_mul_def tau)
  from f_div_mono_60 [OF this]
  show ?thesis
    by (intro exI [of _ "f_div (f_mul (Fin 60) TAU) (Fin 60)"])
      (simp add: from_rpm_def from_engine_rapid_def rpm_prefix_def engine_prefix_def opt_pv_def json_f64_def one d del: dec_digits.simps)
qed

section \<open>The address on the bus\<close>

text \<open>The address that the actions handled so far leave claimed.\<close>

fun address_after :: "bus_log list \<Rightarrow> u8 \<Rightarrow> u8" where
  "address_after [] a = a"
| "address_after (Handled (Address_claimed b) # l) a = address_after l b"
| "address_after (Handled (Address_lost b) # l) a = address_after l ADDR_NOT_CLAIMED"
| "address_after (Handled Send_cannot_claim # l) a = address_after l ADDR_NOT_CLAIMED"
| "address_after (_ # l) a = address_after l a"

lemma address_after_append: "address_after (l @ m) a = address_after m (address_after l a)"
  by (induction l a rule: address_after.induct) simp_all

fun data_ok :: "u8 \<Rightarrow> bus_log list \<Rightarrow> bool" where
  "data_ok a [] = True"
| "data_ok a (x # l) = ((\<forall>src e. x = Sent (Data_frame src e) \<longrightarrow> src < ADDR_NOT_CLAIMED \<and> src = a)
     \<and> data_ok (address_after [x] a) l)"

lemma data_ok_append: "data_ok a (l @ m) \<longleftrightarrow> data_ok a l \<and> data_ok (address_after l a) m"
proof (induction l arbitrary: a)
  case (Cons x l)
  then show ?case using address_after_append [of "[x]" l a] by simp
qed simp

definition bus_ok :: "bus_state \<Rightarrow> bool" where
  "bus_ok x \<longleftrightarrow> bu_claimed x = address_after (bu_log x) ADDR_NOT_CLAIMED \<and> data_ok ADDR_NOT_CLAIMED (bu_log x)"

lemma bus_ok_step: "bus_ok x \<Longrightarrow> bus_ok (bus_do enc s x)"
proof (cases s)
  case (Bus_action a)
  assume "bus_ok x"
  then show ?thesis
    unfolding Bus_action
    by (cases a) (simp_all add: bus_ok_def address_after_append data_ok_append)
next
  case Bus_send
  assume "bus_ok x"
  then show ?thesis
    unfolding Bus_send
    by (cases "bu_queue x") (simp_all add: bus_ok_def send_next_def address_after_append data_ok_append)
qed (simp_all add: bus_ok_def bus_tick_def split: prod.split)

text \<open>Claim C36. However the deltas, the ticks, the actions of the address manager and the sending
  interleave, a data frame carries the address that was claimed last and has not been lost since;
  without one nothing is sent.\<close>

theorem no_data_without_address:
  "bu_log (fold (bus_do enc) steps bus_start) = pre @ Sent (Data_frame src e) # post \<Longrightarrow>
     src < ADDR_NOT_CLAIMED \<and> src = address_after pre ADDR_NOT_CLAIMED"
proof -
  assume l: "bu_log (fold (bus_do enc) steps bus_start) = pre @ Sent (Data_frame src e) # post"
  have "bus_ok (fold (bus_do enc) steps x)" if "bus_ok x" for x
    using that by (induction steps arbitrary: x) (simp_all add: bus_ok_step)
  moreover have "bus_ok bus_start" by (simp add: bus_ok_def bus_start_def)
  ultimately have "data_ok ADDR_NOT_CLAIMED (bu_log (fold (bus_do enc) steps bus_start))" by (simp add: bus_ok_def)
  then show ?thesis unfolding l data_ok_append by auto
qed

theorem no_data_without_address_witness:
  "\<exists>pre e. bu_log (fold (bus_do (\<lambda>_. Some [1])) [Bus_action (Send_claim 100), Bus_action (Address_claimed 100),
       Bus_delta (self_vessel [update_new 0 (source_plugin ''gps'') [path_value_new ''navigation.headingTrue'' (JNum (Float (Fin 1)))]]),
       Bus_tick, Bus_send] bus_start) = pre @ [Sent (Data_frame 100 e)] \<and> address_after pre ADDR_NOT_CLAIMED = 100"
proof -
  let ?l = "bu_log (fold (bus_do (\<lambda>_. Some [1])) [Bus_action (Send_claim 100), Bus_action (Address_claimed 100),
       Bus_delta (self_vessel [update_new 0 (source_plugin ''gps'') [path_value_new ''navigation.headingTrue'' (JNum (Float (Fin 1)))]]),
       Bus_tick, Bus_send] bus_start)"
  let ?pre = "[Handled (Send_claim 100), Sent (Claim_frame 100), Handled (Address_claimed 100)]"
  let ?e = "\<lparr>ep_pgn = 127250, ep_priority = 2, ep_data = [1]\<rparr>"
  have l: "?l = ?pre @ Sent (Data_frame 100 ?e) # []"
    by (simp add: bus_start_def bus_tick_def ADDR_NOT_CLAIMED_def bus_snapshot_delta_def delta_cons_defs bus_snapshot_value_def
        build_pgns_def pgn_makers_def encode_pgn_def send_next_def as_f64_def Let_def)
  from no_data_without_address [OF l] l show ?thesis by (intro exI [of _ ?pre] exI [of _ ?e]) simp
qed

end
