(* ===== verification/Bridge.thy ===== *)
theory Bridge
  imports RestApi Admin
begin

text \<open>
  The internal interface of the server (\<^verbatim>\<open>signalk-internal\<close>): requests of the bridge process over a
  local socket, the calls the server makes to the bridge as HTTP texts, and the client of standalone
  plugins (\<^verbatim>\<open>signalk-plugin-client\<close>). Requests arrive as the extractors of the HTTP framework
  leave them, the path decoded and the body read; what a socket answers to a text is an argument.
\<close>

section \<open>Requests of the bridge\<close>

datatype bridge_request =
    Ingest_delta delta
  | Query_path string
  | Write_path string json
  | Query_sources string
  | Query_metadata string
  | Register_handler string string
  | Register_plugin_routes string string
  | Register_bridge string
  | Report_plugins "bridge_plugin_info list"

text \<open>A delta and a report are handled by a task of their own, which runs after the reply.\<close>

datatype bridge_task = Apply_task delta | Report_task "bridge_plugin_info list"

record ('r, 'p, 'w) internal_state =
  ib_token :: string
  ib_version :: "string option"
  ib_shared :: "('r, 'p, 'w) shared"
  ib_registry :: plugin_registry
  ib_tasks :: "bridge_task list"

record bridge_env =
  be_store :: store_env
  be_rfc :: "datetime \<Rightarrow> string"

text \<open>\<^verbatim>\<open>HeaderMap::get\<close> gives the first header of the name, in any case; \<^verbatim>\<open>to_str\<close> refuses bytes
  that are not visible.\<close>

definition visible :: "char \<Rightarrow> bool" where
  "visible c \<longleftrightarrow> (let n = of_char c :: nat in n = 9 \<or> 32 \<le> n \<and> n < 127)"

definition header_get :: "string \<Rightarrow> (string \<times> string) list \<Rightarrow> string option" where
  "header_get name hs = map_option snd (List.find (\<lambda>(n, _). ascii_lower n = name) hs)"

definition check_token :: "(string \<times> string) list \<Rightarrow> string \<Rightarrow> bool" where
  "check_token hs token = is_some_and (header_get ''x-bridge-token'' hs) (\<lambda>v. list_all visible v \<and> v = token)"

definition unauthorized :: reply where
  "unauthorized = message_reply 401 ''Invalid or missing X-Bridge-Token''"

definition url_to_sk_path :: "string \<Rightarrow> string" where
  "url_to_sk_path url =
     (let parts = url_parts url
      in join_with ''.'' (if 2 \<le> length parts \<and> hd parts = ''vessels'' then drop 2 parts else parts))"

definition spawn :: "bridge_task \<Rightarrow> ('r, 'p, 'w) internal_state \<Rightarrow> ('r, 'p, 'w) internal_state" where
  "spawn t x = x\<lparr>ib_tasks := ib_tasks x @ [t]\<rparr>"

definition query_response :: "bridge_env \<Rightarrow> string \<Rightarrow> signalk_value \<Rightarrow> json" where
  "query_response env path v = json_obj
     [(''path'', JStr path), (''value'', sk_value v), (''$source'', JStr (sk_source v)),
      (''timestamp'', JStr (be_rfc env (sk_timestamp v)))]"

definition write_delta :: "bridge_env \<Rightarrow> string \<Rightarrow> json \<Rightarrow> delta" where
  "write_delta env url body =
     self_vessel [update_new (se_utc (be_store env)) (source_plugin ''bridge'')
       [path_value_new (url_to_sk_path url) (unwrap_or (jget ''value'' body) JNull)]]"

definition found_or :: "string \<Rightarrow> json option \<Rightarrow> reply" where
  "found_or msg r = (case r of Some v \<Rightarrow> Reply 200 v | None \<Rightarrow> message_reply 404 msg)"

definition internal_store :: "('r, 'p, 'w) internal_state \<Rightarrow> store" where
  "internal_store x = sh_store (ib_shared x)"

fun authorized_request :: "bridge_env \<Rightarrow> bridge_request \<Rightarrow> ('r, 'p, 'w) internal_state \<Rightarrow> reply \<times> ('r, 'p, 'w) internal_state" where
  "authorized_request env (Ingest_delta d) x = (Empty 204, spawn (Apply_task d) x)"
| "authorized_request env (Query_path url) x =
     (let p = url_to_sk_path url
      in (found_or ''Path not found'' (map_option (query_response env p) (get_self_path (internal_store x) p)), x))"
| "authorized_request env (Write_path url body) x = (Empty 204, spawn (Apply_task (write_delta env url body)) x)"
| "authorized_request env (Query_sources url) x =
     (found_or ''Path not found'' (map_option (\<lambda>m. json_obj (map (\<lambda>(src, v). (src, sk_value v)) m))
        (get_self_path_sources (internal_store x) (url_to_sk_path url))), x)"
| "authorized_request env (Query_metadata url) x =
     (found_or ''Metadata not found'' (map_option metadata_to_json (effective_metadata (internal_store x) (url_to_sk_path url))), x)"
| "authorized_request env (Register_handler pid path) x =
     (Empty 204, x\<lparr>ib_shared := (ib_shared x)\<lparr>sh_put_map := hm_insert path pid (sh_put_map (ib_shared x))\<rparr>\<rparr>)"
| "authorized_request env (Register_plugin_routes pid url) x =
     (Empty 204, x\<lparr>ib_shared := (ib_shared x)\<lparr>sh_route_map := hm_insert pid url (sh_route_map (ib_shared x))\<rparr>\<rparr>)"
| "authorized_request env (Register_bridge version) x = (Empty 204, x\<lparr>ib_version := Some version\<rparr>)"
| "authorized_request env (Report_plugins ps) x = (Empty 204, spawn (Report_task ps) x)"

definition internal_request :: "bridge_env \<Rightarrow> (string \<times> string) list \<Rightarrow> bridge_request \<Rightarrow> ('r, 'p, 'w) internal_state
    \<Rightarrow> reply \<times> ('r, 'p, 'w) internal_state" where
  "internal_request env hs q x =
     (if check_token hs (ib_token x) then authorized_request env q x else (unauthorized, x))"

text \<open>The tasks run in any order.\<close>

fun task_effect :: "bridge_env \<Rightarrow> bridge_task \<Rightarrow> ('r, 'p, 'w) internal_state \<Rightarrow> ('r, 'p, 'w) internal_state" where
  "task_effect env (Apply_task d) x =
     (let sh = ib_shared x
      in x\<lparr>ib_shared := sh\<lparr>sh_store := handle_message (se_disp (be_store env)) (se_now (be_store env)) (sh_filter sh) d (sh_store sh)\<rparr>\<rparr>)"
| "task_effect env (Report_task ps) x = x\<lparr>ib_registry := fold register_tier2 ps (ib_registry x)\<rparr>"

definition run_task :: "bridge_env \<Rightarrow> nat \<Rightarrow> ('r, 'p, 'w) internal_state \<Rightarrow> ('r, 'p, 'w) internal_state" where
  "run_task env i x =
     (if i < length (ib_tasks x)
      then task_effect env (ib_tasks x ! i) (x\<lparr>ib_tasks := take i (ib_tasks x) @ drop (Suc i) (ib_tasks x)\<rparr>)
      else x)"

section \<open>HTTP texts\<close>

definition crlf :: string where
  "crlf = [CHR 0x0D, CHR 0x0A]"

text \<open>The head and the body at the first empty line.\<close>

fun split_head :: "string \<Rightarrow> (string \<times> string) option" where
  "split_head [] = None"
| "split_head (x # xs) =
     (if starts_with (x # xs) (crlf @ crlf) then Some ([], drop 4 (x # xs))
      else map_option (\<lambda>(h, b). (x # h, b)) (split_head xs))"

text \<open>\<^verbatim>\<open>str::lines\<close>: a carriage return goes with its line feed.\<close>

definition strip_cr :: "string \<Rightarrow> string" where
  "strip_cr l = (if l \<noteq> [] \<and> last l = CHR 0x0D then butlast l else l)"

definition text_lines :: "string \<Rightarrow> string list" where
  "text_lines s =
     (let ps = split_on CHR 0x0A s in map strip_cr (butlast ps) @ (if last ps = [] then [] else [last ps]))"

definition split_whitespace :: "string \<Rightarrow> string list" where
  "split_whitespace s =
     filter (\<lambda>w. w \<noteq> []) (split_on CHR '' '' (map (\<lambda>c. if is_space c then CHR '' '' else c) s))"

definition digit_value :: "char \<Rightarrow> nat option" where
  "digit_value c = (let n = of_char c in if 48 \<le> n \<and> n < 58 then Some (n - 48) else None)"

fun parse_digits :: "nat \<Rightarrow> string \<Rightarrow> nat option" where
  "parse_digits acc [] = Some acc"
| "parse_digits acc (c # cs) =
     Option.bind (digit_value c) (\<lambda>d. if acc * 10 + d < 2 ^ 16 then parse_digits (acc * 10 + d) cs else None)"

definition parse_u16 :: "string \<Rightarrow> nat option" where
  "parse_u16 s =
     (let t = (case s of c # r \<Rightarrow> if c = CHR ''+'' then r else s | [] \<Rightarrow> []) in if t = [] then None else parse_digits 0 t)"

definition response_status :: "nat \<Rightarrow> string \<Rightarrow> nat" where
  "response_status d t =
     (let ws = split_whitespace (case text_lines t of l # _ \<Rightarrow> l | [] \<Rightarrow> [])
      in unwrap_or (if 1 < length ws then parse_u16 (ws ! 1) else None) d)"

text \<open>The listener of the socket, over an HTTP framework that reads a text into its headers and the
  request that the router and the extractors make of it, or their refusal, and that writes replies.\<close>

record http_framework =
  hf_read :: "string \<Rightarrow> ((string \<times> string) list \<times> (reply + bridge_request)) option"
  hf_write :: "reply \<Rightarrow> string"

definition serve_internal_api :: "bridge_env \<Rightarrow> http_framework \<Rightarrow> string \<Rightarrow> ('r, 'p, 'w) internal_state
    \<Rightarrow> (string + string) \<times> ('r, 'p, 'w) internal_state" where
  "serve_internal_api env hf text x =
     (case hf_read hf text of
        None \<Rightarrow> (Inr (hf_write hf (Empty 400)), x)
      | Some (hs, Inl refusal) \<Rightarrow> (Inr (hf_write hf refusal), x)
      | Some (hs, Inr q) \<Rightarrow> (let (r, y) = internal_request env hs q x in (Inr (hf_write hf r), y)))"

section \<open>Calls to the bridge\<close>

text \<open>A call writes a text to the socket and reads the answer to its end, or fails.\<close>

record wire_env =
  we_print :: "json \<Rightarrow> string"
  we_parse :: "string \<Rightarrow> string + json"
  we_lossy :: "string \<Rightarrow> string"
  we_utf8 :: "string \<Rightarrow> bool"

type_synonym 'x wire = "string \<Rightarrow> 'x \<Rightarrow> (string + string) \<times> 'x"

definition post_text :: "string \<Rightarrow> string \<Rightarrow> string" where
  "post_text url body =
     ''POST '' @ url @ '' HTTP/1.1'' @ crlf @ ''Host: bridge'' @ crlf @ ''Content-Type: application/json'' @ crlf
     @ ''Content-Length: '' @ dec_digits (length body) @ crlf @ ''Connection: close'' @ crlf @ crlf @ body"

definition uds_post_result :: "wire_env \<Rightarrow> string \<Rightarrow> string + json" where
  "uds_post_result env raw =
     (let text = we_lossy env raw; status = response_status 0 text in
      if \<not> (200 \<le> status \<and> status < 300) then Inl (''HTTP '' @ dec_digits status @ '' from bridge'')
      else (case split_head text of
              None \<Rightarrow> Inl ''No HTTP body delimiter in response''
            | Some (_, body) \<Rightarrow> we_parse env body))"

definition uds_post :: "wire_env \<Rightarrow> 'x wire \<Rightarrow> string \<Rightarrow> json \<Rightarrow> 'x \<Rightarrow> (string + json) \<times> 'x" where
  "uds_post env wire url v x =
     (case wire (post_text url (we_print env v)) x of
        (Inl e, y) \<Rightarrow> (Inl e, y)
      | (Inr raw, y) \<Rightarrow> (uds_post_result env raw, y))"

definition proxy_text :: "string \<Rightarrow> string \<Rightarrow> string option \<Rightarrow> string \<Rightarrow> string" where
  "proxy_text method url content_type body =
     method @ '' '' @ url @ '' HTTP/1.1'' @ crlf @ ''Host: bridge'' @ crlf
     @ (case content_type of Some ct \<Rightarrow> ''Content-Type: '' @ ct @ crlf | None \<Rightarrow> [])
     @ (if content_type \<noteq> None \<or> body \<noteq> [] then ''Content-Length: '' @ dec_digits (length body) @ crlf else [])
     @ ''Connection: close'' @ crlf @ crlf @ body"

definition after_colon :: "string \<Rightarrow> string option" where
  "after_colon l = (if CHR '':'' \<in> set l then Some (tl (dropWhile (\<lambda>c. c \<noteq> CHR '':'') l)) else None)"

definition response_content_type :: "string \<Rightarrow> string option" where
  "response_content_type head_text =
     map_option trim (Option.bind (List.find (\<lambda>l. starts_with (ascii_lower l) ''content-type:'') (tl (text_lines head_text))) after_colon)"

definition uds_proxy_result :: "wire_env \<Rightarrow> string \<Rightarrow> string + nat \<times> string \<times> string option" where
  "uds_proxy_result env raw =
     (case split_head raw of
        None \<Rightarrow> Inl ''No header/body separator in HTTP response''
      | Some (h, body) \<Rightarrow>
          if \<not> we_utf8 env h then Inl ''Non-UTF8 response headers''
          else Inr (response_status 500 h, body, response_content_type h))"

definition uds_proxy :: "wire_env \<Rightarrow> 'x wire \<Rightarrow> string \<Rightarrow> string \<Rightarrow> string option \<Rightarrow> string \<Rightarrow> 'x
    \<Rightarrow> (string + nat \<times> string \<times> string option) \<times> 'x" where
  "uds_proxy env wire method url content_type body x =
     (case wire (proxy_text method url content_type body) x of
        (Inl e, y) \<Rightarrow> (Inl e, y)
      | (Inr raw, y) \<Rightarrow> (uds_proxy_result env raw, y))"

section \<open>The client of a standalone plugin\<close>

record remote_context =
  rc_token :: string
  rc_plugin_id :: string
  rc_status :: string
  rc_error :: "string option"

definition remote_connect :: "bool \<Rightarrow> string \<Rightarrow> string \<Rightarrow> string \<Rightarrow> remote_context plugin_result" where
  "remote_connect there socket token pid =
     (if \<not> there then Inl (Config (''UDS socket not found: '' @ socket))
      else Inr \<lparr>rc_token = token, rc_plugin_id = pid, rc_status = [], rc_error = None\<rparr>)"

definition remote_head :: "string \<Rightarrow> string \<Rightarrow> string \<Rightarrow> string \<Rightarrow> string" where
  "remote_head token method path body =
     method @ '' '' @ path @ '' HTTP/1.1'' @ crlf @ ''Host: localhost'' @ crlf
     @ ''Authorization: Bearer '' @ token @ crlf
     @ (if body = [] then []
        else ''Content-Type: application/json'' @ crlf @ ''Content-Length: '' @ dec_digits (length body) @ crlf)
     @ ''Connection: close'' @ crlf @ crlf"

definition remote_call :: "wire_env \<Rightarrow> 'x wire \<Rightarrow> remote_context \<Rightarrow> string \<Rightarrow> string \<Rightarrow> string \<Rightarrow> 'x
    \<Rightarrow> (nat \<times> string) plugin_result \<times> 'x" where
  "remote_call env wire c method path body x =
     (case wire (remote_head (rc_token c) method path body @ body) x of
        (Inl e, y) \<Rightarrow> (Inl (Io e), y)
      | (Inr raw, y) \<Rightarrow>
          (let text = we_lossy env raw
           in (Inr (response_status 500 text, case split_head text of Some (_, b) \<Rightarrow> b | None \<Rightarrow> []), y)))"

definition remote_value :: "wire_env \<Rightarrow> string \<Rightarrow> (nat \<times> string) plugin_result \<Rightarrow> json option plugin_result" where
  "remote_value env what r =
     (case r of
        Inl e \<Rightarrow> Inl e
      | Inr (status, body) \<Rightarrow>
          if status = 200 then (case we_parse env body of Inl e \<Rightarrow> Inl (Json_err e) | Inr v \<Rightarrow> Inr (jget ''value'' v))
          else if status = 404 then Inr None
          else Inl (Runtime (what @ '' failed: HTTP '' @ dec_digits status)))"

definition remote_get_self_path :: "wire_env \<Rightarrow> 'x wire \<Rightarrow> remote_context \<Rightarrow> string \<Rightarrow> 'x \<Rightarrow> json option plugin_result \<times> 'x" where
  "remote_get_self_path env wire c path x =
     (let (r, y) = remote_call env wire c ''GET'' (''/internal/v1/api/vessels/self/'' @ path) [] x
      in (remote_value env ''get_self_path'' r, y))"

definition remote_get_path :: "wire_env \<Rightarrow> 'x wire \<Rightarrow> remote_context \<Rightarrow> string \<Rightarrow> 'x \<Rightarrow> json option plugin_result \<times> 'x" where
  "remote_get_path env wire c full_path x =
     (let (r, y) = remote_call env wire c ''GET'' (''/internal/v1/api/'' @ dots_to_slashes full_path) [] x
      in (remote_value env ''get_path'' r, y))"

text \<open>The delta is given by its text.\<close>

definition remote_handle_message :: "wire_env \<Rightarrow> 'x wire \<Rightarrow> remote_context \<Rightarrow> string \<Rightarrow> 'x \<Rightarrow> unit plugin_result \<times> 'x" where
  "remote_handle_message env wire c delta_text x =
     (let (r, y) = remote_call env wire c ''POST'' ''/internal/v1/delta'' delta_text x in
      (case r of
         Inl e \<Rightarrow> Inl e
       | Inr (status, _) \<Rightarrow>
           if status = 200 \<or> status = 204 then Inr ()
           else Inl (Runtime (''handle_message failed: HTTP '' @ dec_digits status)), y))"

definition remote_set_status :: "string \<Rightarrow> remote_context \<Rightarrow> remote_context" where
  "remote_set_status msg c = c\<lparr>rc_status := msg, rc_error := None\<rparr>"

definition remote_set_error :: "string \<Rightarrow> remote_context \<Rightarrow> remote_context" where
  "remote_set_error msg c = c\<lparr>rc_error := Some msg\<rparr>"

datatype remote_unsupported =
    Remote_subscribe | Remote_unsubscribe | Remote_put_handler | Remote_routes | Remote_save_options | Remote_read_options
  | Remote_delta_handler | Remote_autopilot_provider

text \<open>Of the texts of these errors only the part up to the advice that follows in some is kept.\<close>

fun unsupported_text :: "remote_unsupported \<Rightarrow> string" where
  "unsupported_text Remote_subscribe = ''subscribe''"
| "unsupported_text Remote_unsubscribe = ''unsubscribe''"
| "unsupported_text Remote_put_handler = ''register_put_handler''"
| "unsupported_text Remote_routes = ''register_routes''"
| "unsupported_text Remote_save_options = ''save_options''"
| "unsupported_text Remote_read_options = ''read_options''"
| "unsupported_text Remote_delta_handler = ''register_delta_input_handler''"
| "unsupported_text Remote_autopilot_provider = ''register_autopilot_provider''"

definition remote_unsupported_call :: "remote_unsupported \<Rightarrow> 'a plugin_result" where
  "remote_unsupported_call q = Inl (Runtime (unsupported_text q @ '' not supported in remote context''))"

end
