(* ===== verification/BridgeSpec.thy ===== *)
theory BridgeSpec
  imports Bridge PluginsSpec
begin

text \<open>
  Properties of the internal interface: the texts of HTTP read back as they were written, the bridge
  reads what it wrote once the task has run, its deltas may overtake each other, and the client of
  standalone plugins is refused by every request.
\<close>

section \<open>Numbers\<close>

declare dec_digits.simps [simp del]

lemma digit_of_char: "n < 10 \<Longrightarrow> digit_value (char_of (48 + n)) = Some n"
  by (simp add: digit_value_def of_char_of)

lemma parse_digits_snoc:
  "parse_digits acc (s @ [c]) = Option.bind (parse_digits acc s) (\<lambda>a. parse_digits a [c])"
  by (induction s arbitrary: acc) (auto split: bind_splits)

lemma dec_digits_not_Nil: "dec_digits n \<noteq> []"
  by (subst dec_digits.simps) simp

lemma dec_digits_range: "c \<in> set (dec_digits n) \<Longrightarrow> 48 \<le> (of_char c :: nat) \<and> (of_char c :: nat) < 58"
proof (induction n rule: dec_digits.induct)
  case (1 n)
  show ?case
  proof (cases "n < 10")
    case True
    with "1.prems" show ?thesis by (subst (asm) dec_digits.simps) (auto simp: of_char_of)
  next
    case False
    from "1.prems" False have "c \<in> set (dec_digits (n div 10)) \<or> c = char_of (48 + n mod 10)"
      by (subst (asm) dec_digits.simps) auto
    then show ?thesis using "1.IH" False by (auto simp: of_char_of)
  qed
qed

lemma parse_digits_dec: "n < 2 ^ 16 \<Longrightarrow> parse_digits 0 (dec_digits n) = Some n"
proof (induction n rule: dec_digits.induct)
  case (1 n)
  show ?case
  proof (cases "n < 10")
    case True
    then show ?thesis by (subst dec_digits.simps) (simp add: digit_of_char)
  next
    case False
    with 1 have "parse_digits 0 (dec_digits (n div 10)) = Some (n div 10)" by simp
    with False "1.prems" show ?thesis
      by (subst dec_digits.simps) (simp add: parse_digits_snoc digit_of_char mult.commute)
  qed
qed

lemma parse_u16_dec: "n < 2 ^ 16 \<Longrightarrow> parse_u16 (dec_digits n) = Some n"
proof -
  assume n: "n < 2 ^ 16"
  obtain c r where d: "dec_digits n = c # r" using dec_digits_not_Nil [of n] by (cases "dec_digits n") auto
  then have "c \<noteq> CHR ''+''" using dec_digits_range [of c n] by auto
  with d parse_digits_dec [OF n] show ?thesis by (simp add: parse_u16_def)
qed

section \<open>Lines and heads\<close>

lemma text_lines_line: "CHR 0x0A \<notin> set l \<Longrightarrow> text_lines (l @ CHR 0x0A # r) = strip_cr l # text_lines r"
  by (simp add: text_lines_def split_on_append_sep Let_def)

lemma text_lines_one: "CHR 0x0A \<notin> set l \<Longrightarrow> l \<noteq> [] \<Longrightarrow> text_lines l = [l]"
  by (simp add: text_lines_def split_on_no_sep)

definition one_line :: "string \<Rightarrow> bool" where
  "one_line l \<longleftrightarrow> l \<noteq> [] \<and> CHR 0x0A \<notin> set l \<and> CHR 0x0D \<notin> set l"

definition more_lines :: "string list \<Rightarrow> string" where
  "more_lines ls = concat (map ((@) crlf) ls)"

lemma text_lines_head:
  "one_line l \<Longrightarrow> list_all one_line ls \<Longrightarrow> text_lines (l @ more_lines ls) = l # ls"
proof (induction ls arbitrary: l)
  case Nil
  then show ?case by (simp add: more_lines_def one_line_def text_lines_one)
next
  case (Cons k ls)
  from Cons.prems have "text_lines ((l @ [CHR 0x0D]) @ CHR 0x0A # k @ more_lines ls) = strip_cr (l @ [CHR 0x0D]) # text_lines (k @ more_lines ls)"
    by (intro text_lines_line) (simp add: one_line_def)
  with Cons show ?case by (simp add: more_lines_def crlf_def strip_cr_def)
qed

lemma split_head_line: "CHR 0x0D \<notin> set l \<Longrightarrow> split_head (l @ r) = map_option (\<lambda>(h, b). (l @ h, b)) (split_head r)"
proof (induction l)
  case Nil
  then show ?case by (simp add: case_prod_beta option.map_ident)
next
  case (Cons c l)
  then show ?case by (auto simp: starts_with_def crlf_def option.map_comp o_def case_prod_beta)
qed

lemma split_head_crlf:
  "one_line l \<Longrightarrow> split_head (crlf @ l @ r) = map_option (\<lambda>(h, b). (crlf @ h, b)) (split_head (l @ r))"
  by (cases l) (auto simp: crlf_def one_line_def starts_with_def option.map_comp o_def case_prod_beta)

lemma split_head_end: "split_head (crlf @ crlf @ b) = Some ([], b)"
  by (simp add: crlf_def starts_with_def)

lemma split_head_more:
  "list_all one_line ls \<Longrightarrow> split_head (more_lines ls @ crlf @ crlf @ b) = Some (more_lines ls, b)"
proof (induction ls)
  case Nil
  show ?case by (simp add: more_lines_def split_head_end)
next
  case (Cons l ls)
  then have "split_head (l @ more_lines ls @ crlf @ crlf @ b) = Some (l @ more_lines ls, b)"
    by (simp add: split_head_line one_line_def)
  with Cons.prems show ?case by (simp add: more_lines_def split_head_crlf)
qed

lemma split_head_text:
  "one_line l \<Longrightarrow> list_all one_line ls \<Longrightarrow> split_head (l @ more_lines ls @ crlf @ crlf @ b) = Some (l @ more_lines ls, b)"
  by (simp add: split_head_line split_head_more one_line_def)

lemma split_whitespace_word:
  assumes "w \<noteq> []" and "\<not> list_ex is_space w"
  shows "split_whitespace (w @ CHR '' '' # r) = w # split_whitespace r"
proof -
  have "map (\<lambda>c. if is_space c then CHR '' '' else c) w = w" "CHR '' '' \<notin> set w"
    using assms(2) by (auto simp: list_ex_iff map_idI is_space_def)
  then show ?thesis using assms(1) by (simp add: split_whitespace_def split_on_append_sep is_space_def)
qed

definition status_line :: "nat \<Rightarrow> string \<Rightarrow> string" where
  "status_line n reason = ''HTTP/1.1 '' @ dec_digits n @ '' '' @ reason"

lemma response_status_line:
  assumes "n < 2 ^ 16" and "one_line (status_line n reason)" and "list_all one_line ls"
  shows "response_status d (status_line n reason @ more_lines ls) = n"
proof -
  have "\<not> list_ex is_space (dec_digits n)"
    using dec_digits_range [of _ n] by (fastforce simp: list_ex_iff is_space_def)
  then have "split_whitespace (dec_digits n @ CHR '' '' # reason) = dec_digits n # split_whitespace reason"
    by (intro split_whitespace_word dec_digits_not_Nil)
  moreover have "split_whitespace (''HTTP/1.1'' @ CHR '' '' # dec_digits n @ CHR '' '' # reason)
      = ''HTTP/1.1'' # split_whitespace (dec_digits n @ CHR '' '' # reason)"
    by (intro split_whitespace_word) (simp_all add: is_space_def)
  ultimately have "split_whitespace (status_line n reason) = ''HTTP/1.1'' # dec_digits n # split_whitespace reason"
    by (simp add: status_line_def del: dec_digits.simps)
  then show ?thesis
    using text_lines_head [OF assms(2,3)] assms(1) by (simp add: response_status_def parse_u16_dec del: dec_digits.simps)
qed

section \<open>Answers passed on\<close>

definition header_line :: "string \<times> string \<Rightarrow> string" where
  "header_line = (\<lambda>(n, v). n @ '': '' @ v)"

lemma after_colon_header: "CHR '':'' \<notin> set n \<Longrightarrow> after_colon (header_line (n, v)) = Some (CHR '' '' # v)"
proof -
  assume n: "CHR '':'' \<notin> set n"
  then have "dropWhile (\<lambda>c. c \<noteq> CHR '':'') (n @ CHR '':'' # r) = CHR '':'' # r" for r
    by (induction n) auto
  then show ?thesis by (simp add: after_colon_def header_line_def)
qed

lemma lower_char_colon: "lower_char c = CHR '':'' \<longleftrightarrow> c = CHR '':''"
proof
  assume h: "lower_char c = CHR '':''"
  show "c = CHR '':''"
  proof (cases "65 \<le> (of_char c :: nat) \<and> (of_char c :: nat) \<le> 90")
    case True
    with h have "char_of ((of_char c :: nat) + 32) = CHR '':''" by (simp add: lower_char_def)
    then have "of_char (char_of ((of_char c :: nat) + 32) :: char) = (of_char (CHR '':'') :: nat)" by simp
    with True show ?thesis by (simp add: of_char_of)
  next
    case False
    with h show ?thesis by (auto simp: lower_char_def)
  qed
qed (simp add: lower_char_def)

lemma is_content_type:
  assumes "CHR '':'' \<notin> set n"
  shows "starts_with (ascii_lower (header_line (n, v))) ''content-type:'' \<longleftrightarrow> ascii_lower n = ''content-type''"
proof -
  have low: "ascii_lower (header_line (n, v)) = ascii_lower n @ CHR '':'' # ascii_lower (CHR '' '' # v)"
    by (simp add: header_line_def ascii_lower_def lower_char_def)
  have no: "CHR '':'' \<notin> set (ascii_lower n)"
    using assms by (auto simp: ascii_lower_def dest: lower_char_colon [THEN iffD1, OF sym])
  show ?thesis
  proof
    assume "starts_with (ascii_lower (header_line (n, v))) ''content-type:''"
    then obtain r where "ascii_lower n @ CHR '':'' # ascii_lower (CHR '' '' # v) = ''content-type'' @ CHR '':'' # r"
      unfolding low by (auto simp: starts_with_iff)
    from arg_cong [OF this, of "split_on CHR '':''"] no
    show "ascii_lower n = ''content-type''" by (simp add: split_on_append_sep del: split_on.simps append.simps)
  next
    assume "ascii_lower n = ''content-type''"
    then show "starts_with (ascii_lower (header_line (n, v))) ''content-type:''"
      unfolding low by (simp add: starts_with_def)
  qed
qed

lemma trim_space: "trim (CHR '' '' # v) = trim v"
  by (simp add: trim_def is_space_def)

lemma content_type_of_headers:
  assumes "one_line l" and "list_all one_line (map header_line hs)" and "list_all (\<lambda>(n, _). CHR '':'' \<notin> set n) hs"
  shows "response_content_type (l @ more_lines (map header_line hs)) = map_option trim (header_get ''content-type'' hs)"
proof -
  have "map_option trim (Option.bind (List.find (\<lambda>l. starts_with (ascii_lower l) ''content-type:'') (map header_line hs)) after_colon)
      = map_option trim (header_get ''content-type'' hs)"
    using assms(3) by (induction hs) (auto simp: is_content_type header_get_def after_colon_header trim_space)
  then show ?thesis by (simp add: response_content_type_def text_lines_head [OF assms(1,2)])
qed

text \<open>Claim C8. What the bridge answers to a proxied request is passed on as it is: its status, every byte of
  its body, empty lines included, and its content type, whatever the case of the header's name.\<close>

theorem proxied_answer_is_passed_on:
  assumes "n < 2 ^ 16" and "one_line (status_line n reason)"
    and "list_all (\<lambda>h. one_line (header_line h) \<and> CHR '':'' \<notin> set (fst h)) hs"
    and "we_utf8 env (status_line n reason @ more_lines (map header_line hs))"
    and "wire (proxy_text method url ct body) x =
      (Inr (status_line n reason @ more_lines (map header_line hs) @ crlf @ crlf @ answer), y)"
  shows "uds_proxy env wire method url ct body x = (Inr (n, answer, map_option trim (header_get ''content-type'' hs)), y)"
proof -
  from assms(3) have ls: "list_all one_line (map header_line hs)" "list_all (\<lambda>(m, _). CHR '':'' \<notin> set m) hs"
    by (auto simp: list_all_iff)
  show ?thesis
    by (simp add: uds_proxy_def assms(5) uds_proxy_result_def split_head_text [OF assms(2) ls(1)] assms(4)
        response_status_line [OF assms(1,2) ls(1)] content_type_of_headers [OF assms(2) ls])
qed

definition demo_wire_env :: wire_env where
  "demo_wire_env = \<lparr>we_print = (\<lambda>_. ''{}''), we_parse = (\<lambda>_. Inr JNull), we_lossy = id, we_utf8 = (\<lambda>_. True)\<rparr>"

theorem proxied_answer_is_passed_on_witness:
  "uds_proxy demo_wire_env (\<lambda>t (x :: unit). (Inr (status_line 404 ''Not Found'' @ more_lines [''Content-Type: text/plain''] @ crlf @ crlf
     @ ''a'' @ crlf @ crlf @ ''b''), x)) ''GET'' ''/plugins/x'' None [] ()
   = (Inr (404, ''a'' @ crlf @ crlf @ ''b'', Some ''text/plain''), ())"
proof -
  have d: "dec_digits 404 = ''404''" by code_simp
  let ?w = "\<lambda>t (x :: unit). (Inr (status_line 404 ''Not Found'' @ more_lines [''Content-Type: text/plain''] @ crlf @ crlf
     @ ''a'' @ crlf @ crlf @ ''b''), x) :: (string + string) \<times> unit"
  have "header_get ''content-type'' [(''Content-Type'', ''text/plain'')] = Some ''text/plain''"
    by code_simp
  moreover have "trim ''text/plain'' = ''text/plain''" by (simp add: trim_def is_space_def)
  moreover have "uds_proxy demo_wire_env ?w ''GET'' ''/plugins/x'' None [] ()
      = (Inr (404, ''a'' @ crlf @ crlf @ ''b'', map_option trim (header_get ''content-type'' [(''Content-Type'', ''text/plain'')])), ())"
    by (rule proxied_answer_is_passed_on [where reason = "''Not Found''"])
      (simp_all add: one_line_def header_line_def status_line_def d demo_wire_env_def)
  ultimately show ?thesis by simp
qed

section \<open>Standalone plugins\<close>

text \<open>What is known of the HTTP framework: the status of a reply is in its first line, a header of a
  request is a line of the head of its text, and a refusal is an error.\<close>

fun reply_status :: "reply \<Rightarrow> nat" where
  "reply_status (Reply n _) = n"
| "reply_status (Plain n _) = n"
| "reply_status (Empty n) = n"

definition http_ok :: "wire_env \<Rightarrow> http_framework \<Rightarrow> bool" where
  "http_ok we hf \<longleftrightarrow>
     (\<forall>d r. reply_status r < 1000 \<longrightarrow> response_status d (we_lossy we (hf_write hf r)) = reply_status r) \<and>
     (\<forall>t hs q. hf_read hf t = Some (hs, q) \<longrightarrow>
        (\<exists>h b. split_head t = Some (h, b) \<and> (\<forall>(n, v)\<in>set hs. \<exists>l\<in>set (text_lines h). starts_with (ascii_lower l) (ascii_lower n @ '':''))) \<and>
        (\<forall>refusal. q = Inl refusal \<longrightarrow> 400 \<le> reply_status refusal \<and> reply_status refusal < 600))"

lemma lower_char_x: "lower_char c = CHR ''x'' \<longleftrightarrow> c = CHR ''x'' \<or> c = CHR ''X''"
proof
  assume h: "lower_char c = CHR ''x''"
  show "c = CHR ''x'' \<or> c = CHR ''X''"
  proof (cases "65 \<le> (of_char c :: nat) \<and> (of_char c :: nat) \<le> 90")
    case True
    with h have "char_of ((of_char c :: nat) + 32) = CHR ''x''" by (simp add: lower_char_def)
    then have "of_char (char_of ((of_char c :: nat) + 32) :: char) = (of_char (CHR ''x'') :: nat)" by simp
    with True have "(of_char c :: nat) = of_char (CHR ''X'')" by (simp add: of_char_of)
    then have "c = CHR ''X''" by (simp only: of_char_eq_iff)
    then show ?thesis by simp
  next
    case False
    with h show ?thesis by (auto simp: lower_char_def)
  qed
next
  have "lower_char (CHR ''x'') = CHR ''x''" "lower_char (CHR ''X'') = CHR ''x''" by code_simp+
  then show "c = CHR ''x'' \<or> c = CHR ''X'' \<Longrightarrow> lower_char c = CHR ''x''" by blast
qed

lemma remote_head_lines:
  "remote_head token method path body =
     (method @ '' '' @ path @ '' HTTP/1.1'')
     @ more_lines ([''Host: localhost'', ''Authorization: Bearer '' @ token]
         @ (if body = [] then [] else [''Content-Type: application/json'', ''Content-Length: '' @ dec_digits (length body)])
         @ [''Connection: close'']) @ crlf @ crlf"
  by (simp add: remote_head_def more_lines_def crlf_def)

lemma no_token_header:
  assumes hf: "http_ok we hf" "hf_read hf (remote_head token method path body @ body) = Some (hs, q)"
    and m: "one_line method" "hd method \<noteq> CHR ''x''" "hd method \<noteq> CHR ''X''"
    and p: "CHR 0x0A \<notin> set path" "CHR 0x0D \<notin> set path" "CHR 0x0A \<notin> set token" "CHR 0x0D \<notin> set token"
  shows "\<not> check_token hs tok"
proof -
  define ls where "ls = [''Host: localhost'', ''Authorization: Bearer '' @ token]
         @ (if body = [] then [] else [''Content-Type: application/json'', ''Content-Length: '' @ dec_digits (length body)])
         @ [''Connection: close'']"
  define l0 where "l0 = method @ '' '' @ path @ '' HTTP/1.1''"
  have digits: "CHR 0x0A \<notin> set (dec_digits n)" "CHR 0x0D \<notin> set (dec_digits n)" for n
    using dec_digits_range [of "CHR 0x0A" n] dec_digits_range [of "CHR 0x0D" n] by auto
  have "one_line l0" "list_all one_line ls"
    using m p digits by (simp_all add: l0_def ls_def one_line_def)
  from split_head_text [OF this, of body] text_lines_head [OF this]
  have "split_head (remote_head token method path body @ body) = Some (l0 @ more_lines ls, body)" "text_lines (l0 @ more_lines ls) = l0 # ls"
    by (simp_all add: remote_head_lines l0_def ls_def)
  with hf have heads: "\<exists>l\<in>set (l0 # ls). starts_with (ascii_lower l) (ascii_lower n @ '':'')" if "(n, v) \<in> set hs" for n v
    using that unfolding http_ok_def by fastforce
  have heads_l: "l \<noteq> [] \<and> hd l \<noteq> CHR ''x'' \<and> hd l \<noteq> CHR ''X''" if "l \<in> set (l0 # ls)" for l
    using that m by (auto simp: l0_def ls_def one_line_def hd_append split: if_splits)
  have "\<not> starts_with (ascii_lower l) (''x-bridge-token'' @ '':'')" if "l \<in> set (l0 # ls)" for l
    using heads_l [OF that] lower_char_x [of "hd l"] by (cases l) (auto simp: starts_with_def ascii_lower_def)
  then have "ascii_lower n \<noteq> ''x-bridge-token''" if "(n, v) \<in> set hs" for n v
    using heads [OF that] by auto
  then have "header_get ''x-bridge-token'' hs = None"
    by (auto simp: header_get_def find_None_iff)
  then show ?thesis by (simp add: check_token_def is_some_and_def)
qed

text \<open>Claim C9. A standalone plugin sends its token as a bearer token, and the server asks for another header:
  whatever token, server and state there are, a delta that the plugin hands over is refused and
  changes nothing.\<close>

theorem standalone_plugin_is_refused:
  assumes "http_ok we hf" and "CHR 0x0A \<notin> set (rc_token c)" and "CHR 0x0D \<notin> set (rc_token c)"
  shows "\<exists>e. remote_handle_message we (serve_internal_api env hf) c delta_text x = (Inl e, x)"
proof -
  let ?t = "remote_head (rc_token c) ''POST'' ''/internal/v1/delta'' delta_text @ delta_text"
  have st: "response_status 500 (we_lossy we (hf_write hf r)) = reply_status r" if "reply_status r < 1000" for r
    using assms(1) that by (simp add: http_ok_def)
  have "\<exists>r. serve_internal_api env hf ?t x = (Inr (hf_write hf r), x) \<and> 400 \<le> reply_status r \<and> reply_status r < 1000"
  proof (cases "hf_read hf ?t")
    case None
    then show ?thesis by (intro exI [of _ "Empty 400"]) (simp add: serve_internal_api_def)
  next
    case (Some hq)
    obtain hs q where hq: "hf_read hf ?t = Some (hs, q)" using Some by (cases hq) simp
    show ?thesis
    proof (cases q)
      case (Inl refusal)
      with hq assms(1) have "400 \<le> reply_status refusal \<and> reply_status refusal < 600"
        unfolding http_ok_def by blast
      with hq Inl show ?thesis by (intro exI [of _ refusal]) (simp add: serve_internal_api_def)
    next
      case (Inr req)
      have "\<not> check_token hs (ib_token x)"
        using assms(2,3) by (intro no_token_header [OF assms(1) hq]) (simp_all add: one_line_def)
      with hq Inr show ?thesis
        by (intro exI [of _ unauthorized]) (simp add: serve_internal_api_def internal_request_def unauthorized_def message_reply_def)
    qed
  qed
  then obtain r where r: "serve_internal_api env hf ?t x = (Inr (hf_write hf r), x)" "400 \<le> reply_status r" "reply_status r < 1000" by auto
  then show ?thesis
    by (simp add: remote_handle_message_def remote_call_def st Let_def)
qed

text \<open>A framework of which that is known: it routes every text with a head to one request.\<close>

definition split_colon :: "string \<Rightarrow> (string \<times> string) option" where
  "split_colon l = map_option (\<lambda>v. (takeWhile (\<lambda>c. c \<noteq> CHR '':'') l, trim v)) (after_colon l)"

definition demo_http :: "bridge_request \<Rightarrow> http_framework" where
  "demo_http q =
     \<lparr>hf_read = (\<lambda>t. map_option (\<lambda>(h, b). (List.map_filter split_colon (tl (text_lines h)), Inr q)) (split_head t)),
      hf_write = (\<lambda>r. status_line (reply_status r) ''x'' @ crlf @ crlf)\<rparr>"

lemma split_colon_line:
  assumes "split_colon l = Some (n, v)"
  shows "starts_with (ascii_lower l) (ascii_lower n @ '':'')"
proof -
  from assms have "n = takeWhile (\<lambda>c. c \<noteq> CHR '':'') l" "CHR '':'' \<in> set l"
    by (auto simp: split_colon_def after_colon_def split: if_splits)
  then have "l = n @ CHR '':'' # tl (dropWhile (\<lambda>c. c \<noteq> CHR '':'') l)"
    by (induction l arbitrary: n) auto
  then have "ascii_lower l = ascii_lower (n @ CHR '':'' # tl (dropWhile (\<lambda>c. c \<noteq> CHR '':'') l))" by simp
  also have "\<dots> = (ascii_lower n @ '':'') @ ascii_lower (tl (dropWhile (\<lambda>c. c \<noteq> CHR '':'') l))"
    by (simp add: ascii_lower_def lower_char_def)
  finally show ?thesis by (simp only: starts_with_append)
qed

lemma demo_http_ok: "http_ok demo_wire_env (demo_http q)"
proof -
  have "response_status d (status_line n ''x'' @ crlf @ crlf) = n" if n: "n < 1000" for n d
  proof -
    have "CHR 0x0A \<notin> set (dec_digits n)" "CHR 0x0D \<notin> set (dec_digits n)"
      using dec_digits_range [of "CHR 0x0A" n] dec_digits_range [of "CHR 0x0D" n] by auto
    then have l: "one_line (status_line n ''x'')" by (simp add: one_line_def status_line_def)
    have nl: "CHR 0x0A \<notin> set (status_line n ''x'' @ [CHR 0x0D])" using l by (simp add: one_line_def)
    have "text_lines (status_line n ''x'' @ crlf @ crlf) = strip_cr (status_line n ''x'' @ [CHR 0x0D]) # text_lines crlf"
      using text_lines_line [OF nl, of crlf] by (simp add: crlf_def)
    moreover have "text_lines (status_line n ''x'' @ more_lines []) = [status_line n ''x'']"
      using text_lines_head [OF l, of "[]"] by simp
    ultimately have "response_status d (status_line n ''x'' @ crlf @ crlf) = response_status d (status_line n ''x'' @ more_lines [])"
      by (simp add: response_status_def strip_cr_def)
    also have "\<dots> = n" using response_status_line [OF _ l, of "[]"] n by simp
    finally show ?thesis .
  qed
  moreover have "\<exists>l\<in>set (text_lines h). starts_with (ascii_lower l) (ascii_lower n @ '':'')"
    if m: "(n, v) \<in> set (List.map_filter split_colon (tl (text_lines h)))" for n v h
  proof -
    from m obtain l where l: "l \<in> set (tl (text_lines h))" "split_colon l = Some (n, v)"
      by (auto simp: map_filter_def)
    from l(1) have "l \<in> set (text_lines h)" by (cases "text_lines h") simp_all
    with split_colon_line [OF l(2)] show ?thesis by blast
  qed
  ultimately show ?thesis
    by (fastforce simp: http_ok_def demo_http_def demo_wire_env_def)
qed

definition demo_internal :: "(nat, nat, unit) internal_state" where
  "demo_internal = \<lparr>ib_token = ''secret'', ib_version = None, ib_shared = pm_shared demo_manager, ib_registry = [], ib_tasks = []\<rparr>"

definition demo_bridge_env :: bridge_env where
  "demo_bridge_env = \<lparr>be_store = he_store demo_host, be_rfc = (\<lambda>_. [])\<rparr>"

theorem standalone_plugin_is_refused_witness:
  "\<exists>e. remote_handle_message demo_wire_env (serve_internal_api demo_bridge_env (demo_http (Ingest_delta (self_vessel []))))
     \<lparr>rc_token = ''secret'', rc_plugin_id = ''p'', rc_status = [], rc_error = None\<rparr> ''{}'' demo_internal = (Inl e, demo_internal)"
  by (rule standalone_plugin_is_refused [OF demo_http_ok]) simp_all

section \<open>Deltas of the bridge\<close>

text \<open>Tasks that the store accepts apply as they are when no handler stands in the way.\<close>

lemma write_delta_plugin:
  "write_delta env url body =
     plugin_delta (se_utc (be_store env)) ''bridge'' [(url_to_sk_path url, unwrap_or (jget ''value'' body) JNull)]"
  by (simp add: write_delta_def plugin_delta_def)

text \<open>What an accepted write leaves in the store, once its task has run.\<close>

definition bridge_accepts :: "bridge_env \<Rightarrow> string \<Rightarrow> ('r, 'p, 'w) internal_state \<Rightarrow> bool" where
  "bridge_accepts env url x =
     store_accepts (se_now (be_store env)) ''bridge'' (internal_store x) (url_to_sk_path url)"

definition unfiltered :: "('r, 'p, 'w) internal_state \<Rightarrow> bool" where
  "unfiltered x \<longleftrightarrow> (\<forall>d. chain_apply (sh_filter (ib_shared x)) d = Some d)"

lemma run_write:
  assumes "unfiltered x" and "i < length (ib_tasks x)" and "ib_tasks x ! i = Apply_task (write_delta env url body)"
  defines "v \<equiv> unwrap_or (jget ''value'' body) JNull"
  shows "internal_store (run_task env i x) =
      store_write (se_disp (be_store env)) (se_now (be_store env)) (se_utc (be_store env)) ''bridge'' [(url_to_sk_path url, v)] (internal_store x)
    \<and> sh_filter (ib_shared (run_task env i x)) = sh_filter (ib_shared x)
    \<and> ib_tasks (run_task env i x) = take i (ib_tasks x) @ drop (Suc i) (ib_tasks x)
    \<and> ib_token (run_task env i x) = ib_token x"
  using assms by (simp add: run_task_def internal_store_def handle_message_def unfiltered_def store_write_def write_delta_plugin Let_def)

text \<open>What the bridge writes it reads back, once the task of its request has run, when no handler
  takes the delta and the store accepts the source.\<close>

theorem bridge_reads_its_write:
  assumes "check_token hs (ib_token x)" and "unfiltered x" and "bridge_accepts env url x"
  shows "fst (internal_request env hs (Query_path url)
      (run_task env (length (ib_tasks x)) (snd (internal_request env hs (Write_path url body) x))))
    = Reply 200 (query_response env (url_to_sk_path url)
        (signalk_value_new (unwrap_or (jget ''value'' body) JNull) ''bridge'' (se_utc (be_store env))))"
proof -
  define y where "y = snd (internal_request env hs (Write_path url body) x)"
  have y: "ib_tasks y = ib_tasks x @ [Apply_task (write_delta env url body)]" "ib_shared y = ib_shared x" "ib_token y = ib_token x"
    using assms(1) by (simp_all add: y_def internal_request_def spawn_def)
  have "unfiltered y" "internal_store y = internal_store x" using assms(2) y by (simp_all add: unfiltered_def internal_store_def)
  note r = run_write [OF this(1), of "length (ib_tasks x)" env url body]
  let ?p = "url_to_sk_path url" and ?v = "unwrap_or (jget ''value'' body) JNull"
  have "get_self_path (internal_store (run_task env (length (ib_tasks x)) y)) ?p = Some (signalk_value_new ?v ''bridge'' (se_utc (be_store env)))"
    using r y \<open>internal_store y = internal_store x\<close> assms(3) by (simp add: store_write_get bridge_accepts_def)
  moreover have "ib_token (run_task env (length (ib_tasks x)) y) = ib_token x" using r y by simp
  ultimately show ?thesis
    unfolding y_def [symmetric] using assms(1) by (simp add: internal_request_def found_or_def Let_def)
qed

lemma accepts_again:
  "store_accepts now plugin s p \<Longrightarrow> store_accepts now plugin (store_write disp now utc plugin [(p, v)] s) p"
  by (simp add: store_accepts_iff [of now plugin "store_write disp now utc plugin [(p, v)] s"] store_write_get)

text \<open>The replies do not wait for the tasks, and these run in any order: of two writes to a path the
  first one can be what stays.\<close>

theorem bridge_writes_can_swap:
  assumes "check_token hs (ib_token x)" and "unfiltered x" and "ib_tasks x = []"
    and "bridge_accepts env url x"
  shows "store_read (internal_store (run_task env 0 (run_task env 1
      (snd (internal_request env hs (Write_path url b2) (snd (internal_request env hs (Write_path url b1) x)))))))
    (url_to_sk_path url) = Some (unwrap_or (jget ''value'' b1) JNull)"
proof -
  define y where "y = snd (internal_request env hs (Write_path url b2) (snd (internal_request env hs (Write_path url b1) x)))"
  have y: "ib_tasks y = [Apply_task (write_delta env url b1), Apply_task (write_delta env url b2)]" "ib_shared y = ib_shared x"
    using assms(1,3) by (simp_all add: y_def internal_request_def spawn_def)
  have u: "unfiltered y" and s: "internal_store y = internal_store x" using assms(2) y by (simp_all add: unfiltered_def internal_store_def)
  note r1 = run_write [OF u, of 1 env url b2]
  define z where "z = run_task env 1 y"
  have z: "ib_tasks z = [Apply_task (write_delta env url b1)]" "sh_filter (ib_shared z) = sh_filter (ib_shared x)"
    "internal_store z = store_write (se_disp (be_store env)) (se_now (be_store env)) (se_utc (be_store env)) ''bridge''
       [(url_to_sk_path url, unwrap_or (jget ''value'' b2) JNull)] (internal_store x)"
    using r1 y s by (simp_all add: z_def)
  have "unfiltered z" using assms(2) z by (simp add: unfiltered_def)
  moreover have "store_accepts (se_now (be_store env)) ''bridge'' (internal_store z) (url_to_sk_path url)"
    using assms(4) by (simp add: z bridge_accepts_def accepts_again)
  ultimately have "store_read (internal_store (run_task env 0 z)) (url_to_sk_path url) = Some (unwrap_or (jget ''value'' b1) JNull)"
    using run_write [of z 0 env url b1] z(1) by (simp add: store_read_write)
  then show ?thesis by (simp add: z_def y_def)
qed

end
