(* ===== verification/Simulator.thy ===== *)
theory Simulator
  imports Ais Course
begin

text \<open>
  The simulator of sensors (\<^verbatim>\<open>plugins/sensor-data-simulator\<close>): its value generators
  (\<^verbatim>\<open>generators.rs\<close>), the delta, the NMEA 0183 sentences and the NMEA 2000 messages made of
  the values (\<^verbatim>\<open>output_direct.rs\<close>, \<^verbatim>\<open>output_nmea0183.rs\<close>,
  \<^verbatim>\<open>output_nmea2000.rs\<close>) with the connections they go to, and the task of the plugin
  (\<^verbatim>\<open>lib.rs\<close>). The cosine and sine, the parts of a date, and the encoder of NMEA 2000
  messages are arguments. A \<open>None\<close> of a generator is a panic of \<^verbatim>\<open>clamp\<close>.
\<close>

unbundle bit_operations_syntax

section \<open>Generators\<close>

text \<open>The constant \<^verbatim>\<open>u64::MAX as f64\<close> is rounded up.\<close>

definition hash_f64 :: "u64 \<Rightarrow> f64" where
  "hash_f64 seed =
     (let z = seed + 0x9e3779b97f4a7c15;
          z = (z XOR drop_bit 30 z) * 0xbf58476d1ce4e5b9;
          z = (z XOR drop_bit 27 z) * 0x94d049bb133111eb;
          z = z XOR drop_bit 31 z
      in f_div (round_f64 (of_nat (unat z))) (round_f64 (of_nat (unat (- 1 :: u64)))))"

definition pseudo_normal :: "u64 \<Rightarrow> f64" where
  "pseudo_normal seed =
     (let sum = fold (\<lambda>i acc. f_add acc (hash_f64 (seed + i * 7919))) [0, 1, 2, 3, 4, 5] (Fin 0)
      in f_div (f_sub sum (Fin 3)) (lit (3 / 2)))"

record sine_generator =
  sg_min :: f64
  sg_max :: f64
  sg_period :: f64
  sg_phase :: f64

definition sine_new :: "f64 \<Rightarrow> f64 \<Rightarrow> f64 \<Rightarrow> sine_generator" where
  "sine_new lo hi period = \<lparr>sg_min = lo, sg_max = hi, sg_period = period, sg_phase = Fin 0\<rparr>"

definition with_phase :: "f64 \<Rightarrow> sine_generator \<Rightarrow> sine_generator" where
  "with_phase p g = g\<lparr>sg_phase := p\<rparr>"

definition sine_value :: "libm \<Rightarrow> sine_generator \<Rightarrow> f64 \<Rightarrow> f64" where
  "sine_value m g t =
     (let u = f_div (f_rem (f_add t (sg_phase g)) (sg_period g)) (sg_period g)
      in f_add (sg_min g) (f_mul (f_mul (lit (1 / 2)) (f_sub (Fin 1) (m_cos m (f_mul (f_mul u (Fin 2)) PI))))
           (f_sub (sg_max g) (sg_min g))))"

record noise_generator =
  ng_amplitude :: f64
  ng_step :: f64

definition noise_new :: "f64 \<Rightarrow> f64 \<Rightarrow> noise_generator" where
  "noise_new a s = \<lparr>ng_amplitude = a, ng_step = s\<rparr>"

text \<open>\<^verbatim>\<open>floor\<close> and \<^verbatim>\<open>fract\<close>; both are exact, but for the subtraction of the second.\<close>

fun f_floor :: "f64 \<Rightarrow> f64" where
  "f_floor (Fin q) = Fin (of_int \<lfloor>q\<rfloor>)"
| "f_floor x = x"

fun f_trunc :: "f64 \<Rightarrow> f64" where
  "f_trunc (Fin q) = (if trunc q = 0 \<and> q < 0 then NZero else Fin (of_int (trunc q)))"
| "f_trunc x = x"

definition f_fract :: "f64 \<Rightarrow> f64" where
  "f_fract x = f_sub x (f_trunc x)"

definition noise_offset :: "noise_generator \<Rightarrow> f64 \<Rightarrow> f64" where
  "noise_offset g t =
     (let step = word_of_int (f64_as_int 0 (2 ^ 64 - 1) (f_floor (f_div t (ng_step g)))) :: u64;
          frac = f_fract (f_div t (ng_step g));
          a = pseudo_normal (step * 6364136223846793005);
          b = pseudo_normal ((step + 1) * 6364136223846793005)
      in f_mul (f_add a (f_mul (f_sub b a) frac)) (ng_amplitude g))"

record position_generator =
  po_lat :: f64
  po_lon :: f64
  po_radius_deg :: f64
  po_period :: f64
  po_speed :: f64
  po_variation :: sine_generator
  po_noise :: noise_generator

record position_output =
  pu_latitude :: f64
  pu_longitude :: f64
  pu_cog :: f64
  pu_sog :: f64

definition position_new :: "f64 \<Rightarrow> f64 \<Rightarrow> f64 \<Rightarrow> f64 \<Rightarrow> position_generator" where
  "position_new lat lon radius_m period =
     \<lparr>po_lat = lat, po_lon = lon, po_radius_deg = f_div radius_m (Fin 111320), po_period = period,
      po_speed = f_div (f_mul (f_mul (Fin 2) PI) radius_m) period,
      po_variation = with_phase (Fin 7) (sine_new (f_neg (lit (8 / 10))) (lit (8 / 10)) (Fin 45)),
      po_noise = noise_new (lit (15 / 100)) (Fin 2)\<rparr>"

definition position_generate :: "libm \<Rightarrow> position_generator \<Rightarrow> f64 \<Rightarrow> position_output" where
  "position_generate m g t =
     (let angle = f_mul (f_mul (f_div t (po_period g)) (Fin 2)) PI;
          lat = f_add (po_lat g) (f_mul (po_radius_deg g) (m_cos m angle));
          lon = f_add (po_lon g) (f_div (f_mul (po_radius_deg g) (m_sin m angle)) (m_cos m (to_radians (po_lat g))));
          cog = full_turn (f_add angle (f_div PI (Fin 2)));
          sog = f_max (f_add (f_add (po_speed g) (sine_value m (po_variation g) t)) (noise_offset (po_noise g) t)) (Fin 0)
      in \<lparr>pu_latitude = lat, pu_longitude = lon, pu_cog = cog, pu_sog = sog\<rparr>)"

record correlated_generator =
  co_base :: f64
  co_range :: f64
  co_max_input :: f64
  co_noise :: noise_generator

definition correlated_new :: "f64 \<Rightarrow> f64 \<Rightarrow> f64 \<Rightarrow> f64 \<Rightarrow> correlated_generator" where
  "correlated_new b r mx a = \<lparr>co_base = b, co_range = r, co_max_input = mx, co_noise = noise_new a (Fin 2)\<rparr>"

definition correlated_value :: "correlated_generator \<Rightarrow> f64 \<Rightarrow> f64 \<Rightarrow> f64 option" where
  "correlated_value g input t =
     Option.bind (f_clamp (f_div input (co_max_input g)) (Fin 0) (Fin 1)) (\<lambda>ratio.
       Some (f_add (f_add (co_base g) (f_mul ratio (co_range g))) (noise_offset (co_noise g) t)))"

section \<open>The state of the simulator\<close>

record simulator_state =
  ss_position :: position_generator
  ss_heading_noise :: noise_generator
  ss_variation :: f64
  ss_stw_offset :: sine_generator
  ss_stw_noise :: noise_generator
  ss_roll :: sine_generator
  ss_roll_noise :: noise_generator
  ss_pitch :: sine_generator
  ss_pitch_noise :: noise_generator
  ss_wind_angle :: sine_generator
  ss_wind_speed :: sine_generator
  ss_wind_noise :: noise_generator
  ss_depth :: sine_generator
  ss_depth_noise :: noise_generator
  ss_transducer :: f64
  ss_water :: sine_generator
  ss_water_noise :: noise_generator
  ss_air :: sine_generator
  ss_air_noise :: noise_generator
  ss_pressure :: sine_generator
  ss_pressure_noise :: noise_generator
  ss_humidity :: sine_generator
  ss_humidity_noise :: noise_generator
  ss_propulsion :: bool
  ss_rpm :: correlated_generator
  ss_oil :: sine_generator
  ss_oil_noise :: noise_generator
  ss_coolant :: sine_generator
  ss_coolant_noise :: noise_generator
  ss_fuel_rate :: correlated_generator
  ss_voltage :: sine_generator
  ss_voltage_noise :: noise_generator
  ss_current :: correlated_generator
  ss_fuel_capacity :: f64
  ss_water_capacity :: f64
  ss_fuel_drain :: f64
  ss_water_drain :: f64

definition simulator_new :: "f64 \<Rightarrow> f64 \<Rightarrow> f64 \<Rightarrow> f64 \<Rightarrow> f64 \<Rightarrow> bool \<Rightarrow> simulator_state" where
  "simulator_new lat lon radius period variation propulsion =
     \<lparr>ss_position = position_new lat lon radius period,
      ss_heading_noise = noise_new (to_radians (Fin 3)) (lit (3 / 2)), ss_variation = to_radians variation,
      ss_stw_offset = with_phase (Fin 13) (sine_new (f_neg (lit (3 / 10))) (lit (3 / 10)) (Fin 50)),
      ss_stw_noise = noise_new (lit (5 / 100)) (lit (3 / 2)),
      ss_roll = sine_new (f_neg (to_radians (Fin 12))) (to_radians (Fin 12)) (Fin 7),
      ss_roll_noise = noise_new (to_radians (Fin 3)) (Fin 2),
      ss_pitch = with_phase (Fin 2) (sine_new (f_neg (to_radians (Fin 4))) (to_radians (Fin 4)) (Fin 5)),
      ss_pitch_noise = noise_new (to_radians (lit (3 / 2))) (Fin 2),
      ss_wind_angle = sine_new (f_neg PI) PI (Fin 30),
      ss_wind_speed = with_phase (Fin 5) (sine_new (Fin 2) (Fin 15) (Fin 25)), ss_wind_noise = noise_new (Fin 1) (Fin 2),
      ss_depth = with_phase (Fin 10) (sine_new (Fin 5) (Fin 18) (Fin 60)), ss_depth_noise = noise_new (lit (1 / 10)) (Fin 1),
      ss_transducer = lit (1 / 2),
      ss_water = with_phase (Fin 30) (sine_new (Fin 283) (Fin 293) (Fin 120)), ss_water_noise = noise_new (lit (5 / 100)) (Fin 3),
      ss_air = with_phase (Fin 50) (sine_new (Fin 288) (Fin 298) (Fin 180)), ss_air_noise = noise_new (lit (1 / 10)) (Fin 3),
      ss_pressure = with_phase (Fin 100) (sine_new (Fin 100800) (Fin 102000) (Fin 300)), ss_pressure_noise = noise_new (Fin 15) (Fin 3),
      ss_humidity = with_phase (Fin 70) (sine_new (lit (50 / 100)) (lit (85 / 100)) (Fin 200)),
      ss_humidity_noise = noise_new (lit (1 / 100)) (Fin 3),
      ss_propulsion = propulsion,
      ss_rpm = correlated_new (Fin 5) (Fin 45) (Fin 5) (lit (1 / 2)),
      ss_oil = with_phase (Fin 20) (sine_new (Fin 340) (Fin 370) (Fin 90)), ss_oil_noise = noise_new (lit (3 / 2)) (Fin 4),
      ss_coolant = with_phase (Fin 40) (sine_new (Fin 340) (Fin 365) (Fin 120)), ss_coolant_noise = noise_new (Fin 1) (Fin 5),
      ss_fuel_rate = correlated_new (lit (14 / 10 ^ 8)) (lit (21 / 10 ^ 7)) (Fin 50) (lit (1 / 10 ^ 7)),
      ss_voltage = with_phase (Fin 15) (sine_new (lit (122 / 10)) (lit (138 / 10)) (Fin 90)),
      ss_voltage_noise = noise_new (lit (5 / 100)) (Fin 3),
      ss_current = correlated_new (Fin 0) (Fin 25) (Fin 50) (lit (1 / 2)),
      ss_fuel_capacity = lit (200 / 1000), ss_water_capacity = lit (150 / 1000),
      ss_fuel_drain = f_div (lit (4 / 100)) (Fin 3600),
      ss_water_drain = f_div (Fin 5) (f_mul (Fin 150) (Fin 3600))\<rparr>"

record propulsion_values =
  pp_revolutions :: f64
  pp_oil :: f64
  pp_coolant :: f64
  pp_fuel_rate :: f64
  pp_voltage :: f64
  pp_current :: f64

record simulated_values =
  sv_latitude :: f64
  sv_longitude :: f64
  sv_sog :: f64
  sv_cog :: f64
  sv_heading :: f64
  sv_stw :: f64
  sv_roll :: f64
  sv_pitch :: f64
  sv_wind_angle :: f64
  sv_wind_speed :: f64
  sv_depth :: f64
  sv_transducer :: f64
  sv_water :: f64
  sv_air :: f64
  sv_pressure :: f64
  sv_humidity :: f64
  sv_variation :: f64
  sv_propulsion :: "propulsion_values option"
  sv_fuel_level :: f64
  sv_fuel_capacity :: f64
  sv_water_level :: f64
  sv_water_capacity :: f64

definition propulsion_at :: "libm \<Rightarrow> simulator_state \<Rightarrow> f64 \<Rightarrow> f64 \<Rightarrow> propulsion_values option" where
  "propulsion_at m s sog t =
     Option.bind (correlated_value (ss_rpm s) sog t) (\<lambda>r.
     let revs = f_max r (Fin 0) in
     Option.bind (correlated_value (ss_fuel_rate s) revs t) (\<lambda>fuel.
     Option.bind (correlated_value (ss_current s) revs t) (\<lambda>current.
       Some \<lparr>pp_revolutions = revs,
             pp_oil = f_add (sine_value m (ss_oil s) t) (noise_offset (ss_oil_noise s) t),
             pp_coolant = f_add (sine_value m (ss_coolant s) t) (noise_offset (ss_coolant_noise s) t),
             pp_fuel_rate = f_max fuel (Fin 0),
             pp_voltage = f_add (sine_value m (ss_voltage s) t) (noise_offset (ss_voltage_noise s) t),
             pp_current = f_max current (Fin 0)\<rparr>)))"

text \<open>A tank that is drained at a rate from a full level down to a low one, and filled again.\<close>

definition tank_level :: "f64 \<Rightarrow> f64 \<Rightarrow> f64 \<Rightarrow> f64 \<Rightarrow> f64 \<Rightarrow> f64 option" where
  "tank_level full low width drain t =
     (let c = f_sub full (f_mul drain t)
      in f_clamp (if f_lt low c then c else f_sub full (f_rem (f_mul drain t) width)) low full)"

definition tick_at :: "libm \<Rightarrow> simulator_state \<Rightarrow> f64 \<Rightarrow> simulated_values option" where
  "tick_at m s t =
     (let pos = position_generate m (ss_position s) t;
          heading = full_turn (f_add (f_add (pu_cog pos) (ss_variation s)) (noise_offset (ss_heading_noise s) t));
          stw = f_max (f_add (f_add (pu_sog pos) (sine_value m (ss_stw_offset s) t)) (noise_offset (ss_stw_noise s) t)) (Fin 0);
          roll = f_add (sine_value m (ss_roll s) t) (noise_offset (ss_roll_noise s) (f_add t (Fin 1000)));
          pitch = f_add (sine_value m (ss_pitch s) t) (noise_offset (ss_pitch_noise s) (f_add t (Fin 2000)));
          wind = f_max (f_add (sine_value m (ss_wind_speed s) t) (noise_offset (ss_wind_noise s) t)) (Fin 0);
          depth = f_max (f_add (sine_value m (ss_depth s) t) (noise_offset (ss_depth_noise s) t)) (lit (1 / 2))
      in
     Option.bind (f_clamp (f_add (sine_value m (ss_humidity s) t) (noise_offset (ss_humidity_noise s) t)) (Fin 0) (Fin 1)) (\<lambda>humidity.
     Option.bind (if ss_propulsion s then map_option Some (propulsion_at m s (pu_sog pos) t) else Some None) (\<lambda>propulsion.
     Option.bind (tank_level (lit (95 / 100)) (lit (10 / 100)) (lit (85 / 100)) (ss_fuel_drain s) t) (\<lambda>fuel.
     Option.bind (tank_level (lit (90 / 100)) (lit (15 / 100)) (lit (75 / 100)) (ss_water_drain s) t) (\<lambda>fresh.
       Some \<lparr>sv_latitude = pu_latitude pos, sv_longitude = pu_longitude pos, sv_sog = pu_sog pos, sv_cog = pu_cog pos,
             sv_heading = heading, sv_stw = stw, sv_roll = roll, sv_pitch = pitch,
             sv_wind_angle = sine_value m (ss_wind_angle s) t, sv_wind_speed = wind, sv_depth = depth,
             sv_transducer = ss_transducer s,
             sv_water = f_add (sine_value m (ss_water s) t) (noise_offset (ss_water_noise s) t),
             sv_air = f_add (sine_value m (ss_air s) t) (noise_offset (ss_air_noise s) t),
             sv_pressure = f_add (sine_value m (ss_pressure s) t) (noise_offset (ss_pressure_noise s) t),
             sv_humidity = humidity, sv_variation = ss_variation s, sv_propulsion = propulsion,
             sv_fuel_level = fuel, sv_fuel_capacity = ss_fuel_capacity s,
             sv_water_level = fresh, sv_water_capacity = ss_water_capacity s\<rparr>)))))"

section \<open>The delta\<close>

definition pv_f64 :: "string \<Rightarrow> f64 \<Rightarrow> path_value" where
  "pv_f64 p x = path_value_new p (json_f64 x)"

definition navigation_values :: "string \<Rightarrow> simulated_values \<Rightarrow> path_value list" where
  "navigation_values now v =
     [path_value_new ''navigation.position''
        (json_obj [(''latitude'', json_f64 (sv_latitude v)), (''longitude'', json_f64 (sv_longitude v))]),
      pv_f64 ''navigation.speedOverGround'' (sv_sog v),
      pv_f64 ''navigation.courseOverGroundTrue'' (sv_cog v),
      pv_f64 ''navigation.headingMagnetic'' (sv_heading v),
      pv_f64 ''navigation.magneticVariation'' (sv_variation v),
      pv_f64 ''navigation.speedThroughWater'' (sv_stw v),
      path_value_new ''navigation.attitude''
        (json_obj [(''roll'', json_f64 (sv_roll v)), (''pitch'', json_f64 (sv_pitch v)), (''yaw'', json_f64 (Fin 0))]),
      path_value_new ''navigation.datetime'' (JStr now)]"

definition environment_values :: "simulated_values \<Rightarrow> path_value list" where
  "environment_values v =
     [pv_f64 ''environment.wind.angleApparent'' (sv_wind_angle v),
      pv_f64 ''environment.wind.speedApparent'' (sv_wind_speed v),
      pv_f64 ''environment.depth.belowTransducer'' (sv_depth v),
      pv_f64 ''environment.depth.surfaceToTransducer'' (sv_transducer v),
      pv_f64 ''environment.water.temperature'' (sv_water v),
      pv_f64 ''environment.outside.temperature'' (sv_air v),
      pv_f64 ''environment.outside.pressure'' (sv_pressure v),
      pv_f64 ''environment.outside.humidity'' (sv_humidity v)]"

definition engine_values :: "propulsion_values \<Rightarrow> path_value list" where
  "engine_values p =
     [pv_f64 ''propulsion.main.revolutions'' (pp_revolutions p),
      pv_f64 ''propulsion.main.oilTemperature'' (pp_oil p),
      pv_f64 ''propulsion.main.coolantTemperature'' (pp_coolant p),
      pv_f64 ''propulsion.main.fuel.rate'' (pp_fuel_rate p),
      pv_f64 ''electrical.batteries.0.voltage'' (pp_voltage p),
      pv_f64 ''electrical.batteries.0.current'' (pp_current p)]"

definition tank_values :: "simulated_values \<Rightarrow> path_value list" where
  "tank_values v =
     [pv_f64 ''tanks.fuel.0.currentLevel'' (sv_fuel_level v),
      pv_f64 ''tanks.fuel.0.capacity'' (sv_fuel_capacity v),
      pv_f64 ''tanks.freshWater.0.currentLevel'' (sv_water_level v),
      pv_f64 ''tanks.freshWater.0.capacity'' (sv_water_capacity v)]"

definition simulator_delta :: "(datetime \<Rightarrow> string) \<Rightarrow> datetime \<Rightarrow> bool \<Rightarrow> simulated_values \<Rightarrow> delta" where
  "simulator_delta rfc now environment v =
     self_vessel [update_new now (source_plugin ''sensor-data-simulator'')
       (navigation_values (rfc now) v @ (if environment then environment_values v else [])
        @ (case sv_propulsion v of Some p \<Rightarrow> engine_values p | None \<Rightarrow> []) @ tank_values v)]"

section \<open>Sentences\<close>

definition SIM_KNOTS :: f64 where
  "SIM_KNOTS = lit (1943844 / 1000000)"

definition SIM_FEET :: f64 where
  "SIM_FEET = lit (328084 / 100000)"

definition SIM_FATHOMS :: f64 where
  "SIM_FATHOMS = lit (546807 / 1000000)"

definition nmea_checksum :: "string \<Rightarrow> u8" where
  "nmea_checksum body = fold (\<lambda>c acc. acc XOR of_char c) body 0"

definition hex_digit :: "nat \<Rightarrow> char" where
  "hex_digit n = (if n < 10 then char_of (48 + n) else char_of (55 + n))"

definition hex_byte :: "u8 \<Rightarrow> string" where
  "hex_byte w = [hex_digit (unat w div 16), hex_digit (unat w mod 16)]"

definition nmea_line :: "string \<Rightarrow> string" where
  "nmea_line body = CHR ''$'' # body @ CHR ''*'' # hex_byte (nmea_checksum body) @ [CHR 0x0D, CHR 0x0A]"

text \<open>\<^verbatim>\<open>{:.k}\<close>: the exact value with \<open>k\<close> decimals, halves to even, the sign kept when nothing is
  left of the number; \<^verbatim>\<open>{:0w}\<close> fills with zeros (numbers that are not negative only).\<close>

definition pad_zero :: "nat \<Rightarrow> string \<Rightarrow> string" where
  "pad_zero w s = replicate (w - length s) CHR ''0'' @ s"

definition fixed_digits :: "nat \<Rightarrow> rat \<Rightarrow> string" where
  "fixed_digits k q =
     (let s = pad_zero (k + 1) (dec_digits (nat (rne (q * 10 ^ k)))); n = length s - k
      in take n s @ CHR ''.'' # drop n s)"

fun fmt_fixed :: "nat \<Rightarrow> f64 \<Rightarrow> string" where
  "fmt_fixed k NaN = ''NaN''"
| "fmt_fixed k PInf = ''inf''"
| "fmt_fixed k NInf = ''-inf''"
| "fmt_fixed k NZero = CHR ''-'' # fixed_digits k 0"
| "fmt_fixed k (Fin q) = (if q < 0 then CHR ''-'' # fixed_digits k (- q) else fixed_digits k q)"

definition degrees_minutes :: "nat \<Rightarrow> f64 \<Rightarrow> string" where
  "degrees_minutes w deg =
     (let a = f_abs deg; d = f64_as_int 0 (2 ^ 32 - 1) (f_floor a);
          mins = f_mul (f_sub a (round_f64 (of_int d))) (Fin 60)
      in pad_zero w (dec_digits (nat d)) @ pad_zero 7 (fmt_fixed 4 mins))"

definition deg_to_nmea_lat :: "f64 \<Rightarrow> string \<times> char" where
  "deg_to_nmea_lat deg = (degrees_minutes 2 deg, if f_le (Fin 0) deg then CHR ''N'' else CHR ''S'')"

definition deg_to_nmea_lon :: "f64 \<Rightarrow> string \<times> char" where
  "deg_to_nmea_lon deg = (degrees_minutes 3 deg, if f_le (Fin 0) deg then CHR ''E'' else CHR ''W'')"

text \<open>The parts of the current time, as the date library gives them.\<close>

record utc_parts =
  ut_hour :: nat
  ut_minute :: nat
  ut_timestamp :: int
  ut_millis :: nat
  ut_day :: string
  ut_month :: string
  ut_year :: string

definition nmea_time :: "utc_parts \<Rightarrow> string" where
  "nmea_time u =
     pad_zero 2 (dec_digits (ut_hour u)) @ pad_zero 2 (dec_digits (ut_minute u))
     @ pad_zero 5 (fmt_fixed 2 (f_add (f_rem (round_f64 (of_int (ut_timestamp u))) (Fin 60))
         (f_div (round_f64 (of_nat (ut_millis u))) (Fin 1000))))"

definition degrees :: "f64 \<Rightarrow> f64" where
  "degrees x = f_div (f_mul x (Fin 180)) PI"

definition commas :: "string list \<Rightarrow> string" where
  "commas fs = join_with '','' fs"

definition place :: "simulated_values \<Rightarrow> string list" where
  "place v = (let (lat, ns) = deg_to_nmea_lat (sv_latitude v); (lon, ew) = deg_to_nmea_lon (sv_longitude v)
              in [lat, [ns], lon, [ew]])"

definition variation_fields :: "simulated_values \<Rightarrow> string list" where
  "variation_fields v =
     [fmt_fixed 1 (degrees (f_abs (sv_variation v))), if f_le (Fin 0) (sv_variation v) then ''E'' else ''W'']"

definition rmc_fields :: "string \<Rightarrow> utc_parts \<Rightarrow> simulated_values \<Rightarrow> string list" where
  "rmc_fields talker u v =
     ([talker @ ''RMC'', nmea_time u, ''A''] @ place v
      @ [fmt_fixed 1 (f_mul (sv_sog v) SIM_KNOTS), fmt_fixed 1 (degrees (sv_cog v)), ut_day u @ ut_month u @ ut_year u]
      @ variation_fields v @ [''A''])"

definition gga_fields :: "string \<Rightarrow> utc_parts \<Rightarrow> simulated_values \<Rightarrow> string list" where
  "gga_fields talker u v =
     ([talker @ ''GGA'', nmea_time u] @ place v @ [''1'', ''08'', ''1.2'', ''0.0'', ''M'', ''0.0'', ''M'', [], []])"

definition hdg_fields :: "string \<Rightarrow> simulated_values \<Rightarrow> string list" where
  "hdg_fields talker v =
     ([talker @ ''HDG'', fmt_fixed 1 (degrees (sv_heading v)), [], [], []] @ variation_fields v)"

definition vhw_fields :: "string \<Rightarrow> simulated_values \<Rightarrow> string list" where
  "vhw_fields talker v =
     [talker @ ''VHW'', fmt_fixed 1 (degrees (full_turn (f_add (sv_heading v) (sv_variation v)))), ''T'',
      fmt_fixed 1 (degrees (sv_heading v)), ''M'', fmt_fixed 1 (f_mul (sv_stw v) SIM_KNOTS), ''N'',
      fmt_fixed 1 (f_mul (sv_stw v) (lit (36 / 10))), ''K'']"

definition mwv_fields :: "string \<Rightarrow> simulated_values \<Rightarrow> string list" where
  "mwv_fields talker v =
     [talker @ ''MWV'', fmt_fixed 1 (degrees (sv_wind_angle v)), ''R'', fmt_fixed 1 (f_mul (sv_wind_speed v) SIM_KNOTS), ''N'', ''A'']"

definition dbt_fields :: "string \<Rightarrow> simulated_values \<Rightarrow> string list" where
  "dbt_fields talker v =
     [talker @ ''DBT'', fmt_fixed 1 (f_mul (sv_depth v) SIM_FEET), ''f'', fmt_fixed 1 (sv_depth v), ''M'',
      fmt_fixed 1 (f_mul (sv_depth v) SIM_FATHOMS), ''F'']"

definition mtw_fields :: "string \<Rightarrow> simulated_values \<Rightarrow> string list" where
  "mtw_fields talker v = [talker @ ''MTW'', fmt_fixed 1 (f_sub (sv_water v) (lit (27315 / 100))), ''C'']"

definition mda_fields :: "string \<Rightarrow> simulated_values \<Rightarrow> string list" where
  "mda_fields talker v =
     [talker @ ''MDA'', [], ''I'', fmt_fixed 4 (f_div (sv_pressure v) (Fin 100000)), ''B'',
      fmt_fixed 1 (f_sub (sv_air v) (lit (27315 / 100))), ''C'', [], [], fmt_fixed 1 (f_mul (sv_humidity v) (Fin 100)),
      [], [], [], [], [], [], [], [], []]"

definition xdr_fields :: "string \<Rightarrow> simulated_values \<Rightarrow> string list" where
  "xdr_fields talker v =
     [talker @ ''XDR'', ''A'', fmt_fixed 1 (degrees (sv_pitch v)), ''D'', ''PITCH'', ''A'', fmt_fixed 1 (degrees (sv_roll v)), ''D'', ''ROLL'']"

definition simulator_fields :: "string \<Rightarrow> bool \<Rightarrow> utc_parts \<Rightarrow> simulated_values \<Rightarrow> string list list" where
  "simulator_fields talker environment u v =
     [rmc_fields talker u v, gga_fields talker u v, hdg_fields talker v, vhw_fields talker v]
     @ (if environment then [mwv_fields talker v, dbt_fields talker v, mtw_fields talker v, mda_fields talker v] else [])
     @ [xdr_fields talker v]"

definition simulator_sentences :: "string \<Rightarrow> bool \<Rightarrow> utc_parts \<Rightarrow> simulated_values \<Rightarrow> string list" where
  "simulator_sentences talker environment u v = map (\<lambda>fs. nmea_line (commas fs)) (simulator_fields talker environment u v)"

text \<open>The TCP client: whether it is connected, with the talker and the kind of values it sends. The
  network says whether connecting works and which writes do.\<close>

record nmea_client =
  nc_connected :: bool
  nc_talker :: string
  nc_environment :: bool

definition nmea_client_new :: "string \<Rightarrow> bool \<Rightarrow> nmea_client" where
  "nmea_client_new talker environment = \<lparr>nc_connected = False, nc_talker = talker, nc_environment = environment\<rparr>"

fun write_until :: "(nat \<Rightarrow> bool) \<Rightarrow> nat \<Rightarrow> 'a list \<Rightarrow> 'a list \<times> bool" where
  "write_until ok i [] = ([], True)"
| "write_until ok i (x # xs) = (if ok i then (let (ys, b) = write_until ok (Suc i) xs in (x # ys, b)) else ([], False))"

definition nmea_client_send :: "bool \<Rightarrow> (nat \<Rightarrow> bool) \<Rightarrow> utc_parts \<Rightarrow> simulated_values \<Rightarrow> nmea_client
    \<Rightarrow> string list \<times> nmea_client" where
  "nmea_client_send reachable ok u v c =
     (if \<not> nc_connected c \<and> \<not> reachable then ([], c)
      else (let (sent, all) = write_until ok 0 (simulator_sentences (nc_talker c) (nc_environment c) u v)
            in (sent, c\<lparr>nc_connected := all\<rparr>)))"

section \<open>Messages\<close>

datatype sim_message =
    Sim_position f64 f64
  | Sim_cog_sog u8 f64 f64
  | Sim_heading u8 f64 f64
  | Sim_speed u8 f64 f64
  | Sim_wind u8 f64 f64
  | Sim_depth u8 f64 f64

fun sim_pgn :: "sim_message \<Rightarrow> u32" where
  "sim_pgn (Sim_position _ _) = 129025"
| "sim_pgn (Sim_cog_sog _ _ _) = 129026"
| "sim_pgn (Sim_heading _ _ _) = 127250"
| "sim_pgn (Sim_speed _ _ _) = 128259"
| "sim_pgn (Sim_wind _ _ _) = 130306"
| "sim_pgn (Sim_depth _ _ _) = 128267"

fun sim_priority :: "sim_message \<Rightarrow> u8" where
  "sim_priority (Sim_depth _ _ _) = 3"
| "sim_priority _ = 2"

record sim_encoded =
  se_pgn :: u32
  se_priority :: u8
  se_data :: "u8 list"

definition sim_encode_pgn :: "(sim_message \<Rightarrow> u8 list option) \<Rightarrow> sim_message \<Rightarrow> sim_encoded option" where
  "sim_encode_pgn enc x =
     map_option (\<lambda>bs. \<lparr>se_pgn = sim_pgn x, se_priority = sim_priority x, se_data = bs\<rparr>) (enc x)"

definition sim_messages :: "simulated_values \<Rightarrow> u8 \<Rightarrow> bool \<Rightarrow> sim_message list \<times> u8" where
  "sim_messages v sid environment =
     (let xs = [Sim_position (sv_latitude v) (sv_longitude v), Sim_cog_sog sid (sv_cog v) (sv_sog v),
                Sim_heading (sid + 1) (sv_heading v) (sv_variation v), Sim_speed (sid + 2) (sv_stw v) (sv_sog v)]
      in if environment
         then (xs @ [Sim_wind (sid + 3) (sv_wind_speed v) (sv_wind_angle v), Sim_depth (sid + 4) (sv_depth v) (sv_transducer v)], sid + 5)
         else (xs, sid + 3))"

definition sim_encode :: "(sim_message \<Rightarrow> u8 list option) \<Rightarrow> simulated_values \<Rightarrow> u8 \<Rightarrow> bool \<Rightarrow> sim_encoded list \<times> u8" where
  "sim_encode enc v sid environment =
     (let (xs, sid') = sim_messages v sid environment in (List.map_filter (sim_encode_pgn enc) xs, sid'))"

text \<open>The thread of the bus: it opens the interface again and again until it can, and then takes a
  batch at a time from the channel. The log is what went out, with its source address.\<close>

datatype writer_state = Opening | Writing | Ended

datatype writer_event = Open_fails | Opens | Batch "sim_encoded list" "nat \<Rightarrow> bool" | Channel_closed

fun writer_do :: "u8 \<Rightarrow> writer_event \<Rightarrow> writer_state \<times> (u8 \<times> sim_encoded) list \<Rightarrow> writer_state \<times> (u8 \<times> sim_encoded) list" where
  "writer_do source Opens (Opening, out) = (Writing, out)"
| "writer_do source (Batch ps ok) (Writing, out) = (Writing, out @ map (Pair source) (fst (write_until ok 0 ps)))"
| "writer_do source Channel_closed (Writing, out) = (Ended, out)"
| "writer_do source _ x = x"

section \<open>The plugin\<close>

record simulator_config =
  sc_interval :: u64
  sc_lat :: f64
  sc_lon :: f64
  sc_radius :: f64
  sc_period :: f64
  sc_variation :: f64
  sc_propulsion :: bool
  sc_environment :: bool
  sc_direct :: bool
  sc_nmea0183 :: bool
  sc_host :: string
  sc_port :: u16
  sc_talker :: string
  sc_nmea2000 :: bool
  sc_interface :: string
  sc_source :: u8

definition bounded_int :: "nat \<Rightarrow> json \<Rightarrow> 'a::len word option" where
  "bounded_int w j = Option.bind (as_u64 j) (\<lambda>n. if unat n < 2 ^ w then Some (ucast n) else None)"

definition position_config :: "json \<Rightarrow> (f64 \<times> f64) option" where
  "position_config j =
     Option.bind (struct_field [''latitude'', ''longitude''] j) (\<lambda>f.
     Option.bind (decode_default (lit (545 / 10)) as_f64 (f ''latitude'')) (\<lambda>lat.
     Option.bind (decode_default (Fin 10) as_f64 (f ''longitude'')) (\<lambda>lon. Some (lat, lon))))"

definition nmea0183_config :: "json \<Rightarrow> (bool \<times> string \<times> u16 \<times> string) option" where
  "nmea0183_config j =
     Option.bind (struct_field [''enabled'', ''host'', ''port'', ''talker_id''] j) (\<lambda>f.
     Option.bind (decode_default False as_bool (f ''enabled'')) (\<lambda>e.
     Option.bind (decode_default ''127.0.0.1'' as_str (f ''host'')) (\<lambda>h.
     Option.bind (decode_default 10110 (bounded_int 16) (f ''port'')) (\<lambda>p.
     Option.bind (decode_default ''GP'' as_str (f ''talker_id'')) (\<lambda>t. Some (e, h, p, t))))))"

definition nmea2000_config :: "json \<Rightarrow> (bool \<times> string \<times> u8) option" where
  "nmea2000_config j =
     Option.bind (struct_field [''enabled'', ''interface'', ''source_address''] j) (\<lambda>f.
     Option.bind (decode_default False as_bool (f ''enabled'')) (\<lambda>e.
     Option.bind (decode_default ''vcan0'' as_str (f ''interface'')) (\<lambda>i.
     Option.bind (decode_default 42 (bounded_int 8) (f ''source_address'')) (\<lambda>s. Some (e, i, s)))))"

type_synonym output_config = "bool \<times> (bool \<times> string \<times> u16 \<times> string) \<times> (bool \<times> string \<times> u8)"

definition output_default :: output_config where
  "output_default = (True, (False, ''127.0.0.1'', 10110, ''GP''), (False, ''vcan0'', 42))"

definition output_config_of_json :: "json \<Rightarrow> output_config option" where
  "output_config_of_json j =
     Option.bind (struct_field [''direct'', ''nmea0183'', ''nmea2000''] j) (\<lambda>f.
     Option.bind (decode_default True as_bool (f ''direct'')) (\<lambda>d.
     Option.bind (decode_default (fst (snd output_default)) nmea0183_config (f ''nmea0183'')) (\<lambda>a.
     Option.bind (decode_default (snd (snd output_default)) nmea2000_config (f ''nmea2000'')) (\<lambda>b. Some (d, a, b)))))"

definition simulator_config_of_json :: "json \<Rightarrow> simulator_config option" where
  "simulator_config_of_json j =
     Option.bind (struct_field [''update_interval_ms'', ''position'', ''orbit_radius_m'', ''orbit_period_s'',
       ''magnetic_variation_deg'', ''enable_propulsion'', ''enable_environment'', ''output''] j) (\<lambda>f.
     Option.bind (decode_default 1000 as_u64 (f ''update_interval_ms'')) (\<lambda>interval.
     Option.bind (decode_default (lit (545 / 10), Fin 10) position_config (f ''position'')) (\<lambda>(lat, lon).
     Option.bind (decode_default (Fin 200) as_f64 (f ''orbit_radius_m'')) (\<lambda>radius.
     Option.bind (decode_default (Fin 300) as_f64 (f ''orbit_period_s'')) (\<lambda>period.
     Option.bind (decode_default (lit (25 / 10)) as_f64 (f ''magnetic_variation_deg'')) (\<lambda>variation.
     Option.bind (decode_default True as_bool (f ''enable_propulsion'')) (\<lambda>propulsion.
     Option.bind (decode_default True as_bool (f ''enable_environment'')) (\<lambda>environment.
     Option.bind (decode_default output_default output_config_of_json (f ''output'')) (\<lambda>(direct, (e1, host, port, talker), (e2, interface, source)).
       Some \<lparr>sc_interval = interval, sc_lat = lat, sc_lon = lon, sc_radius = radius, sc_period = period, sc_variation = variation,
             sc_propulsion = propulsion, sc_environment = environment, sc_direct = direct,
             sc_nmea0183 = e1, sc_host = host, sc_port = port, sc_talker = talker,
             sc_nmea2000 = e2, sc_interface = interface, sc_source = source\<rparr>)))))))))"

record simulator_task =
  sk_state :: simulator_state
  sk_environment :: bool
  sk_direct :: bool
  sk_nmea0183 :: "nmea_client option"
  sk_nmea2000 :: bool
  sk_sid :: u8

definition simulator_status :: "simulator_config \<Rightarrow> string" where
  "simulator_status c =
     ''Generating data ('' @ join_with '', '' ((if sc_direct c then [''direct''] else [])
       @ (if sc_nmea0183 c then [''nmea0183''] else []) @ (if sc_nmea2000 c then [''nmea2000''] else [])) @ '')''"

text \<open>The start gives the task and the status. The error text of serde is left out. The task ends in a
  panic of \<^verbatim>\<open>tokio::time::interval\<close> when the interval is zero, of which the start knows nothing.\<close>

definition simulator_start :: "json \<Rightarrow> (simulator_task option \<times> string) plugin_result" where
  "simulator_start j =
     (case simulator_config_of_json j of
        None \<Rightarrow> Inl (Config ''invalid simulator config: '')
      | Some c \<Rightarrow> Inr
          (if sc_interval c = 0 then None
           else Some \<lparr>sk_state = simulator_new (sc_lat c) (sc_lon c) (sc_radius c) (sc_period c) (sc_variation c) (sc_propulsion c),
                 sk_environment = sc_environment c, sk_direct = sc_direct c,
                 sk_nmea0183 = (if sc_nmea0183 c then Some (nmea_client_new (sc_talker c) (sc_environment c)) else None),
                 sk_nmea2000 = sc_nmea2000 c, sk_sid = 0\<rparr>,
           simulator_status c))"

text \<open>What a tick gets from outside, and what it gives: the delta for the server, the sentences that
  went out, and the batch for the bus.\<close>

record tick_env =
  tk_libm :: libm
  tk_now :: datetime
  tk_iso :: "datetime \<Rightarrow> string"
  tk_utc :: "datetime \<Rightarrow> utc_parts"
  tk_reachable :: bool
  tk_writes :: "nat \<Rightarrow> bool"
  tk_encode :: "sim_message \<Rightarrow> u8 list option"

record tick_output =
  to_delta :: "delta option"
  to_sentences :: "string list"
  to_batch :: "sim_encoded list option"

definition simulator_tick :: "tick_env \<Rightarrow> f64 \<Rightarrow> simulator_task \<Rightarrow> (tick_output \<times> simulator_task) option" where
  "simulator_tick env t x =
     Option.bind (tick_at (tk_libm env) (sk_state x) t) (\<lambda>v.
       let (sent, client) = (case sk_nmea0183 x of
              None \<Rightarrow> ([], None)
            | Some c \<Rightarrow> (let (ss, c') = nmea_client_send (tk_reachable env) (tk_writes env) (tk_utc env (tk_now env)) v c in (ss, Some c')));
           (batch, sid) = (if sk_nmea2000 x then (let (ps, i) = sim_encode (tk_encode env) v (sk_sid x) (sk_environment x) in (Some ps, i))
              else (None, sk_sid x))
       in Some (\<lparr>to_delta = (if sk_direct x then Some (simulator_delta (tk_iso env) (tk_now env) (sk_environment x) v) else None),
                 to_sentences = sent, to_batch = batch\<rparr>,
                x\<lparr>sk_nmea0183 := client, sk_sid := sid\<rparr>))"

end
