(* ===== verification/SimulatorSpec.thy ===== *)
theory SimulatorSpec
  imports Simulator F64Error
begin

text \<open>
  Properties of the simulator: its values stay in their physical ranges whatever the noise, its
  sentences read back with a right checksum, its delta names each path once; the minutes of a
  position can be rounded up to sixty, and the thread of the bus neither opens the interface a second
  time nor ends while it can not open it.
\<close>

declare dec_digits.simps [simp del]

section \<open>Magnitudes\<close>

text \<open>A finite number of magnitude at most a power of two: rounding keeps this.\<close>

definition pow_bounded :: "nat \<Rightarrow> f64 \<Rightarrow> bool" where
  "pow_bounded k x \<longleftrightarrow> is_finite x \<and> \<bar>rv x\<bar> \<le> 2 ^ k"

lemma pow_boundedD: "pow_bounded k x \<Longrightarrow> is_finite x" "pow_bounded k x \<Longrightarrow> \<bar>rv x\<bar> \<le> 2 ^ k"
  by (simp_all add: pow_bounded_def)

lemma pow_bounded_mono: "pow_bounded j x \<Longrightarrow> j \<le> k \<Longrightarrow> pow_bounded k x"
  using power_increasing [of j k "2 :: rat"] order_trans [of "\<bar>rv x\<bar>" "2 ^ j" "2 ^ k"] by (auto simp: pow_bounded_def)

lemma round_pow: "k \<le> 900 \<Longrightarrow> round_f64 (2 ^ k) = Fin (2 ^ k)" "k \<le> 900 \<Longrightarrow> round_f64 (- (2 ^ k)) = Fin (- (2 ^ k))"
proof -
  assume k: "k \<le> 900"
  from k show "round_f64 (2 ^ k) = Fin (2 ^ k)" "round_f64 (- (2 ^ k)) = Fin (- (2 ^ k))"
    using round_exact [of 1 "int k" "2 ^ k"] round_exact [of "- 1" "int k" "- (2 ^ k)"] by (simp_all add: power_int_def)
qed

lemma round_bounded: "\<bar>q\<bar> \<le> 2 ^ k \<Longrightarrow> k \<le> 900 \<Longrightarrow> pow_bounded k (round_f64 q)"
proof -
  assume h: "\<bar>q\<bar> \<le> 2 ^ k" "k \<le> 900"
  then have "f_le (Fin (- (2 ^ k))) (round_f64 q)" "f_le (round_f64 q) (Fin (2 ^ k))"
    using round_mono [of "- (2 ^ k)" q] round_mono [of q "2 ^ k"] by (auto simp: round_pow)
  then show ?thesis by (cases "round_f64 q") (auto simp: pow_bounded_def abs_le_iff)
qed

lemma pow_bounded_add:
  assumes "pow_bounded k x" "pow_bounded k y" and "k < 900" shows "pow_bounded (Suc k) (f_add x y)"
proof (cases "x = NZero \<and> y = NZero")
  case True
  then show ?thesis by (simp add: pow_bounded_def)
next
  case False
  have "\<bar>rv x + rv y\<bar> \<le> \<bar>rv x\<bar> + \<bar>rv y\<bar>" by (rule abs_triangle_ineq)
  also have "\<dots> \<le> 2 ^ Suc k" using pow_boundedD(2) [OF assms(1)] pow_boundedD(2) [OF assms(2)] by simp
  finally have "\<bar>rv x + rv y\<bar> \<le> 2 ^ Suc k" .
  from round_bounded [OF this] assms False show ?thesis by (simp add: pow_bounded_def f_add_finite)
qed

lemma pow_bounded_neg: "pow_bounded k x \<Longrightarrow> pow_bounded k (f_neg x)"
  by (simp add: pow_bounded_def)

lemma pow_bounded_sub:
  "pow_bounded k x \<Longrightarrow> pow_bounded k y \<Longrightarrow> k < 900 \<Longrightarrow> pow_bounded (Suc k) (f_sub x y)"
  unfolding f_sub_def by (intro pow_bounded_add pow_bounded_neg)

lemma finite_not_nan: "is_finite x \<Longrightarrow> \<not> is_nan x"
  by (cases x) auto

lemma signed_zero_bounded [simp]: "pow_bounded k (signed_zero b)"
  by (simp add: signed_zero_def pow_bounded_def)

lemma pow_bounded_mul:
  assumes "pow_bounded i x" "pow_bounded j y" and "i + j \<le> 900" shows "pow_bounded (i + j) (f_mul x y)"
proof -
  have "\<bar>rv x * rv y\<bar> \<le> 2 ^ (i + j)"
    using assms(1,2) mult_mono [of "\<bar>rv x\<bar>" "2 ^ i" "\<bar>rv y\<bar>" "2 ^ j"] by (simp add: pow_bounded_def abs_mult power_add)
  from round_bounded [OF this assms(3)] assms(1,2) show ?thesis
    by (simp add: f_mul_def Let_def finite_not_nan pow_boundedD)
qed

lemma pow_bounded_div:
  assumes "pow_bounded k x" and "is_finite y" "1 \<le> \<bar>rv y\<bar>" and "k \<le> 900" shows "pow_bounded k (f_div x y)"
proof -
  have "\<bar>rv x\<bar> * 1 \<le> 2 ^ k * \<bar>rv y\<bar>"
    using assms(1,3) by (intro mult_mono) (simp_all add: pow_bounded_def)
  then have "\<bar>rv x / rv y\<bar> \<le> 2 ^ k"
    using assms(3) by (auto simp: abs_divide divide_le_eq)
  from round_bounded [OF this assms(4)] assms show ?thesis
    by (auto simp: f_div_def Let_def finite_not_nan pow_boundedD)
qed

lemma pow_bounded_rem:
  assumes "is_finite x" and "pow_bounded k y" and "0 < rv y" shows "pow_bounded k (f_rem x y)"
proof -
  have "\<bar>rv x - rv y * of_int (trunc (rv x / rv y))\<bar> \<le> 2 ^ k"
    using trunc_rem(1) [OF assms(3), of "rv x"] assms(2) by (simp add: pow_bounded_def)
  then have "pow_bounded k (Fin (rv x - rv y * of_int (trunc (rv x / rv y))))" by (simp add: pow_bounded_def)
  with assms show ?thesis by (simp add: f_rem_def Let_def finite_not_nan pow_boundedD)
qed

text \<open>The constants.\<close>

lemma lit_bounded: "\<bar>q\<bar> \<le> 2 ^ k \<Longrightarrow> k \<le> 900 \<Longrightarrow> pow_bounded k (lit q)"
  unfolding lit_def by (rule round_bounded)

lemma Fin_bounded: "\<bar>q\<bar> \<le> 2 ^ k \<Longrightarrow> pow_bounded k (Fin q)"
  by (simp add: pow_bounded_def)

lemma PI_bounded: "pow_bounded 2 PI"
  by (simp add: pow_bounded_def)

lemma lit_ge: "of_int i \<le> q \<Longrightarrow> \<bar>i\<bar> < 2 ^ 53 \<Longrightarrow> f_le (Fin (of_int i)) (lit q)"
  unfolding lit_def using round_mono [of "of_int i" q] round_of_int [of i] by simp

lemma lit_ge_1: "1 \<le> q \<Longrightarrow> q \<le> 2 ^ 10 \<Longrightarrow> is_finite (lit q) \<and> 1 \<le> \<bar>rv (lit q)\<bar>"
  using lit_ge [of 1 q] lit_bounded [of q 10] by (auto simp: pow_bounded_def f_le_finite)

lemma lit_mono: "p \<le> q \<Longrightarrow> f_le (lit p) (lit q)"
  unfolding lit_def by (rule round_mono)

section \<open>Noise\<close>

lemma hash_bounded: "pow_bounded 0 (hash_f64 seed)"
proof -
  have d: "round_f64 (of_nat (unat (- 1 :: u64))) = Fin (2 ^ 64)"
  proof -
    have u: "unat (- 1 :: u64) = 2 ^ 64 - 1" by (simp add: unsigned_minus_1_eq_mask mask_eq_exp_minus_1)
    define q :: rat where "q = 2 ^ 64 - 1"
    have b: "2 powi 63 \<le> q" "q < 2 powi 64" by (simp_all add: q_def power_int_def)
    have "ilog2 q = 63"
      using ilog2_bounds [of q] b powi_less_cancel [of "ilog2 q" 64] powi_less_cancel [of 63 "ilog2 q + 1"] by auto
    then have e: "ulp_exp q = 11" by (simp add: ulp_exp_def)
    have "rne (q / 2 powi 11) = 2 ^ 53" by (rule rne_near) (simp add: q_def power_int_def)
    then have "mag q = 2 ^ 64" by (simp add: mag_def e power_int_def)
    then have "round_f64 q = Fin (2 ^ 64)" by (simp add: round_f64_def Let_def q_def)
    then show ?thesis by (simp add: u q_def)
  qed
  have "pow_bounded 0 (f_div (round_f64 (of_nat (unat z))) (Fin (2 ^ 64)))" for z :: u64
  proof -
    have "unat z < 2 ^ 64" using unsigned_less [of z, where ?'a = nat] by simp
    then have "(of_nat (unat z) :: rat) < of_nat (2 ^ 64)" by (simp only: of_nat_less_iff)
    then have "(of_nat (unat z) :: rat) \<le> 2 ^ 64" by (simp only: of_nat_power of_nat_numeral less_imp_le)
    then have "\<bar>of_nat (unat z) :: rat\<bar> \<le> 2 ^ 64" by (simp only: abs_of_nat)
    then have r: "pow_bounded 64 (round_f64 (of_nat (unat z)))" by (rule round_bounded) simp
    have "\<bar>rv (round_f64 (of_nat (unat z))) / 2 ^ 64\<bar> \<le> 2 ^ 0" using r by (simp add: pow_bounded_def abs_divide)
    from round_bounded [OF this] r show ?thesis
      by (auto simp: f_div_def Let_def finite_not_nan pow_boundedD)
  qed
  then show ?thesis unfolding hash_f64_def Let_def d .
qed

lemma normal_bounded: "pow_bounded 7 (pseudo_normal seed)"
proof -
  have step: "pow_bounded (Suc k) (f_add acc (hash_f64 s))" if "pow_bounded k acc" "k < 900" for k acc s
    using that hash_bounded by (intro pow_bounded_add) (auto intro: pow_bounded_mono)
  have z: "pow_bounded 0 (Fin 0)" by (simp add: pow_bounded_def)
  have "pow_bounded (Suc (Suc (Suc (Suc (Suc (Suc 0))))))
      (fold (\<lambda>i acc. f_add acc (hash_f64 (seed + i * 7919))) [0, 1, 2, 3, 4, 5] (Fin 0))"
    by (simp only: fold.simps o_apply id_apply) (intro step z; simp)
  then have "pow_bounded 6 (fold (\<lambda>i acc. f_add acc (hash_f64 (seed + i * 7919))) [0, 1, 2, 3, 4, 5] (Fin 0))"
    by (simp add: eval_nat_numeral)
  then have "pow_bounded (Suc 6) (f_sub (fold (\<lambda>i acc. f_add acc (hash_f64 (seed + i * 7919))) [0, 1, 2, 3, 4, 5] (Fin 0)) (Fin 3))"
    by (intro pow_bounded_sub Fin_bounded) simp_all
  then have "pow_bounded 7 (f_sub (fold (\<lambda>i acc. f_add acc (hash_f64 (seed + i * 7919))) [0, 1, 2, 3, 4, 5] (Fin 0)) (Fin 3))"
    by simp
  then show ?thesis
    unfolding pseudo_normal_def Let_def using lit_ge_1 [of "3 / 2"] by (intro pow_bounded_div) simp_all
qed

lemma fract_bounded: "is_finite x \<Longrightarrow> pow_bounded 0 (f_fract x)"
proof -
  assume x: "is_finite x"
  have t: "is_finite (f_trunc x)" "rv (f_trunc x) = of_int (trunc (rv x))"
    using x by (cases x; auto simp: trunc_def)+
  have "\<bar>rv x - of_int (trunc (rv x))\<bar> \<le> 2 ^ 0" by (auto simp: trunc_def; linarith)
  from round_bounded [OF this] t x show ?thesis
    by (auto simp: f_fract_def f_sub_def f_add_finite pow_bounded_def)
qed

lemma noise_bounded:
  assumes "pow_bounded 70 t" and "is_finite (ng_step g)" "1 \<le> \<bar>rv (ng_step g)\<bar>" and "pow_bounded 4 (ng_amplitude g)"
  shows "pow_bounded 13 (noise_offset g t)"
proof -
  have fr: "pow_bounded 0 (f_fract (f_div t (ng_step g)))"
    using pow_bounded_div [OF assms(1-3)] by (intro fract_bounded) (simp add: pow_boundedD)
  have "pow_bounded (8 + 0) (f_mul (f_sub (pseudo_normal b) (pseudo_normal a)) (f_fract (f_div t (ng_step g))))" for a b
    using pow_bounded_sub [OF normal_bounded normal_bounded, of b a] fr by (intro pow_bounded_mul) (simp_all add: eval_nat_numeral)
  then have "pow_bounded (Suc 8) (f_add (pseudo_normal a) (f_mul (f_sub (pseudo_normal b) (pseudo_normal a)) (f_fract (f_div t (ng_step g)))))" for a b
    by (intro pow_bounded_add pow_bounded_mono [OF normal_bounded]) simp_all
  then have "pow_bounded (9 + 4) (f_mul (f_add (pseudo_normal a) (f_mul (f_sub (pseudo_normal b) (pseudo_normal a))
      (f_fract (f_div t (ng_step g))))) (ng_amplitude g))" for a b
    using assms(4) by (intro pow_bounded_mul) (simp_all add: eval_nat_numeral)
  then show ?thesis by (simp add: noise_offset_def Let_def)
qed

section \<open>Ranges\<close>

definition cos_ok :: "libm \<Rightarrow> bool" where
  "cos_ok m \<longleftrightarrow> (\<forall>x. is_finite x \<longrightarrow> is_finite (m_cos m x) \<and> \<bar>rv (m_cos m x)\<bar> \<le> 1)"

definition sine_ok :: "sine_generator \<Rightarrow> bool" where
  "sine_ok g \<longleftrightarrow> pow_bounded 17 (sg_min g) \<and> pow_bounded 17 (sg_max g) \<and> pow_bounded 10 (sg_period g) \<and> 1 \<le> rv (sg_period g)
     \<and> pow_bounded 10 (sg_phase g)"

lemma sine_bounded:
  assumes "cos_ok m" "sine_ok g" and t: "pow_bounded 64 t"
  shows "pow_bounded 20 (sine_value m g t)"
proof -
  let ?u = "f_div (f_rem (f_add t (sg_phase g)) (sg_period g)) (sg_period g)"
  have p: "is_finite (sg_period g)" "1 \<le> \<bar>rv (sg_period g)\<bar>" "0 < rv (sg_period g)" "pow_bounded 10 (sg_period g)"
    using assms(2) by (auto simp: sine_ok_def pow_bounded_def)
  have "pow_bounded (Suc 64) (f_add t (sg_phase g))"
    using assms(2) t by (intro pow_bounded_add) (auto simp: sine_ok_def intro: pow_bounded_mono)
  then have "pow_bounded 10 ?u"
    by (intro pow_bounded_div pow_bounded_rem p) (simp_all add: pow_boundedD)
  then have "pow_bounded (10 + 1 + 2) (f_mul (f_mul ?u (Fin 2)) PI)"
    by (intro pow_bounded_mul PI_bounded Fin_bounded) simp_all
  then have c: "pow_bounded 0 (m_cos m (f_mul (f_mul ?u (Fin 2)) PI))"
    using assms(1) by (simp add: cos_ok_def pow_bounded_def)
  have "pow_bounded (Suc 0) (f_sub (Fin 1) (m_cos m (f_mul (f_mul ?u (Fin 2)) PI)))"
    by (intro pow_bounded_sub c Fin_bounded) simp_all
  moreover have "pow_bounded 0 (lit (1 / 2))" by (rule lit_bounded) simp_all
  ultimately have "pow_bounded (0 + Suc 0) (f_mul (lit (1 / 2)) (f_sub (Fin 1) (m_cos m (f_mul (f_mul ?u (Fin 2)) PI))))"
    by (intro pow_bounded_mul) simp_all
  moreover have "pow_bounded (Suc 17) (f_sub (sg_max g) (sg_min g))"
    using assms(2) by (intro pow_bounded_sub) (simp_all add: sine_ok_def)
  ultimately have "pow_bounded (0 + Suc 0 + Suc 17) (f_mul (f_mul (lit (1 / 2)) (f_sub (Fin 1) (m_cos m (f_mul (f_mul ?u (Fin 2)) PI)))) (f_sub (sg_max g) (sg_min g)))"
    by (rule pow_bounded_mul) simp_all
  then have "pow_bounded (Suc 19) (sine_value m g t)"
    unfolding sine_value_def Let_def using assms(2)
    by (intro pow_bounded_add) (auto simp: sine_ok_def eval_nat_numeral intro: pow_bounded_mono)
  then show ?thesis by simp
qed

lemma f_max_ge: "x \<noteq> NaN \<Longrightarrow> f_le x (f_max y x)"
  by (cases "is_nan y") (auto simp: f_max_def f_le_refl f_not_lt, cases y, auto simp: f_not_lt)

lemma f_max_bounded: "pow_bounded k x \<Longrightarrow> pow_bounded k y \<Longrightarrow> pow_bounded k (f_max x y)"
  by (simp add: f_max_def)

lemma full_turn_between:
  assumes "pow_bounded k x" shows "f_le (Fin 0) (full_turn x) \<and> f_le (full_turn x) TWO_PI" and "pow_bounded 3 (full_turn x)"
  using full_turn_range [of x] assms by (auto simp: pow_bounded_def f_le_finite)

lemma clamp_finite:
  assumes "f_le lo hi" and "is_finite x" shows "\<exists>y. f_clamp x lo hi = Some y \<and> f_le lo y \<and> f_le y hi"
proof -
  obtain y where "f_clamp x lo hi = Some y" using f_clamp_Some_iff [of x lo hi] assms(1) by auto
  moreover have "x \<noteq> NaN" using assms(2) by auto
  ultimately show ?thesis using f_clamp_bounds by blast
qed

text \<open>A tank is never fuller than full nor emptier than its low level, however long it is drained.\<close>

lemma tank_level_range:
  assumes "low \<le> full" "0 \<le> low" "full \<le> 1" and "0 < rv (lit width)" "width \<le> 1" "0 \<le> width"
    and "pow_bounded 3 drain" "pow_bounded 64 t"
  shows "\<exists>y. tank_level (lit full) (lit low) (lit width) drain t = Some y \<and> f_le (lit low) y \<and> f_le y (lit full)"
proof -
  have l: "pow_bounded 0 (lit full)" "pow_bounded 0 (lit width)" using assms by (auto intro!: lit_bounded)
  have d: "pow_bounded (3 + 64) (f_mul drain t)" using assms by (intro pow_bounded_mul) simp_all
  have "pow_bounded (Suc 67) (f_sub (lit full) (f_mul drain t))"
    using d l by (intro pow_bounded_sub) (auto intro: pow_bounded_mono)
  moreover have "pow_bounded (Suc 0) (f_sub (lit full) (f_rem (f_mul drain t) (lit width)))"
    using l by (intro pow_bounded_sub pow_bounded_rem pow_boundedD(1) [OF d] assms) simp_all
  ultimately show ?thesis
    unfolding tank_level_def Let_def using assms(1)
    by (intro clamp_finite lit_mono) (auto simp: pow_boundedD)
qed

lemma lit_fraction: "1 / 2 \<le> q \<Longrightarrow> 0 < rv (lit q) \<or> \<not> is_finite (lit q)"
  using lit_mono [of "1 / 2" q] lit_half by (cases "is_finite (lit q)") (auto simp: f_le_finite)

definition physical :: "simulated_values \<Rightarrow> bool" where
  "physical v \<longleftrightarrow>
     f_le (Fin 0) (sv_sog v) \<and> f_le (Fin 0) (sv_stw v) \<and> f_le (Fin 0) (sv_wind_speed v) \<and> f_le (lit (1 / 2)) (sv_depth v)
     \<and> (f_le (Fin 0) (sv_cog v) \<and> f_le (sv_cog v) TWO_PI) \<and> (f_le (Fin 0) (sv_heading v) \<and> f_le (sv_heading v) TWO_PI)
     \<and> (f_le (Fin 0) (sv_humidity v) \<and> f_le (sv_humidity v) (Fin 1))
     \<and> (f_le (lit (10 / 100)) (sv_fuel_level v) \<and> f_le (sv_fuel_level v) (lit (95 / 100)))
     \<and> (f_le (lit (15 / 100)) (sv_water_level v) \<and> f_le (sv_water_level v) (lit (90 / 100)))
     \<and> (\<forall>p. sv_propulsion v = Some p \<longrightarrow>
          f_le (Fin 0) (pp_revolutions p) \<and> f_le (Fin 0) (pp_fuel_rate p) \<and> f_le (Fin 0) (pp_current p))"

lemma propulsion_physical:
  "\<exists>p. propulsion_at m s sog t = Some p \<and> f_le (Fin 0) (pp_revolutions p) \<and> f_le (Fin 0) (pp_fuel_rate p) \<and> f_le (Fin 0) (pp_current p)"
proof -
  have c: "\<exists>y. correlated_value g x t = Some y" for g x
    using f_clamp_Some_iff [of "f_div x (co_max_input g)" "Fin 0" "Fin 1"] by (auto simp: correlated_value_def)
  obtain r where r: "correlated_value (ss_rpm s) sog t = Some r" using c by blast
  obtain a where a: "correlated_value (ss_fuel_rate s) (f_max r (Fin 0)) t = Some a" using c by blast
  obtain b where b: "correlated_value (ss_current s) (f_max r (Fin 0)) t = Some b" using c by blast
  show ?thesis by (simp add: propulsion_at_def Let_def r a b f_max_ge)
qed

definition plausible_setup :: "f64 \<Rightarrow> f64 \<Rightarrow> f64 \<Rightarrow> bool" where
  "plausible_setup radius period variation \<longleftrightarrow>
     pow_bounded 64 radius \<and> pow_bounded 64 variation \<and> is_finite period \<and> 1 \<le> rv period"

lemma position_physical:
  fixes lat lon
  assumes "cos_ok m" "plausible_setup radius period variation" "pow_bounded 64 t"
  defines "g \<equiv> position_new lat lon radius period"
  shows "f_le (Fin 0) (pu_sog (position_generate m g t))"
    and "f_le (Fin 0) (pu_cog (position_generate m g t)) \<and> f_le (pu_cog (position_generate m g t)) TWO_PI"
    and "pow_bounded 3 (pu_cog (position_generate m g t))"
proof -
  have "pow_bounded 64 (f_div t (po_period g))"
    using assms by (intro pow_bounded_div) (simp_all add: plausible_setup_def position_new_def)
  then have a: "pow_bounded (64 + 1 + 2) (f_mul (f_mul (f_div t (po_period g)) (Fin 2)) PI)"
    by (intro pow_bounded_mul PI_bounded Fin_bounded) simp_all
  have "pow_bounded (Suc 67) (f_add (f_mul (f_mul (f_div t (po_period g)) (Fin 2)) PI) (f_div PI (Fin 2)))"
    using a by (intro pow_bounded_add pow_bounded_div pow_bounded_mono [OF PI_bounded]) simp_all
  note full_turn_between [OF this]
  then show "f_le (Fin 0) (pu_cog (position_generate m g t)) \<and> f_le (pu_cog (position_generate m g t)) TWO_PI"
    "pow_bounded 3 (pu_cog (position_generate m g t))"
    by (simp_all add: position_generate_def Let_def)
  show "f_le (Fin 0) (pu_sog (position_generate m g t))"
    by (simp add: position_generate_def Let_def f_max_ge)
qed

lemma generators_ok:
  "sine_ok (ss_humidity (simulator_new lat lon radius period variation propulsion))"
proof -
  have "pow_bounded 17 (lit (50 / 100))" "pow_bounded 17 (lit (85 / 100))" by (rule lit_bounded; simp)+
  then show ?thesis by (simp add: simulator_new_def sine_ok_def sine_new_def with_phase_def Fin_bounded)
qed


lemma demo_cos_ok: "cos_ok demo_libm"
  by (simp add: cos_ok_def demo_libm_def)


section \<open>Sentences\<close>

text \<open>A receiver: what is between the dollar and the star, when the two digits that follow are its
  checksum and the line ends there.\<close>

definition receive_line :: "string \<Rightarrow> string option" where
  "receive_line s =
     (case s of
        [] \<Rightarrow> None
      | c # r \<Rightarrow> (let body = takeWhile (\<lambda>x. x \<noteq> CHR ''*'') r in
          if c = CHR ''$'' \<and> dropWhile (\<lambda>x. x \<noteq> CHR ''*'') r = CHR ''*'' # hex_byte (nmea_checksum body) @ [CHR 0x0D, CHR 0x0A]
          then Some body else None))"

definition clean :: "string \<Rightarrow> bool" where
  "clean s \<longleftrightarrow> CHR ''*'' \<notin> set s \<and> CHR '','' \<notin> set s"

lemma receive_line_sent: "CHR ''*'' \<notin> set body \<Longrightarrow> receive_line (nmea_line body) = Some body"
  by (simp add: receive_line_def nmea_line_def takeWhile_append2 dropWhile_append2 Let_def) (auto simp: takeWhile_append)

lemma clean_append [simp]: "clean (s @ t) \<longleftrightarrow> clean s \<and> clean t"
  by (auto simp: clean_def)

lemma clean_Cons [simp]: "clean (c # s) \<longleftrightarrow> c \<noteq> CHR ''*'' \<and> c \<noteq> CHR '','' \<and> clean s"
  by (auto simp: clean_def)

lemma clean_Nil [simp]: "clean []"
  by (simp add: clean_def)

lemma clean_digits [simp]: "clean (dec_digits n)"
proof (induction n rule: dec_digits.induct)
  case (1 n)
  have d: "clean [char_of (48 + k)]" if "k < 10" for k :: nat
  proof -
    from that have "(of_char (char_of (48 + k) :: char) :: nat) = 48 + k" by (simp add: of_char_of)
    then have "(char_of (48 + k) :: char) \<noteq> c" if "(of_char c :: nat) < 48" for c
      using that by (metis not_add_less1)
    from this [of "CHR ''*''"] this [of "CHR '',''"] show ?thesis by simp
  qed
  show ?case using 1 d [of n] d [of "n mod 10"] by (subst dec_digits.simps) (simp del: clean_Cons)
qed

lemma clean_replicate [simp]: "clean (replicate n CHR ''0'')"
  by (auto simp: clean_def)

lemma clean_pad [simp]: "clean (pad_zero w s) \<longleftrightarrow> clean s"
  by (simp add: pad_zero_def)

lemma clean_parts: "clean s \<Longrightarrow> clean (take n s)" "clean s \<Longrightarrow> clean (drop n s)"
  using set_take_subset [of n s] set_drop_subset [of n s] by (auto simp: clean_def)

lemma clean_fixed [simp]: "clean (fixed_digits k q)"
  by (simp add: fixed_digits_def Let_def clean_parts)

lemma clean_fmt [simp]: "clean (fmt_fixed k x)"
  by (cases x) simp_all

lemma clean_time [simp]: "clean (nmea_time u)"
  by (simp add: nmea_time_def)

lemma clean_place [simp]: "list_all clean (place v)"
  by (simp add: place_def deg_to_nmea_lat_def deg_to_nmea_lon_def degrees_minutes_def Let_def)

lemma clean_variation [simp]: "list_all clean (variation_fields v)"
  by (simp add: variation_fields_def)

lemma star_commas: "list_all clean fs \<Longrightarrow> CHR ''*'' \<notin> set (commas fs)"
  unfolding commas_def by (induction "[CHR '','']" fs rule: join_with.induct) (auto simp: clean_def)

lemma split_commas: "list_all clean fs \<Longrightarrow> fs \<noteq> [] \<Longrightarrow> split_on CHR '','' (commas fs) = fs"
  unfolding commas_def by (intro split_join_on) (auto simp: clean_def list_all_iff)

lemma fields_clean:
  assumes "clean talker" and "clean (ut_day u)" "clean (ut_month u)" "clean (ut_year u)"
  shows "list_all (\<lambda>fs. list_all clean fs \<and> fs \<noteq> []) (simulator_fields talker environment u v)"
  using assms unfolding simulator_fields_def rmc_fields_def gga_fields_def hdg_fields_def vhw_fields_def mwv_fields_def
    dbt_fields_def mtw_fields_def mda_fields_def xdr_fields_def
  by simp


definition demo_utc :: utc_parts where
  "demo_utc = \<lparr>ut_hour = 12, ut_minute = 5, ut_timestamp = 1700000000, ut_millis = 250, ut_day = ''14'', ut_month = ''11'', ut_year = ''23''\<rparr>"

definition demo_values :: simulated_values where
  "demo_values = \<lparr>sv_latitude = Fin (109 / 2), sv_longitude = Fin 10, sv_sog = Fin 4, sv_cog = Fin 1, sv_heading = Fin 1, sv_stw = Fin 4,
     sv_roll = Fin 0, sv_pitch = NZero, sv_wind_angle = Fin (- 1), sv_wind_speed = Fin 5, sv_depth = Fin 8, sv_transducer = Fin (1 / 2),
     sv_water = Fin 285, sv_air = Fin 290, sv_pressure = Fin 101325, sv_humidity = Fin (1 / 2), sv_variation = Fin 0,
     sv_propulsion = None, sv_fuel_level = Fin (1 / 2), sv_fuel_capacity = Fin (1 / 5), sv_water_level = Fin (1 / 2),
     sv_water_capacity = Fin (1 / 8)\<rparr>"


text \<open>A position less than a ten-thousandth of a minute below a full degree is written with sixty
  minutes: the number is rounded after the degrees were taken off.\<close>

theorem minutes_reach_sixty: "degrees_minutes 2 (Fin (55 - 1 / 2 ^ 33)) = ''5460.0000''"
proof -
  let ?q = "55 - 1 / 2 ^ 33 :: rat"
  have fl: "\<lfloor>?q\<rfloor> = 54" by (simp add: floor_eq_iff)
  have d: "f64_as_int 0 (2 ^ 32 - 1) (f_floor (Fin ?q)) = 54" unfolding f_floor.simps fl by (simp add: trunc_def)
  have r54: "round_f64 54 = Fin 54" using round_of_int [of 54] by simp
  have m: "f_sub (Fin ?q) (Fin 54) = Fin (1 - 1 / 2 ^ 33)"
  proof -
    have "round_f64 (1 - 1 / 2 ^ 33) = Fin (1 - 1 / 2 ^ 33)"
      by (rule round_exact [of "2 ^ 33 - 1" "- 33"]) (simp_all add: power_int_minus_divide)
    then show ?thesis by (simp add: f_sub_def)
  qed
  have p: "f_mul (Fin (1 - 1 / 2 ^ 33)) (Fin 60) = Fin (60 - 60 / 2 ^ 33)"
  proof -
    have "round_f64 (60 - 60 / 2 ^ 33) = Fin (60 - 60 / 2 ^ 33)"
      by (rule round_exact [of "60 * 2 ^ 33 - 60" "- 33"]) (simp_all add: power_int_minus_divide)
    then show ?thesis by (simp add: f_mul_def Let_def)
  qed
  have r: "rne ((60 - 60 / 2 ^ 33) * 10 ^ 4) = 600000" by (rule rne_near) simp
  have ch: "char_of (48 :: nat) = CHR ''0''" "char_of (54 :: nat) = CHR ''6''" by code_simp+
  have d6: "dec_digits 600000 = ''600000''"
    by (simp add: dec_digits.simps [of 600000] dec_digits.simps [of 60000] dec_digits.simps [of 6000] dec_digits.simps [of 600]
        dec_digits.simps [of 60] dec_digits.simps [of 6] ch)
  have x: "fixed_digits 4 (60 - 60 / 2 ^ 33) = ''60.0000''"
    unfolding fixed_digits_def Let_def r by (simp add: pad_zero_def d6)
  have nn: "\<not> (60 - 60 / 2 ^ 33 :: rat) < 0" by simp
  have dd: "dec_digits 54 = ''54''" by code_simp
  have ab: "f_abs (Fin ?q) = Fin ?q" by simp
  show ?thesis
    unfolding degrees_minutes_def Let_def ab d
    by (simp only: of_int_numeral r54 m p fmt_fixed.simps nn if_False x) (simp add: pad_zero_def dd)
qed

section \<open>The delta\<close>

lemma distinct_parts:
  "distinct (a @ b @ c @ d) \<Longrightarrow> b' = b \<or> b' = [] \<Longrightarrow> c' = c \<or> c' = [] \<Longrightarrow> distinct (a @ b' @ c' @ d)"
  by auto

text \<open>The delta of a tick has one update of the own vessel that names each path once.\<close>

theorem simulator_paths_once:
  "\<exists>u. d_updates (simulator_delta rfc now environment v) = [u] \<and> distinct (map pv_path (u_values u))"
proof (intro exI conjI)
  show "d_updates (simulator_delta rfc now environment v)
      = [update_new now (source_plugin ''sensor-data-simulator'')
       (navigation_values (rfc now) v @ (if environment then environment_values v else [])
        @ (case sv_propulsion v of Some p \<Rightarrow> engine_values p | None \<Rightarrow> []) @ tank_values v)]"
    by (simp add: simulator_delta_def self_vessel_def)
  have *: "map pv_path (navigation_values t v @ environment_values v @ engine_values p @ tank_values v) =
     [''navigation.position'', ''navigation.speedOverGround'', ''navigation.courseOverGroundTrue'', ''navigation.headingMagnetic'',
      ''navigation.magneticVariation'', ''navigation.speedThroughWater'', ''navigation.attitude'', ''navigation.datetime'',
      ''environment.wind.angleApparent'', ''environment.wind.speedApparent'', ''environment.depth.belowTransducer'',
      ''environment.depth.surfaceToTransducer'', ''environment.water.temperature'', ''environment.outside.temperature'',
      ''environment.outside.pressure'', ''environment.outside.humidity'',
      ''propulsion.main.revolutions'', ''propulsion.main.oilTemperature'', ''propulsion.main.coolantTemperature'',
      ''propulsion.main.fuel.rate'', ''electrical.batteries.0.voltage'', ''electrical.batteries.0.current'',
      ''tanks.fuel.0.currentLevel'', ''tanks.fuel.0.capacity'', ''tanks.freshWater.0.currentLevel'', ''tanks.freshWater.0.capacity'']" for t p
    by (simp add: navigation_values_def environment_values_def engine_values_def tank_values_def pv_f64_def path_value_new_def)
  have all: "distinct (map pv_path (navigation_values t v @ environment_values v @ engine_values p @ tank_values v))" for t p
    unfolding * by simp
  have "distinct (map pv_path (navigation_values t v @ (if environment then environment_values v else [])
      @ (case sv_propulsion v of Some p \<Rightarrow> engine_values p | None \<Rightarrow> []) @ tank_values v))" for t
    unfolding map_append
  proof (rule distinct_parts)
    let ?p = "case sv_propulsion v of Some p \<Rightarrow> p | None \<Rightarrow> undefined"
    show "distinct (map pv_path (navigation_values t v) @ map pv_path (environment_values v) @ map pv_path (engine_values ?p) @ map pv_path (tank_values v))"
      using all [of t ?p] by (simp only: map_append)
    show "map pv_path (case sv_propulsion v of Some p \<Rightarrow> engine_values p | None \<Rightarrow> []) = map pv_path (engine_values ?p)
        \<or> map pv_path (case sv_propulsion v of Some p \<Rightarrow> engine_values p | None \<Rightarrow> []) = []"
      by (cases "sv_propulsion v") simp_all
  qed simp
  then show "distinct (map pv_path (u_values (update_new now (source_plugin ''sensor-data-simulator'')
       (navigation_values (rfc now) v @ (if environment then environment_values v else [])
        @ (case sv_propulsion v of Some p \<Rightarrow> engine_values p | None \<Rightarrow> []) @ tank_values v))))"
    by (simp add: update_new_def)
qed

section \<open>The thread of the bus\<close>

text \<open>Once open, the interface is never opened again, whatever fails to be sent: the break leaves only
  the loop over one batch.\<close>

theorem failed_bus_stays_open:
  "fst (fold (writer_do source) evs (Writing, out)) = (if Channel_closed \<in> set evs then Ended else Writing)"
proof -
  have e: "fst (fold (writer_do source) evs (Ended, out)) = Ended" for evs out
  proof (induction evs arbitrary: out)
    case (Cons a evs)
    then show ?case by (cases a) simp_all
  qed simp
  show ?thesis
  proof (induction evs arbitrary: out)
    case (Cons a evs)
    then show ?case by (cases a) (simp_all add: e)
  qed simp
qed

text \<open>While the interface can not be opened the thread goes on, also when the plugin was stopped and the
  channel is closed: it looks at the channel only afterwards.\<close>

theorem stopped_writer_goes_on:
  "Opens \<notin> set evs \<Longrightarrow> fst (fold (writer_do source) evs (Opening, out)) = Opening"
proof (induction evs arbitrary: out)
  case (Cons a evs)
  then show ?case by (cases a) simp_all
qed simp

theorem stopped_writer_goes_on_witness:
  "fst (fold (writer_do 42) [Open_fails, Channel_closed, Open_fails] (Opening, [])) = Opening"
  by (rule stopped_writer_goes_on) simp

section \<open>The plugin\<close>

text \<open>With an interval of zero the plugin says that it generates data, and no task does.\<close>

theorem zero_interval_generates_nothing:
  "simulator_start (JObj [(''update_interval_ms'', JNum (PosInt 0))]) = Inr (None, ''Generating data (direct)'')"
  by (simp add: simulator_start_def simulator_config_of_json_def decode_default_def as_u64_def output_default_def simulator_status_def)

end
