(* ===== verification/SystemInfo.thy ===== *)
theory SystemInfo
  imports Bridge Store
begin

text \<open>
  The system information plugin (\<^verbatim>\<open>plugins/system-info\<close>): the health of the machine
  (\<^verbatim>\<open>syshealth.rs\<close>), its network interfaces (\<^verbatim>\<open>network.rs\<close>) and its time
  (\<^verbatim>\<open>time_sync.rs\<close>), read from files of the operating system, and the plugin that gives
  them (\<^verbatim>\<open>lib.rs\<close>). The machine is an argument: the texts of its files, which files there
  are, its interfaces, its environment and clock.
\<close>

record machine =
  mc_file :: "string \<Rightarrow> string option"
  mc_exists :: "string \<Rightarrow> bool"
  mc_link :: "string \<Rightarrow> string option"
  mc_interfaces :: "string list option"
  mc_tz :: "string option"
  mc_offset :: int
  mc_statvfs :: "string \<Rightarrow> (u64 \<times> u64 \<times> u64) option"
  mc_millis :: "64 word option"
  mc_now :: datetime
  mc_iso :: "datetime \<Rightarrow> string"

section \<open>Numbers\<close>

text \<open>\<^verbatim>\<open>parse\<close> of an integer type with the bounds \<open>lo\<close> and \<open>hi\<close>: a sign that the type allows and
  digits, in the bounds.\<close>

fun digits_value :: "nat \<Rightarrow> string \<Rightarrow> nat option" where
  "digits_value acc [] = Some acc"
| "digits_value acc (c # cs) = Option.bind (digit_value c) (\<lambda>d. digits_value (acc * 10 + d) cs)"

definition whole :: "string \<Rightarrow> nat option" where
  "whole s = (if s = [] then None else digits_value 0 s)"

definition signed_by :: "char \<Rightarrow> string \<Rightarrow> bool" where
  "signed_by c s \<longleftrightarrow> s \<noteq> [] \<and> hd s = c"

definition parse_int :: "int \<Rightarrow> int \<Rightarrow> string \<Rightarrow> int option" where
  "parse_int lo hi s =
     Option.bind
       (if signed_by CHR ''-'' s \<and> lo < 0 then map_option (\<lambda>n. - int n) (whole (tl s))
        else map_option int (whole (if signed_by CHR ''+'' s then tl s else s)))
       (\<lambda>n. if lo \<le> n \<and> n \<le> hi then Some n else None)"

text \<open>\<^verbatim>\<open>parse::<f64>\<close>: a sign, digits with a point among or beside them, an exponent; or the
  name of infinity or of no number. The result is the exact value, rounded.\<close>

definition split_at :: "(char \<Rightarrow> bool) \<Rightarrow> string \<Rightarrow> string \<times> string option" where
  "split_at P s = (takeWhile (\<lambda>c. \<not> P c) s, case dropWhile (\<lambda>c. \<not> P c) s of [] \<Rightarrow> None | _ # r \<Rightarrow> Some r)"

definition mantissa :: "string \<Rightarrow> rat option" where
  "mantissa s =
     (let (i, f) = split_at (\<lambda>c. c = CHR ''.'') s; fr = unwrap_or f []
      in if i = [] \<and> fr = [] then None
         else map_option (\<lambda>n. of_nat n / 10 ^ length fr) (digits_value 0 (i @ fr)))"

definition decimal :: "string \<Rightarrow> rat option" where
  "decimal s =
     (let (m, e) = split_at (\<lambda>c. c = CHR ''e'' \<or> c = CHR ''E'') s in
      Option.bind (mantissa m) (\<lambda>q.
        case e of None \<Rightarrow> Some q
        | Some t \<Rightarrow> map_option (\<lambda>k. q * 10 powi k)
            (if signed_by CHR ''-'' t then map_option (\<lambda>n. - int n) (whole (tl t))
             else map_option int (whole (if signed_by CHR ''+'' t then tl t else t)))))"

definition parse_unsigned_f64 :: "string \<Rightarrow> f64 option" where
  "parse_unsigned_f64 s =
     (if ascii_lower s \<in> {''inf'', ''infinity''} then Some PInf
      else if ascii_lower s = ''nan'' then Some NaN
      else map_option round_f64 (decimal s))"

definition parse_f64 :: "string \<Rightarrow> f64 option" where
  "parse_f64 s =
     (if signed_by CHR ''-'' s then map_option f_neg (parse_unsigned_f64 (tl s))
      else parse_unsigned_f64 (if signed_by CHR ''+'' s then tl s else s))"

definition parse_u64 :: "string \<Rightarrow> u64 option" where
  "parse_u64 s = map_option word_of_int (parse_int 0 (2 ^ 64 - 1) s)"

section \<open>Health\<close>

record health_snapshot =
  sh_load1 :: f64
  sh_load5 :: f64
  sh_load15 :: f64
  sh_memory_total :: u64
  sh_memory_free :: u64
  sh_disk_total :: u64
  sh_disk_free :: u64
  sh_uptime :: f64
  sh_temp :: "f64 option"

definition nth_opt :: "'a list \<Rightarrow> nat \<Rightarrow> 'a option" where
  "nth_opt xs i = (if i < length xs then Some (xs ! i) else None)"

definition read_loadavg :: "machine \<Rightarrow> f64 \<times> f64 \<times> f64" where
  "read_loadavg mc =
     (case mc_file mc ''/proc/loadavg'' of
        None \<Rightarrow> (Fin 0, Fin 0, Fin 0)
      | Some t \<Rightarrow> (let ws = split_whitespace t; p = (\<lambda>i. unwrap_or (Option.bind (nth_opt ws i) parse_f64) (Fin 0))
                   in (p 0, p 1, p 2)))"

definition parse_kb :: "string \<Rightarrow> u64" where
  "parse_kb s = unwrap_or (Option.bind (nth_opt (split_whitespace s) 0) parse_u64) 0"

record meminfo =
  mi_total :: u64
  mi_free :: u64
  mi_available :: "u64 option"

definition meminfo_line :: "string \<Rightarrow> meminfo \<Rightarrow> meminfo" where
  "meminfo_line l x =
     (case strip_prefix ''MemTotal:'' l of Some r \<Rightarrow> x\<lparr>mi_total := parse_kb r\<rparr> | None \<Rightarrow>
     (case strip_prefix ''MemFree:'' l of Some r \<Rightarrow> x\<lparr>mi_free := parse_kb r\<rparr> | None \<Rightarrow>
     (case strip_prefix ''MemAvailable:'' l of Some r \<Rightarrow> x\<lparr>mi_available := Some (parse_kb r)\<rparr> | None \<Rightarrow> x)))"

definition read_meminfo :: "machine \<Rightarrow> u64 \<times> u64" where
  "read_meminfo mc =
     (case mc_file mc ''/proc/meminfo'' of
        None \<Rightarrow> (0, 0)
      | Some t \<Rightarrow> (let x = fold meminfo_line (text_lines t) \<lparr>mi_total = 0, mi_free = 0, mi_available = None\<rparr>
                   in (mi_total x * 1024, unwrap_or (mi_available x) (mi_free x) * 1024)))"

text \<open>The system call gives the blocks, the available blocks and the size of a block.\<close>

definition read_disk_usage :: "machine \<Rightarrow> string \<Rightarrow> u64 \<times> u64" where
  "read_disk_usage mc path =
     (case mc_statvfs mc path of Some (blocks, avail, frsize) \<Rightarrow> (blocks * frsize, avail * frsize) | None \<Rightarrow> (0, 0))"

definition read_uptime :: "machine \<Rightarrow> f64" where
  "read_uptime mc =
     unwrap_or (Option.bind (mc_file mc ''/proc/uptime'') (\<lambda>t. Option.bind (nth_opt (split_whitespace t) 0) parse_f64)) (Fin 0)"

definition read_thermal_temp :: "machine \<Rightarrow> string \<Rightarrow> f64 option" where
  "read_thermal_temp mc base =
     Option.bind (mc_file mc (base @ ''/temp'')) (\<lambda>t.
       map_option (\<lambda>n. f_div (round_f64 (of_int n)) (Fin 1000)) (parse_int (- (2 ^ 63)) (2 ^ 63 - 1) (trim t)))"

definition thermal_zone :: "nat \<Rightarrow> string" where
  "thermal_zone i = ''/sys/class/thermal/thermal_zone'' @ dec_digits i"

definition cpu_zone_temp :: "machine \<Rightarrow> nat \<Rightarrow> f64 option" where
  "cpu_zone_temp mc i =
     Option.bind (mc_file mc (thermal_zone i @ ''/type'')) (\<lambda>zone_type.
       let t = ascii_lower (trim zone_type) in
       if contains_str t ''cpu'' \<or> contains_str t ''soc'' \<or> contains_str t ''x86_pkg''
       then read_thermal_temp mc (thermal_zone i) else None)"

definition read_cpu_temp :: "machine \<Rightarrow> f64 option" where
  "read_cpu_temp mc =
     (case List.map_filter (cpu_zone_temp mc) [0..<10] of
        t # _ \<Rightarrow> Some t
      | [] \<Rightarrow> read_thermal_temp mc (thermal_zone 0))"

definition sys_health :: "machine \<Rightarrow> health_snapshot" where
  "sys_health mc =
     (let (l1, l5, l15) = read_loadavg mc; (mt, mf) = read_meminfo mc; (dt, df) = read_disk_usage mc ''/''
      in \<lparr>sh_load1 = l1, sh_load5 = l5, sh_load15 = l15, sh_memory_total = mt, sh_memory_free = mf,
          sh_disk_total = dt, sh_disk_free = df, sh_uptime = read_uptime mc, sh_temp = read_cpu_temp mc\<rparr>)"

definition sys_health_json :: "health_snapshot \<Rightarrow> json" where
  "sys_health_json h = json_obj
     ([(''loadavg'', json_obj [(''1m'', json_f64 (sh_load1 h)), (''5m'', json_f64 (sh_load5 h)), (''15m'', json_f64 (sh_load15 h))]),
       (''memory'', json_obj [(''total_bytes'', JNum (PosInt (sh_memory_total h))), (''free_bytes'', JNum (PosInt (sh_memory_free h)))]),
       (''disk'', json_obj [(''total_bytes'', JNum (PosInt (sh_disk_total h))), (''free_bytes'', JNum (PosInt (sh_disk_free h)))]),
       (''uptime_s'', json_f64 (sh_uptime h))]
      @ opt_field ''cpu_temp_celsius'' json_f64 (sh_temp h))"

section \<open>Network\<close>

datatype interface_kind = Ethernet | Wifi | Can

definition kind_text :: "interface_kind \<Rightarrow> string" where
  "kind_text k = (case k of Ethernet \<Rightarrow> ''ethernet'' | Wifi \<Rightarrow> ''wifi'' | Can \<Rightarrow> ''can'')"

record net_interface =
  if_name :: string
  if_kind :: interface_kind
  if_operstate :: string
  if_ip :: "string option"
  if_ssid :: "string option"
  if_signal :: "int option"
  if_bitrate :: "u64 option"

definition skipped :: "string \<Rightarrow> bool" where
  "skipped name \<longleftrightarrow> name = ''lo'' \<or> starts_with name ''veth'' \<or> starts_with name ''docker'' \<or> starts_with name ''br-''"

definition classify :: "int \<Rightarrow> string \<Rightarrow> interface_kind option" where
  "classify if_type name =
     (if if_type = 280 \<or> starts_with name ''can'' \<or> starts_with name ''vcan'' then Some Can
      else if starts_with name ''wlan'' \<or> starts_with name ''wlp'' \<or> starts_with name ''wlx'' then Some Wifi
      else if if_type = 1 \<and> (starts_with name ''eth'' \<or> starts_with name ''en'' \<or> starts_with name ''lan'') then Some Ethernet
      else None)"

definition trim_dots :: "string \<Rightarrow> string" where
  "trim_dots s = rev (dropWhile (\<lambda>c. c = CHR ''.'') (rev s))"

definition wireless_line :: "string \<Rightarrow> (int \<times> int) hmap \<Rightarrow> (int \<times> int) hmap" where
  "wireless_line l m =
     (case split_at (\<lambda>c. c = CHR '':'') (trim l) of
        (_, None) \<Rightarrow> m
      | (iface, Some rest) \<Rightarrow>
          (let cols = split_whitespace rest in
           if length cols < 3 then m
           else hm_insert (trim iface)
                  (unwrap_or (parse_int 0 (2 ^ 32 - 1) (trim_dots (cols ! 1))) 0,
                   unwrap_or (parse_int (- (2 ^ 31)) (2 ^ 31 - 1) (trim_dots (cols ! 2))) 0) m))"

definition read_proc_net_wireless :: "machine \<Rightarrow> (int \<times> int) hmap" where
  "read_proc_net_wireless mc =
     (case mc_file mc ''/proc/net/wireless'' of None \<Rightarrow> [] | Some t \<Rightarrow> fold wireless_line (drop 2 (text_lines t)) [])"

definition sys_net :: "string \<Rightarrow> string" where
  "sys_net name = ''/sys/class/net/'' @ name"

definition read_wifi_ssid :: "machine \<Rightarrow> string \<Rightarrow> string option" where
  "read_wifi_ssid mc iface =
     (let candidates = List.map_filter (mc_file mc) [sys_net iface @ ''/wireless/ssid'',
            ''/sys/kernel/debug/ieee80211/phy0/net/'' @ iface @ ''/assoc_ssid'']
      in List.find (\<lambda>s. s \<noteq> []) (map trim candidates))"

definition read_can_bitrate :: "machine \<Rightarrow> string \<Rightarrow> u64 option" where
  "read_can_bitrate mc iface = Option.bind (mc_file mc (sys_net iface @ ''/can_bittiming/bitrate'')) (\<lambda>t. parse_u64 (trim t))"

definition read_ip :: "string \<Rightarrow> string option" where
  "read_ip iface = None"

definition read_interface :: "machine \<Rightarrow> (int \<times> int) hmap \<Rightarrow> string \<Rightarrow> net_interface option" where
  "read_interface mc wifi name =
     (if skipped name then None
      else map_option (\<lambda>kind.
        \<lparr>if_name = name, if_kind = kind, if_operstate = trim (unwrap_or (mc_file mc (sys_net name @ ''/operstate'')) []),
         if_ip = read_ip name,
         if_ssid = (if kind = Wifi then read_wifi_ssid mc name else None),
         if_signal = (if kind = Wifi then map_option snd (map_of wifi name) else None),
         if_bitrate = (if kind = Can then read_can_bitrate mc name else None)\<rparr>)
        (classify (unwrap_or (Option.bind (mc_file mc (sys_net name @ ''/type'')) (\<lambda>t. parse_int 0 (2 ^ 32 - 1) (trim t))) 0) name))"

text \<open>The sorting keeps the order of equal names; the order of strings is that of their bytes.\<close>

definition list_interfaces :: "machine \<Rightarrow> net_interface list" where
  "list_interfaces mc =
     (case mc_interfaces mc of
        None \<Rightarrow> []
      | Some names \<Rightarrow> sort_key if_name (List.map_filter (read_interface mc (read_proc_net_wireless mc)) names))"

definition json_int :: "int \<Rightarrow> json" where
  "json_int n = JNum (if n < 0 then NegInt (word_of_int n) else PosInt (word_of_int n))"

definition interface_json :: "net_interface \<Rightarrow> json" where
  "interface_json i = json_obj
     ([(''name'', JStr (if_name i)), (''type'', JStr (kind_text (if_kind i))), (''operstate'', JStr (if_operstate i))]
      @ opt_field ''ip'' JStr (if_ip i) @ opt_field ''ssid'' JStr (if_ssid i)
      @ opt_field ''signal_dbm'' json_int (if_signal i) @ opt_field ''bitrate'' (\<lambda>n. JNum (PosInt n)) (if_bitrate i))"

definition interfaces_json :: "net_interface list \<Rightarrow> json" where
  "interfaces_json is = json_obj [(''interfaces'', JArr (map interface_json is))]"

section \<open>Time\<close>

text \<open>\<^verbatim>\<open>{:+03}:{:02}\<close> of an offset, which is divided towards zero.\<close>

definition two_digits :: "nat \<Rightarrow> string" where
  "two_digits n = (let s = dec_digits n in replicate (2 - length s) CHR ''0'' @ s)"

definition offset_text :: "int \<Rightarrow> string" where
  "offset_text offset =
     (let hours = sgn offset * (\<bar>offset\<bar> div 3600); mins = (\<bar>offset\<bar> mod 3600) div 60
      in (if hours < 0 then ''-'' else ''+'') @ two_digits (nat \<bar>hours\<bar>) @ '':'' @ two_digits (nat mins))"

fun find_after :: "string \<Rightarrow> string \<Rightarrow> string option" where
  "find_after p [] = (if p = [] then Some [] else None)"
| "find_after p (c # s) = (case strip_prefix p (c # s) of Some r \<Rightarrow> Some r | None \<Rightarrow> find_after p s)"

definition non_empty :: "string \<Rightarrow> string option" where
  "non_empty s = (if s = [] then None else Some s)"

definition local_timezone :: "machine \<Rightarrow> string" where
  "local_timezone mc =
     unwrap_or
       (or_else (Option.bind (mc_tz mc) non_empty)
       (or_else (Option.bind (mc_link mc ''/etc/localtime'') (find_after ''zoneinfo/''))
         (Option.bind (mc_file mc ''/etc/timezone'') (\<lambda>t. non_empty (trim t)))))
       (if mc_offset mc = 0 then ''UTC'' else offset_text (mc_offset mc))"

definition synced_text :: "string \<Rightarrow> bool" where
  "synced_text t \<longleftrightarrow> trim t = ''1'' \<or> ascii_lower (trim t) = ''yes''"

definition ntp_synchronized :: "machine \<Rightarrow> bool" where
  "ntp_synchronized mc \<longleftrightarrow>
     mc_exists mc ''/run/systemd/timesync/synchronized''
     \<or> is_some_and (mc_file mc ''/run/systemd/timesync/synchronized'') synced_text
     \<or> mc_exists mc ''/var/run/chrony/chronyd.pid''
     \<or> mc_exists mc ''/var/run/openntpd/''"

definition time_status_json :: "machine \<Rightarrow> json" where
  "time_status_json mc = json_obj
     [(''system_time_ms'', json_int (sint (unwrap_or (mc_millis mc) 0))),
      (''timezone_region'', JStr (local_timezone mc)), (''ntp_synchronized'', JBool (ntp_synchronized mc))]"

section \<open>The plugin\<close>

definition time_delta :: "machine \<Rightarrow> delta" where
  "time_delta mc = self_vessel [update_new (mc_now mc) (source_plugin ''system-info'')
     [path_value_new ''navigation.datetime'' (JStr (mc_iso mc (mc_now mc))),
      path_value_new ''environment.time.millis'' (json_int (sint (unwrap_or (mc_millis mc) 0))),
      path_value_new ''environment.time.timezoneOffset'' (json_int 0),
      path_value_new ''environment.time.timezoneRegion'' (JStr (local_timezone mc))]]"

text \<open>What a turn of the ticker sends; the turns are thirty seconds apart.\<close>

definition time_tick :: "machine \<Rightarrow> delta option" where
  "time_tick mc = (if ntp_synchronized mc then Some (time_delta mc) else None)"

definition system_info_routes :: "(string \<times> (machine \<Rightarrow> reply)) list" where
  "system_info_routes =
     [(''/time'', \<lambda>mc. Reply 200 (time_status_json mc)),
      (''/network'', \<lambda>mc. Reply 200 (interfaces_json (list_interfaces mc))),
      (''/system'', \<lambda>mc. Reply 200 (sys_health_json (sys_health mc)))]"

end
