(* ===== verification/SystemInfoSpec.thy ===== *)
theory SystemInfoSpec
  imports SystemInfo BridgeSpec
begin

text \<open>
  Properties of the system information: the memory is read as the kernel writes it, the interfaces
  are listed in order and only the marine ones, and an offset of the time zone of less than an hour
  to the west is shown as one to the east.
\<close>

section \<open>Memory\<close>

declare dec_digits.simps [simp del]

lemma digits_value_snoc: "digits_value acc (s @ [c]) = Option.bind (digits_value acc s) (\<lambda>a. digits_value a [c])"
  by (induction s arbitrary: acc) (auto split: bind_splits)

lemma digits_value_dec: "digits_value 0 (dec_digits n) = Some n"
proof (induction n rule: dec_digits.induct)
  case (1 n)
  show ?case
  proof (cases "n < 10")
    case True
    then show ?thesis by (subst dec_digits.simps) (simp add: digit_of_char)
  next
    case False
    with 1 have "digits_value 0 (dec_digits (n div 10)) = Some (n div 10)" by simp
    with False show ?thesis
      by (subst dec_digits.simps) (simp add: digits_value_snoc digit_of_char mult.commute)
  qed
qed

lemma parse_int_dec: "lo \<le> int n \<Longrightarrow> int n \<le> hi \<Longrightarrow> parse_int lo hi (dec_digits n) = Some (int n)"
proof -
  assume b: "lo \<le> int n" "int n \<le> hi"
  obtain c r where d: "dec_digits n = c # r" using dec_digits_not_Nil [of n] by (cases "dec_digits n") auto
  then have "c \<noteq> CHR ''+''" "c \<noteq> CHR ''-''" using dec_digits_range [of c n] by auto
  moreover have "whole (c # r) = Some n" using digits_value_dec [of n] d by (simp add: whole_def)
  ultimately show ?thesis using b d
    by (simp add: parse_int_def signed_by_def)
qed

lemma split_whitespace_space: "split_whitespace (CHR '' '' # s) = split_whitespace s"
  by (simp add: split_whitespace_def is_space_def)

lemma split_whitespace_spaces: "split_whitespace (replicate k CHR '' '' @ s) = split_whitespace s"
  by (induction k) (simp_all add: split_whitespace_space)

lemma parse_kb_line: "n < 2 ^ 64 \<Longrightarrow> parse_kb (replicate k CHR '' '' @ dec_digits n @ '' kB'') = word_of_int (int n)"
proof -
  assume n: "n < 2 ^ 64"
  have "\<not> list_ex is_space (dec_digits n)"
    using dec_digits_range [of _ n] by (fastforce simp: list_ex_iff is_space_def)
  then have "split_whitespace (dec_digits n @ CHR '' '' # ''kB'') = dec_digits n # split_whitespace ''kB''"
    by (intro split_whitespace_word dec_digits_not_Nil)
  moreover have "int n \<le> 2 ^ 64 - 1" using n by simp
  ultimately show ?thesis
    by (simp add: parse_kb_def nth_opt_def split_whitespace_spaces parse_u64_def parse_int_dec)
qed

definition kernel_line :: "string \<Rightarrow> nat \<Rightarrow> nat \<Rightarrow> string" where
  "kernel_line key k n = key @ CHR '':'' # replicate k CHR '' '' @ dec_digits n @ '' kB''"

lemma meminfo_lines:
  assumes "n < 2 ^ 64"
  shows "meminfo_line (kernel_line ''MemTotal'' k n) x = x\<lparr>mi_total := word_of_int (int n)\<rparr>"
    and "meminfo_line (kernel_line ''MemFree'' k n) x = x\<lparr>mi_free := word_of_int (int n)\<rparr>"
    and "meminfo_line (kernel_line ''MemAvailable'' k n) x = x\<lparr>mi_available := Some (word_of_int (int n))\<rparr>"
proof -
  have s: "strip_prefix p (kernel_line key k n) = (if starts_with (key @ '':'' @ r) p then Some (drop (length p) (kernel_line key k n)) else None)"
    if "r = replicate k CHR '' '' @ dec_digits n @ '' kB''" for p key r
    using that by (simp add: strip_prefix_def kernel_line_def)
  note p = parse_kb_line [OF assms, of k]
  show "meminfo_line (kernel_line ''MemTotal'' k n) x = x\<lparr>mi_total := word_of_int (int n)\<rparr>"
    "meminfo_line (kernel_line ''MemFree'' k n) x = x\<lparr>mi_free := word_of_int (int n)\<rparr>"
    "meminfo_line (kernel_line ''MemAvailable'' k n) x = x\<lparr>mi_available := Some (word_of_int (int n))\<rparr>"
    by (simp_all add: meminfo_line_def kernel_line_def strip_prefix_def starts_with_def p)
qed

lemma kernel_line_whole: "CHR 0x0A \<notin> set key \<Longrightarrow> CHR 0x0A \<notin> set (kernel_line key k n)"
  using dec_digits_range [of "CHR 0x0A" n] by (auto simp: kernel_line_def)

text \<open>Of the memory that the kernel reports in kilobytes, the total and the available bytes are given,
  without overflow up to sixteen exabytes.\<close>

theorem memory_is_read:
  assumes "mc_file mc ''/proc/meminfo'' = Some (kernel_line ''MemTotal'' i t @ CHR 0x0A # kernel_line ''MemFree'' j f @ CHR 0x0A
      # kernel_line ''MemAvailable'' k a @ CHR 0x0A # rest)"
    and "\<forall>l\<in>set (text_lines rest). \<not> starts_with l ''Mem''"
    and "t < 2 ^ 54" "f < 2 ^ 54" "a < 2 ^ 54"
  shows "map_prod unat unat (read_meminfo mc) = (t * 1024, a * 1024)"
proof -
  have last: "last (kernel_line key k n) \<noteq> CHR 0x0D" for key k n by (simp add: kernel_line_def)
  have cr: "strip_cr (kernel_line key k n) = kernel_line key k n" for key k n
    using last [of key k n] by (simp add: strip_cr_def)
  have skip: "meminfo_line l x = x" if "l \<in> set (text_lines rest)" for l x
  proof -
    have "\<not> starts_with l (''Mem'' @ r)" for r using assms(2) that by (auto simp: starts_with_iff)
    from this [of "''Total:''"] this [of "''Free:''"] this [of "''Available:''"] show ?thesis
      by (simp add: meminfo_line_def strip_prefix_def)
  qed
  have rest: "fold meminfo_line ls x = x" if "set ls \<subseteq> set (text_lines rest)" for ls x
    using that by (induction ls) (simp_all add: skip)
  have r: "read_meminfo mc = (word_of_int (int t) * 1024, word_of_int (int a) * 1024)"
    using assms(1,3-5) by (simp add: read_meminfo_def text_lines_line kernel_line_whole cr meminfo_lines rest Let_def)
  have m: "unat (word_of_int (int n) * 1024 :: u64) = n * 1024" if "n < 2 ^ 54" for n
  proof -
    have "n * 1024 < 2 ^ 64" using that by simp
    then have "unat (of_nat (n * 1024) :: u64) = n * 1024" by (simp only: unsigned_of_nat take_bit_nat_eq_self len_of_numeral_defs) (simp add: take_bit_nat_eq_self)
    moreover have "word_of_int (int n) * 1024 = (of_nat (n * 1024) :: u64)" by simp
    ultimately show ?thesis by (simp only:)
  qed
  show ?thesis using m [OF assms(3)] m [OF assms(5)] by (simp add: r)
qed

section \<open>Network\<close>

text \<open>The interfaces are listed by name, each of them a marine one, with a signal only when it is
  wireless and a bit rate only when it is a bus.\<close>

theorem marine_interfaces_in_order:
  shows "sorted (map if_name (list_interfaces mc)) \<and>
    (\<forall>i\<in>set (list_interfaces mc). \<not> skipped (if_name i) \<and> (if_signal i \<noteq> None \<longrightarrow> if_kind i = Wifi) \<and> (if_bitrate i \<noteq> None \<longrightarrow> if_kind i = Can))"
  by (auto simp: list_interfaces_def map_filter_def read_interface_def split: option.splits if_splits)

section \<open>Time\<close>

text \<open>The hours of an offset of less than an hour are zero, which has no sign.\<close>

theorem west_is_shown_as_east:
  "0 < n \<Longrightarrow> n < 3600 \<Longrightarrow> offset_text (- n) = offset_text n"
  by (simp add: offset_text_def)

theorem west_is_shown_as_east_witness: "offset_text (- 1800) = offset_text 1800"
  by (rule west_is_shown_as_east) simp_all

end
