(* ===== verification/Server.thy ===== *)
theory Server
  imports Admin Tracks WsSession History RestApi
begin

text \<open>
  The rest of the server: its configuration file (\<^verbatim>\<open>config.rs\<close>, \<^verbatim>\<open>load_config\<close> of
  \<^verbatim>\<open>main.rs\<close>), the tokens of \<^verbatim>\<open>auth/mod.rs\<close>, the track requests of
  \<^verbatim>\<open>api/tracks.rs\<close> that go to the routes of the tracks plugin, the requests of the
  administration pages (\<^verbatim>\<open>api/server_routes.rs\<close>, \<^verbatim>\<open>api/admin.rs\<close>) and the messages
  that they get over a connection (\<^verbatim>\<open>ws/admin_messages.rs\<close>, \<^verbatim>\<open>ws/mod.rs\<close>). The
  signing of tokens, the parser of the configuration file, random identifiers and the text of dates
  are arguments.
\<close>

section \<open>Configuration\<close>

record server_settings =
  srv_port :: u16
  srv_host :: string
  srv_name :: string

record auth_settings =
  auth_secret :: string
  auth_ttl :: u64
  auth_user :: string
  auth_hash :: string

record internal_settings =
  int_transport :: string
  int_rs_socket :: string
  int_bridge_socket :: string
  int_rs_port :: u16
  int_bridge_port :: u16
  int_token :: string

record server_config =
  cnf_server :: server_settings
  cnf_auth :: auth_settings
  cnf_internal :: internal_settings
  cnf_history :: history_config
  cnf_data_dir :: string
  cnf_modules_dir :: string

text \<open>The secret for the tokens is drawn at random when the file does not give one.\<close>

definition server_config_default :: "string \<Rightarrow> server_config" where
  "server_config_default secret =
     \<lparr>cnf_server = \<lparr>srv_port = 3000, srv_host = ''0.0.0.0'', srv_name = ''signalk-rs''\<rparr>,
      cnf_auth = \<lparr>auth_secret = secret, auth_ttl = 604800, auth_user = ''admin'', auth_hash = []\<rparr>,
      cnf_internal = \<lparr>int_transport = ''uds'', int_rs_socket = ''/run/signalk/rs.sock'',
        int_bridge_socket = ''/run/signalk/bridge.sock'', int_rs_port = 3001, int_bridge_port = 3002, int_token = []\<rparr>,
      cnf_history = history_config_default,
      cnf_data_dir = ''/var/lib/signalk-rs'', cnf_modules_dir = ''/var/lib/signalk-rs/node_modules''\<rparr>"

definition word_of_json :: "nat \<Rightarrow> json \<Rightarrow> 'a::len word option" where
  "word_of_json w j = Option.bind (as_u64 j) (\<lambda>n. if unat n < 2 ^ w then Some (ucast n) else None)"

definition server_settings_of_json :: "json \<Rightarrow> server_settings option" where
  "server_settings_of_json j =
     Option.bind (struct_field [''port'', ''host'', ''name''] j) (\<lambda>f.
     Option.bind (Option.bind (f ''port'') (word_of_json 16)) (\<lambda>p.
     Option.bind (Option.bind (f ''host'') as_str) (\<lambda>h.
     Option.bind (Option.bind (f ''name'') as_str) (\<lambda>n. Some \<lparr>srv_port = p, srv_host = h, srv_name = n\<rparr>))))"

definition auth_settings_of_json :: "json \<Rightarrow> auth_settings option" where
  "auth_settings_of_json j =
     Option.bind (struct_field [''jwt_secret'', ''token_ttl_secs'', ''admin_user'', ''admin_password_hash''] j) (\<lambda>f.
     Option.bind (Option.bind (f ''jwt_secret'') as_str) (\<lambda>s.
     Option.bind (Option.bind (f ''token_ttl_secs'') as_u64) (\<lambda>t.
     Option.bind (Option.bind (f ''admin_user'') as_str) (\<lambda>u.
     Option.bind (Option.bind (f ''admin_password_hash'') as_str) (\<lambda>h.
       Some \<lparr>auth_secret = s, auth_ttl = t, auth_user = u, auth_hash = h\<rparr>)))))"

definition internal_settings_of_json :: "json \<Rightarrow> internal_settings option" where
  "internal_settings_of_json j =
     Option.bind (struct_field [''transport'', ''uds_rs_socket'', ''uds_bridge_socket'', ''http_rs_port'', ''http_bridge_port'',
       ''bridge_token''] j) (\<lambda>f.
     Option.bind (Option.bind (f ''transport'') as_str) (\<lambda>t.
     Option.bind (Option.bind (f ''uds_rs_socket'') as_str) (\<lambda>rs.
     Option.bind (Option.bind (f ''uds_bridge_socket'') as_str) (\<lambda>bs.
     Option.bind (decode_default 3001 (word_of_json 16) (f ''http_rs_port'')) (\<lambda>rp.
     Option.bind (decode_default 3002 (word_of_json 16) (f ''http_bridge_port'')) (\<lambda>bp.
     Option.bind (decode_default [] as_str (f ''bridge_token'')) (\<lambda>k.
       Some \<lparr>int_transport = t, int_rs_socket = rs, int_bridge_socket = bs, int_rs_port = rp, int_bridge_port = bp,
             int_token = k\<rparr>)))))))"

definition history_config_of_json :: "json \<Rightarrow> history_config option" where
  "history_config_of_json j =
     (let d = history_config_default in
     Option.bind (struct_field [''enabled'', ''sampling_interval_secs'', ''include'', ''exclude'', ''retention_raw_days'',
       ''retention_daily_days'', ''aggregation_interval_secs'', ''max_db_size_mb'', ''vacuum_after_prune''] j) (\<lambda>f.
     Option.bind (decode_default (hc_enabled d) as_bool (f ''enabled'')) (\<lambda>e.
     Option.bind (decode_default (hc_sampling_interval_secs d) as_f64 (f ''sampling_interval_secs'')) (\<lambda>s.
     Option.bind (decode_default (hc_include d) (decode_vec as_str) (f ''include'')) (\<lambda>inc.
     Option.bind (decode_default [] (decode_vec as_str) (f ''exclude'')) (\<lambda>exc.
     Option.bind (decode_default (hc_retention_raw_days d) (word_of_json 32) (f ''retention_raw_days'')) (\<lambda>raw.
     Option.bind (decode_default (hc_retention_daily_days d) (word_of_json 32) (f ''retention_daily_days'')) (\<lambda>daily.
     Option.bind (decode_default (hc_aggregation_interval_secs d) as_u64 (f ''aggregation_interval_secs'')) (\<lambda>agg.
     Option.bind (decode_default (hc_max_db_size_mb d) as_u64 (f ''max_db_size_mb'')) (\<lambda>mb.
     Option.bind (decode_default (hc_vacuum_after_prune d) as_bool (f ''vacuum_after_prune'')) (\<lambda>vac.
       Some \<lparr>hc_enabled = e, hc_sampling_interval_secs = s, hc_include = inc, hc_exclude = exc, hc_retention_raw_days = raw,
             hc_retention_daily_days = daily, hc_aggregation_interval_secs = agg, hc_max_db_size_mb = mb,
             hc_vacuum_after_prune = vac\<rparr>)))))))))))"

definition server_config_of :: "(string \<Rightarrow> json option) \<Rightarrow> server_config option" where
  "server_config_of f =
     Option.bind (Option.bind (f ''server'') server_settings_of_json) (\<lambda>s.
     Option.bind (Option.bind (f ''auth'') auth_settings_of_json) (\<lambda>a.
     Option.bind (Option.bind (f ''internal'') internal_settings_of_json) (\<lambda>i.
     Option.bind (decode_default history_config_default history_config_of_json (f ''history'')) (\<lambda>h.
     Option.bind (decode_default ''/var/lib/signalk-rs'' as_str (f ''data_dir'')) (\<lambda>d.
     Option.bind (decode_default ''/var/lib/signalk-rs/node_modules'' as_str (f ''modules_dir'')) (\<lambda>m.
       Some \<lparr>cnf_server = s, cnf_auth = a, cnf_internal = i, cnf_history = h, cnf_data_dir = d, cnf_modules_dir = m\<rparr>))))))"

definition vessel_settings_of_json :: "json \<Rightarrow> (string \<times> string option \<times> string option) option" where
  "vessel_settings_of_json j =
     Option.bind (struct_field [''uuid'', ''name'', ''mmsi''] j) (\<lambda>f.
     Option.bind (decode_default [] as_str (f ''uuid'')) (\<lambda>u.
     Option.bind (decode_opt as_str (f ''name'')) (\<lambda>n.
     Option.bind (decode_opt as_str (f ''mmsi'')) (\<lambda>m. Some (u, n, m)))))"

definition plugin_setting_of_json :: "json \<Rightarrow> (string \<times> plugin_config_entry) option" where
  "plugin_setting_of_json j =
     Option.bind (struct_field [''id'', ''enabled'', ''config''] j) (\<lambda>f.
     Option.bind (Option.bind (f ''id'') as_str) (\<lambda>i.
     Option.bind (decode_default True as_bool (f ''enabled'')) (\<lambda>e.
       Some (i, \<lparr>ke_enabled = e, ke_config = unwrap_or (f ''config'') (JObj [])\<rparr>))))"

definition seed_config_of :: "(string \<Rightarrow> json option) \<Rightarrow> seed_config option" where
  "seed_config_of f =
     Option.bind (decode_default ([], None, None) vessel_settings_of_json (f ''vessel'')) (\<lambda>(u, n, m).
     Option.bind (decode_default [] (decode_map (word_of_json 16)) (f ''source_priorities'')) (\<lambda>ps.
     Option.bind (decode_default [] (decode_map as_u64) (f ''source_ttls'')) (\<lambda>ts.
     Option.bind (decode_default [] (decode_vec plugin_setting_of_json) (f ''plugins'')) (\<lambda>es.
       Some \<lparr>sd_uuid = u, sd_name = n, sd_mmsi = m, sd_priorities = ps, sd_ttls = ts, sd_plugins = es\<rparr>))))"

definition seed_default :: seed_config where
  "seed_default = \<lparr>sd_uuid = [], sd_name = None, sd_mmsi = None, sd_priorities = [], sd_ttls = [], sd_plugins = []\<rparr>"

definition raw_config_of_json :: "json \<Rightarrow> (server_config \<times> seed_config) option" where
  "raw_config_of_json j =
     (case j of
        JObj m \<Rightarrow> Option.bind (server_config_of (map_of m)) (\<lambda>c. map_option (Pair c) (seed_config_of (map_of m)))
      | _ \<Rightarrow> None)"

text \<open>The paths that are tried: the one of the environment, empty when it is not set, the system's and
  the local one. What exists and what the parser makes of it are arguments.\<close>

definition config_paths :: "string option \<Rightarrow> string list" where
  "config_paths var = [unwrap_or var [], ''/etc/signalk-rs/config.toml'', ''signalk-rs.toml'']"

definition try_config :: "(string \<Rightarrow> bool) \<Rightarrow> (string \<Rightarrow> json option) \<Rightarrow> string \<Rightarrow> (server_config \<times> seed_config) option" where
  "try_config exists tree p =
     (if p = [] \<or> \<not> exists p then None else Option.bind (tree p) raw_config_of_json)"

definition load_server_config :: "(string \<Rightarrow> bool) \<Rightarrow> (string \<Rightarrow> json option) \<Rightarrow> string option \<Rightarrow> string
    \<Rightarrow> server_config \<times> seed_config" where
  "load_server_config exists tree var secret =
     (case List.map_filter (try_config exists tree) (config_paths var) of
        c # _ \<Rightarrow> c
      | [] \<Rightarrow> (server_config_default secret, seed_default))"

section \<open>Tokens\<close>

record claims =
  cl_sub :: string
  cl_exp :: u64
  cl_iat :: u64

text \<open>The JSON web tokens: a signed text of the claims or an error, and the claims of a text that is
  signed with the secret and not expired at a time.\<close>

record jwt =
  jw_encode :: "claims \<Rightarrow> string \<Rightarrow> string + string"
  jw_decode :: "int \<Rightarrow> string \<Rightarrow> string \<Rightarrow> claims option"

definition create_token :: "jwt \<Rightarrow> int \<Rightarrow> string \<Rightarrow> string \<Rightarrow> u64 \<Rightarrow> string + string" where
  "create_token w now user secret ttl =
     jw_encode w \<lparr>cl_sub = user, cl_exp = word_of_int now + ttl, cl_iat = word_of_int now\<rparr> secret"

definition token_reply :: "auth_settings \<Rightarrow> string + string \<Rightarrow> reply" where
  "token_reply a r =
     (case r of
        Inr t \<Rightarrow> Reply 200 (json_obj [(''token'', JStr t), (''timeToLive'', JNum (PosInt (auth_ttl a)))])
      | Inl e \<Rightarrow> message_reply 500 e)"

definition login :: "jwt \<Rightarrow> int \<Rightarrow> auth_settings \<Rightarrow> string \<Rightarrow> string \<Rightarrow> reply" where
  "login w now a user password =
     (if user \<noteq> auth_user a then message_reply 401 ''Invalid credentials''
      else if auth_hash a \<noteq> [] then message_reply 401 ''Invalid credentials''
      else token_reply a (create_token w now user (auth_secret a) (auth_ttl a)))"

definition validate_request :: "jwt \<Rightarrow> int \<Rightarrow> auth_settings \<Rightarrow> string \<Rightarrow> reply" where
  "validate_request w now a token =
     (case jw_decode w now token (auth_secret a) of
        Some c \<Rightarrow> token_reply a (create_token w now (cl_sub c) (auth_secret a) (auth_ttl a))
      | None \<Rightarrow> message_reply 401 ''Invalid or expired token'')"

definition logout :: reply where
  "logout = message_reply 200 ''Logged out''"

section \<open>Tracks\<close>

text \<open>A handler of the tracks plugin over its table; a simplification that does not end gives no
  answer.\<close>

type_synonym track_handler = "plugin_request \<Rightarrow> track_db \<Rightarrow> (track_response \<times> track_db) option"

record track_summary =
  tu_context :: string
  tu_points :: nat
  tu_oldest :: "datetime option"
  tu_newest :: "datetime option"

definition parsed_time :: "track_env \<Rightarrow> string \<Rightarrow> datetime option" where
  "parsed_time env s = (case tx_parse env s of Inr t \<Rightarrow> Some t | Inl _ \<Rightarrow> None)"

text \<open>The groups come in the order of their contexts; times are compared as texts.\<close>

definition db_summary :: "track_env \<Rightarrow> track_db \<Rightarrow> track_summary list" where
  "db_summary env db =
     map (\<lambda>ctx. let ts = map rw_timestamp (filter (\<lambda>r. rw_context r = ctx) db)
               in \<lparr>tu_context = ctx, tu_points = length ts, tu_oldest = parsed_time env (foldr min ts (hd ts)),
                   tu_newest = parsed_time env (foldr max ts (hd ts))\<rparr>)
       (sort (remdups (map rw_context db)))"

definition summary_json :: "(datetime \<Rightarrow> string) \<Rightarrow> track_summary \<Rightarrow> json" where
  "summary_json ts u = json_obj
     [(''context'', JStr (tu_context u)), (''point_count'', json_nat (tu_points u)),
      (''oldest'', null_or (\<lambda>t. JStr (ts t)) (tu_oldest u)), (''newest'', null_or (\<lambda>t. JStr (ts t)) (tu_newest u))]"

definition handle_get_summary :: "(datetime \<Rightarrow> string) \<Rightarrow> track_env \<Rightarrow> track_db \<Rightarrow> track_response" where
  "handle_get_summary ts env db = JsonResponse 200 (JArr (map (summary_json ts) (db_summary env db)))"

definition tracks_routes :: "(datetime \<Rightarrow> string) \<Rightarrow> track_env \<Rightarrow> track_handler registered_route list" where
  "tracks_routes ts env =
     [\<lparr>rr_method = ''GET'', rr_path = ''/'', rr_handler = \<lambda>q db. map_option (\<lambda>r. (r, db)) (handle_get_tracks env db (pq_query q))\<rparr>,
      \<lparr>rr_method = ''GET'', rr_path = ''/summary'', rr_handler = \<lambda>q db. Some (handle_get_summary ts env db, db)\<rparr>,
      \<lparr>rr_method = ''DELETE'', rr_path = ''/'', rr_handler = \<lambda>q db. Some (handle_delete_tracks db (pq_query q))\<rparr>]"

definition prepend_context :: "string option \<Rightarrow> string \<Rightarrow> string" where
  "prepend_context existing ctx =
     (case existing of
        Some q \<Rightarrow> if q \<noteq> [] then ''context='' @ ctx @ ''&'' @ q else ''context='' @ ctx
      | None \<Rightarrow> ''context='' @ ctx)"

definition dispatch_tracks :: "string \<Rightarrow> (plugin_request \<Rightarrow> 'r) route_table \<Rightarrow> string option \<Rightarrow> (string \<times> string) list
    \<Rightarrow> reply + 'r" where
  "dispatch_tracks method table query headers =
     (case route_handle ''tracks'' method ''/'' table
             \<lparr>pq_method = method, pq_path = ''/'', pq_query = query, pq_headers = headers, pq_body = []\<rparr> of
        Some r \<Rightarrow> Inr r
      | None \<Rightarrow> Inl (message_reply 503 ''Tracks plugin not running''))"

definition get_all_tracks :: "(plugin_request \<Rightarrow> 'r) route_table \<Rightarrow> string option \<Rightarrow> (string \<times> string) list \<Rightarrow> reply + 'r" where
  "get_all_tracks table query headers = dispatch_tracks ''GET'' table query headers"

definition get_vessel_track :: "(plugin_request \<Rightarrow> 'r) route_table \<Rightarrow> string \<Rightarrow> string option \<Rightarrow> (string \<times> string) list
    \<Rightarrow> reply + 'r" where
  "get_vessel_track table vessel query headers =
     dispatch_tracks ''GET'' table (Some (prepend_context query (''vessels.'' @ vessel))) headers"

definition delete_all_tracks :: "(plugin_request \<Rightarrow> 'r) route_table \<Rightarrow> string option \<Rightarrow> (string \<times> string) list \<Rightarrow> reply + 'r" where
  "delete_all_tracks table query headers = dispatch_tracks ''DELETE'' table query headers"

definition delete_vessel_track :: "(plugin_request \<Rightarrow> 'r) route_table \<Rightarrow> string \<Rightarrow> string option \<Rightarrow> (string \<times> string) list
    \<Rightarrow> reply + 'r" where
  "delete_vessel_track table vessel query headers =
     dispatch_tracks ''DELETE'' table (Some (prepend_context query (''vessels.'' @ vessel))) headers"

section \<open>Administration pages\<close>

definition empty_list_reply :: reply where
  "empty_list_reply = Reply 200 (JArr [])"

definition empty_object_reply :: reply where
  "empty_object_reply = Reply 200 (JObj [])"

definition login_status :: reply where
  "login_status = Reply 200 (json_obj
     [(''status'', JStr ''notLoggedIn''), (''readOnly'', JBool False), (''allowNewUserRegistration'', JBool True),
      (''allowDeviceAccessRequests'', JBool True), (''authenticationRequired'', JBool False)])"

definition get_settings :: "server_config \<Rightarrow> reply" where
  "get_settings c = Reply 200 (json_obj
     [(''interfaces'', JObj []),
      (''options'', json_obj [(''mdns'', JBool False), (''wsCompression'', JBool False), (''enablePluginLogging'', JBool True),
         (''accessLogging'', JBool False), (''trustProxy'', JBool False)]),
      (''port'', json_u16 (srv_port (cnf_server c))), (''sslport'', JNum (PosInt 0)), (''loggingDirectory'', JStr []),
      (''pruneContextsMinutes'', JNum (PosInt 60)), (''keepMostRecentLogsOnly'', JBool False),
      (''logCountToKeep'', JNum (PosInt 24)), (''runFromSystemd'', JBool False),
      (''courseApi'', json_obj [(''apiOnly'', JBool False)])])"

fun webapp_source_json :: "webapp_source \<Rightarrow> json" where
  "webapp_source_json NpmPackage = json_obj [(''type'', JStr ''npmPackage'')]"
| "webapp_source_json (RustPlugin i) = json_obj [(''type'', JStr ''rustPlugin''), (''plugin_id'', JStr i)]"
| "webapp_source_json (BridgePlugin i) = json_obj [(''type'', JStr ''bridgePlugin''), (''plugin_id'', JStr i)]"

definition webapp_json :: "webapp_info \<Rightarrow> json" where
  "webapp_json w = json_obj
     ([(''name'', JStr (wa_name w)), (''version'', JStr (wa_version w))]
      @ opt_field ''displayName'' JStr (wa_display_name w) @ opt_field ''description'' JStr (wa_description w)
      @ [(''keywords'', JArr (map JStr (wa_keywords w))), (''url'', JStr (wa_url w))]
      @ opt_field ''source'' webapp_source_json (wa_source w))"

definition list_webapps :: "webapp_info list \<Rightarrow> reply" where
  "list_webapps ws = Reply 200 (JArr (map webapp_json ws))"

definition list_data_providers :: "plugin_registry \<Rightarrow> reply" where
  "list_data_providers rg = Reply 200 (JArr (map (\<lambda>(i, l, e).
     json_obj [(''id'', JStr i), (''typeLabel'', JStr l), (''enabled'', JBool e)]) (plugin_providers rg)))"

definition list_available_paths :: "store \<Rightarrow> reply" where
  "list_available_paths s = Reply 200 (JArr (map JStr (self_paths s)))"

definition get_source_priorities :: "config_store \<Rightarrow> reply" where
  "get_source_priorities ks = Reply 200 (json_obj (map (\<lambda>(k, n). (k, json_u16 n)) (kc_priorities (ks_cache ks))))"

definition run_discovery :: reply where
  "run_discovery = message_reply 200 ''ok''"

definition appstore_available :: reply where
  "appstore_available = Reply 200 (json_obj
     [(''available'', JArr []), (''installed'', JArr []), (''installing'', JArr []), (''updates'', JArr [])])"

fun tier_text :: "plugin_tier \<Rightarrow> string" where
  "tier_text Rust = ''rust''"
| "tier_text Bridge = ''bridge''"
| "tier_text Standalone = ''standalone''"

definition plugin_info_json :: "(datetime \<Rightarrow> string) \<Rightarrow> plugin_info \<Rightarrow> json" where
  "plugin_info_json ts p = json_obj
     ([(''id'', JStr (pi_id p)), (''name'', JStr (pi_name p)), (''description'', JStr (pi_description p)),
       (''version'', JStr (pi_version p)), (''tier'', JStr (tier_text (pi_tier p))), (''status'', JStr (pi_status p)),
       (''enabled'', JBool (pi_enabled p)), (''keywords'', JArr (map JStr (pi_keywords p)))]
      @ (if pi_has_webapp p then [(''hasWebapp'', JBool True)] else [])
      @ opt_field ''webappUrl'' JStr (pi_webapp_url p) @ opt_field ''schema'' id (pi_schema p)
      @ opt_field ''lastErrorTime'' (\<lambda>t. JStr (ts t)) (pi_last_error_time p))"

definition list_plugins :: "(datetime \<Rightarrow> string) \<Rightarrow> plugin_registry \<Rightarrow> reply" where
  "list_plugins ts rg = Reply 200 (JArr (map (\<lambda>(_, p). plugin_info_json ts p) rg))"

definition get_plugin :: "(datetime \<Rightarrow> string) \<Rightarrow> string \<Rightarrow> plugin_registry \<Rightarrow> reply" where
  "get_plugin ts pid rg =
     (case map_of rg pid of Some p \<Rightarrow> Reply 200 (plugin_info_json ts p) | None \<Rightarrow> plugin_not_found pid)"

section \<open>Messages to administration pages\<close>

text \<open>A connection that asked for server events remembers the counts of its last message. Their
  differences are differences of 64 bit words.\<close>

record stats_state =
  sx_deltas :: u64
  sx_sources :: "u64 hmap"

definition stats_start :: "store \<Rightarrow> stats_state" where
  "stats_start s = \<lparr>sx_deltas = st_delta_count s, sx_sources = st_source_counts s\<rparr>"

record statistics =
  sz_rate :: u64
  sz_paths :: nat
  sz_clients :: nat
  sz_uptime :: u64
  sz_providers :: "(u64 \<times> u64) hmap"

definition stats_tick :: "store \<Rightarrow> nat \<Rightarrow> u64 \<Rightarrow> stats_state \<Rightarrow> statistics \<times> stats_state" where
  "stats_tick s clients uptime x =
     (\<lparr>sz_rate = st_delta_count s - sx_deltas x, sz_paths = self_path_count s, sz_clients = clients, sz_uptime = uptime,
       sz_providers = map (\<lambda>(src, n). (src, n - unwrap_or (map_of (sx_sources x) src) 0, n)) (st_source_counts s)\<rparr>,
      \<lparr>sx_deltas = st_delta_count s, sx_sources = st_source_counts s\<rparr>)"

definition rate_json :: "u64 \<Rightarrow> json" where
  "rate_json n = json_f64 (round_f64 (of_nat (unat n)))"

definition statistics_json :: "statistics \<Rightarrow> json" where
  "statistics_json z = json_obj [(''type'', JStr ''SERVERSTATISTICS''), (''data'', json_obj
     [(''deltaRate'', rate_json (sz_rate z)), (''numberOfAvailablePaths'', JNum (PosInt (of_nat (sz_paths z)))),
      (''wsClients'', JNum (PosInt (of_nat (sz_clients z)))), (''uptime'', json_u64 (sz_uptime z)),
      (''providerStatistics'', json_obj (map (\<lambda>(src, r, n).
         (src, json_obj [(''deltaRate'', rate_json r), (''deltaCount'', json_u64 n)])) (sz_providers z)))])]"

text \<open>\<^verbatim>\<open>to_lowercase\<close> agrees with the folding of ASCII letters on the beginnings that are asked for.\<close>

definition provider_entry :: "(datetime \<Rightarrow> string) \<Rightarrow> plugin_info \<Rightarrow> json" where
  "provider_entry ts p =
     (let l = ascii_lower (pi_status p);
          t = (if starts_with l ''running'' then ''status'' else if starts_with l ''error'' then ''error'' else ''warning'')
      in json_obj
        [(''id'', JStr (pi_id p)), (''statusType'', JStr ''plugin''), (''type'', JStr t), (''message'', JStr (pi_status p)),
         (''lastError'', JStr (if t = ''error'' then pi_status p else [])),
         (''lastErrorTimeStamp'', JStr (unwrap_or (map_option ts (pi_last_error_time p)) []))])"

definition build_provider_status :: "(datetime \<Rightarrow> string) \<Rightarrow> plugin_registry \<Rightarrow> json" where
  "build_provider_status ts rg =
     json_obj [(''type'', JStr ''PROVIDERSTATUS''), (''data'', JArr (map (\<lambda>(_, p). provider_entry ts p) rg))]"

definition hello_message :: "(datetime \<Rightarrow> string) \<Rightarrow> datetime \<Rightarrow> store \<Rightarrow> json" where
  "hello_message ts now s = json_obj
     [(''name'', JStr ''signalk-rs''), (''version'', JStr SIGNALK_VERSION), (''self'', JStr (''vessels.'' @ st_self_uri s)),
      (''roles'', JArr [JStr ''master'', JStr ''main'']), (''timestamp'', JStr (ts now))]"

text \<open>What the address of a connection asks for: its mode, whether the values come first, and whether
  it gets the messages of the server.\<close>

definition stream_params :: "string option \<Rightarrow> bool option \<Rightarrow> string option \<Rightarrow> subscribe_mode \<times> bool \<times> bool" where
  "stream_params subscribe cached events =
     (subscribe_mode_from_str (unwrap_or subscribe ''self''), unwrap_or cached True, events = Some ''all'')"

end
