(* ===== verification/Startup.thy ===== *)
theory Startup
  imports Server
begin

text \<open>
  The start of the server in \<^verbatim>\<open>main.rs\<close>: the configuration store over the database, the data
  store that is filled from it, the plugins that are registered and started, the registry, course and
  history managers and the web applications. What is compiled in or found on the disk is an argument:
  the plugins, the provider of resource files, the unit preferences, the saved course, the packages,
  and what the notification manager makes of a delta.
\<close>

record ('r, 'p, 'w, 's) boot_env =
  bo_host :: host_env
  bo_now :: datetime
  bo_uuid :: string
  bo_token :: string
  bo_course :: course_env
  bo_notify :: "delta \<Rightarrow> delta option"
  bo_files :: "'w provider"
  bo_plugins :: "('r, 'p, 'w, 's) boxed_plugin list"
  bo_units :: "unit_manager option"
  bo_course_file :: "json option"
  bo_packages :: "package list"

record ('r, 'p, 'w, 's) server_state =
  so_config :: server_config
  so_token :: string
  so_admin :: "('r, 'p, 'w, 's) admin_server"
  so_course :: course_manager
  so_history :: history_manager
  so_units :: "unit_manager option"

definition bridge_token :: "server_config \<Rightarrow> string \<Rightarrow> string" where
  "bridge_token c drawn = (if int_token (cnf_internal c) = [] then drawn else int_token (cnf_internal c))"

definition first_shared :: "('r, 'p, 'w, 's) boot_env \<Rightarrow> config_store \<Rightarrow> ('r, 'p, 'w) shared" where
  "first_shared env ks =
     \<lparr>sh_store = start_store ks, sh_routes = Map.empty, sh_puts = [], sh_put_map = [], sh_route_map = [],
      sh_filter = chain_register ''notification-manager'' (bo_notify env) [], sh_webapps = [],
      sh_pilots = autopilot_manager_new, sh_resources = registry_new (bo_files env), sh_config = ks\<rparr>"

definition plugin_manager_new :: "('r, 'p, 'w) shared \<Rightarrow> ('r, 'p, 'w, 's) plugin_manager" where
  "plugin_manager_new sh = \<lparr>pm_plugins = [], pm_shared = sh, pm_dropped = []\<rparr>"

definition register_plugins :: "('r, 'p, 'w, 's) boxed_plugin list \<Rightarrow> ('r, 'p, 'w, 's) plugin_manager
    \<Rightarrow> ('r, 'p, 'w, 's) plugin_manager" where
  "register_plugins ps mg = fold register_plugin ps mg"

definition enabled_configs :: "config_store \<Rightarrow> json hmap" where
  "enabled_configs ks = map (\<lambda>(i, e). (i, ke_config e)) (filter (\<lambda>(_, e). ke_enabled e) (kc_plugins (ks_cache ks)))"

definition boot_manager :: "('r, 'p, 'w, 's) boot_env \<Rightarrow> config_store \<Rightarrow> ('r, 'p, 'w, 's) plugin_manager" where
  "boot_manager env ks =
     start_all (bo_host env) (enabled_configs ks)
       (register_plugins (bo_plugins env) (plugin_manager_new (first_shared env ks)))"

text \<open>The web applications of packages come after those that plugins registered.\<close>

definition add_webapps :: "webapp_info list \<Rightarrow> ('r, 'p, 'w, 's) plugin_manager \<Rightarrow> ('r, 'p, 'w, 's) plugin_manager" where
  "add_webapps ws mg =
     mg\<lparr>pm_shared := (pm_shared mg)\<lparr>sh_webapps := fold webapp_register ws (sh_webapps (pm_shared mg))\<rparr>\<rparr>"

definition boot :: "('r, 'p, 'w, 's) boot_env \<Rightarrow> server_config \<Rightarrow> seed_config \<Rightarrow> config_rows \<Rightarrow> ('r, 'p, 'w, 's) server_state" where
  "boot env c sd db =
     (let ks = config_store_new (he_text (bo_host env)) (bo_uuid env) sd db;
          mg = boot_manager env ks;
          course = course_load (bo_course env) (course_manager_new (sh_store (pm_shared mg)) (bo_course_file env));
          mg1 = mg\<lparr>pm_shared := (pm_shared mg)\<lparr>sh_store := cm_store course\<rparr>\<rparr>
      in \<lparr>so_config = c, so_token = bridge_token c (bo_token env),
          so_admin = \<lparr>as_registry = populate_registry (bo_now env) mg [],
                      as_manager = add_webapps (discover_webapps (bo_packages env)) mg1\<rparr>,
          so_course = course, so_history = history_start (history_manager_new (cnf_history c)), so_units = bo_units env\<rparr>)"

section \<open>A run of the server\<close>

text \<open>What the administration and the plugins do after the start.\<close>

datatype ('r, 'p, 'w) admin_request =
    Control string admin_action
  | Configure string json
  | Acts string "('r, 'p, 'w) context_call list"

fun admin_do :: "admin_env \<Rightarrow> ('r, 'p, 'w) admin_request \<Rightarrow> ('r, 'p, 'w, 's) admin_server \<Rightarrow> ('r, 'p, 'w, 's) admin_server" where
  "admin_do env (Control pid a) x = snd (control_plugin env pid a x)"
| "admin_do env (Configure pid v) x = snd (update_plugin_config env pid v x)"
| "admin_do env (Acts pid cs) x = x\<lparr>as_manager := plugin_acts (ae_host env) pid cs (as_manager x)\<rparr>"

definition config_of :: "('r, 'p, 'w, 's) admin_server \<Rightarrow> config_store" where
  "config_of x = sh_config (pm_shared (as_manager x))"

end
