(* ===== verification/ServerSpec.thy ===== *)
theory ServerSpec
  imports Startup ConfigStoreSpec AdminSpec
begin

text \<open>
  The start of the server starts exactly the plugins that are registered and enabled, each once with
  its stored configuration, and what was disabled stays stopped over restarts. The requests for
  tracks, tokens and statistics do what they say, with the exceptions that are shown.
\<close>

section \<open>Starting plugins\<close>

definition fresh_entry :: "('r, 'p, 'w, 's) boxed_plugin \<Rightarrow> ('r, 'p, 'w, 's) plugin_entry" where
  "fresh_entry p = \<lparr>pe_plugin = p, pe_status = Stopped, pe_context = None\<rparr>"

text \<open>The entry of a plugin that was started once, whatever state was shared at that time.\<close>

definition start_result :: "host_env \<Rightarrow> string \<Rightarrow> json \<Rightarrow> ('r, 'p, 'w, 's) boxed_plugin \<Rightarrow> ('r, 'p, 'w, 's) plugin_entry \<Rightarrow> bool" where
  "start_result env i v p en \<longleftrightarrow> (\<exists>sh cs e p'. start_of p v sh = (cs, e, p') \<and>
     (case guarded i e of
        Inr _ \<Rightarrow> en = \<lparr>pe_plugin = p', pe_status = Running ''Started'',
                      pe_context = Some (fst (run_calls env cs (context_new i, sh)))\<rparr>
      | Inl err \<Rightarrow> en = \<lparr>pe_plugin = Placeholder i, pe_status = Error (plugin_error_text err), pe_context = None\<rparr>))"

lemma start_other:
  "q \<noteq> i \<Longrightarrow> map_of (pm_plugins (snd (start_plugin env i v mg))) q = map_of (pm_plugins mg) q"
  by (simp add: start_plugin_def Let_def split: option.split prod.split sum.split)

lemma start_self:
  assumes "map_of (pm_plugins mg) i = Some (fresh_entry p)"
  shows "\<exists>en. map_of (pm_plugins (snd (start_plugin env i v mg))) i = Some en \<and> start_result env i v p en"
proof -
  obtain cs e p' where s: "start_of p v (pm_shared mg) = (cs, e, p')" by (metis surj_pair)
  obtain x sh where r: "run_calls env cs (context_new i, pm_shared mg) = (x, sh)" by (metis surj_pair)
  have x: "x = fst (run_calls env cs (context_new i, pm_shared mg))" by (simp add: r)
  show ?thesis
  proof (cases "guarded i e")
    case (Inl err)
    then have "start_result env i v p \<lparr>pe_plugin = Placeholder i, pe_status = Error (plugin_error_text err), pe_context = None\<rparr>"
      unfolding start_result_def using s by (intro exI [of _ "pm_shared mg"] exI [of _ cs] exI [of _ e] exI [of _ p'] conjI) (simp_all add: Inl)
    then show ?thesis using assms s r Inl by (simp add: start_plugin_def fresh_entry_def is_running_status_def del: map_of_eq_Some_iff)
  next
    case (Inr u)
    then have "start_result env i v p \<lparr>pe_plugin = p', pe_status = Running ''Started'', pe_context = Some x\<rparr>"
      unfolding start_result_def x using s by (intro exI [of _ "pm_shared mg"] exI [of _ cs] exI [of _ e] exI [of _ p'] conjI) (simp_all add: Inr)
    then show ?thesis using assms s r Inr by (simp add: start_plugin_def fresh_entry_def is_running_status_def del: map_of_eq_Some_iff)
  qed
qed

lemma start_all_other:
  "i \<notin> fst ` set cs \<Longrightarrow> map_of (pm_plugins (start_all env cs mg)) i = map_of (pm_plugins mg) i"
  unfolding start_all_def by (induction cs arbitrary: mg) (auto simp: start_other)

lemma start_all_entry:
  assumes "distinct (map fst cs)" and "map_of (pm_plugins mg) i = Some (fresh_entry p)"
  shows "\<exists>en. map_of (pm_plugins (start_all env cs mg)) i = Some en \<and>
    (case map_of cs i of Some v \<Rightarrow> start_result env i v p en | None \<Rightarrow> en = fresh_entry p)"
  using assms
proof (induction cs arbitrary: mg)
  case (Cons a cs)
  obtain k v where a: "a = (k, v)" by (metis surj_pair)
  have step: "start_all env (a # cs) mg = start_all env cs (snd (start_plugin env k v mg))"
    by (simp add: start_all_def a)
  show ?case
  proof (cases "k = i")
    case True
    then have "map_of (pm_plugins (start_all env (a # cs) mg)) i = map_of (pm_plugins (snd (start_plugin env i v mg))) i"
      unfolding step using Cons.prems(1) a by (simp add: start_all_other)
    then show ?thesis using start_self [OF Cons.prems(2), of env v] True a by simp
  next
    case False
    then show ?thesis
      unfolding step using Cons.IH [of "snd (start_plugin env k v mg)"] Cons.prems a by (simp add: start_other)
  qed
qed (simp add: start_all_def)

lemma registered_entry:
  assumes "distinct (map (pg_id \<circ> metadata_of) ps)" and "p \<in> set ps"
  shows "map_of (pm_plugins (register_plugins ps mg)) (pg_id (metadata_of p)) = Some (fresh_entry p)"
proof -
  have keep: "map_of (pm_plugins (fold register_plugin qs m)) k = map_of (pm_plugins m) k"
    if "k \<notin> (pg_id \<circ> metadata_of) ` set qs" for qs k and m :: "('a, 'b, 'c, 'd) plugin_manager"
    using that by (induction qs arbitrary: m) (auto simp: register_plugin_def)
  show ?thesis
    using assms unfolding register_plugins_def
    by (induction ps arbitrary: mg) (auto simp: keep register_plugin_def fresh_entry_def)
qed

lemma map_of_enabled:
  "distinct (map fst (kc_plugins (ks_cache ks))) \<Longrightarrow> map_of (enabled_configs ks) i =
     (case plugin_config i ks of Some e \<Rightarrow> if ke_enabled e then Some (ke_config e) else None | None \<Rightarrow> None)"
proof -
  have "distinct (map fst m) \<Longrightarrow> map_of (map (\<lambda>(i, e). (i, ke_config e)) (filter (\<lambda>(_, e). ke_enabled e) m)) i =
      (case map_of m i of Some e \<Rightarrow> if ke_enabled e then Some (ke_config e) else None | None \<Rightarrow> None)"
    for m :: "plugin_config_entry hmap"
    by (induction m) (auto split: option.splits dest: map_of_SomeD intro: rev_image_eqI simp: map_of_eq_None_iff)
  then show "distinct (map fst (kc_plugins (ks_cache ks))) \<Longrightarrow> ?thesis" by (simp add: enabled_configs_def plugin_config_def)
qed

lemma loaded_plugins_distinct: "distinct (map fst (kc_plugins (ks_cache (config_store_new x uuid sd db))))"
proof -
  have "distinct (map fst (kc_plugins (load_row x r c)))" if "distinct (map fst (kc_plugins c))" for r c
    using that by (cases r) (auto simp: load_row_def load_server_row_def insert_opt_def hm_insert_ok split: option.split)
  then have "distinct (map fst (kc_plugins (fold (load_row x) rs c)))" if "distinct (map fst (kc_plugins c))" for rs c
    using that by (induction rs arbitrary: c) auto
  from this [of cache_empty] show ?thesis
    by (simp add: config_store_new_def load_cache_def Let_def cache_empty_def)
qed


lemma boot_entry:
  assumes "distinct (map (pg_id \<circ> metadata_of) (bo_plugins env))" and "p \<in> set (bo_plugins env)"
    and "ks = config_store_new (he_text (bo_host env)) (bo_uuid env) sd db" and "i = pg_id (metadata_of p)"
  shows "\<exists>en. map_of (pm_plugins (as_manager (so_admin (boot env c sd db)))) i = Some en \<and>
    (if is_some_and (plugin_config i ks) ke_enabled
     then start_result (bo_host env) i (ke_config (the (plugin_config i ks))) p en
     else en = fresh_entry p)"
proof -
  have "map_of (pm_plugins (register_plugins (bo_plugins env) (plugin_manager_new (first_shared env ks)))) i = Some (fresh_entry p)"
    unfolding assms(4) by (rule registered_entry [OF assms(1,2)])
  moreover have "distinct (map fst (kc_plugins (ks_cache ks)))" by (simp add: assms(3) loaded_plugins_distinct)
  moreover from this have "distinct (map fst (enabled_configs ks))"
    by (simp add: enabled_configs_def case_prod_beta comp_def distinct_map_filter)
  ultimately obtain en where "map_of (pm_plugins (boot_manager env ks)) i = Some en"
    "case map_of (enabled_configs ks) i of Some v \<Rightarrow> start_result (bo_host env) i v p en | None \<Rightarrow> en = fresh_entry p"
    "map_of (enabled_configs ks) i =
      (case plugin_config i ks of Some e \<Rightarrow> if ke_enabled e then Some (ke_config e) else None | None \<Rightarrow> None)"
    using start_all_entry [of "enabled_configs ks" _ i p "bo_host env"] map_of_enabled [of ks i]
    unfolding boot_manager_def by blast
  then show ?thesis
    by (auto simp: boot_def Let_def add_webapps_def is_some_and_def assms(3) [symmetric] simp del: map_of_eq_Some_iff split: option.splits if_splits)
qed

text \<open>Claim C29. After the start every plugin that is compiled in is in the manager: started once with its stored
  configuration when it has an enabled one, and otherwise as it was made.\<close>

theorem boot_starts_what_is_enabled:
  assumes "distinct (map (pg_id \<circ> metadata_of) (bo_plugins env))" and "p \<in> set (bo_plugins env)"
    and "ks = config_store_new (he_text (bo_host env)) (bo_uuid env) sd db" and "i = pg_id (metadata_of p)"
  shows "\<exists>en. map_of (pm_plugins (as_manager (so_admin (boot env c sd db)))) i = Some en \<and>
    (if is_some_and (plugin_config i ks) ke_enabled
     then start_result (bo_host env) i (ke_config (the (plugin_config i ks))) p en
     else en = fresh_entry p)"
  by (rule boot_entry [OF assms])

section \<open>What is disabled stays stopped\<close>

definition kept_off :: "json_text \<Rightarrow> string \<Rightarrow> config_store \<Rightarrow> bool" where
  "kept_off x pid ks \<longleftrightarrow> coherent x ks \<and> (\<exists>e. plugin_config pid ks = Some e \<and> \<not> ke_enabled e)"

lemma kept_off_config: "json_text_ok x \<Longrightarrow> kept_off x pid ks \<Longrightarrow> kept_off x pid (set_plugin_config x q v ks)"
  using coherent_step [of x ks "Set_plugin_config q v"]
  by (auto simp: kept_off_def set_plugin_config_def put_plugin_entry_def plugin_config_def simp del: map_of_eq_Some_iff)

lemma kept_off_enabled:
  "json_text_ok x \<Longrightarrow> kept_off x pid ks \<Longrightarrow> q \<noteq> pid \<or> \<not> b \<Longrightarrow> kept_off x pid (set_plugin_enabled x q b ks)"
  using coherent_step [of x ks "Set_plugin_enabled q b"]
  by (auto simp: kept_off_def set_plugin_enabled_def put_plugin_entry_def plugin_config_def simp del: map_of_eq_Some_iff)

lemma off_disabled: "json_text_ok x \<Longrightarrow> coherent x ks \<Longrightarrow> kept_off x pid (set_plugin_enabled x pid False ks)"
  using coherent_step [of x ks "Set_plugin_enabled pid False"]
  by (auto simp: kept_off_def set_plugin_enabled_def put_plugin_entry_def plugin_config_def simp del: map_of_eq_Some_iff)

lemma kept_off_call:
  assumes "json_text_ok (he_text env)" and "kept_off (he_text env) pid (sh_config (snd xs))"
  shows "kept_off (he_text env) pid (sh_config (snd (run_call env c xs)))"
  using assms by (cases xs; cases c) (simp_all add: kept_off_config)

lemma kept_off_calls:
  assumes "json_text_ok (he_text env)"
  shows "kept_off (he_text env) pid (sh_config (snd xs)) \<Longrightarrow> kept_off (he_text env) pid (sh_config (snd (run_calls env cs xs)))"
  unfolding run_calls_def by (induction cs arbitrary: xs) (simp_all add: kept_off_call [OF assms])

definition stays_off :: "host_env \<Rightarrow> string \<Rightarrow> ('r, 'p, 'w, 's) plugin_manager \<Rightarrow> bool" where
  "stays_off env pid mg \<longleftrightarrow> kept_off (he_text env) pid (sh_config (pm_shared mg))"

lemma stays_off_frame [simp]:
  "stays_off env pid (mg\<lparr>pm_plugins := ps\<rparr>) = stays_off env pid mg"
  "stays_off env pid (mg\<lparr>pm_dropped := ds\<rparr>) = stays_off env pid mg"
  "stays_off env pid (mg\<lparr>pm_shared := sh\<rparr>) = kept_off (he_text env) pid (sh_config sh)"
  by (simp_all add: stays_off_def)

lemma released_config [simp]: "sh_config (release_plugin pid sh) = sh_config sh"
  by (simp add: release_plugin_def)

lemma stays_off_start:
  assumes "json_text_ok (he_text env)" and "stays_off env pid mg"
  shows "stays_off env pid (snd (start_plugin env q v mg))"
proof (cases "map_of (pm_plugins mg) q")
  case (Some en)
  obtain cs e p where s: "start_of (pe_plugin en) v (pm_shared mg) = (cs, e, p)" by (metis surj_pair)
  obtain x sh where r: "run_calls env cs (context_new q, pm_shared mg) = (x, sh)" by (metis surj_pair)
  have "kept_off (he_text env) pid (sh_config sh)"
    using kept_off_calls [OF assms(1), of pid "(context_new q, pm_shared mg)" cs] assms(2) r by (simp add: stays_off_def)
  then show ?thesis using Some s r assms(2) by (simp add: start_plugin_def split: sum.split)
qed (simp add: start_plugin_def assms(2))

lemma stays_off_stop:
  assumes "json_text_ok (he_text env)" and "stays_off env pid mg"
  shows "stays_off env pid (snd (stop_plugin env q mg))"
proof (cases "map_of (pm_plugins mg) q")
  case (Some en)
  obtain cs p where s: "stop_of (pe_plugin en) (pm_shared mg) = (cs, p)" by (metis surj_pair)
  have "kept_off (he_text env) pid (sh_config (case pe_context en of Some x \<Rightarrow> snd (run_calls env cs (x, pm_shared mg)) | None \<Rightarrow> pm_shared mg))"
    using assms(2) kept_off_calls [OF assms(1), of pid "(x, pm_shared mg)" cs for x]
    by (simp add: stays_off_def split: option.split)
  then show ?thesis using Some s assms(2) by (simp add: stop_plugin_def)
qed (simp add: stop_plugin_def assms(2))

lemma stays_off_acts:
  assumes "json_text_ok (he_text env)" and "stays_off env pid mg"
  shows "stays_off env pid (plugin_acts env q cs mg)"
proof -
  have "kept_off (he_text env) pid (sh_config (snd (run_calls env cs (x, pm_shared mg))))" for x
    using kept_off_calls [OF assms(1), of pid "(x, pm_shared mg)" cs] assms(2) by (simp add: stays_off_def)
  then show ?thesis
    using assms(2) by (simp add: plugin_acts_def case_prod_beta Let_def split: option.split)
qed


text \<open>The requests that do not enable the plugin keep it off.\<close>

definition off_at :: "admin_env \<Rightarrow> string \<Rightarrow> ('r, 'p, 'w, 's) admin_server \<Rightarrow> bool" where
  "off_at env pid x \<longleftrightarrow> stays_off (ae_host env) pid (as_manager x)"

lemma off_at_frame [simp]:
  "off_at env pid (x\<lparr>as_manager := mg\<rparr>) = stays_off (ae_host env) pid mg"
  "off_at env pid (synced env x) = off_at env pid x"
  by (simp_all add: off_at_def synced_def)

lemma off_at_start_sync:
  assumes "json_text_ok (he_text (ae_host env))" and "off_at env pid x"
  shows "off_at env pid (snd (start_and_sync env q v x))"
  using stays_off_start [OF assms(1), of pid "as_manager x" q v] assms(2)
  by (auto simp: start_and_sync_def off_at_def synced_def split: prod.split sum.split)

lemma off_at_set:
  assumes "json_text_ok (he_text (ae_host env))" and "off_at env pid x" and "q \<noteq> pid \<or> \<not> b"
  shows "off_at env pid (set_enabled env q b x)"
  using assms by (simp add: set_enabled_def off_at_def Let_def kept_off_enabled) (simp add: stays_off_def kept_off_enabled)

lemma off_at_control:
  assumes "json_text_ok (he_text (ae_host env))" and "off_at env pid x" and "q = pid \<longrightarrow> a \<noteq> Enable"
  shows "off_at env pid (snd (control_plugin env q a x))"
proof -
  have stop: "stays_off (ae_host env) pid (snd (stop_plugin (ae_host env) q (as_manager y)))" if "off_at env pid y" for y
    using stays_off_stop [OF assms(1), of pid "as_manager y" q] that by (simp add: off_at_def)
  have "off_at env pid (snd (control_rust env q a x))"
  proof (cases a)
    case Restart
    obtain r mg where st: "stop_plugin (ae_host env) q (as_manager x) = (r, mg)" by (metis surj_pair)
    then have "stays_off (ae_host env) pid mg" using stop [OF assms(2)] by simp
    then show ?thesis
      using Restart st off_at_start_sync [OF assms(1), of pid "x\<lparr>as_manager := mg\<rparr>" q] by (simp add: control_rust_def split: sum.split)
  next
    case Enable
    then have "off_at env pid (set_enabled env q True x)" using off_at_set [OF assms(1,2)] assms(3) by simp
    then show ?thesis using Enable off_at_start_sync [OF assms(1)] by (simp add: control_rust_def Let_def)
  next
    case Disable
    have "off_at env pid (set_enabled env q False x)" using off_at_set [OF assms(1,2)] by simp
    from stop [OF this] show ?thesis using Disable
      by (auto simp: control_rust_def Let_def split: prod.split sum.split)
  qed
  moreover have "off_at env pid (snd (control_bridge env q a x))"
    using assms(2) by (auto simp: control_bridge_def off_at_def split: option.split admin_action.split)
  ultimately show ?thesis using assms(2) by (simp add: control_plugin_def split: option.split plugin_tier.split)
qed

lemma off_at_update:
  assumes "json_text_ok (he_text (ae_host env))" and "off_at env pid x"
  shows "off_at env pid (snd (update_plugin_config env q v x))"
proof -
  define mg where "mg = save_plugin_config (ae_host env) q v (as_manager x)"
  have mg: "stays_off (ae_host env) pid mg"
    using assms kept_off_config [OF assms(1)] by (simp add: mg_def save_plugin_config_def off_at_def) (simp add: stays_off_def)
  obtain r1 mg1 where st: "stop_plugin (ae_host env) q mg = (r1, mg1)" by (metis surj_pair)
  obtain r2 mg2 where sa: "start_plugin (ae_host env) q v mg1 = (r2, mg2)" by (metis surj_pair)
  have "stays_off (ae_host env) pid mg1" using stays_off_stop [OF assms(1) mg, of q] st by simp
  moreover from this have "stays_off (ae_host env) pid mg2" using stays_off_start [OF assms(1), of pid mg1 q v] sa by simp
  ultimately show ?thesis
    using assms(2) mg by (simp add: update_plugin_config_def mg_def [symmetric] st sa split: option.split sum.split)
qed

lemma off_at_do:
  assumes "json_text_ok (he_text (ae_host env))" and "off_at env pid x" and "q \<noteq> Control pid Enable"
  shows "off_at env pid (admin_do env q x)"
  using assms off_at_control [OF assms(1,2)] off_at_update [OF assms(1,2)] stays_off_acts [OF assms(1)]
  by (cases q) (auto simp: off_at_def)

lemma off_at_run:
  assumes "json_text_ok (he_text (ae_host env))"
  shows "off_at env pid x \<Longrightarrow> Control pid Enable \<notin> set qs \<Longrightarrow> off_at env pid (fold (admin_do env) qs x)"
  by (induction qs arbitrary: x) (auto simp: off_at_do [OF assms])

lemma disable_is_off:
  assumes "json_text_ok (he_text (ae_host env))" and "coherent (he_text (ae_host env)) (config_of x)"
    and "map_of (as_registry x) pid = Some info" and "pi_tier info = Rust"
  shows "off_at env pid (snd (control_plugin env pid Disable x))"
proof -
  have "off_at env pid (set_enabled env pid False x)"
    using off_disabled [OF assms(1)] assms(2) by (simp add: set_enabled_def Let_def config_of_def)
  from stays_off_stop [OF assms(1), of pid "as_manager (set_enabled env pid False x)" pid] this
  show ?thesis using assms(3,4)
    by (auto simp: control_plugin_def control_rust_def Let_def off_at_def synced_def split: prod.split sum.split simp del: map_of_eq_Some_iff)
qed

lemma reloaded_plugin:
  assumes "coherent x ks"
  shows "plugin_config i (config_store_new x uuid sd (ks_db ks)) = plugin_config i ks"
proof -
  have "ks_db ks \<noteq> []" using assms by (auto simp: coherent_def rows_text_def)
  moreover have "holds x (ks_db ks) (load_cache x uuid (ks_db ks))"
    using assms by (intro load_holds) (simp add: coherent_def)
  ultimately show ?thesis
    using assms by (simp add: config_store_new_def plugin_config_def holds_def coherent_def Let_def)
qed



section \<open>Examples\<close>

definition demo_boot :: "(nat, nat, unit, unit) boot_env" where
  "demo_boot =
     \<lparr>bo_host = demo_host\<lparr>he_text := stroke_json\<rparr>, bo_now = 0, bo_uuid = ''1'', bo_token = ''t'',
      bo_course = \<lparr>ce_disp = (\<lambda>_. []), ce_now = 0, ce_utc = 0, ce_now_str = [], ce_get = (\<lambda>_ _. Inr None), ce_libm = demo_libm,
        ce_io = Inr ()\<rparr>,
      bo_notify = Some, bo_files = rg_file (sh_resources demo_shared), bo_plugins = [Plugin (demo_code ''demo'') ()],
      bo_units = None, bo_course_file = None, bo_packages = []\<rparr>"

definition demo_enabled :: seed_config where
  "demo_enabled = (demo_seed ''urn:ada'')\<lparr>sd_plugins := [(''demo'', \<lparr>ke_enabled = True, ke_config = JBool True\<rparr>)]\<rparr>"

lemma demo_enabled_config:
  "plugin_config ''demo'' (config_store_new stroke_json u demo_enabled []) = Some \<lparr>ke_enabled = True, ke_config = JBool True\<rparr>"
proof -
  have "holds stroke_json (seed_from_config stroke_json demo_enabled []) (load_cache stroke_json u (seed_from_config stroke_json demo_enabled []))"
    by (rule load_holds [OF seed_distinct])
  then have "plugin_config ''demo'' (config_store_new stroke_json u demo_enabled [])
      = rows_map stroke_json ''plugins'' entry_of_json (seed_from_config stroke_json demo_enabled []) ''demo''"
    by (simp add: holds_def plugin_config_def config_store_new_def Let_def)
  also have "\<dots> = Some \<lparr>ke_enabled = True, ke_config = JBool True\<rparr>"
    using stroke_json_ok by (simp add: seed_from_config_def demo_enabled_def rows_map_upsert_all json_text_ok_def)
  finally show ?thesis .
qed

theorem boot_starts_what_is_enabled_witness:
  "\<exists>en. map_of (pm_plugins (as_manager (so_admin (boot demo_boot (server_config_default []) demo_enabled [])))) ''demo'' = Some en
     \<and> pe_status en = Running ''Started''"
proof -
  have "distinct (map (pg_id \<circ> metadata_of) (bo_plugins demo_boot))" "Plugin (demo_code ''demo'') () \<in> set (bo_plugins demo_boot)"
    "''demo'' = pg_id (metadata_of (Plugin (demo_code ''demo'') ()))"
    by (simp_all add: demo_boot_def demo_code_def)
  from boot_starts_what_is_enabled [OF this(1,2) refl this(3), of "server_config_default []" demo_enabled "[]"]
  obtain en where "map_of (pm_plugins (as_manager (so_admin (boot demo_boot (server_config_default []) demo_enabled [])))) ''demo'' = Some en"
    "start_result (bo_host demo_boot) ''demo'' (JBool True) (Plugin (demo_code ''demo'') ()) en"
    by (auto simp: demo_enabled_config is_some_and_def demo_boot_def simp del: map_of_eq_Some_iff)
  then show ?thesis by (auto simp: start_result_def demo_code_def guarded_def)
qed

definition demo_server :: "(nat, nat, unit, unit) admin_server" where
  "demo_server = (demo_admin None)\<lparr>as_manager := register_plugins (bo_plugins demo_boot)
     (plugin_manager_new (first_shared demo_boot (config_store_new stroke_json ''1'' demo_enabled [])))\<rparr>"



section \<open>Tracks of one vessel\<close>

lemma map_of_parse_query:
  "map_of (parse_query q) k = map_of (rev (map split_pair (filter (\<lambda>s. s \<noteq> []) (split_on CHR ''&'' q)))) k"
proof -
  have "map_of (fold (\<lambda>s m. hm_insert (fst (split_pair s)) (snd (split_pair s)) m) ss m) k
      = (case map_of (rev (map split_pair ss)) k of Some v \<Rightarrow> Some v | None \<Rightarrow> map_of m k)" for ss m
    by (induction ss arbitrary: m) (auto simp: map_add_def split: option.split)
  from this [of _ "[]"] show ?thesis by (simp add: parse_query_def split: option.split)
qed

lemma split_pair_context [simp]: "split_pair (''context='' @ c) = (''context'', c)"
  by (simp add: split_pair_def)

text \<open>The parameters of a query have another name than that of the vessel.\<close>

definition names_no_context :: "string option \<Rightarrow> bool" where
  "names_no_context q \<longleftrightarrow> (case q of None \<Rightarrow> True
     | Some t \<Rightarrow> ''context'' \<notin> fst ` split_pair ` set (split_on CHR ''&'' t))"

lemma vessel_context:
  assumes "CHR ''&'' \<notin> set vessel" and "names_no_context q"
  shows "map_of (parse_query (prepend_context q (''vessels.'' @ vessel))) ''context'' = Some (''vessels.'' @ vessel)"
proof -
  let ?h = "''context='' @ ''vessels.'' @ vessel"
  have h: "CHR ''&'' \<notin> set ?h" using assms(1) by simp
  have split: "split_on CHR ''&'' (prepend_context q (''vessels.'' @ vessel))
      = ?h # (case q of Some t \<Rightarrow> if t \<noteq> [] then split_on CHR ''&'' t else [] | None \<Rightarrow> [])"
    using split_on_append_sep [OF h] split_on_no_sep [OF h] by (simp add: prepend_context_def split: option.split)
  define rest where "rest = (case q of Some t \<Rightarrow> if t \<noteq> [] then split_on CHR ''&'' t else [] | None \<Rightarrow> [])"
  have "''context'' \<notin> fst ` set (map split_pair (filter (\<lambda>s. s \<noteq> []) rest))"
    using assms(2) by (auto simp: names_no_context_def rest_def simp del: split_on.simps split: option.splits if_splits)
  then have "map_of (rev (map split_pair (filter (\<lambda>s. s \<noteq> []) rest))) ''context'' = None"
    by (simp add: map_of_eq_None_iff)
  moreover have "split_pair ?h = (''context'', ''vessels.'' @ vessel)" by (rule split_pair_context)
  ultimately show ?thesis
    unfolding map_of_parse_query split rest_def [symmetric] by (simp add: map_add_def)
qed

text \<open>Deleting the track of a vessel removes exactly that vessel's points, as long as neither the
  vessel's name nor the query can name another one.\<close>

theorem only_that_track_is_deleted:
  assumes "table ''tracks'' = Some (tracks_routes ts env)" and "CHR ''&'' \<notin> set vessel" and "names_no_context query"
    and "delete_vessel_track table vessel query headers = Inr act" and "act db = Some (reply, db')"
  shows "db' = filter (\<lambda>r. rw_context r \<noteq> ''vessels.'' @ vessel) db"
proof -
  define ctx where "ctx = ''vessels.'' @ vessel"
  have "Some (reply, db') = Some (handle_delete_tracks db (Some (prepend_context query ctx)))"
    using assms(1,4,5) unfolding ctx_def by (auto simp: delete_vessel_track_def dispatch_tracks_def route_handle_def tracks_routes_def)
  moreover have "map_of (parse_query (prepend_context query ctx)) ''context'' = Some ctx"
    unfolding ctx_def by (rule vessel_context [OF assms(2,3)])
  ultimately show ?thesis
    unfolding ctx_def [symmetric] by (simp add: handle_delete_tracks_def db_clear_vessel_def del: map_of_eq_Some_iff)
qed

definition demo_rows :: track_db where
  "demo_rows = map (\<lambda>c. \<lparr>rw_context = c, rw_lat = Fin 0, rw_lon = Fin 0, rw_timestamp = [], rw_sog = None, rw_cog = None,
     rw_depth = None\<rparr>) [''vessels.a'', ''vessels.b'', ''vessels.a'']"

theorem only_that_track_is_deleted_witness:
  "map_sum id (\<lambda>act. map_option (\<lambda>(_, db). map rw_context db) (act demo_rows))
     (delete_vessel_track (\<lambda>_. Some (tracks_routes (\<lambda>_. []) \<lparr>tx_libm = demo_libm, tx_rfc = (\<lambda>_. []), tx_parse = (\<lambda>_. Inl []),
        tx_parse_f64 = (\<lambda>_. Inl []), tx_parse_usize = (\<lambda>_. Inl []), tx_fixed = (\<lambda>_ _. [])\<rparr>)) ''a'' (Some ''limit=3'') [])
   = Inr (Some [''vessels.b''])"
proof -
  let ?env = "\<lparr>tx_libm = demo_libm, tx_rfc = (\<lambda>_. []), tx_parse = (\<lambda>_. Inl []), tx_parse_f64 = (\<lambda>_. Inl []),
    tx_parse_usize = (\<lambda>_. Inl []), tx_fixed = (\<lambda>_ _. [])\<rparr> :: track_env"
  let ?table = "\<lambda>_. Some (tracks_routes (\<lambda>_. []) ?env)"
  have q: "names_no_context (Some ''limit=3'')" by code_simp
  obtain act reply db' where a: "delete_vessel_track ?table ''a'' (Some ''limit=3'') [] = Inr act" "act demo_rows = Some (reply, db')"
    by (simp add: delete_vessel_track_def dispatch_tracks_def route_handle_def tracks_routes_def) (metis surj_pair)
  have "db' = filter (\<lambda>r. rw_context r \<noteq> ''vessels.'' @ ''a'') demo_rows"
    by (rule only_that_track_is_deleted [OF refl _ q a]) simp
  then show ?thesis using a by (simp add: demo_rows_def)
qed

text \<open>A query that names a context deletes that one's track instead of the one in the address.\<close>

theorem query_names_other_vessel:
  "map_sum id (\<lambda>act. act db) (delete_vessel_track (\<lambda>_. Some (tracks_routes ts env)) ''self'' (Some ''context=vessels.b'') [])
     = Inr (Some (JsonResponse 200 (json_obj [(''message'', JStr ''cleared tracks for vessels.b'')]), db_clear_vessel ''vessels.b'' db))"
proof -
  have "map_of (parse_query ''context=vessels.self&context=vessels.b'') ''context'' = Some ''vessels.b''" by code_simp
  then show ?thesis
    by (simp add: delete_vessel_track_def dispatch_tracks_def route_handle_def tracks_routes_def prepend_context_def
        handle_delete_tracks_def del: map_of_eq_Some_iff)
qed

section \<open>Tokens\<close>

text \<open>What the signing of tokens promises: the claims come back with the secret they were signed with
  until they expire.\<close>

definition jwt_ok :: "jwt \<Rightarrow> bool" where
  "jwt_ok w \<longleftrightarrow> (\<forall>c s t now. jw_encode w c s = Inr t \<longrightarrow> now \<le> uint (cl_exp c) \<longrightarrow> jw_decode w now t s = Some c)"

text \<open>A token of a login is renewed for the same user as long as it is valid.\<close>

theorem login_is_renewed:
  assumes "jwt_ok w" and "login w start a user password = Reply 200 v" and "jget ''token'' v = Some (JStr token)"
    and "0 \<le> start" and "start + uint (auth_ttl a) < 2 ^ 64" and "now \<le> start + uint (auth_ttl a)"
  shows "validate_request w now a token = token_reply a (create_token w now user (auth_secret a) (auth_ttl a))"
proof -
  obtain t where t: "create_token w start user (auth_secret a) (auth_ttl a) = Inr t" "token = t"
    using assms(2,3) by (auto simp: login_def message_reply_def token_reply_def jget_json_obj split: if_splits sum.splits)
  have "uint (word_of_int start + auth_ttl a :: u64) = start + uint (auth_ttl a)"
    using assms(4,5) by (simp add: uint_word_ariths uint_word_of_int mod_simps del: uint_nonnegative)
  then have "jw_decode w now t (auth_secret a)
      = Some \<lparr>cl_sub = user, cl_exp = word_of_int start + auth_ttl a, cl_iat = word_of_int start\<rparr>"
    using t(1) assms(1,6) by (simp add: jwt_ok_def create_token_def)
  then show ?thesis by (simp add: validate_request_def t(2))
qed

text \<open>A toy signing: the claims as lists of strokes.\<close>

definition demo_jwt :: jwt where
  "demo_jwt =
     \<lparr>jw_encode = (\<lambda>c s. Inr (replicate (unat (cl_exp c)) CHR ''e'' @ CHR ''.'' # replicate (unat (cl_iat c)) CHR ''i'' @ CHR ''.'' # cl_sub c)),
      jw_decode = (\<lambda>now t s. case split_on CHR ''.'' t of
          a # b # r \<Rightarrow> if now \<le> int (length a)
            then Some \<lparr>cl_sub = join_with ''.'' r, cl_exp = of_nat (length a), cl_iat = of_nat (length b)\<rparr> else None
        | _ \<Rightarrow> None)\<rparr>"

lemma demo_jwt_ok: "jwt_ok demo_jwt"
proof -
  have "split_on CHR ''.'' (replicate n x @ CHR ''.'' # s) = replicate n x # split_on CHR ''.'' s" if "x \<noteq> CHR ''.''" for n x s
    using that by (intro split_on_append_sep) simp
  then have "split_on CHR ''.'' (replicate m CHR ''e'' @ CHR ''.'' # replicate n CHR ''i'' @ CHR ''.'' # s)
      = replicate m CHR ''e'' # replicate n CHR ''i'' # split_on CHR ''.'' s" for m n s
    by simp
  then show ?thesis by (simp add: jwt_ok_def demo_jwt_def del: split_on.simps)
qed

definition demo_auth :: "string \<Rightarrow> auth_settings" where
  "demo_auth h = \<lparr>auth_secret = ''s'', auth_ttl = 5, auth_user = ''admin'', auth_hash = h\<rparr>"

theorem login_is_renewed_witness:
  "\<exists>v token. login demo_jwt 1 (demo_auth []) ''admin'' ''anything'' = Reply 200 v \<and> jget ''token'' v = Some (JStr token)
     \<and> validate_request demo_jwt 3 (demo_auth []) token
       = token_reply (demo_auth []) (create_token demo_jwt 3 ''admin'' ''s'' 5)"
proof -
  obtain v token where l: "login demo_jwt 1 (demo_auth []) ''admin'' ''anything'' = Reply 200 v" "jget ''token'' v = Some (JStr token)"
    by (simp add: login_def demo_auth_def token_reply_def create_token_def demo_jwt_def jget_json_obj)
  have "validate_request demo_jwt 3 (demo_auth []) token
      = token_reply (demo_auth []) (create_token demo_jwt 3 ''admin'' (auth_secret (demo_auth [])) (auth_ttl (demo_auth [])))"
    by (rule login_is_renewed [OF demo_jwt_ok l]) (simp_all add: demo_auth_def)
  with l show ?thesis by (auto simp: demo_auth_def)
qed

text \<open>With a password hash in the configuration nobody can log in.\<close>

theorem hash_locks_out:
  assumes "auth_hash a \<noteq> []"
  shows "login w now a user password = message_reply 401 ''Invalid credentials''"
  using assms by (simp add: login_def)

theorem hash_locks_out_witness:
  "login demo_jwt 1 (demo_auth ''hash'') ''admin'' ''right'' = message_reply 401 ''Invalid credentials''"
  by (rule hash_locks_out) (simp add: demo_auth_def)

section \<open>Statistics\<close>

fun stats_run :: "store list \<Rightarrow> stats_state \<Rightarrow> statistics list" where
  "stats_run [] x = []"
| "stats_run (s # ss) x = fst (stats_tick s 0 0 x) # stats_run ss (snd (stats_tick s 0 0 x))"

definition source_rate :: "string \<Rightarrow> statistics \<Rightarrow> u64" where
  "source_rate src z = unwrap_or (map_option fst (map_of (sz_providers z) src)) 0"

lemma map_of_providers:
  "map_of (map (\<lambda>(k, n). (k, f k n, n)) m) src = map_option (\<lambda>n. (f src n, n)) (map_of m src)"
  by (induction m) auto

text \<open>The rates that a page gets for a source add up to what the source sent since the page was
  opened, while the store keeps the source's count.\<close>

theorem source_rates_add_up:
  assumes "\<forall>s\<in>set ss. map_of (st_source_counts s) src \<noteq> None" and "ss \<noteq> []"
  shows "sum_list (map (source_rate src) (stats_run ss x))
    = the (map_of (st_source_counts (last ss)) src) - unwrap_or (map_of (sx_sources x) src) 0"
  using assms
proof (induction ss arbitrary: x)
  case (Cons s ss)
  obtain n where n: "map_of (st_source_counts s) src = Some n" using Cons.prems(1) by auto
  have r: "source_rate src (fst (stats_tick s 0 0 x)) = n - unwrap_or (map_of (sx_sources x) src) 0"
    by (simp add: source_rate_def stats_tick_def map_of_providers n del: map_of_eq_Some_iff)
  show ?case
  proof (cases "ss = []")
    case False
    from Cons.IH [OF _ False, of "snd (stats_tick s 0 0 x)"] Cons.prems(1) n False r show ?thesis
      by (simp add: stats_tick_def del: map_of_eq_Some_iff)
  qed (use n r in \<open>simp del: map_of_eq_Some_iff\<close>)
qed simp

theorem source_rates_add_up_witness:
  "sum_list (map (source_rate ''gps'') (stats_run [(store_new [])\<lparr>st_source_counts := [(''gps'', 3)]\<rparr>,
     (store_new [])\<lparr>st_source_counts := [(''gps'', 10)]\<rparr>] \<lparr>sx_deltas = 0, sx_sources = [(''gps'', 2)]\<rparr>)) = 8"
  by (subst source_rates_add_up) simp_all

section \<open>The configuration file\<close>

text \<open>A file whose section on tokens lacks the validity, for which a default is documented, is not
  read at all: the server starts with the defaults and without the file's vessel and plugins.\<close>

theorem file_without_validity_is_ignored:
  assumes "\<forall>p. there p \<longrightarrow> tree p = Some (JObj m)" and "map_of m ''auth'' = Some (JObj a)"
    and "map_of a ''token_ttl_secs'' = None"
  shows "load_server_config there tree var secret = (server_config_default secret, seed_default)"
proof -
  have "auth_settings_of_json (JObj a) = None"
    using assms(3) by (simp add: auth_settings_of_json_def struct_field_def bind_eq_None_conv split: option.split)
  then have "server_config_of (map_of m) = None"
    using assms(2) by (simp add: server_config_of_def bind_eq_None_conv del: map_of_eq_Some_iff)
  then have "try_config there tree p = None" for p
    using assms(1) by (auto simp: try_config_def raw_config_of_json_def)
  then show ?thesis by (simp add: load_server_config_def map_filter_def)
qed


theorem file_without_validity_is_ignored_witness:
  "load_server_config (\<lambda>p. p = ''signalk-rs.toml'')
     (\<lambda>_. Some (json_obj [(''auth'', json_obj [(''admin_user'', JStr ''skipper'')])])) None ''s'' = (server_config_default ''s'', seed_default)"
proof -
  have j: "json_obj [(''auth'', json_obj [(''admin_user'', JStr ''skipper'')])]
      = JObj [(''auth'', JObj [(''admin_user'', JStr ''skipper'')])]"
    by (simp add: json_obj_def)
  show ?thesis
    unfolding j
    by (rule file_without_validity_is_ignored [where a = "[(''admin_user'', JStr ''skipper'')]" and m = "[(''auth'', JObj [(''admin_user'', JStr ''skipper'')])]"])
      simp_all
qed

end
