(* ===== verification/Spec2Isabelle.thy ===== *)
theory Spec2Isabelle
  imports StoreSpec WsSession Notifications ResourceSpec CourseSpec PilotSpec AisSpec DerivedSpec TracksSpec AnchorAlarm
    FullModelSpec UnitPrefsSpec RestApiSpec ApiV2Spec StoreTyping ConfigStoreSpec AdminSpec HistorySpec NmeaSpec BridgeSpec SimulatorSpec SystemInfoSpec ServerSpec
begin

text \<open>
  A model of signalk-rs, a Signal K server in Rust, and the theorems about it.

  The server keeps the data of a vessel in a store and distributes the changes. A delta (values of
  paths from a source) comes from a plugin that runs in the process, from the bridge process over the
  internal interface, or from a request. It passes the chain of delta input handlers, in which the
  notification manager is the first, and is applied to the store, which arbitrates between the
  sources of a path, keeps the values and broadcasts what it accepted. Connections, plugins, the
  course manager and the recording of history receive the broadcast. HTTP requests read the store as
  one JSON document, write through PUT handlers, and control resources, course, autopilots,
  notifications, units, configuration and plugins.

  Data and operations have the names of the sources under \<^verbatim>\<open>src/crates\<close> where that is
  possible; every definition that translates code is in the manifest with its lines. A theory
  \<^verbatim>\<open>X\<close> holds the model of a component, and \<^verbatim>\<open>XSpec\<close> the theorems about it when they
  are many.

  \<^bold>\<open>Foundations.\<close>
  \<^item> \<^verbatim>\<open>Prelude\<close>: strings, splitting and joining, ordered objects and hash maps as association
    lists, decimal numbers, and the collections of simplification and introduction rules that the
    proofs share.
  \<^item> \<^verbatim>\<open>F64\<close>, \<^verbatim>\<open>F64Error\<close>, \<^verbatim>\<open>Libm\<close>, \<^verbatim>\<open>Geo\<close>: IEEE doubles as rationals with rounding to
    nearest even, infinities, not-a-number and the negative zero, with bounds on the rounding; the
    functions of the mathematical library as parameters; distances and bearings
    (\<^verbatim>\<open>signalk-types/src/geo.rs\<close>).
  \<^item> \<^verbatim>\<open>Json\<close>, \<^verbatim>\<open>JsonText\<close>, \<^verbatim>\<open>Files\<close>: the values of \<^verbatim>\<open>serde_json\<close> with their accessors and
    decoders; a text form for examples; files as a map from paths, and replies of requests.
  \<^item> \<^verbatim>\<open>Paths\<close>, \<^verbatim>\<open>Types\<close>: \<^verbatim>\<open>signalk-types\<close>, the patterns of paths with their specification by
    segments, and the records and enums of the data model.

  \<^bold>\<open>Store and connections.\<close>
  \<^item> \<^verbatim>\<open>Store\<close> (\<^verbatim>\<open>signalk-store/src/store.rs\<close>): priorities, times to live, the values of all
    sources, metadata, broadcast. \<^verbatim>\<open>StoreSpec\<close>: what a client gets by replaying the broadcast is the
    store (a refinement), the arbitration between sources, and what expiry does to it.
    \<^verbatim>\<open>StoreTyping\<close>: the store stays well formed. \<^verbatim>\<open>StorePort\<close>: the locales through which other
    components use a store, interpreted on this one.
  \<^item> \<^verbatim>\<open>Subscription\<close>, \<^verbatim>\<open>WsSession\<close> (\<^verbatim>\<open>signalk-store/src/subscription.rs\<close>,
    \<^verbatim>\<open>signalk-server/src/ws/mod.rs\<close>): subscriptions, what they let through and how often.
  \<^item> \<^verbatim>\<open>FullModel\<close>, \<^verbatim>\<open>FullModelSpec\<close> (\<^verbatim>\<open>signalk-types/src/full.rs\<close>): the tree of the full model; what
    reading it back gives.

  \<^bold>\<open>Managers and requests of the server\<close> (\<^verbatim>\<open>signalk-server/src\<close>).
  \<^item> \<^verbatim>\<open>Notifications\<close> (\<^verbatim>\<open>notifications\<close>, \<^verbatim>\<open>api/v2/notifications.rs\<close>): the identities and
    statuses of alarms, silencing and acknowledging.
  \<^item> \<^verbatim>\<open>Resources\<close>, \<^verbatim>\<open>ResourceSpec\<close> (\<^verbatim>\<open>resources\<close>): the registry of providers and the provider of
    files, with a write as its steps on the disk.
  \<^item> \<^verbatim>\<open>Course\<close>, \<^verbatim>\<open>CourseSpec\<close> (\<^verbatim>\<open>course/manager.rs\<close>): destination, route, arrival, and NMEA as a
    second source; the course stays on its route, and survives a restart.
  \<^item> \<^verbatim>\<open>UnitPrefs\<close>, \<^verbatim>\<open>UnitPrefsSpec\<close> (\<^verbatim>\<open>unitpreferences\<close>): presets and categories on the disk.
  \<^item> \<^verbatim>\<open>RestApi\<close>, \<^verbatim>\<open>RestApiSpec\<close> (\<^verbatim>\<open>api/mod.rs\<close>): the model by URL, PUT requests, plugin routes, the
    data of applications; what is written is read, and writing stays in its directory.
  \<^item> \<^verbatim>\<open>ApiV2\<close>, \<^verbatim>\<open>ApiV2Spec\<close> (\<^verbatim>\<open>autopilot/manager.rs\<close>, \<^verbatim>\<open>api/v2\<close>): autopilots by device, course and
    resource requests with their deltas.
  \<^item> \<^verbatim>\<open>ConfigStore\<close>, \<^verbatim>\<open>ConfigStoreSpec\<close> (\<^verbatim>\<open>config_store.rs\<close>): the configuration as a table and a
    cache; the cache is always what loading the table gives.
  \<^item> \<^verbatim>\<open>PluginHost\<close>, \<^verbatim>\<open>Plugins\<close>, \<^verbatim>\<open>PluginsSpec\<close>, \<^verbatim>\<open>Admin\<close>, \<^verbatim>\<open>AdminSpec\<close> (\<^verbatim>\<open>plugins\<close>,
    \<^verbatim>\<open>webapps.rs\<close>, \<^verbatim>\<open>api/admin.rs\<close>): the context of a plugin, the life of plugins and what they own,
    the registry that the administration shows. A plugin is code over a state: the calls it makes.
  \<^item> \<^verbatim>\<open>History\<close>, \<^verbatim>\<open>HistoryQuery\<close>, \<^verbatim>\<open>HistorySpec\<close> (\<^verbatim>\<open>history\<close>): batches, daily summaries and pruning, the
    queries and their tables; every value is counted once while the writes come before their day is
    summarised.
  \<^item> \<^verbatim>\<open>Server\<close>, \<^verbatim>\<open>Startup\<close>, \<^verbatim>\<open>ServerSpec\<close> (\<^verbatim>\<open>config.rs\<close>, \<^verbatim>\<open>auth\<close>, \<^verbatim>\<open>api/tracks.rs\<close>,
    \<^verbatim>\<open>api/server_routes.rs\<close>, \<^verbatim>\<open>ws/admin_messages.rs\<close>, \<^verbatim>\<open>main.rs\<close>): the configuration file, tokens,
    the pages of the administration, and the start of the server, which puts the components together:
    what is enabled is started once, and what was disabled stays stopped.
  \<^item> \<^verbatim>\<open>Bridge\<close>, \<^verbatim>\<open>BridgeSpec\<close> (\<^verbatim>\<open>signalk-internal\<close>, \<^verbatim>\<open>signalk-plugin-client\<close>): the requests of the
    bridge with their token and the tasks they leave behind, the texts of the calls over a socket, and
    the client of standalone plugins.

  \<^bold>\<open>Plugins\<close> (\<^verbatim>\<open>plugins\<close>).
  \<^item> \<^verbatim>\<open>Pilot\<close>, \<^verbatim>\<open>PilotLoop\<close>, \<^verbatim>\<open>PilotSpec\<close> (\<^verbatim>\<open>autopilot\<close>): filter, controllers, gust and wave handling,
    the provider and one turn of the control loop; bounds of the rudder, and when it steers at all.
  \<^item> \<^verbatim>\<open>Ais\<close>, \<^verbatim>\<open>AisPlugin\<close>, \<^verbatim>\<open>AisSpec\<close> (\<^verbatim>\<open>ais-status\<close>): the life of a target, the closest approach, and the
    plugin in a loop with the store.
  \<^item> \<^verbatim>\<open>DerivedCalc\<close>, \<^verbatim>\<open>DerivedData\<close>, \<^verbatim>\<open>DerivedSpec\<close> (\<^verbatim>\<open>derived-data\<close>): the calculators and the rounds in
    which they feed each other; when the rounds settle, and that derived values agree.
  \<^item> \<^verbatim>\<open>AnchorAlarm\<close> (\<^verbatim>\<open>anchor-alarm\<close>); \<^verbatim>\<open>Tracks\<close>, \<^verbatim>\<open>TracksSpec\<close> (\<^verbatim>\<open>tracks\<close>): points, queries and the
    simplification of lines.
  \<^item> \<^verbatim>\<open>Nmea0183\<close>, \<^verbatim>\<open>Nmea2000\<close>, \<^verbatim>\<open>NmeaOutput\<close>, \<^verbatim>\<open>NmeaSpec\<close> (\<^verbatim>\<open>nmea0183-receive\<close>, \<^verbatim>\<open>nmea2000-receive\<close>,
    \<^verbatim>\<open>nmea0183-send\<close>, \<^verbatim>\<open>nmea2000-send\<close>): decoded messages to values and back to messages, the
    connections, and the claim of an address on the bus.
  \<^item> \<^verbatim>\<open>Simulator\<close>, \<^verbatim>\<open>SimulatorSpec\<close> (\<^verbatim>\<open>sensor-data-simulator\<close>); \<^verbatim>\<open>SystemInfo\<close>, \<^verbatim>\<open>SystemInfoSpec\<close>
    (\<^verbatim>\<open>system-info\<close>): generated values and their three outputs; the state of the machine.

  \<^bold>\<open>Conventions.\<close> A struct is a record, an enum a datatype, an integer of the source a word of its width
  (release builds wrap, and so do words) and an unbounded count a natural number, a date the
  nanoseconds of an integer. A failure is a value: \<open>Inl\<close> of an error, or \<open>None\<close>; where a panic or
  a loop without end is possible, \<open>None\<close> is that, and it is proved when the result is \<open>Some\<close>.
  Loops are structural recursions or have a termination proof; those of \<^verbatim>\<open>normalize_angle\<close> are
  partial functions that are shown to return for every angle up to \<open>2^52\<close>, and not to for a huge one.
  Five rounds of derivation are the limit in the source; four are shown to be enough while the
  calculators that feed themselves are off. Hash maps are lists in the order of their iteration,
  which nothing relies on unless it is said. A table of SQLite is the list of its rows. Tasks that run
  beside each other are steps that come in any order, in lists of requests or in the relations
  \<^verbatim>\<open>store_step\<close>, \<^verbatim>\<open>tracks_step\<close> and the like, over which invariants are shown.

  \<^bold>\<open>Parameters.\<close> What is not part of the repository is an argument of the definitions: the
  mathematical library, the text of numbers, dates and JSON values and their parsers, random
  identifiers and the clock, the parsers and encoders of NMEA and AIS messages, the date functions and
  averages of SQLite, the HTTP framework, the bridge process, the signing of tokens, the parser of the
  configuration file, the positions of sun and moon, and the files of the machine. What a theorem needs
  of them is a hypothesis by name (\<^verbatim>\<open>json_text_ok\<close>, \<^verbatim>\<open>cos_ok\<close>, \<^verbatim>\<open>jwt_ok\<close> and the like), and its witness
  gives an instance of it.

  \<^bold>\<open>Not modelled.\<close> The routing table of the HTTP framework (\<^verbatim>\<open>build_router\<close>), TLS and the sockets
  themselves; the wrapper and migrations of the database (\<^verbatim>\<open>signalk-sqlite\<close>), which are SQL run by
  SQLite; the transport traits of \<^verbatim>\<open>signalk-internal/src/transport.rs\<close>, which nothing implements; the
  generator of the configuration reference and the schemas, which are documentation; failures of
  the database, logging, and the times at which timers fire. The traits of
  \<^verbatim>\<open>signalk-plugin-api\<close> are modelled by what implements them in the server; its test doubles, the
  tests and the JavaScript of the bridge are left out.
\<close>

end
